(* ===== verification/Prelude.thy ===== *)
theory Prelude
  imports Main "HOL-Library.Word"
begin

text \<open>
  Shared vocabulary of the development: identifiers, the clock, Rust's \<open>Result\<close>, strings as
  UTF-8 bytes, JSON values, tables as lists of rows, and a database connection whose
  statements and transactions can fail and interleave with the commits of other connections.

  \<^item> \<open>and_then\<close> is the question-mark operator: it sequences two fallible steps over a state.
  \<^item> \<open>world\<close> is what a service sees of PostgreSQL: the tables, the commits that other
    connections make before each of its own statements or transactions (\<open>turns\<close>), the
    failures it meets (\<open>faults\<close>, one entry per statement sent, \<open>None\<close> for success) and the clock.
  \<^item> \<open>statement\<close>, \<open>on_pool\<close> and \<open>transaction\<close> execute SQL in it. A transaction whose body
    fails, or that is rolled back, leaves the tables as they were when it began.

  The \<open>preserves\<close> rules at the end carry every invariant proof of the services: an invariant
  that each statement keeps is kept by every composition of them, whatever fails.
\<close>

section \<open>Collections of facts\<close>

named_theorems preserves_intros \<open>rules that show a step keeps an invariant of the tables\<close>
named_theorems run_simps \<open>equations that execute statements and transactions\<close>

section \<open>Identifiers, time and results\<close>

type_synonym uuid = nat
type_synonym time = int       \<comment> \<open>microseconds, the resolution of \<open>timestamptz\<close>\<close>
type_synonym 'a result = "string + 'a"

definition secs :: "int \<Rightarrow> time" where
  "secs n = n * 1000000"

definition millis :: "int \<Rightarrow> time" where
  "millis n = n * 1000"

definition i64_max :: int where
  "i64_max = 9223372036854775807"

definition and_then ::
  "('e + 'a) \<times> 's \<Rightarrow> ('a \<Rightarrow> 's \<Rightarrow> ('e + 'b) \<times> 's) \<Rightarrow> ('e + 'b) \<times> 's" where
  "and_then p f = (case p of (Inl e, s) \<Rightarrow> (Inl e, s) | (Inr x, s) \<Rightarrow> f x s)"

definition require :: "bool \<Rightarrow> 'e \<Rightarrow> 's \<Rightarrow> ('e + unit) \<times> 's" where
  "require b e s = (if b then Inr () else Inl e, s)"

lemma and_then_simps [simp]:
  "and_then (Inl e, s) f = (Inl e, s)"
  "and_then (Inr x, s) f = f x s"
  by (simp_all add: and_then_def)

lemma and_then_Inr_cases:
  assumes "and_then p f = (Inr y, s')"
  obtains x s where "p = (Inr x, s)" "f x s = (Inr y, s')"
  using assms by (cases p; cases "fst p") (auto simp: and_then_def)

lemma require_simps [simp]:
  "require True e s = (Inr (), s)"
  "require False e s = (Inl e, s)"
  "snd (require b e s) = s"
  by (simp_all add: require_def)

lemma secs_mono [simp]:
  "secs a \<le> secs b \<longleftrightarrow> a \<le> b"
  "secs a < secs b \<longleftrightarrow> a < b"
  "0 \<le> secs a \<longleftrightarrow> 0 \<le> a"
  "0 < secs a \<longleftrightarrow> 0 < a"
  by (auto simp: secs_def)

lemma secs_add: "secs (a + b) = secs a + secs b"
  by (simp add: secs_def algebra_simps)

section \<open>Strings\<close>

text \<open>A Rust string is its UTF-8 bytes. A byte of the form 10xxxxxx continues a character, so
  \<open>chars().take(n)\<close> stops in front of the first byte that would start character \<open>n + 1\<close>.\<close>

definition utf8_continuation :: "char \<Rightarrow> bool" where
  "utf8_continuation c \<longleftrightarrow> 128 \<le> (of_char c :: nat) \<and> (of_char c :: nat) < 192"

fun take_chars :: "nat \<Rightarrow> string \<Rightarrow> string" where
  "take_chars n [] = []"
| "take_chars n (c # cs) =
     (if utf8_continuation c then c # take_chars n cs
      else case n of 0 \<Rightarrow> [] | Suc m \<Rightarrow> c # take_chars m cs)"

definition char_count :: "string \<Rightarrow> nat" where
  "char_count s = length (filter (\<lambda>c. \<not> utf8_continuation c) s)"

lemma char_count_take_chars: "char_count (take_chars n s) \<le> n"
  by (induction n s rule: take_chars.induct)
     (auto simp: char_count_def split: nat.splits)

lemma take_chars_prefix: "\<exists>rest. s = take_chars n s @ rest"
  by (induction n s rule: take_chars.induct) (auto split: nat.splits)

lemma take_chars_short: "char_count s \<le> n \<Longrightarrow> take_chars n s = s"
  by (induction n s rule: take_chars.induct)
     (auto simp: char_count_def split: nat.splits if_splits)

fun show_nat :: "nat \<Rightarrow> string" where
  "show_nat n =
     (if n < 10 then [char_of (n + 48)] else show_nat (n div 10) @ [char_of (n mod 10 + 48)])"

declare show_nat.simps [simp del]

definition show_int :: "int \<Rightarrow> string" where
  "show_int i = (if i < 0 then ''-'' @ show_nat (nat (- i)) else show_nat (nat i))"

definition show_opt_int :: "int option \<Rightarrow> string" where
  "show_opt_int x = (case x of None \<Rightarrow> ''None'' | Some i \<Rightarrow> ''Some('' @ show_int i @ '')'')"

text \<open>The hyphenated lower-case form of a UUID: 32 hexadecimal digits in groups 8-4-4-4-12.\<close>

definition hex_digit :: "nat \<Rightarrow> char" where
  "hex_digit d = char_of (if d < 10 then d + 48 else d + 87)"

primrec hex_digits :: "nat \<Rightarrow> nat \<Rightarrow> string" where
  "hex_digits 0 n = []"
| "hex_digits (Suc k) n = hex_digits k (n div 16) @ [hex_digit (n mod 16)]"

definition uuid_text :: "uuid \<Rightarrow> string" where
  "uuid_text u = (let h = hex_digits 32 u in
     take 8 h @ ''-'' @ take 4 (drop 8 h) @ ''-'' @ take 4 (drop 12 h) @ ''-''
     @ take 4 (drop 16 h) @ ''-'' @ drop 20 h)"

section \<open>JSON\<close>

text \<open>
  \<open>serde_json::Value\<close>. An object is the list of its members. Two leaves are kept typed:
  \<open>JTime\<close> is a timestamp in the string form chrono gives it, and \<open>JFloat\<close> is a number that is
  not an integer, by its text.
\<close>

datatype json =
    JNull
  | JBool bool
  | JInt int
  | JFloat string
  | JStr string
  | JTime time
  | JArr "json list"
  | JObj "(string \<times> json) list"

fun json_get :: "string \<Rightarrow> json \<Rightarrow> json option" where
  "json_get k (JObj ms) = map_of ms k"
| "json_get k _ = None"

fun json_pointer :: "string list \<Rightarrow> json \<Rightarrow> json option" where
  "json_pointer [] v = Some v"
| "json_pointer (k # ks) v = (case json_get k v of None \<Rightarrow> None | Some v' \<Rightarrow> json_pointer ks v')"

fun json_str :: "json \<Rightarrow> string option" where
  "json_str (JStr s) = Some s"
| "json_str _ = None"

fun json_i64 :: "json \<Rightarrow> int option" where
  "json_i64 (JInt i) = (if - i64_max - 1 \<le> i \<and> i \<le> i64_max then Some i else None)"
| "json_i64 _ = None"

fun json_u64 :: "json \<Rightarrow> int option" where
  "json_u64 (JInt i) = (if 0 \<le> i \<and> i \<le> 18446744073709551615 then Some i else None)"
| "json_u64 _ = None"

fun json_time :: "json \<Rightarrow> time option" where
  "json_time (JTime t) = Some t"
| "json_time _ = None"

definition json_opt :: "('a \<Rightarrow> json) \<Rightarrow> 'a option \<Rightarrow> json" where
  "json_opt f x = (case x of None \<Rightarrow> JNull | Some a \<Rightarrow> f a)"

definition json_uuid :: "uuid \<Rightarrow> json" where
  "json_uuid u = JStr (uuid_text u)"

section \<open>Tables\<close>

text \<open>A table is the list of its rows. \<open>UPDATE ... WHERE\<close> changes the rows that satisfy the
  condition; its row count is the number of those rows.\<close>

definition update_where :: "('r \<Rightarrow> bool) \<Rightarrow> ('r \<Rightarrow> 'r) \<Rightarrow> 'r list \<Rightarrow> 'r list" where
  "update_where P f rows = map (\<lambda>r. if P r then f r else r) rows"

definition rows_affected :: "('r \<Rightarrow> bool) \<Rightarrow> 'r list \<Rightarrow> nat" where
  "rows_affected P rows = length (filter P rows)"

text \<open>\<open>ORDER BY key LIMIT 1\<close> over the rows that satisfy a condition.\<close>

definition first_by :: "('r \<Rightarrow> 'k::linorder) \<Rightarrow> ('r \<Rightarrow> bool) \<Rightarrow> 'r list \<Rightarrow> 'r option" where
  "first_by key P rows =
     (case sort_key key (filter P rows) of [] \<Rightarrow> None | r # _ \<Rightarrow> Some r)"

text \<open>\<open>MIN(...)\<close> and the least of several optional instants: \<open>None\<close> when there is none.\<close>

definition min_list_opt :: "time list \<Rightarrow> time option" where
  "min_list_opt ts = (case ts of [] \<Rightarrow> None | t # us \<Rightarrow> Some (fold min us t))"

definition opt_list :: "'a option list \<Rightarrow> 'a list" where
  "opt_list xs = List.map_filter (\<lambda>x. x) xs"

lemma update_where_simps [simp]:
  "update_where P f [] = []"
  "update_where P f (r # rs) = (if P r then f r else r) # update_where P f rs"
  "length (update_where P f rs) = length rs"
  by (simp_all add: update_where_def)

lemma set_update_where:
  "set (update_where P f rs) = f ` {r \<in> set rs. P r} \<union> {r \<in> set rs. \<not> P r}"
  by (auto simp: update_where_def)

lemma update_where_none: "rows_affected P rs = 0 \<Longrightarrow> update_where P f rs = rs"
  by (induction rs) (auto simp: rows_affected_def)

lemma rows_affected_pos: "0 < rows_affected P rs \<longleftrightarrow> (\<exists>r \<in> set rs. P r)"
  by (auto simp: rows_affected_def filter_empty_conv)

lemma rows_affected_0: "rows_affected P rs = 0 \<longleftrightarrow> (\<forall>r \<in> set rs. \<not> P r)"
  by (auto simp: rows_affected_def filter_empty_conv)

lemma map_update_where:
  "(\<And>r. r \<in> set rs \<Longrightarrow> P r \<Longrightarrow> g (f r) = g r) \<Longrightarrow> map g (update_where P f rs) = map g rs"
  by (induction rs) auto

lemma distinct_map_eq:
  "distinct (map f xs) \<Longrightarrow> x \<in> set xs \<Longrightarrow> y \<in> set xs \<Longrightarrow> f x = f y \<Longrightarrow> x = y"
  by (auto simp: distinct_map dest: inj_onD)

lemma find_none: "(\<And>x. x \<in> set xs \<Longrightarrow> \<not> P x) \<Longrightarrow> List.find P xs = None"
  by (auto simp: find_None_iff)

lemma find_mem: "List.find P xs = Some x \<Longrightarrow> x \<in> set xs \<and> P x"
  by (auto simp: find_Some_iff)

lemma find_the:
  "distinct (map f xs) \<Longrightarrow> x \<in> set xs \<Longrightarrow> f x = k \<Longrightarrow> List.find (\<lambda>y. f y = k) xs = Some x"
  by (induction xs) auto

lemma first_by_Some:
  assumes "first_by key P rows = Some r"
  shows "r \<in> set rows \<and> P r \<and> (\<forall>x \<in> set rows. P x \<longrightarrow> key r \<le> key x)"
proof -
  from assms obtain rest where s: "sort_key key (filter P rows) = r # rest"
    by (auto simp: first_by_def split: list.splits)
  have "sorted (map key (r # rest))"
    by (metis s sorted_sort_key)
  then have "\<forall>x \<in> set (r # rest). key r \<le> key x" by auto
  moreover have st: "set (r # rest) = {x \<in> set rows. P x}"
    by (metis s set_sort set_filter)
  moreover have "r \<in> set (r # rest)" by simp
  ultimately show ?thesis by blast
qed

lemma first_by_None: "first_by key P rows = None \<longleftrightarrow> (\<forall>x \<in> set rows. \<not> P x)"
proof -
  have "first_by key P rows = None \<longleftrightarrow> length (sort_key key (filter P rows)) = 0"
    by (auto simp: first_by_def simp del: length_sort split: list.splits)
  also have "\<dots> \<longleftrightarrow> (\<forall>x \<in> set rows. \<not> P x)"
    by (simp add: filter_empty_conv)
  finally show ?thesis .
qed

lemma fold_min_le: "fold min us (t::time) \<le> t \<and> (\<forall>u \<in> set us. fold min us t \<le> u)"
proof (induction us arbitrary: t)
  case Nil
  then show ?case by simp
next
  case (Cons a us)
  from Cons.IH [of "min a t"] show ?case by auto
qed

lemma min_list_opt_le: "min_list_opt ts = Some m \<Longrightarrow> \<forall>t \<in> set ts. m \<le> t"
  using fold_min_le by (auto simp: min_list_opt_def split: list.splits)

lemma min_list_opt_None: "min_list_opt ts = None \<longleftrightarrow> ts = []"
  by (auto simp: min_list_opt_def split: list.splits)

lemma set_opt_list [simp]: "set (opt_list xs) = {x. Some x \<in> set xs}"
  by (induction xs) (auto simp: opt_list_def map_filter_def split: option.splits)

lemma min_list_opt_below: "t \<in> set ts \<Longrightarrow> \<exists>m. min_list_opt ts = Some m \<and> m \<le> t"
  using min_list_opt_le [of ts] min_list_opt_None [of ts]
  by (cases "min_list_opt ts") auto

section \<open>A database connection\<close>

record 'db world =
  db :: 'db
  turns :: "('db \<Rightarrow> 'db) list"
  faults :: "string option list"
  clock :: time

text \<open>Sending one statement: a failure is reported, and then the statement has not happened.\<close>

definition send :: "('db, 'm) world_scheme \<Rightarrow> unit result \<times> ('db, 'm) world_scheme" where
  "send w =
     (case faults w of
        [] \<Rightarrow> (Inr (), w)
      | None # fs \<Rightarrow> (Inr (), w\<lparr>faults := fs\<rparr>)
      | Some e # fs \<Rightarrow> (Inl e, w\<lparr>faults := fs\<rparr>))"

definition statement ::
  "('db \<Rightarrow> 'a \<times> 'db) \<Rightarrow> ('db, 'm) world_scheme \<Rightarrow> 'a result \<times> ('db, 'm) world_scheme" where
  "statement q w =
     and_then (send w) (\<lambda>_ w'. (Inr (fst (q (db w'))), w'\<lparr>db := snd (q (db w'))\<rparr>))"

text \<open>The commits of other connections that come before our next statement or transaction.\<close>

definition interleave :: "('db, 'm) world_scheme \<Rightarrow> ('db, 'm) world_scheme" where
  "interleave w = (case turns w of [] \<Rightarrow> w | g # gs \<Rightarrow> w\<lparr>db := g (db w), turns := gs\<rparr>)"

text \<open>A statement executed on the pool is a transaction of its own.\<close>

definition on_pool ::
  "('db \<Rightarrow> 'a \<times> 'db) \<Rightarrow> ('db, 'm) world_scheme \<Rightarrow> 'a result \<times> ('db, 'm) world_scheme" where
  "on_pool q w = statement q (interleave w)"

text \<open>
  A transaction. Its body receives the value of \<open>now()\<close>, which PostgreSQL fixes when the
  transaction begins, and ends with \<open>commit\<close> or \<open>rollback\<close>. A body that fails drops the
  transaction, which rolls it back. Rows the body reads \<open>FOR UPDATE\<close> cannot change under it,
  so the other connections' commits are placed before its first statement.
\<close>

datatype 'a outcome = Commit 'a | Rollback 'a

definition transaction ::
  "(time \<Rightarrow> ('db, 'm) world_scheme \<Rightarrow> 'a outcome result \<times> ('db, 'm) world_scheme)
   \<Rightarrow> ('db, 'm) world_scheme \<Rightarrow> 'a result \<times> ('db, 'm) world_scheme" where
  "transaction body w =
     and_then (send (interleave w)) (\<lambda>_ w1.
       (case body (clock w1) w1 of
          (Inl e, w2) \<Rightarrow> (Inl e, w2\<lparr>db := db w1\<rparr>)
        | (Inr (Rollback x), w2) \<Rightarrow>
            (case send w2 of
               (Inl e, w3) \<Rightarrow> (Inl e, w3\<lparr>db := db w1\<rparr>)
             | (Inr _, w3) \<Rightarrow> (Inr x, w3\<lparr>db := db w1\<rparr>))
        | (Inr (Commit x), w2) \<Rightarrow>
            (case send w2 of
               (Inl e, w3) \<Rightarrow> (Inl e, w3\<lparr>db := db w1\<rparr>)
             | (Inr _, w3) \<Rightarrow> (Inr x, w3))))"

text \<open>A connection with no failure and no interleaving ahead: statements just execute.\<close>

definition quiet :: "('db, 'm) world_scheme \<Rightarrow> bool" where
  "quiet w \<longleftrightarrow> turns w = [] \<and> faults w = []"

lemma quiet_simps [run_simps]:
  assumes "turns w = []" "faults w = []"
  shows "interleave w = w"
    "send w = (Inr (), w)"
    "statement q w = (Inr (fst (q (db w))), w\<lparr>db := snd (q (db w))\<rparr>)"
    "on_pool q w = (Inr (fst (q (db w))), w\<lparr>db := snd (q (db w))\<rparr>)"
  using assms by (simp_all add: interleave_def send_def statement_def on_pool_def)

lemma quiet_transaction [run_simps]:
  assumes "turns w = []" "faults w = []" "faults (snd (body (clock w) w)) = []"
  shows "transaction body w =
     (case body (clock w) w of
        (Inl e, w') \<Rightarrow> (Inl e, w'\<lparr>db := db w\<rparr>)
      | (Inr (Rollback x), w') \<Rightarrow> (Inr x, w'\<lparr>db := db w\<rparr>)
      | (Inr (Commit x), w') \<Rightarrow> (Inr x, w'))"
  using assms
  by (cases "body (clock w) w")
     (auto simp: transaction_def interleave_def send_def split: sum.splits outcome.splits)

section \<open>Keeping an invariant\<close>

text \<open>
  \<open>keeps I m\<close>: the step \<open>m\<close>, executed inside a transaction, leads from tables that satisfy \<open>I\<close>
  to tables that satisfy \<open>I\<close>, whatever it returns. \<open>preserves I m\<close>: the same for steps between
  which other connections commit, when these commits keep \<open>I\<close> too.
\<close>

definition keeps ::
  "('db \<Rightarrow> bool) \<Rightarrow> (('db, 'm) world_scheme \<Rightarrow> 'a \<times> ('db, 'm) world_scheme) \<Rightarrow> bool" where
  "keeps I m \<longleftrightarrow> (\<forall>w. I (db w) \<longrightarrow> I (db (snd (m w))) \<and> turns (snd (m w)) = turns w)"

definition turns_keep :: "('db \<Rightarrow> bool) \<Rightarrow> ('db, 'm) world_scheme \<Rightarrow> bool" where
  "turns_keep I w \<longleftrightarrow> (\<forall>g \<in> set (turns w). \<forall>d. I d \<longrightarrow> I (g d))"

definition safe :: "('db \<Rightarrow> bool) \<Rightarrow> ('db, 'm) world_scheme \<Rightarrow> bool" where
  "safe I w \<longleftrightarrow> I (db w) \<and> turns_keep I w"

definition preserves ::
  "('db \<Rightarrow> bool) \<Rightarrow> (('db, 'm) world_scheme \<Rightarrow> 'a \<times> ('db, 'm) world_scheme) \<Rightarrow> bool" where
  "preserves I m \<longleftrightarrow> (\<forall>w. safe I w \<longrightarrow> safe I (snd (m w)))"

lemma keepsI:
  "(\<And>w r w'. I (db w) \<Longrightarrow> m w = (r, w') \<Longrightarrow> I (db w') \<and> turns w' = turns w) \<Longrightarrow> keeps I m"
  by (auto simp: keeps_def) (metis prod.collapse)+

lemma keepsD:
  "keeps I m \<Longrightarrow> I (db w) \<Longrightarrow> m w = (r, w') \<Longrightarrow> I (db w') \<and> turns w' = turns w"
  by (auto simp: keeps_def dest!: spec [of _ w])

lemma preservesI: "(\<And>w. safe I w \<Longrightarrow> safe I (snd (m w))) \<Longrightarrow> preserves I m"
  by (simp add: preserves_def)

lemma preservesD: "preserves I m \<Longrightarrow> safe I w \<Longrightarrow> safe I (snd (m w))"
  by (simp add: preserves_def)

lemma keeps_preserves: "keeps I m \<Longrightarrow> preserves I m"
  by (auto simp: keeps_def preserves_def safe_def turns_keep_def)

lemma send_frame: "db (snd (send w)) = db w \<and> turns (snd (send w)) = turns w"
  by (auto simp: send_def split: list.splits option.splits)

lemma send_faults: "\<exists>fs. snd (send w) = w\<lparr>faults := fs\<rparr>"
proof (cases "faults w")
  case Nil
  then have "snd (send w) = w\<lparr>faults := []\<rparr>" by (simp add: send_def)
  then show ?thesis ..
next
  case (Cons f fs)
  then have "snd (send w) = w\<lparr>faults := fs\<rparr>" by (simp add: send_def split: option.splits)
  then show ?thesis ..
qed

lemma statement_result:
  assumes "statement q w = (r, w')"
  shows "turns w' = turns w \<and>
    ((\<exists>e. r = Inl e \<and> db w' = db w) \<or> (r = Inr (fst (q (db w))) \<and> db w' = snd (q (db w))))"
proof -
  obtain u w1 where s: "send w = (u, w1)" by fastforce
  then have "db w1 = db w \<and> turns w1 = turns w" using send_frame [of w] by simp
  with assms s show ?thesis by (cases u) (auto simp: statement_def)
qed

lemma statement_returned:
  assumes "statement q w = (Inr x, w')"
  obtains fs where "x = fst (q (db w))" and "w' = w\<lparr>faults := fs, db := snd (q (db w))\<rparr>"
proof -
  obtain u w1 where s: "send w = (u, w1)" by fastforce
  with send_faults [of w] obtain fs where "w1 = w\<lparr>faults := fs\<rparr>" by auto
  with assms s that [of fs] show ?thesis by (cases u) (auto simp: statement_def)
qed

lemma require_returned: "require b e w = (Inr x, w') \<longleftrightarrow> b \<and> w' = w"
  by (auto simp: require_def)

lemma keeps_statement [preserves_intros]:
  assumes "\<And>d. I d \<Longrightarrow> I (snd (q d))"
  shows "keeps I (statement q)"
proof (rule keepsI)
  fix w :: "('a, 'c) world_scheme" and r w'
  assume "I (db w)" and "statement q w = (r, w')"
  with assms show "I (db w') \<and> turns w' = turns w"
    by (auto dest!: statement_result)
qed

lemma keeps_return [preserves_intros]: "keeps I (\<lambda>w. (r, w))"
  by (simp add: keeps_def)

lemma keeps_require [preserves_intros]: "keeps I (require b e)"
  by (simp add: keeps_def)

lemma keeps_if [preserves_intros]:
  "(b \<Longrightarrow> keeps I m) \<Longrightarrow> (\<not> b \<Longrightarrow> keeps I n) \<Longrightarrow> keeps I (\<lambda>w. if b then m w else n w)"
  by (simp add: keeps_def)

lemma keeps_option [preserves_intros]:
  "(x = None \<Longrightarrow> keeps I m) \<Longrightarrow> (\<And>y. x = Some y \<Longrightarrow> keeps I (n y)) \<Longrightarrow>
     keeps I (\<lambda>w. case x of None \<Rightarrow> m w | Some y \<Rightarrow> n y w)"
  by (cases x) simp_all

lemma keeps_if_clock [preserves_intros]:
  "keeps I m \<Longrightarrow> keeps I n \<Longrightarrow> keeps I (\<lambda>w. if b (clock w) then m w else n w)"
  by (simp add: keeps_def)

lemma keeps_diagonal: "(\<And>v. keeps I (m v)) \<Longrightarrow> keeps I (\<lambda>w. m w w)"
  by (simp add: keeps_def)

lemma keeps_statement_at [preserves_intros]:
  assumes "\<And>w d. I d \<Longrightarrow> I (snd (q w d))"
  shows "keeps I (\<lambda>w. statement (q w) w)"
  by (rule keeps_diagonal, rule keeps_statement, rule assms)

text \<open>What a step that succeeds establishes is known to the rest.\<close>

lemma keeps_flow:
  assumes m: "\<And>w r w'. I (db w) \<Longrightarrow> m w = (r, w') \<Longrightarrow>
      turns w' = turns w \<and> I (db w') \<and> (\<forall>x. r = Inr x \<longrightarrow> J x (db w'))"
    and f: "\<And>x. keeps (\<lambda>d. I d \<and> J x d) (f x)"
  shows "keeps I (\<lambda>w. and_then (m w) f)"
proof (rule keepsI)
  fix w :: "('a, 'b) world_scheme" and r w'
  assume w: "I (db w)" and run: "and_then (m w) f = (r, w')"
  obtain u w1 where mw: "m w = (u, w1)" by fastforce
  from m [OF w mw] have w1: "turns w1 = turns w" "I (db w1)" "\<And>x. u = Inr x \<Longrightarrow> J x (db w1)"
    by auto
  show "I (db w') \<and> turns w' = turns w"
  proof (cases u)
    case (Inl e)
    with run mw w1 show ?thesis by simp
  next
    case (Inr x)
    with run mw have "f x w1 = (r, w')" by simp
    with f [of x] w1 Inr show ?thesis by (auto dest: keepsD)
  qed
qed

text \<open>A step of a transaction from tables that satisfy \<open>P\<close> to tables that satisfy \<open>Q\<close>.\<close>

definition leads ::
  "('db \<Rightarrow> bool) \<Rightarrow> ('db \<Rightarrow> bool) \<Rightarrow> (('db, 'm) world_scheme \<Rightarrow> 'a \<times> ('db, 'm) world_scheme) \<Rightarrow> bool" where
  "leads P Q m \<longleftrightarrow> (\<forall>w. P (db w) \<longrightarrow> Q (db (snd (m w))) \<and> turns (snd (m w)) = turns w)"

lemma leads_keeps: "leads I I m = keeps I m"
  by (simp add: leads_def keeps_def)

lemma leads_from: "keeps Q m \<Longrightarrow> (\<And>d. P d \<Longrightarrow> Q d) \<Longrightarrow> leads P Q m"
  by (simp add: leads_def keeps_def)

lemma leads_return: "(\<And>d. P d \<Longrightarrow> Q d) \<Longrightarrow> leads P Q (\<lambda>w. (r, w))"
  by (simp add: leads_def)

lemma leads_if:
  "(b \<Longrightarrow> leads P Q m) \<Longrightarrow> (\<not> b \<Longrightarrow> leads P Q n) \<Longrightarrow> leads P Q (\<lambda>w. if b then m w else n w)"
  by (simp add: leads_def)

lemma leads_option:
  "(x = None \<Longrightarrow> leads P Q m) \<Longrightarrow> (\<And>y. x = Some y \<Longrightarrow> leads P Q (n y)) \<Longrightarrow>
     leads P Q (\<lambda>w. case x of None \<Rightarrow> m w | Some y \<Rightarrow> n y w)"
  by (cases x) simp_all

lemma leads_statement_then:
  assumes "\<And>d. P d \<Longrightarrow> Q d" and "\<And>d. P d \<Longrightarrow> J (fst (q d)) (snd (q d))"
    and f: "\<And>x. leads (J x) Q (f x)"
  shows "leads P Q (\<lambda>w. and_then (statement q w) f)"
  unfolding leads_def
proof (intro allI impI)
  fix w :: "('a, 'c) world_scheme"
  assume P: "P (db w)"
  obtain r w1 where s: "statement q w = (r, w1)" by fastforce
  from statement_result [OF s] have t: "turns w1 = turns w" and
    "(\<exists>e. r = Inl e \<and> db w1 = db w) \<or> (r = Inr (fst (q (db w))) \<and> db w1 = snd (q (db w)))"
    by auto
  then show "Q (db (snd (and_then (statement q w) f))) \<and> turns (snd (and_then (statement q w) f)) = turns w"
    using assms(1,2) [OF P] f [of "fst (q (db w))"] by (auto simp: s leads_def)
qed

lemma keeps_and_then [preserves_intros]:
  assumes "keeps I m" and "\<And>x. keeps I (f x)"
  shows "keeps I (\<lambda>w. and_then (m w) f)"
proof (rule keeps_flow [where J = "\<lambda>_ _. True"])
  show "turns w' = turns w \<and> I (db w') \<and> (\<forall>x. r = Inr x \<longrightarrow> True)"
    if "I (db w)" "m w = (r, w')" for w r w'
    using keepsD [OF assms(1) that] by simp
qed (simp add: assms(2))

lemma safe_interleave: "safe I w \<Longrightarrow> safe I (interleave w)"
  by (auto simp: safe_def turns_keep_def interleave_def split: list.splits)

lemma preserves_on_pool [preserves_intros]:
  assumes "\<And>d. I d \<Longrightarrow> I (snd (q d))"
  shows "preserves I (on_pool q)"
proof (rule preservesI)
  fix w :: "('a, 'c) world_scheme"
  assume "safe I w"
  then have i: "safe I (interleave w)" by (rule safe_interleave)
  obtain r w' where s: "statement q (interleave w) = (r, w')" by fastforce
  from i statement_result [OF s] assms show "safe I (snd (on_pool q w))"
    by (auto simp: on_pool_def s safe_def turns_keep_def)
qed

lemma preserves_and_then [preserves_intros]:
  assumes "preserves I m" and "\<And>x. preserves I (f x)"
  shows "preserves I (\<lambda>w. and_then (m w) f)"
proof (rule preservesI)
  fix w :: "('a, 'b) world_scheme"
  assume "safe I w"
  with assms(1) have "safe I (snd (m w))" by (rule preservesD)
  with assms(2) show "safe I (snd (and_then (m w) f))"
    by (cases "m w"; cases "fst (m w)") (auto simp: and_then_def preserves_def)
qed

lemma preserves_return [preserves_intros]: "preserves I (\<lambda>w. (r, w))"
  by (simp add: preserves_def)

lemma preserves_require [preserves_intros]: "preserves I (require b e)"
  by (simp add: preserves_def)

lemma preserves_if [preserves_intros]:
  "(b \<Longrightarrow> preserves I m) \<Longrightarrow> (\<not> b \<Longrightarrow> preserves I n) \<Longrightarrow> preserves I (\<lambda>w. if b then m w else n w)"
  by (simp add: preserves_def)

lemma preserves_option [preserves_intros]:
  "(x = None \<Longrightarrow> preserves I m) \<Longrightarrow> (\<And>y. x = Some y \<Longrightarrow> preserves I (n y)) \<Longrightarrow>
     preserves I (\<lambda>w. case x of None \<Rightarrow> m w | Some y \<Rightarrow> n y w)"
  by (cases x) simp_all

lemma preserves_diagonal: "(\<And>v. preserves I (m v)) \<Longrightarrow> preserves I (\<lambda>w. m w w)"
  by (simp add: preserves_def)

lemma preserves_on_pool_at [preserves_intros]:
  assumes "\<And>w d. I d \<Longrightarrow> I (snd (q w d))"
  shows "preserves I (\<lambda>w. on_pool (q w) w)"
  by (rule preserves_diagonal, rule preserves_on_pool, rule assms)

lemma preserves_snd: "preserves I m \<Longrightarrow> (\<And>w. snd (n w) = snd (m w)) \<Longrightarrow> preserves I n"
  by (simp add: preserves_def)

text \<open>
  \<open>atomic I m\<close>: the step \<open>m\<close> sees one state of the tables, after one batch of other connections'
  commits; from tables that satisfy \<open>I\<close> there it ends in tables that satisfy \<open>I\<close>. A transaction
  is such a step: it ends in tables its body leads to, or in those it began with.
\<close>

definition atomic ::
  "('db \<Rightarrow> bool) \<Rightarrow> (('db, 'm) world_scheme \<Rightarrow> 'a \<times> ('db, 'm) world_scheme) \<Rightarrow> bool" where
  "atomic I m \<longleftrightarrow> (\<forall>w. I (db (interleave w)) \<longrightarrow>
     I (db (snd (m w))) \<and> turns (snd (m w)) = turns (interleave w))"

lemma atomicD:
  "atomic I m \<Longrightarrow> I (db (interleave w)) \<Longrightarrow>
     I (db (snd (m w))) \<and> turns (snd (m w)) = turns (interleave w)"
  by (simp add: atomic_def)

lemma atomic_preserves:
  assumes "atomic I m"
  shows "preserves I m"
proof (rule preservesI)
  fix w :: "('a, 'b) world_scheme"
  assume "safe I w"
  then have i: "safe I (interleave w)" by (rule safe_interleave)
  with atomicD [OF assms, of w] show "safe I (snd (m w))"
    by (simp add: safe_def turns_keep_def)
qed

lemma atomic_transaction [preserves_intros]:
  assumes body: "\<And>now. keeps I (body now)"
  shows "atomic I (transaction body)"
  unfolding atomic_def
proof (intro allI impI)
  fix w :: "('a, 'b) world_scheme"
  assume I: "I (db (interleave w))"
  obtain u w1 where s: "send (interleave w) = (u, w1)" by fastforce
  then have w1: "db w1 = db (interleave w)" "turns w1 = turns (interleave w)"
    using send_frame [of "interleave w"] by auto
  obtain r2 w2 where b: "body (clock w1) w1 = (r2, w2)" by fastforce
  have w2: "I (db w2)" "turns w2 = turns w1" using keepsD [OF body _ b] w1 I by auto
  obtain r3 w3 where c: "send w2 = (r3, w3)" by fastforce
  then have w3: "db w3 = db w2" "turns w3 = turns w2" using send_frame [of w2] by auto
  show "I (db (snd (transaction body w))) \<and>
      turns (snd (transaction body w)) = turns (interleave w)"
    using w1 w2 w3 I
    by (auto simp: transaction_def s b c and_then_def split: sum.splits outcome.splits)
qed

lemma preserves_transaction [preserves_intros]:
  "(\<And>now. keeps I (body now)) \<Longrightarrow> preserves I (transaction body)"
  by (rule atomic_preserves, rule atomic_transaction)

text \<open>A transaction that returns a value has executed its body, and committed or rolled back.\<close>

lemma transaction_returned:
  assumes "transaction body w = (Inr x, w')"
  obtains fs r w2 fs' where
    "body (clock (interleave w)) (interleave w\<lparr>faults := fs\<rparr>) = (Inr r, w2)"
    and "(r = Commit x \<and> w' = w2\<lparr>faults := fs'\<rparr>) \<or>
         (r = Rollback x \<and> w' = w2\<lparr>faults := fs', db := db (interleave w)\<rparr>)"
proof -
  obtain u w1 where s: "send (interleave w) = (u, w1)" by fastforce
  with send_faults [of "interleave w"] obtain fs where w1: "w1 = interleave w\<lparr>faults := fs\<rparr>" by auto
  obtain r2 w2 where b: "body (clock w1) w1 = (r2, w2)" by fastforce
  obtain u3 w3 where c: "send w2 = (u3, w3)" by fastforce
  with send_faults [of w2] obtain fs' where w3: "w3 = w2\<lparr>faults := fs'\<rparr>" by auto
  from assms s b c w1 w3 obtain r where "r2 = Inr r"
    and "(r = Commit x \<and> w' = w2\<lparr>faults := fs'\<rparr>) \<or>
         (r = Rollback x \<and> w' = w2\<lparr>faults := fs', db := db (interleave w)\<rparr>)"
    by (auto simp: transaction_def and_then_def split: sum.splits outcome.splits)
  with b w1 show ?thesis by (intro that) auto
qed

text \<open>A transaction that returns an error has changed no table.\<close>

lemma transaction_error:
  assumes "transaction body w = (Inl e, w')"
  shows "db w' = db (interleave w)"
proof -
  obtain u w1 where s: "send (interleave w) = (u, w1)" by fastforce
  then have w1: "db w1 = db (interleave w)"
    using send_frame [of "interleave w"] by auto
  with assms s show ?thesis
    by (auto simp: transaction_def and_then_def split: sum.splits outcome.splits prod.splits)
qed

end
