(* ===== verification/ClaimQueue.thy ===== *)
theory ClaimQueue
  imports Prelude
begin

text \<open>
  What the controller's two durable queues share (\<open>object_operations\<close> in \<open>storage.rs\<close> and
  \<open>runtime_commands\<close> in \<open>worker.rs\<close>). A worker claims a pending row and settles it later with an
  update guarded by its claim: \<open>WHERE id=... AND status='claimed' AND <claim>=...\<close>. The locale
  \<open>claim_queue\<close> states what the rows and the settling updates must satisfy, and proves once that a
  claim is settled at most once, that a worker whose claim was taken away changes nothing, and
  that the open rows stay unique per slot. Both queues interpret it.

  The theory also holds the small functions that the two files define identically: the retry
  backoff, the error truncation, the conversion of durations and the capped reconnect delay.
\<close>

datatype work_status = Pending | Claimed | Completed | Failed | Cancelled

definition open_status :: "work_status \<Rightarrow> bool" where
  "open_status s \<longleftrightarrow> s = Pending \<or> s = Claimed"

lemma open_status_simps [simp]:
  "open_status Pending" "open_status Claimed"
  "\<not> open_status Completed" "\<not> open_status Failed" "\<not> open_status Cancelled"
  by (simp_all add: open_status_def)

section \<open>Functions both workers define\<close>

definition duration_seconds :: "time \<Rightarrow> int" where
  "duration_seconds d = (let s = d div 1000000 in if s \<le> i64_max then s else i64_max)"

definition retry_backoff_seconds :: "int \<Rightarrow> int" where
  "retry_backoff_seconds attempts =
     (let exponent = nat (max 1 (min attempts 6)) in min (5 * 2 ^ exponent) 300)"

definition truncate_text :: "string \<Rightarrow> nat \<Rightarrow> string" where
  "truncate_text s maximum = take_chars maximum s"

definition initial_reconnect_delay :: time where
  "initial_reconnect_delay = secs 2"

definition next_reconnect_delay :: "time \<Rightarrow> time" where
  "next_reconnect_delay d = min (d * 2) (secs 60)"

text \<open>The wait until the next due instant: at least 10 ms when it has passed, at most the
  maintenance interval.\<close>

definition wake_delay :: "time \<Rightarrow> time option \<Rightarrow> time \<Rightarrow> time" where
  "wake_delay now next_due maximum =
     (let delay = (case next_due of
        None \<Rightarrow> maximum
      | Some t \<Rightarrow> if t < now then millis 10 else t - now)
      in min delay maximum)"

lemma retry_backoff_cases:
  "retry_backoff_seconds a =
     (if a \<le> 1 then 10 else if a = 2 then 20 else if a = 3 then 40
      else if a = 4 then 80 else if a = 5 then 160 else 300)"
proof -
  consider "a \<le> 1" | "a = 2" | "a = 3" | "a = 4" | "a = 5" | "6 \<le> a" by linarith
  then show ?thesis by cases (auto simp: retry_backoff_seconds_def)
qed

lemma retry_backoff_bounds: "10 \<le> retry_backoff_seconds a \<and> retry_backoff_seconds a \<le> 300"
  by (simp add: retry_backoff_cases)

lemma retry_backoff_mono: "a \<le> b \<Longrightarrow> retry_backoff_seconds a \<le> retry_backoff_seconds b"
  by (simp add: retry_backoff_cases)

lemma char_count_truncate: "char_count (truncate_text s n) \<le> n"
  by (simp add: truncate_text_def char_count_take_chars)

lemma reconnect_delay_bounds:
  "secs 2 \<le> d \<Longrightarrow> d \<le> secs 60 \<Longrightarrow> secs 2 \<le> next_reconnect_delay d \<and> next_reconnect_delay d \<le> secs 60"
  by (auto simp: next_reconnect_delay_def secs_def)

lemma wake_delay_le: "wake_delay now due maximum \<le> maximum"
  by (simp add: wake_delay_def)

lemma wake_delay_due: "due = Some t \<Longrightarrow> now \<le> t \<Longrightarrow> now + wake_delay now due maximum \<le> t"
  by (simp add: wake_delay_def)

text \<open>The worker is awake when an instant it waits for is due, or 10 ms from now when that has passed.\<close>

lemma wake_delay_in_time:
  assumes "min_list_opt ts \<in> set sources" and "t \<in> set ts"
  shows "now + wake_delay now (min_list_opt (opt_list sources)) maximum \<le> max t (now + millis 10)"
proof -
  from min_list_opt_below [OF assms(2)] obtain m where m: "min_list_opt ts = Some m" "m \<le> t"
    by auto
  with assms(1) have "m \<in> set (opt_list sources)" by simp
  from min_list_opt_below [OF this] obtain k where
    k: "min_list_opt (opt_list sources) = Some k" "k \<le> m" by auto
  with m(2) show ?thesis by (auto simp: wake_delay_def Let_def min_def max_def)
qed

section \<open>Open rows are unique per slot\<close>

definition one_open :: "('r \<Rightarrow> work_status) \<Rightarrow> ('r \<Rightarrow> 'slot) \<Rightarrow> 'r list \<Rightarrow> bool" where
  "one_open status_of slot rows \<longleftrightarrow> distinct (map slot (filter (open_status \<circ> status_of) rows))"

lemma one_open_Nil [simp]: "one_open st sl []"
  by (simp add: one_open_def)

lemma one_open_Cons:
  "one_open st sl (r # rs) \<longleftrightarrow>
     one_open st sl rs \<and>
     (open_status (st r) \<longrightarrow> (\<forall>q \<in> set rs. open_status (st q) \<longrightarrow> sl q \<noteq> sl r))"
  by (auto simp: one_open_def image_iff)

lemma one_open_update:
  assumes "\<And>r. r \<in> set rows \<Longrightarrow> P r \<Longrightarrow> sl (f r) = sl r"
    and "\<And>r. r \<in> set rows \<Longrightarrow> P r \<Longrightarrow> open_status (st (f r)) \<Longrightarrow> open_status (st r)"
    and "one_open st sl rows"
  shows "one_open st sl (update_where P f rows)"
  using assms
proof (induction rows)
  case Nil
  then show ?case by simp
next
  case (Cons r rs)
  have IH: "one_open st sl (update_where P f rs)"
    by (rule Cons.IH) (use Cons.prems in \<open>auto simp: one_open_Cons\<close>)
  have slots: "sl q \<noteq> sl r"
    if "q \<in> set (update_where P f rs)" "open_status (st q)" "open_status (st r)" for q
    using that Cons.prems by (fastforce simp: one_open_Cons set_update_where)
  show ?case
    using IH slots Cons.prems(1,2) by (auto simp: one_open_Cons)
qed

lemma one_open_append:
  "one_open st sl (rows @ [r]) \<longleftrightarrow>
     one_open st sl rows \<and>
     (open_status (st r) \<longrightarrow> (\<forall>q \<in> set rows. open_status (st q) \<longrightarrow> sl q \<noteq> sl r))"
  by (induction rows) (auto simp: one_open_Cons)

section \<open>The contract of a claim queue\<close>

text \<open>
  \<open>settle v\<close> is the assignment of a guarded update with verdict \<open>v\<close> (complete, cancel, fail,
  release for a retry) and \<open>target v\<close> the status it sets.
\<close>

locale claim_queue =
  fixes ident :: "'row \<Rightarrow> uuid"
    and status_of :: "'row \<Rightarrow> work_status"
    and holder :: "'row \<Rightarrow> 'tok option"
    and slot :: "'row \<Rightarrow> 'slot"
    and settle :: "'v \<Rightarrow> 'row \<Rightarrow> 'row"
    and target :: "'v \<Rightarrow> work_status"
  assumes ident_settle: "ident (settle v r) = ident r"
    and slot_settle: "slot (settle v r) = slot r"
    and status_settle: "status_of (settle v r) = target v"
    and target_not_claimed: "target v \<noteq> Claimed"
begin

lemma settle_ids:
  "map ident (update_where (\<lambda>r. ident r = i \<and> status_of r = Claimed \<and> holder r = Some k)
     (settle v) rows) = map ident rows"
  by (rule map_update_where) (simp add: ident_settle)

lemma settle_length_ids:
  "distinct (map ident rows) \<Longrightarrow>
     rows_affected (\<lambda>r. ident r = i \<and> status_of r = Claimed \<and> holder r = Some k) rows \<le> 1"
  by (induction rows) (auto simp: rows_affected_def filter_empty_conv image_iff dest: sym)

lemma settle_keeps_one_open:
  "one_open status_of slot rows \<Longrightarrow>
     one_open status_of slot
       (update_where (\<lambda>r. ident r = i \<and> status_of r = Claimed \<and> holder r = Some k) (settle v) rows)"
  by (rule one_open_update) (auto simp: slot_settle)

text \<open>A claim is settled at most once: whatever was written first, a second settlement under the
  same claim finds no row.\<close>

lemma settled_once:
  "rows_affected (\<lambda>r. ident r = i \<and> status_of r = Claimed \<and> holder r = Some k')
     (update_where (\<lambda>r. ident r = i \<and> status_of r = Claimed \<and> holder r = Some k) (settle v) rows)
   = rows_affected (\<lambda>r. ident r = i \<and> status_of r = Claimed \<and> holder r = Some k' \<and> k' \<noteq> k) rows"
proof (induction rows)
  case Nil
  then show ?case by (simp add: rows_affected_def)
next
  case (Cons r rs)
  then show ?case
    using target_not_claimed
    by (cases "ident r = i \<and> status_of r = Claimed \<and> holder r = Some k")
       (auto simp: rows_affected_def status_settle)
qed

text \<open>A worker that does not hold the claim leaves every row as it is.\<close>

lemma lost_claim_changes_nothing:
  assumes "\<And>r. r \<in> set rows \<Longrightarrow> ident r = i \<Longrightarrow> status_of r = Claimed \<Longrightarrow> holder r \<noteq> Some k"
  shows "rows_affected (\<lambda>r. ident r = i \<and> status_of r = Claimed \<and> holder r = Some k) rows = 0"
    and "update_where (\<lambda>r. ident r = i \<and> status_of r = Claimed \<and> holder r = Some k) (settle v) rows
         = rows"
proof -
  show "rows_affected (\<lambda>r. ident r = i \<and> status_of r = Claimed \<and> holder r = Some k) rows = 0"
    using assms by (auto simp: rows_affected_0)
  then show "update_where (\<lambda>r. ident r = i \<and> status_of r = Claimed \<and> holder r = Some k)
      (settle v) rows = rows"
    by (rule update_where_none)
qed

text \<open>Only the settled row changes.\<close>

lemma settle_frame:
  "r \<in> set rows \<Longrightarrow> ident r \<noteq> i \<Longrightarrow>
     r \<in> set (update_where (\<lambda>r. ident r = i \<and> status_of r = Claimed \<and> holder r = Some k)
               (settle v) rows)"
  by (auto simp: set_update_where)

end

end
