(* ===== verification/ControllerStatus.thy ===== *)
theory ControllerStatus
  imports Prelude
begin

text \<open>
  The controller's shared status (\<open>services/controller/src/state.rs\<close>) and the HTTP probes that
  read it (\<open>main.rs\<close>). Each method of \<open>SharedStatus\<close> is a function on the snapshot; those that
  read the clock take it as an argument. \<open>status_run\<close> applies a history of method calls.
\<close>

datatype controller_mode = Starting | Dormant | Draining | Enabled | Degraded

record status_snapshot =
  st_mode :: controller_mode
  st_database_connected :: bool
  st_initial_reconciliation_complete :: bool
  st_last_database_error :: "string option"
  st_last_reconciled_at :: "time option"
  st_object_storage_connected :: bool
  st_storage_initial_reconciliation_complete :: bool
  st_last_storage_error :: "string option"
  st_last_storage_reconciled_at :: "time option"
  st_last_transition_at :: time

definition new_status :: "time \<Rightarrow> status_snapshot" where
  "new_status now = \<lparr>
     st_mode = Starting,
     st_database_connected = False,
     st_initial_reconciliation_complete = False,
     st_last_database_error = None,
     st_last_reconciled_at = None,
     st_object_storage_connected = False,
     st_storage_initial_reconciliation_complete = False,
     st_last_storage_error = None,
     st_last_storage_reconciled_at = None,
     st_last_transition_at = now\<rparr>"

definition database_connected :: "status_snapshot \<Rightarrow> status_snapshot" where
  "database_connected s = s\<lparr>st_database_connected := True, st_last_database_error := None\<rparr>"

definition database_disconnected :: "time \<Rightarrow> string \<Rightarrow> status_snapshot \<Rightarrow> status_snapshot" where
  "database_disconnected now e s =
     (let s1 = s\<lparr>st_database_connected := False,
                 st_initial_reconciliation_complete := False,
                 st_last_database_error := Some e\<rparr>
      in if st_mode s1 \<noteq> Degraded
         then s1\<lparr>st_mode := Degraded, st_last_transition_at := now\<rparr> else s1)"

definition reconciled :: "time \<Rightarrow> status_snapshot \<Rightarrow> status_snapshot" where
  "reconciled now s =
     s\<lparr>st_initial_reconciliation_complete := True, st_last_reconciled_at := Some now\<rparr>"

definition set_mode :: "time \<Rightarrow> controller_mode \<Rightarrow> status_snapshot \<Rightarrow> status_snapshot" where
  "set_mode now m s =
     (if st_mode s \<noteq> m then s\<lparr>st_mode := m, st_last_transition_at := now\<rparr> else s)"

definition storage_connected :: "status_snapshot \<Rightarrow> status_snapshot" where
  "storage_connected s = s\<lparr>st_object_storage_connected := True, st_last_storage_error := None\<rparr>"

definition storage_disconnected :: "string \<Rightarrow> status_snapshot \<Rightarrow> status_snapshot" where
  "storage_disconnected e s =
     s\<lparr>st_object_storage_connected := False,
       st_storage_initial_reconciliation_complete := False,
       st_last_storage_error := Some e\<rparr>"

definition storage_operation_failed :: "string \<Rightarrow> status_snapshot \<Rightarrow> status_snapshot" where
  "storage_operation_failed e s =
     s\<lparr>st_object_storage_connected := False, st_last_storage_error := Some e\<rparr>"

definition storage_reconciled :: "time \<Rightarrow> status_snapshot \<Rightarrow> status_snapshot" where
  "storage_reconciled now s =
     s\<lparr>st_storage_initial_reconciliation_complete := True,
       st_last_storage_reconciled_at := Some now\<rparr>"

lemmas status_defs =
  database_connected_def database_disconnected_def reconciled_def set_mode_def
  storage_connected_def storage_disconnected_def storage_operation_failed_def
  storage_reconciled_def Let_def

section \<open>Probes\<close>

definition mode_text :: "controller_mode \<Rightarrow> string" where
  "mode_text m =
     (case m of Starting \<Rightarrow> ''starting'' | Dormant \<Rightarrow> ''dormant'' | Draining \<Rightarrow> ''draining''
      | Enabled \<Rightarrow> ''enabled'' | Degraded \<Rightarrow> ''degraded'')"

definition controller_ready :: "status_snapshot \<Rightarrow> bool" where
  "controller_ready s \<longleftrightarrow>
     st_database_connected s \<and> st_initial_reconciliation_complete s \<and>
     st_object_storage_connected s \<and> st_storage_initial_reconciliation_complete s \<and>
     st_mode s \<notin> {Starting, Degraded}"

definition health :: "string \<Rightarrow> status_snapshot \<Rightarrow> nat \<times> json" where
  "health version s = (200, JObj [
     (''status'', JStr ''ok''), (''service'', JStr ''controller''), (''version'', JStr version),
     (''mode'', JStr (mode_text (st_mode s))),
     (''database_connected'', JBool (st_database_connected s)),
     (''object_storage_connected'', JBool (st_object_storage_connected s))])"

definition readiness :: "status_snapshot \<Rightarrow> nat \<times> json" where
  "readiness s =
     (if controller_ready s then 200 else 503, JObj [
     (''status'', JStr (if controller_ready s then ''ready'' else ''not_ready'')),
     (''service'', JStr ''controller''),
     (''mode'', JStr (mode_text (st_mode s))),
     (''database_connected'', JBool (st_database_connected s)),
     (''initial_reconciliation_complete'', JBool (st_initial_reconciliation_complete s)),
     (''object_storage_connected'', JBool (st_object_storage_connected s)),
     (''storage_initial_reconciliation_complete'',
        JBool (st_storage_initial_reconciliation_complete s))])"

section \<open>Histories\<close>

datatype status_event =
    Database_Connected
  | Database_Disconnected string
  | Reconciled
  | Set_Mode controller_mode
  | Storage_Connected
  | Storage_Disconnected string
  | Storage_Operation_Failed string
  | Storage_Reconciled

fun status_step :: "status_snapshot \<Rightarrow> time \<times> status_event \<Rightarrow> status_snapshot" where
  "status_step s (_, Database_Connected) = database_connected s"
| "status_step s (t, Database_Disconnected e) = database_disconnected t e s"
| "status_step s (t, Reconciled) = reconciled t s"
| "status_step s (t, Set_Mode m) = set_mode t m s"
| "status_step s (_, Storage_Connected) = storage_connected s"
| "status_step s (_, Storage_Disconnected e) = storage_disconnected e s"
| "status_step s (_, Storage_Operation_Failed e) = storage_operation_failed e s"
| "status_step s (t, Storage_Reconciled) = storage_reconciled t s"

definition status_run :: "status_snapshot \<Rightarrow> (time \<times> status_event) list \<Rightarrow> status_snapshot" where
  "status_run = foldl status_step"

lemma status_run_simps [simp]:
  "status_run s [] = s"
  "status_run s (x # xs) = status_run (status_step s x) xs"
  by (simp_all add: status_run_def)

text \<open>A flag that is set at the end of a history was set at its start or by one of its calls.\<close>

lemma status_step_flags:
  "st_database_connected (status_step s x) \<Longrightarrow>
     st_database_connected s \<or> snd x = Database_Connected"
  "st_initial_reconciliation_complete (status_step s x) \<Longrightarrow>
     st_initial_reconciliation_complete s \<or> snd x = Reconciled"
  "st_object_storage_connected (status_step s x) \<Longrightarrow>
     st_object_storage_connected s \<or> snd x = Storage_Connected"
  "st_storage_initial_reconciliation_complete (status_step s x) \<Longrightarrow>
     st_storage_initial_reconciliation_complete s \<or> snd x = Storage_Reconciled"
  "st_mode (status_step s x) \<notin> {Starting, Degraded} \<Longrightarrow>
     st_mode s \<notin> {Starting, Degraded} \<or> (\<exists>m. snd x = Set_Mode m \<and> m \<notin> {Starting, Degraded})"
  by (cases x; cases "snd x"; auto simp: status_defs split: if_splits)+

lemma status_run_flag:
  assumes step: "\<And>s x. P (status_step s x) \<Longrightarrow> P s \<or> snd x \<in> E"
    and "P (status_run s xs)"
  shows "P s \<or> (\<exists>x \<in> set xs. snd x \<in> E)"
  using assms(2)
proof (induction xs arbitrary: s)
  case Nil
  then show ?case by simp
next
  case (Cons x xs)
  from Cons.prems have "P (status_run (status_step s x) xs)" by simp
  then have "P (status_step s x) \<or> (\<exists>x \<in> set xs. snd x \<in> E)" by (rule Cons.IH)
  with step [of s x] show ?case by (auto simp del: split_paired_All)
qed

lemmas status_run_flags =
  status_run_flag [where P = st_database_connected and E = "{Database_Connected}"]
  status_run_flag [where P = st_initial_reconciliation_complete and E = "{Reconciled}"]
  status_run_flag [where P = "\<lambda>s. st_mode s \<notin> {Starting, Degraded}"
    and E = "{Set_Mode m | m. m \<notin> {Starting, Degraded}}"]

lemma status_run_snoc: "status_run s (xs @ ys) = status_run (status_run s xs) ys"
  by (simp add: status_run_def)

text \<open>
  After the database connection is lost the controller does not report ready again until
  the connection is back, a whole reconciliation has completed and the mode has been computed
  anew, whatever else happens in between.
\<close>

theorem ready_again_after_database_loss:
  assumes "readiness (status_run s (xs @ (t, Database_Disconnected e) # ys)) = (200, body)"
  shows "Database_Connected \<in> snd ` set ys \<and> Reconciled \<in> snd ` set ys \<and>
         (\<exists>m. Set_Mode m \<in> snd ` set ys \<and> m \<notin> {Starting, Degraded})"
proof -
  define s' where "s' = database_disconnected t e (status_run s xs)"
  from assms have "controller_ready (status_run s' ys)"
    by (simp add: status_run_snoc readiness_def s'_def split: if_splits)
  then have r: "st_database_connected (status_run s' ys)"
    "st_initial_reconciliation_complete (status_run s' ys)"
    "st_mode (status_run s' ys) \<notin> {Starting, Degraded}"
    by (simp_all add: controller_ready_def)
  have s': "\<not> st_database_connected s'" "\<not> st_initial_reconciliation_complete s'"
    "st_mode s' = Degraded"
    by (auto simp: s'_def database_disconnected_def Let_def)
  have "Database_Connected \<in> snd ` set ys"
    using status_run_flags(1) [OF _ r(1)] status_step_flags(1) s'(1) by force
  moreover have "Reconciled \<in> snd ` set ys"
    using status_run_flags(2) [OF _ r(2)] status_step_flags(2) s'(2) by force
  moreover have "\<exists>x \<in> set ys. snd x \<in> {Set_Mode m | m. m \<notin> {Starting, Degraded}}"
    using status_run_flags(3) [OF _ r(3)] status_step_flags(5) s'(3) by blast
  then have "\<exists>m. Set_Mode m \<in> snd ` set ys \<and> m \<notin> {Starting, Degraded}"
    by (auto intro: image_eqI [OF sym])
  ultimately show ?thesis by blast
qed

theorem ready_again_after_database_loss_witness:
  "Database_Connected \<in> snd ` set
     [(1, Database_Connected), (2, Storage_Connected), (3, Storage_Reconciled), (4, Reconciled),
      (5::time, Set_Mode Dormant)]"
proof -
  have "readiness (status_run (new_status 0) ([] @ (0, Database_Disconnected ''lost'') #
     [(1, Database_Connected), (2, Storage_Connected), (3, Storage_Reconciled), (4, Reconciled),
      (5, Set_Mode Dormant)]))
     = (200, snd (readiness (status_run (new_status 0) ([] @ (0, Database_Disconnected ''lost'') #
     [(1, Database_Connected), (2, Storage_Connected), (3, Storage_Reconciled), (4, Reconciled),
      (5, Set_Mode Dormant)]))))"
    by (simp add: readiness_def controller_ready_def new_status_def status_defs)
  from ready_again_after_database_loss [OF this] show ?thesis by blast
qed

text \<open>The recorded transition time changes only together with the mode.\<close>

lemma status_step_transition:
  "st_mode (status_step s x) = st_mode s \<Longrightarrow>
     st_last_transition_at (status_step s x) = st_last_transition_at s"
  by (cases x; cases "snd x"; auto simp: status_defs split: if_splits)

end
