(* ===== verification/ObjectQueue.thy ===== *)
theory ObjectQueue
  imports ClaimQueue ControllerStatus "HOL-Library.Product_Lexorder"
begin

text \<open>
  The data of the object-storage maintenance worker (\<open>services/controller/src/storage.rs\<close>): the
  rows of \<open>stored_objects\<close> it reads and updates, the icons of the categories that point to them, the durable queue \<open>object_operations\<close>, the audit
  log, the object store behind HTTP, and the SQL statements of the worker, each with its
  \<open>WHERE\<close> clause and assignments as written.

  Text columns with a \<open>CHECK (... IN ...)\<close> are datatypes. \<open>gen_random_uuid()\<close> draws the next
  number that no row carries yet. An insert \<open>ON CONFLICT DO NOTHING\<close> is skipped when an open
  operation of that kind exists for the object (\<open>uq_object_operations_open_kind\<close>).
\<close>

section \<open>Rows\<close>

datatype object_status =
  Obj_Pending | Obj_Ready | Obj_Quarantined | Obj_Deleting | Obj_Deleted | Obj_Failed

datatype object_op = Op_Verify_Upload | Op_Delete | Op_Delete_Upload | Op_Reconcile

definition object_status_text :: "object_status \<Rightarrow> string" where
  "object_status_text s =
     (case s of Obj_Pending \<Rightarrow> ''pending'' | Obj_Ready \<Rightarrow> ''ready''
      | Obj_Quarantined \<Rightarrow> ''quarantined'' | Obj_Deleting \<Rightarrow> ''deleting''
      | Obj_Deleted \<Rightarrow> ''deleted'' | Obj_Failed \<Rightarrow> ''failed'')"

definition object_op_text :: "object_op \<Rightarrow> string" where
  "object_op_text k =
     (case k of Op_Verify_Upload \<Rightarrow> ''verify_upload'' | Op_Delete \<Rightarrow> ''delete''
      | Op_Delete_Upload \<Rightarrow> ''delete_upload'' | Op_Reconcile \<Rightarrow> ''reconcile'')"

text \<open>A row of \<open>stored_objects\<close> (\<open>db/init/005-finalize-install.sql\<close>). The worker reads the keys, the
  status, the revision and the expiry of the upload; the other columns are the API's. The columns
  \<open>checksum_algorithm\<close> and \<open>retention_class\<close> are constant and \<open>expires_at\<close> is never set.\<close>

record stored_object =
  obj_id :: uuid
  obj_bucket :: string
  obj_object_key :: string
  obj_upload_key :: string
  obj_purpose :: string
  obj_status :: object_status
  obj_scope :: string
  obj_owner_user_id :: "int option"
  obj_owner_team_id :: "int option"
  obj_idempotency_key :: "string option"
  obj_category_id :: "int option"
  obj_challenge_id :: "int option"
  obj_page_id :: "int option"
  obj_solution_id :: "int option"
  obj_filename :: string
  obj_content_type :: string
  obj_expected_size :: int
  obj_actual_size :: "int option"
  obj_expected_checksum :: string
  obj_actual_checksum :: "string option"
  obj_etag :: "string option"
  obj_metadata :: json
  obj_upload_expires_at :: time
  obj_created_at :: time
  obj_ready_at :: "time option"
  obj_deleted_at :: "time option"
  obj_revision :: int

text \<open>A row of \<open>object_operations\<close>.\<close>

record operation_row =
  row_id :: uuid
  row_object_id :: uuid
  row_operation :: object_op
  row_revision :: int
  row_status :: work_status
  row_attempts :: int
  row_available_at :: time
  row_claimed_at :: "time option"
  row_claimed_by :: "string option"
  row_last_error :: "string option"
  row_created_at :: time
  row_completed_at :: "time option"

text \<open>What a claim returns (\<open>ObjectOperation\<close>).\<close>

record object_operation =
  op_id :: uuid
  op_object_id :: uuid
  op_operation :: object_op
  op_object_revision :: int
  op_attempts :: int
  op_claimed_by :: string

record object_event =
  oev_object_id :: uuid
  oev_event_type :: string
  oev_source :: string
  oev_actor_user_id :: "int option"
  oev_details :: json

text \<open>A row of \<open>challenge_categories\<close>: its pointer to the current icon.\<close>

record category_row =
  cat_id :: int
  cat_icon :: "uuid option"

record object_db =
  objects :: "stored_object list"
  categories :: "category_row list"
  operations :: "operation_row list"
  object_events :: "object_event list"
  next_operation_id :: uuid

type_synonym staging_cleanup_gate = "bool \<times> time option"

abbreviation operation_slot :: "operation_row \<Rightarrow> uuid \<times> object_op" where
  "operation_slot r \<equiv> (row_object_id r, row_operation r)"

abbreviation claim_of :: "object_operation \<Rightarrow> operation_row \<Rightarrow> bool" where
  "claim_of operation \<equiv> (\<lambda>r. row_id r = op_id operation \<and> row_status r = Claimed \<and>
                          row_claimed_by r = Some (op_claimed_by operation))"

section \<open>Verdicts on a claimed operation\<close>

datatype op_verdict =
    Op_Reschedule time             \<comment> \<open>deferred to an instant, no attempt counted, error cleared\<close>
  | Op_Defer time                  \<comment> \<open>deferred to an instant, no attempt counted\<close>
  | Op_Cancel time string
  | Op_Complete time
  | Op_Fail time string
  | Op_Retry time string

fun settle_operation :: "op_verdict \<Rightarrow> operation_row \<Rightarrow> operation_row" where
  "settle_operation (Op_Reschedule t) r =
     r\<lparr>row_status := Pending, row_claimed_at := None, row_claimed_by := None,
       row_available_at := t, row_attempts := max (row_attempts r - 1) 0, row_last_error := None\<rparr>"
| "settle_operation (Op_Defer t) r =
     r\<lparr>row_status := Pending, row_claimed_at := None, row_claimed_by := None,
       row_available_at := t, row_attempts := max (row_attempts r - 1) 0\<rparr>"
| "settle_operation (Op_Cancel now e) r =
     r\<lparr>row_status := Cancelled, row_completed_at := Some now, row_last_error := Some e\<rparr>"
| "settle_operation (Op_Complete now) r =
     r\<lparr>row_status := Completed, row_completed_at := Some now, row_last_error := None\<rparr>"
| "settle_operation (Op_Fail now e) r =
     r\<lparr>row_status := Failed, row_completed_at := Some now, row_last_error := Some e\<rparr>"
| "settle_operation (Op_Retry t e) r =
     r\<lparr>row_status := Pending, row_claimed_at := None, row_claimed_by := None,
       row_available_at := t, row_last_error := Some e\<rparr>"

fun op_target :: "op_verdict \<Rightarrow> work_status" where
  "op_target (Op_Reschedule _) = Pending"
| "op_target (Op_Defer _) = Pending"
| "op_target (Op_Cancel _ _) = Cancelled"
| "op_target (Op_Complete _) = Completed"
| "op_target (Op_Fail _ _) = Failed"
| "op_target (Op_Retry _ _) = Pending"

text \<open>The guarded update \<open>WHERE id=... AND status='claimed' AND claimed_by=...\<close> and its row count.\<close>

definition settle_claim :: "object_operation \<Rightarrow> op_verdict \<Rightarrow> object_db \<Rightarrow> nat \<times> object_db" where
  "settle_claim operation v d =
     (rows_affected (claim_of operation) (operations d),
      d\<lparr>operations := update_where (claim_of operation) (settle_operation v) (operations d)\<rparr>)"

interpretation object_queue: claim_queue row_id row_status row_claimed_by operation_slot
  settle_operation op_target
proof
  fix v r
  show "row_id (settle_operation v r) = row_id r" by (cases v) auto
  show "operation_slot (settle_operation v r) = operation_slot r" by (cases v) auto
  show "row_status (settle_operation v r) = op_target v" by (cases v) auto
  show "op_target v \<noteq> Claimed" by (cases v) auto
qed

section \<open>Statements\<close>

text \<open>\<open>recover_stale_claims\<close>\<close>

definition stale_operation :: "time \<Rightarrow> int \<Rightarrow> operation_row \<Rightarrow> bool" where
  "stale_operation now stale_after r \<longleftrightarrow>
     row_status r = Claimed \<and>
     (case row_claimed_at r of None \<Rightarrow> False | Some t \<Rightarrow> t < now - secs stale_after)"

definition recover_stale_sql :: "time \<Rightarrow> int \<Rightarrow> object_db \<Rightarrow> nat \<times> object_db" where
  "recover_stale_sql now stale_after d =
     (rows_affected (stale_operation now stale_after) (operations d),
      d\<lparr>operations := update_where (stale_operation now stale_after)
          (\<lambda>r. r\<lparr>row_status := Pending, row_claimed_at := None, row_claimed_by := None,
                 row_available_at := now,
                 row_last_error := Some ''maintenance claim lease expired''\<rparr>) (operations d)\<rparr>)"

text \<open>Inserting operations.\<close>

definition new_operation ::
  "time \<Rightarrow> uuid \<Rightarrow> uuid \<times> object_op \<times> int \<times> time \<Rightarrow> operation_row" where
  "new_operation now i x = (case x of (oid, kind, revision, available) \<Rightarrow>
     \<lparr>row_id = i, row_object_id = oid, row_operation = kind, row_revision = revision,
      row_status = Pending, row_attempts = 0, row_available_at = available,
      row_claimed_at = None, row_claimed_by = None, row_last_error = None,
      row_created_at = now, row_completed_at = None\<rparr>)"

definition open_operation :: "uuid \<Rightarrow> object_op \<Rightarrow> operation_row \<Rightarrow> bool" where
  "open_operation oid kind r \<longleftrightarrow>
     row_object_id r = oid \<and> row_operation r = kind \<and> open_status (row_status r)"

definition insert_operation ::
  "time \<Rightarrow> uuid \<times> object_op \<times> int \<times> time \<Rightarrow> object_db \<Rightarrow> object_db" where
  "insert_operation now x d =
     (case x of (oid, kind, revision, available) \<Rightarrow>
        if \<exists>r \<in> set (operations d). open_operation oid kind r then d
        else d\<lparr>operations := operations d @ [new_operation now (next_operation_id d) x],
               next_operation_id := next_operation_id d + 1\<rparr>)"

definition insert_operations ::
  "time \<Rightarrow> (uuid \<times> object_op \<times> int \<times> time) list \<Rightarrow> object_db \<Rightarrow> nat \<times> object_db" where
  "insert_operations now xs d =
     (let d' = fold (insert_operation now) xs d
      in (length (operations d') - length (operations d), d'))"

text \<open>A failed attempt at the current revision that is more recent than the safety interval.\<close>

definition recently_failed :: "time \<Rightarrow> int \<Rightarrow> uuid \<Rightarrow> object_op \<Rightarrow> int \<Rightarrow> operation_row \<Rightarrow> bool" where
  "recently_failed now retry_after oid kind revision r \<longleftrightarrow>
     row_object_id r = oid \<and> row_operation r = kind \<and> row_status r = Failed \<and>
     row_revision r = revision \<and>
     (case row_completed_at r of None \<Rightarrow> False | Some t \<Rightarrow> t > now - secs retry_after)"

text \<open>\<open>enqueue_expired_upload_reconciliation\<close>\<close>

definition expired_upload_candidates ::
  "time \<Rightarrow> int \<Rightarrow> object_db \<Rightarrow> (uuid \<times> object_op \<times> int \<times> time) list" where
  "expired_upload_candidates now retry_after d =
     map (\<lambda>ob. (obj_id ob, Op_Reconcile, obj_revision ob, now))
       (filter (\<lambda>ob. obj_status ob = Obj_Pending \<and> obj_upload_expires_at ob \<le> now \<and>
          \<not> (\<exists>p \<in> set (operations d). open_operation (obj_id ob) Op_Reconcile p) \<and>
          \<not> (\<exists>p \<in> set (operations d).
               recently_failed now retry_after (obj_id ob) Op_Reconcile (obj_revision ob) p))
        (objects d))"

definition enqueue_expired_sql :: "time \<Rightarrow> int \<Rightarrow> object_db \<Rightarrow> nat \<times> object_db" where
  "enqueue_expired_sql now retry_after d =
     insert_operations now (expired_upload_candidates now retry_after d) d"

text \<open>\<open>enqueue_missing_deletes\<close>\<close>

definition desired_deletes :: "time \<Rightarrow> stored_object list \<Rightarrow> (uuid \<times> object_op \<times> int \<times> time) list" where
  "desired_deletes now os =
     map (\<lambda>ob. (obj_id ob, Op_Delete_Upload, obj_revision ob,
               max now (obj_upload_expires_at ob + secs 5)))
       (filter (\<lambda>ob. obj_status ob \<in> {Obj_Ready, Obj_Failed, Obj_Deleting, Obj_Deleted}) os)
     @ map (\<lambda>ob. (obj_id ob, Op_Delete, obj_revision ob, now))
       (filter (\<lambda>ob. obj_status ob \<in> {Obj_Failed, Obj_Deleting}) os)"

definition delete_missing ::
  "time \<Rightarrow> int \<Rightarrow> operation_row list \<Rightarrow> uuid \<times> object_op \<times> int \<times> time \<Rightarrow> bool" where
  "delete_missing now retry_after ps x =
     (case x of (oid, kind, revision, _) \<Rightarrow>
        \<not> (\<exists>p \<in> set ps. row_object_id p = oid \<and> row_operation p = kind \<and>
              row_status p = Completed \<and> (kind = Op_Delete_Upload \<or> row_revision p = revision)) \<and>
        \<not> (\<exists>p \<in> set ps. open_operation oid kind p) \<and>
        \<not> (\<exists>p \<in> set ps. recently_failed now retry_after oid kind revision p))"

definition enqueue_missing_sql :: "time \<Rightarrow> int \<Rightarrow> object_db \<Rightarrow> nat \<times> object_db" where
  "enqueue_missing_sql now retry_after d =
     insert_operations now
       (filter (delete_missing now retry_after (operations d)) (desired_deletes now (objects d))) d"

text \<open>\<open>claim_operation\<close>. Rows that other workers hold locked are skipped.\<close>

definition claimable_operation :: "uuid set \<Rightarrow> time \<Rightarrow> operation_row \<Rightarrow> bool" where
  "claimable_operation locked now r \<longleftrightarrow>
     row_status r = Pending \<and> row_available_at r \<le> now \<and>
     row_operation r \<in> {Op_Reconcile, Op_Delete_Upload, Op_Delete} \<and> row_id r \<notin> locked"

definition take_operation :: "time \<Rightarrow> string \<Rightarrow> operation_row \<Rightarrow> operation_row" where
  "take_operation now worker_id r =
     r\<lparr>row_status := Claimed, row_claimed_at := Some now, row_claimed_by := Some worker_id,
       row_attempts := row_attempts r + 1\<rparr>"

definition claim_operation_sql ::
  "uuid set \<Rightarrow> time \<Rightarrow> string \<Rightarrow> object_db \<Rightarrow> object_operation option \<times> object_db" where
  "claim_operation_sql locked now worker_id d =
     (case first_by (\<lambda>r. (row_available_at r, row_created_at r)) (claimable_operation locked now)
             (operations d) of
        None \<Rightarrow> (None, d)
      | Some r \<Rightarrow>
          (Some \<lparr>op_id = row_id r, op_object_id = row_object_id r, op_operation = row_operation r,
                 op_object_revision = row_revision r, op_attempts = row_attempts r + 1,
                 op_claimed_by = worker_id\<rparr>,
           d\<lparr>operations := update_where (\<lambda>q. row_id q = row_id r) (take_operation now worker_id)
                (operations d)\<rparr>))"

text \<open>The staging gate of \<open>defer_final_delete_for_staging_cleanup\<close>: whether a staging cleanup has
  ever completed, and when the open or failed one at this revision is next due.\<close>

definition staging_retry_time :: "time \<Rightarrow> int \<Rightarrow> int \<Rightarrow> operation_row \<Rightarrow> time" where
  "staging_retry_time now retry_after stale_after r =
     (case row_status r of
        Pending \<Rightarrow> max (row_available_at r) (now + secs 1)
      | Claimed \<Rightarrow> max ((case row_claimed_at r of None \<Rightarrow> now | Some t \<Rightarrow> t) + secs stale_after)
                      (now + secs 1)
      | _ \<Rightarrow> max ((case row_completed_at r of None \<Rightarrow> now | Some t \<Rightarrow> t) + secs retry_after)
                      (now + secs 1))"

definition staging_gate_sql ::
  "time \<Rightarrow> object_operation \<Rightarrow> int \<Rightarrow> int \<Rightarrow> object_db \<Rightarrow> staging_cleanup_gate" where
  "staging_gate_sql now operation retry_after stale_after d =
     ((\<exists>r \<in> set (operations d). row_object_id r = op_object_id operation \<and>
         row_operation r = Op_Delete_Upload \<and> row_status r = Completed),
      min_list_opt (map (staging_retry_time now retry_after stale_after)
        (filter (\<lambda>r. row_object_id r = op_object_id operation \<and>
           row_operation r = Op_Delete_Upload \<and> row_revision r = op_object_revision operation \<and>
           row_status r \<in> {Pending, Claimed, Failed}) (operations d))))"

definition staging_cleanup_retry_at :: "staging_cleanup_gate \<Rightarrow> time option" where
  "staging_cleanup_retry_at gate = (case gate of (any_completed, retry_at) \<Rightarrow>
     if \<not> any_completed then retry_at else None)"

section \<open>The object store\<close>

text \<open>
  The S3 service and the \<open>StatusCode\<close> text are outside the repository: a function of the request
  and the service's state that gives the response status (\<open>None\<close> when the request fails), the
  time it took and the next state.
\<close>

datatype http_request = Head_Bucket | Head_Object string | Delete_Object string

record 's object_service =
  svc_request :: "http_request \<Rightarrow> 's \<Rightarrow> nat option \<times> time \<times> 's"
  svc_status_text :: "nat \<Rightarrow> string"
  svc_bucket_name :: string

record 's object_world = "object_db world" +
  object_store :: 's
  shared_status :: status_snapshot
  locked_operations :: "uuid set"

definition is_success :: "nat \<Rightarrow> bool" where
  "is_success code \<longleftrightarrow> 200 \<le> code \<and> code < 300"

definition http_call ::
  "'s object_service \<Rightarrow> http_request \<Rightarrow> 's object_world \<Rightarrow> nat option \<times> 's object_world" where
  "http_call svc req w = (case svc_request svc req (object_store w) of (code, elapsed, s) \<Rightarrow>
     (code, w\<lparr>object_store := s, clock := clock w + elapsed\<rparr>))"

definition probe :: "'s object_service \<Rightarrow> 's object_world \<Rightarrow> unit result \<times> 's object_world" where
  "probe svc w =
     (case http_call svc Head_Bucket w of
        (None, w') \<Rightarrow> (Inl ''object storage health request failed'', w')
      | (Some code, w') \<Rightarrow>
          if \<not> is_success code
          then (Inl (''object storage health request returned '' @ svc_status_text svc code), w')
          else (Inr (), w'))"

definition delete_stored ::
  "'s object_service \<Rightarrow> string \<Rightarrow> 's object_world \<Rightarrow> unit result \<times> 's object_world" where
  "delete_stored svc object_key w =
     (if object_key = [] then (Inl ''stored object key is empty'', w)
      else case http_call svc (Delete_Object object_key) w of
        (None, w') \<Rightarrow> (Inl ''object storage delete request failed'', w')
      | (Some code, w') \<Rightarrow>
          if \<not> is_success code \<and> code \<noteq> 404
          then (Inl (''object storage delete request returned '' @ svc_status_text svc code), w')
          else (Inr (), w'))"

definition is_absent ::
  "'s object_service \<Rightarrow> string \<Rightarrow> 's object_world \<Rightarrow> bool result \<times> 's object_world" where
  "is_absent svc object_key w =
     (if object_key = [] then (Inl ''stored object key is empty'', w)
      else case http_call svc (Head_Object object_key) w of
        (None, w') \<Rightarrow> (Inl ''object storage verification request failed'', w')
      | (Some code, w') \<Rightarrow>
          if code = 404 then (Inr True, w')
          else if \<not> is_success code
          then (Inl (''object storage verification request returned ''
                     @ svc_status_text svc code), w')
          else (Inr False, w'))"

lemma http_call_frame:
  "http_call svc req w = (code, w') \<Longrightarrow>
     db w' = db w \<and> turns w' = turns w \<and> faults w' = faults w \<and>
     shared_status w' = shared_status w \<and> locked_operations w' = locked_operations w"
  by (auto simp: http_call_def split: prod.splits)

lemma http_frame:
  "probe svc w = (r, w') \<Longrightarrow> db w' = db w \<and> turns w' = turns w \<and> faults w' = faults w"
  "delete_stored svc k w = (u, w') \<Longrightarrow> db w' = db w \<and> turns w' = turns w \<and> faults w' = faults w"
  "is_absent svc k w = (b, w') \<Longrightarrow> db w' = db w \<and> turns w' = turns w \<and> faults w' = faults w"
  by (auto simp: probe_def delete_stored_def is_absent_def
        split: prod.splits option.splits if_splits dest!: http_call_frame)

lemma keeps_http [preserves_intros]:
  "keeps I (probe svc)" "keeps I (delete_stored svc k)" "keeps I (is_absent svc k)"
  by (rule keepsI, auto dest!: http_frame)+

end
