(* ===== verification/ObjectMaintenance.thy ===== *)
theory ObjectMaintenance
  imports ObjectQueue
begin

text \<open>
  The object-storage maintenance worker of \<open>services/controller/src/storage.rs\<close>: the handlers of
  the three queue operations, the claim and retry bookkeeping, the cycle and the connected
  session. Every handler is one transaction over the tables of \<open>ObjectQueue\<close>; requests to the
  object store happen inside it and are not undone by a rollback.
\<close>

record storage_config =
  cfg_maintenance_interval :: time
  cfg_max_attempts :: int
  cfg_max_upload_duration :: time
  cfg_stale_claim_after :: time

text \<open>The ranges of chrono's \<open>Duration\<close> and \<open>DateTime<Utc>\<close> and of std's \<open>Duration\<close>.\<close>

record time_limits =
  std_duration_max :: time
  chrono_duration_max :: time
  utc_max :: time

section \<open>Bookkeeping\<close>

definition with_context :: "string \<Rightarrow> 'a result \<times> 's \<Rightarrow> 'a result \<times> 's" where
  "with_context msg p = (case p of (Inl _, s) \<Rightarrow> (Inl msg, s) | (Inr x, s) \<Rightarrow> (Inr x, s))"

definition load_object_for_update ::
  "uuid \<Rightarrow> 's object_world \<Rightarrow> stored_object result \<times> 's object_world" where
  "load_object_for_update oid w =
     and_then (statement (\<lambda>d. (List.find (\<lambda>ob. obj_id ob = oid) (objects d), d)) w)
       (\<lambda>found w. case found of
           None \<Rightarrow> (Inl ''object maintenance operation refers to a missing object'', w)
         | Some ob \<Rightarrow> (Inr ob, w))"

definition append_object_event ::
  "uuid \<Rightarrow> string \<Rightarrow> json \<Rightarrow> 's object_world \<Rightarrow> unit result \<times> 's object_world" where
  "append_object_event oid event_type details =
     statement (\<lambda>d. ((), d\<lparr>object_events := object_events d @
       [\<lparr>oev_object_id = oid, oev_event_type = event_type, oev_source = ''controller'',
         oev_actor_user_id = None, oev_details = details\<rparr>]\<rparr>))"

definition cancel_operation ::
  "time \<Rightarrow> object_operation \<Rightarrow> string \<Rightarrow> 's object_world \<Rightarrow> unit result \<times> 's object_world" where
  "cancel_operation now operation reason w =
     and_then (statement (settle_claim operation (Op_Cancel now reason)) w) (\<lambda>n w.
     and_then (require (n \<noteq> 0)
                ''object maintenance claim lease was lost while cancelling work'' w) (\<lambda>_ w.
     append_object_event (op_object_id operation) ''maintenance_cancelled''
       (JObj [(''operation_id'', json_uuid (op_id operation)),
              (''operation'', JStr (object_op_text (op_operation operation))),
              (''reason'', JStr reason)]) w))"

definition cancel_stale_operation ::
  "time \<Rightarrow> object_operation \<Rightarrow> int \<Rightarrow> 's object_world \<Rightarrow> unit result \<times> 's object_world" where
  "cancel_stale_operation now operation current_revision =
     cancel_operation now operation
       (''stale object revision '' @ show_int (op_object_revision operation)
        @ ''; current revision is '' @ show_int current_revision)"

definition complete_operation ::
  "time \<Rightarrow> object_operation \<Rightarrow> 's object_world \<Rightarrow> unit result \<times> 's object_world" where
  "complete_operation now operation w =
     and_then (statement (settle_claim operation (Op_Complete now)) w) (\<lambda>n w.
     require (n \<noteq> 0) ''object maintenance claim lease was lost before completion'' w)"

text \<open>Ending a transaction with \<open>commit\<close> after a step.\<close>

definition then_commit :: "'a result \<times> 's \<Rightarrow> unit outcome result \<times> 's" where
  "then_commit p = and_then p (\<lambda>_ w. (Inr (Commit ()), w))"

section \<open>Handlers\<close>

text \<open>Each handler is a transaction; \<open>..._tx\<close> is what it does between \<open>begin\<close> and \<open>commit\<close>.\<close>

text \<open>The conditional update \<open>UPDATE stored_objects ... WHERE id=$1 AND revision=$2 AND
  status='pending' RETURNING revision\<close>, fetched as exactly one row.\<close>

definition expire_upload_sql :: "stored_object \<Rightarrow> object_db \<Rightarrow> int option \<times> object_db" where
  "expire_upload_sql ob d =
     (let P = (\<lambda>r. obj_id r = obj_id ob \<and> obj_revision r = obj_revision ob \<and>
                   obj_status r = Obj_Pending)
      in (case List.find P (objects d) of None \<Rightarrow> None | Some r \<Rightarrow> Some (obj_revision r + 1),
          d\<lparr>objects := update_where P
              (\<lambda>r. r\<lparr>obj_status := Obj_Failed, obj_revision := obj_revision r + 1\<rparr>) (objects d)\<rparr>))"

definition fetch_one :: "'a option result \<times> 's \<Rightarrow> 'a result \<times> 's" where
  "fetch_one p = and_then p (\<lambda>x w. case x of
       None \<Rightarrow> (Inl ''no rows returned by a query that expected to return at least one row'', w)
     | Some a \<Rightarrow> (Inr a, w))"

definition reconcile_upload_tx ::
  "object_operation \<Rightarrow> time \<Rightarrow> 's object_world \<Rightarrow> unit outcome result \<times> 's object_world" where
  "reconcile_upload_tx operation now w =
     and_then (load_object_for_update (op_object_id operation) w) (\<lambda>ob w.
       if obj_revision ob \<noteq> op_object_revision operation then
         then_commit (cancel_stale_operation now operation (obj_revision ob) w)
       else if obj_status ob \<noteq> Obj_Pending then
         then_commit (cancel_operation now operation
           (''object status is '' @ object_status_text (obj_status ob)) w)
       else if obj_upload_expires_at ob > clock w then
         and_then (statement (settle_claim operation (Op_Reschedule (obj_upload_expires_at ob))) w)
           (\<lambda>n w. (Inr (if n = 0 then Rollback () else Commit ()), w))
       else
         and_then (fetch_one (statement (expire_upload_sql ob) w)) (\<lambda>revision w.
         and_then (append_object_event (obj_id ob) ''upload_expired''
           (JObj [(''operation_id'', json_uuid (op_id operation))]) w) (\<lambda>_ w.
         and_then (statement (\<lambda>d. ((), insert_operation now
           (obj_id ob, Op_Delete_Upload, revision, obj_upload_expires_at ob + secs 5) d)) w) (\<lambda>_ w.
         and_then (let available_at = clock w in statement (\<lambda>d. ((), insert_operation now
           (obj_id ob, Op_Delete, revision, available_at) d)) w) (\<lambda>_ w.
         then_commit (complete_operation now operation w))))))"

definition reconcile_upload ::
  "object_operation \<Rightarrow> 's object_world \<Rightarrow> unit result \<times> 's object_world" where
  "reconcile_upload operation = transaction (reconcile_upload_tx operation)"

definition saturating_duration_add :: "time_limits \<Rightarrow> time \<Rightarrow> time \<Rightarrow> time" where
  "saturating_duration_add lim a b = min (a + b) (std_duration_max lim)"

definition terminal_staging_cleanup_at :: "time_limits \<Rightarrow> time \<Rightarrow> time \<Rightarrow> time result" where
  "terminal_staging_cleanup_at lim upload_expires_at max_upload_duration =
     (let quiescence = saturating_duration_add lim max_upload_duration (secs 5)
      in if quiescence > chrono_duration_max lim
         then Inl ''Source duration value is out of range for the target type''
         else if upload_expires_at + quiescence > utc_max lim
         then Inl ''staging cleanup deadline is outside the supported time range''
         else Inr (upload_expires_at + quiescence))"

definition wake_final_delete_sql :: "time \<Rightarrow> stored_object \<Rightarrow> object_db \<Rightarrow> unit \<times> object_db" where
  "wake_final_delete_sql now ob d =
     ((), d\<lparr>operations := update_where
        (\<lambda>r. row_object_id r = obj_id ob \<and> row_operation r = Op_Delete \<and>
             row_revision r = obj_revision ob \<and> row_status r = Pending)
        (\<lambda>r. r\<lparr>row_available_at := min (row_available_at r) now\<rparr>) (operations d)\<rparr>)"

definition delete_upload_tx ::
  "time_limits \<Rightarrow> 's object_service \<Rightarrow> storage_config \<Rightarrow> object_operation
   \<Rightarrow> time \<Rightarrow> 's object_world \<Rightarrow> unit outcome result \<times> 's object_world" where
  "delete_upload_tx lim svc cfg operation now w =
     and_then (load_object_for_update (op_object_id operation) w) (\<lambda>ob w.
       if obj_revision ob \<noteq> op_object_revision operation then
         then_commit (cancel_stale_operation now operation (obj_revision ob) w)
       else if obj_status ob \<notin> {Obj_Ready, Obj_Failed, Obj_Deleting, Obj_Deleted} then
         then_commit (cancel_operation now operation
           (''object status is '' @ object_status_text (obj_status ob)) w)
       else if obj_bucket ob \<noteq> svc_bucket_name svc then
         (Inl (''stored object bucket '' @ obj_bucket ob
               @ '' does not match configured bucket''), w)
       else
         and_then (delete_stored svc (obj_upload_key ob) w) (\<lambda>_ w.
         and_then (terminal_staging_cleanup_at lim (obj_upload_expires_at ob)
           (cfg_max_upload_duration cfg), w) (\<lambda>terminal_cleanup_at w.
         if clock w < terminal_cleanup_at then
           and_then (statement (settle_claim operation (Op_Reschedule terminal_cleanup_at)) w)
             (\<lambda>n w. then_commit (require (n \<noteq> 0)
               ''object maintenance claim lease was lost while deferring staging cleanup'' w))
         else
           and_then (is_absent svc (obj_upload_key ob) w) (\<lambda>absent w.
           and_then (require absent ''staging object still exists after terminal cleanup'' w) (\<lambda>_ w.
           and_then (append_object_event (obj_id ob) ''upload_staging_deleted''
             (JObj [(''operation_id'', json_uuid (op_id operation))]) w) (\<lambda>_ w.
           and_then (complete_operation now operation w) (\<lambda>_ w.
           then_commit (statement (wake_final_delete_sql now ob) w))))))))"

definition delete_upload ::
  "time_limits \<Rightarrow> 's object_service \<Rightarrow> storage_config \<Rightarrow> object_operation
   \<Rightarrow> 's object_world \<Rightarrow> unit result \<times> 's object_world" where
  "delete_upload lim svc cfg operation = transaction (delete_upload_tx lim svc cfg operation)"

definition defer_final_delete_for_staging_cleanup ::
  "time \<Rightarrow> storage_config \<Rightarrow> object_operation
   \<Rightarrow> 's object_world \<Rightarrow> bool result \<times> 's object_world" where
  "defer_final_delete_for_staging_cleanup now cfg operation w =
     and_then (statement (\<lambda>d. (staging_gate_sql now operation
         (duration_seconds (cfg_maintenance_interval cfg))
         (duration_seconds (cfg_stale_claim_after cfg)) d, d)) w) (\<lambda>gate w.
     case staging_cleanup_retry_at gate of
       None \<Rightarrow> (Inr False, w)
     | Some cleanup_ready_at \<Rightarrow>
         and_then (statement (settle_claim operation (Op_Defer cleanup_ready_at)) w) (\<lambda>n w.
         and_then (require (n \<noteq> 0)
           ''object maintenance claim lease was lost while deferring final cleanup'' w) (\<lambda>_ w.
         (Inr True, w))))"

definition mark_deleted_sql :: "time \<Rightarrow> stored_object \<Rightarrow> object_db \<Rightarrow> nat \<times> object_db" where
  "mark_deleted_sql now ob d =
     (let P = (\<lambda>r. obj_id r = obj_id ob \<and> obj_revision r = obj_revision ob \<and>
                   obj_status r = Obj_Deleting)
      in (rows_affected P (objects d),
          d\<lparr>objects := update_where P
              (\<lambda>r. r\<lparr>obj_status := Obj_Deleted,
                     obj_deleted_at := (case obj_deleted_at r of None \<Rightarrow> Some now | Some t \<Rightarrow> Some t),
                     obj_revision := obj_revision r + 1\<rparr>) (objects d)\<rparr>))"

definition delete_object_tx ::
  "'s object_service \<Rightarrow> storage_config \<Rightarrow> object_operation
   \<Rightarrow> time \<Rightarrow> 's object_world \<Rightarrow> unit outcome result \<times> 's object_world" where
  "delete_object_tx svc cfg operation now w =
     and_then (load_object_for_update (op_object_id operation) w) (\<lambda>ob w.
       if obj_revision ob \<noteq> op_object_revision operation then
         then_commit (cancel_stale_operation now operation (obj_revision ob) w)
       else if obj_status ob = Obj_Deleted then
         then_commit (complete_operation now operation w)
       else if obj_status ob \<notin> {Obj_Deleting, Obj_Failed} then
         then_commit (cancel_operation now operation
           (''object status is '' @ object_status_text (obj_status ob)) w)
       else if obj_bucket ob \<noteq> svc_bucket_name svc then
         (Inl (''stored object bucket '' @ obj_bucket ob
               @ '' does not match configured bucket''), w)
       else
         and_then (if obj_status ob = Obj_Deleting
                   then defer_final_delete_for_staging_cleanup now cfg operation w
                   else (Inr False, w)) (\<lambda>deferred w.
         if deferred then (Inr (Commit ()), w)
         else
           and_then (delete_stored svc (obj_object_key ob) w) (\<lambda>_ w.
           and_then (if obj_status ob = Obj_Deleting
                     then and_then (statement (mark_deleted_sql now ob) w) (\<lambda>n w.
                       require (n = 1) ''object revision changed while its row lock was held'' w)
                     else (Inr (), w)) (\<lambda>_ w.
           and_then (append_object_event (obj_id ob)
             (if obj_status ob = Obj_Failed then ''failed_object_final_deleted''
              else ''object_deleted'')
             (JObj [(''operation_id'', json_uuid (op_id operation))]) w) (\<lambda>_ w.
           then_commit (complete_operation now operation w))))))"

definition delete_object ::
  "'s object_service \<Rightarrow> storage_config \<Rightarrow> object_operation
   \<Rightarrow> 's object_world \<Rightarrow> unit result \<times> 's object_world" where
  "delete_object svc cfg operation = transaction (delete_object_tx svc cfg operation)"

definition execute_operation ::
  "time_limits \<Rightarrow> 's object_service \<Rightarrow> storage_config \<Rightarrow> object_operation
   \<Rightarrow> 's object_world \<Rightarrow> unit result \<times> 's object_world" where
  "execute_operation lim svc cfg operation w =
     (case op_operation operation of
        Op_Reconcile \<Rightarrow> reconcile_upload operation w
      | Op_Delete_Upload \<Rightarrow> delete_upload lim svc cfg operation w
      | Op_Delete \<Rightarrow> delete_object svc cfg operation w
      | kind \<Rightarrow> (Inl (''unsupported object maintenance operation '' @ object_op_text kind), w))"

section \<open>Claims, retries and the cycle\<close>

definition recover_stale_claims ::
  "time \<Rightarrow> 's object_world \<Rightarrow> unit result \<times> 's object_world" where
  "recover_stale_claims stale_after w =
     and_then (on_pool (recover_stale_sql (clock w) (duration_seconds stale_after)) w)
       (\<lambda>_ w. (Inr (), w))"

definition enqueue_expired_upload_reconciliation ::
  "time \<Rightarrow> 's object_world \<Rightarrow> unit result \<times> 's object_world" where
  "enqueue_expired_upload_reconciliation safety_retry_after w =
     and_then (on_pool (enqueue_expired_sql (clock w) (duration_seconds safety_retry_after)) w)
       (\<lambda>_ w. (Inr (), w))"

definition enqueue_missing_deletes ::
  "time \<Rightarrow> 's object_world \<Rightarrow> unit result \<times> 's object_world" where
  "enqueue_missing_deletes safety_retry_after w =
     and_then (on_pool (enqueue_missing_sql (clock w) (duration_seconds safety_retry_after)) w)
       (\<lambda>_ w. (Inr (), w))"

definition claim_operation ::
  "string \<Rightarrow> 's object_world \<Rightarrow> object_operation option result \<times> 's object_world" where
  "claim_operation worker_id w =
     with_context ''failed to claim object maintenance operation''
       (on_pool (claim_operation_sql (locked_operations w) (clock w) worker_id) w)"

definition schedule_retry ::
  "object_operation \<Rightarrow> int \<Rightarrow> string \<Rightarrow> 's object_world \<Rightarrow> unit result \<times> 's object_world" where
  "schedule_retry operation max_attempts e w =
     (let e' = truncate_text e 1000 in
      if op_attempts operation \<ge> max_attempts then
        transaction (\<lambda>now w.
          and_then (statement (settle_claim operation (Op_Fail now e')) w) (\<lambda>n w.
          if n = 0 then (Inr (Rollback ()), w)
          else then_commit (append_object_event (op_object_id operation) ''maintenance_failed''
            (JObj [(''operation_id'', json_uuid (op_id operation)),
                   (''operation'', JStr (object_op_text (op_operation operation))),
                   (''error'', JStr e')]) w))) w
      else
        and_then (on_pool (settle_claim operation
            (Op_Retry (clock w + secs (retry_backoff_seconds (op_attempts operation))) e')) w)
          (\<lambda>_ w. (Inr (), w)))"

definition note_operation_failure :: "string \<Rightarrow> 's object_world \<Rightarrow> 's object_world" where
  "note_operation_failure e w =
     w\<lparr>shared_status := storage_operation_failed e (shared_status w)\<rparr>"

definition max_operations_per_cycle :: nat where
  "max_operations_per_cycle = 128"

text \<open>\<open>stop k\<close> is the shutdown flag as read when \<open>k\<close> iterations remain.\<close>

fun process_operations ::
  "time_limits \<Rightarrow> 's object_service \<Rightarrow> storage_config \<Rightarrow> string \<Rightarrow> (nat \<Rightarrow> bool) \<Rightarrow> nat
   \<Rightarrow> 's object_world \<Rightarrow> unit result \<times> 's object_world" where
  "process_operations lim svc cfg worker_id stop 0 w = (Inr (), w)"
| "process_operations lim svc cfg worker_id stop (Suc k) w =
     (if stop (Suc k) then (Inr (), w)
      else and_then (claim_operation worker_id w) (\<lambda>claimed w.
        case claimed of
          None \<Rightarrow> (Inr (), w)
        | Some operation \<Rightarrow>
            (case execute_operation lim svc cfg operation w of
               (Inr _, w) \<Rightarrow> process_operations lim svc cfg worker_id stop k w
             | (Inl e, w) \<Rightarrow>
                 and_then (schedule_retry operation (cfg_max_attempts cfg) e
                             (note_operation_failure e w))
                   (\<lambda>_ w. process_operations lim svc cfg worker_id stop k w))))"

definition process_available_operations ::
  "time_limits \<Rightarrow> 's object_service \<Rightarrow> storage_config \<Rightarrow> string \<Rightarrow> (nat \<Rightarrow> bool)
   \<Rightarrow> 's object_world \<Rightarrow> unit result \<times> 's object_world" where
  "process_available_operations lim svc cfg worker_id stop =
     process_operations lim svc cfg worker_id stop max_operations_per_cycle"

definition run_cycle ::
  "time_limits \<Rightarrow> 's object_service \<Rightarrow> storage_config \<Rightarrow> string \<Rightarrow> (nat \<Rightarrow> bool)
   \<Rightarrow> 's object_world \<Rightarrow> unit result \<times> 's object_world" where
  "run_cycle lim svc cfg worker_id stop w =
     and_then (enqueue_expired_upload_reconciliation (cfg_maintenance_interval cfg) w) (\<lambda>_ w.
     and_then (enqueue_missing_deletes (cfg_maintenance_interval cfg) w) (\<lambda>_ w.
     process_available_operations lim svc cfg worker_id stop w))"

definition update_status ::
  "(time \<Rightarrow> status_snapshot \<Rightarrow> status_snapshot) \<Rightarrow> 's object_world \<Rightarrow> unit result \<times> 's object_world" where
  "update_status f w = (Inr (), w\<lparr>shared_status := f (clock w) (shared_status w)\<rparr>)"

text \<open>One round of the session: probe, recover, cycle, report. The first follows the schema check,
  the later ones a wait.\<close>

definition maintenance_round ::
  "time_limits \<Rightarrow> 's object_service \<Rightarrow> storage_config \<Rightarrow> string \<Rightarrow> (nat \<Rightarrow> bool)
   \<Rightarrow> 's object_world \<Rightarrow> unit result \<times> 's object_world" where
  "maintenance_round lim svc cfg worker_id stop w =
     and_then (probe svc w) (\<lambda>_ w.
     and_then (update_status (\<lambda>_. storage_connected) w) (\<lambda>_ w.
     and_then (recover_stale_claims (cfg_stale_claim_after cfg) w) (\<lambda>_ w.
     and_then (run_cycle lim svc cfg worker_id stop w) (\<lambda>_ w.
     update_status storage_reconciled w))))"

definition next_object_wake_delay ::
  "time \<Rightarrow> time \<Rightarrow> 's object_world \<Rightarrow> time result \<times> 's object_world" where
  "next_object_wake_delay maximum stale_claim_after w =
     and_then (on_pool (\<lambda>d. (min_list_opt (map row_available_at (filter (\<lambda>r.
         row_status r = Pending \<and>
         row_operation r \<in> {Op_Reconcile, Op_Delete_Upload, Op_Delete}) (operations d))), d)) w)
       (\<lambda>pending w.
     and_then (on_pool (\<lambda>d. (min_list_opt (filter (\<lambda>t. t > clock w)
         (map (\<lambda>t. t + secs (duration_seconds stale_claim_after))
           (opt_list (map row_claimed_at (filter (\<lambda>r. row_status r = Claimed) (operations d)))))),
         d)) w)
       (\<lambda>stale_claim w.
     (Inr (wake_delay (clock w) (min_list_opt (opt_list [pending, stale_claim])) maximum), w)))"

text \<open>
  The session. Each wait is an element of the list: \<open>Some t\<close> when the wait ended at its deadline
  and the clock then read \<open>t\<close>, \<open>None\<close> when shutdown ended it.
\<close>

fun session_rounds ::
  "time_limits \<Rightarrow> 's object_service \<Rightarrow> storage_config \<Rightarrow> string \<Rightarrow> (nat \<Rightarrow> bool) \<Rightarrow> time option list
   \<Rightarrow> 's object_world \<Rightarrow> unit result \<times> 's object_world" where
  "session_rounds lim svc cfg worker_id stop [] w = (Inr (), w)"
| "session_rounds lim svc cfg worker_id stop (wait # waits) w =
     and_then (next_object_wake_delay (cfg_maintenance_interval cfg) (cfg_stale_claim_after cfg) w)
       (\<lambda>_ w. case wait of
           None \<Rightarrow> (Inr (), w)
         | Some t \<Rightarrow>
             and_then (maintenance_round lim svc cfg worker_id stop (w\<lparr>clock := t\<rparr>))
               (\<lambda>_ w. session_rounds lim svc cfg worker_id stop waits w))"

definition require_object_schema ::
  "(object_db \<Rightarrow> bool) \<Rightarrow> 's object_world \<Rightarrow> unit result \<times> 's object_world" where
  "require_object_schema installed w =
     and_then (on_pool (\<lambda>d. (installed d, d)) w) (\<lambda>ready w.
     require ready ''object storage control-plane schema is not installed'' w)"

definition connected_object_session ::
  "(object_db \<Rightarrow> bool) \<Rightarrow> time_limits \<Rightarrow> 's object_service \<Rightarrow> storage_config \<Rightarrow> string
   \<Rightarrow> (nat \<Rightarrow> bool) \<Rightarrow> time option list \<Rightarrow> 's object_world \<Rightarrow> unit result \<times> 's object_world" where
  "connected_object_session installed lim svc cfg worker_id stop waits w =
     and_then (require_object_schema installed w) (\<lambda>_ w.
     and_then (maintenance_round lim svc cfg worker_id stop w) (\<lambda>_ w.
     session_rounds lim svc cfg worker_id stop waits w))"

lemmas handler_defs =
  reconcile_upload_def reconcile_upload_tx_def delete_upload_def delete_upload_tx_def
  delete_object_def delete_object_tx_def
  defer_final_delete_for_staging_cleanup_def load_object_for_update_def
  append_object_event_def cancel_operation_def cancel_stale_operation_def
  complete_operation_def then_commit_def fetch_one_def

end
