(* ===== verification/ObjectInvariants.thy ===== *)
theory ObjectInvariants
  imports ObjectMaintenance
begin

text \<open>
  The invariant of the object-storage tables and its preservation by every statement, handler,
  cycle and session of \<open>services/controller/src/storage.rs\<close>, with any failure of any statement and
  with the commits of other connections in between, as long as these keep it too.
\<close>

section \<open>The invariant\<close>

definition claim_consistent :: "operation_row \<Rightarrow> bool" where
  "claim_consistent r \<longleftrightarrow>
     0 \<le> row_attempts r \<and>
     (row_status r = Claimed \<longrightarrow> row_claimed_at r \<noteq> None \<and> row_claimed_by r \<noteq> None \<and> 0 < row_attempts r) \<and>
     (row_status r = Pending \<longrightarrow> row_claimed_at r = None \<and> row_claimed_by r = None)"

definition revision_known :: "stored_object list \<Rightarrow> uuid \<Rightarrow> int \<Rightarrow> bool" where
  "revision_known os oid rev' \<longleftrightarrow>
     (\<exists>ob \<in> set os. obj_id ob = oid) \<and> (\<forall>ob \<in> set os. obj_id ob = oid \<longrightarrow> rev' \<le> obj_revision ob)"

definition operations_ok :: "stored_object list \<Rightarrow> operation_row list \<Rightarrow> uuid \<Rightarrow> bool" where
  "operations_ok os ps n \<longleftrightarrow>
     distinct (map row_id ps) \<and> (\<forall>r \<in> set ps. row_id r < n) \<and>
     one_open row_status operation_slot ps \<and>
     (\<forall>r \<in> set ps. claim_consistent r \<and> revision_known os (row_object_id r) (row_revision r))"

definition object_db_ok :: "object_db \<Rightarrow> bool" where
  "object_db_ok d \<longleftrightarrow>
     distinct (map obj_id (objects d)) \<and>
     operations_ok (objects d) (operations d) (next_operation_id d)"

text \<open>An update of operations keeps the invariant when it keeps identity, slot and revision, opens
  no closed row and leaves the claim consistent.\<close>

lemma operations_ok_update:
  assumes ok: "operations_ok os ps n"
    and f: "\<And>r. P r \<Longrightarrow> row_id (f r) = row_id r \<and> operation_slot (f r) = operation_slot r \<and>
                  row_revision (f r) = row_revision r"
    and op: "\<And>r. P r \<Longrightarrow> open_status (row_status (f r)) \<Longrightarrow> open_status (row_status r)"
    and c: "\<And>r. P r \<Longrightarrow> claim_consistent r \<Longrightarrow> claim_consistent (f r)"
  shows "operations_ok os (update_where P f ps) n"
proof -
  have "map row_id (update_where P f ps) = map row_id ps"
    by (rule map_update_where) (simp add: f)
  moreover have "one_open row_status operation_slot (update_where P f ps)"
    using ok f op by (intro one_open_update) (auto simp: operations_ok_def)
  moreover have "row_id r < n \<and> claim_consistent r \<and> revision_known os (row_object_id r) (row_revision r)"
    if r: "r \<in> set (update_where P f ps)" for r
  proof -
    from r obtain q where q: "q \<in> set ps" "r = (if P q then f q else q)"
      by (auto simp: update_where_def)
    with ok f [of q] c [of q] show ?thesis by (auto simp: operations_ok_def)
  qed
  ultimately show ?thesis using ok by (simp add: operations_ok_def)
qed

lemma settle_claim_consistent:
  "claim_consistent r \<Longrightarrow> row_status r = Claimed \<Longrightarrow> claim_consistent (settle_operation v r)"
  by (cases v) (auto simp: claim_consistent_def)

lemma take_claim_consistent: "claim_consistent r \<Longrightarrow> claim_consistent (take_operation now w r)"
  by (auto simp: claim_consistent_def take_operation_def)

lemma settle_revision: "row_revision (settle_operation v r) = row_revision r"
  by (cases v) auto

lemmas object_ok_defs = object_db_ok_def operations_ok_def

section \<open>Statements keep it\<close>

lemma settle_claim_ok: "object_db_ok d \<Longrightarrow> object_db_ok (snd (settle_claim operation v d))"
  unfolding object_db_ok_def settle_claim_def
  by (auto intro!: operations_ok_update settle_claim_consistent
        simp: object_queue.ident_settle object_queue.slot_settle [simplified] settle_revision)

lemma recover_stale_ok: "object_db_ok d \<Longrightarrow> object_db_ok (snd (recover_stale_sql now s d))"
  unfolding object_db_ok_def recover_stale_sql_def
  by (auto intro!: operations_ok_update simp: stale_operation_def claim_consistent_def)

lemma wake_final_delete_ok: "object_db_ok d \<Longrightarrow> object_db_ok (snd (wake_final_delete_sql now ob d))"
  unfolding object_db_ok_def wake_final_delete_sql_def
  by (auto intro!: operations_ok_update simp: claim_consistent_def)

lemma take_operation_fields:
  "row_id (take_operation now wk r) = row_id r"
  "row_object_id (take_operation now wk r) = row_object_id r"
  "row_operation (take_operation now wk r) = row_operation r"
  "row_revision (take_operation now wk r) = row_revision r"
  "row_status (take_operation now wk r) = Claimed"
  "row_claimed_by (take_operation now wk r) = Some wk"
  "row_attempts (take_operation now wk r) = row_attempts r + 1"
  by (simp_all add: take_operation_def)

lemma unique_row:
  "operations_ok os ps n \<Longrightarrow> q \<in> set ps \<Longrightarrow> r \<in> set ps \<Longrightarrow> row_id q = row_id r \<Longrightarrow> q = r"
  by (auto simp: operations_ok_def intro: distinct_map_eq)

lemma claim_operation_ok:
  assumes "object_db_ok d"
  shows "object_db_ok (snd (claim_operation_sql locked now wk d))"
proof (cases "first_by (\<lambda>r. (row_available_at r, row_created_at r)) (claimable_operation locked now)
    (operations d)")
  case None
  with assms show ?thesis by (simp add: claim_operation_sql_def)
next
  case (Some r)
  from first_by_Some [OF Some] have r: "r \<in> set (operations d)" "row_status r = Pending"
    by (auto simp: claimable_operation_def)
  have ok: "operations_ok (objects d) (operations d) (next_operation_id d)"
    using assms by (simp add: object_db_ok_def)
  have eq: "update_where (\<lambda>q. row_id q = row_id r) f (operations d) =
      update_where (\<lambda>q. row_id q = row_id r \<and> row_status q = Pending) f (operations d)" for f
    unfolding update_where_def using unique_row [OF ok _ r(1)] r(2) by (auto intro: map_cong)
  have "operations_ok (objects d)
      (update_where (\<lambda>q. row_id q = row_id r \<and> row_status q = Pending) (take_operation now wk)
        (operations d)) (next_operation_id d)"
    using ok by (rule operations_ok_update)
      (auto simp: take_operation_fields take_claim_consistent)
  with assms show ?thesis by (simp add: claim_operation_sql_def Some eq object_db_ok_def)
qed

lemma insert_operation_ok:
  assumes "object_db_ok d" and "revision_known (objects d) oid rev'"
  shows "object_db_ok (insert_operation now (oid, kind, rev', available) d)"
proof (cases "\<exists>r \<in> set (operations d). open_operation oid kind r")
  case True
  with assms show ?thesis by (simp add: insert_operation_def)
next
  case False
  let ?r = "new_operation now (next_operation_id d) (oid, kind, rev', available)"
  have r: "row_id ?r = next_operation_id d" "operation_slot ?r = (oid, kind)"
      "row_revision ?r = rev'" "claim_consistent ?r"
    by (simp_all add: new_operation_def claim_consistent_def)
  have "operations_ok (objects d) (operations d @ [?r]) (next_operation_id d + 1)"
    using assms False r
    by (auto simp: object_ok_defs one_open_append open_operation_def dest: less_imp_neq)
  with assms False show ?thesis by (simp add: insert_operation_def object_db_ok_def)
qed

lemma insert_operation_objects [simp]: "objects (insert_operation now x d) = objects d"
  by (auto simp: insert_operation_def split: prod.splits)

lemma insert_operations_ok:
  assumes "object_db_ok d"
    and "\<And>oid kind rev' t. (oid, kind, rev', t) \<in> set xs \<Longrightarrow> revision_known (objects d) oid rev'"
  shows "object_db_ok (snd (insert_operations now xs d))"
proof -
  have "object_db_ok (fold (insert_operation now) xs d)"
    using assms
  proof (induction xs arbitrary: d)
    case Nil
    then show ?case by simp
  next
    case (Cons x xs)
    obtain oid kind rev' t where x: "x = (oid, kind, rev', t)" by (cases x) auto
    have "object_db_ok (insert_operation now x d)"
      unfolding x by (rule insert_operation_ok) (use Cons.prems x in auto)
    then have "object_db_ok (fold (insert_operation now) xs (insert_operation now x d))"
      by (rule Cons.IH)
        (metis Cons.prems(2) insert_operation_objects list.set_intros(2))
    then show ?case by simp
  qed
  then show ?thesis by (simp add: insert_operations_def Let_def)
qed

lemma revision_known_self:
  "object_db_ok d \<Longrightarrow> ob \<in> set (objects d) \<Longrightarrow> revision_known (objects d) (obj_id ob) (obj_revision ob)"
  unfolding revision_known_def object_db_ok_def
  by (metis distinct_map inj_onD order_refl)

lemma enqueue_expired_ok: "object_db_ok d \<Longrightarrow> object_db_ok (snd (enqueue_expired_sql now s d))"
  unfolding enqueue_expired_sql_def
  by (rule insert_operations_ok) (auto simp: expired_upload_candidates_def intro: revision_known_self)

lemma enqueue_missing_ok: "object_db_ok d \<Longrightarrow> object_db_ok (snd (enqueue_missing_sql now s d))"
  unfolding enqueue_missing_sql_def
  by (rule insert_operations_ok) (auto simp: desired_deletes_def intro: revision_known_self)

text \<open>Updates of objects that raise revisions.\<close>

lemma revision_known_update:
  assumes known: "revision_known os i n"
    and f: "\<And>r. P r \<Longrightarrow> obj_id (f r) = obj_id r \<and> obj_revision r \<le> obj_revision (f r)"
  shows "revision_known (update_where P f os) i n"
proof -
  from known obtain r where r: "r \<in> set os" "obj_id r = i" by (auto simp: revision_known_def)
  have "(if P r then f r else r) \<in> set (update_where P f os)" using r(1) by (auto simp: set_update_where)
  moreover have "obj_id (if P r then f r else r) = i" using r(2) f by simp
  moreover have "n \<le> obj_revision q" if q: "q \<in> set (update_where P f os)" "obj_id q = i" for q
  proof -
    from q(1) obtain q' where q': "q' \<in> set os" "q = (if P q' then f q' else q')"
      by (auto simp: update_where_def)
    have "obj_id q = obj_id q' \<and> obj_revision q' \<le> obj_revision q" using q'(2) f [of q'] by auto
    with known q'(1) q(2) show ?thesis
      unfolding revision_known_def by (metis order_trans)
  qed
  ultimately show ?thesis unfolding revision_known_def by blast
qed

lemma objects_update_ok:
  assumes "object_db_ok d"
    and "\<And>r. P r \<Longrightarrow> obj_id (f r) = obj_id r \<and> obj_revision r \<le> obj_revision (f r)"
  shows "object_db_ok (d\<lparr>objects := update_where P f (objects d)\<rparr>)"
proof -
  have ids: "map obj_id (update_where P f (objects d)) = map obj_id (objects d)"
    by (rule map_update_where) (simp add: assms(2))
  from assms show ?thesis
    by (auto simp: object_db_ok_def operations_ok_def ids intro: revision_known_update)
qed

lemma expire_upload_ok: "object_db_ok d \<Longrightarrow> object_db_ok (snd (expire_upload_sql ob d))"
  unfolding expire_upload_sql_def Let_def snd_conv by (rule objects_update_ok) auto

lemma mark_deleted_ok: "object_db_ok d \<Longrightarrow> object_db_ok (snd (mark_deleted_sql now ob d))"
  unfolding mark_deleted_sql_def Let_def snd_conv by (rule objects_update_ok) auto

lemma events_ok: "object_db_ok (object_events_update f d) = object_db_ok d"
  by (simp add: object_db_ok_def)

lemma settle_claim_objects [simp]: "objects (snd (settle_claim operation v d)) = objects d"
  by (simp add: settle_claim_def)

text \<open>The revision that the expiry returns is the one the object then has.\<close>

lemma expire_upload_revision:
  assumes "object_db_ok d" and "fst (expire_upload_sql ob d) = Some n"
  shows "revision_known (objects (snd (expire_upload_sql ob d))) (obj_id ob) n"
proof -
  let ?P = "\<lambda>r. obj_id r = obj_id ob \<and> obj_revision r = obj_revision ob \<and> obj_status r = Obj_Pending"
  from assms(2) obtain r where r: "List.find ?P (objects d) = Some r" "n = obj_revision r + 1"
    by (auto simp: expire_upload_sql_def Let_def split: option.splits)
  from r(1) have mem: "r \<in> set (objects d)" "?P r"
    by (auto simp: find_Some_iff)
  have only: "q = r" if "q \<in> set (objects d)" "obj_id q = obj_id ob" for q
    using that mem assms(1) by (auto simp: object_db_ok_def intro: distinct_map_eq)
  have "n \<le> obj_revision q" if q: "q \<in> set (objects (snd (expire_upload_sql ob d)))"
      "obj_id q = obj_id ob" for q
  proof -
    let ?f = "\<lambda>r. r\<lparr>obj_status := Obj_Failed, obj_revision := obj_revision r + 1\<rparr>"
    from q obtain p where p: "p \<in> set (objects d)" "q = (if ?P p then ?f p else p)"
      by (auto simp: expire_upload_sql_def Let_def update_where_def)
    with q(2) have "obj_id p = obj_id ob" by (auto split: if_splits)
    with only p(1) have "p = r" by blast
    with p(2) mem r(2) show ?thesis by simp
  qed
  moreover have "(r\<lparr>obj_status := Obj_Failed, obj_revision := obj_revision r + 1\<rparr>)
      \<in> set (objects (snd (expire_upload_sql ob d)))"
    using mem by (force simp: expire_upload_sql_def Let_def set_update_where)
  ultimately show ?thesis using mem(2) unfolding revision_known_def
    by (intro conjI bexI [of _ "r\<lparr>obj_status := Obj_Failed, obj_revision := obj_revision r + 1\<rparr>"]) auto
qed

lemmas object_statements_ok =
  settle_claim_ok recover_stale_ok wake_final_delete_ok claim_operation_ok enqueue_expired_ok
  enqueue_missing_ok expire_upload_ok mark_deleted_ok

section \<open>Handlers, cycles and sessions keep it\<close>

text \<open>
  The contract between the statements and the code that issues them: an invariant of the tables
  that implies \<open>object_db_ok\<close> and that each statement keeps. Everything the worker executes then
  keeps it. Operations are inserted only at a revision the object has reached.
\<close>

locale object_invariant =
  fixes I :: "object_db \<Rightarrow> bool"
  assumes I_ok: "I d \<Longrightarrow> object_db_ok d"
    and I_settle: "I d \<Longrightarrow> I (snd (settle_claim operation v d))"
    and I_event: "I d \<Longrightarrow> I (d\<lparr>object_events := es\<rparr>)"
    and I_expire: "I d \<Longrightarrow> I (snd (expire_upload_sql ob d))"
    and I_mark: "I d \<Longrightarrow> I (snd (mark_deleted_sql now ob d))"
    and I_insert: "I d \<Longrightarrow> revision_known (objects d) oid rev' \<Longrightarrow>
                     I (insert_operation now (oid, kind, rev', t) d)"
    and I_wake: "I d \<Longrightarrow> I (snd (wake_final_delete_sql now ob d))"
    and I_recover: "I d \<Longrightarrow> I (snd (recover_stale_sql now s d))"
    and I_claim: "I d \<Longrightarrow> I (snd (claim_operation_sql locked now wk d))"
begin

lemma keeps_event [preserves_intros]: "keeps I (append_object_event oid ty details)"
  unfolding append_object_event_def by (rule keeps_statement) (simp add: I_event)

lemma keeps_settle: "keeps I (statement (settle_claim operation v))"
  by (rule keeps_statement) (rule I_settle)

lemma keeps_then_commit: "keeps I m \<Longrightarrow> keeps I (\<lambda>w. then_commit (m w))"
  unfolding then_commit_def by (intro preserves_intros)

lemma keeps_cancel:
  "keeps I (cancel_operation now operation reason)"
  "keeps I (cancel_stale_operation now operation n)"
  unfolding cancel_stale_operation_def cancel_operation_def [abs_def]
  by (intro preserves_intros keeps_settle)+

lemma keeps_complete: "keeps I (complete_operation now operation)"
  unfolding complete_operation_def [abs_def] by (intro preserves_intros keeps_settle)

lemma keeps_load: "keeps I (load_object_for_update oid)"
  unfolding load_object_for_update_def [abs_def]
  by (intro preserves_intros keeps_option keeps_statement) simp

lemmas handler_rules = keeps_settle keeps_then_commit keeps_cancel keeps_complete keeps_load

lemma atomic_delete_object: "atomic I (delete_object svc cfg operation)"
  unfolding delete_object_def delete_object_tx_def defer_final_delete_for_staging_cleanup_def
  by (intro atomic_transaction handler_rules keeps_and_then keeps_if keeps_require keeps_return
        keeps_http keeps_event keeps_option keeps_statement) (simp_all add: I_mark)

lemma atomic_delete_upload: "atomic I (delete_upload lim svc cfg operation)"
  unfolding delete_upload_def delete_upload_tx_def
  by (intro atomic_transaction handler_rules keeps_and_then keeps_if keeps_if_clock keeps_require
        keeps_return keeps_http keeps_event keeps_statement) (simp_all add: I_wake)

lemma expire_flow:
  assumes "I (db w)" and "fetch_one (statement (expire_upload_sql ob) w) = (r, w')"
  shows "turns w' = turns w \<and> I (db w') \<and>
    (\<forall>x. r = Inr x \<longrightarrow> revision_known (objects (db w')) (obj_id ob) x)"
proof -
  obtain u w1 where s: "statement (expire_upload_sql ob) w = (u, w1)" by fastforce
  from statement_result [OF s] assms s expire_upload_revision [OF I_ok [OF assms(1)], of ob]
    I_expire [OF assms(1), of ob]
  show ?thesis by (cases u) (auto simp: fetch_one_def split: option.splits)
qed

lemma keeps_known:
  "keeps (\<lambda>d. I d \<and> revision_known (objects d) i n) (append_object_event oid ty details)"
  "keeps (\<lambda>d. I d \<and> revision_known (objects d) i n)
     (statement (\<lambda>d. ((), insert_operation now (i, kind, n, t) d)))"
  "keeps (\<lambda>d. I d \<and> revision_known (objects d) i n)
     (\<lambda>w. then_commit (complete_operation now operation w))"
  unfolding append_object_event_def then_commit_def complete_operation_def
  by (intro preserves_intros; simp add: I_event I_insert I_settle settle_claim_objects)+

lemma atomic_reconcile: "atomic I (reconcile_upload operation)"
  unfolding reconcile_upload_def reconcile_upload_tx_def Let_def
  apply (intro atomic_transaction keeps_and_then [OF keeps_load] keeps_if keeps_if_clock
      handler_rules)
   apply (intro keeps_and_then keeps_settle keeps_return)
  apply (rule keeps_flow [where J = "\<lambda>x d. revision_known (objects d) (obj_id ob) x" for ob,
      OF expire_flow], assumption, assumption)
  apply (intro keeps_and_then keeps_known keeps_diagonal [where m = "\<lambda>w. statement (\<lambda>d. ((), insert_operation n (q w) d))" for n q])
  done

lemma atomic_execute:
  "op_operation operation \<noteq> Op_Verify_Upload \<Longrightarrow> atomic I (execute_operation lim svc cfg operation)"
  using atomic_reconcile [of operation] atomic_delete_upload [of lim svc cfg operation]
    atomic_delete_object [of svc cfg operation]
  by (cases "op_operation operation") (simp_all add: execute_operation_def [abs_def])

lemma preserves_execute: "preserves I (execute_operation lim svc cfg operation)"
proof (cases "op_operation operation = Op_Verify_Upload")
  case True
  then show ?thesis by (simp add: preserves_def execute_operation_def)
next
  case False
  then show ?thesis by (intro atomic_preserves atomic_execute)
qed

lemma preserves_recover: "preserves I (recover_stale_claims t)"
  unfolding recover_stale_claims_def [abs_def]
  by (intro preserves_and_then preserves_on_pool_at preserves_return I_recover)

lemma I_inserts:
  assumes "I d" and "\<And>oid kind rev' t. (oid, kind, rev', t) \<in> set xs \<Longrightarrow> revision_known (objects d) oid rev'"
  shows "I (snd (insert_operations now xs d))"
proof -
  have "I (fold (insert_operation now) xs d)"
    using assms
  proof (induction xs arbitrary: d)
    case Nil
    then show ?case by simp
  next
    case (Cons x xs)
    obtain oid kind rev' t where x: "x = (oid, kind, rev', t)" by (cases x) auto
    have "I (insert_operation now x d)"
      unfolding x by (rule I_insert) (use Cons.prems x in auto)
    then have "I (fold (insert_operation now) xs (insert_operation now x d))"
      by (rule Cons.IH)
        (metis Cons.prems(2) insert_operation_objects list.set_intros(2))
    then show ?case by simp
  qed
  then show ?thesis by (simp add: insert_operations_def Let_def)
qed

lemma preserves_enqueue:
  "preserves I (enqueue_expired_upload_reconciliation t)"
  "preserves I (enqueue_missing_deletes t)"
proof -
  have a: "I (snd (enqueue_expired_sql now s d))" "I (snd (enqueue_missing_sql now s d))"
    if "I d" for now s d
    unfolding enqueue_expired_sql_def enqueue_missing_sql_def
    by (rule I_inserts [OF that],
        auto simp: expired_upload_candidates_def desired_deletes_def
          intro: revision_known_self [OF I_ok [OF that]])+
  show "preserves I (enqueue_expired_upload_reconciliation t)"
    unfolding enqueue_expired_upload_reconciliation_def [abs_def]
    by (intro preserves_and_then preserves_on_pool_at preserves_return a)
  show "preserves I (enqueue_missing_deletes t)"
    unfolding enqueue_missing_deletes_def [abs_def]
    by (intro preserves_and_then preserves_on_pool_at preserves_return a)
qed

lemma preserves_claim: "preserves I (claim_operation wk)"
  by (rule preserves_snd [where m = "\<lambda>w. on_pool (claim_operation_sql (locked_operations w) (clock w) wk) w"])
     (auto simp: claim_operation_def with_context_def intro!: preserves_on_pool_at I_claim
        split: prod.splits sum.splits)

lemma preserves_retry: "preserves I (schedule_retry operation n e)"
proof -
  let ?e = "truncate_text e 1000"
  have fail: "preserves I (transaction (\<lambda>now w.
      and_then (statement (settle_claim operation (Op_Fail now ?e)) w) (\<lambda>n w.
        if n = 0 then (Inr (Rollback ()), w)
        else then_commit (append_object_event (op_object_id operation) ''maintenance_failed''
            (JObj [(''operation_id'', json_uuid (op_id operation)),
                   (''operation'', JStr (object_op_text (op_operation operation))),
                   (''error'', JStr ?e)]) w))))"
    by (intro preserves_transaction keeps_and_then keeps_settle keeps_if keeps_return
        keeps_then_commit keeps_event)
  have again: "preserves I (\<lambda>w. and_then (on_pool (settle_claim operation
      (Op_Retry (clock w + secs (retry_backoff_seconds (op_attempts operation))) ?e)) w)
        (\<lambda>_ w. (Inr (), w)))"
    by (intro preserves_and_then preserves_on_pool_at preserves_return I_settle)
  show ?thesis
    unfolding schedule_retry_def [abs_def] Let_def by (intro preserves_if again fail)
qed

lemma safe_note [simp]: "safe I (note_operation_failure e w) = safe I w"
  by (simp add: note_operation_failure_def safe_def turns_keep_def)

lemma preserves_process: "preserves I (process_operations lim svc cfg wk stop k)"
proof (induction k)
  case 0
  show ?case by (rule preservesI) simp
next
  case (Suc k)
  show ?case
  proof (rule preservesI)
    fix w :: "'a object_world"
    assume safe: "safe I w"
    obtain c w1 where c: "claim_operation wk w = (c, w1)" by fastforce
    with preservesD [OF preserves_claim safe, of wk] have w1: "safe I w1" by simp
    show "safe I (snd (process_operations lim svc cfg wk stop (Suc k) w))"
    proof (cases "stop (Suc k) \<or> (\<exists>e. c = Inl e) \<or> c = Inr None")
      case True
      with safe w1 c show ?thesis by auto
    next
      case False
      then obtain operation where co: "c = Inr (Some operation)" by (cases c) auto
      obtain x w2 where x: "execute_operation lim svc cfg operation w1 = (x, w2)" by fastforce
      with preservesD [OF preserves_execute w1, of lim svc cfg operation] have w2: "safe I w2"
        by simp
      have retried: "preserves I (\<lambda>w. and_then (schedule_retry operation n e w)
          (\<lambda>_. process_operations lim svc cfg wk stop k))" for n e
        by (intro preserves_and_then preserves_retry Suc)
      show ?thesis
        using False c co x preservesD [OF Suc w2]
          preservesD [OF retried, of "note_operation_failure e w2" for e] w2
        by (cases x) auto
    qed
  qed
qed

lemma preserves_http: "preserves I (probe svc)"
  by (rule keeps_preserves) (rule keeps_http)

lemma preserves_update_status: "preserves I (update_status f)"
  by (auto simp: preserves_def update_status_def safe_def turns_keep_def)

lemma preserves_round: "preserves I (maintenance_round lim svc cfg wk stop)"
  unfolding maintenance_round_def [abs_def] run_cycle_def process_available_operations_def
  by (intro preserves_and_then preserves_http preserves_update_status preserves_recover
      preserves_enqueue preserves_process)

lemma preserves_wake: "preserves I (next_object_wake_delay a b)"
  unfolding next_object_wake_delay_def [abs_def]
  by (rule preserves_and_then, rule preserves_on_pool, simp, rule preserves_and_then,
      rule preserves_on_pool_at, simp, simp add: preserves_def)

lemma preserves_rounds: "preserves I (session_rounds lim svc cfg wk stop waits)"
proof (induction waits)
  case Nil
  show ?case by (rule preservesI) simp
next
  case (Cons wait waits)
  have "preserves I (\<lambda>w. maintenance_round lim svc cfg wk stop (w\<lparr>clock := t\<rparr>))" for t
  proof (rule preservesI)
    fix w :: "'a object_world"
    assume "safe I w"
    then have "safe I (w\<lparr>clock := t\<rparr>)" by (simp add: safe_def turns_keep_def)
    with preserves_round show "safe I (snd (maintenance_round lim svc cfg wk stop (w\<lparr>clock := t\<rparr>)))"
      by (rule preservesD)
  qed
  then have "preserves I (\<lambda>w. and_then (next_object_wake_delay (cfg_maintenance_interval cfg)
      (cfg_stale_claim_after cfg) w) (\<lambda>_ w. case wait of
           None \<Rightarrow> (Inr (), w)
         | Some t \<Rightarrow>
             and_then (maintenance_round lim svc cfg wk stop (w\<lparr>clock := t\<rparr>))
               (\<lambda>_ w. session_rounds lim svc cfg wk stop waits w)))"
    by (intro preserves_and_then preserves_wake preserves_option preserves_return Cons)
  then show ?case by (simp add: preserves_def)
qed

lemma preserves_session:
  "preserves I (connected_object_session installed lim svc cfg wk stop waits)"
  unfolding connected_object_session_def [abs_def] require_object_schema_def
  by (intro preserves_and_then preserves_on_pool preserves_require preserves_round
      preserves_rounds) simp

end

interpretation tables_ok: object_invariant object_db_ok
  by unfold_locales
     (auto simp: events_ok insert_operation_ok intro: object_statements_ok)

section \<open>Objects only move forward\<close>

text \<open>What one visit of the worker may do to an object: expire a pending upload or mark a deletion
  finished, each with the next revision.\<close>

definition object_advances :: "stored_object \<Rightarrow> stored_object \<Rightarrow> bool" where
  "object_advances a b \<longleftrightarrow>
     b = a \<or>
     (obj_status a = Obj_Pending \<and>
      b = a\<lparr>obj_status := Obj_Failed, obj_revision := obj_revision a + 1\<rparr>) \<or>
     (obj_status a = Obj_Deleting \<and>
      (\<exists>t. b = a\<lparr>obj_status := Obj_Deleted, obj_deleted_at := Some t,
                obj_revision := obj_revision a + 1\<rparr>))"

definition objects_advance :: "stored_object list \<Rightarrow> object_db \<Rightarrow> bool" where
  "objects_advance os0 d \<longleftrightarrow> object_db_ok d \<and> list_all2 object_advances os0 (objects d)"

lemma objects_advance_update:
  assumes "list_all2 object_advances os0 os"
    and "\<And>a b. P b \<Longrightarrow> object_advances a b \<Longrightarrow> object_advances a (f b)"
  shows "list_all2 object_advances os0 (update_where P f os)"
  using assms by (induction rule: list_all2_induct) auto

lemma advance_expire:
  "list_all2 object_advances os0 (objects d) \<Longrightarrow>
     list_all2 object_advances os0 (objects (snd (expire_upload_sql ob d)))"
  by (auto simp: expire_upload_sql_def Let_def object_advances_def intro!: objects_advance_update)

lemma object_advances_deleted:
  assumes "object_advances a b" and "obj_status b = Obj_Deleting"
  shows "object_advances a (b\<lparr>obj_status := Obj_Deleted,
    obj_deleted_at := (case obj_deleted_at b of None \<Rightarrow> Some now | Some t \<Rightarrow> Some t),
    obj_revision := obj_revision b + 1\<rparr>)"
proof -
  from assms have "a = b" by (auto simp: object_advances_def)
  with assms(2) show ?thesis
    by (cases "obj_deleted_at b") (unfold object_advances_def, simp_all, blast+)
qed

lemma advance_mark:
  "list_all2 object_advances os0 (objects d) \<Longrightarrow>
     list_all2 object_advances os0 (objects (snd (mark_deleted_sql now ob d)))"
  unfolding mark_deleted_sql_def Let_def
  by (simp, rule objects_advance_update, assumption, elim conjE, rule object_advances_deleted)

lemma other_statements_objects:
  "objects (snd (recover_stale_sql now s d)) = objects d"
  "objects (snd (wake_final_delete_sql now ob d)) = objects d"
  "objects (snd (claim_operation_sql locked now wk d)) = objects d"
  by (auto simp: recover_stale_sql_def wake_final_delete_sql_def claim_operation_sql_def
      split: option.splits)

interpretation forward: object_invariant "objects_advance os0" for os0
  by unfold_locales
     (auto simp: objects_advance_def events_ok other_statements_objects advance_expire
        advance_mark insert_operation_ok intro: object_statements_ok)

end
