(* ===== verification/ObjectProperties.thy ===== *)
theory ObjectProperties
  imports ObjectInvariants
begin

text \<open>
  The properties of the object-storage maintenance worker
  (\<open>services/controller/src/storage.rs\<close>): its tables stay well formed, objects only move forward,
  a worker that lost its claim changes nothing, the final copy of an object is removed only behind
  the staging gate and the staging copy only after the upload can no longer arrive, failures are
  retried with a bounded backoff and end in a recorded failure, and the safety sweeps are complete.
\<close>

lemmas body_elims = and_then_Inr_cases statement_returned

lemma delete_stored_returned:
  assumes "delete_stored svc k w = (Inr u, w')"
  obtains code elapsed s where "k \<noteq> []"
    and "svc_request svc (Delete_Object k) (object_store w) = (Some code, elapsed, s)"
    and "is_success code \<or> code = 404"
    and "w' = w\<lparr>object_store := s, clock := clock w + elapsed\<rparr>"
  using assms
  by (auto simp: delete_stored_def http_call_def split: if_splits option.splits prod.splits)

lemma is_absent_returned:
  assumes "is_absent svc k w = (Inr b, w')"
  obtains code elapsed s where "k \<noteq> []"
    and "svc_request svc (Head_Object k) (object_store w) = (Some code, elapsed, s)"
    and "b \<longleftrightarrow> code = 404" and "is_success code \<or> code = 404"
    and "w' = w\<lparr>object_store := s, clock := clock w + elapsed\<rparr>"
  using assms
  by (auto simp: is_absent_def http_call_def split: if_splits option.splits prod.splits)

lemma load_returned:
  assumes "load_object_for_update oid w = (Inr ob, w')"
  obtains fs where "List.find (\<lambda>x. obj_id x = oid) (objects (db w)) = Some ob"
    and "w' = w\<lparr>faults := fs\<rparr>"
proof -
  from assms obtain x w1 where "statement (\<lambda>d. (List.find (\<lambda>x. obj_id x = oid) (objects d), d)) w = (Inr x, w1)"
    and "x = Some ob" "w' = w1"
    unfolding load_object_for_update_def
    by (auto elim!: and_then_Inr_cases split: option.splits)
  then show ?thesis by (elim statement_returned) (auto intro: that)
qed

lemma complete_returned:
  assumes "complete_operation now operation w = (Inr u, w')"
  obtains fs where "\<exists>r \<in> set (operations (db w)). claim_of operation r"
    and "w' = w\<lparr>faults := fs, db := snd (settle_claim operation (Op_Complete now) (db w))\<rparr>"
  using assms unfolding complete_operation_def
  by (elim body_elims)
     (auto simp: require_returned settle_claim_def rows_affected_def filter_empty_conv intro!: that)

lemma event_returned:
  assumes "append_object_event oid ty details w = (Inr u, w')"
  obtains fs e where "w' = w\<lparr>faults := fs, db := (db w)\<lparr>object_events := object_events (db w) @ [e]\<rparr>\<rparr>"
    and "e = \<lparr>oev_object_id = oid, oev_event_type = ty, oev_source = ''controller'',
              oev_actor_user_id = None, oev_details = details\<rparr>"
  using assms unfolding append_object_event_def by (elim statement_returned) (auto intro!: that)

lemma cancel_returned:
  assumes "cancel_operation now operation reason w = (Inr u, w')"
  shows "(\<exists>r \<in> set (operations (db w)). claim_of operation r) \<and> objects (db w') = objects (db w)"
  using assms unfolding cancel_operation_def
  by (elim body_elims)
     (auto simp: require_returned settle_claim_def rows_affected_def filter_empty_conv
       elim!: event_returned)

lemma settle_returned:
  assumes "statement (settle_claim operation v) w = (Inr n, w')"
  obtains fs where "n \<noteq> 0 \<longleftrightarrow> (\<exists>r \<in> set (operations (db w)). claim_of operation r)"
    and "w' = w\<lparr>faults := fs, db := snd (settle_claim operation v (db w))\<rparr>"
  using assms
  by (elim statement_returned)
     (auto simp: settle_claim_def rows_affected_def filter_empty_conv intro!: that)

lemma commit_returned: "then_commit p = (Inr r, w') \<longleftrightarrow> r = Commit () \<and> (\<exists>x. p = (Inr x, w'))"
  by (auto simp: then_commit_def elim!: and_then_Inr_cases)

section \<open>A lost claim\<close>

definition claim_held :: "object_operation \<Rightarrow> object_db \<Rightarrow> bool" where
  "claim_held operation d \<longleftrightarrow> (\<exists>r \<in> set (operations d). claim_of operation r)"

lemma claim_held_simps [simp]:
  "claim_held operation (snd (expire_upload_sql ob d)) = claim_held operation d"
  "claim_held operation (snd (mark_deleted_sql now ob d)) = claim_held operation d"
  "claim_held operation (d\<lparr>object_events := es\<rparr>) = claim_held operation d"
  "claim_held operation (d\<lparr>objects := os\<rparr>) = claim_held operation d"
  "claim_held operation (insert_operation now x d) = claim_held operation d"
  by (auto simp: claim_held_def expire_upload_sql_def mark_deleted_sql_def Let_def
      insert_operation_def new_operation_def split: prod.splits)

lemma settle_count [simp]:
  "0 < fst (settle_claim operation v d) \<longleftrightarrow> claim_held operation d"
  "fst (settle_claim operation v d) = 0 \<longleftrightarrow> \<not> claim_held operation d"
  by (auto simp: settle_claim_def claim_held_def rows_affected_pos rows_affected_0)

lemma settle_result:
  "snd (settle_claim operation v d) =
     d\<lparr>operations := update_where (claim_of operation) (settle_operation v) (operations d)\<rparr>"
  by (simp add: settle_claim_def)

lemma cancel_held: "cancel_operation now operation reason w = (Inr u, w') \<Longrightarrow> claim_held operation (db w)"
  by (auto simp: claim_held_def dest!: cancel_returned)

lemma complete_held: "complete_operation now operation w = (Inr u, w') \<Longrightarrow> claim_held operation (db w)"
  by (auto simp: claim_held_def elim!: complete_returned)

text \<open>The bodies of the three handlers: what a committed execution went through.\<close>

lemma settle_held: "statement (settle_claim operation v) w = (Inr n, w') \<Longrightarrow> n \<noteq> 0 \<longleftrightarrow> claim_held operation (db w)"
  by (auto simp: claim_held_def elim!: settle_returned)

lemma fetch_one_returned:
  assumes "fetch_one (statement q w) = (Inr x, w')"
  obtains fs where "fst (q (db w)) = Some x" and "w' = w\<lparr>faults := fs, db := snd (q (db w))\<rparr>"
  using assms unfolding fetch_one_def
  by (elim body_elims) (auto split: option.splits intro!: that)

lemmas run_elims = and_then_Inr_cases load_returned fetch_one_returned event_returned
  statement_returned delete_stored_returned is_absent_returned

lemmas held_dests = cancel_held complete_held settle_held

lemma reconcile_commit_held:
  "reconcile_upload_tx operation now w = (Inr (Commit ()), w') \<Longrightarrow> claim_held operation (db w)"
  by (auto simp: reconcile_upload_tx_def Let_def commit_returned cancel_stale_operation_def
      split: if_splits elim!: run_elims dest!: held_dests)

lemma delete_upload_commit_held:
  "delete_upload_tx lim svc cfg operation now w = (Inr (Commit ()), w') \<Longrightarrow> claim_held operation (db w)"
  by (auto simp: delete_upload_tx_def commit_returned cancel_stale_operation_def require_returned
      split: if_splits elim!: run_elims dest!: held_dests)

lemma defer_returned:
  assumes "defer_final_delete_for_staging_cleanup now cfg operation w = (Inr b, w')"
  shows "objects (db w') = objects (db w) \<and> object_store w' = object_store w \<and>
    (if b then claim_held operation (db w) else db w' = db w) \<and>
    (b \<longleftrightarrow> staging_cleanup_retry_at (staging_gate_sql now operation
         (duration_seconds (cfg_maintenance_interval cfg))
         (duration_seconds (cfg_stale_claim_after cfg)) (db w)) \<noteq> None)"
  using assms unfolding defer_final_delete_for_staging_cleanup_def
  by (auto simp: require_returned split: option.splits if_splits
      elim!: and_then_Inr_cases statement_returned)

lemma delete_object_commit_held:
  "delete_object_tx svc cfg operation now w = (Inr (Commit ()), w') \<Longrightarrow> claim_held operation (db w)"
  by (auto simp: delete_object_tx_def commit_returned cancel_stale_operation_def require_returned
      split: if_splits elim!: run_elims dest!: held_dests dest!: defer_returned)

text \<open>
  Lost claims are fenced: when no row is claimed by this worker under the operation's id,
  executing the operation and recording its failure leave every table as the other connections
  left it.
\<close>

theorem object_lost_claim_changes_nothing:
  assumes "op_operation operation \<noteq> Op_Verify_Upload"
    and "\<forall>r \<in> set (operations (db (interleave w))).
      row_id r = op_id operation \<longrightarrow> row_status r = Claimed \<longrightarrow>
      row_claimed_by r \<noteq> Some (op_claimed_by operation)"
  shows "db (snd (execute_operation lim svc cfg operation w)) = db (interleave w) \<and>
    db (snd (ObjectMaintenance.schedule_retry operation n e w)) = db (interleave w)"
proof -
  have unheld: "\<not> claim_held operation (db (interleave w))"
    using assms(2) by (auto simp: claim_held_def)
  then have same: "snd (settle_claim operation v (db (interleave w))) = db (interleave w)" for v
    unfolding settle_claim_def snd_conv
    by (subst update_where_none) (auto simp: claim_held_def rows_affected_0)
  have tx: "db (snd (transaction body w)) = db (interleave w)"
    if "\<And>now v w'. body now v = (Inr (Commit ()), w') \<Longrightarrow> claim_held operation (db v)" for body
  proof (cases "transaction body w")
    case (Pair r w')
    show ?thesis
    proof (cases r)
      case (Inl e)
      with Pair transaction_error show ?thesis by fastforce
    next
      case (Inr x)
      with Pair have "transaction body w = (Inr (), w')" by simp
      then show ?thesis
        by (rule transaction_returned) (use that unheld Pair in fastforce)
    qed
  qed
  have "db (snd (execute_operation lim svc cfg operation w)) = db (interleave w)"
    using assms(1) tx [OF reconcile_commit_held] tx [OF delete_upload_commit_held]
      tx [OF delete_object_commit_held]
    by (cases "op_operation operation")
       (simp_all add: execute_operation_def reconcile_upload_def delete_upload_def delete_object_def)
  moreover have "db (snd (ObjectMaintenance.schedule_retry operation n e w)) = db (interleave w)"
  proof -
    have "db (snd (and_then (on_pool (settle_claim operation v) w) (\<lambda>_ w. (Inr (), w)))) =
        db (interleave w)" for v
    proof -
      obtain r w' where s: "statement (settle_claim operation v) (interleave w) = (r, w')"
        by fastforce
      with statement_result [OF s] same show ?thesis
        by (cases r) (auto simp: on_pool_def)
    qed
    moreover have "db (snd (transaction (\<lambda>now w.
          and_then (statement (settle_claim operation (Op_Fail now e')) w) (\<lambda>n w.
          if n = 0 then (Inr (Rollback ()), w)
          else then_commit (append_object_event oid ty details w))) w)) = db (interleave w)"
      for e' oid ty details
      by (rule tx) (auto split: if_splits elim!: run_elims)
    ultimately show ?thesis
      by (simp add: ObjectMaintenance.schedule_retry_def Let_def)
  qed
  ultimately show ?thesis ..
qed

section \<open>Deletion\<close>

lemma interleave_frame [simp]:
  "object_store (interleave w) = object_store w" "clock (interleave w) = clock w"
  by (simp_all add: interleave_def split: list.splits)

lemma find_unique:
  "distinct (map obj_id os) \<Longrightarrow> ob \<in> set os \<Longrightarrow> List.find (\<lambda>x. obj_id x = obj_id ob) os = Some ob"
  by (induction os) auto

lemma find_obj_id: "List.find (\<lambda>x. obj_id x = i) os = Some ob \<Longrightarrow> obj_id ob = i \<and> ob \<in> set os"
  by (auto simp: find_Some_iff)

lemma complete_objects:
  "complete_operation now operation w = (Inr u, w') \<Longrightarrow>
     claim_held operation (db w) \<and> objects (db w') = objects (db w)"
  by (auto simp: claim_held_def elim!: complete_returned)

text \<open>What a committed final delete that changed the objects went through.\<close>

lemma delete_object_marks:
  assumes "delete_object_tx svc cfg operation now w = (Inr (Commit ()), w')"
    and "objects (db w') \<noteq> objects (db w)"
  shows "\<exists>ob code elapsed s.
    List.find (\<lambda>x. obj_id x = op_object_id operation) (objects (db w)) = Some ob \<and>
    obj_status ob = Obj_Deleting \<and> obj_revision ob = op_object_revision operation \<and>
    obj_bucket ob = svc_bucket_name svc \<and>
    staging_cleanup_retry_at (staging_gate_sql now operation
      (duration_seconds (cfg_maintenance_interval cfg))
      (duration_seconds (cfg_stale_claim_after cfg)) (db w)) = None \<and>
    svc_request svc (Delete_Object (obj_object_key ob)) (object_store w) = (Some code, elapsed, s) \<and>
    (is_success code \<or> code = 404) \<and>
    objects (db w') = objects (snd (mark_deleted_sql now ob (db w)))"
  using assms
  by (auto simp: delete_object_tx_def commit_returned cancel_stale_operation_def require_returned
      split: if_splits elim!: run_elims dest!: complete_objects cancel_returned defer_returned)

text \<open>An object that ends deleted was marked by the final delete of its own operation.\<close>

lemma marked_object:
  assumes "distinct (map obj_id os)" "a \<in> set os" "obj_status a \<noteq> Obj_Deleted"
    and "b \<in> set (update_where P f os)" "obj_id b = obj_id a" "obj_status b = Obj_Deleted"
    and "\<And>r. P r \<Longrightarrow> obj_id (f r) = obj_id r"
  shows "P a \<and> b = f a"
proof -
  from assms(4) obtain c where c: "c \<in> set os" "b = (if P c then f c else c)"
    by (auto simp: update_where_def)
  with assms(5,7) have "obj_id c = obj_id a" by (auto split: if_splits)
  with assms(1,2) c(1) have "c = a" by (auto intro: distinct_map_eq)
  with c assms(3,6) show ?thesis by (auto split: if_splits)
qed

text \<open>
  C19. The final delete is justified: an object that \<open>delete_object\<close> turns \<open>deleted\<close> was \<open>deleting\<close>
  at the operation's revision and in the configured bucket, no staging cleanup of it was
  outstanding, the worker held its claim, and the object store had acknowledged the \<open>DELETE\<close> of
  its key (or no longer had it); the revision then rises by one.
\<close>

theorem final_delete_justified:
  assumes "delete_object svc cfg operation w = (r, w')"
    and "object_db_ok (db (interleave w))"
    and "ob \<in> set (objects (db (interleave w)))" and "obj_status ob \<noteq> Obj_Deleted"
    and "ob' \<in> set (objects (db w'))" and "obj_id ob' = obj_id ob" and "obj_status ob' = Obj_Deleted"
  shows "r = Inr () \<and> obj_id ob = op_object_id operation \<and> obj_status ob = Obj_Deleting \<and>
    obj_revision ob = op_object_revision operation \<and> obj_revision ob' = obj_revision ob + 1 \<and>
    obj_bucket ob = svc_bucket_name svc \<and> claim_held operation (db (interleave w)) \<and>
    staging_cleanup_retry_at (staging_gate_sql (clock w) operation
      (duration_seconds (cfg_maintenance_interval cfg))
      (duration_seconds (cfg_stale_claim_after cfg)) (db (interleave w))) = None \<and>
    (\<exists>code elapsed s.
       svc_request svc (Delete_Object (obj_object_key ob)) (object_store w) = (Some code, elapsed, s) \<and>
       (is_success code \<or> code = 404))"
proof -
  let ?d = "db (interleave w)"
  have dist: "distinct (map obj_id (objects ?d))" using assms(2) by (simp add: object_db_ok_def)
  have changed: "objects (db w') \<noteq> objects ?d"
    using assms(3-7) dist by (metis distinct_map_eq)
  have r: "r = Inr ()"
    using assms(1) changed by (cases r) (auto simp: delete_object_def dest!: transaction_error)
  have "transaction (delete_object_tx svc cfg operation) w = (Inr (), w')"
    using assms(1) r by (simp add: delete_object_def)
  then obtain fs w2 where
    tx: "delete_object_tx svc cfg operation (clock w) (interleave w\<lparr>faults := fs\<rparr>) = (Inr (Commit ()), w2)"
    and db: "db w' = db w2"
    by (rule transaction_returned) (use changed in auto)
  have held: "claim_held operation ?d"
    using delete_object_commit_held [OF tx] by simp
  from delete_object_marks [OF tx] db changed obtain x code elapsed s where
    x: "List.find (\<lambda>x. obj_id x = op_object_id operation) (objects ?d) = Some x"
      "obj_status x = Obj_Deleting" "obj_revision x = op_object_revision operation"
      "obj_bucket x = svc_bucket_name svc"
    and gate: "staging_cleanup_retry_at (staging_gate_sql (clock w) operation
        (duration_seconds (cfg_maintenance_interval cfg))
        (duration_seconds (cfg_stale_claim_after cfg)) ?d) = None"
    and acked: "svc_request svc (Delete_Object (obj_object_key x)) (object_store w) =
        (Some code, elapsed, s)" "is_success code \<or> code = 404"
    and objs: "objects (db w2) = objects (snd (mark_deleted_sql (clock w) x ?d))"
    by auto
  from find_obj_id [OF x(1)] have xm: "obj_id x = op_object_id operation" "x \<in> set (objects ?d)"
    by auto
  have "ob' \<in> set (update_where (\<lambda>r. obj_id r = obj_id x \<and> obj_revision r = obj_revision x \<and>
        obj_status r = Obj_Deleting)
      (\<lambda>r. r\<lparr>obj_status := Obj_Deleted,
          obj_deleted_at := (case obj_deleted_at r of None \<Rightarrow> Some (clock w) | Some t \<Rightarrow> Some t),
          obj_revision := obj_revision r + 1\<rparr>) (objects ?d))"
    using assms(5) db objs by (simp add: mark_deleted_sql_def Let_def)
  from marked_object [OF dist assms(3,4) this assms(6,7)]
  have ob: "obj_id ob = obj_id x" "obj_revision ob' = obj_revision ob + 1" by auto
  with xm assms(3) dist have "ob = x" by (metis distinct_map_eq)
  with ob x xm gate acked r held show ?thesis by auto
qed

text \<open>What a committed staging cleanup went through: it was cancelled, deferred or finished.\<close>

lemma event_frame:
  "append_object_event oid ty details w = (Inr u, w') \<Longrightarrow>
     operations (db w') = operations (db w) \<and> clock w' = clock w \<and> object_store w' = object_store w"
  by (elim event_returned) simp

lemma settled_row:
  assumes "distinct (map row_id ps)" and "p \<in> set ps" "claim_of operation p"
    and "q \<in> set (update_where (claim_of operation) (settle_operation v) ps)" "row_id q = op_id operation"
  shows "row_status q = op_target v"
proof -
  from assms(4) obtain c where c: "c \<in> set ps"
      "q = (if claim_of operation c then settle_operation v c else c)"
    by (auto simp: update_where_def)
  with assms(5) have "row_id c = op_id operation"
    by (auto simp: object_queue.ident_settle split: if_splits)
  with assms(1-3) c(1) have "c = p" by (auto intro: distinct_map_eq)
  with c assms(3) show ?thesis by (simp add: object_queue.status_settle)
qed

lemma cancel_operations:
  "cancel_operation now operation reason w = (Inr u, w') \<Longrightarrow> claim_held operation (db w) \<and>
     operations (db w') = update_where (claim_of operation) (settle_operation (Op_Cancel now reason))
       (operations (db w))"
  unfolding cancel_operation_def
  by (auto simp: require_returned settle_claim_def claim_held_def rows_affected_pos
      elim!: and_then_Inr_cases statement_returned event_returned)

lemma delete_upload_completes:
  assumes "delete_upload_tx lim svc cfg operation now w = (Inr (Commit ()), w')"
    and "distinct (map row_id (operations (db w)))"
    and "p \<in> set (operations (db w'))" "row_id p = op_id operation" "row_status p = Completed"
  shows "\<exists>ob t code elapsed s elapsed' s'.
    List.find (\<lambda>x. obj_id x = op_object_id operation) (objects (db w)) = Some ob \<and>
    obj_revision ob = op_object_revision operation \<and>
    svc_request svc (Delete_Object (obj_upload_key ob)) (object_store w) = (Some code, elapsed, s) \<and>
    (is_success code \<or> code = 404) \<and>
    terminal_staging_cleanup_at lim (obj_upload_expires_at ob) (cfg_max_upload_duration cfg) = Inr t \<and>
    t \<le> clock w + elapsed \<and>
    svc_request svc (Head_Object (obj_upload_key ob)) s = (Some 404, elapsed', s')"
proof -
  have settled: "op_target v = Completed"
    if "p \<in> set (update_where (claim_of operation) (settle_operation v) (operations (db w)))"
      "claim_held operation (db w)" for v
    using settled_row [OF assms(2) _ _ that(1) assms(4)] that(2) assms(5)
    by (auto simp: claim_held_def)
  from assms(1,3-5) show ?thesis
    by (auto simp: delete_upload_tx_def commit_returned cancel_stale_operation_def require_returned
        settle_claim_def claim_held_def [symmetric] rows_affected_pos not_less
        split: if_splits elim!: run_elims dest!: settled cancel_operations)
qed

text \<open>
  C36. The staging copy is final: when \<open>delete_upload\<close> leaves its operation completed, the longest
  upload that could still write the staging key had expired (five seconds after the signed URL's
  expiry plus the maximal upload duration), the store had acknowledged the \<open>DELETE\<close>, and the
  \<open>HEAD\<close> after it found no object.
\<close>

theorem staging_cleanup_is_final:
  assumes "delete_upload lim svc cfg operation w = (r, w')"
    and "object_db_ok (db (interleave w))"
    and "claim_held operation (db (interleave w))"
    and "p \<in> set (operations (db w'))" and "row_id p = op_id operation" and "row_status p = Completed"
  shows "r = Inr () \<and> (\<exists>ob code elapsed s elapsed' s'.
    ob \<in> set (objects (db (interleave w))) \<and> obj_id ob = op_object_id operation \<and>
    obj_revision ob = op_object_revision operation \<and>
    obj_upload_expires_at ob + min (cfg_max_upload_duration cfg + secs 5) (std_duration_max lim)
      \<le> clock w + elapsed \<and>
    svc_request svc (Delete_Object (obj_upload_key ob)) (object_store w) = (Some code, elapsed, s) \<and>
    (is_success code \<or> code = 404) \<and>
    svc_request svc (Head_Object (obj_upload_key ob)) s = (Some 404, elapsed', s'))"
proof -
  let ?d = "db (interleave w)"
  have dist: "distinct (map row_id (operations ?d))" using assms(2) by (simp add: object_ok_defs)
  have changed: "operations (db w') \<noteq> operations ?d"
    using assms(3-6) dist by (auto simp: claim_held_def dest: distinct_map_eq)
  have r: "r = Inr ()"
    using assms(1) changed by (cases r) (auto simp: delete_upload_def dest!: transaction_error)
  have "transaction (delete_upload_tx lim svc cfg operation) w = (Inr (), w')"
    using assms(1) r by (simp add: delete_upload_def)
  then obtain fs w2 where
    tx: "delete_upload_tx lim svc cfg operation (clock w) (interleave w\<lparr>faults := fs\<rparr>) = (Inr (Commit ()), w2)"
    and db: "db w' = db w2"
    by (rule transaction_returned) (use changed in auto)
  from delete_upload_completes [OF tx, of p] dist db assms(4-6) r show ?thesis
    by (auto simp: terminal_staging_cleanup_at_def saturating_duration_add_def Let_def
        split: if_splits dest!: find_obj_id)
qed

text \<open>
  C35. The final delete finishes: with the claim held on a deleting object whose staging copy is
  settled, a store that acknowledges the \<open>DELETE\<close> (or no longer has the key, as after an earlier
  attempt that died before its commit) and no database failure, the object ends deleted one
  revision later, the event is logged and the operation completed.
\<close>

theorem final_delete_finishes:
  assumes "turns w = []" and "faults w = []"
    and "List.find (\<lambda>x. obj_id x = op_object_id operation) (objects (db w)) = Some ob"
    and "obj_status ob = Obj_Deleting" and "obj_revision ob = op_object_revision operation"
    and "obj_bucket ob = svc_bucket_name svc" and "obj_object_key ob \<noteq> []"
    and "distinct (map obj_id (objects (db w)))" and "claim_held operation (db w)"
    and "staging_cleanup_retry_at (staging_gate_sql (clock w) operation
      (duration_seconds (cfg_maintenance_interval cfg))
      (duration_seconds (cfg_stale_claim_after cfg)) (db w)) = None"
    and "svc_request svc (Delete_Object (obj_object_key ob)) (object_store w) = (Some code, elapsed, s)"
    and "is_success code \<or> code = 404"
  shows "delete_object svc cfg operation w = (Inr (),
    w\<lparr>object_store := s, clock := clock w + elapsed,
      db := (db w)
        \<lparr>objects := update_where (\<lambda>r. obj_id r = obj_id ob)
           (\<lambda>r. r\<lparr>obj_status := Obj_Deleted,
                  obj_deleted_at := Some (case obj_deleted_at r of None \<Rightarrow> clock w | Some t \<Rightarrow> t),
                  obj_revision := obj_revision r + 1\<rparr>) (objects (db w)),
         operations := update_where (claim_of operation) (settle_operation (Op_Complete (clock w)))
           (operations (db w)),
         object_events := object_events (db w) @
           [\<lparr>oev_object_id = obj_id ob, oev_event_type = ''object_deleted'',
             oev_source = ''controller'', oev_actor_user_id = None,
             oev_details = JObj [(''operation_id'', json_uuid (op_id operation))]\<rparr>]\<rparr>\<rparr>)"
    (is "_ = (_, ?w)")
proof -
  have ob: "ob \<in> set (objects (db w))" using find_obj_id [OF assms(3)] by simp
  have only: "r = ob" if "r \<in> set (objects (db w))" "obj_id r = obj_id ob" for r
    using that ob assms(8) by (auto intro: distinct_map_eq)
  have mark: "mark_deleted_sql (clock w) ob d =
      (1, d\<lparr>objects := update_where (\<lambda>r. obj_id r = obj_id ob)
           (\<lambda>r. r\<lparr>obj_status := Obj_Deleted,
                  obj_deleted_at := Some (case obj_deleted_at r of None \<Rightarrow> clock w | Some t \<Rightarrow> t),
                  obj_revision := obj_revision r + 1\<rparr>) (objects d)\<rparr>)"
    if "objects d = objects (db w)" for d
  proof -
    have "length (filter (\<lambda>r. obj_id r = obj_id ob) os) = 1"
      if "distinct (map obj_id os)" "ob \<in> set os" for os
      using that by (induction os) (auto simp: filter_empty_conv image_iff)
    with assms(8) ob have "rows_affected (\<lambda>r. obj_id r = obj_id ob) (objects (db w)) = 1"
      by (simp add: rows_affected_def)
    moreover have "filter (\<lambda>r. obj_id r = obj_id ob \<and> obj_revision r = obj_revision ob \<and>
        obj_status r = Obj_Deleting) (objects (db w)) = filter (\<lambda>r. obj_id r = obj_id ob) (objects (db w))"
      using only assms(4) by (intro filter_cong) auto
    moreover have "update_where (\<lambda>r. obj_id r = obj_id ob \<and> obj_revision r = obj_revision ob \<and>
        obj_status r = Obj_Deleting) f (objects (db w)) =
        update_where (\<lambda>r. obj_id r = obj_id ob) f (objects (db w))" for f
      unfolding update_where_def using only assms(4) by (intro map_cong) auto
    ultimately show ?thesis
      using that by (simp add: mark_deleted_sql_def Let_def rows_affected_def option.case_distrib
          cong: option.case_cong)
  qed
  have "delete_object_tx svc cfg operation (clock w) w = (Inr (Commit ()), ?w)"
    using assms mark
    by (simp add: delete_object_tx_def load_object_for_update_def then_commit_def run_simps
        defer_final_delete_for_staging_cleanup_def delete_stored_def http_call_def
        append_object_event_def complete_operation_def settle_result)
  then show ?thesis
    using assms(1,2) by (simp add: delete_object_def run_simps)
qed

section \<open>Claims and retries\<close>

text \<open>
  A claim takes the first due row: it was pending, due, of a kind the worker executes and not
  locked by another, no other such row comes before it in \<open>available_at, created_at\<close>, its attempt
  is counted, and afterwards this worker holds it while every other row is as before.
\<close>

theorem object_claim_takes_first_due:
  assumes "object_db_ok d" and "claim_operation_sql locked now wk d = (Some operation, d')"
  shows "\<exists>r \<in> set (operations d).
    row_id r = op_id operation \<and> row_status r = Pending \<and> row_available_at r \<le> now \<and>
    row_operation r = op_operation operation \<and> row_operation r \<noteq> Op_Verify_Upload \<and>
    row_id r \<notin> locked \<and> op_attempts operation = row_attempts r + 1 \<and>
    (\<forall>q \<in> set (operations d). claimable_operation locked now q \<longrightarrow>
       row_available_at r < row_available_at q \<or>
       (row_available_at r = row_available_at q \<and> row_created_at r \<le> row_created_at q)) \<and>
    claim_held operation d' \<and>
    (\<forall>q \<in> set (operations d). q \<noteq> r \<longrightarrow> q \<in> set (operations d')) \<and>
    objects d' = objects d"
proof -
  let ?key = "\<lambda>r. (row_available_at r, row_created_at r)"
  from assms(2) obtain r where f: "first_by ?key (claimable_operation locked now) (operations d) = Some r"
    and op: "operation = \<lparr>op_id = row_id r, op_object_id = row_object_id r,
      op_operation = row_operation r, op_object_revision = row_revision r,
      op_attempts = row_attempts r + 1, op_claimed_by = wk\<rparr>"
    and d': "d' = d\<lparr>operations := update_where (\<lambda>q. row_id q = row_id r) (take_operation now wk)
                (operations d)\<rparr>"
    by (auto simp: claim_operation_sql_def split: option.splits)
  from first_by_Some [OF f] have r: "r \<in> set (operations d)" "claimable_operation locked now r"
    "\<forall>q \<in> set (operations d). claimable_operation locked now q \<longrightarrow> ?key r \<le> ?key q"
    by auto
  have "take_operation now wk r \<in> set (operations d')"
    using r(1) d' by (auto simp: set_update_where)
  then have held: "claim_held operation d'"
    by (auto simp: claim_held_def op take_operation_fields intro!: bexI [of _ "take_operation now wk r"])
  have others: "q \<in> set (operations d')" if "q \<in> set (operations d)" "q \<noteq> r" for q
    using that r(1) assms(1) d'
    by (auto simp: set_update_where object_db_ok_def dest: unique_row)
  from r held others d' op show ?thesis
    by (intro bexI [of _ r]) (auto simp: claimable_operation_def)
qed

text \<open>
  Failures are retried with a bounded backoff and then recorded: with the claim held and no
  database failure, a failed attempt below the limit releases the row, due again 10 to 300 seconds
  later, and the attempt that reaches the limit ends the row as failed and logs the event; the
  error is kept to 1000 characters either way.
\<close>

theorem object_retry_schedule:
  assumes "turns w = []" and "faults w = []"
    and "r \<in> set (operations (db w))" and "claim_of operation r"
  shows "\<exists>r' \<in> set (operations (db (snd (ObjectMaintenance.schedule_retry operation n e w)))).
    row_id r' = row_id r \<and> row_revision r' = row_revision r \<and> row_attempts r' = row_attempts r \<and>
    (\<exists>e'. row_last_error r' = Some e' \<and> char_count e' \<le> 1000 \<and> (\<exists>rest. e = e' @ rest)) \<and>
    (if op_attempts operation < n
     then row_status r' = Pending \<and> row_claimed_by r' = None \<and>
       clock w + secs 10 \<le> row_available_at r' \<and> row_available_at r' \<le> clock w + secs 300
     else row_status r' = Failed \<and> row_completed_at r' = Some (clock w) \<and>
       (\<exists>ev \<in> set (object_events (db (snd (ObjectMaintenance.schedule_retry operation n e w)))).
          oev_object_id ev = op_object_id operation \<and> oev_event_type ev = ''maintenance_failed''))"
proof -
  have held: "claim_held operation (db w)" using assms(3,4) by (auto simp: claim_held_def)
  have err: "char_count (truncate_text e 1000) \<le> 1000" "\<exists>rest. e = truncate_text e 1000 @ rest"
    using char_count_truncate take_chars_prefix by (auto simp: truncate_text_def)
  have settled: "settle_operation v r \<in> set (update_where (claim_of operation) (settle_operation v)
      (operations (db w)))" for v
    using assms(3,4) by (auto simp: set_update_where)
  show ?thesis
  proof (cases "op_attempts operation < n")
    case True
    let ?v = "Op_Retry (clock w + secs (retry_backoff_seconds (op_attempts operation)))
                (truncate_text e 1000)"
    have "operations (db (snd (ObjectMaintenance.schedule_retry operation n e w))) =
        update_where (claim_of operation) (settle_operation ?v) (operations (db w))"
      using True assms(1,2)
      by (simp add: ObjectMaintenance.schedule_retry_def run_simps settle_result Let_def)
    with settled [of ?v] True err retry_backoff_bounds [of "op_attempts operation"] show ?thesis
      by (intro bexI [of _ "settle_operation ?v r"]) auto
  next
    case False
    let ?v = "Op_Fail (clock w) (truncate_text e 1000)"
    have "operations (db (snd (ObjectMaintenance.schedule_retry operation n e w))) =
        update_where (claim_of operation) (settle_operation ?v) (operations (db w))"
      and "\<exists>ev \<in> set (object_events (db (snd (ObjectMaintenance.schedule_retry operation n e w)))).
          oev_object_id ev = op_object_id operation \<and> oev_event_type ev = ''maintenance_failed''"
      using False assms(1,2) held
      by (simp_all add: ObjectMaintenance.schedule_retry_def run_simps settle_result Let_def
          then_commit_def append_object_event_def)
    with settled [of ?v] False err show ?thesis
      by (intro bexI [of _ "settle_operation ?v r"]) auto
  qed
qed

section \<open>Sweeps\<close>

lemma insert_operation_covers:
  "\<exists>r \<in> set (operations (insert_operation now (oid, kind, rev', t) d)). open_operation oid kind r"
  by (auto simp: insert_operation_def open_operation_def new_operation_def)

lemma insert_operation_keeps:
  "r \<in> set (operations d) \<Longrightarrow> r \<in> set (operations (insert_operation now x d))"
  by (auto simp: insert_operation_def split: prod.splits)

lemma fold_insert_keeps:
  "r \<in> set (operations d) \<Longrightarrow> r \<in> set (operations (fold (insert_operation now) xs d))"
  by (induction xs arbitrary: d) (auto intro: insert_operation_keeps)

lemma fold_insert_covers:
  "(oid, kind, rev', t) \<in> set xs \<Longrightarrow>
     \<exists>r \<in> set (operations (fold (insert_operation now) xs d)). open_operation oid kind r"
proof (induction xs arbitrary: d)
  case Nil
  then show ?case by simp
next
  case (Cons x xs)
  show ?case
  proof (cases "x = (oid, kind, rev', t)")
    case True
    with insert_operation_covers [of now oid kind rev' t d] show ?thesis
      by (auto intro: fold_insert_keeps)
  next
    case False
    with Cons show ?thesis by simp
  qed
qed

lemma fold_insert_objects [simp]: "objects (fold (insert_operation now) xs d) = objects d"
  by (induction xs arbitrary: d) auto

text \<open>
  The deletion sweep is complete: after \<open>enqueue_missing_deletes\<close> every failed or deleting
  object has a final delete that is open, completed at its revision or failed within the safety
  interval, and every object past its upload has such a staging cleanup (completed at any
  revision).
\<close>

theorem deletion_sweep_complete:
  assumes "ob \<in> set (objects d)"
    and "obj_status ob \<in> {Obj_Failed, Obj_Deleting} \<and> kind = Op_Delete \<or>
      obj_status ob \<in> {Obj_Ready, Obj_Failed, Obj_Deleting, Obj_Deleted} \<and> kind = Op_Delete_Upload"
  shows "\<exists>r \<in> set (operations (snd (enqueue_missing_sql now retry_after d))).
    row_object_id r = obj_id ob \<and> row_operation r = kind \<and>
    (open_status (row_status r) \<or>
     (row_status r = Completed \<and> (kind = Op_Delete_Upload \<or> row_revision r = obj_revision ob)) \<or>
     recently_failed now retry_after (obj_id ob) kind (obj_revision ob) r)"
proof -
  let ?ops = "operations d"
  obtain t where want: "(obj_id ob, kind, obj_revision ob, t) \<in> set (desired_deletes now (objects d))"
    using assms by (auto simp: desired_deletes_def image_iff)
  let ?xs = "filter (delete_missing now retry_after ?ops) (desired_deletes now (objects d))"
  have result: "operations (snd (enqueue_missing_sql now retry_after d)) =
      operations (fold (insert_operation now) ?xs d)"
    by (simp add: enqueue_missing_sql_def insert_operations_def Let_def)
  show ?thesis
  proof (cases "delete_missing now retry_after ?ops (obj_id ob, kind, obj_revision ob, t)")
    case True
    with want have "(obj_id ob, kind, obj_revision ob, t) \<in> set ?xs" by simp
    from fold_insert_covers [OF this, of now d] result show ?thesis
      by (auto simp: open_operation_def)
  next
    case False
    then obtain r where "r \<in> set ?ops" "row_object_id r = obj_id ob" "row_operation r = kind"
      "open_status (row_status r) \<or>
       (row_status r = Completed \<and> (kind = Op_Delete_Upload \<or> row_revision r = obj_revision ob)) \<or>
       recently_failed now retry_after (obj_id ob) kind (obj_revision ob) r"
      by (auto simp: delete_missing_def open_operation_def recently_failed_def)
    then show ?thesis
      using fold_insert_keeps [of r d now ?xs] result by auto
  qed
qed

section \<open>Whole sessions\<close>

text \<open>
  The tables stay well formed: whatever fails and whatever other connections commit in between
  (as long as that is well formed too), a maintenance session leaves unique object and operation
  ids, at most one open operation per object and kind, consistent claims, and no operation ahead
  of its object's revision.
\<close>

theorem object_session_keeps_tables_ok:
  assumes "object_db_ok (db w)" and "\<forall>g \<in> set (turns w). \<forall>d. object_db_ok d \<longrightarrow> object_db_ok (g d)"
  shows "object_db_ok (db (snd (connected_object_session installed lim svc cfg wk stop waits w)))"
proof -
  have "safe object_db_ok w" using assms by (simp add: safe_def turns_keep_def)
  from preservesD [OF tables_ok.preserves_session this] show ?thesis by (simp add: safe_def)
qed

text \<open>
  Objects only move forward: executing an operation leaves every object as it was, or expires a
  pending upload (failed, next revision), or finishes a deletion (deleted, deletion time set, next
  revision); no object appears, disappears or changes its keys.
\<close>

theorem objects_only_advance:
  assumes "op_operation operation \<noteq> Op_Verify_Upload" and "object_db_ok (db (interleave w))"
  shows "list_all2 object_advances (objects (db (interleave w)))
    (objects (db (snd (execute_operation lim svc cfg operation w))))"
proof -
  have "objects_advance (objects (db (interleave w))) (db (interleave w))"
    using assms(2) by (simp add: objects_advance_def object_advances_def list_all2_same)
  from atomicD [OF forward.atomic_execute [OF assms(1)] this] show ?thesis
    by (simp add: objects_advance_def)
qed

text \<open>
  The worker wakes in time: the wait it computes is never longer than the maintenance interval
  and ends, at the latest, when any pending operation it executes is due or any unexpired claim
  expires (10 ms from now for an operation that is overdue).
\<close>

theorem object_wake_in_time:
  assumes "turns w = []" and "faults w = []"
  shows "\<exists>delay. next_object_wake_delay maximum stale w = (Inr delay, w) \<and> delay \<le> maximum \<and>
    (\<forall>r \<in> set (operations (db w)).
       row_status r = Pending \<and> row_operation r \<noteq> Op_Verify_Upload \<longrightarrow>
       clock w + delay \<le> max (row_available_at r) (clock w + millis 10)) \<and>
    (\<forall>r \<in> set (operations (db w)). \<forall>t.
       row_status r = Claimed \<and> row_claimed_at r = Some t \<and>
       clock w < t + secs (duration_seconds stale) \<longrightarrow>
       clock w + delay \<le> max (t + secs (duration_seconds stale)) (clock w + millis 10))"
proof -
  let ?pend = "map row_available_at (filter (\<lambda>r. row_status r = Pending \<and>
         row_operation r \<in> {Op_Reconcile, Op_Delete_Upload, Op_Delete}) (operations (db w)))"
  let ?stale = "filter (\<lambda>t. t > clock w)
         (map (\<lambda>t. t + secs (duration_seconds stale))
           (opt_list (map row_claimed_at (filter (\<lambda>r. row_status r = Claimed) (operations (db w))))))"
  let ?sources = "[min_list_opt ?pend, min_list_opt ?stale]"
  let ?delay = "wake_delay (clock w) (min_list_opt (opt_list ?sources)) maximum"
  have run: "next_object_wake_delay maximum stale w = (Inr ?delay, w)"
    using assms by (simp add: next_object_wake_delay_def run_simps)
  have pending: "clock w + ?delay \<le> max (row_available_at r) (clock w + millis 10)"
    if "r \<in> set (operations (db w))" "row_status r = Pending" "row_operation r \<noteq> Op_Verify_Upload" for r
  proof (rule wake_delay_in_time)
    show "row_available_at r \<in> set ?pend" using that by (cases "row_operation r") auto
  qed simp
  have claimed: "clock w + ?delay \<le> max (t + secs (duration_seconds stale)) (clock w + millis 10)"
    if "r \<in> set (operations (db w))" "row_status r = Claimed" "row_claimed_at r = Some t"
      "clock w < t + secs (duration_seconds stale)" for r t
  proof (rule wake_delay_in_time)
    from that(1,2) have "row_claimed_at r \<in> set (map row_claimed_at
        (filter (\<lambda>r. row_status r = Claimed) (operations (db w))))"
      by simp
    with that(3) have "t \<in> set (opt_list (map row_claimed_at
        (filter (\<lambda>r. row_status r = Claimed) (operations (db w)))))"
      by (simp only: set_opt_list mem_Collect_eq)
    with that(4) show "t + secs (duration_seconds stale) \<in> set ?stale" by (simp del: set_opt_list)
  qed simp
  show ?thesis
    by (intro exI [of _ ?delay] conjI run wake_delay_le ballI allI impI;
        (elim conjE)?; (rule pending claimed; assumption)?)
qed

section \<open>Concrete instances\<close>

text \<open>A deleting object with both copies in the store, its final delete claimed by worker \<open>w\<close>; an
  object store that is the list of its keys; and the staging cleanup of the same object once the
  upload has expired.\<close>

definition sample_object :: stored_object where
  "sample_object = \<lparr>obj_id = 1, obj_bucket = ''b'', obj_object_key = ''final'', obj_upload_key = ''up'',
     obj_purpose = ''program'', obj_status = Obj_Deleting, obj_scope = ''user'', obj_owner_user_id = Some 7,
     obj_owner_team_id = None, obj_idempotency_key = Some ''k'', obj_category_id = None,
     obj_challenge_id = Some 3, obj_page_id = None, obj_solution_id = None, obj_filename = ''f'',
     obj_content_type = ''a/b'', obj_expected_size = 1, obj_actual_size = None,
     obj_expected_checksum = replicate 64 (CHR ''a''), obj_actual_checksum = None, obj_etag = None,
     obj_metadata = JObj [], obj_upload_expires_at = 0, obj_created_at = - 1, obj_ready_at = None,
     obj_deleted_at = None, obj_revision = 3\<rparr>"

definition sample_row :: "object_op \<Rightarrow> operation_row" where
  "sample_row kind = (new_operation 0 7 (1, kind, 3, 0))
     \<lparr>row_status := Claimed, row_attempts := 1, row_claimed_at := Some 0, row_claimed_by := Some ''w''\<rparr>"

definition sample_claim :: "object_op \<Rightarrow> object_operation" where
  "sample_claim kind = \<lparr>op_id = 7, op_object_id = 1, op_operation = kind, op_object_revision = 3,
     op_attempts = 1, op_claimed_by = ''w''\<rparr>"

definition sample_service :: "string list object_service" where
  "sample_service = \<lparr>svc_request = (\<lambda>req keys. case req of
       Head_Bucket \<Rightarrow> (Some 200, 0, keys)
     | Head_Object k \<Rightarrow> (Some (if k \<in> set keys then 200 else 404), 0, keys)
     | Delete_Object k \<Rightarrow> (Some 204, 0, removeAll k keys)),
     svc_status_text = show_nat, svc_bucket_name = ''b''\<rparr>"

definition sample_config :: storage_config where
  "sample_config = \<lparr>cfg_maintenance_interval = secs 60, cfg_max_attempts = 8,
     cfg_max_upload_duration = secs 10, cfg_stale_claim_after = secs 60\<rparr>"

definition sample_limits :: time_limits where
  "sample_limits = \<lparr>std_duration_max = secs 1000000000, chrono_duration_max = secs 100000000,
     utc_max = secs 1000000000\<rparr>"

definition sample_object_world :: "object_op \<Rightarrow> string list object_world" where
  "sample_object_world kind = \<lparr>db = \<lparr>objects = [sample_object], categories = [], operations = [sample_row kind],
       object_events = [], next_operation_id = 8\<rparr>,
     turns = [], faults = [], clock = secs 100, object_store = [''final'', ''up''],
     shared_status = new_status 0, locked_operations = {}\<rparr>"

lemmas sample_defs = sample_object_def sample_row_def sample_claim_def sample_service_def
  sample_config_def sample_limits_def sample_object_world_def new_operation_def

lemma sample_ok: "object_db_ok (db (sample_object_world kind))"
  by (simp add: sample_defs object_ok_defs claim_consistent_def revision_known_def one_open_def)

lemma sample_frame [simp]:
  "turns (sample_object_world kind) = []" "faults (sample_object_world kind) = []"
  "interleave (sample_object_world kind) = sample_object_world kind"
  by (simp_all add: sample_object_world_def interleave_def)

lemma sample_kind: "op_operation (sample_claim kind) = kind"
  by (simp add: sample_claim_def)

lemmas run_handler = handler_defs run_simps delete_stored_def is_absent_def http_call_def
  is_success_def settle_result require_def sample_defs

lemma sample_delete:
  "delete_object sample_service sample_config (sample_claim Op_Delete) (sample_object_world Op_Delete) =
     (Inr (), snd (delete_object sample_service sample_config (sample_claim Op_Delete)
                (sample_object_world Op_Delete)))"
  "objects (db (snd (delete_object sample_service sample_config (sample_claim Op_Delete)
      (sample_object_world Op_Delete)))) =
     [sample_object\<lparr>obj_status := Obj_Deleted, obj_deleted_at := Some (secs 100), obj_revision := 4\<rparr>]"
  by (simp_all add: run_handler staging_gate_sql_def staging_cleanup_retry_at_def min_list_opt_def
      settle_claim_def rows_affected_def mark_deleted_sql_def)

theorem object_lost_claim_changes_nothing_witness:
  "db (snd (execute_operation sample_limits sample_service sample_config
     (sample_claim Op_Delete\<lparr>op_claimed_by := ''x''\<rparr>) (sample_object_world Op_Delete))) =
   db (sample_object_world Op_Delete)"
proof -
  let ?op = "sample_claim Op_Delete\<lparr>op_claimed_by := ''x''\<rparr>"
  have "op_operation ?op \<noteq> Op_Verify_Upload"
    and "\<forall>r \<in> set (operations (db (interleave (sample_object_world Op_Delete)))).
      row_id r = op_id ?op \<longrightarrow> row_status r = Claimed \<longrightarrow> row_claimed_by r \<noteq> Some (op_claimed_by ?op)"
    by (simp_all add: sample_defs interleave_def)
  from object_lost_claim_changes_nothing [OF this, of sample_limits sample_service sample_config 8 "[]"]
  show ?thesis by simp
qed

theorem final_delete_justified_witness:
  "staging_cleanup_retry_at (staging_gate_sql (secs 100) (sample_claim Op_Delete)
      (duration_seconds (secs 60)) (duration_seconds (secs 60))
      (db (sample_object_world Op_Delete))) = None"
proof -
  let ?w = "sample_object_world Op_Delete"
  let ?b = "sample_object\<lparr>obj_status := Obj_Deleted, obj_deleted_at := Some (secs 100), obj_revision := 4\<rparr>"
  have "sample_object \<in> set (objects (db (interleave ?w)))" "obj_status sample_object \<noteq> Obj_Deleted"
    "?b \<in> set (objects (db (snd (delete_object sample_service sample_config (sample_claim Op_Delete) ?w))))"
    "obj_id ?b = obj_id sample_object" "obj_status ?b = Obj_Deleted"
    unfolding sample_delete(2) by (simp_all add: sample_defs interleave_def)
  from final_delete_justified [OF sample_delete(1) _ this] sample_ok show ?thesis
    by (simp add: sample_config_def sample_object_world_def interleave_def)
qed

lemma sample_staging:
  "operations (db (snd (delete_upload sample_limits sample_service sample_config
      (sample_claim Op_Delete_Upload) (sample_object_world Op_Delete_Upload)))) =
     [settle_operation (Op_Complete (secs 100)) (sample_row Op_Delete_Upload)]"
  by (simp add: run_handler settle_claim_def rows_affected_def terminal_staging_cleanup_at_def
      saturating_duration_add_def secs_def wake_final_delete_sql_def)

theorem staging_cleanup_is_final_witness:
  "\<exists>ob :: stored_object. obj_id ob = 1 \<and> obj_upload_expires_at ob + secs 15 \<le> secs 100"
proof -
  let ?w = "sample_object_world Op_Delete_Upload"
  let ?run = "delete_upload sample_limits sample_service sample_config (sample_claim Op_Delete_Upload) ?w"
  let ?p = "settle_operation (Op_Complete (secs 100)) (sample_row Op_Delete_Upload)"
  have held: "claim_held (sample_claim Op_Delete_Upload) (db (interleave ?w))"
    by (simp add: claim_held_def sample_defs interleave_def)
  have p: "?p \<in> set (operations (db (snd ?run)))" "row_id ?p = op_id (sample_claim Op_Delete_Upload)"
    "row_status ?p = Completed"
    unfolding sample_staging by (simp_all add: sample_defs)
  have ok: "object_db_ok (db (interleave ?w))" using sample_ok by simp
  from staging_cleanup_is_final [OF prod.collapse [symmetric] ok held p]
  obtain ob :: stored_object and code elapsed s where
    ob: "obj_id ob = op_object_id (sample_claim Op_Delete_Upload)"
    "obj_upload_expires_at ob + min (cfg_max_upload_duration sample_config + secs 5)
       (std_duration_max sample_limits) \<le> clock ?w + elapsed"
    "svc_request sample_service (Delete_Object (obj_upload_key ob)) (object_store ?w) = (Some code, elapsed, s)"
    by blast
  then have "elapsed = 0" by (simp add: sample_service_def)
  with ob(1,2) show ?thesis
    by (intro exI [of _ ob])
       (simp add: sample_config_def sample_limits_def sample_claim_def sample_object_world_def secs_def)
qed

theorem final_delete_finishes_witness:
  "objects (db (snd (delete_object sample_service sample_config (sample_claim Op_Delete)
      (sample_object_world Op_Delete)))) =
     [sample_object\<lparr>obj_status := Obj_Deleted, obj_deleted_at := Some (secs 100), obj_revision := 4\<rparr>]"
proof -
  let ?w = "sample_object_world Op_Delete"
  have "delete_object sample_service sample_config (sample_claim Op_Delete) ?w = (Inr (),
    ?w\<lparr>object_store := [''up''], clock := clock ?w + 0,
      db := (db ?w)
        \<lparr>objects := update_where (\<lambda>r. obj_id r = obj_id sample_object)
           (\<lambda>r. r\<lparr>obj_status := Obj_Deleted,
                  obj_deleted_at := Some (case obj_deleted_at r of None \<Rightarrow> clock ?w | Some t \<Rightarrow> t),
                  obj_revision := obj_revision r + 1\<rparr>) (objects (db ?w)),
         operations := update_where (claim_of (sample_claim Op_Delete))
           (settle_operation (Op_Complete (clock ?w))) (operations (db ?w)),
         object_events := object_events (db ?w) @
           [\<lparr>oev_object_id = obj_id sample_object, oev_event_type = ''object_deleted'',
             oev_source = ''controller'', oev_actor_user_id = None,
             oev_details = JObj [(''operation_id'', json_uuid (op_id (sample_claim Op_Delete)))]\<rparr>]\<rparr>\<rparr>)"
    by (rule final_delete_finishes [where code = 204])
       (simp_all add: sample_defs claim_held_def is_success_def staging_gate_sql_def
          staging_cleanup_retry_at_def min_list_opt_def)
  then show ?thesis by (simp add: sample_defs)
qed

theorem object_claim_takes_first_due_witness:
  "\<exists>r \<in> set [sample_row Op_Delete\<lparr>row_status := Pending, row_claimed_at := None, row_claimed_by := None\<rparr>].
     row_available_at r \<le> secs 1 \<and> row_id r = 7"
proof -
  let ?r = "sample_row Op_Delete\<lparr>row_status := Pending, row_claimed_at := None, row_claimed_by := None\<rparr>"
  let ?d = "(db (sample_object_world Op_Delete))\<lparr>operations := [?r]\<rparr>"
  let ?op = "sample_claim Op_Delete\<lparr>op_attempts := 2\<rparr>"
  let ?d' = "?d\<lparr>operations := [take_operation (secs 1) ''w'' ?r]\<rparr>"
  have ok: "object_db_ok ?d"
    by (simp add: sample_defs object_ok_defs claim_consistent_def revision_known_def one_open_def)
  have "claim_operation_sql {} (secs 1) ''w'' ?d = (Some ?op, ?d')"
    by (simp add: claim_operation_sql_def first_by_def claimable_operation_def sample_defs)
  from object_claim_takes_first_due [OF ok this] show ?thesis
    by (simp add: sample_object_world_def sample_claim_def)
qed

theorem object_retry_schedule_witness:
  "row_id (sample_row Op_Delete) = 7 \<and>
   (\<exists>r' \<in> set (operations (db (snd (ObjectMaintenance.schedule_retry (sample_claim Op_Delete) 8
      ''timeout'' (sample_object_world Op_Delete))))). row_status r' = Pending)"
proof -
  let ?w = "sample_object_world Op_Delete"
  have "sample_row Op_Delete \<in> set (operations (db ?w))"
    "claim_of (sample_claim Op_Delete) (sample_row Op_Delete)"
    by (simp_all add: sample_defs)
  from object_retry_schedule [OF _ _ this, of 8 "''timeout''"] show ?thesis
    by (auto simp: sample_claim_def sample_row_def new_operation_def)
qed

theorem deletion_sweep_complete_witness:
  "\<exists>r \<in> set (operations (snd (enqueue_missing_sql 0 60 (db (sample_object_world Op_Delete))))).
     row_object_id r = 1 \<and> row_operation r = Op_Delete_Upload"
proof -
  have "sample_object \<in> set (objects (db (sample_object_world Op_Delete)))"
    "obj_status sample_object \<in> {Obj_Failed, Obj_Deleting} \<and> Op_Delete_Upload = Op_Delete \<or>
     obj_status sample_object \<in> {Obj_Ready, Obj_Failed, Obj_Deleting, Obj_Deleted} \<and>
     Op_Delete_Upload = Op_Delete_Upload"
    by (simp_all add: sample_defs)
  from deletion_sweep_complete [OF this, of 0 60] show ?thesis
    by (auto simp: sample_object_def)
qed

theorem object_session_keeps_tables_ok_witness:
  "object_db_ok (db (snd (connected_object_session (\<lambda>_. True) sample_limits sample_service sample_config
     ''w'' (\<lambda>_. False) [Some (secs 200)] (sample_object_world Op_Delete\<lparr>turns := [\<lambda>d. d]\<rparr>))))"
  by (rule object_session_keeps_tables_ok)
     (use sample_ok [of Op_Delete] in \<open>simp_all add: sample_object_world_def\<close>)

theorem objects_only_advance_witness:
  "list_all2 object_advances [sample_object]
     [sample_object\<lparr>obj_status := Obj_Deleted, obj_deleted_at := Some (secs 100), obj_revision := 4\<rparr>]"
proof -
  have "op_operation (sample_claim Op_Delete) \<noteq> Op_Verify_Upload"
    "object_db_ok (db (interleave (sample_object_world Op_Delete)))"
    using sample_ok by (simp_all add: sample_claim_def)
  from objects_only_advance [OF this, of sample_limits sample_service sample_config]
  have "list_all2 object_advances (objects (db (sample_object_world Op_Delete)))
    (objects (db (snd (delete_object sample_service sample_config (sample_claim Op_Delete)
       (sample_object_world Op_Delete)))))"
    by (simp add: execute_operation_def sample_kind)
  then show ?thesis
    unfolding sample_delete(2) by (simp add: sample_object_world_def)
qed

theorem object_wake_in_time_witness:
  "\<exists>delay. next_object_wake_delay (secs 60) (secs 60) (sample_object_world Op_Delete) =
     (Inr delay, sample_object_world Op_Delete) \<and> delay \<le> secs 60"
  using object_wake_in_time [of "sample_object_world Op_Delete" "secs 60" "secs 60"] by auto

end
