(* ===== verification/Remote.thy ===== *)
theory Remote
  imports Prelude
begin

text \<open>
  The executor of remote operations (\<open>services/controller/src/remote.rs\<close>): the checks on the
  payload and on the server row, the argument vector given to \<open>ssh\<close>, the interpretation of the
  helper's answer and the mock driver. The SSH client and the helper behind it are a parameter,
  \<open>ssh_call\<close>: a function of the arguments, the request and the remote side's state.
\<close>

section \<open>Data\<close>

record remote_server =
  srv_id :: uuid
  srv_name :: string
  srv_hostname :: string
  srv_ssh_port :: int
  srv_ssh_user :: string
  srv_helper_path :: string
  srv_identity_file :: "string option"
  srv_host_key_alias :: "string option"
  srv_pool :: "string option"
  srv_capacity :: int

datatype remote_operation = Ensure_Instance | Inspect_Instance | Stop_Instance | Update_Deadline

definition helper_name :: "remote_operation \<Rightarrow> string" where
  "helper_name operation =
     (case operation of Ensure_Instance \<Rightarrow> ''ensure-instance'' | Inspect_Instance \<Rightarrow> ''inspect-instance''
      | Stop_Instance \<Rightarrow> ''stop-instance'' | Update_Deadline \<Rightarrow> ''update-deadline'')"

record remote_result =
  res_container_id :: "string option"
  res_remote_ip :: "string option"
  res_container_port :: "int option"
  res_published_ip :: "string option"
  res_published_port :: "int option"
  res_protocol :: "string option"
  res_public_hostname :: "string option"
  res_endpoint_url :: "string option"
  res_effective_expires_at :: "time option"
  res_absent :: "bool option"
  res_ready :: "bool option"
  res_runtime_status :: "string option"
  res_health_status :: "string option"
  res_stale_generation :: "bool option"
  res_effective_generation :: "int option"

definition default_result :: remote_result where
  "default_result = \<lparr>res_container_id = None, res_remote_ip = None, res_container_port = None,
     res_published_ip = None, res_published_port = None, res_protocol = None,
     res_public_hostname = None, res_endpoint_url = None, res_effective_expires_at = None,
     res_absent = None, res_ready = None, res_runtime_status = None, res_health_status = None,
     res_stale_generation = None, res_effective_generation = None\<rparr>"

datatype remote_driver = Driver_Mock | Driver_Ssh

text \<open>How one run of the SSH client ends. \<open>Exited_Ok\<close> carries the parsed standard output, \<open>None\<close>
  when it is not a \<open>RemoteResult\<close> in JSON; \<open>Exited_Error\<close> carries the trimmed standard error.\<close>

datatype ssh_outcome =
    Spawn_Failed
  | Send_Failed
  | Timed_Out
  | Wait_Failed string
  | Exited_Error string
  | Exited_Ok "remote_result option"

record 's remote_executor =
  exe_driver :: remote_driver
  exe_known_hosts_file :: string
  exe_default_identity_file :: "string option"
  exe_operation_timeout :: time
  ssh_call :: "string list \<Rightarrow> json \<Rightarrow> 's \<Rightarrow> ssh_outcome \<times> time \<times> 's"

section \<open>Checks\<close>

definition ascii_alphanumeric :: "char \<Rightarrow> bool" where
  "ascii_alphanumeric c \<longleftrightarrow>
     (let n = (of_char c :: nat) in
      (48 \<le> n \<and> n \<le> 57) \<or> (65 \<le> n \<and> n \<le> 90) \<or> (97 \<le> n \<and> n \<le> 122))"

definition safe_component :: "string \<Rightarrow> string \<Rightarrow> bool" where
  "safe_component extra s \<longleftrightarrow>
     s \<noteq> [] \<and> hd s \<noteq> CHR ''-'' \<and> (\<forall>c \<in> set s. ascii_alphanumeric c \<or> c \<in> set extra)"

definition safe_host_component :: "string \<Rightarrow> bool" where
  "safe_host_component = safe_component ''.:_-''"

definition safe_user :: "string \<Rightarrow> bool" where
  "safe_user = safe_component ''._-''"

definition max_flag_value_bytes :: nat where
  "max_flag_value_bytes = 512"

definition valid_flag_text :: "string \<Rightarrow> bool" where
  "valid_flag_text v \<longleftrightarrow> v \<noteq> [] \<and> length v \<le> max_flag_value_bytes \<and> CHR 0x00 \<notin> set v"

definition validate_flag_value :: "remote_operation \<Rightarrow> json \<Rightarrow> unit result" where
  "validate_flag_value operation payload =
     (case (operation, json_pointer [''deployment'', ''flag_value''] payload) of
        (_, None) \<Rightarrow> Inr ()
      | (Ensure_Instance, Some JNull) \<Rightarrow> Inr ()
      | (Ensure_Instance, Some (JStr v)) \<Rightarrow>
          if valid_flag_text v then Inr () else Inl ''deployment flag_value is invalid''
      | (Ensure_Instance, Some _) \<Rightarrow> Inl ''deployment flag_value is invalid''
      | (_, Some _) \<Rightarrow> Inl ''deployment flag_value is allowed only during instance startup'')"

definition u64_max :: int where
  "u64_max = 18446744073709551615"

definition validate_startup_timeout :: "remote_operation \<Rightarrow> json \<Rightarrow> time \<Rightarrow> unit result" where
  "validate_startup_timeout operation payload operation_timeout =
     (if operation \<noteq> Ensure_Instance then Inr ()
      else
        let startup_seconds =
          (case Option.bind
             (json_pointer [''deployment'', ''healthcheck'', ''startup_timeout_seconds''] payload)
             json_u64 of None \<Rightarrow> 45 | Some s \<Rightarrow> s)
        in if secs (min (startup_seconds + 5) u64_max) > operation_timeout
           then Inl (''challenge startup timeout '' @ show_int startup_seconds
             @ ''s must leave at least 5s within REMOTE_OPERATION_TIMEOUT_SECONDS'')
           else Inr ())"

definition validate_remote_server :: "remote_server \<Rightarrow> unit result" where
  "validate_remote_server server =
     (if srv_ssh_port server \<le> 0 \<or> srv_ssh_port server > 65535
      then Inl ''remote server has an invalid SSH port''
      else if \<not> safe_host_component (srv_hostname server) \<or> \<not> safe_user (srv_ssh_user server)
      then Inl ''remote server contains invalid SSH target characters''
      else if srv_helper_path server = [] \<or> hd (srv_helper_path server) \<noteq> CHR ''/'' \<or>
        \<not> (\<forall>c \<in> set (srv_helper_path server). ascii_alphanumeric c \<or> c \<in> set ''/._-'')
      then Inl ''remote helper path is invalid''
      else if (case srv_host_key_alias server of None \<Rightarrow> False
               | Some alias \<Rightarrow> \<not> safe_host_component alias)
      then Inl ''remote host key alias is invalid''
      else Inr ())"

section \<open>Drivers\<close>

text \<open>\<open>u16\<close> sum of the bytes, with wrap-around.\<close>

definition mock_suffix :: "string \<Rightarrow> 16 word" where
  "mock_suffix s = foldl (\<lambda>acc c. acc + word_of_nat (of_char c)) 0 s"

definition json_i32 :: "json \<Rightarrow> int option" where
  "json_i32 v = Option.bind (json_i64 v)
     (\<lambda>i. if - 2147483648 \<le> i \<and> i \<le> 2147483647 then Some i else None)"

definition mock :: "remote_operation \<Rightarrow> json \<Rightarrow> remote_result" where
  "mock operation payload =
     (let instance_id = (case Option.bind (json_get ''instance_id'' payload) json_str of
            None \<Rightarrow> ''mock'' | Some s \<Rightarrow> s);
          suffix = mock_suffix instance_id;
          expires = Option.bind (json_get ''expires_at'' payload) json_time;
          generation = Option.bind (json_get ''generation'' payload) json_i64;
          running = default_result
            \<lparr>res_container_id := Some (''mock-'' @ instance_id),
             res_remote_ip := Some ''10.255.0.2'',
             res_container_port :=
               Option.bind (json_pointer [''deployment'', ''container_port''] payload) json_i32,
             res_published_ip := Some ''127.0.0.1'',
             res_published_port := Some (30000 + uint (suffix mod 20000)),
             res_protocol := Option.bind (json_pointer [''deployment'', ''protocol''] payload) json_str,
             res_effective_expires_at := expires,
             res_effective_generation := generation,
             res_ready := Some True\<rparr>
      in case operation of
           Ensure_Instance \<Rightarrow> running
         | Inspect_Instance \<Rightarrow> running
         | Stop_Instance \<Rightarrow> default_result\<lparr>res_absent := Some True\<rparr>
         | Update_Deadline \<Rightarrow> default_result
             \<lparr>res_effective_expires_at := expires, res_effective_generation := generation\<rparr>)"

definition ssh_arguments ::
  "'s remote_executor \<Rightarrow> remote_server \<Rightarrow> string \<Rightarrow> remote_operation \<Rightarrow> string list" where
  "ssh_arguments exe server identity_file operation =
     [''-F'', ''/dev/null'', ''-o'', ''BatchMode=yes'', ''-o'', ''IdentitiesOnly=yes'',
      ''-o'', ''StrictHostKeyChecking=yes'', ''-o'', ''GlobalKnownHostsFile=/dev/null'',
      ''-o'', ''UserKnownHostsFile='' @ exe_known_hosts_file exe,
      ''-i'', identity_file, ''-p'', show_int (srv_ssh_port server)]
     @ (case srv_host_key_alias server of None \<Rightarrow> [] | Some alias \<Rightarrow> [''-o'', ''HostKeyAlias='' @ alias])
     @ [srv_ssh_user server @ ''@'' @ srv_hostname server, srv_helper_path server,
        helper_name operation]"

definition or_else :: "'a option \<Rightarrow> 'a option \<Rightarrow> 'a option" where
  "or_else x y = (case x of None \<Rightarrow> y | Some a \<Rightarrow> Some a)"

definition ssh_result :: "remote_operation \<Rightarrow> ssh_outcome \<Rightarrow> remote_result result" where
  "ssh_result operation result =
     (case result of
        Spawn_Failed \<Rightarrow> Inl ''failed to start SSH client''
      | Send_Failed \<Rightarrow> Inl ''failed to send request to remote helper''
      | Timed_Out \<Rightarrow> Inl ''remote helper operation timed out''
      | Wait_Failed e \<Rightarrow> Inl e
      | Exited_Error message \<Rightarrow> Inl (''remote helper '' @ helper_name operation @ '' failed: ''
          @ (if message = [] then ''no diagnostic output'' else message))
      | Exited_Ok None \<Rightarrow> Inl ''remote helper returned invalid JSON''
      | Exited_Ok (Some r) \<Rightarrow> Inr r)"

definition ssh ::
  "'s remote_executor \<Rightarrow> remote_server \<Rightarrow> remote_operation \<Rightarrow> json \<Rightarrow> 's
   \<Rightarrow> remote_result result \<times> time \<times> 's" where
  "ssh exe server operation payload s =
     (case validate_remote_server server of Inl e \<Rightarrow> (Inl e, 0, s)
      | Inr _ \<Rightarrow>
      (case validate_startup_timeout operation payload (exe_operation_timeout exe) of
         Inl e \<Rightarrow> (Inl e, 0, s)
       | Inr _ \<Rightarrow>
       (case or_else (srv_identity_file server) (exe_default_identity_file exe) of
          None \<Rightarrow> (Inl ''remote server has no SSH identity file'', 0, s)
        | Some identity_file \<Rightarrow>
            (case ssh_call exe (ssh_arguments exe server identity_file operation) payload s of
               (result, elapsed, s') \<Rightarrow> (ssh_result operation result, elapsed, s')))))"

definition remote_execute ::
  "'s remote_executor \<Rightarrow> remote_server \<Rightarrow> remote_operation \<Rightarrow> json \<Rightarrow> 's
   \<Rightarrow> remote_result result \<times> time \<times> 's" where
  "remote_execute exe server operation payload s =
     (case validate_flag_value operation payload of
        Inl e \<Rightarrow> (Inl e, 0, s)
      | Inr _ \<Rightarrow> (case exe_driver exe of
          Driver_Mock \<Rightarrow> (Inr (mock operation payload), 0, s)
        | Driver_Ssh \<Rightarrow> ssh exe server operation payload s))"

section \<open>What reaches the SSH client\<close>

text \<open>\<open>ssh_call\<close> is only ever applied to a server row and a payload that passed the checks.\<close>

lemma ssh_called:
  assumes "remote_execute exe server operation payload s = (r, t, s')"
    and "s' \<noteq> s \<or> t \<noteq> 0"
  shows "\<exists>identity_file result.
    ssh_call exe (ssh_arguments exe server identity_file operation) payload s = (result, t, s') \<and>
    validate_remote_server server = Inr () \<and> validate_flag_value operation payload = Inr () \<and>
    r = ssh_result operation result"
  using assms
  by (auto simp: remote_execute_def ssh_def split: sum.splits remote_driver.splits option.splits
      prod.splits)

lemma validate_remote_serverD:
  assumes "validate_remote_server server = Inr u"
  shows "0 < srv_ssh_port server \<and> srv_ssh_port server \<le> 65535 \<and>
    safe_host_component (srv_hostname server) \<and> safe_user (srv_ssh_user server) \<and>
    srv_helper_path server \<noteq> [] \<and> hd (srv_helper_path server) = CHR ''/'' \<and>
    (\<forall>alias. srv_host_key_alias server = Some alias \<longrightarrow> safe_host_component alias)"
  using assms by (auto simp: validate_remote_server_def split: if_splits option.splits)

lemma startup_flag:
  "validate_flag_value operation payload = Inr u \<Longrightarrow>
     json_pointer [''deployment'', ''flag_value''] payload = None \<or>
     (operation = Ensure_Instance \<and>
      (json_pointer [''deployment'', ''flag_value''] payload = Some JNull \<or>
       (\<exists>v. json_pointer [''deployment'', ''flag_value''] payload = Some (JStr v) \<and> valid_flag_text v)))"
  by (auto simp: validate_flag_value_def split: option.splits remote_operation.splits json.splits
      if_splits)

text \<open>
  C37. No argument of the SSH command line can be taken for an option or be split by the remote
  shell: the target is user and host of safe characters with no leading dash, host-key checking is
  strict against the configured file only, and the helper path is absolute.
\<close>

theorem ssh_command_line_is_safe:
  assumes "remote_execute exe server operation payload s = (r, t, s')" and "s' \<noteq> s \<or> t \<noteq> 0"
  shows "\<exists>identity_file result target path.
    ssh_call exe (ssh_arguments exe server identity_file operation) payload s = (result, t, s') \<and>
    (\<exists>options. ssh_arguments exe server identity_file operation =
       options @ [target, path, helper_name operation] \<and>
       ''StrictHostKeyChecking=yes'' \<in> set options \<and> ''BatchMode=yes'' \<in> set options \<and>
       (''UserKnownHostsFile='' @ exe_known_hosts_file exe) \<in> set options) \<and>
    hd target \<noteq> CHR ''-'' \<and> hd path = CHR ''/'' \<and>
    (\<forall>c \<in> set target \<union> set path. ascii_alphanumeric c \<or> c \<in> set ''@.:_-/'')"
proof -
  from ssh_called [OF assms] obtain i result where
    call: "ssh_call exe (ssh_arguments exe server i operation) payload s = (result, t, s')"
    and valid: "validate_remote_server server = Inr ()" by blast
  let ?target = "srv_ssh_user server @ ''@'' @ srv_hostname server"
  let ?opts = "take (length (ssh_arguments exe server i operation) - 3) (ssh_arguments exe server i operation)"
  have split: "ssh_arguments exe server i operation =
      ?opts @ [?target, srv_helper_path server, helper_name operation]"
    by (simp add: ssh_arguments_def split: option.split)
  have opts: "''StrictHostKeyChecking=yes'' \<in> set ?opts" "''BatchMode=yes'' \<in> set ?opts"
    "(''UserKnownHostsFile='' @ exe_known_hosts_file exe) \<in> set ?opts"
    by (simp_all add: ssh_arguments_def split: option.split)
  have host: "srv_ssh_user server \<noteq> []" "hd (srv_ssh_user server) \<noteq> CHR ''-''"
    "hd (srv_helper_path server) = CHR ''/''"
    "\<forall>c \<in> set (srv_ssh_user server) \<union> set (srv_hostname server) \<union> set (srv_helper_path server).
       ascii_alphanumeric c \<or> c \<in> set ''@.:_-/''"
    using valid
    by (auto simp: validate_remote_server_def safe_user_def safe_host_component_def safe_component_def
        split: if_splits option.splits)
  then have target: "hd ?target \<noteq> CHR ''-''"
    "\<forall>c \<in> set ?target \<union> set (srv_helper_path server). ascii_alphanumeric c \<or> c \<in> set ''@.:_-/''"
    by auto
  show ?thesis
    using call split opts host(3) target by blast
qed

section \<open>Concrete instances\<close>

definition sample_server :: remote_server where
  "sample_server = \<lparr>srv_id = 5, srv_name = ''r1'', srv_hostname = ''10.0.0.5'', srv_ssh_port = 22,
     srv_ssh_user = ''ctf'', srv_helper_path = ''/usr/local/libexec/helper'', srv_identity_file = None,
     srv_host_key_alias = Some ''r1'', srv_pool = None, srv_capacity = 1\<rparr>"

definition sample_executor :: "nat remote_executor" where
  "sample_executor = \<lparr>exe_driver = Driver_Ssh, exe_known_hosts_file = ''/k'',
     exe_default_identity_file = Some ''/id'', exe_operation_timeout = secs 90,
     ssh_call = (\<lambda>args payload s. (Exited_Ok (Some (default_result\<lparr>res_absent := Some True\<rparr>)), secs 1, s + 1))\<rparr>"

theorem ssh_command_line_is_safe_witness:
  "\<exists>options target path.
     ssh_arguments sample_executor sample_server ''/id'' Stop_Instance =
       options @ [target, path, ''stop-instance''] \<and> hd target \<noteq> CHR ''-''"
proof -
  have run: "remote_execute sample_executor sample_server Stop_Instance (JObj []) 0 =
      (Inr (default_result\<lparr>res_absent := Some True\<rparr>), secs 1, 1)"
    by (simp add: remote_execute_def ssh_def sample_executor_def sample_server_def
        validate_flag_value_def validate_remote_server_def validate_startup_timeout_def
        safe_host_component_def safe_user_def safe_component_def ascii_alphanumeric_def or_else_def
        ssh_result_def)
  have "(1::nat) \<noteq> 0 \<or> secs 1 \<noteq> 0" by simp
  from ssh_command_line_is_safe [OF run this] obtain i options target path where
    "ssh_arguments sample_executor sample_server i Stop_Instance =
       options @ [target, path, helper_name Stop_Instance]" "hd target \<noteq> CHR ''-''"
    by blast
  then show ?thesis
    by (auto simp: ssh_arguments_def sample_server_def helper_name_def)
qed

end
