(* ===== verification/Journal.thy ===== *)
theory Journal
  imports Remote "HOL-Library.AList" "HOL-Library.Product_Lexorder"
begin

text \<open>
  The operation journal (\<open>services/controller/src/journal.rs\<close>): an append-only file of JSON lines
  that is compacted in place. The file is its bytes, so a write that stops in the middle is a
  prefix. The JSON text of a record is serde's: a parameter, \<open>journal_codec\<close>, with the law
  \<open>codec_ok\<close> that a record can be read back from its line.

  Every file operation consumes one outcome from \<open>dsk_io\<close>: done, failed with nothing done, or
  failed part-way (for a write, after some bytes; for the replacement by compaction, after the
  rename).
\<close>

section \<open>Records\<close>

datatype journal_phase = Intent | Remote_Result | Database_Acknowledged | Degraded_Cleanup

record journal_record =
  jr_instance_id :: uuid
  jr_command_id :: uuid
  jr_generation :: int
  jr_setting_revision :: int
  jr_challenge_runtime_revision :: int
  jr_operation :: remote_operation
  jr_phase :: journal_phase
  jr_remote_server :: "remote_server option"
  jr_effective_expires_at :: time
  jr_remote_result :: "remote_result option"
  jr_payload :: "json option"
  jr_updated_at :: time

record journal_intent =
  ji_instance_id :: uuid
  ji_command_id :: uuid
  ji_generation :: int
  ji_setting_revision :: int
  ji_challenge_runtime_revision :: int
  ji_operation :: remote_operation
  ji_remote_server :: "remote_server option"
  ji_effective_expires_at :: time
  ji_payload :: json

record journal_codec =
  jc_encode :: "journal_record \<Rightarrow> string"
  jc_decode :: "string \<Rightarrow> journal_record option"

datatype io_outcome = Io_Ok | Io_Error | Io_Partial nat

record disk =
  dsk_content :: string
  dsk_io :: "io_outcome list"

section \<open>Redaction\<close>

definition redacted_flag_value :: string where
  "redacted_flag_value = ''[redacted]''"

fun redact_deployment :: "json \<Rightarrow> json" where
  "redact_deployment (JObj ms) =
     JObj (map (\<lambda>(k, v). (k, if k = ''flag_value'' then JStr redacted_flag_value else v)) ms)"
| "redact_deployment v = v"

fun redact_payload :: "json \<Rightarrow> json" where
  "redact_payload (JObj ms) =
     JObj (map (\<lambda>(k, v). (k, if k = ''deployment'' then redact_deployment v else v)) ms)"
| "redact_payload v = v"

definition redact_record :: "journal_record \<Rightarrow> journal_record" where
  "redact_record r = r\<lparr>jr_payload := map_option redact_payload (jr_payload r)\<rparr>"

section \<open>Reading\<close>

definition newline :: char where
  "newline = CHR 0x0A"

definition strip_cr :: "string \<Rightarrow> string" where
  "strip_cr s = (if s \<noteq> [] \<and> last s = CHR 0x0D then butlast s else s)"

text \<open>\<open>str::lines\<close>: lines end with a line feed, and a carriage return before it is dropped; the
  rest after the last line feed is a line too unless it is empty.\<close>

fun lines_from :: "string \<Rightarrow> string \<Rightarrow> string list" where
  "lines_from acc [] = (if acc = [] then [] else [acc])"
| "lines_from acc (c # cs) =
     (if c = newline then strip_cr acc # lines_from [] cs else lines_from (acc @ [c]) cs)"

definition lines :: "string \<Rightarrow> string list" where
  "lines s = lines_from [] s"

text \<open>The length of the character a byte sequence starts with, 0 when it starts with none.\<close>

definition utf8_tails :: "nat \<Rightarrow> nat list \<Rightarrow> bool" where
  "utf8_tails n bs \<longleftrightarrow> n \<le> length bs \<and> (\<forall>b \<in> set (take n bs). 128 \<le> b \<and> b < 192)"

definition utf8_first :: "nat list \<Rightarrow> nat" where
  "utf8_first bs = (case bs of [] \<Rightarrow> 0 | a # cs \<Rightarrow>
     if a < 128 then 1
     else if 194 \<le> a \<and> a \<le> 223 \<and> utf8_tails 1 cs then 2
     else if 224 \<le> a \<and> a \<le> 239 \<and> utf8_tails 2 cs \<and> (a = 224 \<longrightarrow> 160 \<le> hd cs) \<and>
       (a = 237 \<longrightarrow> hd cs < 160) then 3
     else if 240 \<le> a \<and> a \<le> 244 \<and> utf8_tails 3 cs \<and> (a = 240 \<longrightarrow> 144 \<le> hd cs) \<and>
       (a = 244 \<longrightarrow> hd cs < 144) then 4
     else 0)"

function valid_utf8_bytes :: "nat list \<Rightarrow> bool" where
  "valid_utf8_bytes bs =
     (if bs = [] then True
      else if utf8_first bs = 0 then False
      else valid_utf8_bytes (drop (utf8_first bs) bs))"
  by auto
termination by (relation "measure length") auto

declare valid_utf8_bytes.simps [simp del]

definition valid_utf8 :: "string \<Rightarrow> bool" where
  "valid_utf8 s = valid_utf8_bytes (map of_char s)"

type_synonym journal_map = "((uuid \<times> uuid) \<times> journal_record) list"

abbreviation journal_key :: "journal_record \<Rightarrow> uuid \<times> uuid" where
  "journal_key r \<equiv> (jr_instance_id r, jr_command_id r)"

definition apply_record :: "journal_map \<Rightarrow> journal_record \<Rightarrow> journal_map" where
  "apply_record current r =
     (if jr_phase r = Database_Acknowledged then AList.delete (journal_key r) current
      else AList.update (journal_key r) (redact_record r) current)"

text \<open>Blank lines and lines that are not a record are skipped.\<close>

definition apply_line :: "journal_codec \<Rightarrow> journal_map \<Rightarrow> string \<Rightarrow> journal_map" where
  "apply_line codec current line =
     (case jc_decode codec line of None \<Rightarrow> current | Some r \<Rightarrow> apply_record current r)"

definition current_of :: "journal_codec \<Rightarrow> string \<Rightarrow> journal_map" where
  "current_of codec content = foldl (apply_line codec) [] (lines content)"

definition next_io :: "disk \<Rightarrow> io_outcome \<times> disk" where
  "next_io d = (case dsk_io d of [] \<Rightarrow> (Io_Ok, d) | x # xs \<Rightarrow> (x, d\<lparr>dsk_io := xs\<rparr>))"

definition current_unacknowledged ::
  "journal_codec \<Rightarrow> disk \<Rightarrow> journal_map result \<times> disk" where
  "current_unacknowledged codec d =
     (case next_io d of (out, d') \<Rightarrow>
        (if out = Io_Ok \<and> valid_utf8 (dsk_content d') then Inr (current_of codec (dsk_content d'))
         else Inl ''failed to read operation journal'', d'))"

section \<open>Writing\<close>

definition append_locked :: "journal_codec \<Rightarrow> journal_record \<Rightarrow> disk \<Rightarrow> unit result \<times> disk" where
  "append_locked codec r d =
     (let encoded = jc_encode codec (redact_record r) @ [newline] in
      case next_io d of
        (Io_Ok, d') \<Rightarrow> (Inr (), d'\<lparr>dsk_content := dsk_content d' @ encoded\<rparr>)
      | (Io_Error, d') \<Rightarrow> (Inl ''failed to append operation journal'', d')
      | (Io_Partial n, d') \<Rightarrow>
          (Inl ''failed to write operation journal'',
           d'\<lparr>dsk_content := dsk_content d' @ take n encoded\<rparr>))"

definition compacted :: "journal_codec \<Rightarrow> journal_map \<Rightarrow> string" where
  "compacted codec current =
     concat (map (\<lambda>r. jc_encode codec r @ [newline])
       (sort_key (\<lambda>r. (jr_updated_at r, jr_instance_id r, jr_command_id r)) (map snd current)))"

definition compact_locked :: "journal_codec \<Rightarrow> disk \<Rightarrow> unit result \<times> disk" where
  "compact_locked codec d =
     and_then (current_unacknowledged codec d) (\<lambda>current d.
       case next_io d of
         (Io_Ok, d') \<Rightarrow> (Inr (), d'\<lparr>dsk_content := compacted codec current\<rparr>)
       | (Io_Error, d') \<Rightarrow> (Inl ''failed to write compacted operation journal'', d')
       | (Io_Partial _, d') \<Rightarrow>
           (Inl ''failed to fsync journal directory'', d'\<lparr>dsk_content := compacted codec current\<rparr>))"

definition compaction_threshold_bytes :: nat where
  "compaction_threshold_bytes = 1024 * 1024"

definition journal_append :: "journal_codec \<Rightarrow> journal_record \<Rightarrow> disk \<Rightarrow> unit result \<times> disk" where
  "journal_append codec r d =
     and_then (append_locked codec r d) (\<lambda>_ d.
       let immediate = jr_phase r \<in> {Database_Acknowledged, Degraded_Cleanup} in
       case next_io d of (out, d') \<Rightarrow>
         let threshold_reached = (out = Io_Ok \<and> compaction_threshold_bytes \<le> length (dsk_content d'))
         in (Inr (), if immediate \<or> threshold_reached then snd (compact_locked codec d') else d'))"

section \<open>Entries\<close>

definition record_of_intent :: "journal_intent \<Rightarrow> journal_phase \<Rightarrow> time \<Rightarrow> journal_record" where
  "record_of_intent i phase now = \<lparr>
     jr_instance_id = ji_instance_id i, jr_command_id = ji_command_id i,
     jr_generation = ji_generation i, jr_setting_revision = ji_setting_revision i,
     jr_challenge_runtime_revision = ji_challenge_runtime_revision i,
     jr_operation = ji_operation i, jr_phase = phase, jr_remote_server = ji_remote_server i,
     jr_effective_expires_at = ji_effective_expires_at i, jr_remote_result = None,
     jr_payload = None, jr_updated_at = now\<rparr>"

definition intent_record :: "journal_intent \<Rightarrow> time \<Rightarrow> journal_record" where
  "intent_record i now =
     (record_of_intent i Intent now)\<lparr>jr_payload := Some (redact_payload (ji_payload i))\<rparr>"

definition remote_result_record :: "journal_intent \<Rightarrow> remote_result \<Rightarrow> time \<Rightarrow> journal_record" where
  "remote_result_record i res now =
     (record_of_intent i Remote_Result now)
       \<lparr>jr_effective_expires_at := (case res_effective_expires_at res of
           None \<Rightarrow> ji_effective_expires_at i | Some t \<Rightarrow> t),
        jr_remote_result := Some res,
        jr_payload := Some (redact_payload (ji_payload i))\<rparr>"

definition acknowledged_record :: "journal_intent \<Rightarrow> time \<Rightarrow> journal_record" where
  "acknowledged_record i now = record_of_intent i Database_Acknowledged now"

lemmas journal_entry_defs =
  intent_record_def remote_result_record_def acknowledged_record_def record_of_intent_def

end
