(* ===== verification/JournalProperties.thy ===== *)
theory JournalProperties
  imports Journal "HOL-Library.Multiset"
begin

text \<open>
  The journal file implements a map from operations to their latest unacknowledged record:
  appending a record is an update of that map whatever compaction does afterwards, and no flag
  value reaches the file. The last theorem shows the one gap: a record appended behind a line
  that was torn by a crash is lost.
\<close>

section \<open>Lines\<close>

definition terminated :: "string \<Rightarrow> bool" where
  "terminated s \<longleftrightarrow> s = [] \<or> last s = newline"

definition codec_ok :: "journal_codec \<Rightarrow> journal_record set \<Rightarrow> bool" where
  "codec_ok codec R \<longleftrightarrow> (\<forall>r \<in> R. jc_decode codec (jc_encode codec r) = Some r \<and>
     newline \<notin> set (jc_encode codec r) \<and> jc_encode codec r \<noteq> [] \<and>
     last (jc_encode codec r) = CHR ''}'' \<and> valid_utf8 (jc_encode codec r))"

lemma lines_from_append:
  "lines_from acc (xs @ newline # ys) = lines_from acc (xs @ [newline]) @ lines_from [] ys"
  by (induction xs arbitrary: acc) auto

lemma lines_from_single:
  "newline \<notin> set e \<Longrightarrow> lines_from acc (e @ [newline]) = [strip_cr (acc @ e)]"
  by (induction e arbitrary: acc) auto

lemma lines_append:
  assumes "terminated s" and "newline \<notin> set e"
  shows "lines (s @ e @ [newline]) = lines s @ [strip_cr e]"
proof (cases "s = []")
  case True
  with assms(2) show ?thesis by (simp add: lines_def lines_from_single)
next
  case False
  with assms(1) obtain xs where s: "s = xs @ [newline]"
    by (auto simp: terminated_def) (metis append_butlast_last_id)
  with assms(2) lines_from_append [of "[]" xs "e @ [newline]"] lines_from_append [of "[]" xs "[]"]
  show ?thesis by (simp add: lines_def lines_from_single)
qed

lemma codec_lines:
  assumes "codec_ok codec R" and "r \<in> R"
  shows "strip_cr (jc_encode codec r) = jc_encode codec r"
  using assms by (auto simp: codec_ok_def strip_cr_def)

lemma current_of_append:
  assumes "terminated s" and "codec_ok codec {r}"
  shows "current_of codec (s @ jc_encode codec r @ [newline]) = apply_record (current_of codec s) r"
  using assms codec_lines [OF assms(2)]
  by (simp add: current_of_def lines_append codec_ok_def apply_line_def)

lemma terminated_append: "terminated (s @ [newline])"
  by (simp add: terminated_def)

lemma valid_utf8_bytes_Nil [simp]: "valid_utf8_bytes []"
  by (subst valid_utf8_bytes.simps) simp

lemma valid_utf8_bytes_ascii [simp]: "a < 128 \<Longrightarrow> valid_utf8_bytes (a # bs) = valid_utf8_bytes bs"
  by (subst valid_utf8_bytes.simps) (simp add: utf8_first_def)

lemma utf8_tails_append: "utf8_tails n bs \<Longrightarrow> utf8_tails n (bs @ ys)"
  by (auto simp: utf8_tails_def)

lemma utf8_first_append:
  assumes "0 < utf8_first bs"
  shows "utf8_first (bs @ ys) = utf8_first bs \<and> utf8_first bs \<le> length bs"
proof (cases bs)
  case Nil
  with assms show ?thesis by (simp add: utf8_first_def)
next
  case (Cons a cs)
  have "0 < n \<Longrightarrow> utf8_tails n cs \<Longrightarrow> hd (cs @ ys) = hd cs \<and> n \<le> length cs" for n
    by (cases cs) (auto simp: utf8_tails_def)
  from this [of 1] this [of 2] this [of 3] utf8_tails_append [of _ cs ys] assms Cons show ?thesis
    by (auto simp: utf8_first_def split: if_splits)
qed

lemma valid_utf8_append:
  assumes "valid_utf8 s" and "valid_utf8 t"
  shows "valid_utf8 (s @ t)"
proof -
  have "valid_utf8_bytes xs \<Longrightarrow> valid_utf8_bytes ys \<Longrightarrow> valid_utf8_bytes (xs @ ys)" for xs ys
  proof (induction xs rule: valid_utf8_bytes.induct)
    case (1 bs)
    show ?case
    proof (cases "bs = []")
      case True
      with 1 show ?thesis by simp
    next
      case False
      with 1(2) have first: "0 < utf8_first bs" "valid_utf8_bytes (drop (utf8_first bs) bs)"
        by (simp_all add: valid_utf8_bytes.simps [of bs] split: if_splits)
      with 1 False have "valid_utf8_bytes (drop (utf8_first bs) bs @ ys)" by blast
      with first utf8_first_append [of bs ys] show ?thesis
        by (simp add: valid_utf8_bytes.simps [of "bs @ ys"])
    qed
  qed
  with assms show ?thesis by (simp add: valid_utf8_def)
qed

lemma valid_utf8_newline: "valid_utf8 [newline]"
  by (simp add: valid_utf8_def newline_def)

section \<open>The map\<close>

lemma redact_payload_idem [simp]: "redact_payload (redact_payload v) = redact_payload v"
proof -
  have dep: "redact_deployment (redact_deployment x) = redact_deployment x" for x
    by (cases x) (auto simp: case_prod_beta)
  show ?thesis by (cases v) (auto simp: case_prod_beta dep)
qed

lemma redact_record_idem [simp]: "redact_record (redact_record r) = redact_record r"
  by (cases "jr_payload r") (simp_all add: redact_record_def)

lemma redact_record_fields [simp]:
  "journal_key (redact_record r) = journal_key r" "jr_phase (redact_record r) = jr_phase r"
  "jr_updated_at (redact_record r) = jr_updated_at r"
  "jr_instance_id (redact_record r) = jr_instance_id r"
  "jr_command_id (redact_record r) = jr_command_id r"
  by (simp_all add: redact_record_def)

definition journal_map_ok :: "journal_map \<Rightarrow> bool" where
  "journal_map_ok current \<longleftrightarrow> distinct (map fst current) \<and>
     (\<forall>(k, r) \<in> set current. k = journal_key r \<and> jr_phase r \<noteq> Database_Acknowledged \<and>
        redact_record r = r)"

lemma set_alist_update:
  "set (AList.update k v al) \<subseteq> insert (k, v) (set al)"
  by (induction al) auto

lemma set_alist_delete: "set (AList.delete k al) \<subseteq> set al"
  by (auto simp: AList.delete_eq)

lemma apply_record_ok: "journal_map_ok current \<Longrightarrow> journal_map_ok (apply_record current r)"
  using set_alist_update [of "journal_key r" "redact_record r" current]
    set_alist_delete [of "journal_key r" current]
  by (auto simp: journal_map_ok_def apply_record_def distinct_update distinct_delete)

lemma apply_record_map:
  "map_of (apply_record current r) =
     (map_of current)(journal_key r := if jr_phase r = Database_Acknowledged then None
                                       else Some (redact_record r))"
  by (auto simp: apply_record_def update_conv' delete_conv')

lemma apply_redacted [simp]: "apply_record current (redact_record r) = apply_record current r"
  by (simp add: apply_record_def)

lemma current_of_ok: "journal_map_ok (current_of codec s)"
proof -
  have "journal_map_ok m \<Longrightarrow> journal_map_ok (foldl (apply_line codec) m ls)" for m ls
    by (induction ls arbitrary: m) (auto simp: apply_line_def apply_record_ok split: option.splits)
  from this [of "[]"] show ?thesis by (simp add: current_of_def journal_map_ok_def)
qed

section \<open>Compaction\<close>

lemma current_of_concat:
  assumes "codec_ok codec (set rs)"
  shows "current_of codec (concat (map (\<lambda>r. jc_encode codec r @ [newline]) rs)) =
      foldl apply_record [] rs \<and>
    terminated (concat (map (\<lambda>r. jc_encode codec r @ [newline]) rs)) \<and>
    valid_utf8 (concat (map (\<lambda>r. jc_encode codec r @ [newline]) rs))"
  using assms
proof (induction rs rule: rev_induct)
  case Nil
  show ?case
    by (simp add: current_of_def lines_def terminated_def valid_utf8_def)
next
  case (snoc r rs)
  then have "codec_ok codec (set rs)" "codec_ok codec {r}" by (auto simp: codec_ok_def)
  with snoc.IH current_of_append show ?case
    by (auto simp: terminated_def codec_ok_def intro!: valid_utf8_append valid_utf8_newline)
qed

lemma foldl_apply_record:
  assumes "distinct (map journal_key rs)"
    and "\<forall>r \<in> set rs. jr_phase r \<noteq> Database_Acknowledged \<and> redact_record r = r"
  shows "map_of (foldl apply_record [] rs) = map_of (map (\<lambda>r. (journal_key r, r)) rs)"
  using assms
proof (induction rs rule: rev_induct)
  case Nil
  then show ?case by simp
next
  case (snoc r rs)
  have "map_of (map (\<lambda>r. (journal_key r, r)) (rs @ [r])) =
      (map_of (map (\<lambda>r. (journal_key r, r)) rs))(journal_key r \<mapsto> r)"
  proof -
    have "dom (map_of (map (\<lambda>r. (journal_key r, r)) rs)) \<inter> dom [journal_key r \<mapsto> r] = {}"
      using snoc.prems(1) by (auto simp: dom_map_of_conv_image_fst)
    from map_add_comm [OF this, symmetric] show ?thesis by simp
  qed
  with snoc show ?case by (simp add: apply_record_map)
qed

lemma compacted_same_map:
  assumes "journal_map_ok current" and "codec_ok codec (snd ` set current)"
  shows "map_of (current_of codec (compacted codec current)) = map_of current \<and>
    terminated (compacted codec current) \<and> valid_utf8 (compacted codec current)"
proof -
  let ?rs = "sort_key (\<lambda>r. (jr_updated_at r, jr_instance_id r, jr_command_id r)) (map snd current)"
  have keys: "map fst current = map journal_key (map snd current)"
    using assms(1) by (auto simp: journal_map_ok_def)
  have "mset ?rs = mset (map snd current)" by simp
  then have "mset (map journal_key ?rs) = mset (map fst current)"
    unfolding keys mset_map by (rule arg_cong)
  with assms(1) have dist: "distinct (map journal_key ?rs)"
    unfolding journal_map_ok_def using mset_eq_imp_distinct_iff by blast
  have all: "\<forall>r \<in> set ?rs. jr_phase r \<noteq> Database_Acknowledged \<and> redact_record r = r"
    using assms(1) by (auto simp: journal_map_ok_def)
  have codec: "codec_ok codec (set ?rs)" using assms(2) by simp
  have "set (map (\<lambda>r. (journal_key r, r)) ?rs) = set current"
    using assms(1) by (force simp: journal_map_ok_def image_iff)
  then have "map_of (map (\<lambda>r. (journal_key r, r)) ?rs) = map_of current"
    using dist assms(1) by (subst map_of_inject_set) (simp_all add: journal_map_ok_def comp_def)
  with foldl_apply_record [OF dist all] current_of_concat [OF codec] show ?thesis
    by (simp add: compacted_def)
qed

section \<open>Appending\<close>

definition journal_disk_ok :: "disk \<Rightarrow> bool" where
  "journal_disk_ok d \<longleftrightarrow> terminated (dsk_content d) \<and> valid_utf8 (dsk_content d)"

text \<open>The records a codec must carry for one append: the new one and those it may compact.\<close>

definition codec_covers :: "journal_codec \<Rightarrow> disk \<Rightarrow> journal_record \<Rightarrow> bool" where
  "codec_covers codec d r \<longleftrightarrow>
     codec_ok codec (insert (redact_record r) (snd ` set (current_of codec (dsk_content d))))"

lemma next_io_content: "next_io d = (out, d') \<Longrightarrow> dsk_content d' = dsk_content d"
  by (auto simp: next_io_def split: list.splits)

lemma append_locked_content:
  assumes "append_locked codec r d = (x, d')"
  shows "\<exists>n. dsk_content d' = dsk_content d @ take n (jc_encode codec (redact_record r) @ [newline]) \<and>
    (x = Inr () \<longrightarrow> length (jc_encode codec (redact_record r)) < n)"
proof -
  let ?e = "jc_encode codec (redact_record r) @ [newline]"
  obtain out d1 where io: "next_io d = (out, d1)" by fastforce
  note d1 = next_io_content [OF io]
  show ?thesis
  proof (cases out)
    case Io_Ok
    with assms io d1 show ?thesis
      by (intro exI [of _ "length ?e"]) (auto simp: append_locked_def Let_def)
  next
    case Io_Error
    with assms io d1 show ?thesis by (intro exI [of _ 0]) (auto simp: append_locked_def Let_def)
  next
    case (Io_Partial n)
    with assms io d1 show ?thesis by (intro exI [of _ n]) (auto simp: append_locked_def Let_def)
  qed
qed

lemma compact_locked_content:
  assumes "compact_locked codec d = (x, d')"
  shows "dsk_content d' = dsk_content d \<or>
    dsk_content d' = compacted codec (current_of codec (dsk_content d))"
  using assms
  by (auto simp: compact_locked_def current_unacknowledged_def and_then_def dest!: next_io_content
      split: prod.splits sum.splits io_outcome.splits if_splits)

lemma compaction_keeps_map:
  assumes "journal_disk_ok d" and "codec_ok codec (snd ` set (current_of codec (dsk_content d)))"
    and "compact_locked codec d = (x, d')"
  shows "map_of (current_of codec (dsk_content d')) = map_of (current_of codec (dsk_content d)) \<and>
    journal_disk_ok d'"
  using compact_locked_content [OF assms(3)] assms(1,2) compacted_same_map [OF current_of_ok, of codec codec]
  by (auto simp: journal_disk_ok_def)

text \<open>
  C23. The journal file is a map: on an intact file, appending a record leaves the file intact and
  maps the operation to that record, with its payload redacted, or forgets the operation when the
  record acknowledges it; every other operation keeps its record, whether the file is compacted,
  compaction fails half-way, or is not attempted.
\<close>

theorem journal_append_is_map_update:
  assumes "journal_disk_ok d" and "codec_covers codec d r"
    and "journal_append codec r d = (Inr (), d')"
  shows "map_of (current_of codec (dsk_content d')) =
      (map_of (current_of codec (dsk_content d)))
        (journal_key r := if jr_phase r = Database_Acknowledged then None else Some (redact_record r)) \<and>
    journal_disk_ok d'"
proof -
  let ?e = "jc_encode codec (redact_record r)"
  obtain x d1 where a: "append_locked codec r d = (x, d1)" by fastforce
  with assms(3) have x: "x = Inr ()" by (cases x) (auto simp: journal_append_def)
  from append_locked_content [OF a] x obtain n where
    "dsk_content d1 = dsk_content d @ take n (?e @ [newline])" "length ?e < n" by auto
  then have c1: "dsk_content d1 = dsk_content d @ ?e @ [newline]" by simp
  have one: "codec_ok codec {redact_record r}"
    using assms(2) by (simp add: codec_covers_def codec_ok_def)
  with c1 assms(1) have cur: "current_of codec (dsk_content d1) =
      apply_record (current_of codec (dsk_content d)) r"
    by (simp add: current_of_append journal_disk_ok_def)
  have ok1: "journal_disk_ok d1"
    using assms(1) one c1 valid_utf8_newline
    by (auto simp: journal_disk_ok_def terminated_def codec_ok_def intro!: valid_utf8_append)
  have covered: "codec_ok codec (snd ` set (current_of codec (dsk_content d1)))"
    using assms(2) cur set_alist_update [of "journal_key r" "redact_record r" "current_of codec (dsk_content d)"]
      set_alist_delete [of "journal_key r" "current_of codec (dsk_content d)"]
    unfolding codec_covers_def codec_ok_def apply_record_def by (fastforce split: if_splits)
  obtain out d2 where io: "next_io d1 = (out, d2)" by fastforce
  have d2: "dsk_content d2 = dsk_content d1" using next_io_content [OF io] .
  obtain y d3 where c: "compact_locked codec d2 = (y, d3)" by fastforce
  have "d' = d2 \<or> d' = d3"
    using assms(3) a x io c by (auto simp: journal_append_def Let_def split: if_splits)
  then have "map_of (current_of codec (dsk_content d')) = map_of (current_of codec (dsk_content d1)) \<and>
      journal_disk_ok d'"
    using ok1 covered d2 compaction_keeps_map [OF _ _ c] by (auto simp: journal_disk_ok_def)
  then show ?thesis by (simp add: cur apply_record_map)
qed

definition flag_free :: "json \<Rightarrow> bool" where
  "flag_free v \<longleftrightarrow> json_pointer [''deployment'', ''flag_value''] v \<in> {None, Some (JStr ''[redacted]'')}"

lemma map_of_map_value:
  "map_of (map (\<lambda>(k, v). (k, f k v)) ms) k = map_option (f k) (map_of ms k)"
  by (induction ms) auto

lemma redact_payload_flag_free: "flag_free (redact_payload v)"
proof (cases v)
  case (JObj ms)
  have "json_get ''deployment'' (redact_payload v) =
      map_option redact_deployment (map_of ms ''deployment'')"
    using JObj map_of_map_value [of "\<lambda>k v. if k = ''deployment'' then redact_deployment v else v" ms]
    by simp
  moreover have "json_get ''flag_value'' (redact_deployment x) \<in> {None, Some (JStr ''[redacted]'')}" for x
    using map_of_map_value [of "\<lambda>k v. if k = ''flag_value'' then JStr redacted_flag_value else v"]
    by (cases x) (auto simp: redacted_flag_value_def)
  moreover have "json_pointer [k] x = json_get k x" for k x
    by (cases "json_get k x") auto
  ultimately show ?thesis
    by (cases "map_of ms ''deployment''") (auto simp: flag_free_def simp del: json_get.simps)
qed (auto simp: flag_free_def)

lemma redact_record_payload: "jr_payload (redact_record r) = map_option redact_payload (jr_payload r)"
  by (simp add: redact_record_def)

text \<open>
  C38. No flag value reaches the disk: the bytes an append leaves are a prefix of the line of a
  record whose payload has no flag value or only the placeholder, and so does every record that is
  read back.
\<close>

theorem flag_never_reaches_journal:
  assumes "append_locked codec r d = (x, d')"
  shows "(\<exists>r' n. dsk_content d' = dsk_content d @ take n (jc_encode codec r' @ [newline]) \<and>
      (\<forall>v. jr_payload r' = Some v \<longrightarrow> flag_free v)) \<and>
    (\<forall>k r'. (k, r') \<in> set (current_of codec (dsk_content d')) \<longrightarrow>
      (\<forall>v. jr_payload r' = Some v \<longrightarrow> flag_free v))"
proof -
  have red: "flag_free v" if "redact_record r' = r'" "jr_payload r' = Some v" for r' v
  proof -
    from that(1) have "map_option redact_payload (jr_payload r') = jr_payload r'"
      by (metis redact_record_payload)
    with that(2) have "redact_payload v = v" by simp
    with redact_payload_flag_free [of v] show ?thesis by simp
  qed
  have "\<exists>n. dsk_content d' = dsk_content d @ take n (jc_encode codec (redact_record r) @ [newline])"
    using append_locked_content [OF assms] by blast
  moreover have "\<forall>v. jr_payload (redact_record r) = Some v \<longrightarrow> flag_free v"
    using redact_payload_flag_free by (auto simp: redact_record_def)
  moreover have "\<forall>k r'. (k, r') \<in> set (current_of codec (dsk_content d')) \<longrightarrow>
      (\<forall>v. jr_payload r' = Some v \<longrightarrow> flag_free v)"
    using current_of_ok [of codec "dsk_content d'"] red by (force simp: journal_map_ok_def)
  ultimately show ?thesis by blast
qed

section \<open>Torn lines\<close>

lemma lines_torn:
  assumes "terminated xs" and "newline \<notin> set junk" and "junk \<noteq> []"
  shows "lines (xs @ junk) = lines xs @ [junk]"
proof -
  have single: "newline \<notin> set e \<Longrightarrow> acc @ e \<noteq> [] \<Longrightarrow> lines_from acc e = [acc @ e]" for acc e
    by (induction e arbitrary: acc) auto
  show ?thesis
  proof (cases "xs = []")
    case True
    with single [of junk "[]"] assms show ?thesis by (simp add: lines_def)
  next
    case False
    with assms(1) obtain ys where xs: "xs = ys @ [newline]"
      by (auto simp: terminated_def) (metis append_butlast_last_id)
    with single [of junk "[]"] assms lines_from_append [of "[]" ys junk] lines_from_append [of "[]" ys "[]"]
    show ?thesis by (simp add: lines_def)
  qed
qed

text \<open>
  C39. A torn line swallows the record that follows it: when a crash left an unterminated line, the
  next append reports success, but the record shares that line and is not seen by any later
  reading, so the intent is lost although it was fsynced before the remote call.
\<close>

theorem torn_line_swallows_next_record:
  assumes "terminated xs" and "newline \<notin> set junk" and "junk \<noteq> []"
    and "jc_decode codec junk = None"
    and "jc_decode codec (strip_cr (junk @ jc_encode codec (redact_record r))) = None"
    and "newline \<notin> set (jc_encode codec (redact_record r))"
    and "jr_phase r = Intent" and "length (xs @ junk @ jc_encode codec (redact_record r)) < 1048575"
  shows "\<exists>d'. journal_append codec r \<lparr>dsk_content = xs @ junk, dsk_io = []\<rparr> = (Inr (), d') \<and>
    current_of codec (dsk_content d') = current_of codec (xs @ junk) \<and>
    current_of codec (xs @ junk) = current_of codec xs"
proof -
  let ?e = "jc_encode codec (redact_record r)"
  let ?d = "\<lparr>dsk_content = xs @ junk @ ?e @ [newline], dsk_io = []\<rparr>"
  have "journal_append codec r \<lparr>dsk_content = xs @ junk, dsk_io = []\<rparr> = (Inr (), ?d)"
    using assms(7,8)
    by (simp add: journal_append_def append_locked_def next_io_def Let_def compaction_threshold_bytes_def)
  moreover have "lines (dsk_content ?d) = lines xs @ [strip_cr (junk @ ?e)]"
    using lines_append [OF assms(1), of "junk @ ?e"] assms(2,6) by simp
  then have "current_of codec (dsk_content ?d) = current_of codec xs"
    using assms(5) by (simp add: current_of_def apply_line_def)
  moreover have "current_of codec (xs @ junk) = current_of codec xs"
    using lines_torn [OF assms(1-3)] assms(4) by (simp add: current_of_def apply_line_def)
  ultimately show ?thesis by auto
qed

section \<open>Concrete instances\<close>

definition sample_record :: journal_record where
  "sample_record = \<lparr>jr_instance_id = 1, jr_command_id = 2, jr_generation = 3, jr_setting_revision = 1,
     jr_challenge_runtime_revision = 1, jr_operation = Ensure_Instance, jr_phase = Intent,
     jr_remote_server = None, jr_effective_expires_at = 0, jr_remote_result = None,
     jr_payload = Some (JObj [(''deployment'', JObj [(''flag_value'', JStr ''[redacted]'')])]),
     jr_updated_at = 0\<rparr>"

definition sample_codec :: journal_codec where
  "sample_codec = \<lparr>jc_encode = (\<lambda>r. if r = sample_record then ''{1}'' else ''{}''),
     jc_decode = (\<lambda>s. if s = ''{1}'' then Some sample_record else None)\<rparr>"

lemma sample_redacted [simp]: "redact_record sample_record = sample_record"
  by (simp add: redact_record_def sample_record_def redacted_flag_value_def)

lemma sample_record_fields [simp]:
  "jr_phase sample_record = Intent" "jr_instance_id sample_record = 1" "jr_command_id sample_record = 2"
  by (simp_all add: sample_record_def)

lemma sample_append:
  "journal_append sample_codec sample_record \<lparr>dsk_content = [], dsk_io = []\<rparr> =
     (Inr (), \<lparr>dsk_content = ''{1}'' @ [newline], dsk_io = []\<rparr>)"
  by (simp add: journal_append_def append_locked_def next_io_def Let_def compaction_threshold_bytes_def
      sample_codec_def)

lemma sample_codec_ok: "codec_ok sample_codec {sample_record}"
  by (simp add: codec_ok_def sample_codec_def newline_def valid_utf8_def)

theorem journal_append_is_map_update_witness:
  "map_of (current_of sample_codec (''{1}'' @ [newline])) (1, 2) = Some sample_record"
proof -
  have "journal_disk_ok \<lparr>dsk_content = [], dsk_io = []\<rparr>"
    by (simp add: journal_disk_ok_def terminated_def valid_utf8_def)
  moreover have "codec_covers sample_codec \<lparr>dsk_content = [], dsk_io = []\<rparr> sample_record"
    using sample_codec_ok by (simp add: codec_covers_def current_of_def lines_def)
  ultimately show ?thesis
    using journal_append_is_map_update [OF _ _ sample_append] by simp
qed

theorem flag_never_reaches_journal_witness:
  "\<exists>r' n. ''{1}'' @ [newline] = take n (jc_encode sample_codec r' @ [newline]) \<and>
     (\<forall>v. jr_payload r' = Some v \<longrightarrow> flag_free v)"
proof -
  have "append_locked sample_codec sample_record \<lparr>dsk_content = [], dsk_io = []\<rparr> =
     (Inr (), \<lparr>dsk_content = ''{1}'' @ [newline], dsk_io = []\<rparr>)"
    by (simp add: append_locked_def next_io_def Let_def sample_codec_def)
  from flag_never_reaches_journal [OF this] show ?thesis by simp
qed

theorem torn_line_swallows_next_record_witness:
  "\<exists>d'. journal_append sample_codec sample_record \<lparr>dsk_content = ''{'', dsk_io = []\<rparr> = (Inr (), d') \<and>
     current_of sample_codec (dsk_content d') = []"
proof -
  have "\<exists>d'. journal_append sample_codec sample_record \<lparr>dsk_content = [] @ ''{'', dsk_io = []\<rparr> = (Inr (), d') \<and>
     current_of sample_codec (dsk_content d') = current_of sample_codec ([] @ ''{'') \<and>
     current_of sample_codec ([] @ ''{'') = current_of sample_codec []"
    by (rule torn_line_swallows_next_record)
       (simp_all add: terminated_def newline_def sample_codec_def strip_cr_def)
  moreover have "current_of sample_codec [] = []" by (simp add: current_of_def lines_def)
  ultimately show ?thesis by auto
qed

end
