(* ===== verification/RuntimeTables.thy ===== *)
theory RuntimeTables
  imports ClaimQueue ControllerStatus Journal "HOL-Library.List_Lexorder" "HOL-Library.Char_ord"
begin

text \<open>
  The tables of the runtime control plane as the controller sees them
  (\<open>services/controller/src/worker.rs\<close>; schema \<open>db/init/003-runtime-control-plane.sql\<close>), and the
  statements it executes on them, each with its \<open>WHERE\<close> clause and assignments as written.

  \<open>gen_random_uuid()\<close> draws the next number that no row carries yet. An insert
  \<open>ON CONFLICT DO NOTHING\<close> is skipped when an open command of that instance, kind and generation
  exists. Updates that could violate a row's \<open>CHECK\<close> constraints test them and fail.
\<close>

section \<open>Rows\<close>

datatype desired_state = Want_Running | Want_Stopped

datatype observed_state =
    Obs_Requested | Obs_Starting | Obs_Ready | Obs_Stopping | Obs_Cleanup_Pending
  | Obs_Terminated | Obs_Expired | Obs_Failed | Obs_Unknown

datatype command_kind = Cmd_Start | Cmd_Terminate | Cmd_Extend | Cmd_Inspect | Cmd_Reconcile

definition command_kind_text :: "command_kind \<Rightarrow> string" where
  "command_kind_text k =
     (case k of Cmd_Start \<Rightarrow> ''start'' | Cmd_Terminate \<Rightarrow> ''terminate'' | Cmd_Extend \<Rightarrow> ''extend''
      | Cmd_Inspect \<Rightarrow> ''inspect'' | Cmd_Reconcile \<Rightarrow> ''reconcile'')"

record runtime_instance =
  ins_id :: uuid
  ins_owner_user_id :: int
  ins_created_by_user_id :: int
  ins_team_id :: "int option"
  ins_challenge_id :: int
  ins_private_revision :: int
  ins_runtime_revision :: int
  ins_deployment_snapshot :: json
  ins_active :: bool
  ins_desired_state :: desired_state
  ins_observed_state :: observed_state
  ins_desired_expires_at :: time
  ins_maximum_expires_at :: time
  ins_observed_expires_at :: "time option"
  ins_expires_at :: time
  ins_remote_server_id :: "uuid option"
  ins_remote_container_id :: "string option"
  ins_remote_ip :: "string option"
  ins_container_port :: "int option"
  ins_published_ip :: "string option"
  ins_published_port :: "int option"
  ins_protocol :: "string option"
  ins_public_hostname :: "string option"
  ins_endpoint_url :: "string option"
  ins_generation :: int
  ins_observed_generation :: int
  ins_extension_count :: int
  ins_created_at :: time
  ins_activated_at :: "time option"
  ins_ready_at :: "time option"
  ins_last_observed_at :: "time option"
  ins_stopped_at :: "time option"
  ins_failure_code :: "string option"
  ins_failure_message :: "string option"

record command_row =
  cmd_id :: uuid
  cmd_instance_id :: uuid
  cmd_kind :: command_kind
  cmd_generation :: int
  cmd_setting_revision :: int
  cmd_runtime_revision :: int
  cmd_payload :: json
  cmd_status :: work_status
  cmd_requested_by :: "int option"
  cmd_idempotency_key :: "string option"
  cmd_attempts :: int
  cmd_available_at :: time
  cmd_created_at :: time
  cmd_claimed_at :: "time option"
  cmd_claim_token :: "uuid option"
  cmd_completed_at :: "time option"
  cmd_last_error :: "string option"

text \<open>What a claim returns (\<open>CommandRow\<close>).\<close>

record command =
  rc_id :: uuid
  rc_claim_token :: uuid
  rc_instance_id :: uuid
  rc_kind :: command_kind
  rc_generation :: int
  rc_setting_revision :: int
  rc_runtime_revision :: int
  rc_payload :: json
  rc_attempts :: int

record server_row =
  sr_server :: remote_server
  sr_enabled :: bool

record runtime_config =
  rcf_challenge_id :: int
  rcf_mode :: string
  rcf_enabled :: bool
  rcf_image_digest :: "string option"
  rcf_protocol :: string
  rcf_container_port :: "int option"
  rcf_default_ttl :: int
  rcf_maximum_ttl :: int
  rcf_allow_extension :: bool
  rcf_maximum_extensions :: int
  rcf_cpu_limit :: "string option"
  rcf_memory_limit :: "int option"
  rcf_pid_limit :: "int option"
  rcf_storage_limit :: "int option"
  rcf_healthcheck :: json
  rcf_remote_pool :: "string option"
  rcf_revision :: int

definition rcf_managed :: "runtime_config \<Rightarrow> bool" where
  "rcf_managed c \<longleftrightarrow> rcf_mode c = ''managed''"

record runtime_event =
  rev_instance_id :: uuid
  rev_event_type :: string
  rev_source :: string
  rev_actor_user_id :: "int option"
  rev_payload :: json

text \<open>A notification is its channel and its text. \<open>rt_setting\<close> is the row \<open>private_challenges\<close> of \<open>runtime_settings\<close>: enabled and revision.\<close>

record runtime_db =
  rt_setting :: "(bool \<times> int) option"
  rt_configs :: "runtime_config list"
  rt_servers :: "server_row list"
  rt_instances :: "runtime_instance list"
  rt_commands :: "command_row list"
  rt_events :: "runtime_event list"
  rt_notified :: "(string \<times> string) list"
  rt_next_id :: uuid

definition command_channel :: string where
  "command_channel = ''ctfzone_runtime_commands''"

abbreviation command_slot :: "command_row \<Rightarrow> uuid \<times> command_kind \<times> int" where
  "command_slot r \<equiv> (cmd_instance_id r, cmd_kind r, cmd_generation r)"

abbreviation command_claim :: "command \<Rightarrow> command_row \<Rightarrow> bool" where
  "command_claim command \<equiv> (\<lambda>r. cmd_id r = rc_id command \<and> cmd_status r = Claimed \<and>
                              cmd_claim_token r = Some (rc_claim_token command))"

section \<open>Verdicts on a claimed command\<close>

datatype command_verdict =
    Cmd_Complete time
  | Cmd_Cancel time string
  | Cmd_Fail time string
  | Cmd_Retry time string

fun settle_command :: "command_verdict \<Rightarrow> command_row \<Rightarrow> command_row" where
  "settle_command (Cmd_Complete now) r =
     r\<lparr>cmd_status := Completed, cmd_claimed_at := None, cmd_claim_token := None,
       cmd_completed_at := Some now, cmd_last_error := None\<rparr>"
| "settle_command (Cmd_Cancel now e) r =
     r\<lparr>cmd_status := Cancelled, cmd_claimed_at := None, cmd_claim_token := None,
       cmd_completed_at := Some now, cmd_last_error := Some e\<rparr>"
| "settle_command (Cmd_Fail now e) r =
     r\<lparr>cmd_status := Failed, cmd_claimed_at := None, cmd_claim_token := None,
       cmd_completed_at := Some now, cmd_last_error := Some e\<rparr>"
| "settle_command (Cmd_Retry t e) r =
     r\<lparr>cmd_status := Pending, cmd_claimed_at := None, cmd_claim_token := None,
       cmd_available_at := t, cmd_last_error := Some e\<rparr>"

fun command_target :: "command_verdict \<Rightarrow> work_status" where
  "command_target (Cmd_Complete _) = Completed"
| "command_target (Cmd_Cancel _ _) = Cancelled"
| "command_target (Cmd_Fail _ _) = Failed"
| "command_target (Cmd_Retry _ _) = Pending"

text \<open>The guarded update \<open>WHERE id=... AND status='claimed' AND claim_token=...\<close> and its row count.\<close>

definition settle_command_sql ::
  "command \<Rightarrow> command_verdict \<Rightarrow> runtime_db \<Rightarrow> nat \<times> runtime_db" where
  "settle_command_sql command v d =
     (rows_affected (command_claim command) (rt_commands d),
      d\<lparr>rt_commands := update_where (command_claim command) (settle_command v) (rt_commands d)\<rparr>)"

interpretation command_queue: claim_queue cmd_id cmd_status cmd_claim_token command_slot
  settle_command command_target
proof
  fix v r
  show "cmd_id (settle_command v r) = cmd_id r" by (cases v) auto
  show "command_slot (settle_command v r) = command_slot r" by (cases v) auto
  show "cmd_status (settle_command v r) = command_target v" by (cases v) auto
  show "command_target v \<noteq> Claimed" by (cases v) auto
qed

section \<open>Claims\<close>

definition release_commands ::
  "(command_row \<Rightarrow> bool) \<Rightarrow> time \<Rightarrow> string \<Rightarrow> runtime_db \<Rightarrow> nat \<times> runtime_db" where
  "release_commands P now e d =
     (rows_affected P (rt_commands d),
      d\<lparr>rt_commands := update_where P
          (\<lambda>r. r\<lparr>cmd_status := Pending, cmd_claimed_at := None, cmd_claim_token := None,
                 cmd_available_at := now, cmd_last_error := Some e\<rparr>) (rt_commands d)\<rparr>)"

definition stale_command :: "time \<Rightarrow> int \<Rightarrow> command_row \<Rightarrow> bool" where
  "stale_command now seconds r \<longleftrightarrow>
     cmd_status r = Claimed \<and>
     (case cmd_claimed_at r of None \<Rightarrow> False | Some t \<Rightarrow> t < now - secs seconds)"

definition recover_stale_commands_sql :: "time \<Rightarrow> int \<Rightarrow> runtime_db \<Rightarrow> nat \<times> runtime_db" where
  "recover_stale_commands_sql now seconds =
     release_commands (stale_command now seconds) now ''controller claim recovered after restart''"

definition recover_all_commands_sql :: "time \<Rightarrow> runtime_db \<Rightarrow> nat \<times> runtime_db" where
  "recover_all_commands_sql now =
     release_commands (\<lambda>r. cmd_status r = Claimed) now
       ''controller claim recovered during single-controller startup''"

definition claimable_command :: "uuid set \<Rightarrow> time \<Rightarrow> command_row \<Rightarrow> bool" where
  "claimable_command locked now r \<longleftrightarrow>
     cmd_status r = Pending \<and> cmd_available_at r \<le> now \<and> cmd_id r \<notin> locked"

definition take_command :: "time \<Rightarrow> uuid \<Rightarrow> command_row \<Rightarrow> command_row" where
  "take_command now token r =
     r\<lparr>cmd_status := Claimed, cmd_claimed_at := Some now, cmd_claim_token := Some token,
       cmd_attempts := cmd_attempts r + 1\<rparr>"

definition claim_command_sql ::
  "uuid set \<Rightarrow> time \<Rightarrow> runtime_db \<Rightarrow> command option \<times> runtime_db" where
  "claim_command_sql locked now d =
     (case first_by cmd_created_at (claimable_command locked now) (rt_commands d) of
        None \<Rightarrow> (None, d)
      | Some r \<Rightarrow>
          (Some \<lparr>rc_id = cmd_id r, rc_claim_token = rt_next_id d, rc_instance_id = cmd_instance_id r,
                 rc_kind = cmd_kind r, rc_generation = cmd_generation r,
                 rc_setting_revision = cmd_setting_revision r,
                 rc_runtime_revision = cmd_runtime_revision r, rc_payload = cmd_payload r,
                 rc_attempts = cmd_attempts r + 1\<rparr>,
           d\<lparr>rt_commands := update_where (\<lambda>q. cmd_id q = cmd_id r) (take_command now (rt_next_id d))
                (rt_commands d),
              rt_next_id := rt_next_id d + 1\<rparr>))"

definition command_held :: "command \<Rightarrow> runtime_db \<Rightarrow> bool" where
  "command_held command d \<longleftrightarrow> (\<exists>r \<in> set (rt_commands d). command_claim command r)"

section \<open>New commands\<close>

definition open_command :: "uuid \<Rightarrow> command_kind \<Rightarrow> command_row \<Rightarrow> bool" where
  "open_command i kind r \<longleftrightarrow>
     cmd_instance_id r = i \<and> cmd_kind r = kind \<and> open_status (cmd_status r)"

definition new_command ::
  "time \<Rightarrow> uuid \<Rightarrow> uuid \<Rightarrow> command_kind \<Rightarrow> int \<Rightarrow> int \<Rightarrow> int \<Rightarrow> json \<Rightarrow> command_row" where
  "new_command now i instance_id kind generation setting_revision runtime_revision payload =
     \<lparr>cmd_id = i, cmd_instance_id = instance_id, cmd_kind = kind, cmd_generation = generation,
      cmd_setting_revision = setting_revision, cmd_runtime_revision = runtime_revision,
      cmd_payload = payload, cmd_status = Pending, cmd_requested_by = None,
      cmd_idempotency_key = None, cmd_attempts = 0, cmd_available_at = now,
      cmd_created_at = now, cmd_claimed_at = None, cmd_claim_token = None,
      cmd_completed_at = None, cmd_last_error = None\<rparr>"

definition insert_command ::
  "time \<Rightarrow> uuid \<Rightarrow> command_kind \<Rightarrow> int \<Rightarrow> int \<Rightarrow> int \<Rightarrow> json \<Rightarrow> runtime_db
   \<Rightarrow> uuid option \<times> runtime_db" where
  "insert_command now instance_id kind generation setting_revision runtime_revision payload d =
     (if \<exists>r \<in> set (rt_commands d). open_command instance_id kind r \<and> cmd_generation r = generation
      then (None, d)
      else (Some (rt_next_id d),
            d\<lparr>rt_commands := rt_commands d @ [new_command now (rt_next_id d) instance_id kind
                 generation setting_revision runtime_revision payload],
              rt_next_id := rt_next_id d + 1\<rparr>))"

section \<open>Policy\<close>

definition setting_enabled :: "runtime_db \<Rightarrow> bool" where
  "setting_enabled d = (case rt_setting d of None \<Rightarrow> False | Some (enabled, _) \<Rightarrow> enabled)"

definition setting_revision :: "runtime_db \<Rightarrow> int" where
  "setting_revision d = (case rt_setting d of None \<Rightarrow> 0 | Some (_, r) \<Rightarrow> r)"

definition config_of :: "int \<Rightarrow> runtime_db \<Rightarrow> runtime_config option" where
  "config_of challenge_id d = List.find (\<lambda>c. rcf_challenge_id c = challenge_id) (rt_configs d)"

definition runtime_managed :: "int \<Rightarrow> runtime_db \<Rightarrow> bool" where
  "runtime_managed challenge_id d =
     (case config_of challenge_id d of None \<Rightarrow> False | Some c \<Rightarrow> rcf_enabled c \<and> rcf_managed c)"

definition runtime_revision_of :: "int \<Rightarrow> runtime_db \<Rightarrow> int" where
  "runtime_revision_of challenge_id d =
     (case config_of challenge_id d of None \<Rightarrow> 0 | Some c \<Rightarrow> rcf_revision c)"

record runtime_gate =
  gate_setting_enabled :: bool
  gate_setting_revision :: int
  gate_runtime_enabled :: bool
  gate_runtime_revision :: int

definition runtime_gate_sql :: "int \<Rightarrow> runtime_db \<Rightarrow> runtime_gate" where
  "runtime_gate_sql challenge_id d = \<lparr>
     gate_setting_enabled = setting_enabled d, gate_setting_revision = setting_revision d,
     gate_runtime_enabled = runtime_managed challenge_id d,
     gate_runtime_revision = runtime_revision_of challenge_id d\<rparr>"

section \<open>Safety sweeps\<close>

definition termination_open :: "runtime_db \<Rightarrow> uuid \<Rightarrow> bool" where
  "termination_open d i \<longleftrightarrow> (\<exists>c \<in> set (rt_commands d). open_command i Cmd_Terminate c)"

definition termination_recently_failed :: "time \<Rightarrow> int \<Rightarrow> runtime_db \<Rightarrow> uuid \<Rightarrow> bool" where
  "termination_recently_failed now seconds d i \<longleftrightarrow>
     (\<exists>c \<in> set (rt_commands d). cmd_instance_id c = i \<and> cmd_kind c = Cmd_Terminate \<and>
        cmd_status c = Failed \<and>
        (case cmd_completed_at c of None \<Rightarrow> False | Some t \<Rightarrow> t > now - secs seconds))"

definition policy_candidates :: "time \<Rightarrow> int \<Rightarrow> runtime_db \<Rightarrow> (uuid \<times> desired_state) list" where
  "policy_candidates now seconds d =
     map (\<lambda>i. (ins_id i, ins_desired_state i))
       (sort_key ins_created_at (filter (\<lambda>i. ins_active i \<and>
          (ins_desired_state i = Want_Stopped \<or> \<not> setting_enabled d \<or>
           \<not> runtime_managed (ins_challenge_id i) d) \<and>
          \<not> termination_open d (ins_id i) \<and>
          \<not> termination_recently_failed now seconds d (ins_id i)) (rt_instances d)))"

definition overdue_candidates :: "time \<Rightarrow> int \<Rightarrow> runtime_db \<Rightarrow> uuid list" where
  "overdue_candidates now seconds d =
     map ins_id
       (sort_key ins_expires_at (filter (\<lambda>i. ins_active i \<and> ins_expires_at i \<le> now \<and>
          \<not> termination_open d (ins_id i) \<and>
          \<not> termination_recently_failed now seconds d (ins_id i)) (rt_instances d)))"

definition active_inspection_batch_size :: nat where
  "active_inspection_batch_size = 64"

text \<open>\<open>ORDER BY last_observed_at NULLS FIRST, created_at, id\<close>\<close>

definition nulls_first :: "time option \<Rightarrow> bool \<times> time" where
  "nulls_first x = (case x of None \<Rightarrow> (False, 0) | Some t \<Rightarrow> (True, t))"

definition inspection_candidates :: "time \<Rightarrow> int option \<Rightarrow> runtime_db \<Rightarrow> runtime_instance list" where
  "inspection_candidates now minimum_age d =
     take active_inspection_batch_size
       (sort_key (\<lambda>i. (nulls_first (ins_last_observed_at i), ins_created_at i, ins_id i))
         (filter (\<lambda>i. ins_active i \<and> ins_desired_state i = Want_Running \<and> ins_expires_at i > now \<and>
            ins_remote_server_id i \<noteq> None \<and>
            ins_observed_state i \<in> {Obs_Ready, Obs_Starting, Obs_Unknown} \<and>
            (case minimum_age of None \<Rightarrow> True
             | Some s \<Rightarrow> (case ins_last_observed_at i of None \<Rightarrow> ins_created_at i | Some t \<Rightarrow> t)
                         \<le> now - secs s) \<and>
            \<not> (\<exists>c \<in> set (rt_commands d). cmd_instance_id c = ins_id i \<and> open_status (cmd_status c)))
          (rt_instances d)))"

definition enqueue_inspections_sql :: "time \<Rightarrow> int option \<Rightarrow> runtime_db \<Rightarrow> nat \<times> runtime_db" where
  "enqueue_inspections_sql now minimum_age d =
     (let d' = fold (\<lambda>i d. snd (insert_command now (ins_id i) Cmd_Inspect (ins_generation i)
                 (ins_private_revision i) (ins_runtime_revision i) (JObj []) d))
               (inspection_candidates now minimum_age d) d
      in (length (rt_commands d') - length (rt_commands d), d'))"

section \<open>Instances and servers\<close>

definition find_instance :: "uuid \<Rightarrow> runtime_db \<Rightarrow> runtime_instance option" where
  "find_instance i d = List.find (\<lambda>r. ins_id r = i) (rt_instances d)"

definition update_instances ::
  "(runtime_instance \<Rightarrow> bool) \<Rightarrow> (runtime_instance \<Rightarrow> runtime_instance) \<Rightarrow> runtime_db
   \<Rightarrow> nat \<times> runtime_db" where
  "update_instances P f d =
     (rows_affected P (rt_instances d), d\<lparr>rt_instances := update_where P f (rt_instances d)\<rparr>)"

text \<open>The \<open>CHECK\<close> constraints on the columns that come from the remote helper; \<open>valid_inet\<close> is
  PostgreSQL's reading of an \<open>inet\<close>.\<close>

definition instance_checks :: "(string \<Rightarrow> bool) \<Rightarrow> runtime_instance \<Rightarrow> bool" where
  "instance_checks valid_inet r \<longleftrightarrow>
     (case ins_container_port r of None \<Rightarrow> True | Some p \<Rightarrow> 1 \<le> p \<and> p \<le> 65535) \<and>
     (case ins_published_port r of None \<Rightarrow> True | Some p \<Rightarrow> 1 \<le> p \<and> p \<le> 65535) \<and>
     (case ins_protocol r of None \<Rightarrow> True | Some p \<Rightarrow> p \<in> {''tcp'', ''http'', ''https''}) \<and>
     (case ins_remote_ip r of None \<Rightarrow> True | Some p \<Rightarrow> valid_inet p) \<and>
     (case ins_published_ip r of None \<Rightarrow> True | Some p \<Rightarrow> valid_inet p) \<and>
     ins_expires_at r \<le> ins_maximum_expires_at r"

definition update_instances_checked ::
  "(string \<Rightarrow> bool) \<Rightarrow> (runtime_instance \<Rightarrow> bool) \<Rightarrow> (runtime_instance \<Rightarrow> runtime_instance)
   \<Rightarrow> runtime_db \<Rightarrow> nat result \<times> runtime_db" where
  "update_instances_checked valid_inet P f d =
     (if \<forall>r \<in> set (rt_instances d). P r \<longrightarrow> instance_checks valid_inet (f r)
      then (Inr (rows_affected P (rt_instances d)),
            d\<lparr>rt_instances := update_where P f (rt_instances d)\<rparr>)
      else (Inl ''new row for relation runtime_instances violates check constraint'', d))"

definition active_count :: "runtime_db \<Rightarrow> uuid \<Rightarrow> nat" where
  "active_count d s =
     length (filter (\<lambda>i. ins_remote_server_id i = Some s \<and> ins_active i) (rt_instances d))"

definition has_capacity :: "runtime_db \<Rightarrow> remote_server \<Rightarrow> bool" where
  "has_capacity d s \<longleftrightarrow> int (active_count d (srv_id s)) < srv_capacity s"

definition select_server :: "uuid set \<Rightarrow> json \<Rightarrow> runtime_db \<Rightarrow> remote_server option" where
  "select_server locked snapshot d =
     (let requested_pool = Option.bind (json_get ''remote_pool'' snapshot) json_str in
      map_option sr_server
        (first_by (\<lambda>s. (active_count d (srv_id (sr_server s)), srv_name (sr_server s)))
          (\<lambda>s. sr_enabled s \<and>
               (requested_pool = None \<or> srv_pool (sr_server s) = requested_pool) \<and>
               has_capacity d (sr_server s) \<and> srv_id (sr_server s) \<notin> locked)
          (rt_servers d)))"

definition find_server :: "uuid \<Rightarrow> runtime_db \<Rightarrow> remote_server option" where
  "find_server i d = map_option sr_server (List.find (\<lambda>s. srv_id (sr_server s) = i) (rt_servers d))"

definition starting_update :: "time \<Rightarrow> uuid \<Rightarrow> runtime_instance \<Rightarrow> runtime_instance" where
  "starting_update now server_id r =
     r\<lparr>ins_observed_state := Obs_Starting, ins_remote_server_id := Some server_id,
       ins_activated_at := (case ins_activated_at r of None \<Rightarrow> Some now | Some t \<Rightarrow> Some t),
       ins_last_observed_at := Some now, ins_failure_code := None, ins_failure_message := None\<rparr>"

definition mark_starting_sql ::
  "time \<Rightarrow> uuid \<Rightarrow> uuid \<Rightarrow> int \<Rightarrow> runtime_db \<Rightarrow> nat \<times> runtime_db" where
  "mark_starting_sql now server_id i generation =
     update_instances (\<lambda>r. ins_id r = i \<and> ins_generation r = generation \<and> ins_active r \<and>
         ins_desired_state r = Want_Running) (starting_update now server_id)"

definition append_runtime_event ::
  "uuid \<Rightarrow> string \<Rightarrow> json \<Rightarrow> runtime_db \<Rightarrow> unit \<times> runtime_db" where
  "append_runtime_event i event_type payload d =
     ((), d\<lparr>rt_events := rt_events d @
       [\<lparr>rev_instance_id = i, rev_event_type = event_type, rev_source = ''controller'',
         rev_actor_user_id = None, rev_payload = payload\<rparr>]\<rparr>)"

section \<open>Mode\<close>

definition mode_of :: "runtime_db \<Rightarrow> controller_mode" where
  "mode_of d =
     (if setting_enabled d \<and> (\<exists>c \<in> set (rt_configs d). rcf_managed c \<and> rcf_enabled c) then Enabled
      else if \<exists>i \<in> set (rt_instances d). ins_active i then Draining
      else Dormant)"

section \<open>Wake-up\<close>

definition termination_last_failed :: "runtime_db \<Rightarrow> uuid \<Rightarrow> time option" where
  "termination_last_failed d i =
     (case opt_list (map cmd_completed_at (filter (\<lambda>c. cmd_instance_id c = i \<and>
         cmd_kind c = Cmd_Terminate \<and> cmd_status c = Failed) (rt_commands d))) of
        [] \<Rightarrow> None
      | t # ts \<Rightarrow> Some (fold max ts t))"

definition safety_retry_times :: "time \<Rightarrow> int \<Rightarrow> runtime_db \<Rightarrow> time list" where
  "safety_retry_times now seconds d =
     opt_list (map (\<lambda>i. case termination_last_failed d (ins_id i) of
         None \<Rightarrow> None
       | Some t \<Rightarrow> if t + secs seconds > now \<and> \<not> termination_open d (ins_id i)
                   then Some (t + secs seconds) else None)
       (filter ins_active (rt_instances d)))"

definition stale_claim_times :: "time \<Rightarrow> int \<Rightarrow> runtime_db \<Rightarrow> time list" where
  "stale_claim_times now seconds d =
     filter (\<lambda>t. t > now) (map (\<lambda>t. t + secs seconds)
       (opt_list (map cmd_claimed_at (filter (\<lambda>c. cmd_status c = Claimed) (rt_commands d)))))"

end
