(* ===== verification/RuntimeWorker.thy ===== *)
theory RuntimeWorker
  imports RuntimeTables
begin

text \<open>
  The runtime worker of \<open>services/controller/src/worker.rs\<close>: the transactions on commands and
  instances, the handlers of the command kinds with their journal entries and remote calls, and
  the two journal procedures that need the database or the remote side
  (\<open>cleanup_overdue_without_database\<close>, \<open>reconcile_database_acknowledgements\<close> in \<open>journal.rs\<close>).

  \<open>lease\<close> holds the outcomes of the pings on the leadership connection, \<open>True\<close> when exhausted.
\<close>

record 's runtime_world = "runtime_db world" +
  jdisk :: disk
  remote_side :: 's
  controller_status :: status_snapshot
  lease :: "bool list"
  locked_rows :: "uuid set"

text \<open>
  The fixed surroundings of the worker: the executor, the journal's codec, the order in which
  iteration over a hash map visits it, PostgreSQL's reading of \<open>inet\<close>, the debug form of an
  optional string, and the configuration.
\<close>

record 's controller =
  ctl_executor :: "'s remote_executor"
  ctl_codec :: journal_codec
  ctl_hash_order :: "journal_map \<Rightarrow> journal_map"
  ctl_valid_inet :: "string \<Rightarrow> bool"
  ctl_debug_text :: "string option \<Rightarrow> string"
  ctl_max_command_attempts :: int
  ctl_reconciliation_interval :: time
  ctl_stale_claim_after :: time

section \<open>Steps on the surroundings\<close>

definition journal_step ::
  "(time \<Rightarrow> disk \<Rightarrow> 'a result \<times> disk) \<Rightarrow> 's runtime_world \<Rightarrow> 'a result \<times> 's runtime_world" where
  "journal_step f w = (case f (clock w) (jdisk w) of (r, d) \<Rightarrow> (r, w\<lparr>jdisk := d\<rparr>))"

definition journal_write ::
  "'s controller \<Rightarrow> (time \<Rightarrow> journal_record) \<Rightarrow> 's runtime_world \<Rightarrow> unit result \<times> 's runtime_world" where
  "journal_write ctl entry = journal_step (\<lambda>now. journal_append (ctl_codec ctl) (entry now))"

definition remote_step ::
  "'s controller \<Rightarrow> remote_server \<Rightarrow> remote_operation \<Rightarrow> json
   \<Rightarrow> 's runtime_world \<Rightarrow> remote_result result \<times> 's runtime_world" where
  "remote_step ctl server operation payload w =
     (case remote_execute (ctl_executor ctl) server operation payload (remote_side w) of
        (r, elapsed, s) \<Rightarrow> (r, w\<lparr>remote_side := s, clock := clock w + elapsed\<rparr>))"

text \<open>A transaction that takes the shared configuration lock first.\<close>

definition config_transaction ::
  "(time \<Rightarrow> 's runtime_world \<Rightarrow> 'a outcome result \<times> 's runtime_world)
   \<Rightarrow> 's runtime_world \<Rightarrow> 'a result \<times> 's runtime_world" where
  "config_transaction body =
     transaction (\<lambda>now w. and_then (statement (\<lambda>d. ((), d)) w) (\<lambda>_. body now))"

definition read_sql :: "(runtime_db \<Rightarrow> 'a) \<Rightarrow> 's runtime_world \<Rightarrow> 'a result \<times> 's runtime_world" where
  "read_sql f = statement (\<lambda>d. (f d, d))"

definition pool_read :: "(runtime_db \<Rightarrow> 'a) \<Rightarrow> 's runtime_world \<Rightarrow> 'a result \<times> 's runtime_world" where
  "pool_read f = on_pool (\<lambda>d. (f d, d))"

definition checked_statement ::
  "(runtime_db \<Rightarrow> 'a result \<times> runtime_db) \<Rightarrow> 's runtime_world \<Rightarrow> 'a result \<times> 's runtime_world" where
  "checked_statement q w = and_then (statement q w) Pair"

definition commit_with :: "'a \<Rightarrow> 's \<Rightarrow> 'a outcome result \<times> 's" where
  "commit_with x w = (Inr (Commit x), w)"

definition rollback_with :: "'a \<Rightarrow> 's \<Rightarrow> 'a outcome result \<times> 's" where
  "rollback_with x w = (Inr (Rollback x), w)"

definition lock_command_claim ::
  "command \<Rightarrow> 's runtime_world \<Rightarrow> bool result \<times> 's runtime_world" where
  "lock_command_claim command = read_sql (command_held command)"

definition runtime_event_step ::
  "uuid \<Rightarrow> string \<Rightarrow> json \<Rightarrow> 's runtime_world \<Rightarrow> unit result \<times> 's runtime_world" where
  "runtime_event_step i event_type payload = statement (append_runtime_event i event_type payload)"

section \<open>Settling commands\<close>

definition cancel_command ::
  "command \<Rightarrow> string \<Rightarrow> 's runtime_world \<Rightarrow> unit result \<times> 's runtime_world" where
  "cancel_command command reason w =
     and_then (on_pool (settle_command_sql command (Cmd_Cancel (clock w) reason)) w)
       (\<lambda>_ w. (Inr (), w))"

definition complete_command ::
  "command \<Rightarrow> 's runtime_world \<Rightarrow> unit result \<times> 's runtime_world" where
  "complete_command command w =
     and_then (on_pool (settle_command_sql command (Cmd_Complete (clock w))) w) (\<lambda>_ w. (Inr (), w))"

definition mark_command_cancelled ::
  "time \<Rightarrow> command \<Rightarrow> string \<Rightarrow> 's runtime_world \<Rightarrow> unit result \<times> 's runtime_world" where
  "mark_command_cancelled now command reason w =
     and_then (statement (settle_command_sql command (Cmd_Cancel now reason)) w) (\<lambda>n.
     require (n = 1) ''runtime command claim lease was lost while cancelling work'')"

definition mark_command_completed ::
  "time \<Rightarrow> command \<Rightarrow> 's runtime_world \<Rightarrow> unit result \<times> 's runtime_world" where
  "mark_command_completed now command w =
     and_then (statement (settle_command_sql command (Cmd_Complete now)) w) (\<lambda>n.
     require (n = 1) ''runtime command claim lease was lost before completion'')"

section \<open>Termination commands\<close>

definition request_stop_sql :: "uuid \<Rightarrow> int \<Rightarrow> runtime_db \<Rightarrow> nat \<times> runtime_db" where
  "request_stop_sql i generation =
     update_instances (\<lambda>r. ins_id r = i)
       (\<lambda>r. r\<lparr>ins_desired_state := Want_Stopped, ins_generation := generation\<rparr>)"

definition create_termination_in_transaction ::
  "time \<Rightarrow> uuid \<Rightarrow> string \<Rightarrow> 's runtime_world \<Rightarrow> (uuid \<times> int) option result \<times> 's runtime_world" where
  "create_termination_in_transaction now instance_id reason w =
     and_then (statement (\<lambda>d. ((), d)) w) (\<lambda>_ w.
     and_then (read_sql (\<lambda>d. List.find (\<lambda>r. ins_id r = instance_id \<and> ins_active r) (rt_instances d)) w)
       (\<lambda>found w.
     case found of None \<Rightarrow> (Inr None, w)
     | Some row \<Rightarrow>
     and_then (read_sql (\<lambda>d. termination_open d instance_id) w) (\<lambda>already_queued w.
     if already_queued then (Inr None, w)
     else
     and_then (statement (request_stop_sql instance_id (ins_generation row + 1)) w) (\<lambda>_ w.
     and_then (statement (insert_command now (ins_id row) Cmd_Terminate (ins_generation row + 1)
         (ins_private_revision row) (ins_runtime_revision row)
         (JObj [(''reason'', JStr reason), (''deadline'', JTime (ins_expires_at row))])) w)
       (\<lambda>inserted w.
     case inserted of None \<Rightarrow> (Inr None, w)
     | Some command_id \<Rightarrow>
     and_then (runtime_event_step (ins_id row) ''instance.termination_requested''
         (JObj [(''reason'', JStr reason), (''command_id'', json_uuid command_id)]) w) (\<lambda>_ w.
     and_then (statement (\<lambda>d. ((), d\<lparr>rt_notified := rt_notified d @ [(command_channel, uuid_text command_id)]\<rparr>)) w) (\<lambda>_ w.
     (Inr (Some (command_id, ins_owner_user_id row)), w))))))))"

definition create_termination_command ::
  "uuid \<Rightarrow> string \<Rightarrow> 's runtime_world \<Rightarrow> unit result \<times> 's runtime_world" where
  "create_termination_command instance_id reason =
     config_transaction (\<lambda>now w.
       and_then (create_termination_in_transaction now instance_id reason w) (\<lambda>_. commit_with ()))"

fun create_terminations ::
  "(uuid \<times> string) list \<Rightarrow> 's runtime_world \<Rightarrow> unit result \<times> 's runtime_world" where
  "create_terminations [] w = (Inr (), w)"
| "create_terminations ((i, reason) # xs) w =
     and_then (create_termination_command i reason w) (\<lambda>_. create_terminations xs)"

definition enqueue_policy_terminations ::
  "time \<Rightarrow> 's runtime_world \<Rightarrow> unit result \<times> 's runtime_world" where
  "enqueue_policy_terminations safety_retry_after w =
     and_then (pool_read (policy_candidates (clock w) (duration_seconds safety_retry_after)) w)
       (\<lambda>candidates. create_terminations (map (\<lambda>(i, desired). (i,
          if desired = Want_Stopped then ''cleanup_safety_retry'' else ''runtime_policy_disabled''))
        candidates))"

definition enqueue_overdue_terminations ::
  "time \<Rightarrow> 's runtime_world \<Rightarrow> unit result \<times> 's runtime_world" where
  "enqueue_overdue_terminations safety_retry_after w =
     and_then (pool_read (overdue_candidates (clock w) (duration_seconds safety_retry_after)) w)
       (\<lambda>ids. create_terminations (map (\<lambda>i. (i, ''absolute_deadline_reached'')) ids))"

definition enqueue_active_inspections ::
  "time option \<Rightarrow> 's runtime_world \<Rightarrow> unit result \<times> 's runtime_world" where
  "enqueue_active_inspections minimum_age w =
     and_then (on_pool (enqueue_inspections_sql (clock w) (map_option duration_seconds minimum_age)) w)
       (\<lambda>_ w. (Inr (), w))"

definition recover_stale_commands :: "time \<Rightarrow> 's runtime_world \<Rightarrow> unit result \<times> 's runtime_world" where
  "recover_stale_commands stale_after w =
     and_then (on_pool (recover_stale_commands_sql (clock w) (duration_seconds stale_after)) w)
       (\<lambda>_ w. (Inr (), w))"

definition recover_all_claims_on_startup :: "'s runtime_world \<Rightarrow> unit result \<times> 's runtime_world" where
  "recover_all_claims_on_startup w =
     and_then (on_pool (recover_all_commands_sql (clock w)) w) (\<lambda>_ w. (Inr (), w))"

section \<open>Payloads and checks of the helper's answer\<close>

definition json_remove :: "string \<Rightarrow> json \<Rightarrow> json" where
  "json_remove k v = (case v of JObj ms \<Rightarrow> JObj (filter (\<lambda>(k', _). k' \<noteq> k) ms) | _ \<Rightarrow> v)"

definition remote_payload ::
  "command \<Rightarrow> runtime_instance \<Rightarrow> remote_operation \<Rightarrow> string \<Rightarrow> json" where
  "remote_payload command i operation reason =
     (let deployment =
        (if operation \<noteq> Ensure_Instance then json_remove ''flag_value'' (ins_deployment_snapshot i)
         else ins_deployment_snapshot i)
      in JObj [
        (''instance_id'', json_uuid (ins_id i)),
        (''owner_user_id'', JInt (ins_owner_user_id i)),
        (''challenge_id'', JInt (ins_challenge_id i)),
        (''generation'', JInt (rc_generation command)),
        (''expires_at'', JTime (ins_desired_expires_at i)),
        (''maximum_expires_at'', JTime (ins_maximum_expires_at i)),
        (''deployment'', deployment),
        (''reason'', JStr reason),
        (''command_payload'', rc_payload command),
        (''remote_container_id'', json_opt JStr (ins_remote_container_id i))])"

definition require_remote_removal ::
  "remote_result \<Rightarrow> int \<Rightarrow> 's \<Rightarrow> unit result \<times> 's" where
  "require_remote_removal res generation w =
     (if res_stale_generation res = Some True
      then (Inl (''remote helper refused stale cleanup generation '' @ show_int generation
              @ '' (effective generation '' @ show_opt_int (res_effective_generation res) @ '')''), w)
      else if res_absent res \<noteq> Some True
      then (Inl ''remote helper did not confirm workload removal'', w)
      else (Inr (), w))"

definition require_remote_generation ::
  "remote_result \<Rightarrow> int \<Rightarrow> string \<Rightarrow> 's \<Rightarrow> unit result \<times> 's" where
  "require_remote_generation res generation operation =
     require (\<not> (res_stale_generation res = Some True \<or> res_effective_generation res \<noteq> Some generation))
       (''remote '' @ operation @ '' generation mismatch: expected '' @ show_int generation
        @ '', got '' @ show_opt_int (res_effective_generation res))"

definition require_remote_ready ::
  "'s controller \<Rightarrow> remote_result \<Rightarrow> string \<Rightarrow> 'w \<Rightarrow> unit result \<times> 'w" where
  "require_remote_ready ctl res operation =
     require (res_ready res = Some True)
       (''remote '' @ operation @ '' did not report a ready workload (runtime status ''
        @ ctl_debug_text ctl (res_runtime_status res) @ '', health status ''
        @ ctl_debug_text ctl (res_health_status res) @ '')'')"

definition make_intent ::
  "command \<Rightarrow> runtime_instance \<Rightarrow> remote_operation \<Rightarrow> remote_server option \<Rightarrow> json \<Rightarrow> journal_intent" where
  "make_intent command i operation server payload = \<lparr>
     ji_instance_id = ins_id i, ji_command_id = rc_id command, ji_generation = rc_generation command,
     ji_setting_revision = rc_setting_revision command,
     ji_challenge_runtime_revision = rc_runtime_revision command, ji_operation = operation,
     ji_remote_server = server, ji_effective_expires_at = ins_desired_expires_at i,
     ji_payload = payload\<rparr>"

section \<open>Transactions on instances\<close>

definition load_instance ::
  "uuid \<Rightarrow> 's runtime_world \<Rightarrow> runtime_instance result \<times> 's runtime_world" where
  "load_instance i w =
     and_then (pool_read (find_instance i) w) (\<lambda>found w. case found of
         None \<Rightarrow> (Inl ''command refers to a missing runtime instance'', w)
       | Some r \<Rightarrow> (Inr r, w))"

definition load_remote_server ::
  "uuid \<Rightarrow> 's runtime_world \<Rightarrow> remote_server result \<times> 's runtime_world" where
  "load_remote_server i w =
     and_then (pool_read (find_server i) w) (\<lambda>found w. case found of
         None \<Rightarrow> (Inl ''instance remote server no longer exists'', w)
       | Some r \<Rightarrow> (Inr r, w))"

text \<open>The common shape of these transactions: give up when the claim is gone.\<close>

definition with_claim ::
  "command \<Rightarrow> 'a \<Rightarrow> ('s runtime_world \<Rightarrow> 'a outcome result \<times> 's runtime_world)
   \<Rightarrow> 's runtime_world \<Rightarrow> 'a outcome result \<times> 's runtime_world" where
  "with_claim command lost body w =
     and_then (lock_command_claim command w) (\<lambda>held.
       if \<not> held then rollback_with lost else body)"

definition starting_event :: "command \<Rightarrow> remote_server \<Rightarrow> json" where
  "starting_event command server =
     JObj [(''command_id'', json_uuid (rc_id command)), (''remote_server_id'', json_uuid (srv_id server))]"

definition mark_starting ::
  "command \<Rightarrow> runtime_instance \<Rightarrow> remote_server \<Rightarrow> 's runtime_world \<Rightarrow> bool result \<times> 's runtime_world" where
  "mark_starting command i server =
     config_transaction (\<lambda>now. with_claim command False (\<lambda>w.
       and_then (statement (mark_starting_sql now (srv_id server) (ins_id i) (rc_generation command)) w)
         (\<lambda>n. if n = 0 then rollback_with False else (\<lambda>w.
       and_then (runtime_event_step (ins_id i) ''instance.starting'' (starting_event command server) w)
         (\<lambda>_. commit_with True)))))"

definition select_and_mark_starting ::
  "command \<Rightarrow> runtime_instance \<Rightarrow> 's runtime_world \<Rightarrow> remote_server option result \<times> 's runtime_world" where
  "select_and_mark_starting command i =
     config_transaction (\<lambda>now. with_claim command None (\<lambda>w.
       and_then (read_sql (select_server (locked_rows w) (ins_deployment_snapshot i)) w)
         (\<lambda>found w. case found of
           None \<Rightarrow> (Inl ''no enabled remote server has available capacity'', w)
         | Some server \<Rightarrow>
       and_then (statement (mark_starting_sql now (srv_id server) (ins_id i) (rc_generation command)) w)
         (\<lambda>n. if n = 0 then rollback_with None else (\<lambda>w.
       and_then (runtime_event_step (ins_id i) ''instance.starting'' (starting_event command server) w)
         (\<lambda>_. commit_with (Some server)))))))"

definition ready_update ::
  "time \<Rightarrow> command \<Rightarrow> remote_server \<Rightarrow> remote_result \<Rightarrow> time \<Rightarrow> runtime_instance \<Rightarrow> runtime_instance" where
  "ready_update now command server res effective_expires_at r =
     r\<lparr>ins_observed_state := Obs_Ready, ins_observed_generation := rc_generation command,
       ins_observed_expires_at := Some effective_expires_at, ins_expires_at := effective_expires_at,
       ins_remote_server_id := Some (srv_id server),
       ins_remote_container_id := res_container_id res, ins_remote_ip := res_remote_ip res,
       ins_container_port := res_container_port res, ins_published_ip := res_published_ip res,
       ins_published_port := res_published_port res,
       ins_protocol := or_else (res_protocol res) (ins_protocol r),
       ins_public_hostname := res_public_hostname res, ins_endpoint_url := res_endpoint_url res,
       ins_ready_at := (case ins_ready_at r of None \<Rightarrow> Some now | Some t \<Rightarrow> Some t),
       ins_last_observed_at := Some now, ins_failure_code := None, ins_failure_message := None\<rparr>"

definition effective_deadline :: "remote_result \<Rightarrow> runtime_instance \<Rightarrow> time" where
  "effective_deadline res i =
     (case res_effective_expires_at res of None \<Rightarrow> ins_desired_expires_at i | Some t \<Rightarrow> t)"

definition finish_start_tx ::
  "'s controller \<Rightarrow> time \<Rightarrow> command \<Rightarrow> runtime_instance \<Rightarrow> remote_server \<Rightarrow> remote_result
   \<Rightarrow> 's runtime_world \<Rightarrow> bool result \<times> 's runtime_world" where
  "finish_start_tx ctl effective_expires_at command i server res =
     config_transaction (\<lambda>now w.
       and_then (lock_command_claim command w) (\<lambda>held.
       if \<not> held then (\<lambda>w. (Inl ''runtime command claim lease was lost after remote startup'', w))
       else (\<lambda>w.
       and_then (checked_statement (update_instances_checked (ctl_valid_inet ctl)
           (\<lambda>r. ins_id r = ins_id i \<and> ins_generation r = rc_generation command)
           (ready_update now command server res effective_expires_at)) w) (\<lambda>n.
       if n = 0 then rollback_with False else (\<lambda>w.
       and_then (runtime_event_step (ins_id i) ''instance.ready'' (JObj [
           (''command_id'', json_uuid (rc_id command)),
           (''remote_server_id'', json_uuid (srv_id server)),
           (''expires_at'', JTime effective_expires_at),
           (''published_ip'', json_opt JStr (res_published_ip res)),
           (''published_port'', json_opt JInt (res_published_port res)),
           (''endpoint_url'', json_opt JStr (res_endpoint_url res))]) w) (\<lambda>_ w.
       and_then (mark_command_completed now command w) (\<lambda>_. commit_with True)))))))"

definition finish_start ::
  "'s controller \<Rightarrow> command \<Rightarrow> runtime_instance \<Rightarrow> remote_server \<Rightarrow> remote_result
   \<Rightarrow> 's runtime_world \<Rightarrow> bool result \<times> 's runtime_world" where
  "finish_start ctl command i server res w =
     (let effective_expires_at = effective_deadline res i in
      if effective_expires_at > ins_maximum_expires_at i
      then (Inl ''remote helper returned a deadline beyond the maximum lifetime'', w)
      else finish_start_tx ctl effective_expires_at command i server res w)"

definition mark_stopping ::
  "command \<Rightarrow> runtime_instance \<Rightarrow> 's runtime_world \<Rightarrow> bool result \<times> 's runtime_world" where
  "mark_stopping command i =
     config_transaction (\<lambda>now. with_claim command False (\<lambda>w.
       and_then (statement (update_instances
           (\<lambda>r. ins_id r = ins_id i \<and> ins_generation r = rc_generation command \<and> ins_active r)
           (\<lambda>r. r\<lparr>ins_observed_state := Obs_Stopping, ins_last_observed_at := Some now\<rparr>)) w)
         (\<lambda>n. if n = 0 then rollback_with False else (\<lambda>w.
       and_then (runtime_event_step (ins_id i) ''instance.stopping''
           (JObj [(''command_id'', json_uuid (rc_id command))]) w) (\<lambda>_. commit_with True)))))"

definition stopped_update ::
  "time \<Rightarrow> observed_state \<Rightarrow> int \<Rightarrow> runtime_instance \<Rightarrow> runtime_instance" where
  "stopped_update now observed generation r =
     r\<lparr>ins_active := False, ins_desired_state := Want_Stopped, ins_observed_state := observed,
       ins_observed_generation := generation, ins_last_observed_at := Some now,
       ins_stopped_at := Some now, ins_failure_code := None, ins_failure_message := None\<rparr>"

definition finish_termination_tx ::
  "bool \<Rightarrow> command \<Rightarrow> runtime_instance \<Rightarrow> 's runtime_world \<Rightarrow> bool result \<times> 's runtime_world" where
  "finish_termination_tx expired command i =
     config_transaction (\<lambda>now. with_claim command False (\<lambda>w.
       and_then (statement (update_instances
           (\<lambda>r. ins_id r = ins_id i \<and> ins_generation r = rc_generation command \<and> ins_active r)
           (stopped_update now (if expired then Obs_Expired else Obs_Terminated)
              (rc_generation command))) w) (\<lambda>n.
       if n = 0 then rollback_with False else (\<lambda>w.
       and_then (runtime_event_step (ins_id i)
           (if expired then ''instance.expired'' else ''instance.terminated'')
           (JObj [(''command_id'', json_uuid (rc_id command)),
                  (''intended_expires_at'', JTime (ins_expires_at i))]) w) (\<lambda>_ w.
       and_then (runtime_event_step (ins_id i) ''instance.cleanup_completed''
           (JObj [(''command_id'', json_uuid (rc_id command))]) w) (\<lambda>_ w.
       and_then (mark_command_completed now command w) (\<lambda>_. commit_with True)))))))"

definition finish_termination ::
  "command \<Rightarrow> runtime_instance \<Rightarrow> 's runtime_world \<Rightarrow> bool result \<times> 's runtime_world" where
  "finish_termination command i w =
     (let expired = (ins_expires_at i \<le> clock w \<or>
            Option.bind (json_get ''reason'' (rc_payload command)) json_str
              = Some ''absolute_deadline_reached'')
      in finish_termination_tx expired command i w)"

definition finish_extension_tx ::
  "'s controller \<Rightarrow> time \<Rightarrow> command \<Rightarrow> runtime_instance
   \<Rightarrow> 's runtime_world \<Rightarrow> bool result \<times> 's runtime_world" where
  "finish_extension_tx ctl effective command i =
     config_transaction (\<lambda>now. with_claim command False (\<lambda>w.
       and_then (checked_statement (update_instances_checked (ctl_valid_inet ctl)
           (\<lambda>r. ins_id r = ins_id i \<and> ins_generation r = rc_generation command \<and> ins_active r)
           (\<lambda>r. r\<lparr>ins_observed_expires_at := Some effective, ins_expires_at := effective,
                  ins_observed_generation := rc_generation command,
                  ins_last_observed_at := Some now, ins_failure_code := None,
                  ins_failure_message := None\<rparr>)) w) (\<lambda>n.
       if n = 0 then rollback_with False else (\<lambda>w.
       and_then (runtime_event_step (ins_id i) ''instance.extended''
           (JObj [(''command_id'', json_uuid (rc_id command)), (''expires_at'', JTime effective)]) w)
         (\<lambda>_ w.
       and_then (mark_command_completed now command w) (\<lambda>_. commit_with True))))))"

definition finish_extension ::
  "'s controller \<Rightarrow> command \<Rightarrow> runtime_instance \<Rightarrow> remote_result
   \<Rightarrow> 's runtime_world \<Rightarrow> bool result \<times> 's runtime_world" where
  "finish_extension ctl command i res w =
     (let effective = effective_deadline res i in
      if effective > ins_maximum_expires_at i \<or> effective \<le> clock w
      then (Inl ''remote helper returned an invalid extended deadline'', w)
      else finish_extension_tx ctl effective command i w)"

section \<open>Inspections\<close>

text \<open>The three outcomes of an inspection: the workload is gone, not ready, or ready. Each returns
  whether the instance was still at the command's generation.\<close>

definition inspected_absent ::
  "time \<Rightarrow> bool \<Rightarrow> command \<Rightarrow> runtime_instance \<Rightarrow> 's runtime_world \<Rightarrow> bool result \<times> 's runtime_world" where
  "inspected_absent now expired command i w =
     and_then (statement (update_instances
         (\<lambda>r. ins_id r = ins_id i \<and> ins_generation r = rc_generation command \<and> ins_active r)
         (\<lambda>r. r\<lparr>ins_active := False,
                ins_observed_state := (if expired then Obs_Expired else Obs_Failed),
                ins_stopped_at := Some now, ins_last_observed_at := Some now,
                ins_failure_code := (if expired then None else Some ''remote_workload_missing'')\<rparr>)) w)
       (\<lambda>n w. if n = 0 then (Inr False, w) else
       and_then (runtime_event_step (ins_id i)
           (if expired then ''instance.expired'' else ''instance.failed'')
           (JObj [(''command_id'', json_uuid (rc_id command)),
                  (''reason'', JStr ''remote_workload_absent'')]) w) (\<lambda>_ w. (Inr True, w)))"

definition inspected_not_ready ::
  "'s controller \<Rightarrow> time \<Rightarrow> command \<Rightarrow> runtime_instance \<Rightarrow> remote_result
   \<Rightarrow> 's runtime_world \<Rightarrow> bool result \<times> 's runtime_world" where
  "inspected_not_ready ctl now command i res w =
     (let message = truncate_text (''remote workload is not ready (runtime status ''
            @ ctl_debug_text ctl (res_runtime_status res) @ '', health status ''
            @ ctl_debug_text ctl (res_health_status res) @ '')'') 1000
      in and_then (statement (update_instances
           (\<lambda>r. ins_id r = ins_id i \<and> ins_generation r = rc_generation command \<and> ins_active r)
           (\<lambda>r. r\<lparr>ins_observed_state := Obs_Cleanup_Pending,
                  ins_failure_code := Some ''remote_workload_not_ready'',
                  ins_failure_message := Some message, ins_last_observed_at := Some now\<rparr>)) w)
         (\<lambda>n w. if n = 0 then (Inr False, w) else
         and_then (runtime_event_step (ins_id i) ''instance.failed'' (JObj [
             (''command_id'', json_uuid (rc_id command)),
             (''reason'', JStr ''remote_workload_not_ready''),
             (''runtime_status'', json_opt JStr (res_runtime_status res)),
             (''health_status'', json_opt JStr (res_health_status res))]) w) (\<lambda>_ w.
         and_then (create_termination_in_transaction now (ins_id i) ''remote_workload_not_ready'' w)
           (\<lambda>_ w. (Inr True, w)))))"

definition inspected_ready ::
  "time \<Rightarrow> command \<Rightarrow> runtime_instance \<Rightarrow> 's runtime_world \<Rightarrow> bool result \<times> 's runtime_world" where
  "inspected_ready now command i w =
     and_then (statement (update_instances
         (\<lambda>r. ins_id r = ins_id i \<and> ins_generation r = rc_generation command \<and> ins_active r)
         (\<lambda>r. r\<lparr>ins_observed_state := Obs_Ready, ins_last_observed_at := Some now,
                ins_observed_generation := rc_generation command\<rparr>)) w)
       (\<lambda>n w. if n = 0 then (Inr False, w) else
       and_then (runtime_event_step (ins_id i) ''instance.reconciled''
           (JObj [(''command_id'', json_uuid (rc_id command))]) w) (\<lambda>_ w. (Inr True, w)))"

definition inspected ::
  "'s controller \<Rightarrow> time \<Rightarrow> bool \<Rightarrow> command \<Rightarrow> runtime_instance \<Rightarrow> remote_result
   \<Rightarrow> 's runtime_world \<Rightarrow> bool result \<times> 's runtime_world" where
  "inspected ctl now expired command i res w =
     (if res_absent res = Some True then inspected_absent now expired command i w
      else if res_ready res \<noteq> Some True then inspected_not_ready ctl now command i res w
      else inspected_ready now command i w)"

definition finish_inspection ::
  "'s controller \<Rightarrow> command \<Rightarrow> runtime_instance \<Rightarrow> remote_result
   \<Rightarrow> 's runtime_world \<Rightarrow> bool result \<times> 's runtime_world" where
  "finish_inspection ctl command i res =
     config_transaction (\<lambda>now. with_claim command False (\<lambda>w.
       and_then (inspected ctl now (ins_expires_at i \<le> clock w \<or> ins_desired_state i = Want_Stopped)
           command i res w) (\<lambda>updated.
       if \<not> updated then rollback_with False else (\<lambda>w.
       and_then (mark_command_completed now command w) (\<lambda>_. commit_with True)))))"

section \<open>Rejections\<close>

definition close_requested ::
  "(runtime_instance \<Rightarrow> runtime_instance) \<Rightarrow> command \<Rightarrow> runtime_instance \<Rightarrow> runtime_db \<Rightarrow> nat \<times> runtime_db" where
  "close_requested f command i =
     update_instances (\<lambda>r. ins_id r = ins_id i \<and> ins_generation r = rc_generation command \<and>
         ins_observed_state r = Obs_Requested \<and> ins_active r) f"

definition reject_start ::
  "command \<Rightarrow> runtime_instance \<Rightarrow> runtime_gate \<Rightarrow> 's runtime_world \<Rightarrow> unit result \<times> 's runtime_world" where
  "reject_start command i gate =
     config_transaction (\<lambda>now. with_claim command () (\<lambda>w.
       and_then (statement (close_requested (\<lambda>r. r\<lparr>ins_active := False,
           ins_desired_state := Want_Stopped, ins_observed_state := Obs_Failed,
           ins_stopped_at := Some now, ins_last_observed_at := Some now,
           ins_failure_code := Some ''runtime_policy_stale'',
           ins_failure_message := Some ''Runtime policy changed before launch''\<rparr>) command i) w)
         (\<lambda>n w.
       and_then (if n > 0 then runtime_event_step (ins_id i) ''instance.failed'' (JObj [
             (''command_id'', json_uuid (rc_id command)), (''reason'', JStr ''runtime_policy_stale''),
             (''current_setting_revision'', JInt (gate_setting_revision gate)),
             (''current_runtime_revision'', JInt (gate_runtime_revision gate))]) w
           else (Inr (), w)) (\<lambda>_ w.
       and_then (mark_command_cancelled now command ''runtime policy changed before launch'' w)
         (\<lambda>_. commit_with ())))))"

definition expire_unstarted_instance ::
  "command \<Rightarrow> runtime_instance \<Rightarrow> 's runtime_world \<Rightarrow> unit result \<times> 's runtime_world" where
  "expire_unstarted_instance command i =
     config_transaction (\<lambda>now. with_claim command () (\<lambda>w.
       and_then (statement (close_requested
           (stopped_update now Obs_Expired (rc_generation command)) command i) w) (\<lambda>n w.
       and_then (if n > 0 then runtime_event_step (ins_id i) ''instance.expired'' (JObj [
             (''command_id'', json_uuid (rc_id command)),
             (''reason'', JStr ''deadline_elapsed_before_launch'')]) w
           else (Inr (), w)) (\<lambda>_ w.
       and_then (mark_command_cancelled now command ''deadline elapsed before launch'' w)
         (\<lambda>_. commit_with ())))))"

definition cancel_stale_command ::
  "command \<Rightarrow> runtime_instance \<Rightarrow> 's runtime_world \<Rightarrow> unit result \<times> 's runtime_world" where
  "cancel_stale_command command i =
     config_transaction (\<lambda>now. with_claim command () (\<lambda>w.
       and_then (mark_command_cancelled now command ''stale generation'' w) (\<lambda>_ w.
       and_then (runtime_event_step (ins_id i) ''command.cancelled'' (JObj [
           (''command_id'', json_uuid (rc_id command)), (''reason'', JStr ''stale_generation''),
           (''current_generation'', JInt (ins_generation i))]) w) (\<lambda>_. commit_with ()))))"

section \<open>Retries\<close>

definition failed_state :: "command_kind \<Rightarrow> observed_state" where
  "failed_state kind =
     (case kind of Cmd_Extend \<Rightarrow> Obs_Ready | Cmd_Inspect \<Rightarrow> Obs_Unknown
      | Cmd_Reconcile \<Rightarrow> Obs_Unknown | _ \<Rightarrow> Obs_Cleanup_Pending)"

definition fail_command ::
  "command \<Rightarrow> string \<Rightarrow> 's runtime_world \<Rightarrow> unit result \<times> 's runtime_world" where
  "fail_command command message =
     config_transaction (\<lambda>now w.
       and_then (statement (settle_command_sql command (Cmd_Fail now message)) w) (\<lambda>n.
       if n = 0 then rollback_with () else (\<lambda>w.
       and_then (statement (update_instances (\<lambda>r. ins_id r = rc_instance_id command \<and>
           ins_generation r = rc_generation command \<and> ins_active r)
           (\<lambda>r. r\<lparr>ins_observed_state := failed_state (rc_kind command),
                  ins_failure_code := Some ''command_failed'', ins_failure_message := Some message,
                  ins_last_observed_at := Some now\<rparr>)) w) (\<lambda>updated w.
       and_then (if updated > 0 then runtime_event_step (rc_instance_id command) ''instance.failed''
             (JObj [(''command_id'', json_uuid (rc_id command)),
                    (''kind'', JStr (command_kind_text (rc_kind command))),
                    (''error'', JStr message)]) w
           else (Inr (), w)) (\<lambda>_ w.
       and_then (if rc_kind command = Cmd_Start \<and> updated > 0
           then create_termination_in_transaction now (rc_instance_id command) ''start_command_failed'' w
           else (Inr None, w)) (\<lambda>_. commit_with ()))))))"

definition schedule_command_retry ::
  "command \<Rightarrow> int \<Rightarrow> string \<Rightarrow> 's runtime_world \<Rightarrow> unit result \<times> 's runtime_world" where
  "schedule_command_retry command max_attempts e w =
     (let message = truncate_text e 1000 in
      if rc_attempts command \<ge> max_attempts then fail_command command message w
      else and_then (on_pool (settle_command_sql command
            (Cmd_Retry (clock w + secs (retry_backoff_seconds (rc_attempts command))) message)) w)
          (\<lambda>_ w. (Inr (), w)))"

section \<open>Handlers\<close>

definition journal_intent_step ::
  "'s controller \<Rightarrow> journal_intent \<Rightarrow> 's runtime_world \<Rightarrow> unit result \<times> 's runtime_world" where
  "journal_intent_step ctl i = journal_write ctl (intent_record i)"

definition journal_result_step ::
  "'s controller \<Rightarrow> journal_intent \<Rightarrow> remote_result
   \<Rightarrow> 's runtime_world \<Rightarrow> unit result \<times> 's runtime_world" where
  "journal_result_step ctl i res = journal_write ctl (remote_result_record i res)"

definition journal_acknowledge_step ::
  "'s controller \<Rightarrow> journal_intent \<Rightarrow> 's runtime_world \<Rightarrow> unit result \<times> 's runtime_world" where
  "journal_acknowledge_step ctl i = journal_write ctl (acknowledged_record i)"

text \<open>Removing a workload that was started for a generation that is no longer current.\<close>

definition cleanup_superseded_start ::
  "'s controller \<Rightarrow> command \<Rightarrow> runtime_instance \<Rightarrow> remote_server
   \<Rightarrow> 's runtime_world \<Rightarrow> unit result \<times> 's runtime_world" where
  "cleanup_superseded_start ctl command i server w =
     (let payload = remote_payload command i Stop_Instance ''generation_changed_after_start'';
          intent = make_intent command i Stop_Instance (Some server) payload
      in and_then (journal_intent_step ctl intent w) (\<lambda>_ w.
         and_then (remote_step ctl server Stop_Instance payload w) (\<lambda>res w.
         and_then (journal_result_step ctl intent res w) (\<lambda>_ w.
         and_then (require_remote_removal res (rc_generation command) w) (\<lambda>_ w.
         and_then (cancel_command command
             ''instance generation changed while remote workload was starting'' w) (\<lambda>_ w.
         journal_acknowledge_step ctl intent w))))))"

text \<open>The part of \<open>execute_start\<close> that follows the placement on a server.\<close>

definition launch ::
  "'s controller \<Rightarrow> command \<Rightarrow> runtime_instance \<Rightarrow> remote_server
   \<Rightarrow> 's runtime_world \<Rightarrow> unit result \<times> 's runtime_world" where
  "launch ctl command i server w =
     (let payload = remote_payload command i Ensure_Instance ''start'';
          intent = make_intent command i Ensure_Instance (Some server) payload
      in and_then (journal_intent_step ctl intent w) (\<lambda>_ w.
         and_then (remote_step ctl server Ensure_Instance payload w) (\<lambda>res w.
         and_then (require_remote_generation res (rc_generation command) ''startup'' w) (\<lambda>_ w.
         and_then (require (\<not> (res_absent res = Some True \<or> res_container_id res = None))
             ''remote helper did not confirm a running workload'' w) (\<lambda>_ w.
         and_then (require_remote_ready ctl res ''startup'' w) (\<lambda>_ w.
         and_then (journal_result_step ctl intent res w) (\<lambda>_ w.
         and_then (finish_start ctl command i server res w) (\<lambda>committed w.
         and_then (if \<not> committed then cleanup_superseded_start ctl command i server w
                   else (Inr (), w)) (\<lambda>_ w.
         journal_acknowledge_step ctl intent w)))))))))"

definition execute_start ::
  "'s controller \<Rightarrow> command \<Rightarrow> runtime_instance \<Rightarrow> 's runtime_world \<Rightarrow> unit result \<times> 's runtime_world" where
  "execute_start ctl command i w =
     (if \<not> ins_active i \<or> ins_desired_state i \<noteq> Want_Running
      then cancel_command command ''instance no longer desires a running workload'' w
      else if ins_desired_expires_at i \<le> clock w then expire_unstarted_instance command i w
      else and_then (pool_read (runtime_gate_sql (ins_challenge_id i)) w) (\<lambda>gate w.
        if \<not> gate_setting_enabled gate \<or> \<not> gate_runtime_enabled gate \<or>
           rc_setting_revision command \<noteq> gate_setting_revision gate \<or>
           rc_runtime_revision command \<noteq> gate_runtime_revision gate
        then reject_start command i gate w
        else case ins_remote_server_id i of
          Some server_id \<Rightarrow>
            and_then (load_remote_server server_id w) (\<lambda>server w.
            and_then (mark_starting command i server w) (\<lambda>marked w.
            if \<not> marked then cancel_command command
              ''instance generation changed before remote workload startup'' w
            else launch ctl command i server w))
        | None \<Rightarrow>
            and_then (select_and_mark_starting command i w) (\<lambda>selected w.
            case selected of
              None \<Rightarrow> cancel_command command
                ''instance generation changed before remote workload startup'' w
            | Some server \<Rightarrow> launch ctl command i server w)))"

definition terminate_remote ::
  "'s controller \<Rightarrow> command \<Rightarrow> runtime_instance \<Rightarrow> remote_server
   \<Rightarrow> 's runtime_world \<Rightarrow> unit result \<times> 's runtime_world" where
  "terminate_remote ctl command i server w =
     (let payload = remote_payload command i Stop_Instance ''terminate'';
          intent = make_intent command i Stop_Instance (Some server) payload
      in and_then (journal_intent_step ctl intent w) (\<lambda>_ w.
         and_then (remote_step ctl server Stop_Instance payload w) (\<lambda>res w.
         and_then (journal_result_step ctl intent res w) (\<lambda>_ w.
         and_then (require_remote_removal res (rc_generation command) w) (\<lambda>_ w.
         and_then (finish_termination command i w) (\<lambda>finished w.
         and_then (if \<not> finished then cancel_command command
                     ''instance generation changed while remote workload was stopping'' w
                   else (Inr (), w)) (\<lambda>_ w.
         journal_acknowledge_step ctl intent w)))))))"

definition execute_terminate ::
  "'s controller \<Rightarrow> command \<Rightarrow> runtime_instance \<Rightarrow> 's runtime_world \<Rightarrow> unit result \<times> 's runtime_world" where
  "execute_terminate ctl command i w =
     (if \<not> ins_active i then complete_command command w
      else and_then (case ins_remote_server_id i of
             None \<Rightarrow> (Inr None, w)
           | Some server_id \<Rightarrow>
               and_then (load_remote_server server_id w) (\<lambda>server w. (Inr (Some server), w)))
        (\<lambda>server w.
      and_then (mark_stopping command i w) (\<lambda>marked w.
      if \<not> marked then cancel_command command
        ''instance generation changed before remote workload cleanup'' w
      else case server of
        Some server \<Rightarrow> terminate_remote ctl command i server w
      | None \<Rightarrow>
          and_then (finish_termination command i w) (\<lambda>finished w.
          if \<not> finished then cancel_command command
            ''instance generation changed before local cleanup completion'' w
          else (Inr (), w)))))"

definition execute_extend ::
  "'s controller \<Rightarrow> command \<Rightarrow> runtime_instance \<Rightarrow> 's runtime_world \<Rightarrow> unit result \<times> 's runtime_world" where
  "execute_extend ctl command i w =
     (if \<not> ins_active i \<or> ins_desired_state i \<noteq> Want_Running \<or> ins_expires_at i \<le> clock w
      then cancel_command command ''instance can no longer be extended'' w
      else case ins_remote_server_id i of
        None \<Rightarrow> (Inl ''instance has no remote server for extension'', w)
      | Some server_id \<Rightarrow>
      and_then (load_remote_server server_id w) (\<lambda>server w.
      let payload = remote_payload command i Update_Deadline ''extend'';
          intent = make_intent command i Update_Deadline (Some server) payload
      in and_then (journal_intent_step ctl intent w) (\<lambda>_ w.
         and_then (remote_step ctl server Update_Deadline payload w) (\<lambda>res w.
         and_then (journal_result_step ctl intent res w) (\<lambda>_ w.
         and_then (require (res_stale_generation res \<noteq> Some True)
             (''remote helper refused stale deadline generation '' @ show_int (rc_generation command)
              @ '' (effective generation '' @ show_opt_int (res_effective_generation res) @ '')'') w)
           (\<lambda>_ w.
         and_then (require_remote_generation res (rc_generation command) ''deadline update'' w) (\<lambda>_ w.
         and_then (finish_extension ctl command i res w) (\<lambda>finished w.
         and_then (if \<not> finished then cancel_command command
                     ''instance generation changed while its deadline was being extended'' w
                   else (Inr (), w)) (\<lambda>_ w.
         journal_acknowledge_step ctl intent w)))))))))"

definition execute_inspect ::
  "'s controller \<Rightarrow> command \<Rightarrow> runtime_instance \<Rightarrow> 's runtime_world \<Rightarrow> unit result \<times> 's runtime_world" where
  "execute_inspect ctl command i w =
     (case ins_remote_server_id i of
        None \<Rightarrow> cancel_command command ''instance has no remote server to inspect'' w
      | Some server_id \<Rightarrow>
      and_then (load_remote_server server_id w) (\<lambda>server w.
      let payload = remote_payload command i Inspect_Instance ''inspect'';
          intent = make_intent command i Inspect_Instance (Some server) payload
      in and_then (journal_intent_step ctl intent w) (\<lambda>_ w.
         and_then (remote_step ctl server Inspect_Instance payload w) (\<lambda>res w.
         and_then (if res_absent res \<noteq> Some True
                   then require_remote_generation res (rc_generation command) ''inspection'' w
                   else (Inr (), w)) (\<lambda>_ w.
         and_then (journal_result_step ctl intent res w) (\<lambda>_ w.
         and_then (finish_inspection ctl command i res w) (\<lambda>finished w.
         and_then (if \<not> finished then cancel_command command
                     ''instance generation changed while remote workload was inspected'' w
                   else (Inr (), w)) (\<lambda>_ w.
         journal_acknowledge_step ctl intent w))))))))"

definition execute_command ::
  "'s controller \<Rightarrow> command \<Rightarrow> 's runtime_world \<Rightarrow> unit result \<times> 's runtime_world" where
  "execute_command ctl command w =
     and_then (load_instance (rc_instance_id command) w) (\<lambda>i w.
     if rc_generation command \<noteq> ins_generation i then cancel_stale_command command i w
     else case rc_kind command of
       Cmd_Start \<Rightarrow> execute_start ctl command i w
     | Cmd_Terminate \<Rightarrow> execute_terminate ctl command i w
     | Cmd_Extend \<Rightarrow> execute_extend ctl command i w
     | Cmd_Inspect \<Rightarrow> execute_inspect ctl command i w
     | Cmd_Reconcile \<Rightarrow> execute_inspect ctl command i w)"

end
