(* ===== verification/RuntimeSession.thy ===== *)
theory RuntimeSession
  imports RuntimeWorker
begin

text \<open>
  The command loop, the connected session and the outer reconnect loop of
  \<open>services/controller/src/worker.rs\<close>, with the two journal procedures that read the database or
  call the remote side. What the surroundings decide is an input: the value of the shutdown flag
  at each reading, the end of each wait, the outcome of each connection attempt. A finite list is
  a finite run; when it ends the run is cut there.
\<close>

section \<open>The command loop\<close>

definition claim_command :: "'s runtime_world \<Rightarrow> command option result \<times> 's runtime_world" where
  "claim_command w =
     (case on_pool (claim_command_sql (locked_rows w) (clock w)) w of
        (Inl _, w') \<Rightarrow> (Inl ''failed to claim controller command'', w')
      | (Inr x, w') \<Rightarrow> (Inr x, w'))"

definition ping_lease :: "'s runtime_world \<Rightarrow> unit result \<times> 's runtime_world" where
  "ping_lease w =
     (case lease w of
        [] \<Rightarrow> (Inr (), w)
      | True # ls \<Rightarrow> (Inr (), w\<lparr>lease := ls\<rparr>)
      | False # ls \<Rightarrow> (Inl ''controller singleton lease connection was lost'', w\<lparr>lease := ls\<rparr>))"

text \<open>\<open>flags\<close> are the values of the shutdown flag at the successive tests of the loop.\<close>

fun process_commands ::
  "'s controller \<Rightarrow> bool list \<Rightarrow> 's runtime_world \<Rightarrow> unit result \<times> 's runtime_world" where
  "process_commands ctl [] w = (Inr (), w)"
| "process_commands ctl (stop # flags) w =
     (if stop then (Inr (), w)
      else and_then (ping_lease w) (\<lambda>_ w.
        and_then (claim_command w) (\<lambda>claimed w. case claimed of
          None \<Rightarrow> (Inr (), w)
        | Some command \<Rightarrow>
            (case execute_command ctl command w of
               (Inr _, w) \<Rightarrow> process_commands ctl flags w
             | (Inl e, w) \<Rightarrow>
                 and_then (schedule_command_retry command (ctl_max_command_attempts ctl) e w)
                   (\<lambda>_. process_commands ctl flags)))))"

section \<open>The journal and the database\<close>

definition unacknowledged ::
  "'s controller \<Rightarrow> 's runtime_world \<Rightarrow> journal_map result \<times> 's runtime_world" where
  "unacknowledged ctl w =
     and_then (journal_step (\<lambda>_. current_unacknowledged (ctl_codec ctl)) w)
       (\<lambda>current w. (Inr (ctl_hash_order ctl current), w))"

definition command_state_sql ::
  "journal_record \<Rightarrow> runtime_db \<Rightarrow> (work_status \<times> int \<times> int) option" where
  "command_state_sql r d =
     (case List.find (\<lambda>c. cmd_id c = jr_command_id r \<and> cmd_instance_id c = jr_instance_id r) (rt_commands d) of
        None \<Rightarrow> None
      | Some c \<Rightarrow> (case find_instance (cmd_instance_id c) d of
            None \<Rightarrow> None
          | Some i \<Rightarrow> Some (cmd_status c, cmd_generation c, ins_generation i)))"

definition database_finished :: "journal_record \<Rightarrow> (work_status \<times> int \<times> int) option \<Rightarrow> bool" where
  "database_finished r state =
     (case state of None \<Rightarrow> True
      | Some (status, command_generation, instance_generation) \<Rightarrow>
          status \<in> {Completed, Failed, Cancelled} \<or>
          command_generation \<noteq> jr_generation r \<or>
          (instance_generation \<noteq> jr_generation r \<and> status \<noteq> Claimed))"

fun acknowledge_records ::
  "'s controller \<Rightarrow> journal_record list \<Rightarrow> 's runtime_world \<Rightarrow> unit result \<times> 's runtime_world" where
  "acknowledge_records ctl [] w = (Inr (), w)"
| "acknowledge_records ctl (r # rs) w =
     and_then (pool_read (command_state_sql r) w) (\<lambda>state w.
     and_then (if database_finished r state
               then journal_write ctl (\<lambda>now. r\<lparr>jr_phase := Database_Acknowledged,
                      jr_remote_result := None, jr_payload := None, jr_updated_at := now\<rparr>) w
               else (Inr (), w)) (\<lambda>_. acknowledge_records ctl rs))"

definition reconcile_database_acknowledgements ::
  "'s controller \<Rightarrow> 's runtime_world \<Rightarrow> unit result \<times> 's runtime_world" where
  "reconcile_database_acknowledgements ctl w =
     and_then (unacknowledged ctl w) (\<lambda>current. acknowledge_records ctl (map snd current))"

text \<open>While the database is away: stop what is overdue, once, through the idempotent remote stop.\<close>

definition cleanup_payload :: "journal_record \<Rightarrow> json" where
  "cleanup_payload r = JObj [(''instance_id'', json_uuid (jr_instance_id r)),
     (''generation'', JInt (jr_generation r)), (''reason'', JStr ''degraded_deadline_recovery'')]"

definition cleanup_confirmed :: "remote_result result \<Rightarrow> remote_result option" where
  "cleanup_confirmed r =
     (case r of Inl _ \<Rightarrow> None
      | Inr res \<Rightarrow> if res_absent res = Some True \<or> res_stale_generation res = Some True
                  then Some res else None)"

definition cleanup_record ::
  "'s controller \<Rightarrow> journal_record \<Rightarrow> 's runtime_world \<Rightarrow> unit result \<times> 's runtime_world" where
  "cleanup_record ctl r w =
     (if jr_phase r = Degraded_Cleanup \<or> jr_effective_expires_at r > clock w then (Inr (), w)
      else case jr_remote_server r of
        None \<Rightarrow> (Inr (), w)
      | Some server \<Rightarrow>
          (case remote_step ctl server Stop_Instance (cleanup_payload r) w of (answer, w) \<Rightarrow>
             (case cleanup_confirmed answer of
                None \<Rightarrow> (Inr (), w)
              | Some res \<Rightarrow> journal_write ctl (\<lambda>now. r\<lparr>jr_phase := Degraded_Cleanup,
                    jr_remote_result := Some res, jr_payload := Some (cleanup_payload r),
                    jr_updated_at := now\<rparr>) w)))"

fun cleanup_records ::
  "'s controller \<Rightarrow> journal_record list \<Rightarrow> 's runtime_world \<Rightarrow> unit result \<times> 's runtime_world" where
  "cleanup_records ctl [] w = (Inr (), w)"
| "cleanup_records ctl (r # rs) w =
     and_then (cleanup_record ctl r w) (\<lambda>_. cleanup_records ctl rs)"

definition cleanup_overdue_without_database ::
  "'s controller \<Rightarrow> 's runtime_world \<Rightarrow> unit result \<times> 's runtime_world" where
  "cleanup_overdue_without_database ctl w =
     and_then (unacknowledged ctl w) (\<lambda>current. cleanup_records ctl (map snd current))"

section \<open>The session\<close>

definition set_status ::
  "(time \<Rightarrow> status_snapshot \<Rightarrow> status_snapshot) \<Rightarrow> 's runtime_world \<Rightarrow> unit result \<times> 's runtime_world" where
  "set_status f w = (Inr (), w\<lparr>controller_status := f (clock w) (controller_status w)\<rparr>)"

definition refresh_mode :: "'s runtime_world \<Rightarrow> unit result \<times> 's runtime_world" where
  "refresh_mode w =
     and_then (pool_read mode_of w) (\<lambda>m. set_status (\<lambda>now. set_mode now m))"

definition next_command_wake_delay ::
  "time \<Rightarrow> time \<Rightarrow> 's runtime_world \<Rightarrow> time result \<times> 's runtime_world" where
  "next_command_wake_delay maximum stale_claim_after w =
     and_then (pool_read (\<lambda>d. min_list_opt (map cmd_available_at
         (filter (\<lambda>c. cmd_status c = Pending) (rt_commands d)))) w) (\<lambda>command_time w.
     and_then (pool_read (\<lambda>d. min_list_opt (filter (\<lambda>t. t > clock w) (map ins_expires_at
         (filter ins_active (rt_instances d))))) w) (\<lambda>deadline w.
     and_then (pool_read (\<lambda>d. min_list_opt
         (safety_retry_times (clock w) (duration_seconds maximum) d)) w) (\<lambda>safety_retry w.
     and_then (pool_read (\<lambda>d. min_list_opt
         (stale_claim_times (clock w) (duration_seconds stale_claim_after) d)) w) (\<lambda>stale_claim w.
     (Inr (wake_delay (clock w)
         (min_list_opt (opt_list [command_time, deadline, safety_retry, stale_claim])) maximum), w)))))"

definition require_runtime_schema ::
  "(runtime_db \<Rightarrow> bool) \<Rightarrow> 's runtime_world \<Rightarrow> unit result \<times> 's runtime_world" where
  "require_runtime_schema installed w =
     and_then (pool_read installed w)
       (\<lambda>ready. require ready ''runtime control-plane schema is not installed'')"

text \<open>What both the start of a session and each of its rounds do.\<close>

definition reconcile_commands ::
  "'s controller \<Rightarrow> time option \<Rightarrow> bool list \<Rightarrow> 's runtime_world \<Rightarrow> unit result \<times> 's runtime_world" where
  "reconcile_commands ctl minimum_age flags w =
     and_then (enqueue_policy_terminations (ctl_reconciliation_interval ctl) w) (\<lambda>_ w.
     and_then (enqueue_overdue_terminations (ctl_reconciliation_interval ctl) w) (\<lambda>_ w.
     and_then (enqueue_active_inspections minimum_age w) (\<lambda>_ w.
     and_then (process_commands ctl flags w) (\<lambda>_ w.
     reconcile_database_acknowledgements ctl w))))"

definition session_startup ::
  "'s controller \<Rightarrow> bool list \<Rightarrow> 's runtime_world \<Rightarrow> unit result \<times> 's runtime_world" where
  "session_startup ctl flags w =
     and_then (recover_all_claims_on_startup w) (\<lambda>_ w.
     and_then (reconcile_database_acknowledgements ctl w) (\<lambda>_ w.
     and_then (reconcile_commands ctl None flags w) (\<lambda>_ w.
     and_then (set_status reconciled w) (\<lambda>_. refresh_mode))))"

definition session_round ::
  "'s controller \<Rightarrow> bool list \<Rightarrow> 's runtime_world \<Rightarrow> time result \<times> 's runtime_world" where
  "session_round ctl flags w =
     and_then (ping_lease w) (\<lambda>_ w.
     and_then (recover_stale_commands (ctl_stale_claim_after ctl) w) (\<lambda>_ w.
     and_then (reconcile_commands ctl (Some (ctl_reconciliation_interval ctl)) flags w) (\<lambda>_ w.
     and_then (refresh_mode w) (\<lambda>_ w.
     next_command_wake_delay (ctl_reconciliation_interval ctl) (ctl_stale_claim_after ctl) w))))"

text \<open>How a wait ends: a notification, its deadline, shutdown, or the loss of the listener; the
  first two with the instant.\<close>

datatype session_wait =
    Notified time
  | Deadline_Reached time
  | Shutdown_Requested
  | Listener_Lost

text \<open>Each turn of the loop has the shutdown flag at its start, the flags its command loop reads,
  and the end of its wait.\<close>

fun session_loop ::
  "'s controller \<Rightarrow> (bool \<times> bool list \<times> session_wait) list
   \<Rightarrow> 's runtime_world \<Rightarrow> unit result \<times> 's runtime_world" where
  "session_loop ctl [] w = (Inr (), w)"
| "session_loop ctl ((stop, flags, wait) # rounds) w =
     (if stop then (Inr (), w)
      else and_then (session_round ctl flags w) (\<lambda>_ w. case wait of
          Shutdown_Requested \<Rightarrow> (Inr (), w)
        | Listener_Lost \<Rightarrow> (Inl ''PostgreSQL notification listener disconnected'', w)
        | Notified t \<Rightarrow> session_loop ctl rounds (w\<lparr>clock := t\<rparr>)
        | Deadline_Reached t \<Rightarrow>
            and_then (set_status reconciled (w\<lparr>clock := t\<rparr>)) (\<lambda>_. session_loop ctl rounds)))"

text \<open>The connections a session opens before its startup: the leadership lease (\<open>None\<close> when
  shutdown came first) and the listener.\<close>

record session_plan =
  plan_leadership :: "unit result option"
  plan_listener :: "unit result"
  plan_startup_flags :: "bool list"
  plan_rounds :: "(bool \<times> bool list \<times> session_wait) list"

definition connected_session ::
  "(runtime_db \<Rightarrow> bool) \<Rightarrow> 's controller \<Rightarrow> session_plan
   \<Rightarrow> 's runtime_world \<Rightarrow> unit result \<times> 's runtime_world" where
  "connected_session installed ctl plan w =
     and_then (require_runtime_schema installed w) (\<lambda>_ w.
     case plan_leadership plan of
       None \<Rightarrow> (Inr (), w)
     | Some (Inl e) \<Rightarrow> (Inl e, w)
     | Some (Inr _) \<Rightarrow>
     (case plan_listener plan of
        Inl e \<Rightarrow> (Inl e, w)
      | Inr _ \<Rightarrow>
          and_then (session_startup ctl (plan_startup_flags plan) w)
            (\<lambda>_. session_loop ctl (plan_rounds plan))))"

section \<open>The reconnect loop\<close>

text \<open>One turn: the connection attempt fails, or a session runs. \<open>t\<close> is when the sleep after it
  ended, \<open>None\<close> when shutdown ended it. The second component of the state is the delay.\<close>

datatype connection_attempt = Connect_Failed string | Connected session_plan

fun controller_run ::
  "(runtime_db \<Rightarrow> bool) \<Rightarrow> 's controller \<Rightarrow> (connection_attempt \<times> time option) list \<Rightarrow> time
   \<Rightarrow> 's runtime_world \<Rightarrow> time \<times> 's runtime_world" where
  "controller_run installed ctl [] delay w = (delay, w)"
| "controller_run installed ctl ((attempt, wake) # attempts) delay w =
     (case attempt of
        Connect_Failed e \<Rightarrow>
          (let w1 = w\<lparr>controller_status := database_disconnected (clock w) e (controller_status w)\<rparr>;
               w2 = snd (cleanup_overdue_without_database ctl w1)
           in case wake of
                None \<Rightarrow> (delay, w2)
              | Some t \<Rightarrow> controller_run installed ctl attempts (next_reconnect_delay delay) (w2\<lparr>clock := t\<rparr>))
      | Connected plan \<Rightarrow>
          (let w1 = w\<lparr>controller_status := database_connected (controller_status w)\<rparr>
           in case connected_session installed ctl plan w1 of
                (Inr _, w2) \<Rightarrow> (initial_reconnect_delay, w2)
              | (Inl e, w2) \<Rightarrow>
                  (let w3 = w2\<lparr>controller_status :=
                         database_disconnected (clock w2) e (controller_status w2)\<rparr>;
                       w4 = snd (cleanup_overdue_without_database ctl w3)
                   in case wake of
                        None \<Rightarrow> (initial_reconnect_delay, w4)
                      | Some t \<Rightarrow> controller_run installed ctl attempts initial_reconnect_delay
                          (w4\<lparr>clock := t\<rparr>))))"

end
