(* ===== verification/RuntimeInvariants.thy ===== *)
theory RuntimeInvariants
  imports RuntimeSession
begin

text \<open>
  The invariant of the runtime tables and its preservation by every statement, transaction,
  handler and session of \<open>services/controller/src/worker.rs\<close>, with any failure of any statement
  and with other connections' commits in between, as long as these keep it too.
\<close>

section \<open>The invariant\<close>

definition command_consistent :: "command_row \<Rightarrow> bool" where
  "command_consistent r \<longleftrightarrow>
     0 \<le> cmd_attempts r \<and> (cmd_status r = Claimed \<longleftrightarrow> cmd_claimed_at r \<noteq> None) \<and>
     (cmd_status r = Claimed \<longleftrightarrow> cmd_claim_token r \<noteq> None)"

definition generation_known :: "runtime_instance list \<Rightarrow> uuid \<Rightarrow> int \<Rightarrow> bool" where
  "generation_known is i g \<longleftrightarrow> (\<forall>r \<in> set is. ins_id r = i \<longrightarrow> g \<le> ins_generation r)"

text \<open>The status of a row in the queue of terminations: other kinds do not count.\<close>

definition termination_status :: "command_row \<Rightarrow> work_status" where
  "termination_status r = (if cmd_kind r = Cmd_Terminate then cmd_status r else Cancelled)"

definition tokens_unique :: "command_row list \<Rightarrow> bool" where
  "tokens_unique cs \<longleftrightarrow> (\<forall>q \<in> set cs. \<forall>r \<in> set cs.
     cmd_claim_token q = cmd_claim_token r \<and> cmd_claim_token r \<noteq> None \<longrightarrow> cmd_id q = cmd_id r)"

definition commands_ok :: "runtime_instance list \<Rightarrow> command_row list \<Rightarrow> uuid \<Rightarrow> bool" where
  "commands_ok is cs n \<longleftrightarrow>
     distinct (map cmd_id cs) \<and> tokens_unique cs \<and>
     (\<forall>r \<in> set cs. cmd_id r < n \<and> (\<forall>t. cmd_claim_token r = Some t \<longrightarrow> t < n) \<and>
        command_consistent r \<and> generation_known is (cmd_instance_id r) (cmd_generation r)) \<and>
     one_open cmd_status command_slot cs \<and>
     one_open termination_status cmd_instance_id cs"

definition runtime_db_ok :: "runtime_db \<Rightarrow> bool" where
  "runtime_db_ok d \<longleftrightarrow>
     distinct (map ins_id (rt_instances d)) \<and>
     (\<forall>r \<in> set (rt_instances d). ins_expires_at r \<le> ins_maximum_expires_at r) \<and>
     commands_ok (rt_instances d) (rt_commands d) (rt_next_id d)"

lemmas runtime_ok_defs = runtime_db_ok_def commands_ok_def

text \<open>An update of commands keeps the invariant when it keeps identity and slot, opens no closed
  row, draws no token but fresh ones for one row, and leaves the claim consistent.\<close>

lemma commands_ok_update:
  assumes ok: "commands_ok is cs n"
    and f: "\<And>r. P r \<Longrightarrow> cmd_id (f r) = cmd_id r \<and> command_slot (f r) = command_slot r"
    and op: "\<And>r. P r \<Longrightarrow> open_status (cmd_status (f r)) \<Longrightarrow> open_status (cmd_status r)"
    and c: "\<And>r. P r \<Longrightarrow> command_consistent r \<Longrightarrow> command_consistent (f r)"
    and t: "\<And>r. P r \<Longrightarrow> cmd_claim_token (f r) = None"
  shows "commands_ok is (update_where P f cs) n"
proof -
  have ids: "map cmd_id (update_where P f cs) = map cmd_id cs"
    by (rule map_update_where) (simp add: f)
  have one: "one_open cmd_status command_slot (update_where P f cs)"
    using ok f op by (intro one_open_update) (auto simp: commands_ok_def)
  have trm: "one_open termination_status cmd_instance_id (update_where P f cs)"
    using ok f op
    by (intro one_open_update) (auto simp: commands_ok_def termination_status_def split: if_splits)
  have mem: "\<exists>q \<in> set cs. r = (if P q then f q else q)" if "r \<in> set (update_where P f cs)" for r
    using that by (auto simp: update_where_def)
  have tok: "cmd_claim_token r = Some k \<Longrightarrow> r \<in> set cs" if "r \<in> set (update_where P f cs)" for r k
    using mem [OF that] t by (auto split: if_splits)
  have uniq: "tokens_unique (update_where P f cs)"
    using ok tok unfolding commands_ok_def tokens_unique_def by (metis option.exhaust)
  have rows: "cmd_id r < n \<and> (\<forall>k. cmd_claim_token r = Some k \<longrightarrow> k < n) \<and> command_consistent r \<and>
      generation_known is (cmd_instance_id r) (cmd_generation r)"
    if r: "r \<in> set (update_where P f cs)" for r
  proof -
    from mem [OF r] obtain q where q: "q \<in> set cs" "r = (if P q then f q else q)" by blast
    with ok f [of q] c [of q] t [of q] show ?thesis by (auto simp: commands_ok_def)
  qed
  show ?thesis using ok ids one trm uniq rows by (simp add: commands_ok_def)
qed

lemma settle_command_consistent:
  "command_consistent r \<Longrightarrow> command_consistent (settle_command v r)"
  "cmd_claim_token (settle_command v r) = None"
  by (cases v, auto simp: command_consistent_def)+

lemma settle_command_ok: "runtime_db_ok d \<Longrightarrow> runtime_db_ok (snd (settle_command_sql command v d))"
  unfolding runtime_db_ok_def settle_command_sql_def
  by (auto intro!: commands_ok_update settle_command_consistent
        simp: command_queue.ident_settle command_queue.slot_settle [simplified])

lemma release_commands_ok:
  assumes "runtime_db_ok d" and "\<And>r. P r \<Longrightarrow> cmd_status r = Claimed"
  shows "runtime_db_ok (snd (release_commands P now e d))"
  using assms unfolding runtime_db_ok_def release_commands_def
  by (auto intro!: commands_ok_update simp: command_consistent_def)

lemma recover_commands_ok:
  "runtime_db_ok d \<Longrightarrow> runtime_db_ok (snd (recover_stale_commands_sql now s d))"
  "runtime_db_ok d \<Longrightarrow> runtime_db_ok (snd (recover_all_commands_sql now d))"
  unfolding recover_stale_commands_sql_def recover_all_commands_sql_def
  by (auto intro: release_commands_ok simp: stale_command_def)

lemma take_command_fields [simp]:
  "cmd_id (take_command now t r) = cmd_id r"
  "cmd_instance_id (take_command now t r) = cmd_instance_id r"
  "cmd_kind (take_command now t r) = cmd_kind r"
  "cmd_generation (take_command now t r) = cmd_generation r"
  "cmd_status (take_command now t r) = Claimed"
  "cmd_claim_token (take_command now t r) = Some t"
  "cmd_attempts (take_command now t r) = cmd_attempts r + 1"
  by (simp_all add: take_command_def)

lemma take_command_consistent: "command_consistent r \<Longrightarrow> command_consistent (take_command now t r)"
  by (auto simp: command_consistent_def take_command_def)

lemma claim_command_ok:
  assumes "runtime_db_ok d"
  shows "runtime_db_ok (snd (claim_command_sql locked now d))"
proof (cases "first_by cmd_created_at (claimable_command locked now) (rt_commands d)")
  case None
  with assms show ?thesis by (simp add: claim_command_sql_def)
next
  case (Some r)
  let ?n = "rt_next_id d"
  let ?cs = "rt_commands d"
  let ?cs' = "update_where (\<lambda>q. cmd_id q = cmd_id r) (take_command now ?n) ?cs"
  from first_by_Some [OF Some] have r: "r \<in> set ?cs" "cmd_status r = Pending"
    by (auto simp: claimable_command_def)
  have ok: "commands_ok (rt_instances d) ?cs ?n" using assms by (simp add: runtime_db_ok_def)
  have only: "q = r" if "q \<in> set ?cs" "cmd_id q = cmd_id r" for q
    using that r ok by (auto simp: commands_ok_def intro: distinct_map_eq)
  have mem: "q \<in> set ?cs' \<Longrightarrow> q = take_command now ?n r \<or> (q \<in> set ?cs \<and> cmd_id q \<noteq> cmd_id r)" for q
    using only by (auto simp: update_where_def)
  have ids: "map cmd_id ?cs' = map cmd_id ?cs" by (rule map_update_where) simp
  have pend: "cmd_status q = Pending" if "q \<in> set ?cs" "cmd_id q = cmd_id r" for q
    using only [OF that] r(2) by simp
  have one: "one_open cmd_status command_slot ?cs'"
    by (rule one_open_update) (use ok pend in \<open>simp_all add: commands_ok_def\<close>)
  have trm: "one_open termination_status cmd_instance_id ?cs'"
    by (rule one_open_update)
       (use ok pend in \<open>simp_all add: commands_ok_def termination_status_def split: if_splits\<close>)
  have old: "cmd_claim_token q \<noteq> Some ?n" if "q \<in> set ?cs" for q
    using that ok by (auto simp: commands_ok_def)
  have uniq: "tokens_unique ?cs'"
    unfolding tokens_unique_def
  proof (intro ballI impI)
    fix p q
    assume p: "p \<in> set ?cs'" and q: "q \<in> set ?cs'"
      and t: "cmd_claim_token p = cmd_claim_token q \<and> cmd_claim_token q \<noteq> None"
    have before: "cmd_id p = cmd_id q" if "p \<in> set ?cs" "q \<in> set ?cs"
      using ok that t unfolding commands_ok_def tokens_unique_def by blast
    from mem [OF p] mem [OF q] old [of p] old [of q] t before show "cmd_id p = cmd_id q" by auto
  qed
  have rows: "cmd_id q < Suc ?n \<and> (\<forall>k. cmd_claim_token q = Some k \<longrightarrow> k < Suc ?n) \<and>
      command_consistent q \<and> generation_known (rt_instances d) (cmd_instance_id q) (cmd_generation q)"
    if "q \<in> set ?cs'" for q
    using mem [OF that] ok r by (auto simp: commands_ok_def take_command_consistent less_Suc_eq)
  have "commands_ok (rt_instances d) ?cs' (Suc ?n)"
    using ok ids one trm uniq rows by (simp add: commands_ok_def)
  with assms show ?thesis by (simp add: claim_command_sql_def Some runtime_db_ok_def)
qed

lemma tokens_unique_append:
  assumes "tokens_unique cs" and "cmd_claim_token r = None"
  shows "tokens_unique (cs @ [r])"
  unfolding tokens_unique_def
proof (intro ballI impI)
  fix p q
  assume p: "p \<in> set (cs @ [r])" and q: "q \<in> set (cs @ [r])"
    and t: "cmd_claim_token p = cmd_claim_token q \<and> cmd_claim_token q \<noteq> None"
  with assms(2) have "p \<in> set cs" "q \<in> set cs" by auto
  with t assms(1) show "cmd_id p = cmd_id q" unfolding tokens_unique_def by blast
qed

text \<open>When a command may be queued: its instance exists and has reached the generation, and for a
  termination none is open and the instance is already to be stopped.\<close>

definition stop_wanted :: "runtime_instance list \<Rightarrow> uuid \<Rightarrow> bool" where
  "stop_wanted is i \<longleftrightarrow> (\<forall>r \<in> set is. ins_id r = i \<longrightarrow> ins_desired_state r = Want_Stopped)"

definition insertable :: "runtime_db \<Rightarrow> uuid \<Rightarrow> command_kind \<Rightarrow> int \<Rightarrow> bool" where
  "insertable d i kind g \<longleftrightarrow> i \<in> ins_id ` set (rt_instances d) \<and> generation_known (rt_instances d) i g \<and>
     (kind = Cmd_Terminate \<longrightarrow> \<not> termination_open d i \<and> stop_wanted (rt_instances d) i)"

lemma append_command_ok:
  assumes ok: "runtime_db_ok d" and ready: "insertable d i kind g"
    and new: "\<not> (\<exists>q \<in> set (rt_commands d). open_command i kind q \<and> cmd_generation q = g)"
    and r: "cmd_id r = rt_next_id d" "command_slot r = (i, kind, g)" "command_consistent r"
      "cmd_claim_token r = None" "cmd_status r = Pending"
  shows "runtime_db_ok (d\<lparr>rt_commands := rt_commands d @ [r], rt_next_id := rt_next_id d + 1\<rparr>)"
proof -
  have old: "commands_ok (rt_instances d) (rt_commands d) (rt_next_id d)"
    using ok by (simp add: runtime_db_ok_def)
  have ids: "distinct (map cmd_id (rt_commands d @ [r]))"
    using old r(1) by (auto simp: commands_ok_def)
  have uniq: "tokens_unique (rt_commands d @ [r])"
    using old r(4) by (intro tokens_unique_append) (simp_all add: commands_ok_def)
  have one: "one_open cmd_status command_slot (rt_commands d @ [r])"
    using old new r(2) by (auto simp: commands_ok_def one_open_append open_command_def)
  have trm: "one_open termination_status cmd_instance_id (rt_commands d @ [r])"
    using old ready r(2)
    by (auto simp: commands_ok_def one_open_append open_command_def termination_open_def insertable_def
        termination_status_def split: if_splits)
  have "commands_ok (rt_instances d) (rt_commands d @ [r]) (Suc (rt_next_id d))"
    using old ready r ids uniq one trm by (auto simp: commands_ok_def insertable_def less_Suc_eq)
  with ok show ?thesis by (simp add: runtime_db_ok_def)
qed

lemma insert_command_ok:
  assumes "runtime_db_ok d" and "insertable d i kind g"
  shows "runtime_db_ok (snd (insert_command now i kind g sr rr payload d))"
  using assms append_command_ok [OF assms, of "new_command now (rt_next_id d) i kind g sr rr payload"]
  by (simp add: insert_command_def new_command_def command_consistent_def)

lemma insert_command_instances [simp]:
  "rt_instances (snd (insert_command now i kind g sr rr payload d)) = rt_instances d"
  by (simp add: insert_command_def)

section \<open>Instances\<close>

text \<open>What the controller may do to an instance: never change who it is for and what it runs, never lower its
  generation, never make it active or wanted again, never move its deadline past the maximum.\<close>

definition instance_advances :: "runtime_instance \<Rightarrow> runtime_instance \<Rightarrow> bool" where
  "instance_advances a b \<longleftrightarrow>
     ins_id b = ins_id a \<and> ins_owner_user_id b = ins_owner_user_id a \<and>
     ins_challenge_id b = ins_challenge_id a \<and> ins_deployment_snapshot b = ins_deployment_snapshot a \<and>
     ins_generation a \<le> ins_generation b \<and> (ins_active b \<longrightarrow> ins_active a) \<and>
     (ins_desired_state a = Want_Stopped \<longrightarrow> ins_desired_state b = Want_Stopped) \<and>
     (ins_expires_at a \<le> ins_maximum_expires_at a \<longrightarrow> ins_expires_at b \<le> ins_maximum_expires_at b) \<and>
     (ins_desired_expires_at a \<le> ins_maximum_expires_at a \<longrightarrow> ins_desired_expires_at b \<le> ins_maximum_expires_at b)"

lemma instance_advances_refl [simp]: "instance_advances a a"
  by (simp add: instance_advances_def)

lemma instance_advances_trans:
  "instance_advances a b \<Longrightarrow> instance_advances b c \<Longrightarrow> instance_advances a c"
  by (auto simp: instance_advances_def)

lemma update_instances_ok:
  assumes ok: "runtime_db_ok d"
    and f: "\<And>r. r \<in> set (rt_instances d) \<Longrightarrow> P r \<Longrightarrow> instance_advances r (f r)"
  shows "runtime_db_ok (d\<lparr>rt_instances := update_where P f (rt_instances d)\<rparr>)"
proof -
  let ?is = "update_where P f (rt_instances d)"
  have ids: "map ins_id ?is = map ins_id (rt_instances d)"
    using f by (intro map_update_where) (auto simp: instance_advances_def)
  have known: "generation_known ?is i g" if "generation_known (rt_instances d) i g" for i g
    using that f by (force simp: generation_known_def update_where_def instance_advances_def)
  have "\<forall>r \<in> set ?is. ins_expires_at r \<le> ins_maximum_expires_at r"
    using ok f by (auto simp: runtime_db_ok_def update_where_def instance_advances_def)
  with ok ids known show ?thesis by (auto simp: runtime_db_ok_def commands_ok_def)
qed

lemma update_instances_conv:
  "snd (update_instances P f d) = d\<lparr>rt_instances := update_where P f (rt_instances d)\<rparr>"
  by (simp add: update_instances_def)

lemma checked_update_conv:
  "snd (update_instances_checked v P f d) = d \<or>
   ((\<forall>r \<in> set (rt_instances d). P r \<longrightarrow> instance_checks v (f r)) \<and>
    snd (update_instances_checked v P f d) = d\<lparr>rt_instances := update_where P f (rt_instances d)\<rparr>)"
  by (simp add: update_instances_checked_def)

section \<open>Steps on the surroundings\<close>

lemma keeps_journal: "keeps I (journal_write ctl entry)"
  by (simp add: keeps_def journal_write_def journal_step_def split: prod.splits)

lemma keeps_remote: "keeps I (remote_step ctl server operation payload)"
  by (simp add: keeps_def remote_step_def split: prod.splits)

lemma keeps_read: "keeps I (read_sql f)"
  unfolding read_sql_def by (rule keeps_statement) simp

lemma keeps_read_at: "keeps I (\<lambda>w. read_sql (f w) w)"
  by (rule keeps_diagonal) (rule keeps_read)

lemma preserves_pool_read: "preserves I (pool_read f)"
  unfolding pool_read_def by (rule preserves_on_pool) simp

lemma preserves_pool_read_at: "preserves I (\<lambda>w. pool_read (f w) w)"
  by (rule preserves_diagonal) (rule preserves_pool_read)

lemma keeps_commit: "keeps I (commit_with x)" "keeps I (rollback_with x)"
  by (simp_all add: keeps_def commit_with_def rollback_with_def)

lemma keeps_require_checks:
  "keeps I (require_remote_removal res g)" "keeps I (require_remote_generation res g operation)"
  "keeps I (require_remote_ready ctl res operation)"
  by (simp_all add: keeps_def require_remote_removal_def require_remote_generation_def
      require_remote_ready_def)

lemma keeps_fun_if: "(b \<Longrightarrow> keeps I m) \<Longrightarrow> (\<not> b \<Longrightarrow> keeps I n) \<Longrightarrow> keeps I (if b then m else n)"
  by simp

lemma atomic_config:
  assumes "\<And>now. keeps I (body now)"
  shows "atomic I (config_transaction body)"
  unfolding config_transaction_def
  by (intro atomic_transaction keeps_and_then keeps_statement assms) simp

lemma keeps_checked:
  assumes "\<And>d. I d \<Longrightarrow> I (snd (q d))"
  shows "keeps I (checked_statement q)"
  unfolding checked_statement_def by (intro keeps_and_then keeps_statement keeps_return assms)

lemma keeps_with_claim:
  assumes "keeps I body"
  shows "keeps I (with_claim command lost body)"
  unfolding with_claim_def lock_command_claim_def
  by (intro keeps_and_then keeps_read keeps_fun_if keeps_commit assms)

lemmas step_rules =
  keeps_journal keeps_remote keeps_read keeps_read_at keeps_commit keeps_require_checks keeps_fun_if
  keeps_with_claim keeps_and_then keeps_if keeps_require keeps_return keeps_option

section \<open>Everything the worker does keeps it\<close>

text \<open>
  The contract between the statements and the code that issues them: an invariant that implies
  \<open>runtime_db_ok\<close> and that each kind of statement keeps. Updates of instances must advance them,
  and commands are inserted at a generation the instance has reached, terminations only when none
  is open.
\<close>

locale runtime_invariant =
  fixes I :: "runtime_db \<Rightarrow> bool"
  assumes I_ok: "I d \<Longrightarrow> runtime_db_ok d"
    and I_settle: "I d \<Longrightarrow> I (snd (settle_command_sql command v d))"
    and I_events: "I d \<Longrightarrow> I (d\<lparr>rt_events := es\<rparr>)"
    and I_notified: "I d \<Longrightarrow> I (d\<lparr>rt_notified := ns\<rparr>)"
    and I_update: "I d \<Longrightarrow>
      (\<And>r. r \<in> set (rt_instances d) \<Longrightarrow> P r \<Longrightarrow> instance_advances r (f r)) \<Longrightarrow>
      I (d\<lparr>rt_instances := update_where P f (rt_instances d)\<rparr>)"
    and I_insert: "I d \<Longrightarrow> insertable d i kind g \<Longrightarrow> I (snd (insert_command now i kind g sr rr payload d))"
    and I_recover_stale: "I d \<Longrightarrow> I (snd (recover_stale_commands_sql now s d))"
    and I_recover_all: "I d \<Longrightarrow> I (snd (recover_all_commands_sql now d))"
    and I_claim: "I d \<Longrightarrow> I (snd (claim_command_sql locked now d))"
begin

lemma keeps_update:
  assumes "\<And>r. P r \<Longrightarrow> instance_advances r (f r)"
  shows "keeps I (statement (update_instances P f))"
  by (rule keeps_statement) (simp add: update_instances_conv I_update assms)

lemma keeps_update_checked:
  assumes "\<And>r. P r \<Longrightarrow> instance_checks v (f r) \<Longrightarrow> instance_advances r (f r)"
  shows "keeps I (checked_statement (update_instances_checked v P f))"
proof (rule keeps_checked)
  fix d
  assume "I d"
  then show "I (snd (update_instances_checked v P f d))"
    using checked_update_conv [of v P f d] by (auto simp: assms intro!: I_update)
qed

lemma keeps_event: "keeps I (runtime_event_step i ty payload)"
  unfolding runtime_event_step_def
  by (rule keeps_statement) (simp add: append_runtime_event_def I_events)

lemma keeps_settle: "keeps I (statement (settle_command_sql command v))"
  by (rule keeps_statement) (rule I_settle)

lemma keeps_mark:
  "keeps I (mark_command_cancelled now command reason)" "keeps I (mark_command_completed now command)"
  unfolding mark_command_cancelled_def [abs_def] mark_command_completed_def [abs_def]
  by (intro keeps_and_then keeps_settle keeps_require)+

lemma request_stop_leads:
  assumes "I d" and "List.find (\<lambda>r. ins_id r = i \<and> ins_active r) (rt_instances d) = Some row"
    and "\<not> termination_open d i"
  shows "I (snd (request_stop_sql i (ins_generation row + 1) d)) \<and>
    insertable (snd (request_stop_sql i (ins_generation row + 1) d)) (ins_id row) Cmd_Terminate
      (ins_generation row + 1)"
proof -
  from assms(2) have row: "row \<in> set (rt_instances d)" "ins_id row = i" by (auto simp: find_Some_iff)
  have only: "r = row" if "r \<in> set (rt_instances d)" "ins_id r = i" for r
    using that row I_ok [OF assms(1)] by (auto simp: runtime_db_ok_def intro: distinct_map_eq)
  have "I (snd (request_stop_sql i (ins_generation row + 1) d))"
    unfolding request_stop_sql_def update_instances_conv using assms(1)
    by (rule I_update) (use only in \<open>auto simp: instance_advances_def\<close>)
  moreover have "insertable (snd (request_stop_sql i (ins_generation row + 1) d)) (ins_id row) Cmd_Terminate
      (ins_generation row + 1)"
    using row assms(3)
    by (auto simp: insertable_def generation_known_def stop_wanted_def termination_open_def request_stop_sql_def
        update_instances_conv update_where_def image_iff intro: rev_bexI)
  ultimately show ?thesis by blast
qed

lemma keeps_create_termination: "keeps I (create_termination_in_transaction now i reason)"
proof -
  let ?J1 = "\<lambda>x d. I d \<and> x = List.find (\<lambda>r. ins_id r = i \<and> ins_active r) (rt_instances d)"
  let ?J2 = "\<lambda>row b d. I d \<and> Some row = List.find (\<lambda>r. ins_id r = i \<and> ins_active r) (rt_instances d)
      \<and> b = termination_open d i"
  let ?J3 = "\<lambda>row d. I d \<and> insertable d (ins_id row) Cmd_Terminate (ins_generation row + 1)"
  show ?thesis
    unfolding create_termination_in_transaction_def [abs_def] read_sql_def leads_keeps [symmetric]
    apply (rule leads_statement_then [where J = "\<lambda>_. I"], assumption, simp)
    apply (rule leads_statement_then [where J = ?J1], assumption, simp)
    apply (rule leads_option)
     apply (rule leads_return, simp)
    subgoal for u found row
      apply (rule leads_statement_then [where J = "?J2 row"], simp, simp)
      apply (rule leads_if)
       apply (rule leads_return, simp)
      apply (rule leads_statement_then [where J = "\<lambda>_. ?J3 row"], simp)
       apply (simp add: request_stop_leads)
      apply (rule leads_statement_then [where J = "\<lambda>_. I"], simp)
       apply (simp add: I_insert)
      apply (rule leads_option)
       apply (rule leads_return, simp)
      apply (rule leads_from)
       apply (intro keeps_and_then keeps_event keeps_return keeps_statement)
       apply (simp_all add: I_notified)
      done
    done
qed

lemmas worker_rules = keeps_event keeps_settle keeps_mark keeps_create_termination step_rules

lemma atomic_create_termination: "atomic I (create_termination_command i reason)"
  unfolding create_termination_command_def by (intro atomic_config worker_rules)

lemma atomic_mark_starting: "atomic I (mark_starting command i server)"
  unfolding mark_starting_def mark_starting_sql_def
  by (intro atomic_config worker_rules keeps_update)
     (simp add: starting_update_def instance_advances_def)

lemma atomic_select_and_mark_starting: "atomic I (select_and_mark_starting command i)"
  unfolding select_and_mark_starting_def mark_starting_sql_def
  by (intro atomic_config worker_rules keeps_update)
     (simp add: starting_update_def instance_advances_def)

lemma ready_update_advances:
  "instance_checks v (ready_update now command server res t r) \<Longrightarrow>
     instance_advances r (ready_update now command server res t r)"
  by (simp add: ready_update_def instance_advances_def instance_checks_def)

lemma atomic_finish_start: "atomic I (finish_start_tx ctl t command i server res)"
  unfolding finish_start_tx_def lock_command_claim_def
  by (intro atomic_config worker_rules keeps_update_checked ready_update_advances)

lemma preserves_finish_start: "preserves I (finish_start ctl command i server res)"
  unfolding finish_start_def [abs_def] Let_def
  by (intro preserves_if preserves_return atomic_preserves atomic_finish_start)

lemma atomic_mark_stopping: "atomic I (mark_stopping command i)"
  unfolding mark_stopping_def
  by (intro atomic_config worker_rules keeps_update) (simp add: instance_advances_def)

lemma atomic_finish_termination: "atomic I (finish_termination_tx expired command i)"
  unfolding finish_termination_tx_def
  by (intro atomic_config worker_rules keeps_update)
     (simp add: stopped_update_def instance_advances_def)

lemma preserves_finish_termination: "preserves I (finish_termination command i)"
  unfolding finish_termination_def [abs_def] Let_def
  by (rule preserves_diagonal [where m = "\<lambda>v. finish_termination_tx (ins_expires_at i \<le> clock v \<or> b) command i" for b])
     (intro atomic_preserves atomic_finish_termination)

lemma atomic_finish_extension: "atomic I (finish_extension_tx ctl t command i)"
  unfolding finish_extension_tx_def
  by (intro atomic_config worker_rules keeps_update_checked)
     (simp add: instance_advances_def instance_checks_def)

lemma preserves_finish_extension: "preserves I (finish_extension ctl command i res)"
  using atomic_preserves [OF atomic_finish_extension, of ctl "effective_deadline res i" command i]
  by (simp add: preserves_def finish_extension_def Let_def)

lemma keeps_inspected:
  "keeps I (inspected_absent now expired command i)"
  "keeps I (inspected_not_ready ctl now command i res)"
  "keeps I (inspected_ready now command i)"
  unfolding inspected_absent_def [abs_def] inspected_not_ready_def [abs_def]
    inspected_ready_def [abs_def] Let_def
  by (intro worker_rules keeps_update; simp add: instance_advances_def)+

lemma keeps_inspected_at: "keeps I (\<lambda>w. inspected ctl now (b w) command i res w)"
  unfolding inspected_def by (rule keeps_diagonal) (intro keeps_if keeps_inspected)

lemma atomic_finish_inspection: "atomic I (finish_inspection ctl command i res)"
  unfolding finish_inspection_def
  by (intro atomic_config keeps_with_claim keeps_and_then keeps_inspected_at worker_rules)

lemma keeps_close:
  assumes "\<And>r. instance_advances r (f r)"
  shows "keeps I (statement (close_requested f command i))"
  unfolding close_requested_def by (rule keeps_update) (rule assms)

lemma atomic_rejections:
  "atomic I (reject_start command i gate)" "atomic I (expire_unstarted_instance command i)"
  "atomic I (cancel_stale_command command i)"
  unfolding reject_start_def expire_unstarted_instance_def cancel_stale_command_def
  by (intro atomic_config worker_rules keeps_close;
      simp add: instance_advances_def stopped_update_def)+

lemma atomic_fail_command: "atomic I (fail_command command message)"
  unfolding fail_command_def
  by (intro atomic_config worker_rules keeps_update) (simp add: instance_advances_def)

lemma preserves_settle_on_pool: "preserves I (cancel_command command reason)"
  "preserves I (complete_command command)"
  unfolding cancel_command_def [abs_def] complete_command_def [abs_def]
  by (intro preserves_and_then preserves_on_pool_at preserves_return, rule I_settle, assumption)+

lemma preserves_command_retry: "preserves I (schedule_command_retry command n e)"
  unfolding schedule_command_retry_def [abs_def] Let_def
  by (intro preserves_if atomic_preserves atomic_fail_command preserves_and_then
      preserves_on_pool_at preserves_return I_settle)

lemma preserves_surroundings:
  "preserves I (journal_intent_step ctl intent)" "preserves I (journal_result_step ctl intent res)"
  "preserves I (journal_acknowledge_step ctl intent)" "preserves I (journal_write ctl entry)"
  "preserves I (remote_step ctl server operation payload)"
  "preserves I (require_remote_removal res g)" "preserves I (require_remote_generation res g phase)"
  "preserves I (require_remote_ready ctl res phase)"
  unfolding journal_intent_step_def journal_result_step_def journal_acknowledge_step_def
  by (rule keeps_preserves; rule keeps_journal keeps_remote keeps_require_checks)+

lemma preserves_load: "preserves I (load_instance i)" "preserves I (load_remote_server i)"
  unfolding load_instance_def [abs_def] load_remote_server_def [abs_def]
  by (intro preserves_and_then preserves_pool_read preserves_option preserves_return)+

lemma preserves_transactions:
  "preserves I (mark_starting command i server)" "preserves I (select_and_mark_starting command i)"
  "preserves I (mark_stopping command i)" "preserves I (finish_inspection ctl command i res)"
  "preserves I (reject_start command i gate)" "preserves I (expire_unstarted_instance command i)"
  "preserves I (cancel_stale_command command i)" "preserves I (create_termination_command j reason)"
  by (rule atomic_preserves, rule atomic_mark_starting atomic_select_and_mark_starting
      atomic_mark_stopping atomic_finish_inspection atomic_rejections atomic_create_termination)+

lemmas handler_rules =
  preserves_surroundings preserves_load preserves_transactions preserves_settle_on_pool
  preserves_finish_start preserves_finish_termination preserves_finish_extension
  preserves_pool_read preserves_and_then preserves_if preserves_option preserves_return preserves_require

lemma preserves_launch: "preserves I (launch ctl command i server)"
  unfolding launch_def [abs_def] cleanup_superseded_start_def Let_def
  by (intro handler_rules)

lemma preserves_if_at: "preserves I m \<Longrightarrow> preserves I n \<Longrightarrow> preserves I (\<lambda>w. if b w then m w else n w)"
  by (simp add: preserves_def)

lemma preserves_start: "preserves I (execute_start ctl command i)"
  unfolding execute_start_def [abs_def]
  by (rule preserves_if, intro handler_rules, rule preserves_if_at)
     (intro handler_rules preserves_launch)+

lemma preserves_terminate: "preserves I (execute_terminate ctl command i)"
  unfolding execute_terminate_def [abs_def] terminate_remote_def Let_def
  by (intro handler_rules)

lemma preserves_extend: "preserves I (execute_extend ctl command i)"
  unfolding execute_extend_def [abs_def] Let_def
  by (rule preserves_if_at) (intro handler_rules)+

lemma preserves_inspect: "preserves I (execute_inspect ctl command i)"
  unfolding execute_inspect_def [abs_def] Let_def by (intro handler_rules)

lemma preserves_execute: "preserves I (execute_command ctl command)"
proof -
  have "preserves I (\<lambda>w. case rc_kind command of
       Cmd_Start \<Rightarrow> execute_start ctl command i w
     | Cmd_Terminate \<Rightarrow> execute_terminate ctl command i w
     | Cmd_Extend \<Rightarrow> execute_extend ctl command i w
     | Cmd_Inspect \<Rightarrow> execute_inspect ctl command i w
     | Cmd_Reconcile \<Rightarrow> execute_inspect ctl command i w)" for i
    by (cases "rc_kind command")
       (simp_all add: preserves_start preserves_terminate preserves_extend preserves_inspect)
  then show ?thesis
    unfolding execute_command_def [abs_def] by (intro handler_rules)
qed

lemma preserves_ping: "preserves I ping_lease"
  by (auto simp: preserves_def ping_lease_def safe_def turns_keep_def split: list.splits bool.splits)

lemma preserves_claim_command: "preserves I claim_command"
  by (rule preserves_snd [where m = "\<lambda>w. on_pool (claim_command_sql (locked_rows w) (clock w)) w"])
     (auto simp: claim_command_def intro!: preserves_on_pool_at I_claim split: prod.splits sum.splits)

lemma preserves_attempt:
  assumes "preserves I (process_commands ctl flags)"
  shows "preserves I (\<lambda>w. case execute_command ctl command w of
      (Inr _, w) \<Rightarrow> process_commands ctl flags w
    | (Inl e, w) \<Rightarrow> and_then (schedule_command_retry command n e w) (\<lambda>_. process_commands ctl flags))"
proof (rule preservesI)
  fix w :: "'a runtime_world"
  assume w: "safe I w"
  obtain x w2 where x: "execute_command ctl command w = (x, w2)" by fastforce
  with preservesD [OF preserves_execute w, of ctl command] have w2: "safe I w2" by simp
  have retried: "preserves I (\<lambda>w. and_then (schedule_command_retry command n e w)
      (\<lambda>_. process_commands ctl flags))" for e
    by (intro preserves_and_then preserves_command_retry assms)
  show "safe I (snd (case execute_command ctl command w of
      (Inr _, w) \<Rightarrow> process_commands ctl flags w
    | (Inl e, w) \<Rightarrow> and_then (schedule_command_retry command n e w) (\<lambda>_. process_commands ctl flags)))"
    using x w2 preservesD [OF assms w2] preservesD [OF retried w2] by (cases x) auto
qed

lemma preserves_process: "preserves I (process_commands ctl flags)"
proof (induction flags)
  case Nil
  show ?case by (rule preservesI) simp
next
  case (Cons stop flags)
  have "preserves I (\<lambda>w. if stop then (Inr (), w)
      else and_then (ping_lease w) (\<lambda>_ w.
        and_then (claim_command w) (\<lambda>claimed w. case claimed of
          None \<Rightarrow> (Inr (), w)
        | Some command \<Rightarrow>
            (case execute_command ctl command w of
               (Inr _, w) \<Rightarrow> process_commands ctl flags w
             | (Inl e, w) \<Rightarrow>
                 and_then (schedule_command_retry command (ctl_max_command_attempts ctl) e w)
                   (\<lambda>_. process_commands ctl flags)))))"
    by (intro preserves_if preserves_return preserves_and_then preserves_ping preserves_claim_command
        preserves_option preserves_attempt Cons)
  then show ?case by (simp add: preserves_def)
qed

lemma preserves_create_terminations: "preserves I (create_terminations xs)"
proof (induction xs)
  case Nil
  show ?case by (rule preservesI) simp
next
  case (Cons x xs)
  obtain i reason where x: "x = (i, reason)" by fastforce
  have "preserves I (\<lambda>w :: 'a runtime_world.
      and_then (create_termination_command i reason w) (\<lambda>_. create_terminations xs))"
    by (intro preserves_and_then preserves_transactions Cons)
  then show ?case by (simp add: preserves_def x)
qed

lemma I_inspections:
  assumes "I d"
  shows "I (snd (enqueue_inspections_sql now age d))"
proof -
  have "I (fold (\<lambda>i d. snd (insert_command now (ins_id i) Cmd_Inspect (ins_generation i)
      (ins_private_revision i) (ins_runtime_revision i) (JObj []) d)) is e)"
    if "I e" "rt_instances e = rt_instances d" "set is \<subseteq> set (rt_instances d)" for "is" e
    using that
  proof (induction "is" arbitrary: e)
    case Nil
    then show ?case by simp
  next
    case (Cons i "is")
    have "generation_known (rt_instances e) (ins_id i) (ins_generation i)"
      using Cons.prems I_ok [OF Cons.prems(1)] unfolding generation_known_def runtime_db_ok_def
      by (metis distinct_map_eq list.set_intros(1) order_refl subsetD)
    then have "insertable e (ins_id i) Cmd_Inspect (ins_generation i)"
      using Cons.prems(2,3) by (simp add: insertable_def)
    with Cons.prems show ?case by (auto intro!: Cons.IH I_insert)
  qed
  moreover have "set (inspection_candidates now age d) \<subseteq> set (rt_instances d)"
    by (auto simp: inspection_candidates_def dest!: in_set_takeD)
  ultimately show ?thesis using assms by (simp add: enqueue_inspections_sql_def Let_def)
qed

lemma preserves_sweeps:
  "preserves I (enqueue_policy_terminations t)" "preserves I (enqueue_overdue_terminations t)"
  "preserves I (enqueue_active_inspections age)" "preserves I (recover_stale_commands t)"
  "preserves I recover_all_claims_on_startup"
  unfolding enqueue_policy_terminations_def [abs_def] enqueue_overdue_terminations_def [abs_def]
    enqueue_active_inspections_def [abs_def] recover_stale_commands_def [abs_def]
    recover_all_claims_on_startup_def [abs_def]
  by (intro preserves_and_then preserves_pool_read_at preserves_create_terminations
      preserves_on_pool_at preserves_return; rule I_inspections I_recover_stale I_recover_all; assumption)+

lemma preserves_acknowledge: "preserves I (acknowledge_records ctl rs)"
proof (induction rs)
  case Nil
  show ?case by (rule preservesI) simp
next
  case (Cons r rs)
  have "preserves I (\<lambda>w. and_then (pool_read (command_state_sql r) w) (\<lambda>state w.
     and_then (if database_finished r state
               then journal_write ctl (\<lambda>now. r\<lparr>jr_phase := Database_Acknowledged,
                      jr_remote_result := None, jr_payload := None, jr_updated_at := now\<rparr>) w
               else (Inr (), w)) (\<lambda>_. acknowledge_records ctl rs)))"
    by (intro handler_rules Cons)
  then show ?case by (simp add: preserves_def)
qed

lemma preserves_unacknowledged: "preserves I (unacknowledged ctl)"
  by (auto simp: preserves_def unacknowledged_def journal_step_def and_then_def safe_def turns_keep_def
      split: prod.splits sum.splits)

lemma preserves_journal_reconcile: "preserves I (reconcile_database_acknowledgements ctl)"
  unfolding reconcile_database_acknowledgements_def [abs_def]
  by (intro preserves_and_then preserves_unacknowledged preserves_acknowledge)

lemma preserves_reconcile: "preserves I (reconcile_commands ctl age flags)"
  unfolding reconcile_commands_def [abs_def]
  by (intro preserves_and_then preserves_sweeps preserves_process preserves_journal_reconcile)

lemma preserves_set_status: "preserves I (set_status f)"
  by (auto simp: preserves_def set_status_def safe_def turns_keep_def)

lemma preserves_refresh: "preserves I refresh_mode"
  unfolding refresh_mode_def [abs_def]
  by (intro preserves_and_then preserves_pool_read preserves_set_status)

lemma preserves_delay: "preserves I (next_command_wake_delay a b)"
  unfolding next_command_wake_delay_def [abs_def]
  by (intro preserves_and_then preserves_pool_read preserves_pool_read_at) (simp add: preserves_def)

lemma preserves_startup: "preserves I (session_startup ctl flags)"
  unfolding session_startup_def [abs_def]
  by (intro preserves_and_then preserves_sweeps preserves_journal_reconcile preserves_reconcile
      preserves_set_status preserves_refresh)

lemma preserves_session_round: "preserves I (session_round ctl flags)"
  unfolding session_round_def [abs_def]
  by (intro preserves_and_then preserves_ping preserves_sweeps preserves_reconcile
      preserves_refresh preserves_delay)

lemma preserves_at_clock:
  "preserves I m \<Longrightarrow> preserves I (\<lambda>w :: 'a runtime_world. m (w\<lparr>clock := t\<rparr>))"
proof (rule preservesI)
  fix w :: "'a runtime_world"
  assume m: "preserves I m" and "safe I w"
  then have "safe I (w\<lparr>clock := t\<rparr>)" by (simp add: safe_def turns_keep_def)
  with m show "safe I (snd (m (w\<lparr>clock := t\<rparr>)))" by (rule preservesD)
qed

lemma preserves_loop: "preserves I (session_loop ctl rounds)"
proof (induction rounds)
  case Nil
  show ?case by (rule preservesI) simp
next
  case (Cons r rounds)
  obtain stop flags wait where r: "r = (stop, flags, wait)" by (cases r) auto
  have "preserves I (\<lambda>w. case wait of
          Shutdown_Requested \<Rightarrow> (Inr (), w)
        | Listener_Lost \<Rightarrow> (Inl ''PostgreSQL notification listener disconnected'', w)
        | Notified t \<Rightarrow> session_loop ctl rounds (w\<lparr>clock := t\<rparr>)
        | Deadline_Reached t \<Rightarrow>
            and_then (set_status reconciled (w\<lparr>clock := t\<rparr>)) (\<lambda>_. session_loop ctl rounds))"
  proof (cases wait)
    case (Deadline_Reached t)
    have "preserves I (\<lambda>w. set_status reconciled (w\<lparr>clock := t\<rparr>))"
      by (rule preserves_at_clock) (rule preserves_set_status)
    from preserves_and_then [OF this Cons] Deadline_Reached show ?thesis by simp
  next
    case (Notified t)
    with preserves_at_clock [OF Cons] show ?thesis by simp
  qed (simp_all add: preserves_return)
  then have "preserves I (\<lambda>w. if stop then (Inr (), w)
      else and_then (session_round ctl flags w) (\<lambda>_ w. case wait of
          Shutdown_Requested \<Rightarrow> (Inr (), w)
        | Listener_Lost \<Rightarrow> (Inl ''PostgreSQL notification listener disconnected'', w)
        | Notified t \<Rightarrow> session_loop ctl rounds (w\<lparr>clock := t\<rparr>)
        | Deadline_Reached t \<Rightarrow>
            and_then (set_status reconciled (w\<lparr>clock := t\<rparr>)) (\<lambda>_. session_loop ctl rounds)))"
    by (intro preserves_if preserves_return preserves_and_then preserves_session_round)
  then show ?case by (simp add: preserves_def r)
qed

lemma preserves_session: "preserves I (connected_session installed ctl plan)"
proof -
  have "preserves I (\<lambda>w. case plan_leadership plan of
       None \<Rightarrow> (Inr (), w)
     | Some (Inl e) \<Rightarrow> (Inl e, w)
     | Some (Inr _) \<Rightarrow>
     (case plan_listener plan of
        Inl e \<Rightarrow> (Inl e, w)
      | Inr _ \<Rightarrow>
          and_then (session_startup ctl (plan_startup_flags plan) w)
            (\<lambda>_. session_loop ctl (plan_rounds plan))))"
    using preserves_and_then [OF preserves_startup [of ctl "plan_startup_flags plan"]
        preserves_loop [of ctl "plan_rounds plan"]]
    by (cases "plan_leadership plan"; cases "the (plan_leadership plan)"; cases "plan_listener plan")
       (simp_all add: preserves_return)
  then show ?thesis
    unfolding connected_session_def [abs_def] require_runtime_schema_def
    by (intro preserves_and_then preserves_pool_read preserves_require)
qed

end

end
