(* ===== verification/RuntimeProperties.thy ===== *)
theory RuntimeProperties
  imports RuntimeInvariants
begin

text \<open>
  The properties of the runtime worker (\<open>services/controller/src/worker.rs\<close>): its tables stay well
  formed under any failure and interleaving, instances only move towards their end, a worker that
  lost its claim or its generation changes nothing, placement respects capacity, a workload is
  declared gone only after the helper confirmed it, and every remote call follows a durable journal
  entry.
\<close>

interpretation runtime_tables_ok: runtime_invariant runtime_db_ok
proof
  fix d command v es ns and P :: "runtime_instance \<Rightarrow> bool" and f i g kind sr rr payload now s locked
  assume ok: "runtime_db_ok d"
  show "runtime_db_ok d" by fact
  show "runtime_db_ok (snd (settle_command_sql command v d))" using ok by (rule settle_command_ok)
  show "runtime_db_ok (d\<lparr>rt_events := es\<rparr>)" "runtime_db_ok (d\<lparr>rt_notified := ns\<rparr>)"
    using ok by (simp_all add: runtime_db_ok_def)
  show "runtime_db_ok (snd (recover_stale_commands_sql now s d))"
    "runtime_db_ok (snd (recover_all_commands_sql now d))"
    using ok by (rule recover_commands_ok)+
  show "runtime_db_ok (snd (claim_command_sql locked now d))" using ok by (rule claim_command_ok)
  show "runtime_db_ok (d\<lparr>rt_instances := update_where P f (rt_instances d)\<rparr>)"
    if "\<And>r. r \<in> set (rt_instances d) \<Longrightarrow> P r \<Longrightarrow> instance_advances r (f r)"
    using ok that by (rule update_instances_ok)
  show "runtime_db_ok (snd (insert_command now i kind g sr rr payload d))"
    if "insertable d i kind g" using ok that by (rule insert_command_ok)
qed

text \<open>Every instance known before is still there, and has only advanced.\<close>

definition instances_advance :: "runtime_instance list \<Rightarrow> runtime_db \<Rightarrow> bool" where
  "instances_advance is d \<longleftrightarrow> runtime_db_ok d \<and>
     (\<forall>a \<in> set is. \<exists>b \<in> set (rt_instances d). instance_advances a b)"

lemma instances_advance_update:
  assumes "instances_advance is d"
    and f: "\<And>r. r \<in> set (rt_instances d) \<Longrightarrow> P r \<Longrightarrow> instance_advances r (f r)"
  shows "instances_advance is (d\<lparr>rt_instances := update_where P f (rt_instances d)\<rparr>)"
proof -
  have "\<exists>b \<in> set (update_where P f (rt_instances d)). instance_advances a b" if a: "a \<in> set is" for a
  proof -
    from assms(1) a obtain c where c: "c \<in> set (rt_instances d)" "instance_advances a c"
      by (auto simp: instances_advance_def)
    have "(if P c then f c else c) \<in> set (update_where P f (rt_instances d))"
      using c(1) by (auto simp: update_where_def)
    moreover have "instance_advances a (if P c then f c else c)"
      using c f [OF c(1)] instance_advances_trans by auto
    ultimately show ?thesis by blast
  qed
  moreover have "runtime_db_ok (d\<lparr>rt_instances := update_where P f (rt_instances d)\<rparr>)"
    using assms(1) f by (intro update_instances_ok) (auto simp: instances_advance_def)
  ultimately show ?thesis by (simp add: instances_advance_def)
qed

lemma statement_instances [simp]:
  "rt_instances (snd (settle_command_sql command v d)) = rt_instances d"
  "rt_instances (snd (recover_stale_commands_sql now s d)) = rt_instances d"
  "rt_instances (snd (recover_all_commands_sql now d)) = rt_instances d"
  "rt_instances (snd (claim_command_sql locked now d)) = rt_instances d"
  by (simp_all add: settle_command_sql_def recover_stale_commands_sql_def recover_all_commands_sql_def
      release_commands_def claim_command_sql_def split: option.splits)

interpretation runtime_forward: runtime_invariant "instances_advance is" for "is"
proof
  fix d command v es ns and P :: "runtime_instance \<Rightarrow> bool" and f i g kind sr rr payload now s locked
  assume ok: "instances_advance is d"
  note db = ok [unfolded instances_advance_def, THEN conjunct1]
  show "runtime_db_ok d" by (rule db)
  show "instances_advance is (snd (settle_command_sql command v d))"
    using ok runtime_tables_ok.I_settle [OF db] by (simp add: instances_advance_def)
  show "instances_advance is (d\<lparr>rt_events := es\<rparr>)" "instances_advance is (d\<lparr>rt_notified := ns\<rparr>)"
    using ok runtime_tables_ok.I_events [OF db] runtime_tables_ok.I_notified [OF db]
    by (simp_all add: instances_advance_def)
  show "instances_advance is (snd (recover_stale_commands_sql now s d))"
    "instances_advance is (snd (recover_all_commands_sql now d))"
    using ok recover_commands_ok [OF db] by (simp_all add: instances_advance_def)
  show "instances_advance is (snd (claim_command_sql locked now d))"
    using ok claim_command_ok [OF db] by (simp add: instances_advance_def)
  show "instances_advance is (d\<lparr>rt_instances := update_where P f (rt_instances d)\<rparr>)"
    if "\<And>r. r \<in> set (rt_instances d) \<Longrightarrow> P r \<Longrightarrow> instance_advances r (f r)"
    using ok that by (rule instances_advance_update)
  show "instances_advance is (snd (insert_command now i kind g sr rr payload d))"
    if "insertable d i kind g" using ok insert_command_ok [OF db that] by (simp add: instances_advance_def)
qed

text \<open>
  The runtime tables stay well formed: whatever fails and whatever other connections commit in
  between (as long as that is well formed too), a controller session leaves unique ids and claim
  tokens, a claim exactly on the claimed commands, at most one open command per instance, kind and
  generation, at most one open termination per instance, no command ahead of its instance's
  generation and no deadline beyond its maximum.
\<close>

theorem runtime_session_keeps_tables_ok:
  assumes "runtime_db_ok (db w)" and "\<forall>g \<in> set (turns w). \<forall>d. runtime_db_ok d \<longrightarrow> runtime_db_ok (g d)"
  shows "runtime_db_ok (db (snd (connected_session installed ctl plan w)))"
proof -
  have "safe runtime_db_ok w" using assms by (simp add: safe_def turns_keep_def)
  from preservesD [OF runtime_tables_ok.preserves_session this] show ?thesis by (simp add: safe_def)
qed

text \<open>
  C40. Instances only move towards their end: over a whole session in which the other connections
  keep to it as well, no instance disappears, changes owner or challenge, loses generations, becomes
  active again or is wanted again after it was to be stopped.
\<close>

theorem instances_never_revive:
  assumes "runtime_db_ok (db w)"
    and "\<forall>g \<in> set (turns w). \<forall>d. instances_advance (rt_instances (db w)) d \<longrightarrow>
      instances_advance (rt_instances (db w)) (g d)"
    and "a \<in> set (rt_instances (db w))"
  shows "\<exists>b \<in> set (rt_instances (db (snd (connected_session installed ctl plan w)))).
    ins_id b = ins_id a \<and> ins_owner_user_id b = ins_owner_user_id a \<and>
    ins_challenge_id b = ins_challenge_id a \<and> ins_generation a \<le> ins_generation b \<and>
    (\<not> ins_active a \<longrightarrow> \<not> ins_active b) \<and>
    (ins_desired_state a = Want_Stopped \<longrightarrow> ins_desired_state b = Want_Stopped)"
proof -
  let ?I = "instances_advance (rt_instances (db w))"
  have "?I (db w)"
    using assms(1) instance_advances_refl unfolding instances_advance_def by blast
  with assms(2) have "safe ?I w" by (simp add: safe_def turns_keep_def)
  from preservesD [OF runtime_forward.preserves_session this]
  have "?I (db (snd (connected_session installed ctl plan w)))" by (simp add: safe_def)
  with assms(3) show ?thesis unfolding instances_advance_def instance_advances_def by blast
qed

section \<open>Lost claims\<close>

lemma read_sql_result:
  assumes "read_sql f w = (r, w')"
  shows "db w' = db w \<and> ((\<exists>e. r = Inl e) \<or> r = Inr (f (db w)))"
  using statement_result [OF assms [unfolded read_sql_def]] by auto

lemma config_transaction_unchanged:
  assumes "\<And>now v r v'. db v = db (interleave w) \<Longrightarrow> body now v = (r, v') \<Longrightarrow>
      (\<exists>e. r = Inl e) \<or> (\<exists>x. r = Inr (Rollback x))"
  shows "db (snd (config_transaction body w)) = db (interleave w)"
proof (cases "config_transaction body w")
  case (Pair r w')
  let ?body = "\<lambda>now w. and_then (statement (\<lambda>d. ((), d)) w) (\<lambda>_. body now)"
  have tx: "transaction ?body w = (r, w')" using Pair by (simp add: config_transaction_def)
  show ?thesis
  proof (cases r)
    case (Inl e)
    with tx transaction_error Pair show ?thesis by fastforce
  next
    case (Inr x)
    with tx have "transaction ?body w = (Inr x, w')" by simp
    then show ?thesis
    proof (rule transaction_returned)
      fix fs y w2 fs'
      assume run: "?body (clock (interleave w)) (interleave w\<lparr>faults := fs\<rparr>) = (Inr y, w2)"
        and out: "(y = Commit x \<and> w' = w2\<lparr>faults := fs'\<rparr>) \<or>
           (y = Rollback x \<and> w' = w2\<lparr>faults := fs', db := db (interleave w)\<rparr>)"
      from run obtain u v where
        s: "statement (\<lambda>d. ((), d)) (interleave w\<lparr>faults := fs\<rparr>) = (Inr u, v)"
        and "body (clock (interleave w)) v = (Inr y, w2)"
        by (rule and_then_Inr_cases)
      moreover have "db v = db (interleave w)" using statement_result [OF s] by simp
      ultimately have "db v = db (interleave w)" "body (clock (interleave w)) v = (Inr y, w2)"
        by auto
      from assms [OF this] have "\<exists>z. y = Rollback z" by auto
      with out Pair show ?thesis by auto
    qed
  qed
qed

lemma with_claim_lost:
  assumes "\<not> command_held command (db v)" and "with_claim command lost body v = (r, v')"
  shows "(\<exists>e. r = Inl e) \<or> (\<exists>x. r = Inr (Rollback x))"
  using assms read_sql_result [of "command_held command" v]
  by (auto simp: with_claim_def lock_command_claim_def and_then_def rollback_with_def
      split: prod.splits sum.splits)

lemma lost_claim_unchanged:
  assumes "\<not> command_held command (db (interleave w))"
  shows "db (snd (config_transaction (\<lambda>now. with_claim command lost (body now)) w)) = db (interleave w)"
  by (rule config_transaction_unchanged, rule with_claim_lost [rotated], assumption)
     (simp add: assms)

lemma settle_unheld:
  assumes "\<not> command_held command d"
  shows "settle_command_sql command v d = (0, d)"
proof -
  have "rows_affected (command_claim command) (rt_commands d) = 0"
    using assms by (auto simp: command_held_def rows_affected_0)
  then show ?thesis by (simp add: settle_command_sql_def update_where_none)
qed

lemma settle_on_pool_unheld:
  assumes "\<not> command_held command (db (interleave w))"
  shows "db (snd (and_then (on_pool (settle_command_sql command v) w) (\<lambda>_ w. (Inr (), w)))) =
    db (interleave w)"
proof -
  obtain r w' where s: "statement (settle_command_sql command v) (interleave w) = (r, w')" by fastforce
  from statement_result [OF s] settle_unheld [OF assms] show ?thesis
    by (cases r) (auto simp: on_pool_def s)
qed

text \<open>
  Lost claims are fenced: when no command row is claimed under this worker's token, none of the
  transactions that a handler executes for the command changes any table, and neither does
  recording its failure.
\<close>

theorem runtime_lost_claim_changes_nothing:
  assumes "\<not> command_held command (db (interleave w))"
  shows "db (snd (mark_starting command i server w)) = db (interleave w) \<and>
    db (snd (select_and_mark_starting command i w)) = db (interleave w) \<and>
    db (snd (finish_start_tx ctl t command i server res w)) = db (interleave w) \<and>
    db (snd (mark_stopping command i w)) = db (interleave w) \<and>
    db (snd (finish_termination command i w)) = db (interleave w) \<and>
    db (snd (finish_extension_tx ctl t command i w)) = db (interleave w) \<and>
    db (snd (finish_inspection ctl command i res w)) = db (interleave w) \<and>
    db (snd (reject_start command i gate w)) = db (interleave w) \<and>
    db (snd (expire_unstarted_instance command i w)) = db (interleave w) \<and>
    db (snd (cancel_stale_command command i w)) = db (interleave w) \<and>
    db (snd (cancel_command command reason w)) = db (interleave w) \<and>
    db (snd (complete_command command w)) = db (interleave w) \<and>
    db (snd (schedule_command_retry command n e w)) = db (interleave w)"
proof -
  note lost = lost_claim_unchanged [OF assms]
  have start: "db (snd (finish_start_tx ctl t command i server res w)) = db (interleave w)"
    unfolding finish_start_tx_def
    by (rule config_transaction_unchanged)
       (use assms read_sql_result [of "command_held command"] in
        \<open>fastforce simp: lock_command_claim_def and_then_def split: prod.splits sum.splits\<close>)
  have fail: "db (snd (fail_command command m w)) = db (interleave w)" for m
    unfolding fail_command_def
    by (rule config_transaction_unchanged)
       (use settle_unheld [OF assms] in
        \<open>fastforce simp: and_then_def rollback_with_def dest!: statement_result
           split: prod.splits sum.splits\<close>)
  show ?thesis
    unfolding mark_starting_def select_and_mark_starting_def mark_stopping_def
      finish_termination_def finish_termination_tx_def finish_extension_tx_def finish_inspection_def
      reject_start_def expire_unstarted_instance_def cancel_stale_command_def
      cancel_command_def complete_command_def Let_def
    using start fail settle_on_pool_unheld [OF assms]
    by (intro conjI lost) (simp_all add: schedule_command_retry_def Let_def)
qed

section \<open>Placement\<close>

lemma with_claim_committed:
  assumes "config_transaction (\<lambda>now. with_claim command lost (body now)) w = (Inr x, w')" and "x \<noteq> lost"
    and no_rollback: "\<And>now v w2. body now v \<noteq> (Inr (Rollback x), w2)"
  obtains v w2 fs where "db v = db (interleave w)" "locked_rows v = locked_rows (interleave w)"
    "clock v = clock (interleave w)"
    and "command_held command (db v)" and "body (clock (interleave w)) v = (Inr (Commit x), w2)"
    and "w' = w2\<lparr>faults := fs\<rparr>"
proof -
  from assms(1) have tx: "transaction (\<lambda>now w. and_then (statement (\<lambda>d. ((), d)) w)
      (\<lambda>_. with_claim command lost (body now))) w = (Inr x, w')"
    by (simp add: config_transaction_def)
  from tx obtain fs r w2 fs' where
    run: "and_then (statement (\<lambda>d. ((), d)) (interleave w\<lparr>faults := fs\<rparr>))
        (\<lambda>_. with_claim command lost (body (clock (interleave w)))) = (Inr r, w2)"
    and out: "(r = Commit x \<and> w' = w2\<lparr>faults := fs'\<rparr>) \<or>
         (r = Rollback x \<and> w' = w2\<lparr>faults := fs', db := db (interleave w)\<rparr>)"
    by (rule transaction_returned)
  from run obtain u v1 where s1: "statement (\<lambda>d. ((), d)) (interleave w\<lparr>faults := fs\<rparr>) = (Inr u, v1)"
    and c: "with_claim command lost (body (clock (interleave w))) v1 = (Inr r, w2)"
    by (rule and_then_Inr_cases)
  from s1 obtain fs1 where v1: "v1 = interleave w\<lparr>faults := fs1\<rparr>"
    by (elim statement_returned) simp
  from c obtain held v where l: "lock_command_claim command v1 = (Inr held, v)"
    and b: "(if \<not> held then rollback_with lost else body (clock (interleave w))) v = (Inr r, w2)"
    unfolding with_claim_def by (rule and_then_Inr_cases)
  from l obtain fs2 where v: "held = command_held command (db v1)" "v = v1\<lparr>faults := fs2\<rparr>"
    unfolding lock_command_claim_def read_sql_def by (elim statement_returned) simp
  from b out assms(2) have held: held by (cases held) (auto simp: rollback_with_def)
  with b no_rollback out have "r = Commit x" by auto
  with b held out v v1 show ?thesis by (intro that [of v w2 fs']) auto
qed

text \<open>
  C24. Placement respects capacity: a server chosen for a start is enabled, in the requested pool and
  below its capacity, and with the instance placed on it still holds no more active instances than
  its capacity.
\<close>

theorem placement_respects_capacity:
  assumes "runtime_db_ok (db (interleave w))"
    and "select_and_mark_starting command i w = (Inr (Some server), w' :: 'a runtime_world)"
  shows "(\<exists>row \<in> set (rt_servers (db (interleave w))). sr_server row = server \<and> sr_enabled row) \<and>
    (\<forall>pool. Option.bind (json_get ''remote_pool'' (ins_deployment_snapshot i)) json_str = Some pool \<longrightarrow>
       srv_pool server = Some pool) \<and>
    int (active_count (db (interleave w)) (srv_id server)) < srv_capacity server \<and>
    int (active_count (db w') (srv_id server)) \<le> srv_capacity server"
proof -
  let ?d = "db (interleave w)"
  let ?body = "\<lambda>now w.
       and_then (read_sql (select_server (locked_rows w) (ins_deployment_snapshot i)) w)
         (\<lambda>found w. case found of
           None \<Rightarrow> (Inl ''no enabled remote server has available capacity'', w)
         | Some server \<Rightarrow>
       and_then (statement (mark_starting_sql now (srv_id server) (ins_id i) (rc_generation command)) w)
         (\<lambda>n. if n = 0 then rollback_with None else (\<lambda>w.
       and_then (runtime_event_step (ins_id i) ''instance.starting'' (starting_event command server) w)
         (\<lambda>_. commit_with (Some server)))))"
  have tx: "config_transaction (\<lambda>now. with_claim command None (?body now)) w = (Inr (Some server), w')"
    using assms(2) by (simp add: select_and_mark_starting_def)
  have nr: "?body now v \<noteq> (Inr (Rollback (Some server)), w2)" for now and v w2 :: "'a runtime_world"
    by (auto simp: rollback_with_def commit_with_def elim!: and_then_Inr_cases split: option.splits if_splits)
  obtain v w2 fs where v: "db v = ?d"
    and run: "?body (clock (interleave w)) v = (Inr (Commit (Some server)), w2)"
    and w': "w' = w2\<lparr>faults := fs\<rparr>"
  proof (rule with_claim_committed [where body = ?body, OF tx])
    show "Some server \<noteq> None" by simp
    show "?body now v \<noteq> (Inr (Rollback (Some server)), w2)" for now and v w2 :: "'a runtime_world"
      by (rule nr)
  qed (rule that)
  from run obtain locked where sel: "select_server locked (ins_deployment_snapshot i) ?d = Some server"
    and d': "rt_instances (db w2) = update_where (\<lambda>r. ins_id r = ins_id i \<and>
        ins_generation r = rc_generation command \<and> ins_active r \<and> ins_desired_state r = Want_Running)
        (starting_update (clock (interleave w)) (srv_id server)) (rt_instances ?d)"
    using v
    by (auto simp: read_sql_def commit_with_def rollback_with_def runtime_event_step_def
        append_runtime_event_def mark_starting_sql_def update_instances_conv
        elim!: and_then_Inr_cases statement_returned split: option.splits if_splits)
  from sel obtain row where row: "row \<in> set (rt_servers ?d)" "sr_server row = server" "sr_enabled row"
    "Option.bind (json_get ''remote_pool'' (ins_deployment_snapshot i)) json_str = None \<or>
      srv_pool server = Option.bind (json_get ''remote_pool'' (ins_deployment_snapshot i)) json_str"
    "has_capacity ?d server"
    by (auto simp: select_server_def Let_def dest!: first_by_Some)
  let ?on = "\<lambda>i. ins_remote_server_id i = Some (srv_id server) \<and> ins_active i"
  have count: "length (filter ?on (update_where P f is)) \<le> Suc (length (filter ?on is))"
    if "distinct (map ins_id is)" "\<And>r. P r \<Longrightarrow> ins_id r = ins_id i" "\<And>r. \<not> P r \<Longrightarrow> True" for P f "is"
    using that
  proof (induction "is")
    case Nil
    then show ?case by simp
  next
    case (Cons r rs)
    show ?case
    proof (cases "P r")
      case True
      then have "\<forall>q \<in> set rs. \<not> P q" using Cons.prems by (auto simp: image_iff)
      then have "update_where P f rs = rs" by (intro update_where_none) (simp add: rows_affected_0)
      with True show ?thesis by simp
    next
      case False
      with Cons show ?thesis by simp
    qed
  qed
  have "active_count (db w') (srv_id server) \<le> Suc (active_count ?d (srv_id server))"
  proof -
    have "distinct (map ins_id (rt_instances ?d))" using assms(1) by (simp add: runtime_db_ok_def)
    then have "length (filter ?on (rt_instances (db w2))) \<le> Suc (length (filter ?on (rt_instances ?d)))"
      unfolding d' by (rule count) simp_all
    then show ?thesis by (simp add: active_count_def w')
  qed
  with row show ?thesis by (auto simp: has_capacity_def)
qed

text \<open>
  The flag leaves only at startup: the payload of every other remote operation has no flag value,
  so the executor's check never refuses it.
\<close>

theorem flag_only_at_startup:
  assumes "operation \<noteq> Ensure_Instance"
  shows "json_pointer [''deployment'', ''flag_value''] (remote_payload command i operation reason) = None \<and>
    validate_flag_value operation (remote_payload command i operation reason) = Inr () \<and>
    validate_flag_value Stop_Instance (cleanup_payload r) = Inr ()"
proof -
  have "json_get ''flag_value'' (json_remove ''flag_value'' v) = None" for v
    by (cases v) (auto simp: json_remove_def map_of_eq_None_iff)
  with assms have "json_pointer [''deployment'', ''flag_value''] (remote_payload command i operation reason) = None"
    by (simp add: remote_payload_def Let_def)
  then show ?thesis
    by (cases operation) (simp_all add: validate_flag_value_def cleanup_payload_def)
qed

end
