(* ===== verification/ApiBase.thy ===== *)
theory ApiBase
  imports RuntimeTables ObjectQueue
begin

text \<open>
  What the API service's handlers share (\<open>services/api/src\<close>): errors (\<open>error.rs\<close>), the portal's
  tables (\<open>db/init/002-portal-schema.sql\<close>), the configuration table, the authenticated user and its
  revalidation (\<open>auth.rs\<close>) and the gates in front of challenges (\<open>routes/challenges.rs\<close>).

  A handler's step is a function of the tables that returns an error or a value and the tables
  after it. \<open>in_transaction\<close> executes such a step as one transaction: an error rolls it back, and
  when the database fails anywhere the answer is the database error and nothing has changed. Rows
  that a transaction reads under a lock, and the advisory locks it takes, make it one step for the
  other connections.
\<close>

section \<open>Errors\<close>

datatype status_code =
    Ok_200 | Created_201 | Accepted_202 | Bad_Request_400 | Unauthorized_401 | Forbidden_403
  | Not_Found_404 | Conflict_409 | Gone_410 | Too_Many_Requests_429 | Bad_Gateway_502
  | Service_Unavailable_503

record api_error =
  err_status :: status_code
  err_message :: string

definition new_error :: "status_code \<Rightarrow> string \<Rightarrow> api_error" where
  "new_error code message = \<lparr>err_status = code, err_message = message\<rparr>"

definition bad_request :: "string \<Rightarrow> api_error" where
  "bad_request = new_error Bad_Request_400"

definition unauthorized :: "string \<Rightarrow> api_error" where
  "unauthorized = new_error Unauthorized_401"

definition forbidden :: "string \<Rightarrow> api_error" where
  "forbidden = new_error Forbidden_403"

definition not_found :: "string \<Rightarrow> api_error" where
  "not_found = new_error Not_Found_404"

definition conflict :: "string \<Rightarrow> api_error" where
  "conflict = new_error Conflict_409"

definition upstream :: "string \<Rightarrow> api_error" where
  "upstream = new_error Bad_Gateway_502"

definition service_unavailable :: "string \<Rightarrow> api_error" where
  "service_unavailable = new_error Service_Unavailable_503"

definition database_error :: api_error where
  "database_error = service_unavailable ''The database is temporarily unavailable''"

type_synonym 'a answer = "api_error + 'a"

record response =
  resp_status :: status_code
  resp_body :: json

text \<open>A transaction of a handler: a failure of the database or of the handler leaves the tables as they were. A commit
  that takes effect although its answer is lost is not one of the outcomes here.\<close>

definition in_transaction ::
  "bool \<Rightarrow> ('d \<Rightarrow> 'a answer \<times> 'd) \<Rightarrow> 'd \<Rightarrow> 'a answer \<times> 'd" where
  "in_transaction database_fails body d =
     (if database_fails then (Inl database_error, d)
      else case body d of (Inr x, d') \<Rightarrow> (Inr x, d') | (Inl e, _) \<Rightarrow> (Inl e, d))"

lemma in_transaction_Inr [simp]:
  "in_transaction f body d = (Inr x, d') \<longleftrightarrow> \<not> f \<and> body d = (Inr x, d')"
  by (auto simp: in_transaction_def split: prod.splits sum.splits)

lemma in_transaction_Inl: "in_transaction f body d = (Inl e, d') \<Longrightarrow> d' = d"
  by (auto simp: in_transaction_def split: prod.splits sum.splits if_splits)

lemma transaction_keeps:
  assumes "I d" "\<And>x d'. body d = (Inr x, d') \<Longrightarrow> I d'"
  shows "I (snd (in_transaction fails body d))"
  using assms by (auto simp: in_transaction_def split: prod.splits sum.splits)

text \<open>A step that only reads.\<close>

definition reading :: "('d \<Rightarrow> 'a answer) \<Rightarrow> 'd \<Rightarrow> 'a answer \<times> 'd" where
  "reading f d = (f d, d)"

lemma reading_Inr [simp]: "reading f d = (Inr x, d') \<longleftrightarrow> f d = Inr x \<and> d' = d"
  by (auto simp: reading_def)

definition found :: "api_error \<Rightarrow> 'a option \<Rightarrow> 'a answer" where
  "found e x = (case x of None \<Rightarrow> Inl e | Some y \<Rightarrow> Inr y)"

lemma found_Inr [simp]: "found e x = Inr y \<longleftrightarrow> x = Some y"
  by (auto simp: found_def split: option.splits)

section \<open>Text\<close>

text \<open>\<open>char::is_whitespace\<close> and \<open>char::is_control\<close> on UTF-8: the encodings of the white-space
  characters, and the control characters below U+0020, at U+007F and from U+0080 to U+009F.\<close>

definition whitespace_encodings :: "nat list list" where
  "whitespace_encodings =
     [[9], [10], [11], [12], [13], [32], [194, 133], [194, 160], [225, 154, 128]]
     @ map (\<lambda>b. [226, 128, b]) ([128 ..< 139] @ [168, 169, 175]) @ [[226, 129, 159], [227, 128, 128]]"

definition whitespaces :: "string list" where
  "whitespaces = map (map char_of) whitespace_encodings"

fun strip_prefix :: "string \<Rightarrow> string \<Rightarrow> string option" where
  "strip_prefix [] s = Some s"
| "strip_prefix (c # cs) (d # ds) = (if c = d then strip_prefix cs ds else None)"
| "strip_prefix (c # cs) [] = None"

definition strip_one :: "string list \<Rightarrow> string \<Rightarrow> string option" where
  "strip_one ws s = (case List.map_filter (\<lambda>p. if p = [] then None else strip_prefix p s) ws of
     [] \<Rightarrow> None | t # _ \<Rightarrow> Some t)"

lemma strip_prefix_Some: "strip_prefix p s = Some t \<longleftrightarrow> s = p @ t"
  by (induction p s rule: strip_prefix.induct) auto

lemma strip_prefix_append [simp]: "strip_prefix p (p @ t) = Some t"
  by (simp add: strip_prefix_Some)

lemma strip_one_shorter: "strip_one ws s = Some t \<Longrightarrow> \<exists>p \<in> set ws. p \<noteq> [] \<and> s = p @ t"
proof -
  assume a: "strip_one ws s = Some t"
  then have "t \<in> set (List.map_filter (\<lambda>p. if p = [] then None else strip_prefix p s) ws)"
    by (auto simp: strip_one_def split: list.splits)
  then show ?thesis by (auto simp: map_filter_def strip_prefix_Some split: if_splits)
qed

function trim_start_of :: "string list \<Rightarrow> string \<Rightarrow> string" where
  "trim_start_of ws s = (case strip_one ws s of None \<Rightarrow> s | Some t \<Rightarrow> trim_start_of ws t)"
  by auto
termination
  by (relation "measure (length \<circ> snd)") (auto dest!: strip_one_shorter)

declare trim_start_of.simps [simp del]

definition trim :: "string \<Rightarrow> string" where
  "trim s = List.rev (trim_start_of (map List.rev whitespaces)
              (List.rev (trim_start_of whitespaces s)))"

fun has_control :: "string \<Rightarrow> bool" where
  "has_control [] \<longleftrightarrow> False"
| "has_control (c # cs) \<longleftrightarrow>
     (let n = (of_char c :: nat) in n < 32 \<or> n = 127 \<or>
      (n = 194 \<and> (case cs of [] \<Rightarrow> False | d # _ \<Rightarrow> 128 \<le> (of_char d :: nat) \<and> (of_char d :: nat) < 160))) \<or>
     has_control cs"

definition ascii_lower :: "char \<Rightarrow> char" where
  "ascii_lower c = (let n = (of_char c :: nat) in if 65 \<le> n \<and> n \<le> 90 then char_of (n + 32) else c)"

definition to_ascii_lowercase :: "string \<Rightarrow> string" where
  "to_ascii_lowercase = map ascii_lower"

text \<open>\<open>str::parse::<i64>\<close>: an optional sign and decimal digits, within the range.\<close>

definition digit :: "char \<Rightarrow> bool" where
  "digit c \<longleftrightarrow> 48 \<le> (of_char c :: nat) \<and> (of_char c :: nat) \<le> 57"

definition digits_value :: "string \<Rightarrow> int" where
  "digits_value s = foldl (\<lambda>acc c. acc * 10 + (int (of_char c) - 48)) 0 s"

definition parse_i64 :: "string \<Rightarrow> int option" where
  "parse_i64 s =
     (let (negative, ds) = (case s of [] \<Rightarrow> (False, [])
            | c # cs \<Rightarrow> if c = CHR ''-'' then (True, cs) else if c = CHR ''+'' then (False, cs) else (False, s));
          v = (if negative then - digits_value ds else digits_value ds)
      in if ds \<noteq> [] \<and> (\<forall>c \<in> set ds. digit c) \<and> - i64_max - 1 \<le> v \<and> v \<le> i64_max then Some v else None)"

definition i32_of :: "int \<Rightarrow> int option" where
  "i32_of i = (if - 2147483648 \<le> i \<and> i \<le> 2147483647 then Some i else None)"

section \<open>Tables of the portal\<close>

record user_row =
  usr_id :: int
  usr_name :: "string option"
  usr_email :: "string option"
  usr_type :: "string option"
  usr_team_id :: "int option"
  usr_verified :: bool
  usr_banned :: "bool option"
  usr_hidden :: "bool option"
  usr_change_password :: "bool option"

record team_row =
  tm_id :: int
  tm_banned :: "bool option"
  tm_hidden :: "bool option"

record token_row =
  tok_id :: int
  tok_type :: "string option"
  tok_user_id :: "int option"
  tok_expiration :: "time option"
  tok_description :: "string option"
  tok_value :: "string option"

record session_row =
  ses_id :: string
  ses_user_id :: int
  ses_last_seen :: time
  ses_last_ip :: string
  ses_revoked_at :: "time option"

text \<open>The scoring columns of \<open>challenges\<close> and, when there is one, of its \<open>dynamic_challenge\<close> row.\<close>

record scoring =
  sc_function :: "string option"
  sc_initial :: "int option"
  sc_minimum :: "int option"
  sc_decay :: "int option"

record challenge_row =
  ch_id :: int
  ch_type :: "string option"
  ch_state :: string
  ch_logic :: string
  ch_exposure :: string
  ch_max_attempts :: "int option"
  ch_value :: "int option"
  ch_scoring :: scoring
  ch_dynamic :: "scoring option"
  ch_requirements :: "json option"

record stored_flag =
  fl_id :: int
  fl_challenge_id :: int
  fl_type :: string
  fl_content :: string
  fl_data :: json
  fl_revision :: int

record user_flag =
  uf_flag_id :: int
  uf_challenge_id :: int
  uf_user_id :: int
  uf_revision :: int
  uf_match_tag :: string
  uf_random_token :: "uuid option"
  uf_leet_mask :: "int option"
  uf_leet_position_count :: "int option"

record submission =
  sub_id :: int
  sub_challenge_id :: int
  sub_user_id :: int
  sub_team_id :: "int option"
  sub_ip :: "string option"
  sub_provided :: string
  sub_type :: string
  sub_date :: time

record solve =
  slv_id :: int
  slv_challenge_id :: int
  slv_user_id :: int
  slv_team_id :: "int option"

record sharing_event =
  she_submission_id :: int
  she_challenge_id :: int
  she_flag_id :: int
  she_submitting_user_id :: int
  she_source_user_id :: int
  she_team_id :: "int option"
  she_match_tag :: string
  she_accepted :: bool

text \<open>The columns of \<open>pages\<close> and \<open>solutions\<close> that decide who sees what hangs on them.\<close>

record page_row =
  pg_id :: int
  pg_visibility :: string

record solution_row =
  sln_id :: int
  sln_challenge_id :: "int option"
  sln_state :: string

record portal_db =
  pd_config :: "(string \<times> string option) list"
  pd_users :: "user_row list"
  pd_teams :: "team_row list"
  pd_tokens :: "token_row list"
  pd_sessions :: "session_row list"
  pd_challenges :: "challenge_row list"
  pd_flags :: "stored_flag list"
  pd_user_flags :: "user_flag list"
  pd_submissions :: "submission list"
  pd_solves :: "solve list"
  pd_sharing :: "sharing_event list"
  pd_runtime :: runtime_db
  pd_objects :: object_db
  pd_pages :: "page_row list"
  pd_solutions :: "solution_row list"
  pd_next_submission :: int

definition find_user :: "int \<Rightarrow> portal_db \<Rightarrow> user_row option" where
  "find_user i d = List.find (\<lambda>u. usr_id u = i) (pd_users d)"

definition find_team :: "int \<Rightarrow> portal_db \<Rightarrow> team_row option" where
  "find_team i d = List.find (\<lambda>t. tm_id t = i) (pd_teams d)"

definition find_challenge :: "int \<Rightarrow> portal_db \<Rightarrow> challenge_row option" where
  "find_challenge i d = List.find (\<lambda>c. ch_id c = i) (pd_challenges d)"

definition is_true :: "bool option \<Rightarrow> bool" where
  "is_true b \<longleftrightarrow> b = Some True"

definition coalesce :: "'a option \<Rightarrow> 'a \<Rightarrow> 'a" where
  "coalesce x y = (case x of None \<Rightarrow> y | Some a \<Rightarrow> a)"

section \<open>Configuration\<close>

definition config_string :: "string \<Rightarrow> portal_db \<Rightarrow> string option" where
  "config_string key d =
     (case List.find (\<lambda>(k, _). k = key) (pd_config d) of None \<Rightarrow> None | Some (_, v) \<Rightarrow> v)"

definition truthy :: "string \<Rightarrow> bool" where
  "truthy v \<longleftrightarrow> to_ascii_lowercase v \<in> {''1'', ''true'', ''yes'', ''on''}"

definition config_bool :: "string \<Rightarrow> bool \<Rightarrow> portal_db \<Rightarrow> bool" where
  "config_bool key fallback d =
     (case config_string key d of None \<Rightarrow> fallback | Some v \<Rightarrow> truthy v)"

definition config_i64 :: "string \<Rightarrow> int \<Rightarrow> portal_db \<Rightarrow> int answer" where
  "config_i64 key fallback d =
     (case config_string key d of
        None \<Rightarrow> Inr fallback
      | Some v \<Rightarrow> if trim v = [] then Inr fallback
                  else found (bad_request (''Configuration '' @ key @ '' must be an integer'')) (parse_i64 v))"

definition user_mode :: "portal_db \<Rightarrow> string" where
  "user_mode d =
     (case config_string ''user_mode'' d of
        None \<Rightarrow> ''users'' | Some v \<Rightarrow> if trim v = [] then ''users'' else v)"

definition is_team_mode :: "portal_db \<Rightarrow> bool" where
  "is_team_mode d \<longleftrightarrow> config_string ''user_mode'' d = Some ''teams''"

section \<open>The authenticated user\<close>

datatype credential = Api_Token int string | Internal_Session string

record current_user =
  cu_id :: int
  cu_type :: string
  cu_team_id :: "int option"
  cu_verified :: bool
  cu_credential :: credential
  cu_request_ip :: string
  cu_ip_changed :: bool

definition is_admin :: "current_user \<Rightarrow> bool" where
  "is_admin u \<longleftrightarrow> cu_type u = ''admin''"

definition require_admin :: "current_user \<Rightarrow> 'd \<Rightarrow> unit answer \<times> 'd" where
  "require_admin u = require (is_admin u) (forbidden ''Administrator access is required'')"

definition team_banned :: "int option \<Rightarrow> portal_db \<Rightarrow> bool" where
  "team_banned team d \<longleftrightarrow>
     (case Option.bind team (\<lambda>i. find_team i d) of None \<Rightarrow> False | Some t \<Rightarrow> is_true (tm_banned t))"

text \<open>\<open>authorize_identity\<close>\<close>

definition authorize_identity ::
  "user_row \<Rightarrow> portal_db \<Rightarrow> credential \<Rightarrow> string \<Rightarrow> bool \<Rightarrow> current_user answer" where
  "authorize_identity u d cred request_ip ip_changed =
     (if is_true (usr_banned u) then Inl (forbidden ''You have been banned from this CTF'')
      else if team_banned (usr_team_id u) d
      then Inl (forbidden ''Your team has been banned from this CTF'')
      else if is_true (usr_change_password u) then Inl (forbidden ''A password change is required'')
      else Inr \<lparr>cu_id = usr_id u, cu_type = coalesce (usr_type u) ''user'', cu_team_id = usr_team_id u,
                cu_verified = usr_verified u, cu_credential = cred, cu_request_ip = request_ip,
                cu_ip_changed = ip_changed\<rparr>)"

definition split_once_space :: "string \<Rightarrow> (string \<times> string) option" where
  "split_once_space s =
     (case dropWhile (\<lambda>c. c \<noteq> CHR '' '') s of
        [] \<Rightarrow> None | _ # rest \<Rightarrow> Some (takeWhile (\<lambda>c. c \<noteq> CHR '' '') s, rest))"

text \<open>\<open>previous_ip\<close> is the address in the latest activity row of the token.\<close>

definition authenticate_api_token ::
  "time \<Rightarrow> (int \<Rightarrow> string option) \<Rightarrow> string \<Rightarrow> string \<Rightarrow> portal_db \<Rightarrow> current_user answer" where
  "authenticate_api_token now previous_ip request_ip authorization d =
     (case split_once_space authorization of
        None \<Rightarrow> Inl (unauthorized ''Invalid authorization header'')
      | Some (_, rest) \<Rightarrow>
          let token = trim rest in
          if token = [] then Inl (unauthorized ''Invalid authorization header'')
          else case List.find (\<lambda>t. tok_value t = Some token \<and> tok_type t = Some ''user'' \<and>
                   Option.bind (tok_user_id t) (\<lambda>i. find_user i d) \<noteq> None) (pd_tokens d) of
            None \<Rightarrow> Inl (unauthorized ''Your access token is invalid'')
          | Some t \<Rightarrow> (case Option.bind (tok_user_id t) (\<lambda>i. find_user i d) of
              None \<Rightarrow> Inl (unauthorized ''Your access token is invalid'')
            | Some u \<Rightarrow>
                (case tok_expiration t of
                   None \<Rightarrow> Inl database_error
                 | Some expiration \<Rightarrow>
                     if expiration \<le> now then Inl (unauthorized ''Your access token has expired'')
                     else authorize_identity u d
                       (Api_Token (tok_id t) (coalesce (tok_description t)
                          (''API token #'' @ show_int (tok_id t)))) request_ip
                       (case previous_ip (tok_id t) of None \<Rightarrow> False | Some ip \<Rightarrow> ip \<noteq> request_ip))))"

definition session_live :: "time \<Rightarrow> int \<Rightarrow> session_row \<Rightarrow> bool" where
  "session_live now lifetime s \<longleftrightarrow> ses_revoked_at s = None \<and> now - secs lifetime \<le> ses_last_seen s"

text \<open>\<open>LEAST(60, GREATEST(1, lifetime / 2))\<close> seconds, in microseconds.\<close>

definition activity_granularity :: "int \<Rightarrow> time" where
  "activity_granularity lifetime = min (secs 60) (max (secs 1) (secs lifetime div 2))"

definition touch_session :: "time \<Rightarrow> int \<Rightarrow> string \<Rightarrow> session_row \<Rightarrow> session_row" where
  "touch_session now lifetime ip s =
     (if ses_last_seen s < now - activity_granularity lifetime \<or> ses_last_ip s \<noteq> ip
      then s\<lparr>ses_last_seen := now, ses_last_ip := ip\<rparr> else s)"

text \<open>\<open>valid_uuid\<close> is the \<open>uuid\<close> crate's parser.\<close>

definition authenticate_internal_session ::
  "(string \<Rightarrow> bool) \<Rightarrow> time \<Rightarrow> int \<Rightarrow> string \<Rightarrow> string option \<Rightarrow> portal_db \<Rightarrow> current_user answer \<times> portal_db" where
  "authenticate_internal_session valid_uuid now lifetime request_ip session_header d =
     (case session_header of
        None \<Rightarrow> (Inl (unauthorized ''Invalid internal session''), d)
      | Some i \<Rightarrow>
          if \<not> valid_uuid i then (Inl (unauthorized ''Invalid internal session''), d)
          else case List.find (\<lambda>s. ses_id s = i \<and> session_live now lifetime s \<and>
                   find_user (ses_user_id s) d \<noteq> None) (pd_sessions d) of
            None \<Rightarrow> (Inl (unauthorized ''This session has expired or been revoked''), d)
          | Some s \<Rightarrow> (case find_user (ses_user_id s) d of
              None \<Rightarrow> (Inl (unauthorized ''This session has expired or been revoked''), d)
            | Some u \<Rightarrow>
                (authorize_identity u d (Internal_Session i) request_ip (ses_last_ip s \<noteq> request_ip),
                 d\<lparr>pd_sessions := update_where (\<lambda>r. ses_id r = i) (touch_session now lifetime request_ip)
                    (pd_sessions d)\<rparr>)))"

text \<open>\<open>revalidate_current_credential\<close>: the account joined with its team is still in order.\<close>

definition account_in_order :: "current_user \<Rightarrow> portal_db \<Rightarrow> bool" where
  "account_in_order u d \<longleftrightarrow>
     (case find_user (cu_id u) d of None \<Rightarrow> False
      | Some a \<Rightarrow> coalesce (usr_type a) ''user'' = cu_type u \<and> \<not> is_true (usr_banned a) \<and>
          \<not> is_true (usr_change_password a) \<and> \<not> team_banned (usr_team_id a) d)"

definition credential_valid :: "time \<Rightarrow> int \<Rightarrow> current_user \<Rightarrow> portal_db \<Rightarrow> bool" where
  "credential_valid now lifetime u d \<longleftrightarrow> account_in_order u d \<and>
     (case cu_credential u of
        Api_Token i _ \<Rightarrow> (\<exists>t \<in> set (pd_tokens d). tok_id t = i \<and> tok_user_id t = Some (cu_id u) \<and>
            tok_type t = Some ''user'' \<and>
            (case tok_expiration t of None \<Rightarrow> False | Some e \<Rightarrow> now < e))
      | Internal_Session i \<Rightarrow> (\<exists>s \<in> set (pd_sessions d). ses_id s = i \<and> ses_user_id s = cu_id u \<and>
            session_live now lifetime s))"

definition revalidate_current_credential ::
  "time \<Rightarrow> int \<Rightarrow> current_user \<Rightarrow> portal_db \<Rightarrow> unit answer \<times> portal_db" where
  "revalidate_current_credential now lifetime u d =
     require (credential_valid now lifetime u d)
       (unauthorized ''This credential has expired or been revoked'') d"

lemma revalidate_Inr: "revalidate_current_credential now lifetime u d = (Inr x, d') \<Longrightarrow> d' = d"
  by (simp add: revalidate_current_credential_def require_def)

section \<open>Gates in front of challenges\<close>

definition require_challenge_visibility :: "current_user option \<Rightarrow> portal_db \<Rightarrow> unit answer" where
  "require_challenge_visibility u d =
     (let v = coalesce (config_string ''challenge_visibility'' d) ''private'' in
      if v = ''public'' \<or> (v = ''private'' \<and> u \<noteq> None) \<or>
         (v = ''admins'' \<and> (case u of None \<Rightarrow> False | Some a \<Rightarrow> is_admin a))
      then Inr () else Inl (forbidden ''Challenges are not available''))"

datatype ctf_time_gate = Allowed | Not_Started | Ended

definition ctf_time_access :: "int \<Rightarrow> int \<Rightarrow> int \<Rightarrow> bool \<Rightarrow> ctf_time_gate" where
  "ctf_time_access now start finish view_after_ctf =
     (let in_time = (start = 0 \<or> start < now) \<and> (finish = 0 \<or> now < finish) in
      if in_time \<or> (finish \<noteq> 0 \<and> now > finish \<and> view_after_ctf) then Allowed
      else if start \<noteq> 0 \<and> now \<le> start then Not_Started
      else Ended)"

text \<open>\<open>now\<close> in seconds of the Unix epoch.\<close>

definition require_ctf_time :: "int \<Rightarrow> current_user option \<Rightarrow> portal_db \<Rightarrow> unit answer" where
  "require_ctf_time now u d =
     (if (case u of None \<Rightarrow> False | Some a \<Rightarrow> is_admin a) then Inr ()
      else case config_i64 ''start'' 0 d of
        Inl e \<Rightarrow> Inl e
      | Inr start \<Rightarrow> (case config_i64 ''end'' 0 d of
          Inl e \<Rightarrow> Inl e
        | Inr finish \<Rightarrow>
            (case ctf_time_access now start finish
               (finish \<noteq> 0 \<and> now > finish \<and> config_bool ''view_after_ctf'' False d) of
               Allowed \<Rightarrow> Inr ()
             | Not_Started \<Rightarrow> Inl (forbidden ''CTFZone has not started yet'')
             | Ended \<Rightarrow> Inl (forbidden ''CTFZone has ended''))))"

definition require_verified :: "current_user option \<Rightarrow> portal_db \<Rightarrow> unit answer" where
  "require_verified u d =
     (if config_bool ''verify_emails'' False d \<and>
         (case u of None \<Rightarrow> False | Some a \<Rightarrow> \<not> is_admin a \<and> \<not> cu_verified a)
      then Inl (forbidden ''Verify your email before viewing challenges'') else Inr ())"

section \<open>Prerequisites\<close>

fun json_array :: "json \<Rightarrow> json list option" where
  "json_array (JArr xs) = Some xs"
| "json_array _ = None"

definition requirements_met :: "json option \<Rightarrow> int set \<Rightarrow> bool" where
  "requirements_met requirements solved \<longleftrightarrow>
     (case Option.bind (Option.bind requirements (json_get ''prerequisites'')) json_array of
        None \<Rightarrow> True
      | Some ps \<Rightarrow> (\<forall>p \<in> set ps. case Option.bind (json_i64 p) i32_of of
          None \<Rightarrow> True | Some i \<Rightarrow> i \<in> solved))"

datatype account = User_Account int | Team_Account int

fun account_id :: "account \<Rightarrow> int" where
  "account_id (User_Account i) = i"
| "account_id (Team_Account i) = i"

fun solve_of :: "account \<Rightarrow> solve \<Rightarrow> bool" where
  "solve_of (User_Account i) s \<longleftrightarrow> slv_user_id s = i"
| "solve_of (Team_Account i) s \<longleftrightarrow> slv_team_id s = Some i"

definition solved_ids :: "account \<Rightarrow> portal_db \<Rightarrow> int set" where
  "solved_ids a d = slv_challenge_id ` {s \<in> set (pd_solves d). solve_of a s}"

datatype row_access = Full | Hidden_Preview bool | Row_Not_Found | Prerequisites_Denied

definition challenge_row_access :: "challenge_row \<Rightarrow> bool \<Rightarrow> int set \<Rightarrow> row_access" where
  "challenge_row_access c admin solved =
     (if admin then Full
      else if ch_state c \<noteq> ''visible'' then Row_Not_Found
      else if requirements_met (ch_requirements c) solved then Full
      else case Option.bind (ch_requirements c) (json_get ''anonymize'') of
        Some v \<Rightarrow> Hidden_Preview (json_str v = Some ''preview'')
      | None \<Rightarrow> Prerequisites_Denied)"

text \<open>\<open>require_full_challenge_access_in_transaction\<close>, for a signed-in user or a visitor.\<close>

definition admin_view :: "current_user option \<Rightarrow> bool" where
  "admin_view u \<longleftrightarrow> (case u of None \<Rightarrow> False | Some a \<Rightarrow> is_admin a)"

definition current_team :: "int \<Rightarrow> portal_db \<Rightarrow> int option" where
  "current_team i d = Option.bind (find_user i d) usr_team_id"

definition identity_solved :: "current_user option \<Rightarrow> portal_db \<Rightarrow> int set" where
  "identity_solved u d =
     (case u of None \<Rightarrow> {}
      | Some a \<Rightarrow>
          if is_team_mode d
          then (case current_team (cu_id a) d of None \<Rightarrow> {} | Some t \<Rightarrow> solved_ids (Team_Account t) d)
          else solved_ids (User_Account (cu_id a)) d)"

definition team_membership_missing :: "current_user option \<Rightarrow> portal_db \<Rightarrow> bool" where
  "team_membership_missing u d \<longleftrightarrow> is_team_mode d \<and>
     (case u of None \<Rightarrow> False | Some a \<Rightarrow> \<not> is_admin a \<and> current_team (cu_id a) d = None)"

definition require_full_challenge_access ::
  "int \<Rightarrow> current_user option \<Rightarrow> int \<Rightarrow> portal_db \<Rightarrow> unit answer \<times> portal_db" where
  "require_full_challenge_access now u challenge_id d =
     and_then (reading (require_challenge_visibility u) d) (\<lambda>_ d.
     and_then (reading (require_ctf_time now u) d) (\<lambda>_ d.
     and_then (reading (require_verified u) d) (\<lambda>_ d.
     and_then (require (\<not> team_membership_missing u d)
         (forbidden ''Join a team before viewing challenges'') d) (\<lambda>_ d.
     and_then (reading (\<lambda>d. found (not_found ''Challenge not found'') (find_challenge challenge_id d)) d)
       (\<lambda>c d. (case challenge_row_access c (admin_view u) (identity_solved u d) of
          Full \<Rightarrow> Inr ()
        | Row_Not_Found \<Rightarrow> Inl (not_found ''Challenge not found'')
        | _ \<Rightarrow> Inl (forbidden ''Challenge prerequisites are not satisfied''), d))))))"

lemma full_access_Inr: "require_full_challenge_access now u c p = (Inr x, p') \<Longrightarrow> p' = p"
  unfolding require_full_challenge_access_def by (elim and_then_Inr_cases) (auto simp: require_def)

end
