(* ===== verification/FlagPolicy.thy ===== *)
theory FlagPolicy
  imports ApiBase
begin

unbundle bit_operations_syntax

text \<open>
  Flag definitions and personal flags (\<open>services/api/src/routes/flag_policy.rs\<close>): the rules for a
  definition, matching, the rendering of a generated flag with its random token and leet mask, and
  the allocation of one per user at launch.

  Templates are their UTF-8 bytes. Every character the code looks for is ASCII, so going through the
  bytes gives what going through the characters gives. The \<open>regex\<close>, \<open>hmac\<close> and \<open>sha2\<close> crates and the
  Unicode table of \<open>str::to_lowercase\<close> are parameters: \<open>flag_env\<close>.
\<close>

section \<open>Surroundings\<close>

text \<open>\<open>fe_regex\<close> builds a matcher from a pattern and the case-insensitive flag; \<open>fe_hmac\<close> is
  HMAC-SHA256 of a key and a message.\<close>

record flag_env =
  fe_regex :: "string \<Rightarrow> bool \<Rightarrow> (string \<Rightarrow> bool) option"
  fe_hmac :: "string \<Rightarrow> string \<Rightarrow> string"
  fe_lowercase :: "string \<Rightarrow> string"

definition random_token_placeholder :: string where
  "random_token_placeholder = ''{{RANDOM_TOKEN}}''"

definition max_flag_bytes :: nat where
  "max_flag_bytes = 512"

definition max_regex_bytes :: nat where
  "max_regex_bytes = 512"

definition max_leet_positions :: nat where
  "max_leet_positions = 62"

section \<open>Policies\<close>

record flag_policy =
  fp_case_sensitive :: bool
  fp_leet_variation :: bool
  fp_accept_other_users :: bool

definition default_policy :: flag_policy where
  "default_policy =
     \<lparr>fp_case_sensitive = True, fp_leet_variation = False, fp_accept_other_users = False\<rparr>"

fun json_bool :: "json \<Rightarrow> bool option" where
  "json_bool (JBool b) = Some b"
| "json_bool _ = None"

text \<open>\<open>serde_json::from_value\<close> of the structure: an object with known fields only (one of the two
  names of the last field), or an array with the leading fields; missing fields have their default.\<close>

definition policy_fields :: "string list" where
  "policy_fields = [''case_sensitive'', ''leet_variation'', ''accept_other_users'', ''accept_shared_flags'']"

definition policy_member :: "(string \<times> json) list \<Rightarrow> string \<Rightarrow> bool \<Rightarrow> bool" where
  "policy_member ms k fallback = coalesce (Option.bind (map_of ms k) json_bool) fallback"

definition policy_item :: "json list \<Rightarrow> nat \<Rightarrow> bool \<Rightarrow> bool" where
  "policy_item xs i fallback = (if i < length xs then coalesce (json_bool (xs ! i)) fallback else fallback)"

fun policy_of_json :: "json \<Rightarrow> flag_policy option" where
  "policy_of_json (JObj ms) =
     (if (\<forall>(k, v) \<in> set ms. k \<in> set policy_fields \<and> json_bool v \<noteq> None) \<and> distinct (map fst ms) \<and>
         \<not> (map_of ms ''accept_other_users'' \<noteq> None \<and> map_of ms ''accept_shared_flags'' \<noteq> None)
      then Some \<lparr>fp_case_sensitive = policy_member ms ''case_sensitive'' True,
             fp_leet_variation = policy_member ms ''leet_variation'' False,
             fp_accept_other_users = policy_member ms ''accept_other_users''
               (policy_member ms ''accept_shared_flags'' False)\<rparr>
      else None)"
| "policy_of_json (JArr xs) =
     (if length xs \<le> 3 \<and> (\<forall>v \<in> set xs. json_bool v \<noteq> None)
      then Some \<lparr>fp_case_sensitive = policy_item xs 0 True, fp_leet_variation = policy_item xs 1 False,
             fp_accept_other_users = policy_item xs 2 False\<rparr>
      else None)"
| "policy_of_json _ = None"

definition parse_policy :: "json \<Rightarrow> flag_policy answer" where
  "parse_policy data =
     (if data = JNull then Inr default_policy
      else found (bad_request ''Flag options are invalid'') (policy_of_json data))"

definition policy_json :: "flag_policy \<Rightarrow> json" where
  "policy_json p = JObj [(''case_sensitive'', JBool (fp_case_sensitive p)),
     (''leet_variation'', JBool (fp_leet_variation p)),
     (''accept_other_users'', JBool (fp_accept_other_users p))]"

section \<open>Templates\<close>

definition starts_with :: "string \<Rightarrow> string \<Rightarrow> bool" where
  "starts_with p s \<longleftrightarrow> take (length p) s = p"

text \<open>\<open>match_indices\<close> of a pattern of length \<open>Suc k\<close>: where it occurs, from the left, without overlaps.
  The second argument counts the bytes of the last occurrence still to pass.\<close>

fun matches_from :: "string \<Rightarrow> nat \<Rightarrow> nat \<Rightarrow> string \<Rightarrow> nat list" where
  "matches_from p i skip [] = []"
| "matches_from p i (Suc k) (c # cs) = matches_from p (Suc i) k cs"
| "matches_from p i 0 (c # cs) =
     (if starts_with p (c # cs) then i # matches_from p (Suc i) (length p - 1) cs
      else matches_from p (Suc i) 0 cs)"

definition match_indices :: "string \<Rightarrow> string \<Rightarrow> nat list" where
  "match_indices p s = matches_from p 0 0 s"

definition token_starts :: "string \<Rightarrow> nat list" where
  "token_starts = match_indices random_token_placeholder"

definition inside_random_token :: "string \<Rightarrow> nat \<Rightarrow> bool" where
  "inside_random_token template i \<longleftrightarrow>
     (\<exists>start \<in> set (token_starts template).
        start \<le> i \<and> i < start + length random_token_placeholder)"

definition remove_tokens :: "string \<Rightarrow> string" where
  "remove_tokens template =
     map (\<lambda>i. template ! i) (filter (\<lambda>i. \<not> inside_random_token template i) [0 ..< length template])"

definition leet_replacement :: "char \<Rightarrow> char option" where
  "leet_replacement c =
     (if c \<in> set ''aA'' then Some (CHR ''4'') else if c \<in> set ''eE'' then Some (CHR ''3'')
      else if c \<in> set ''iI'' then Some (CHR ''1'') else if c \<in> set ''oO'' then Some (CHR ''0'')
      else if c \<in> set ''sS'' then Some (CHR ''5'') else if c \<in> set ''tT'' then Some (CHR ''7'')
      else None)"

text \<open>The scope of the substitution: between the outer braces, or everything. It is the list of
  its indices, from the first to the last.\<close>

definition leet_scope :: "string \<Rightarrow> nat \<times> nat" where
  "leet_scope template =
     (let opening = List.find (\<lambda>i. template ! i = CHR ''{'' \<and> \<not> inside_random_token template i)
            [0 ..< length template];
          closing = List.find (\<lambda>i. template ! i = CHR ''}'' \<and> \<not> inside_random_token template i)
            (List.rev [0 ..< length template])
      in case (opening, closing) of
           (Some a, Some b) \<Rightarrow> if a < b then (a + 1, b) else (0, length template)
         | _ \<Rightarrow> (0, length template))"

definition in_scope :: "string \<Rightarrow> nat \<Rightarrow> bool" where
  "in_scope template i \<longleftrightarrow> fst (leet_scope template) \<le> i \<and> i < snd (leet_scope template)"

definition leet_positions :: "string \<Rightarrow> nat list" where
  "leet_positions template =
     filter (\<lambda>i. in_scope template i \<and> \<not> inside_random_token template i \<and>
                 leet_replacement (template ! i) \<noteq> None) [0 ..< length template]"

section \<open>Definitions\<close>

definition anchored :: "string \<Rightarrow> string" where
  "anchored pattern = ''^(?:'' @ pattern @ '')$''"

definition compile_regex :: "flag_env \<Rightarrow> string \<Rightarrow> bool \<Rightarrow> (string \<Rightarrow> bool) answer" where
  "compile_regex env pattern case_sensitive =
     (if length pattern > max_regex_bytes then Inl (bad_request ''Regex flag is too long'')
      else found (bad_request ''Regex flag is invalid'')
        (fe_regex env (anchored pattern) (\<not> case_sensitive)))"

text \<open>The checks for a generated flag, after those on its content and options.\<close>

definition check_generated :: "string \<Rightarrow> flag_policy \<Rightarrow> string \<Rightarrow> unit answer" where
  "check_generated content policy exposure =
     (let placeholders = length (token_starts content);
          rendered_bytes = length content + placeholders * (36 - length random_token_placeholder);
          without_supported = remove_tokens content;
          positions = leet_positions content
      in if exposure \<noteq> ''private'' then Inl (bad_request ''Generated flags require a private challenge'')
         else if placeholders > 1
         then Inl (bad_request ''A generated flag may contain RANDOM_TOKEN only once'')
         else if rendered_bytes > max_flag_bytes
         then Inl (bad_request ''The rendered generated flag exceeds 512 bytes'')
         else if match_indices ''{{'' without_supported \<noteq> [] \<or> match_indices ''}}'' without_supported \<noteq> []
         then Inl (bad_request ''The generated flag contains an unsupported placeholder'')
         else if fp_leet_variation policy \<and> positions = []
         then Inl (bad_request ''Leet variation requires at least one replaceable letter'')
         else if fp_leet_variation policy \<and> length positions > max_leet_positions
         then Inl (bad_request ''The flag has too many letters for leet variation'')
         else if placeholders = 0 \<and> \<not> fp_leet_variation policy
         then Inl (bad_request ''A generated flag requires RANDOM_TOKEN or leet variation'')
         else Inr ())"

definition check_fixed :: "string \<Rightarrow> flag_policy \<Rightarrow> string \<Rightarrow> unit answer" where
  "check_fixed content policy message =
     (if token_starts content \<noteq> []
      then Inl (bad_request ''RANDOM_TOKEN is available only for generated flags'')
      else if fp_leet_variation policy \<or> fp_accept_other_users policy then Inl (bad_request message)
      else Inr ())"

definition normalize_definition ::
  "flag_env \<Rightarrow> string \<Rightarrow> string \<Rightarrow> json \<Rightarrow> string \<Rightarrow> (string \<times> string \<times> json) answer" where
  "normalize_definition env flag_type content data exposure =
     (let flag_type = to_ascii_lowercase (trim flag_type); content = trim content in
      if content = [] \<or> length content > max_flag_bytes \<or> has_control content
      then Inl (bad_request ''Flag content is invalid'')
      else if flag_type \<notin> {''static'', ''regex'', ''generated''} then Inl (bad_request ''Flag type is invalid'')
      else case parse_policy data of
        Inl e \<Rightarrow> Inl e
      | Inr policy \<Rightarrow>
          (case (if flag_type = ''static''
                 then check_fixed content policy ''Static flags do not support per-user options''
                 else if flag_type = ''regex''
                 then (case check_fixed content policy ''Regex flags do not support per-user options'' of
                     Inl e \<Rightarrow> Inl e
                   | Inr _ \<Rightarrow> (case compile_regex env content (fp_case_sensitive policy) of
                       Inl e \<Rightarrow> Inl e | Inr _ \<Rightarrow> Inr ()))
                 else check_generated content policy exposure) of
             Inl e \<Rightarrow> Inl e
           | Inr _ \<Rightarrow> Inr (flag_type, content, policy_json policy)))"

section \<open>Rendering\<close>

text \<open>Whether letter number \<open>k\<close> is replaced. The shift takes its amount modulo 64.\<close>

definition replaced :: "64 word option \<Rightarrow> nat \<Rightarrow> bool" where
  "replaced bits k = (case bits of None \<Rightarrow> False | Some m \<Rightarrow> m AND push_bit (k mod 64) 1 \<noteq> 0)"

function render_loop ::
  "string \<Rightarrow> uuid option \<Rightarrow> 64 word option \<Rightarrow> nat \<Rightarrow> nat \<Rightarrow> string \<Rightarrow> string" where
  "render_loop template token bits cursor leet_index rendered =
     (if cursor < length template then
        if starts_with random_token_placeholder (drop cursor template)
        then render_loop template token bits (cursor + length random_token_placeholder) leet_index
          (rendered @ (case token of None \<Rightarrow> random_token_placeholder | Some t \<Rightarrow> uuid_text t))
        else
          let c = template ! cursor in
          case (if in_scope template cursor then leet_replacement c else None) of
            Some replacement \<Rightarrow> render_loop template token bits (cursor + 1) (leet_index + 1)
              (rendered @ [if replaced bits leet_index then replacement else c])
          | None \<Rightarrow> render_loop template token bits (cursor + 1) leet_index (rendered @ [c])
      else rendered)"
  by auto
termination
  by (relation "measure (\<lambda>(template, _, _, cursor, _, _). length template - cursor)")
     (auto simp: random_token_placeholder_def)

declare render_loop.simps [simp del]

definition render_generated_flag :: "string \<Rightarrow> uuid option \<Rightarrow> 64 word option \<Rightarrow> string" where
  "render_generated_flag template token bits = render_loop template token bits 0 0 []"

section \<open>Matching\<close>

definition flag_matches_literal :: "flag_env \<Rightarrow> string \<Rightarrow> string \<Rightarrow> bool \<Rightarrow> bool" where
  "flag_matches_literal env saved provided case_sensitive \<longleftrightarrow>
     (if case_sensitive then saved = provided
      else fe_lowercase env saved = fe_lowercase env provided)"

definition flag_matches_regex :: "flag_env \<Rightarrow> string \<Rightarrow> string \<Rightarrow> bool \<Rightarrow> bool answer" where
  "flag_matches_regex env pattern provided case_sensitive =
     (case compile_regex env pattern case_sensitive of Inl e \<Rightarrow> Inl e | Inr f \<Rightarrow> Inr (f provided))"

definition match_tag_context :: string where
  "match_tag_context = ''ctfzone/generated-flag-match/v1''"

definition be_bytes32 :: "int \<Rightarrow> string" where
  "be_bytes32 i = map (\<lambda>k. char_of (nat ((i mod 4294967296) div 256 ^ k mod 256))) [3, 2, 1, 0]"

definition match_tag :: "flag_env \<Rightarrow> string \<Rightarrow> int \<Rightarrow> string \<Rightarrow> bool \<Rightarrow> string" where
  "match_tag env secret_key challenge_id flag case_sensitive =
     fe_hmac env secret_key (match_tag_context @ be_bytes32 challenge_id @
       (if case_sensitive then flag else fe_lowercase env flag))"

datatype flag_match = No_Match | Own_Match | Other_Match int int bool string

definition generated_flag_match ::
  "flag_env \<Rightarrow> stored_flag \<Rightarrow> string \<Rightarrow> int \<Rightarrow> int \<Rightarrow> string \<Rightarrow> portal_db \<Rightarrow> flag_match answer \<times> portal_db" where
  "generated_flag_match env flag provided submitting_user_id challenge_id secret_key d =
     and_then (parse_policy (fl_data flag), d) (\<lambda>policy d.
       let tag = match_tag env secret_key challenge_id provided (fp_case_sensitive policy) in
       (Inr (case List.find (\<lambda>r. uf_challenge_id r = challenge_id \<and> uf_match_tag r = tag) (pd_user_flags d) of
          None \<Rightarrow> No_Match
        | Some r \<Rightarrow>
            if uf_flag_id r \<noteq> fl_id flag then No_Match
            else if uf_user_id r = submitting_user_id then Own_Match
            else Other_Match (fl_id flag) (uf_user_id r) (fp_accept_other_users policy) tag), d))"

section \<open>Allocation\<close>

text \<open>\<open>((1_u64 << n) - 1) as i64\<close>\<close>

definition leet_capacity :: "nat \<Rightarrow> int" where
  "leet_capacity n = sint ((push_bit (n mod 64) 1 :: 64 word) - 1)"

definition assignments :: "stored_flag \<Rightarrow> portal_db \<Rightarrow> user_flag list" where
  "assignments flag d = filter (\<lambda>r. uf_flag_id r = fl_id flag) (pd_user_flags d)"

definition next_available_leet_mask :: "stored_flag \<Rightarrow> portal_db \<Rightarrow> int answer \<times> portal_db" where
  "next_available_leet_mask flag d =
     (let capacity = leet_capacity (length (leet_positions (fl_content flag)));
          assigned = int (length (assignments flag d))
      in if assigned \<ge> capacity
         then (Inl (conflict ''The leet variation space for this challenge is exhausted''), d)
         else (found database_error
            (List.find (\<lambda>candidate. \<forall>r \<in> set (assignments flag d). uf_leet_mask r \<noteq> Some candidate)
               [1 .. min capacity (assigned + 1)]), d))"

text \<open>The constraints on an assignment: the uniqueness of the tag and the bounds of the mask.\<close>

definition leet_mask_check :: "user_flag \<Rightarrow> bool" where
  "leet_mask_check r \<longleftrightarrow>
     (case (uf_leet_mask r, uf_leet_position_count r) of
        (None, None) \<Rightarrow> True
      | (Some m, Some n) \<Rightarrow> 0 < m \<and> 1 \<le> n \<and> n \<le> 62 \<and> m < 2 ^ nat n
      | _ \<Rightarrow> False)"

definition insert_user_flag :: "user_flag \<Rightarrow> portal_db \<Rightarrow> unit answer \<times> portal_db" where
  "insert_user_flag r d =
     (if \<exists>q \<in> set (pd_user_flags d). (uf_flag_id q = uf_flag_id r \<and> uf_user_id q = uf_user_id r) \<or>
           (uf_challenge_id q = uf_challenge_id r \<and> uf_match_tag q = uf_match_tag r)
      then (Inl (conflict ''A unique flag could not be allocated; review the flag template''), d)
      else if \<not> leet_mask_check r then (Inl database_error, d)
      else (Inr (), d\<lparr>pd_user_flags := pd_user_flags d @ [r]\<rparr>))"

definition mask_word :: "int option \<Rightarrow> 64 word option" where
  "mask_word = map_option word_of_int"

text \<open>\<open>fresh_token\<close> and \<open>fresh_bits\<close> are the two random values the code may draw.\<close>

definition choose_leet_mask ::
  "stored_flag \<Rightarrow> flag_policy \<Rightarrow> bool \<Rightarrow> 64 word \<Rightarrow> portal_db \<Rightarrow> int option answer \<times> portal_db" where
  "choose_leet_mask flag policy has_token fresh_bits d =
     (if fp_leet_variation policy \<and> \<not> has_token
      then and_then (next_available_leet_mask flag d) (\<lambda>m d. (Inr (Some m), d))
      else if fp_leet_variation policy
      then (let maximum = (push_bit (length (leet_positions (fl_content flag)) mod 64) 1 :: 64 word) - 1
            in (Inr (Some (sint (fresh_bits mod maximum + 1))), d))
      else (Inr None, d))"

definition allocate_flag ::
  "flag_env \<Rightarrow> uuid \<Rightarrow> 64 word \<Rightarrow> int \<Rightarrow> int \<Rightarrow> stored_flag \<Rightarrow> string
   \<Rightarrow> portal_db \<Rightarrow> string answer \<times> portal_db" where
  "allocate_flag env fresh_token fresh_bits challenge_id user_id flag secret_key d =
     and_then (parse_policy (fl_data flag), d) (\<lambda>policy d.
     let has_token = token_starts (fl_content flag) \<noteq> [];
         count = (if fp_leet_variation policy
                  then Some (int (length (leet_positions (fl_content flag)))) else None);
         token = (if has_token then Some fresh_token else None)
     in and_then (choose_leet_mask flag policy has_token fresh_bits d) (\<lambda>leet_mask d.
        let rendered = render_generated_flag (fl_content flag) token (mask_word leet_mask);
            tag = match_tag env secret_key challenge_id rendered (fp_case_sensitive policy)
        in and_then (insert_user_flag \<lparr>uf_flag_id = fl_id flag, uf_challenge_id = challenge_id,
               uf_user_id = user_id, uf_revision = fl_revision flag, uf_match_tag = tag,
               uf_random_token = token, uf_leet_mask = leet_mask, uf_leet_position_count = count\<rparr> d)
             (\<lambda>_ d. (Inr rendered, d))))"

definition materialize_flag ::
  "flag_env \<Rightarrow> uuid \<Rightarrow> 64 word \<Rightarrow> int \<Rightarrow> int \<Rightarrow> stored_flag \<Rightarrow> string
   \<Rightarrow> portal_db \<Rightarrow> string answer \<times> portal_db" where
  "materialize_flag env fresh_token fresh_bits challenge_id user_id flag secret_key d =
     (case List.find (\<lambda>r. uf_flag_id r = fl_id flag \<and> uf_user_id r = user_id) (pd_user_flags d) of
        Some r \<Rightarrow>
          (if uf_revision r \<noteq> fl_revision flag
           then Inl (conflict ''The generated flag definition changed after allocation'')
           else Inr (render_generated_flag (fl_content flag) (uf_random_token r)
                  (mask_word (uf_leet_mask r))), d)
      | None \<Rightarrow> allocate_flag env fresh_token fresh_bits challenge_id user_id flag secret_key d)"

definition generated_flag_of :: "int \<Rightarrow> portal_db \<Rightarrow> stored_flag option" where
  "generated_flag_of challenge_id d =
     first_by fl_id (\<lambda>f. fl_challenge_id f = challenge_id \<and> fl_type f = ''generated'') (pd_flags d)"

definition materialize_for_launch ::
  "flag_env \<Rightarrow> uuid \<Rightarrow> 64 word \<Rightarrow> int \<Rightarrow> int \<Rightarrow> string
   \<Rightarrow> portal_db \<Rightarrow> string option answer \<times> portal_db" where
  "materialize_for_launch env fresh_token fresh_bits challenge_id user_id secret_key d =
     (case generated_flag_of challenge_id d of
        None \<Rightarrow> (Inr None, d)
      | Some flag \<Rightarrow>
          and_then (materialize_flag env fresh_token fresh_bits challenge_id user_id flag secret_key d)
            (\<lambda>rendered d. (Inr (Some rendered), d)))"

end
