(* ===== verification/Floats.thy ===== *)
theory Floats
  imports ApiBase "HOL-Library.Log_Nat"
begin

text \<open>
  The \<open>f64\<close> arithmetic of the API service (dynamic scores, limits on processors, the numbers of an
  SVG document) and the reader of decimal numbers.
\<close>

section \<open>Binary floating point\<close>

text \<open>
  A finite \<open>f64\<close> is a rational. An operation returns the exact result rounded to 53 significant
  bits, ties to even. Infinities do not occur: what uses these numbers either bounds their exponents
  or refuses large ones. Where a number is read from text it may be subnormal, and \<open>subnormal\<close>
  rounds it to the multiples of the least positive \<open>f64\<close>.
\<close>

definition half_even :: "rat \<Rightarrow> int" where
  "half_even q = (let f = \<lfloor>q\<rfloor>; r = q - of_int f in
     if r < 1 / 2 \<or> (r = 1 / 2 \<and> even f) then f else f + 1)"

definition binary_exponent :: "rat \<Rightarrow> int" where
  "binary_exponent q = (case quotient_of q of (n, d) \<Rightarrow>
     let e = bitlen n - bitlen d in if 2 powi e \<le> q then e else e - 1)"

definition f64_positive :: "rat \<Rightarrow> rat" where
  "f64_positive q = (let ulp = 2 powi (binary_exponent q - 52) in of_int (half_even (q / ulp)) * ulp)"

definition f64 :: "rat \<Rightarrow> rat" where
  "f64 q = (if q = 0 then 0 else if q < 0 then - f64_positive (- q) else f64_positive q)"

definition subnormal :: "rat \<Rightarrow> rat" where
  "subnormal q = (let least = 2 powi (- 1074) in of_int (half_even (q / least)) * least)"

section \<open>Reading a number\<close>

text \<open>
  \<open>str::parse::<f64>\<close>: an optional sign, decimal digits with an optional point and an optional
  exponent, rounded to the nearest \<open>f64\<close>. \<open>inf\<close>, \<open>infinity\<close> and \<open>nan\<close> are \<open>None\<close> here, as no finite
  number. Numbers beyond the exponents of an \<open>f64\<close> keep a value, which is outside every range the code accepts.
\<close>

definition parse_sign :: "string \<Rightarrow> bool \<times> string" where
  "parse_sign s =
     (case s of [] \<Rightarrow> (False, [])
      | c # cs \<Rightarrow> if c = CHR ''-'' then (True, cs) else if c = CHR ''+'' then (False, cs) else (False, s))"

definition parse_exponent :: "string \<Rightarrow> int option" where
  "parse_exponent s =
     (case s of [] \<Rightarrow> Some 0
      | c # cs \<Rightarrow>
          (case parse_sign cs of (negative, ds) \<Rightarrow>
             if c \<in> {CHR ''e'', CHR ''E''} \<and> ds \<noteq> [] \<and> (\<forall>x \<in> set ds. digit x)
             then Some (if negative then - digits_value ds else digits_value ds) else None))"

definition parse_decimal :: "string \<Rightarrow> rat option" where
  "parse_decimal s =
     (case parse_sign s of (negative, t) \<Rightarrow>
        let whole = takeWhile digit t; t = dropWhile digit t;
            point = (t \<noteq> [] \<and> hd t = CHR ''.''); t = (if point then tl t else t);
            fraction = (if point then takeWhile digit t else []);
            t = (if point then dropWhile digit t else t)
        in if whole = [] \<and> fraction = [] then None
           else map_option (\<lambda>e. (if negative then -1 else 1) * of_int (digits_value (whole @ fraction))
                  * 10 powi (e - int (length fraction))) (parse_exponent t))"

definition parse_f64 :: "string \<Rightarrow> rat option" where
  "parse_f64 s =
     map_option (\<lambda>q. if \<bar>q\<bar> < 2 powi (- 1022) then subnormal q else f64 q) (parse_decimal s)"

section \<open>Rounding\<close>

lemma half_even_near: "\<lfloor>q\<rfloor> \<le> half_even q" "half_even q \<le> \<lfloor>q\<rfloor> + 1"
  by (simp_all add: half_even_def Let_def)

lemma half_even_of_int [simp]: "half_even (of_int i) = i"
  by (simp add: half_even_def)

lemma half_even_mono:
  assumes "p \<le> q"
  shows "half_even p \<le> half_even q"
proof (cases "\<lfloor>p\<rfloor> = \<lfloor>q\<rfloor>")
  case True
  then show ?thesis using assms by (auto simp: half_even_def Let_def)
next
  case False
  with assms have "\<lfloor>p\<rfloor> + 1 \<le> \<lfloor>q\<rfloor>" using floor_mono [OF assms] by linarith
  then show ?thesis using half_even_near(2) [of p] half_even_near(1) [of q] by linarith
qed

lemma bitlen_powi:
  assumes "0 < n"
  shows "2 powi (bitlen n - 1) \<le> (of_int n :: rat)" "(of_int n :: rat) < 2 powi bitlen n"
proof -
  have b: "bitlen n = int (nat (bitlen n))" "0 < bitlen n"
    using assms bitlen_nonneg [of n] bitlen_eq_zero_iff [of n] by auto
  have "2 ^ nat (bitlen n - 1) \<le> n" "n < 2 ^ nat (bitlen n)" using bitlen_bounds [OF assms] by auto
  then have "of_int (2 ^ nat (bitlen n - 1)) \<le> (of_int n :: rat)" "(of_int n :: rat) < of_int (2 ^ nat (bitlen n))"
    by (simp_all only: of_int_le_iff of_int_less_iff)
  with b show "2 powi (bitlen n - 1) \<le> (of_int n :: rat)" "(of_int n :: rat) < 2 powi bitlen n"
    by (auto simp: power_int_def)
qed

lemma binary_exponent_bounds:
  assumes "0 < q"
  shows "2 powi binary_exponent q \<le> q" "q < 2 powi (binary_exponent q + 1)"
proof -
  obtain n d where nd: "quotient_of q = (n, d)" by (cases "quotient_of q")
  have q: "q = of_int n / of_int d" and d: "0 < d" using quotient_of_div [OF nd] quotient_of_denom_pos [OF nd] by auto
  with assms have n: "0 < n" by (simp add: zero_less_divide_iff)
  let ?e = "bitlen n - bitlen d"
  have lo: "2 powi (?e - 1) \<le> q"
  proof -
    have "2 powi (?e - 1) = 2 powi (bitlen n - 1) / (2 :: rat) powi bitlen d"
      by (simp add: power_int_diff [symmetric] algebra_simps)
    also have "\<dots> \<le> of_int n / of_int d"
      using bitlen_powi [OF n] bitlen_powi [OF d] n d by (intro frac_le) auto
    finally show ?thesis using q by simp
  qed
  have hi: "q < 2 powi (?e + 1)"
  proof -
    have "of_int n / of_int d < (2 :: rat) powi bitlen n / 2 powi (bitlen d - 1)"
      using bitlen_powi [OF n] bitlen_powi [OF d] n d by (intro frac_less) auto
    also have "\<dots> = 2 powi (?e + 1)" by (simp add: power_int_diff [symmetric] algebra_simps)
    finally show ?thesis using q by simp
  qed
  show "2 powi binary_exponent q \<le> q" "q < 2 powi (binary_exponent q + 1)"
    using lo hi by (auto simp: binary_exponent_def nd Let_def)
qed

lemma two_powi_less: "(2 :: rat) powi a < 2 powi b \<longleftrightarrow> a < b"
  using power_int_strict_increasing [of a b "2 :: rat"] power_int_increasing [of b a "2 :: rat"]
  by (auto simp: not_less [symmetric])

lemma binary_exponent_mono: "0 < p \<Longrightarrow> p \<le> q \<Longrightarrow> binary_exponent p \<le> binary_exponent q"
proof -
  assume a: "0 < p" "p \<le> q"
  then have "2 powi binary_exponent p < (2 :: rat) powi (binary_exponent q + 1)"
    using binary_exponent_bounds(1) [of p] binary_exponent_bounds(2) [of q] by linarith
  then show ?thesis by (simp add: two_powi_less)
qed

lemma scaled_bounds:
  assumes "0 < q"
  shows "2 ^ 52 \<le> q / 2 powi (binary_exponent q - 52)" "q / 2 powi (binary_exponent q - 52) < 2 ^ 53"
proof -
  have "2 powi binary_exponent q = 2 ^ 52 * (2 :: rat) powi (binary_exponent q - 52)"
    "2 powi (binary_exponent q + 1) = 2 ^ 53 * (2 :: rat) powi (binary_exponent q - 52)"
    by (simp_all add: power_int_diff power_int_add)
  with binary_exponent_bounds [OF assms]
  show "2 ^ 52 \<le> q / 2 powi (binary_exponent q - 52)" "q / 2 powi (binary_exponent q - 52) < 2 ^ 53"
    by (simp_all add: field_simps)
qed

lemma f64_positive_bounds:
  assumes "0 < q"
  shows "2 powi binary_exponent q \<le> f64_positive q" "f64_positive q \<le> 2 powi (binary_exponent q + 1)"
proof -
  let ?u = "2 powi (binary_exponent q - 52) :: rat"
  have "half_even (of_int (2 ^ 52)) \<le> half_even (q / ?u)" "half_even (q / ?u) \<le> half_even (of_int (2 ^ 53))"
    using scaled_bounds [OF assms] by (intro half_even_mono; simp)+
  then have "of_int (2 ^ 52) \<le> (of_int (half_even (q / ?u)) :: rat)" "of_int (half_even (q / ?u)) \<le> (of_int (2 ^ 53) :: rat)"
    unfolding half_even_of_int by (simp_all only: of_int_le_iff)
  then have "(2 :: rat) ^ 52 \<le> of_int (half_even (q / ?u))" "of_int (half_even (q / ?u)) \<le> (2 :: rat) ^ 53"
    by simp_all
  then have "2 ^ 52 * ?u \<le> f64_positive q" "f64_positive q \<le> 2 ^ 53 * ?u"
    unfolding f64_positive_def Let_def by (intro mult_right_mono; simp)+
  then show "2 powi binary_exponent q \<le> f64_positive q" "f64_positive q \<le> 2 powi (binary_exponent q + 1)"
    by (simp_all add: power_int_diff power_int_add)
qed

lemma f64_positive_pos: "0 < q \<Longrightarrow> 0 < f64_positive q"
  by (rule less_le_trans [OF _ f64_positive_bounds(1)]) simp_all

lemma f64_positive_mono:
  assumes "0 < p" "p \<le> q"
  shows "f64_positive p \<le> f64_positive q"
proof (cases "binary_exponent p = binary_exponent q")
  case True
  then show ?thesis unfolding f64_positive_def Let_def
    using assms(2) by (simp add: half_even_mono divide_right_mono)
next
  case False
  with binary_exponent_mono [OF assms] have "binary_exponent p + 1 \<le> binary_exponent q" by linarith
  then have "(2 :: rat) powi (binary_exponent p + 1) \<le> 2 powi binary_exponent q"
    by (simp add: power_int_increasing)
  with f64_positive_bounds(2) [OF assms(1)] f64_positive_bounds(1) [of q] assms show ?thesis by linarith
qed

lemma f64_mono: "p \<le> q \<Longrightarrow> f64 p \<le> f64 q"
  using f64_positive_mono [of p q] f64_positive_mono [of "- q" "- p"] f64_positive_pos [of q] f64_positive_pos [of "- p"]
  by (auto simp: f64_def)

lemma f64_0 [simp]: "f64 0 = 0"
  by (simp add: f64_def)

lemma f64_nonneg: "0 \<le> q \<Longrightarrow> 0 \<le> f64 q"
  using f64_mono [of 0 q] by simp

lemma f64_nonpos: "q \<le> 0 \<Longrightarrow> f64 q \<le> 0"
  using f64_mono [of q 0] by simp

lemma f64_positive_of_int:
  assumes "0 < i" "i < 2 ^ 53"
  shows "f64_positive (of_int i) = of_int i"
proof -
  let ?e = "binary_exponent (of_int i)"
  have "(of_int i :: rat) < of_int (2 ^ 53)" using assms(2) by (simp only: of_int_less_iff)
  then have "(2 :: rat) powi ?e < 2 powi 53"
    using binary_exponent_bounds(1) [of "of_int i"] assms(1) by (simp add: power_int_def)
  then have e: "?e \<le> 52" unfolding two_powi_less by simp
  have u: "2 powi (52 - ?e) * (2 :: rat) powi (?e - 52) = 1"
    by (simp flip: power_int_add)
  then have "(of_int i :: rat) / 2 powi (?e - 52) = of_int i * 2 powi (52 - ?e)"
    by (simp add: field_simps)
  also have "\<dots> = of_int (i * 2 ^ nat (52 - ?e))" using e by (simp add: power_int_def)
  finally have "f64_positive (of_int i) = of_int (i * 2 ^ nat (52 - ?e)) * 2 powi (?e - 52)"
    unfolding f64_positive_def Let_def by (simp only: half_even_of_int)
  also have "\<dots> = of_int i * (2 powi (52 - ?e) * 2 powi (?e - 52))"
    using e by (simp add: power_int_def)
  finally show ?thesis using u by simp
qed

lemma f64_of_int: "\<bar>i\<bar> < 2 ^ 53 \<Longrightarrow> f64 (of_int i) = of_int i"
  using f64_positive_of_int [of i] f64_positive_of_int [of "- i"] by (auto simp: f64_def)

end
