(* ===== verification/Scoring.thy ===== *)
theory Scoring
  imports ApiBase Floats
begin

text \<open>
  The value of a challenge with dynamic scoring: \<open>recalculate_dynamic_value\<close> of
  \<open>services/api/src/routes/challenges.rs\<close>, with its \<open>f64\<close> arithmetic written out.
\<close>

section \<open>The value of a challenge\<close>

text \<open>\<open>as i32\<close> saturates; subtraction of \<open>i32\<close> values wraps.\<close>

definition saturate_i32 :: "int \<Rightarrow> int" where
  "saturate_i32 i = max (- 2147483648) (min 2147483647 i)"

definition wrap_i32 :: "int \<Rightarrow> int" where
  "wrap_i32 i = (i + 2147483648) mod 4294967296 - 2147483648"

definition dynamic_value :: "string \<Rightarrow> int \<Rightarrow> int \<Rightarrow> int \<Rightarrow> int \<Rightarrow> int" where
  "dynamic_value function initial minimum decay solve_count =
     (let adjusted = f64 (of_int (max (solve_count - 1) 0));
          calculated =
            (if function = ''linear''
             then f64 (of_int initial - f64 (of_int decay * adjusted))
             else f64 (f64 (f64 (of_int (wrap_i32 (minimum - initial)) / f64 (of_int decay * of_int decay))
                    * f64 (adjusted * adjusted)) + of_int initial))
      in max (saturate_i32 \<lceil>calculated\<rceil>) minimum)"

text \<open>The scoring that the attempt's query reads: the row of \<open>dynamic_challenge\<close> before the
  columns of \<open>challenges\<close>.\<close>

definition first_of :: "'a option \<Rightarrow> 'a option \<Rightarrow> 'a option" where
  "first_of x y = (case x of None \<Rightarrow> y | Some _ \<Rightarrow> x)"

definition effective_scoring :: "challenge_row \<Rightarrow> scoring" where
  "effective_scoring c =
     (case ch_dynamic c of
        None \<Rightarrow> ch_scoring c
      | Some s \<Rightarrow> \<lparr>sc_function = first_of (sc_function s) (sc_function (ch_scoring c)),
          sc_initial = first_of (sc_initial s) (sc_initial (ch_scoring c)),
          sc_minimum = first_of (sc_minimum s) (sc_minimum (ch_scoring c)),
          sc_decay = first_of (sc_decay s) (sc_decay (ch_scoring c))\<rparr>)"

definition counted_solve :: "bool \<Rightarrow> portal_db \<Rightarrow> solve \<Rightarrow> bool" where
  "counted_solve team_mode d s \<longleftrightarrow>
     (if team_mode
      then (case Option.bind (slv_team_id s) (\<lambda>t. find_team t d) of None \<Rightarrow> False
            | Some a \<Rightarrow> \<not> is_true (tm_hidden a) \<and> \<not> is_true (tm_banned a))
      else (case find_user (slv_user_id s) d of None \<Rightarrow> False
            | Some a \<Rightarrow> \<not> is_true (usr_hidden a) \<and> \<not> is_true (usr_banned a)))"

definition solve_count :: "bool \<Rightarrow> int \<Rightarrow> portal_db \<Rightarrow> int" where
  "solve_count team_mode challenge_id d =
     int (length (filter (\<lambda>s. slv_challenge_id s = challenge_id \<and> counted_solve team_mode d s) (pd_solves d)))"

definition set_value :: "int \<Rightarrow> int \<Rightarrow> portal_db \<Rightarrow> portal_db" where
  "set_value challenge_id v d =
     d\<lparr>pd_challenges := update_where (\<lambda>c. ch_id c = challenge_id) (\<lambda>c. c\<lparr>ch_value := Some v\<rparr>) (pd_challenges d)\<rparr>"

definition recalculate_dynamic_value :: "challenge_row \<Rightarrow> bool \<Rightarrow> portal_db \<Rightarrow> portal_db" where
  "recalculate_dynamic_value c team_mode d =
     (let s = effective_scoring c; function = coalesce (sc_function s) ''static'' in
      if function = ''static'' then d
      else set_value (ch_id c)
        (dynamic_value function (coalesce (sc_initial s) 0) (coalesce (sc_minimum s) 0)
           (max (coalesce (sc_decay s) 1) 1) (solve_count team_mode (ch_id c) d)) d)"

section \<open>The bounds of the value\<close>

lemma wrap_i32_id: "- 2147483648 \<le> i \<Longrightarrow> i \<le> 2147483647 \<Longrightarrow> wrap_i32 i = i"
  by (simp add: wrap_i32_def)

lemma saturate_i32_mono: "i \<le> j \<Longrightarrow> saturate_i32 i \<le> saturate_i32 j"
  by (simp add: saturate_i32_def)

text \<open>The rounded value, before the ceiling, as a function of the adjusted count.\<close>

definition rounded_value :: "string \<Rightarrow> int \<Rightarrow> int \<Rightarrow> int \<Rightarrow> rat \<Rightarrow> rat" where
  "rounded_value curve initial minimum decay adjusted =
     (if curve = ''linear'' then f64 (of_int initial - f64 (of_int decay * adjusted))
      else f64 (f64 (f64 (of_int (wrap_i32 (minimum - initial)) / f64 (of_int decay * of_int decay))
             * f64 (adjusted * adjusted)) + of_int initial))"

lemma dynamic_value_rounded:
  "dynamic_value curve initial minimum decay n =
     max (saturate_i32 \<lceil>rounded_value curve initial minimum decay (f64 (of_int (max (n - 1) 0)))\<rceil>) minimum"
  by (simp add: dynamic_value_def rounded_value_def Let_def)

lemma slope_nonpos:
  assumes "0 \<le> minimum" "minimum \<le> initial" "initial \<le> 2147483647" "0 < decay"
  shows "f64 (of_int (wrap_i32 (minimum - initial)) / f64 (of_int decay * of_int decay)) \<le> 0"
proof -
  have "wrap_i32 (minimum - initial) = minimum - initial" using assms by (intro wrap_i32_id) auto
  moreover have "0 \<le> f64 (of_int decay * of_int decay)" using assms(4) by (intro f64_nonneg) simp
  ultimately show ?thesis using assms(2) by (intro f64_nonpos) (simp add: divide_nonpos_nonneg)
qed

lemma rounded_value_antimono:
  assumes "0 \<le> minimum" "minimum \<le> initial" "initial \<le> 2147483647" "0 < decay" "0 \<le> a" "a \<le> b"
  shows "rounded_value curve initial minimum decay b \<le> rounded_value curve initial minimum decay a"
proof (cases "curve = ''linear''")
  case True
  have "of_int decay * a \<le> of_int decay * b" using assms by (intro mult_left_mono) auto
  then have "f64 (of_int decay * a) \<le> f64 (of_int decay * b)" by (rule f64_mono)
  then show ?thesis using True by (auto simp: rounded_value_def intro: f64_mono)
next
  case False
  have "f64 (a * a) \<le> f64 (b * b)" using assms by (intro f64_mono mult_mono) auto
  with False slope_nonpos [OF assms(1-4)] show ?thesis
    by (auto simp: rounded_value_def intro!: f64_mono mult_left_mono_neg)
qed

lemma rounded_value_0:
  assumes "0 \<le> initial" "initial \<le> 2147483647"
  shows "rounded_value curve initial minimum decay 0 = of_int initial"
  using f64_of_int [of initial] assms by (simp add: rounded_value_def)

text \<open>
  C33. A dynamic value never leaves its bounds and never grows: with the validated parameters
  (\<open>initial >= minimum >= 0\<close>, \<open>decay > 0\<close>) the rounded formula gives, for either curve, the initial
  value up to the first counted solve, a value between the minimum and the initial value for any
  number of solves, and no more for more solves.
\<close>

theorem dynamic_value_bounds:
  assumes "0 \<le> minimum" "minimum \<le> initial" "initial \<le> 2147483647" "0 < decay"
  shows "(n \<le> 1 \<longrightarrow> dynamic_value curve initial minimum decay n = initial) \<and>
    minimum \<le> dynamic_value curve initial minimum decay n \<and>
    dynamic_value curve initial minimum decay n \<le> initial \<and>
    (n \<le> m \<longrightarrow> dynamic_value curve initial minimum decay m \<le> dynamic_value curve initial minimum decay n)"
proof -
  have step: "dynamic_value curve initial minimum decay m \<le> dynamic_value curve initial minimum decay n"
    if "n \<le> m" for n m
  proof -
    have "f64 (of_int (max (n - 1) 0)) \<le> f64 (of_int (max (m - 1) 0))" using that by (intro f64_mono) simp
    then show ?thesis unfolding dynamic_value_rounded
      using rounded_value_antimono [OF assms] f64_nonneg [of "of_int (max (n - 1) 0)"]
      by (intro max.mono saturate_i32_mono ceiling_mono) auto
  qed
  have start: "dynamic_value curve initial minimum decay n = initial" if "n \<le> 1" for n
    using that assms rounded_value_0 [of initial curve minimum decay]
    by (simp add: dynamic_value_rounded saturate_i32_def)
  have "minimum \<le> dynamic_value curve initial minimum decay n" by (simp add: dynamic_value_rounded)
  then show ?thesis
    using step [of n m] step [of "min n 1" n] start [of "min n 1"] start [of n]
    by (auto simp: min_def split: if_splits)
qed

theorem dynamic_value_bounds_witness:
  "dynamic_value ''logarithmic'' 500 100 50 1 = 500 \<and> 100 \<le> dynamic_value ''linear'' 500 100 50 7"
  using dynamic_value_bounds [of 100 500 50 1 "''logarithmic''"] dynamic_value_bounds [of 100 500 50 7 "''linear''"]
  by simp

lemma dynamic_value_sample:
  "map (dynamic_value ''logarithmic'' 100 0 17) [1, 9, 18] = [100, 78, 1]"
  by code_simp

end
