(* ===== verification/RuntimeApi.thy ===== *)
theory RuntimeApi
  imports FlagPolicy Scoring
begin

text \<open>
  The API's side of the runtime control plane (\<open>services/api/src/routes/runtimes.rs\<close>): launching,
  extending, stopping and reconciling instances, the global setting, the challenge's runtime
  configuration and the remote servers. Each handler's transaction is one step on the tables; the
  rows it changes are locked, and the tables of the runtime are those the controller works on.

  \<open>before k\<close> is what read number \<open>k\<close> before the transaction sees. The \<open>Idempotency-Key\<close> header is
  absent, unreadable (\<open>Some None\<close>) or a text. The derived \<open>serde\<close> reader of a runtime configuration
  is a parameter.
\<close>

section \<open>Steps on the runtime tables\<close>

definition on_runtime :: "(runtime_db \<Rightarrow> 'a answer \<times> runtime_db) \<Rightarrow> portal_db \<Rightarrow> 'a answer \<times> portal_db" where
  "on_runtime f p = (case f (pd_runtime p) of (r, d) \<Rightarrow> (r, p\<lparr>pd_runtime := d\<rparr>))"

definition settings_channel :: string where
  "settings_channel = ''ctfzone_settings_changed''"

definition challenge_channel :: string where
  "challenge_channel = ''ctfzone_challenge_runtime_changed''"

definition notify :: "string \<Rightarrow> string \<Rightarrow> runtime_db \<Rightarrow> runtime_db" where
  "notify channel payload d = d\<lparr>rt_notified := rt_notified d @ [(channel, payload)]\<rparr>"

definition append_api_event ::
  "uuid \<Rightarrow> string \<Rightarrow> int option \<Rightarrow> json \<Rightarrow> runtime_db \<Rightarrow> runtime_db" where
  "append_api_event i event_type actor payload d =
     d\<lparr>rt_events := rt_events d @ [\<lparr>rev_instance_id = i, rev_event_type = event_type, rev_source = ''api'',
          rev_actor_user_id = actor, rev_payload = payload\<rparr>]\<rparr>"

definition existing_state :: api_error where
  "existing_state = conflict ''The runtime request conflicts with existing state''"

text \<open>A queued command and the two unique indexes on the queue.\<close>

definition idempotency_clash :: "int \<Rightarrow> string option \<Rightarrow> command_kind \<Rightarrow> runtime_db \<Rightarrow> bool" where
  "idempotency_clash user key kind d \<longleftrightarrow> key \<noteq> None \<and>
     (\<exists>c \<in> set (rt_commands d). cmd_requested_by c = Some user \<and> cmd_idempotency_key c = key \<and> cmd_kind c = kind)"

definition queue_command ::
  "time \<Rightarrow> runtime_instance \<Rightarrow> command_kind \<Rightarrow> int \<Rightarrow> json \<Rightarrow> int \<Rightarrow> string option
   \<Rightarrow> runtime_db \<Rightarrow> uuid answer \<times> runtime_db" where
  "queue_command now i kind generation payload user key d =
     (if idempotency_clash user key kind d then (Inl existing_state, d)
      else if \<exists>c \<in> set (rt_commands d). open_command (ins_id i) kind c \<and> cmd_generation c = generation
      then (Inl database_error, d)
      else (Inr (rt_next_id d),
        d\<lparr>rt_commands := rt_commands d @ [(new_command now (rt_next_id d) (ins_id i) kind generation
             (ins_private_revision i) (ins_runtime_revision i) payload)
             \<lparr>cmd_requested_by := Some user, cmd_idempotency_key := key\<rparr>],
          rt_next_id := rt_next_id d + 1\<rparr>))"

definition instance_by_id :: "uuid \<Rightarrow> runtime_db \<Rightarrow> runtime_instance answer" where
  "instance_by_id i d = found (not_found ''Instance not found'') (find_instance i d)"

definition active_instance_for_user :: "int \<Rightarrow> runtime_db \<Rightarrow> runtime_instance option" where
  "active_instance_for_user user d =
     List.find (\<lambda>i. ins_owner_user_id i = user \<and> ins_active i) (rt_instances d)"

definition idempotency_key :: "string option option \<Rightarrow> string option \<Rightarrow> string option answer" where
  "idempotency_key header body_value =
     (case header of
        Some None \<Rightarrow> Inl (bad_request ''Invalid Idempotency-Key header'')
      | _ \<Rightarrow>
          let value = map_option trim (case header of Some (Some h) \<Rightarrow> Some h | _ \<Rightarrow> body_value) in
          if (case value of None \<Rightarrow> False | Some v \<Rightarrow> v = [] \<or> length v > 128 \<or> has_control v)
          then Inl (bad_request ''Invalid idempotency key'') else Inr value)"

section \<open>Launching\<close>

record launch_gate =
  lg_challenge_state :: string
  lg_exposure :: string
  lg_setting_enabled :: bool
  lg_setting_revision :: int
  lg_config :: runtime_config

text \<open>What the outer joins give where the challenge has no configuration.\<close>

definition no_config :: "int \<Rightarrow> runtime_config" where
  "no_config challenge_id = \<lparr>rcf_challenge_id = challenge_id, rcf_mode = ''static'', rcf_enabled = False,
     rcf_image_digest = None, rcf_protocol = ''tcp'', rcf_container_port = None, rcf_default_ttl = 1800,
     rcf_maximum_ttl = 3600, rcf_allow_extension = True, rcf_maximum_extensions = 2, rcf_cpu_limit = None,
     rcf_memory_limit = None, rcf_pid_limit = None, rcf_storage_limit = None, rcf_healthcheck = JObj [],
     rcf_remote_pool = None, rcf_revision = 0\<rparr>"

definition load_launch_gate :: "int \<Rightarrow> portal_db \<Rightarrow> launch_gate answer" where
  "load_launch_gate challenge_id p =
     (case find_challenge challenge_id p of
        None \<Rightarrow> Inl (not_found ''Challenge not found'')
      | Some c \<Rightarrow> Inr \<lparr>lg_challenge_state = ch_state c, lg_exposure = ch_exposure c,
          lg_setting_enabled = setting_enabled (pd_runtime p), lg_setting_revision = setting_revision (pd_runtime p),
          lg_config = coalesce (config_of challenge_id (pd_runtime p)) (no_config challenge_id)\<rparr>)"

definition load_launch_gate_tx :: "int \<Rightarrow> portal_db \<Rightarrow> launch_gate answer" where
  "load_launch_gate_tx challenge_id p =
     (case (find_challenge challenge_id p, rt_setting (pd_runtime p), config_of challenge_id (pd_runtime p)) of
        (Some c, Some (enabled, revision), Some config) \<Rightarrow>
          Inr \<lparr>lg_challenge_state = ch_state c, lg_exposure = ch_exposure c, lg_setting_enabled = enabled,
            lg_setting_revision = revision, lg_config = config\<rparr>
      | _ \<Rightarrow> Inl (conflict ''Managed runtime configuration is unavailable''))"

definition check_launch_gate :: "current_user \<Rightarrow> launch_gate \<Rightarrow> unit answer" where
  "check_launch_gate u gate =
     (if \<not> is_admin u \<and> lg_challenge_state gate \<noteq> ''visible'' then Inl (not_found ''Challenge not found'')
      else if lg_exposure gate \<noteq> ''private'' \<or> \<not> lg_setting_enabled gate \<or> \<not> rcf_enabled (lg_config gate) \<or>
         rcf_mode (lg_config gate) \<noteq> ''managed''
      then Inl (conflict ''This challenge does not currently provide a managed instance'')
      else Inr ())"

fun opt_json :: "('a \<Rightarrow> json) \<Rightarrow> 'a option \<Rightarrow> json" where
  "opt_json f None = JNull"
| "opt_json f (Some x) = f x"

definition deployment_snapshot :: "runtime_config \<Rightarrow> string option \<Rightarrow> json" where
  "deployment_snapshot c flag_value =
     JObj ([(''image_digest'', opt_json JStr (rcf_image_digest c)), (''protocol'', JStr (rcf_protocol c)),
       (''container_port'', opt_json JInt (rcf_container_port c)), (''cpu_limit'', opt_json JStr (rcf_cpu_limit c)),
       (''memory_limit_bytes'', opt_json JInt (rcf_memory_limit c)), (''pid_limit'', opt_json JInt (rcf_pid_limit c)),
       (''storage_limit_bytes'', opt_json JInt (rcf_storage_limit c)), (''healthcheck'', rcf_healthcheck c),
       (''remote_pool'', opt_json JStr (rcf_remote_pool c))]
       @ (case flag_value of None \<Rightarrow> [] | Some v \<Rightarrow> [(''flag_value'', JStr v)]))"

definition requested_instance ::
  "time \<Rightarrow> uuid \<Rightarrow> int \<Rightarrow> int option \<Rightarrow> int \<Rightarrow> launch_gate \<Rightarrow> json \<Rightarrow> time \<Rightarrow> time \<Rightarrow> runtime_instance" where
  "requested_instance db_now i user team challenge_id gate snapshot desired maximum =
     \<lparr>ins_id = i, ins_owner_user_id = user, ins_created_by_user_id = user, ins_team_id = team,
      ins_challenge_id = challenge_id, ins_private_revision = lg_setting_revision gate,
      ins_runtime_revision = rcf_revision (lg_config gate), ins_deployment_snapshot = snapshot,
      ins_active = True, ins_desired_state = Want_Running, ins_observed_state = Obs_Requested,
      ins_desired_expires_at = desired, ins_maximum_expires_at = maximum, ins_observed_expires_at = None,
      ins_expires_at = desired, ins_remote_server_id = None, ins_remote_container_id = None,
      ins_remote_ip = None, ins_container_port = None, ins_published_ip = None, ins_published_port = None,
      ins_protocol = Some (rcf_protocol (lg_config gate)), ins_public_hostname = None, ins_endpoint_url = None,
      ins_generation = 1, ins_observed_generation = 0, ins_extension_count = 0, ins_created_at = db_now,
      ins_activated_at = None, ins_ready_at = None, ins_last_observed_at = None, ins_stopped_at = None,
      ins_failure_code = None, ins_failure_message = None\<rparr>"

text \<open>The insertion: the index \<open>runtime_instances_one_active_per_user\<close> and the row's checks.\<close>

definition insert_instance :: "runtime_instance \<Rightarrow> runtime_db \<Rightarrow> runtime_instance answer \<times> runtime_db" where
  "insert_instance i d =
     (if \<exists>r \<in> set (rt_instances d). ins_active r \<and> ins_owner_user_id r = ins_owner_user_id i
      then (Inl existing_state, d)
      else if \<not> (ins_desired_expires_at i \<le> ins_maximum_expires_at i \<and> ins_expires_at i \<le> ins_maximum_expires_at i)
      then (Inl database_error, d)
      else (Inr i, d\<lparr>rt_instances := rt_instances d @ [i], rt_next_id := rt_next_id d + 1\<rparr>))"

record api_clocks =
  ac_app :: time
  ac_db :: time
  ac_unix :: int

record api_env =
  ap_flags :: flag_env
  ap_secret_key :: string
  ap_session_lifetime :: int

record ensure_request =
  er_ttl :: "int option"
  er_key :: "string option"

definition launch_team :: "current_user \<Rightarrow> portal_db \<Rightarrow> int option answer" where
  "launch_team u p =
     (let team_mode = (user_mode p = ''teams'') in
      case find_user (cu_id u) p of
        None \<Rightarrow> Inl database_error
      | Some a \<Rightarrow>
          (let team = (if team_mode then usr_team_id a else None) in
           if team_mode \<and> \<not> is_admin u \<and> team = None
           then Inl (forbidden ''Join a team before starting a challenge'') else Inr team))"

definition launch_instance ::
  "api_clocks \<Rightarrow> current_user \<Rightarrow> int \<Rightarrow> launch_gate \<Rightarrow> int \<Rightarrow> int option \<Rightarrow> string option \<Rightarrow> string option
   \<Rightarrow> runtime_db \<Rightarrow> (status_code \<times> runtime_instance) answer \<times> runtime_db" where
  "launch_instance ck u challenge_id gate ttl team key flag_value d =
     (let config = lg_config gate;
          row = requested_instance (ac_db ck) (rt_next_id d) (cu_id u) team challenge_id gate
            (deployment_snapshot config flag_value) (ac_app ck + secs ttl) (ac_app ck + secs (rcf_maximum_ttl config))
      in and_then (insert_instance row d) (\<lambda>i d.
         let d = append_api_event (ins_id i) ''instance.requested'' (Some (cu_id u))
               (JObj [(''challenge_id'', JInt challenge_id), (''request_ip'', JStr (cu_request_ip u))]) d
         in and_then (queue_command (ac_db ck) i Cmd_Start 1 (JObj []) (cu_id u) key d) (\<lambda>command_id d.
         let d = notify command_channel (uuid_text command_id) d in
         and_then (reading (instance_by_id (ins_id i)) d) (\<lambda>i d. (Inr (Accepted_202, i), d)))))"

definition ensure_body ::
  "api_env \<Rightarrow> api_clocks \<Rightarrow> uuid \<Rightarrow> 64 word \<Rightarrow> current_user \<Rightarrow> int \<Rightarrow> int option \<Rightarrow> string option
   \<Rightarrow> portal_db \<Rightarrow> (status_code \<times> runtime_instance) answer \<times> portal_db" where
  "ensure_body env ck fresh_token fresh_bits u challenge_id requested_ttl key p =
     and_then (revalidate_current_credential (ac_db ck) (ap_session_lifetime env) u p) (\<lambda>_ p.
     and_then (reading (load_launch_gate_tx challenge_id) p) (\<lambda>gate p.
     and_then (check_launch_gate u gate, p) (\<lambda>_ p.
     let ttl = coalesce requested_ttl (rcf_default_ttl (lg_config gate)) in
     and_then (require (60 \<le> ttl \<and> ttl \<le> rcf_maximum_ttl (lg_config gate))
       (bad_request ''Requested lifetime is outside the challenge limits'') p) (\<lambda>_ p.
     and_then (reading (launch_team u) p) (\<lambda>team p.
     and_then (require_full_challenge_access (ac_unix ck) (Some u) challenge_id p) (\<lambda>_ p.
     (case active_instance_for_user (cu_id u) (pd_runtime p) of
        Some existing \<Rightarrow>
          (if ins_challenge_id existing = challenge_id then Inr (Ok_200, existing)
           else Inl (conflict (''You already have an active instance for challenge '' @
             show_int (ins_challenge_id existing))), p)
      | None \<Rightarrow>
          and_then (materialize_for_launch (ap_flags env) fresh_token fresh_bits challenge_id (cu_id u)
              (ap_secret_key env) p) (\<lambda>flag_value p.
            on_runtime (launch_instance ck u challenge_id gate ttl team key flag_value) p))))))))"

definition ensure_instance ::
  "api_env \<Rightarrow> api_clocks \<Rightarrow> uuid \<Rightarrow> 64 word \<Rightarrow> bool \<Rightarrow> (nat \<Rightarrow> portal_db) \<Rightarrow> current_user \<Rightarrow> int
   \<Rightarrow> string option option \<Rightarrow> ensure_request \<Rightarrow> portal_db \<Rightarrow> (status_code \<times> runtime_instance) answer \<times> portal_db" where
  "ensure_instance env ck fresh_token fresh_bits database_fails before u challenge_id header request p =
     and_then (require_challenge_visibility (Some u) (before 0), p) (\<lambda>_ p.
     and_then (require_ctf_time (ac_unix ck) (Some u) (before 1), p) (\<lambda>_ p.
     and_then (require_verified (Some u) (before 2), p) (\<lambda>_ p.
     and_then (load_launch_gate challenge_id (before 3), p) (\<lambda>gate p.
     and_then (check_launch_gate u gate, p) (\<lambda>_ p.
     and_then (idempotency_key header (er_key request), p) (\<lambda>key p.
       in_transaction database_fails
         (ensure_body env ck fresh_token fresh_bits u challenge_id (er_ttl request) key) p))))))"

section \<open>Extending, stopping and reconciling\<close>

record extend_request =
  xr_seconds :: "int option"
  xr_key :: "string option"

definition authorize_instance :: "current_user \<Rightarrow> runtime_instance \<Rightarrow> unit answer" where
  "authorize_instance u i =
     (if \<not> is_admin u \<and> ins_owner_user_id i \<noteq> cu_id u then Inl (not_found ''Instance not found'') else Inr ())"

text \<open>The instance that an earlier extension with this key was for.\<close>

definition extension_with_key :: "int \<Rightarrow> string option \<Rightarrow> runtime_db \<Rightarrow> uuid option" where
  "extension_with_key user key d =
     (if key = None then None
      else map_option cmd_instance_id (List.find (\<lambda>c. cmd_requested_by c = Some user \<and>
        cmd_idempotency_key c = key \<and> cmd_kind c = Cmd_Extend) (rt_commands d)))"

record extension_limits =
  xl_allowed :: bool
  xl_maximum :: int
  xl_default_ttl :: int

definition extension_limits_of :: "int \<Rightarrow> runtime_db \<Rightarrow> extension_limits" where
  "extension_limits_of challenge_id d =
     (case config_of challenge_id d of
        None \<Rightarrow> \<lparr>xl_allowed = False, xl_maximum = 0, xl_default_ttl = 900\<rparr>
      | Some c \<Rightarrow> \<lparr>xl_allowed = rcf_allow_extension c, xl_maximum = rcf_maximum_extensions c,
          xl_default_ttl = rcf_default_ttl c\<rparr>)"

definition extended_deadline ::
  "time \<Rightarrow> runtime_instance \<Rightarrow> extension_limits \<Rightarrow> int option \<Rightarrow> time answer" where
  "extended_deadline now i limits seconds =
     (if \<not> ins_active i \<or> ins_desired_state i \<noteq> Want_Running \<or> ins_observed_state i \<noteq> Obs_Ready \<or>
         ins_expires_at i \<le> now
      then Inl (conflict ''This instance cannot be extended'')
      else if \<not> xl_allowed limits \<or> ins_extension_count i \<ge> xl_maximum limits
      then Inl (forbidden ''No instance extensions remain'')
      else
        let additional = coalesce seconds (xl_default_ttl limits);
            deadline = min (ins_desired_expires_at i + secs additional) (ins_maximum_expires_at i)
        in if \<not> (60 \<le> additional \<and> additional \<le> 86400)
           then Inl (bad_request ''Extension must be between 60 seconds and 24 hours'')
           else if deadline \<le> ins_desired_expires_at i
           then Inl (conflict ''The instance has reached its maximum lifetime'')
           else Inr deadline)"

definition prolong :: "uuid \<Rightarrow> time \<Rightarrow> int \<Rightarrow> runtime_db \<Rightarrow> runtime_db" where
  "prolong i deadline generation d = d\<lparr>rt_instances := update_where (\<lambda>r. ins_id r = i)
     (\<lambda>r. r\<lparr>ins_desired_expires_at := deadline, ins_generation := generation,
            ins_extension_count := ins_extension_count r + 1\<rparr>) (rt_instances d)\<rparr>"

definition extend_now ::
  "api_clocks \<Rightarrow> current_user \<Rightarrow> runtime_instance \<Rightarrow> int option \<Rightarrow> string option
   \<Rightarrow> runtime_db \<Rightarrow> (status_code \<times> runtime_instance) answer \<times> runtime_db" where
  "extend_now ck u i seconds key d =
     and_then (extended_deadline (ac_app ck) i (extension_limits_of (ins_challenge_id i) d) seconds, d)
       (\<lambda>deadline d.
     let generation = ins_generation i + 1 in
     and_then (queue_command (ac_db ck) i Cmd_Extend generation
          (JObj [(''requested_expires_at'', JTime deadline)]) (cu_id u) key (prolong (ins_id i) deadline generation d))
       (\<lambda>command_id d.
     let d = append_api_event (ins_id i) ''instance.extension_requested'' (Some (cu_id u))
           (JObj [(''command_id'', json_uuid command_id), (''requested_expires_at'', JTime deadline)]) d;
         d = notify command_channel (uuid_text command_id) d
     in and_then (reading (instance_by_id (ins_id i)) d) (\<lambda>i d. (Inr (Accepted_202, i), d))))"

definition extend_step ::
  "api_clocks \<Rightarrow> current_user \<Rightarrow> uuid \<Rightarrow> int option \<Rightarrow> string option
   \<Rightarrow> runtime_db \<Rightarrow> (status_code \<times> runtime_instance) answer \<times> runtime_db" where
  "extend_step ck u instance_id seconds key d =
     and_then (reading (instance_by_id instance_id) d) (\<lambda>i d.
     and_then (authorize_instance u i, d) (\<lambda>_ d.
     case extension_with_key (cu_id u) key d of
       Some existing \<Rightarrow>
         if existing \<noteq> instance_id
         then (Inl (conflict ''Idempotency key was already used for another instance''), d)
         else (Inr (Ok_200, i), d)
     | None \<Rightarrow> extend_now ck u i seconds key d))"

definition runtime_transaction ::
  "api_env \<Rightarrow> api_clocks \<Rightarrow> bool \<Rightarrow> current_user \<Rightarrow> (runtime_db \<Rightarrow> 'a answer \<times> runtime_db)
   \<Rightarrow> portal_db \<Rightarrow> 'a answer \<times> portal_db" where
  "runtime_transaction env ck database_fails u step =
     in_transaction database_fails (\<lambda>p.
       and_then (revalidate_current_credential (ac_db ck) (ap_session_lifetime env) u p) (\<lambda>_ p. on_runtime step p))"

definition extend_instance ::
  "api_env \<Rightarrow> api_clocks \<Rightarrow> bool \<Rightarrow> current_user \<Rightarrow> uuid \<Rightarrow> string option option \<Rightarrow> extend_request
   \<Rightarrow> portal_db \<Rightarrow> (status_code \<times> runtime_instance) answer \<times> portal_db" where
  "extend_instance env ck database_fails u instance_id header request p =
     and_then (idempotency_key header (xr_key request), p) (\<lambda>key p.
       runtime_transaction env ck database_fails u (extend_step ck u instance_id (xr_seconds request) key) p)"

definition stop_now ::
  "api_clocks \<Rightarrow> current_user \<Rightarrow> runtime_instance \<Rightarrow> string
   \<Rightarrow> runtime_db \<Rightarrow> (status_code \<times> runtime_instance) answer \<times> runtime_db" where
  "stop_now ck u i reason d =
     (let generation = ins_generation i + 1;
          d = d\<lparr>rt_instances := update_where (\<lambda>r. ins_id r = ins_id i)
                (\<lambda>r. r\<lparr>ins_desired_state := Want_Stopped, ins_generation := generation\<rparr>) (rt_instances d)\<rparr>
      in and_then (queue_command (ac_db ck) i Cmd_Terminate generation (JObj [(''reason'', JStr reason)])
           (cu_id u) None d) (\<lambda>command_id d.
      let d = append_api_event (ins_id i) ''instance.termination_requested'' (Some (cu_id u))
            (JObj [(''command_id'', json_uuid command_id), (''reason'', JStr reason)]) d;
          d = notify command_channel (uuid_text command_id) d
      in and_then (reading (instance_by_id (ins_id i)) d) (\<lambda>i d. (Inr (Accepted_202, i), d))))"

definition terminate_step ::
  "api_clocks \<Rightarrow> current_user \<Rightarrow> uuid \<Rightarrow> string
   \<Rightarrow> runtime_db \<Rightarrow> (status_code \<times> runtime_instance) answer \<times> runtime_db" where
  "terminate_step ck u instance_id reason d =
     and_then (reading (instance_by_id instance_id) d) (\<lambda>i d.
     and_then (authorize_instance u i, d) (\<lambda>_ d.
     if \<not> ins_active i \<or> ins_desired_state i = Want_Stopped then (Inr (Ok_200, i), d)
     else stop_now ck u i reason d))"

definition request_termination ::
  "api_env \<Rightarrow> api_clocks \<Rightarrow> bool \<Rightarrow> current_user \<Rightarrow> uuid \<Rightarrow> string
   \<Rightarrow> portal_db \<Rightarrow> (status_code \<times> runtime_instance) answer \<times> portal_db" where
  "request_termination env ck database_fails u instance_id reason =
     runtime_transaction env ck database_fails u (terminate_step ck u instance_id reason)"

definition terminate_instance ::
  "api_env \<Rightarrow> api_clocks \<Rightarrow> bool \<Rightarrow> current_user \<Rightarrow> uuid
   \<Rightarrow> portal_db \<Rightarrow> (status_code \<times> runtime_instance) answer \<times> portal_db" where
  "terminate_instance env ck database_fails u instance_id =
     request_termination env ck database_fails u instance_id ''user_requested''"

definition challenge_instance :: "current_user \<Rightarrow> int \<Rightarrow> portal_db \<Rightarrow> runtime_instance answer" where
  "challenge_instance u challenge_id p =
     found (not_found ''No active instance exists for this challenge'')
       (case active_instance_for_user (cu_id u) (pd_runtime p) of
          None \<Rightarrow> None | Some i \<Rightarrow> if ins_challenge_id i = challenge_id then Some i else None)"

definition terminate_challenge_instance ::
  "api_env \<Rightarrow> api_clocks \<Rightarrow> bool \<Rightarrow> portal_db \<Rightarrow> current_user \<Rightarrow> int
   \<Rightarrow> portal_db \<Rightarrow> (status_code \<times> runtime_instance) answer \<times> portal_db" where
  "terminate_challenge_instance env ck database_fails before u challenge_id p =
     and_then (challenge_instance u challenge_id before, p) (\<lambda>i p.
       request_termination env ck database_fails u (ins_id i) ''user_requested'' p)"

definition detail :: "current_user \<Rightarrow> uuid \<Rightarrow> portal_db \<Rightarrow> runtime_instance answer" where
  "detail u instance_id p =
     (case instance_by_id instance_id (pd_runtime p) of
        Inl e \<Rightarrow> Inl e
      | Inr i \<Rightarrow> (case authorize_instance u i of Inl e \<Rightarrow> Inl e | Inr _ \<Rightarrow> Inr i))"

definition instance_events :: "current_user \<Rightarrow> uuid \<Rightarrow> portal_db \<Rightarrow> portal_db \<Rightarrow> runtime_event list answer" where
  "instance_events u instance_id p q =
     (case detail u instance_id p of
        Inl e \<Rightarrow> Inl e
      | Inr _ \<Rightarrow> Inr (filter (\<lambda>e. rev_instance_id e = instance_id) (rt_events (pd_runtime q))))"

text \<open>\<open>ON CONFLICT DO NOTHING\<close>: an open reconciliation of the generation is enough.\<close>

definition reconcile_step ::
  "api_clocks \<Rightarrow> current_user \<Rightarrow> uuid
   \<Rightarrow> runtime_db \<Rightarrow> (status_code \<times> runtime_instance) answer \<times> runtime_db" where
  "reconcile_step ck u instance_id d =
     and_then (reading (instance_by_id instance_id) d) (\<lambda>i d.
     and_then (require (ins_remote_server_id i \<noteq> None) (conflict ''Instance has no assigned remote server'') d) (\<lambda>_ d.
     (Inr (Accepted_202, i),
      case queue_command (ac_db ck) i Cmd_Reconcile (ins_generation i) (JObj []) (cu_id u) None d of
        (Inl _, _) \<Rightarrow> d
      | (Inr command_id, d) \<Rightarrow> notify command_channel (uuid_text command_id)
          (append_api_event instance_id ''instance.reconciliation_requested'' (Some (cu_id u))
            (JObj [(''command_id'', json_uuid command_id)]) d))))"

definition reconcile_instance ::
  "api_env \<Rightarrow> api_clocks \<Rightarrow> bool \<Rightarrow> current_user \<Rightarrow> uuid
   \<Rightarrow> portal_db \<Rightarrow> (status_code \<times> runtime_instance) answer \<times> portal_db" where
  "reconcile_instance env ck database_fails u instance_id p =
     and_then (require_admin u p) (\<lambda>_ p.
       runtime_transaction env ck database_fails u (reconcile_step ck u instance_id) p)"

end
