(* ===== verification/RuntimeAdmin.thy ===== *)
theory RuntimeAdmin
  imports RuntimeApi
begin

text \<open>
  The administrator's side of the runtime control plane (\<open>services/api/src/routes/runtimes.rs\<close>): the
  global setting, the runtime configuration of a challenge with its validation, the remote servers,
  and the listings. \<open>read_config\<close> is the derived reader of a \<open>RuntimeConfigInput\<close>. \<open>updated_at\<close> and
  \<open>updated_by_user_id\<close> are not modelled.
\<close>

section \<open>The global setting\<close>

definition load_setting :: "runtime_db \<Rightarrow> (bool \<times> int) answer" where
  "load_setting d = found database_error (rt_setting d)"

definition get_private_challenges_setting :: "current_user \<Rightarrow> portal_db \<Rightarrow> (bool \<times> int) answer \<times> portal_db" where
  "get_private_challenges_setting u p =
     and_then (require_admin u p) (\<lambda>_. reading (\<lambda>p. load_setting (pd_runtime p)))"

definition set_setting :: "bool \<Rightarrow> int \<Rightarrow> runtime_db \<Rightarrow> (bool \<times> int) answer \<times> runtime_db" where
  "set_setting enabled revision d =
     (Inr (enabled, revision),
      notify settings_channel (show_int revision) (d\<lparr>rt_setting := Some (enabled, revision)\<rparr>))"

definition update_setting_step :: "bool \<Rightarrow> runtime_db \<Rightarrow> (bool \<times> int) answer \<times> runtime_db" where
  "update_setting_step enabled d =
     and_then (reading load_setting d) (\<lambda>(_, revision) d. set_setting enabled (revision + 1) d)"

definition update_private_challenges_setting ::
  "bool \<Rightarrow> current_user \<Rightarrow> bool \<Rightarrow> portal_db \<Rightarrow> (bool \<times> int) answer \<times> portal_db" where
  "update_private_challenges_setting database_fails u enabled p =
     and_then (require_admin u p) (\<lambda>_.
       in_transaction database_fails (on_runtime (update_setting_step enabled)))"

text \<open>What creating or publishing a private challenge does to the setting.\<close>

definition prepare_private_challenge_gate :: "bool \<Rightarrow> runtime_db \<Rightarrow> bool answer \<times> runtime_db" where
  "prepare_private_challenge_gate enable d =
     and_then (reading load_setting d) (\<lambda>(currently_enabled, current_revision) d.
       if currently_enabled \<or> \<not> enable then (Inr currently_enabled, d)
       else and_then (set_setting True (current_revision + 1) d) (\<lambda>_ d. (Inr True, d)))"

section \<open>The configuration of a challenge\<close>

record runtime_config_input =
  rci_mode :: string
  rci_enable_global_gate :: bool
  rci_enabled :: bool
  rci_image_digest :: "string option"
  rci_protocol :: string
  rci_container_port :: "int option"
  rci_default_ttl :: int
  rci_maximum_ttl :: int
  rci_allow_extension :: bool
  rci_maximum_extensions :: int
  rci_cpu_limit :: "string option"
  rci_memory_limit :: "int option"
  rci_pid_limit :: "int option"
  rci_storage_limit :: "int option"
  rci_healthcheck :: json
  rci_remote_pool :: "string option"

definition normalize_optional :: "string option \<Rightarrow> string option" where
  "normalize_optional value =
     (case map_option trim value of None \<Rightarrow> None | Some v \<Rightarrow> if v = [] then None else Some v)"

fun rsplit_once :: "string \<Rightarrow> string \<Rightarrow> (string \<times> string) option" where
  "rsplit_once p [] = None"
| "rsplit_once p (c # cs) =
     (case rsplit_once p cs of
        Some (before, after) \<Rightarrow> Some (c # before, after)
      | None \<Rightarrow> map_option (Pair []) (strip_prefix p (c # cs)))"

definition lower_hex :: "char \<Rightarrow> bool" where
  "lower_hex c \<longleftrightarrow> digit c \<or> (97 \<le> (of_char c :: nat) \<and> (of_char c :: nat) \<le> 102)"

definition valid_image_digest :: "string \<Rightarrow> bool" where
  "valid_image_digest value \<longleftrightarrow>
     (case rsplit_once ''@sha256:'' value of
        None \<Rightarrow> False
      | Some (repository, image_digest) \<Rightarrow>
          repository \<noteq> [] \<and> ascii_alphanumeric (hd repository) \<and>
          (\<forall>c \<in> set repository. ascii_alphanumeric c \<or> c \<in> set ''._:/-'') \<and>
          length image_digest = 64 \<and> (\<forall>c \<in> set image_digest. lower_hex c))"

definition outside :: "int \<Rightarrow> int \<Rightarrow> int option \<Rightarrow> bool" where
  "outside lo hi x \<longleftrightarrow> (case x of None \<Rightarrow> False | Some v \<Rightarrow> \<not> (lo \<le> v \<and> v \<le> hi))"

definition not_positive :: "int option \<Rightarrow> bool" where
  "not_positive x \<longleftrightarrow> (case x of None \<Rightarrow> False | Some v \<Rightarrow> v \<le> 0)"

definition bad_number :: "int \<Rightarrow> int \<Rightarrow> json option \<Rightarrow> bool" where
  "bad_number lo hi v \<longleftrightarrow>
     (case v of None \<Rightarrow> False
      | Some v \<Rightarrow> (case json_i64 v of None \<Rightarrow> True | Some i \<Rightarrow> \<not> (lo \<le> i \<and> i \<le> hi)))"

definition healthcheck_keys :: "string list" where
  "healthcheck_keys = [''command'', ''interval_seconds'', ''timeout_seconds'', ''retries'', ''startup_timeout_seconds'']"

fun json_object :: "json \<Rightarrow> (string \<times> json) list option" where
  "json_object (JObj members) = Some members"
| "json_object _ = None"

definition bad_healthcheck_command :: "json option \<Rightarrow> bool" where
  "bad_healthcheck_command v \<longleftrightarrow>
     (case v of None \<Rightarrow> False
      | Some v \<Rightarrow> (case json_str v of None \<Rightarrow> True
          | Some s \<Rightarrow> s = [] \<or> length s > 1000 \<or> CHR 0x00 \<in> set s))"

definition validate_healthcheck :: "json \<Rightarrow> unit answer" where
  "validate_healthcheck value =
     (case json_object value of
        None \<Rightarrow> Inl (bad_request ''Healthcheck must be a JSON object'')
      | Some members \<Rightarrow>
          if \<exists>k \<in> fst ` set members. k \<notin> set healthcheck_keys
          then Inl (bad_request ''Healthcheck contains unsupported fields'')
          else if bad_healthcheck_command (map_of members ''command'')
          then Inl (bad_request ''Healthcheck command is invalid'')
          else if bad_number 1 300 (map_of members ''interval_seconds'')
          then Inl (bad_request ''Healthcheck interval_seconds is invalid'')
          else if bad_number 1 300 (map_of members ''timeout_seconds'')
          then Inl (bad_request ''Healthcheck timeout_seconds is invalid'')
          else if bad_number 1 300 (map_of members ''retries'')
          then Inl (bad_request ''Healthcheck retries is invalid'')
          else if bad_number 1 55 (map_of members ''startup_timeout_seconds'')
          then Inl (bad_request ''Healthcheck startup_timeout_seconds is invalid'')
          else Inr ())"

definition bad_cpu_limit :: "string option \<Rightarrow> bool" where
  "bad_cpu_limit value \<longleftrightarrow>
     (case value of None \<Rightarrow> False
      | Some s \<Rightarrow> (case parse_f64 s of None \<Rightarrow> True | Some x \<Rightarrow> \<not> (f64 (1 / 100) \<le> x \<and> x \<le> 256)))"

definition validate_runtime_config :: "runtime_config_input \<Rightarrow> unit answer" where
  "validate_runtime_config r =
     (if rci_mode r \<notin> {''static'', ''managed''} then Inl (bad_request ''Unsupported runtime mode'')
      else if rci_protocol r \<notin> {''tcp'', ''http'', ''https''} then Inl (bad_request ''Unsupported runtime protocol'')
      else if rci_mode r = ''managed'' \<and>
        ((case rci_image_digest r of None \<Rightarrow> True | Some v \<Rightarrow> \<not> valid_image_digest (trim v)) \<or>
         rci_container_port r = None)
      then Inl (bad_request ''Managed runtimes require an image digest and container port'')
      else if outside 1 65535 (rci_container_port r) \<or> \<not> (60 \<le> rci_default_ttl r \<and> rci_default_ttl r \<le> 86400) \<or>
        rci_maximum_ttl r < rci_default_ttl r \<or> rci_maximum_ttl r > 604800 \<or> rci_maximum_extensions r < 0 \<or>
        not_positive (rci_memory_limit r) \<or> not_positive (rci_pid_limit r) \<or> not_positive (rci_storage_limit r)
      then Inl (bad_request ''Invalid runtime resource or lifetime limit'')
      else if bad_cpu_limit (rci_cpu_limit r)
      then Inl (bad_request ''CPU limit must be between 0.01 and 256'')
      else validate_healthcheck (rci_healthcheck r))"

definition parse_direct_runtime_config ::
  "(json \<Rightarrow> string + runtime_config_input) \<Rightarrow> json \<Rightarrow> runtime_config_input answer" where
  "parse_direct_runtime_config read_config payload =
     (if json_get ''enable_global_gate'' payload \<noteq> None
      then Inl (bad_request ''enable_global_gate is not accepted by the runtime endpoint; use challenge create or PATCH'')
      else case read_config payload of
        Inl e \<Rightarrow> Inl (bad_request (''Runtime configuration is invalid: '' @ e))
      | Inr r \<Rightarrow> Inr r)"

definition config_row :: "int \<Rightarrow> int \<Rightarrow> runtime_config_input \<Rightarrow> runtime_config" where
  "config_row challenge_id revision r =
     \<lparr>rcf_challenge_id = challenge_id, rcf_mode = rci_mode r, rcf_enabled = rci_enabled r,
      rcf_image_digest = normalize_optional (rci_image_digest r), rcf_protocol = rci_protocol r,
      rcf_container_port = rci_container_port r, rcf_default_ttl = rci_default_ttl r,
      rcf_maximum_ttl = rci_maximum_ttl r, rcf_allow_extension = rci_allow_extension r,
      rcf_maximum_extensions = rci_maximum_extensions r, rcf_cpu_limit = normalize_optional (rci_cpu_limit r),
      rcf_memory_limit = rci_memory_limit r, rcf_pid_limit = rci_pid_limit r,
      rcf_storage_limit = rci_storage_limit r, rcf_healthcheck = rci_healthcheck r,
      rcf_remote_pool = normalize_optional (rci_remote_pool r), rcf_revision = revision\<rparr>"

text \<open>The \<open>CHECK\<close> constraints of \<open>challenge_runtime_configs\<close>.\<close>

definition config_checks :: "runtime_config \<Rightarrow> bool" where
  "config_checks c \<longleftrightarrow>
     rcf_mode c \<in> {''static'', ''managed''} \<and> rcf_protocol c \<in> {''tcp'', ''http'', ''https''} \<and>
     \<not> outside 1 65535 (rcf_container_port c) \<and> 60 \<le> rcf_default_ttl c \<and> rcf_default_ttl c \<le> 86400 \<and>
     rcf_default_ttl c \<le> rcf_maximum_ttl c \<and> rcf_maximum_ttl c \<le> 604800 \<and> 0 \<le> rcf_maximum_extensions c \<and>
     \<not> not_positive (rcf_memory_limit c) \<and> \<not> not_positive (rcf_pid_limit c) \<and>
     \<not> not_positive (rcf_storage_limit c) \<and> 0 < rcf_revision c \<and>
     (rcf_mode c = ''static'' \<or> rcf_image_digest c \<notin> {None, Some []} \<and> rcf_container_port c \<noteq> None)"

definition write_config :: "runtime_config \<Rightarrow> runtime_db \<Rightarrow> runtime_config answer \<times> runtime_db" where
  "write_config c d =
     (if \<not> config_checks c then (Inl database_error, d)
      else (Inr c, d\<lparr>rt_configs :=
        (if config_of (rcf_challenge_id c) d = None then rt_configs d @ [c]
         else update_where (\<lambda>r. rcf_challenge_id r = rcf_challenge_id c) (\<lambda>_. c) (rt_configs d))\<rparr>))"

definition upsert_runtime_config ::
  "int \<Rightarrow> runtime_config_input \<Rightarrow> runtime_db \<Rightarrow> runtime_config answer \<times> runtime_db" where
  "upsert_runtime_config challenge_id r d =
     and_then (validate_runtime_config r, d) (\<lambda>_ d.
       write_config (config_row challenge_id (runtime_revision_of challenge_id d + 1) r) d)"

definition get_challenge_runtime :: "current_user \<Rightarrow> int \<Rightarrow> portal_db \<Rightarrow> runtime_config answer \<times> portal_db" where
  "get_challenge_runtime u challenge_id p =
     and_then (require_admin u p) (\<lambda>_. reading (\<lambda>p.
       found (not_found ''Challenge runtime configuration not found'') (config_of challenge_id (pd_runtime p))))"

definition put_challenge_body ::
  "int \<Rightarrow> runtime_config_input \<Rightarrow> portal_db \<Rightarrow> runtime_config answer \<times> portal_db" where
  "put_challenge_body challenge_id r p =
     and_then (reading (\<lambda>p. found (not_found ''Challenge not found'') (find_challenge challenge_id p)) p) (\<lambda>c p.
     and_then (require (ch_exposure c = ''private'')
       (conflict ''Public challenges cannot define managed runtime configuration'') p) (\<lambda>_ p.
     and_then (require (rci_mode r = ''managed'')
       (bad_request ''Private challenges require a managed runtime'') p) (\<lambda>_ p.
     and_then (require (ch_state c = ''hidden'' \<or> rci_enabled r)
       (conflict ''Published private challenges require an enabled runtime'') p) (\<lambda>_ p.
     on_runtime (\<lambda>d. and_then (upsert_runtime_config challenge_id r d) (\<lambda>config d.
       (Inr config, notify challenge_channel (show_int challenge_id) d))) p))))"

definition put_challenge_runtime ::
  "(json \<Rightarrow> string + runtime_config_input) \<Rightarrow> api_env \<Rightarrow> api_clocks \<Rightarrow> bool \<Rightarrow> current_user \<Rightarrow> int \<Rightarrow> json
   \<Rightarrow> portal_db \<Rightarrow> runtime_config answer \<times> portal_db" where
  "put_challenge_runtime read_config env ck database_fails u challenge_id payload p =
     and_then (require_admin u p) (\<lambda>_ p.
     and_then (parse_direct_runtime_config read_config payload, p) (\<lambda>r p.
     and_then (validate_runtime_config r, p) (\<lambda>_ p.
       in_transaction database_fails (\<lambda>p.
         and_then (revalidate_current_credential (ac_db ck) (ap_session_lifetime env) u p)
           (\<lambda>_. put_challenge_body challenge_id r)) p)))"

section \<open>Remote servers\<close>

record remote_server_create =
  rsc_name :: string
  rsc_hostname :: string
  rsc_ssh_port :: int
  rsc_ssh_user :: string
  rsc_helper_path :: string
  rsc_host_key_alias :: "string option"
  rsc_pool :: "string option"
  rsc_capacity :: int

record remote_server_patch =
  rsp_name :: "string option"
  rsp_hostname :: "string option"
  rsp_ssh_port :: "int option"
  rsp_ssh_user :: "string option"
  rsp_helper_path :: "string option"
  rsp_host_key_alias :: "string option"
  rsp_pool :: "string option"
  rsp_capacity :: "int option"
  rsp_enabled :: "bool option"

text \<open>The API's own \<open>validate_remote_server\<close>; the one of the controller is in \<open>Remote\<close>.\<close>

definition check_remote_server ::
  "string \<Rightarrow> string \<Rightarrow> int \<Rightarrow> string \<Rightarrow> string \<Rightarrow> int \<Rightarrow> string option \<Rightarrow> unit answer" where
  "check_remote_server name hostname ssh_port ssh_user helper_path capacity host_key_alias =
     (if trim name = [] \<or> length name > 100 \<or> capacity \<le> 0
      then Inl (bad_request ''Invalid remote server name or capacity'')
      else if \<not> (1 \<le> ssh_port \<and> ssh_port \<le> 65535) \<or> \<not> safe_host_component (trim hostname) \<or>
        \<not> safe_user (trim ssh_user) \<or>
        (case host_key_alias of None \<Rightarrow> False | Some v \<Rightarrow> \<not> safe_host_component v)
      then Inl (bad_request ''Invalid remote SSH target'')
      else if helper_path = [] \<or> hd helper_path \<noteq> CHR ''/'' \<or>
        \<not> (\<forall>c \<in> set helper_path. ascii_alphanumeric c \<or> c \<in> set ''/._-'')
      then Inl (bad_request ''Invalid remote helper path'')
      else Inr ())"

definition name_taken :: "string \<Rightarrow> uuid option \<Rightarrow> runtime_db \<Rightarrow> bool" where
  "name_taken name self d \<longleftrightarrow>
     (\<exists>s \<in> set (rt_servers d). srv_name (sr_server s) = name \<and> Some (srv_id (sr_server s)) \<noteq> self)"

definition find_server_row :: "uuid \<Rightarrow> runtime_db \<Rightarrow> server_row option" where
  "find_server_row i d = List.find (\<lambda>s. srv_id (sr_server s) = i) (rt_servers d)"

definition server_by_id :: "uuid \<Rightarrow> runtime_db \<Rightarrow> server_row answer" where
  "server_by_id i d = found (not_found ''Remote server not found'') (find_server_row i d)"

definition list_remote_servers :: "current_user \<Rightarrow> portal_db \<Rightarrow> server_row list answer \<times> portal_db" where
  "list_remote_servers u p =
     and_then (require_admin u p) (\<lambda>_. reading (\<lambda>p.
       Inr (sort_key (\<lambda>s. srv_name (sr_server s)) (rt_servers (pd_runtime p)))))"

definition get_remote_server :: "current_user \<Rightarrow> uuid \<Rightarrow> portal_db \<Rightarrow> server_row answer \<times> portal_db" where
  "get_remote_server u i p =
     and_then (require_admin u p) (\<lambda>_. reading (\<lambda>p. server_by_id i (pd_runtime p)))"

definition insert_server :: "remote_server_create \<Rightarrow> runtime_db \<Rightarrow> server_row answer \<times> runtime_db" where
  "insert_server r d =
     (if name_taken (trim (rsc_name r)) None d then (Inl existing_state, d)
      else let row = \<lparr>sr_server = \<lparr>srv_id = rt_next_id d, srv_name = trim (rsc_name r),
                 srv_hostname = trim (rsc_hostname r), srv_ssh_port = rsc_ssh_port r,
                 srv_ssh_user = trim (rsc_ssh_user r), srv_helper_path = trim (rsc_helper_path r),
                 srv_identity_file = None, srv_host_key_alias = normalize_optional (rsc_host_key_alias r),
                 srv_pool = normalize_optional (rsc_pool r), srv_capacity = rsc_capacity r\<rparr>,
               sr_enabled = False\<rparr>
           in (Inr row, d\<lparr>rt_servers := rt_servers d @ [row], rt_next_id := rt_next_id d + 1\<rparr>))"

definition create_remote_server ::
  "bool \<Rightarrow> current_user \<Rightarrow> remote_server_create \<Rightarrow> portal_db \<Rightarrow> server_row answer \<times> portal_db" where
  "create_remote_server database_fails u r p =
     and_then (require_admin u p) (\<lambda>_ p.
     and_then (check_remote_server (rsc_name r) (rsc_hostname r) (rsc_ssh_port r) (rsc_ssh_user r)
         (rsc_helper_path r) (rsc_capacity r) (rsc_host_key_alias r), p) (\<lambda>_ p.
       in_transaction database_fails (on_runtime (insert_server r)) p))"

definition server_in_flight :: "uuid \<Rightarrow> runtime_db \<Rightarrow> bool" where
  "server_in_flight i d \<longleftrightarrow>
     (\<exists>r \<in> set (rt_instances d). ins_remote_server_id r = Some i \<and>
        (ins_active r \<or> (\<exists>c \<in> set (rt_commands d). cmd_instance_id c = ins_id r \<and> open_status (cmd_status c))))"

text \<open>The row with the patch applied, before validation and trimming.\<close>

definition patched_server :: "remote_server_patch \<Rightarrow> remote_server \<Rightarrow> remote_server" where
  "patched_server r s = s\<lparr>srv_name := coalesce (rsp_name r) (srv_name s),
     srv_hostname := coalesce (rsp_hostname r) (srv_hostname s),
     srv_ssh_port := coalesce (rsp_ssh_port r) (srv_ssh_port s),
     srv_ssh_user := coalesce (rsp_ssh_user r) (srv_ssh_user s),
     srv_helper_path := coalesce (rsp_helper_path r) (srv_helper_path s),
     srv_host_key_alias := or_else (rsp_host_key_alias r) (srv_host_key_alias s),
     srv_pool := or_else (rsp_pool r) (srv_pool s),
     srv_capacity := coalesce (rsp_capacity r) (srv_capacity s)\<rparr>"

definition trimmed_server :: "remote_server \<Rightarrow> remote_server" where
  "trimmed_server s = s\<lparr>srv_name := trim (srv_name s), srv_hostname := trim (srv_hostname s),
     srv_ssh_user := trim (srv_ssh_user s), srv_helper_path := trim (srv_helper_path s)\<rparr>"

definition connection_changed :: "remote_server \<Rightarrow> remote_server \<Rightarrow> bool" where
  "connection_changed new current \<longleftrightarrow>
     trim (srv_hostname new) \<noteq> srv_hostname current \<or> srv_ssh_port new \<noteq> srv_ssh_port current \<or>
     trim (srv_ssh_user new) \<noteq> srv_ssh_user current \<or> trim (srv_helper_path new) \<noteq> srv_helper_path current \<or>
     srv_host_key_alias new \<noteq> srv_host_key_alias current"

definition write_server :: "server_row \<Rightarrow> runtime_db \<Rightarrow> server_row answer \<times> runtime_db" where
  "write_server row d =
     (if name_taken (srv_name (sr_server row)) (Some (srv_id (sr_server row))) d then (Inl existing_state, d)
      else (Inr row, d\<lparr>rt_servers := update_where (\<lambda>s. srv_id (sr_server s) = srv_id (sr_server row))
              (\<lambda>_. row) (rt_servers d)\<rparr>))"

definition update_server_step ::
  "uuid \<Rightarrow> remote_server_patch \<Rightarrow> runtime_db \<Rightarrow> server_row answer \<times> runtime_db" where
  "update_server_step i r d =
     and_then (reading (server_by_id i) d) (\<lambda>current d.
     let new = patched_server r (sr_server current) in
     and_then (require (\<not> (connection_changed new (sr_server current) \<and> server_in_flight i d))
       (conflict ''Stop and fully reconcile every instance on this runtime host before changing its SSH target'') d) (\<lambda>_ d.
     and_then (check_remote_server (srv_name new) (srv_hostname new) (srv_ssh_port new) (srv_ssh_user new)
         (srv_helper_path new) (srv_capacity new) (srv_host_key_alias new), d) (\<lambda>_ d.
     write_server \<lparr>sr_server = trimmed_server new,
       sr_enabled = coalesce (rsp_enabled r) (sr_enabled current)\<rparr> d)))"

definition update_remote_server ::
  "bool \<Rightarrow> current_user \<Rightarrow> uuid \<Rightarrow> remote_server_patch \<Rightarrow> portal_db \<Rightarrow> server_row answer \<times> portal_db" where
  "update_remote_server database_fails u i r p =
     and_then (require_admin u p) (\<lambda>_.
       in_transaction database_fails (on_runtime (update_server_step i r)))"

definition disable_server_step :: "uuid \<Rightarrow> runtime_db \<Rightarrow> server_row answer \<times> runtime_db" where
  "disable_server_step i d =
     (let d = d\<lparr>rt_servers := update_where (\<lambda>s. srv_id (sr_server s) = i) (\<lambda>s. s\<lparr>sr_enabled := False\<rparr>) (rt_servers d)\<rparr>
      in reading (server_by_id i) d)"

definition disable_remote_server ::
  "bool \<Rightarrow> current_user \<Rightarrow> uuid \<Rightarrow> portal_db \<Rightarrow> server_row answer \<times> portal_db" where
  "disable_remote_server database_fails u i p =
     and_then (require_admin u p) (\<lambda>_.
       in_transaction database_fails (on_runtime (disable_server_step i)))"

section \<open>Listings\<close>

record history_query =
  hq_page :: "int option"
  hq_per_page :: "int option"
  hq_challenge_id :: "int option"
  hq_active :: "bool option"
  hq_owner_user_id :: "int option"

record history_page =
  hp_items :: "runtime_instance list"
  hp_page :: int
  hp_per_page :: int
  hp_total :: nat

text \<open>\<open>(page - 1) * per_page\<close> wraps around as in a release build; PostgreSQL refuses a negative offset.\<close>

definition wrap_i64 :: "int \<Rightarrow> int" where
  "wrap_i64 i = sint (of_int i :: 64 word)"

definition listed :: "int option \<Rightarrow> history_query \<Rightarrow> runtime_instance \<Rightarrow> bool" where
  "listed owner q i \<longleftrightarrow>
     (owner = None \<or> Some (ins_owner_user_id i) = owner) \<and>
     (hq_challenge_id q = None \<or> Some (ins_challenge_id i) = hq_challenge_id q) \<and>
     (hq_active q = None \<or> Some (ins_active i) = hq_active q)"

definition list_instances :: "int option \<Rightarrow> history_query \<Rightarrow> runtime_db \<Rightarrow> history_page answer" where
  "list_instances owner q d =
     (let page = max (coalesce (hq_page q) 1) 1; per_page = max 1 (min 100 (coalesce (hq_per_page q) 50));
          offset = wrap_i64 ((page - 1) * per_page); rows = filter (listed owner q) (rt_instances d)
      in if offset < 0 then Inl database_error
         else Inr \<lparr>hp_items = take (nat per_page) (drop (nat offset) (sort_key (\<lambda>i. - ins_created_at i) rows)),
                hp_page = page, hp_per_page = per_page, hp_total = length rows\<rparr>)"

definition history :: "current_user \<Rightarrow> history_query \<Rightarrow> portal_db \<Rightarrow> history_page answer \<times> portal_db" where
  "history u q = reading (\<lambda>p. list_instances (Some (cu_id u)) q (pd_runtime p))"

definition admin_instances :: "current_user \<Rightarrow> history_query \<Rightarrow> portal_db \<Rightarrow> history_page answer \<times> portal_db" where
  "admin_instances u q p =
     and_then (require_admin u p) (\<lambda>_. reading (\<lambda>p. list_instances (hq_owner_user_id q) q (pd_runtime p)))"

record runtime_summary =
  rsm_available :: bool
  rsm_authenticated :: bool
  rsm_setting_revision :: int
  rsm_config :: "runtime_config option"
  rsm_instance :: "runtime_instance option"
  rsm_blocking :: "runtime_instance option"

definition challenge_runtime_summary :: "int option \<Rightarrow> int \<Rightarrow> runtime_db \<Rightarrow> runtime_summary answer" where
  "challenge_runtime_summary user_id challenge_id d =
     (case load_setting d of
        Inl e \<Rightarrow> Inl e
      | Inr (enabled, revision) \<Rightarrow>
          (let active = Option.bind user_id (\<lambda>u. active_instance_for_user u d);
               here = (case active of None \<Rightarrow> False | Some i \<Rightarrow> ins_challenge_id i = challenge_id)
           in Inr \<lparr>rsm_available = (enabled \<and> runtime_managed challenge_id d),
                rsm_authenticated = (user_id \<noteq> None), rsm_setting_revision = revision,
                rsm_config = config_of challenge_id d,
                rsm_instance = (if here then active else None),
                rsm_blocking = (if here then None else active)\<rparr>))"

end
