(* ===== verification/ControlPlane.thy ===== *)
theory ControlPlane
  imports RuntimeProperties RuntimeAdmin
begin

text \<open>
  The control plane as a whole: the API's requests (\<open>services/api/src/routes/runtimes.rs\<close>) and the
  controller's sessions (\<open>services/controller/src/worker.rs\<close>) work on the same tables. The invariant
  of these tables extends the worker's by what only the API creates: one active instance per user,
  commands of existing instances, terminations only of instances that are to be stopped, unique
  idempotency keys, servers and snapshots that the controller's executor accepts. Every request and
  every session keeps it, in any interleaving.
\<close>

section \<open>The invariant\<close>

definition command_grounded :: "runtime_instance list \<Rightarrow> command_row \<Rightarrow> bool" where
  "command_grounded is c \<longleftrightarrow> cmd_instance_id c \<in> ins_id ` set is \<and>
     (cmd_kind c = Cmd_Terminate \<and> open_status (cmd_status c) \<longrightarrow> stop_wanted is (cmd_instance_id c))"

definition same_key :: "command_row \<Rightarrow> command_row \<Rightarrow> bool" where
  "same_key q r \<longleftrightarrow> cmd_requested_by q = cmd_requested_by r \<and> cmd_requested_by r \<noteq> None \<and>
     cmd_idempotency_key q = cmd_idempotency_key r \<and> cmd_idempotency_key r \<noteq> None \<and> cmd_kind q = cmd_kind r"

definition keys_unique :: "command_row list \<Rightarrow> bool" where
  "keys_unique cs \<longleftrightarrow> (\<forall>q \<in> set cs. \<forall>r \<in> set cs. same_key q r \<longrightarrow> cmd_id q = cmd_id r)"

definition commands_grounded :: "runtime_db \<Rightarrow> bool" where
  "commands_grounded d \<longleftrightarrow>
     (\<forall>c \<in> set (rt_commands d). command_grounded (rt_instances d) c) \<and> keys_unique (rt_commands d)"

text \<open>The deployment that an instance was launched with names a health check that the API accepts.\<close>

definition startable_snapshot :: "json \<Rightarrow> bool" where
  "startable_snapshot snapshot \<longleftrightarrow>
     (\<exists>h. json_get ''healthcheck'' snapshot = Some h \<and> validate_healthcheck h = Inr ())"

definition active_owners :: "runtime_instance list \<Rightarrow> int list" where
  "active_owners is = map ins_owner_user_id (filter ins_active is)"

definition instances_ok :: "runtime_instance list \<Rightarrow> uuid \<Rightarrow> bool" where
  "instances_ok is n \<longleftrightarrow> distinct (active_owners is) \<and>
     (\<forall>i \<in> set is. ins_id i < n \<and> ins_desired_expires_at i \<le> ins_maximum_expires_at i \<and>
        startable_snapshot (ins_deployment_snapshot i))"

definition server_ids :: "server_row list \<Rightarrow> uuid list" where
  "server_ids ss = map (srv_id \<circ> sr_server) ss"

definition server_names :: "server_row list \<Rightarrow> string list" where
  "server_names ss = map (srv_name \<circ> sr_server) ss"

definition servers_ok :: "server_row list \<Rightarrow> uuid \<Rightarrow> bool" where
  "servers_ok ss n \<longleftrightarrow> distinct (server_ids ss) \<and> distinct (server_names ss) \<and>
     (\<forall>s \<in> set ss. srv_id (sr_server s) < n \<and> validate_remote_server (sr_server s) = Inr () \<and>
        0 < srv_capacity (sr_server s))"

definition configs_ok :: "runtime_config list \<Rightarrow> bool" where
  "configs_ok cs \<longleftrightarrow> distinct (map rcf_challenge_id cs) \<and>
     (\<forall>c \<in> set cs. config_checks c \<and> validate_healthcheck (rcf_healthcheck c) = Inr ())"

definition control_plane_ok :: "runtime_db \<Rightarrow> bool" where
  "control_plane_ok d \<longleftrightarrow> runtime_db_ok d \<and> commands_grounded d \<and>
     instances_ok (rt_instances d) (rt_next_id d) \<and> servers_ok (rt_servers d) (rt_next_id d) \<and>
     configs_ok (rt_configs d)"

lemma instances_ok_mono: "instances_ok is n \<Longrightarrow> n \<le> m \<Longrightarrow> instances_ok is m"
  by (auto simp: instances_ok_def)

lemma servers_ok_mono: "servers_ok ss n \<Longrightarrow> n \<le> m \<Longrightarrow> servers_ok ss m"
  by (auto simp: servers_ok_def)

section \<open>The controller's statements keep it\<close>

text \<open>What an update of commands must leave alone.\<close>

definition command_kept :: "command_row \<Rightarrow> command_row \<Rightarrow> bool" where
  "command_kept a b \<longleftrightarrow> cmd_id b = cmd_id a \<and> cmd_instance_id b = cmd_instance_id a \<and> cmd_kind b = cmd_kind a \<and>
     cmd_requested_by b = cmd_requested_by a \<and> cmd_idempotency_key b = cmd_idempotency_key a \<and>
     (open_status (cmd_status b) \<longrightarrow> open_status (cmd_status a))"

lemma command_kept_refl [simp]: "command_kept a a"
  by (simp add: command_kept_def)

lemma command_kept_grounded: "command_kept a b \<Longrightarrow> command_grounded is a \<Longrightarrow> command_grounded is b"
  by (auto simp: command_kept_def command_grounded_def)

lemma grounded_commands:
  assumes ok: "commands_grounded d" and same: "rt_instances e = rt_instances d"
    and kept: "\<And>b. b \<in> set (rt_commands e) \<Longrightarrow> \<exists>a \<in> set (rt_commands d). command_kept a b"
  shows "commands_grounded e"
proof -
  have "command_grounded (rt_instances e) b" if "b \<in> set (rt_commands e)" for b
    using kept [OF that] ok command_kept_grounded unfolding commands_grounded_def same by blast
  moreover have "keys_unique (rt_commands e)"
    unfolding keys_unique_def
  proof (intro ballI impI)
    fix q r
    assume q: "q \<in> set (rt_commands e)" and r: "r \<in> set (rt_commands e)" and k: "same_key q r"
    obtain a b where a: "a \<in> set (rt_commands d)" "command_kept a q"
      and b: "b \<in> set (rt_commands d)" "command_kept b r"
      using kept [OF q] kept [OF r] by blast
    have "same_key a b" using k a(2) b(2) by (simp add: same_key_def command_kept_def)
    with ok a(1) b(1) have "cmd_id a = cmd_id b" by (auto simp: commands_grounded_def keys_unique_def)
    with a(2) b(2) show "cmd_id q = cmd_id r" by (simp add: command_kept_def)
  qed
  ultimately show ?thesis by (simp add: commands_grounded_def)
qed

lemma update_where_kept:
  assumes "\<And>a. a \<in> set cs \<Longrightarrow> P a \<Longrightarrow> command_kept a (f a)" and "b \<in> set (update_where P f cs)"
  shows "\<exists>a \<in> set cs. command_kept a b"
proof -
  from assms(2) obtain a where "a \<in> set cs" "b = (if P a then f a else a)" by (auto simp: update_where_def)
  with assms(1) [of a] show ?thesis by (intro bexI [of _ a]) auto
qed

lemma grounded_update:
  assumes "commands_grounded d" "rt_instances e = rt_instances d"
    and e: "rt_commands e = update_where P f (rt_commands d)"
    and kept: "\<And>a. a \<in> set (rt_commands d) \<Longrightarrow> P a \<Longrightarrow> command_kept a (f a)"
  shows "commands_grounded e"
  using assms(1,2)
proof (rule grounded_commands)
  fix b
  assume "b \<in> set (rt_commands e)"
  then show "\<exists>a \<in> set (rt_commands d). command_kept a b"
    unfolding e by (rule update_where_kept [rotated]) (rule kept)
qed

lemma settle_kept: "cmd_status a = Claimed \<Longrightarrow> command_kept a (settle_command v a)"
  by (cases v) (simp_all add: command_kept_def)

lemma settle_grounded:
  assumes "commands_grounded d"
  shows "commands_grounded (snd (settle_command_sql command v d))"
  by (rule grounded_update [OF assms, where P = "command_claim command" and f = "settle_command v"])
     (simp_all add: settle_command_sql_def settle_kept)

lemma release_grounded:
  assumes "commands_grounded d" "\<And>r. P r \<Longrightarrow> cmd_status r = Claimed"
  shows "commands_grounded (snd (release_commands P now e d))"
  unfolding release_commands_def
  by (rule grounded_update [OF assms(1)]) (simp, simp, simp add: command_kept_def assms(2))

lemma claim_grounded:
  assumes ok: "control_plane_ok d"
  shows "commands_grounded (snd (claim_command_sql locked now d))"
proof (cases "first_by cmd_created_at (claimable_command locked now) (rt_commands d)")
  case None
  with ok show ?thesis by (simp add: claim_command_sql_def control_plane_ok_def)
next
  case (Some r)
  from first_by_Some [OF Some] have r: "r \<in> set (rt_commands d)" "cmd_status r = Pending"
    by (auto simp: claimable_command_def)
  have only: "cmd_status q = Pending" if "q \<in> set (rt_commands d)" "cmd_id q = cmd_id r" for q
    using that r ok by (auto simp: control_plane_ok_def runtime_ok_defs dest: distinct_map_eq)
  show ?thesis
    unfolding claim_command_sql_def Some option.case snd_conv
    by (rule grounded_update [where d = d and P = "\<lambda>q. cmd_id q = cmd_id r"
          and f = "take_command now (rt_next_id d)"])
       (use ok only in \<open>simp_all add: control_plane_ok_def command_kept_def take_command_def\<close>)
qed

text \<open>Updates that advance instances.\<close>

lemma active_owners_advance:
  assumes "\<And>i. i \<in> set is \<Longrightarrow> instance_advances i (g i)"
  shows "set (active_owners (map g is)) \<subseteq> set (active_owners is) \<and>
    (distinct (active_owners is) \<longrightarrow> distinct (active_owners (map g is)))"
  using assms
proof (induction "is")
  case Nil
  then show ?case by (simp add: active_owners_def)
next
  case (Cons i "is")
  have "ins_owner_user_id (g i) = ins_owner_user_id i" "ins_active (g i) \<longrightarrow> ins_active i"
    using Cons.prems by (simp_all add: instance_advances_def)
  with Cons.IH Cons.prems show ?case by (auto simp: active_owners_def)
qed

lemma instances_ok_update:
  assumes ok: "instances_ok is n" and f: "\<And>r. r \<in> set is \<Longrightarrow> P r \<Longrightarrow> instance_advances r (f r)"
  shows "instances_ok (update_where P f is) n"
proof -
  let ?g = "\<lambda>r. if P r then f r else r"
  have g: "instance_advances i (?g i)" if "i \<in> set is" for i using f [OF that] by simp
  have "distinct (active_owners (map ?g is))"
    using active_owners_advance [of "is" ?g] g ok by (simp add: instances_ok_def)
  moreover have "ins_id (?g i) < n \<and> ins_desired_expires_at (?g i) \<le> ins_maximum_expires_at (?g i) \<and>
      startable_snapshot (ins_deployment_snapshot (?g i))" if "i \<in> set is" for i
    using g [OF that] ok that unfolding instance_advances_def instances_ok_def by metis
  ultimately show ?thesis unfolding instances_ok_def update_where_def list.set_map by blast
qed

lemma stop_wanted_update:
  assumes "\<And>r. r \<in> set is \<Longrightarrow> P r \<Longrightarrow> instance_advances r (f r)" "stop_wanted is i"
  shows "stop_wanted (update_where P f is) i"
  using assms by (auto simp: stop_wanted_def update_where_def instance_advances_def)

lemma instance_ids_update:
  assumes "\<And>r. r \<in> set is \<Longrightarrow> P r \<Longrightarrow> instance_advances r (f r)"
  shows "map ins_id (update_where P f is) = map ins_id is"
  using assms by (intro map_update_where) (auto simp: instance_advances_def)

lemma grounded_instances:
  assumes "commands_grounded d" and f: "\<And>r. r \<in> set (rt_instances d) \<Longrightarrow> P r \<Longrightarrow> instance_advances r (f r)"
  shows "commands_grounded (d\<lparr>rt_instances := update_where P f (rt_instances d)\<rparr>)"
proof -
  have "ins_id ` set (update_where P f (rt_instances d)) = ins_id ` set (rt_instances d)"
    using instance_ids_update [of "rt_instances d" P f] f by (metis list.set_map)
  moreover have "stop_wanted (update_where P f (rt_instances d)) i" if "stop_wanted (rt_instances d) i" for i
    using stop_wanted_update [OF f that] by blast
  ultimately have "command_grounded (rt_instances d) c \<Longrightarrow>
      command_grounded (update_where P f (rt_instances d)) c" for c
    by (simp add: command_grounded_def)
  with assms(1) show ?thesis by (simp add: commands_grounded_def)
qed

lemma control_plane_update:
  assumes ok: "control_plane_ok d"
    and f: "\<And>r. r \<in> set (rt_instances d) \<Longrightarrow> P r \<Longrightarrow> instance_advances r (f r)"
  shows "control_plane_ok (d\<lparr>rt_instances := update_where P f (rt_instances d)\<rparr>)"
  using ok update_instances_ok [of d P f, OF _ f] grounded_instances [of d P f, OF _ f]
    instances_ok_update [of "rt_instances d" "rt_next_id d" P f, OF _ f]
  by (simp add: control_plane_ok_def)

text \<open>A new command.\<close>

lemma append_grounded:
  assumes ok: "control_plane_ok d" and ready: "insertable d i kind g"
    and r: "cmd_instance_id r = i" "cmd_kind r = kind" "\<not> (\<exists>q \<in> set (rt_commands d). same_key q r)"
  shows "commands_grounded (d\<lparr>rt_commands := rt_commands d @ [r], rt_next_id := n\<rparr>)"
proof -
  have "command_grounded (rt_instances d) r" using ready r by (auto simp: command_grounded_def insertable_def)
  moreover have "\<forall>q \<in> set (rt_commands d). \<not> same_key q r \<and> \<not> same_key r q"
    using r(3) by (auto simp: same_key_def)
  then have "keys_unique (rt_commands d @ [r])"
    using ok by (auto simp: control_plane_ok_def commands_grounded_def keys_unique_def)
  ultimately show ?thesis using ok by (simp add: control_plane_ok_def commands_grounded_def)
qed

lemma control_plane_append:
  assumes ok: "control_plane_ok d" and ready: "insertable d i kind g"
    and new: "\<not> (\<exists>q \<in> set (rt_commands d). open_command i kind q \<and> cmd_generation q = g)"
    and r: "cmd_id r = rt_next_id d" "command_slot r = (i, kind, g)" "command_consistent r"
      "cmd_claim_token r = None" "cmd_status r = Pending" "\<not> (\<exists>q \<in> set (rt_commands d). same_key q r)"
  shows "control_plane_ok (d\<lparr>rt_commands := rt_commands d @ [r], rt_next_id := rt_next_id d + 1\<rparr>)"
  using ok append_command_ok [OF _ ready new r(1-5)] append_grounded [OF ok ready, of r] r
    instances_ok_mono [of "rt_instances d" "rt_next_id d" "rt_next_id d + 1"]
    servers_ok_mono [of "rt_servers d" "rt_next_id d" "rt_next_id d + 1"]
  by (simp add: control_plane_ok_def)

interpretation control_plane: runtime_invariant control_plane_ok
proof
  fix d command v es ns and P :: "runtime_instance \<Rightarrow> bool" and f i g kind sr rr payload now s locked
  assume ok: "control_plane_ok d"
  note parts = ok [unfolded control_plane_ok_def]
  note db = parts [THEN conjunct1] and grounded = parts [THEN conjunct2, THEN conjunct1]
  show "runtime_db_ok d" by (rule db)
  show "control_plane_ok (snd (settle_command_sql command v d))"
    using parts settle_command_ok [OF db] settle_grounded [OF grounded]
    by (simp add: control_plane_ok_def settle_command_sql_def)
  show "control_plane_ok (d\<lparr>rt_events := es\<rparr>)" "control_plane_ok (d\<lparr>rt_notified := ns\<rparr>)"
    using parts by (simp_all add: control_plane_ok_def runtime_db_ok_def commands_grounded_def)
  have "commands_grounded (snd (recover_stale_commands_sql now s d))"
    "commands_grounded (snd (recover_all_commands_sql now d))"
    unfolding recover_stale_commands_sql_def recover_all_commands_sql_def
    by (rule release_grounded [OF grounded]; simp add: stale_command_def)+
  then show "control_plane_ok (snd (recover_stale_commands_sql now s d))"
    "control_plane_ok (snd (recover_all_commands_sql now d))"
    using parts recover_commands_ok [OF db]
    by (simp_all add: control_plane_ok_def recover_stale_commands_sql_def recover_all_commands_sql_def
        release_commands_def)
  show "control_plane_ok (snd (claim_command_sql locked now d))"
    using parts claim_command_ok [OF db] claim_grounded [OF ok]
    by (auto simp: control_plane_ok_def claim_command_sql_def split: option.splits
        intro: instances_ok_mono servers_ok_mono)
  show "control_plane_ok (d\<lparr>rt_instances := update_where P f (rt_instances d)\<rparr>)"
    if "\<And>r. r \<in> set (rt_instances d) \<Longrightarrow> P r \<Longrightarrow> instance_advances r (f r)"
    using ok that by (rule control_plane_update)
  show "control_plane_ok (snd (insert_command now i kind g sr rr payload d))" if ready: "insertable d i kind g"
    using ok control_plane_append [OF ok ready, of "new_command now (rt_next_id d) i kind g sr rr payload"]
    by (simp add: insert_command_def new_command_def command_consistent_def same_key_def)
qed

end
