(* ===== verification/FlagProperties.thy ===== *)
theory FlagProperties
  imports FlagPolicy
begin

text \<open>
  Personal flags (\<open>services/api/src/routes/flag_policy.rs\<close>): the rendering loop against a description
  by positions, the injectivity of leet variation, the bounds on a rendered flag, normal forms of
  definitions, and the allocation of a personal flag.
\<close>

section \<open>Occurrences of a pattern\<close>

lemma matches_from_sound:
  "j \<in> set (matches_from p i skip s) \<Longrightarrow>
     i + skip \<le> j \<and> j - i < length s \<and> starts_with p (drop (j - i) s)"
proof (induction p i skip s rule: matches_from.induct)
  case (2 p i k c cs)
  then have "j - i = Suc (j - Suc i)" by auto
  with 2 show ?case by auto
next
  case (3 p i c cs)
  show ?case
  proof (cases "j = i")
    case True
    with 3 show ?thesis using 3(2) by (auto split: if_splits)
  next
    case False
    then have j: "Suc i \<le> j"
      using 3 by (auto split: if_splits)
    then have "j - i = Suc (j - Suc i)" by simp
    with 3 False show ?thesis by (auto split: if_splits)
  qed
qed simp

lemma matches_from_spaced:
  "0 < length p \<Longrightarrow> j \<in> set (matches_from p i skip s) \<Longrightarrow> k \<in> set (matches_from p i skip s) \<Longrightarrow>
     j < k \<Longrightarrow> j + length p \<le> k"
proof (induction p i skip s rule: matches_from.induct)
  case (3 p i c cs)
  then show ?case
    using matches_from_sound [of k p "Suc i" "length p - 1" cs]
      matches_from_sound [of j p "Suc i" "length p - 1" cs]
    by (auto split: if_splits)
qed auto

lemma matches_from_complete:
  "0 < length p \<Longrightarrow> i + skip \<le> j \<Longrightarrow> j - i < length s \<Longrightarrow> starts_with p (drop (j - i) s) \<Longrightarrow>
     j \<in> set (matches_from p i skip s) \<or>
     (\<exists>k \<in> set (matches_from p i skip s). k < j \<and> j < k + length p)"
proof (induction p i skip s rule: matches_from.induct)
  case (1 p i skip)
  then show ?case by simp
next
  case (2 p i k c cs)
  from 2(3) have "j - i = Suc (j - Suc i)" by simp
  with 2 show ?case by auto
next
  case (3 p i c cs)
  show ?case
  proof (cases "j = i")
    case True
    with 3 show ?thesis by simp
  next
    case False
    with 3(4) have ji: "j - i = Suc (j - Suc i)" "Suc i \<le> j" by simp_all
    show ?thesis
    proof (cases "starts_with p (c # cs)")
      case True
      show ?thesis
      proof (cases "j < i + length p")
        case True
        with \<open>starts_with p (c # cs)\<close> False ji show ?thesis by auto
      next
        case far: False
        then have "Suc i + (length p - 1) \<le> j" using 3(3) by (cases p) auto
        with 3(1) [OF True 3(3)] 3(5,6) ji True show ?thesis by auto
      qed
    next
      case noMatch: False
      with 3(2) [OF noMatch 3(3)] 3(5,6) ji show ?thesis by auto
    qed
  qed
qed

lemma token_length [simp]: "length random_token_placeholder = 16"
  by (simp add: random_token_placeholder_def)

lemma token_start:
  assumes "j \<in> set (token_starts t)"
  shows "j + 16 \<le> length t" "starts_with random_token_placeholder (drop j t)"
proof -
  from matches_from_sound [OF assms [unfolded token_starts_def match_indices_def]]
  show s: "starts_with random_token_placeholder (drop j t)" by simp
  then have "length (take 16 (drop j t)) = 16" by (simp add: starts_with_def)
  then show "j + 16 \<le> length t" by simp
qed

text \<open>A cursor that has not stopped inside an occurrence sees every occurrence from there on.\<close>

definition boundary :: "string \<Rightarrow> nat \<Rightarrow> bool" where
  "boundary t c \<longleftrightarrow> (\<forall>j \<in> set (token_starts t). \<not> (j < c \<and> c < j + 16))"

lemma boundary_0 [simp]: "boundary t 0"
  by (simp add: boundary_def)

lemma boundary_start:
  assumes "boundary t c" "c < length t"
  shows "starts_with random_token_placeholder (drop c t) \<longleftrightarrow> c \<in> set (token_starts t)"
  using assms token_start(2) matches_from_complete [of random_token_placeholder 0 0 c t]
  by (auto simp: boundary_def token_starts_def match_indices_def)

lemma boundary_token: "c \<in> set (token_starts t) \<Longrightarrow> boundary t (c + 16)"
  using matches_from_spaced [of random_token_placeholder _ 0 0 t]
  by (fastforce simp: boundary_def token_starts_def match_indices_def)

lemma boundary_step: "boundary t c \<Longrightarrow> c \<notin> set (token_starts t) \<Longrightarrow> boundary t (Suc c)"
  by (force simp: boundary_def not_less less_Suc_eq)

lemma boundary_outside:
  assumes "boundary t c"
  shows "inside_random_token t c \<longleftrightarrow> c \<in> set (token_starts t)"
proof -
  have "j = c" if "j \<in> set (token_starts t)" "j \<le> c" "c < j + 16" for j
    using assms that unfolding boundary_def by (metis le_neq_implies_less)
  then show ?thesis by (auto simp: inside_random_token_def)
qed

section \<open>Rendering, position by position\<close>

definition letters_before :: "string \<Rightarrow> nat \<Rightarrow> nat" where
  "letters_before t i = length (filter (\<lambda>j. j < i) (leet_positions t))"

definition rendered_piece :: "string \<Rightarrow> uuid option \<Rightarrow> 64 word option \<Rightarrow> nat \<Rightarrow> string" where
  "rendered_piece t token bits i =
     (if i \<in> set (token_starts t)
      then (case token of None \<Rightarrow> random_token_placeholder | Some u \<Rightarrow> uuid_text u)
      else if inside_random_token t i then []
      else if i \<in> set (leet_positions t) \<and> replaced bits (letters_before t i)
      then [the (leet_replacement (t ! i))]
      else [t ! i])"

lemma letters_before_0 [simp]: "letters_before t 0 = 0"
  by (simp add: letters_before_def)

lemma distinct_leet_positions [simp]: "distinct (leet_positions t)"
  by (simp add: leet_positions_def)

lemma letters_before_Suc:
  "letters_before t (Suc i) = (if i \<in> set (leet_positions t) then Suc (letters_before t i) else letters_before t i)"
proof -
  have "length (filter (\<lambda>j. j < Suc i) xs) =
      length (filter (\<lambda>j. j < i) xs) + (if i \<in> set xs then 1 else 0)" if "distinct xs" for xs :: "nat list"
    using that by (induction xs) (auto simp: less_Suc_eq)
  from this [of "leet_positions t"] show ?thesis by (simp add: letters_before_def)
qed

lemma not_letter_inside: "inside_random_token t i \<Longrightarrow> i \<notin> set (leet_positions t)"
  by (simp add: leet_positions_def)

lemma letters_before_token:
  assumes "c \<in> set (token_starts t)" "k \<le> 16"
  shows "letters_before t (c + k) = letters_before t c"
  using assms(2)
proof (induction k)
  case (Suc k)
  have "inside_random_token t (c + k)" using assms(1) Suc.prems unfolding inside_random_token_def by (intro bexI [of _ c]) auto
  then have "c + k \<notin> set (leet_positions t)" by (rule not_letter_inside)
  with Suc show ?case by (simp add: letters_before_Suc)
qed simp

lemma pieces_of_token:
  assumes c: "c \<in> set (token_starts t)"
  shows "concat (map (rendered_piece t token bits) [c ..< c + 16]) =
    (case token of None \<Rightarrow> random_token_placeholder | Some u \<Rightarrow> uuid_text u)"
proof -
  have "rendered_piece t token bits i = []" if i: "c < i" "i < c + 16" for i
  proof -
    have "i \<notin> set (token_starts t)"
      using matches_from_spaced [of random_token_placeholder c 0 0 t i] c i
      by (auto simp: token_starts_def match_indices_def)
    moreover have "inside_random_token t i" using c i unfolding inside_random_token_def by (intro bexI [of _ c]) auto
    ultimately show ?thesis by (simp add: rendered_piece_def)
  qed
  then have rest: "concat (map (rendered_piece t token bits) [Suc c ..< c + 16]) = []" by auto
  have "[c ..< c + 16] = c # [Suc c ..< c + 16]" by (rule upt_conv_Cons) simp
  with rest c show ?thesis by (simp add: rendered_piece_def)
qed

lemma render_loop_pieces:
  assumes "boundary t c" "k = letters_before t c" "c \<le> length t"
  shows "render_loop t token bits c k r = r @ concat (map (rendered_piece t token bits) [c ..< length t])"
  using assms
proof (induction t token bits c k r rule: render_loop.induct)
  case (1 t token bits c k r)
  show ?case
  proof (cases "c < length t")
    case False
    with 1(6) show ?thesis by (subst render_loop.simps) simp
  next
    case True
    note start = boundary_start [OF 1(4) True]
    show ?thesis
    proof (cases "c \<in> set (token_starts t)")
      case tok: True
      from token_start(1) [OF tok] have le: "c + 16 \<le> length t" .
      have split: "[c ..< length t] = [c ..< c + 16] @ [c + 16 ..< length t]"
        using upt_add_eq_append [of c "c + 16" "length t - (c + 16)"] le by simp
      have "render_loop t token bits (c + 16) k
          (r @ (case token of None \<Rightarrow> random_token_placeholder | Some u \<Rightarrow> uuid_text u)) =
        r @ (case token of None \<Rightarrow> random_token_placeholder | Some u \<Rightarrow> uuid_text u)
          @ concat (map (rendered_piece t token bits) [c + 16 ..< length t])"
        using 1(1) [OF True] start tok boundary_token [OF tok] letters_before_token [OF tok, of 16] 1(5) le
        by simp
      then show ?thesis
        unfolding split map_append concat_append pieces_of_token [OF tok]
        by (subst render_loop.simps) (simp add: True start tok)
    next
      case plain: False
      have out: "\<not> inside_random_token t c" using boundary_outside [OF 1(4)] plain by simp
      have letter: "c \<in> set (leet_positions t) \<longleftrightarrow> in_scope t c \<and> leet_replacement (t ! c) \<noteq> None"
        using True out by (auto simp: leet_positions_def)
      have split: "[c ..< length t] = c # [Suc c ..< length t]" using True by (rule upt_conv_Cons)
      note next_c = boundary_step [OF 1(4) plain]
      show ?thesis
      proof (cases "if in_scope t c then leet_replacement (t ! c) else None")
        case None
        then have no: "c \<notin> set (leet_positions t)" using letter by (auto split: if_splits)
        have "render_loop t token bits (Suc c) k (r @ [t ! c]) =
            (r @ [t ! c]) @ concat (map (rendered_piece t token bits) [Suc c ..< length t])"
          using 1(2) [OF True _ refl None] start plain next_c 1(5) True no
          by (simp add: letters_before_Suc)
        then show ?thesis
          unfolding split
          by (subst render_loop.simps) (simp add: True start plain None no out rendered_piece_def)
      next
        case (Some x)
        then have yes: "c \<in> set (leet_positions t)" "leet_replacement (t ! c) = Some x"
          using letter by (auto split: if_splits)
        let ?c = "[if replaced bits k then x else t ! c]"
        have "render_loop t token bits (Suc c) (Suc k) (r @ ?c) =
            (r @ ?c) @ concat (map (rendered_piece t token bits) [Suc c ..< length t])"
          using 1(3) [OF True _ refl Some] start plain next_c 1(5) True yes
          by (simp add: letters_before_Suc)
        then show ?thesis
          unfolding split
          using 1(5) by (subst render_loop.simps) (simp add: True start plain Some yes out rendered_piece_def)
      qed
    qed
  qed
qed

text \<open>
  The rendering loop is position by position: the cursor loop produces, for each position of the
  template in order, the token's text at the start of a placeholder, nothing inside one, the leet
  digit at letter number \<open>k\<close> when bit \<open>k\<close> of the mask is set, and the character itself elsewhere.
\<close>

theorem rendering_is_positionwise:
  "render_generated_flag t token bits = concat (map (rendered_piece t token bits) [0 ..< length t])"
  by (simp add: render_generated_flag_def render_loop_pieces)

section \<open>Length\<close>

lemma length_hex_digits: "length (hex_digits k n) = k"
  by (induction k arbitrary: n) simp_all

lemma length_uuid_text: "length (uuid_text u) = 36"
  by (simp add: uuid_text_def Let_def length_hex_digits)

lemma length_plain_pieces:
  assumes "\<And>i. i \<in> set xs \<Longrightarrow> \<not> inside_random_token t i"
  shows "length (concat (map (rendered_piece t token bits) xs)) = length xs"
  using assms
proof (induction xs)
  case (Cons i xs)
  have "i \<notin> set (token_starts t)"
    using Cons.prems [of i] by (auto simp: inside_random_token_def)
  with Cons show ?case by (simp add: rendered_piece_def)
qed simp

lemma one_token_length:
  assumes "token_starts t = [s]"
  shows "length (render_generated_flag t token bits) \<le> length t + 20"
proof -
  have s: "s \<in> set (token_starts t)" "s + 16 \<le> length t" using token_start(1) [of s t] assms by auto
  have "[0 ..< length t] = [0 ..< s] @ [s ..< length t]"
    using upt_add_eq_append [of 0 s "length t - s"] s(2) by simp
  moreover have "[s ..< length t] = [s ..< s + 16] @ [s + 16 ..< length t]"
    using upt_add_eq_append [of s "s + 16" "length t - (s + 16)"] s(2) by simp
  ultimately have split: "[0 ..< length t] = [0 ..< s] @ [s ..< s + 16] @ [s + 16 ..< length t]" by simp
  have in_token: "length (concat (map (rendered_piece t token bits) [s ..< s + 16])) \<le> 36"
    unfolding pieces_of_token [OF s(1)] by (simp add: length_uuid_text split: option.splits)
  have "length (concat (map (rendered_piece t token bits) [0 ..< s])) = s"
    by (subst length_plain_pieces) (auto simp: inside_random_token_def assms)
  moreover have "length (concat (map (rendered_piece t token bits) [s + 16 ..< length t])) = length t - (s + 16)"
    by (subst length_plain_pieces) (auto simp: inside_random_token_def assms)
  ultimately show ?thesis
    using in_token s(2) unfolding rendering_is_positionwise split map_append concat_append by simp
qed

lemma no_token_length: "token_starts t = [] \<Longrightarrow> length (render_generated_flag t token bits) = length t"
  unfolding rendering_is_positionwise by (subst length_plain_pieces) (auto simp: inside_random_token_def)

lemma checked_length:
  assumes "check_generated content policy exposure = Inr u"
  shows "length (render_generated_flag content token bits) \<le> max_flag_bytes"
proof -
  have b: "length (token_starts content) \<le> 1"
    "length content + length (token_starts content) * 20 \<le> max_flag_bytes"
    using assms by (auto simp: check_generated_def Let_def split: if_splits)
  show ?thesis
  proof (cases "token_starts content")
    case Nil
    with b(2) show ?thesis by (simp add: no_token_length)
  next
    case (Cons s ss)
    with b(1) have "token_starts content = [s]" by simp
    with one_token_length [of content s token bits] b(2) show ?thesis by simp
  qed
qed

section \<open>Normal forms\<close>

lemma trim_start_of_none: "strip_one ws (trim_start_of ws s) = None"
proof (induction ws s rule: trim_start_of.induct)
  case (1 ws s)
  then show ?case by (cases "strip_one ws s") (subst trim_start_of.simps, simp)+
qed

lemma trim_start_of_id: "strip_one ws s = None \<Longrightarrow> trim_start_of ws s = s"
  by (subst trim_start_of.simps) simp

lemma trim_start_of_suffix: "\<exists>p. s = p @ trim_start_of ws s"
proof (induction ws s rule: trim_start_of.induct)
  case (1 ws s)
  show ?case
  proof (cases "strip_one ws s")
    case None
    then show ?thesis by (subst trim_start_of.simps) simp
  next
    case (Some t)
    from 1 [OF Some] strip_one_shorter [OF Some] obtain p q where "s = q @ t" "t = p @ trim_start_of ws t"
      by blast
    then have "s = (q @ p) @ trim_start_of ws t" by simp
    moreover have "trim_start_of ws s = trim_start_of ws t"
      using Some by (subst trim_start_of.simps) simp
    ultimately show ?thesis by metis
  qed
qed

lemma strip_one_None: "strip_one ws s = None \<longleftrightarrow> (\<forall>p \<in> set ws. p = [] \<or> (\<forall>t. s \<noteq> p @ t))"
proof -
  have "strip_one ws s = None \<longleftrightarrow> set (List.map_filter (\<lambda>p. if p = [] then None else strip_prefix p s) ws) = {}"
    by (auto simp: strip_one_def split: list.splits)
  also have "\<dots> \<longleftrightarrow> (\<forall>p \<in> set ws. p = [] \<or> (\<forall>t. s \<noteq> p @ t))"
    by (auto simp: map_filter_def strip_prefix_Some [symmetric] split: if_splits)
  finally show ?thesis .
qed

lemma trim_trim [simp]: "trim (trim s) = trim s"
proof -
  let ?ws = "whitespaces" and ?sw = "map List.rev whitespaces"
  let ?a = "trim_start_of ?ws s"
  let ?b = "trim_start_of ?sw (List.rev ?a)"
  have t: "trim s = List.rev ?b" by (simp add: trim_def)
  obtain p where "List.rev ?a = p @ ?b" using trim_start_of_suffix by blast
  then have a: "?a = List.rev ?b @ List.rev p" by (metis rev_append rev_rev_ident)
  have "strip_one ?ws ?a = None" by (rule trim_start_of_none)
  then have "strip_one ?ws (List.rev ?b) = None"
    using a unfolding strip_one_None by (metis append_assoc)
  then have "trim_start_of ?ws (trim s) = trim s" using t trim_start_of_id by simp
  moreover have "trim_start_of ?sw ?b = ?b" by (rule trim_start_of_id) (rule trim_start_of_none)
  ultimately show ?thesis using t by (simp add: trim_def)
qed

lemma whitespace_ends:
  assumes "p \<in> set whitespaces"
  shows "p \<noteq> [] \<and> (of_char (hd p) :: nat) \<notin> {33..126} \<and> (of_char (last p) :: nat) \<notin> {33..126}"
proof -
  have "\<forall>b \<in> set whitespace_encodings. b \<noteq> [] \<and> hd b mod 256 \<notin> {33..126} \<and> last b mod 256 \<notin> {33..126}"
    by (auto simp: whitespace_encodings_def)
  with assms show ?thesis by (auto simp: whitespaces_def hd_map last_map)
qed

lemma trim_letters:
  assumes "s \<noteq> []" "(of_char (hd s) :: nat) \<in> {33..126}" "(of_char (last s) :: nat) \<in> {33..126}"
  shows "trim s = s"
proof -
  have "strip_one whitespaces s = None"
    using assms(2) whitespace_ends unfolding strip_one_None by (metis hd_append2)
  moreover have "strip_one (map List.rev whitespaces) (List.rev s) = None"
    using assms(1,3) whitespace_ends unfolding strip_one_None
    by (auto simp: rev_eq_append_conv)
  ultimately show ?thesis by (simp add: trim_def trim_start_of_id)
qed

lemma trim_printable:
  assumes "\<forall>c \<in> set s. (of_char c :: nat) \<in> {33..126}"
  shows "trim s = s"
proof (cases "s = []")
  case True
  have "strip_one ws [] = None" if "[] \<notin> set ws" for ws using that by (auto simp: strip_one_None)
  moreover have "[] \<notin> set whitespaces" using whitespace_ends by blast
  ultimately show ?thesis using True by (simp add: trim_def trim_start_of_id image_iff)
qed (use assms in \<open>simp add: trim_letters\<close>)

lemma parse_policy_json [simp]: "parse_policy (policy_json p) = Inr p"
  by (cases p) (simp add: parse_policy_def policy_json_def policy_fields_def policy_member_def
      coalesce_def found_def)

text \<open>
  C34. Accepted definitions are normal forms: normalising what normalisation returned returns it again
  with the same policy, and a generated flag rendered from it, with any token and any mask, fits in
  512 bytes.
\<close>

theorem accepted_definitions_are_normal:
  assumes "normalize_definition env flag_type content data exposure = Inr (ty, body, stored)"
  shows "normalize_definition env ty body stored exposure = Inr (ty, body, stored) \<and>
    parse_policy stored = parse_policy data \<and>
    (ty = ''generated'' \<longrightarrow> length (render_generated_flag body token bits) \<le> 512)"
proof -
  let ?ty = "to_ascii_lowercase (trim flag_type)"
  have ty: "ty = ?ty" "ty \<in> {''static'', ''regex'', ''generated''}" and content: "body = trim content"
    and ok: "trim content \<noteq> []" "length (trim content) \<le> max_flag_bytes" "\<not> has_control (trim content)"
    using assms by (auto simp: normalize_definition_def Let_def split: if_splits sum.splits)
  from assms obtain policy where p: "parse_policy data = Inr policy" "stored = policy_json policy"
    by (auto simp: normalize_definition_def Let_def split: if_splits sum.splits)
  have fix_ty: "to_ascii_lowercase (trim ty) = ty"
    using ty(2) by (elim insertE emptyE) (simp_all add: trim_letters to_ascii_lowercase_def ascii_lower_def)
  have "normalize_definition env ty body stored exposure = normalize_definition env flag_type content data exposure"
    using p fix_ty content ty(1) unfolding normalize_definition_def by (simp add: Let_def)
  moreover have "length (render_generated_flag body token bits) \<le> 512" if g: "ty = ''generated''"
  proof -
    have "check_generated body policy exposure = Inr ()"
      using assms p ty(1) content g
      by (auto simp: normalize_definition_def Let_def split: if_splits sum.splits)
    then have "length (render_generated_flag body token bits) \<le> max_flag_bytes" by (rule checked_length)
    then show ?thesis by (simp add: max_flag_bytes_def)
  qed
  ultimately show ?thesis using assms p by simp
qed

section \<open>Leet variation\<close>

lemma replaced_bit: "k < 64 \<Longrightarrow> replaced (Some m) k \<longleftrightarrow> bit m k"
  by (simp add: replaced_def and_exp_eq_0_iff_not_bit push_bit_of_1)

lemma nth_letter:
  assumes "k < length (leet_positions t)"
  shows "letters_before t (leet_positions t ! k) = k"
proof -
  let ?xs = "leet_positions t"
  have sorted: "sorted_wrt (<) ?xs"
    unfolding leet_positions_def by (rule sorted_wrt_filter) (simp add: sorted_wrt_upt)
  have "filter (\<lambda>j. j < ?xs ! k) ?xs = take k ?xs"
  proof -
    have "?xs = take k ?xs @ drop k ?xs" by simp
    moreover have "\<forall>j \<in> set (take k ?xs). j < ?xs ! k"
      using sorted assms by (auto simp: in_set_conv_nth sorted_wrt_iff_nth_less)
    moreover have "\<forall>j \<in> set (drop k ?xs). \<not> j < ?xs ! k"
      using sorted assms
      by (auto simp: in_set_conv_nth sorted_wrt_iff_nth_less not_less le_less) (metis add.right_neutral add_less_cancel_left less_diff_conv neq0_conv add.commute)
    ultimately show ?thesis by (metis append.right_neutral filter_False filter_True filter_append)
  qed
  with assms show ?thesis by (simp add: letters_before_def)
qed

lemma plain_rendering:
  assumes "token_starts t = []"
  shows "render_generated_flag t token bits = map (\<lambda>i. if i \<in> set (leet_positions t) \<and>
      replaced bits (letters_before t i) then the (leet_replacement (t ! i)) else t ! i) [0 ..< length t]"
proof -
  have "map (rendered_piece t token bits) [0 ..< length t] = map (\<lambda>i. [if i \<in> set (leet_positions t) \<and>
      replaced bits (letters_before t i) then the (leet_replacement (t ! i)) else t ! i]) [0 ..< length t]"
  proof (rule map_cong)
    fix i assume "i \<in> set [0 ..< length t]"
    have "rendered_piece t token bits i = (if i \<in> set (leet_positions t)
        then [if replaced bits (letters_before t i) then the (leet_replacement (t ! i)) else t ! i] else [t ! i])"
      by (simp add: rendered_piece_def inside_random_token_def assms)
    then show "rendered_piece t token bits i = [if i \<in> set (leet_positions t) \<and>
      replaced bits (letters_before t i) then the (leet_replacement (t ! i)) else t ! i]" by simp
  qed simp
  then show ?thesis unfolding rendering_is_positionwise by (simp only: concat_map_singleton)
qed

text \<open>Two masks that differ within the letters give texts that differ, in either case mode of
  ASCII: a letter and its digit are never the two cases of one letter.\<close>

lemma leet_pairs_differ:
  "list_all (\<lambda>c. ascii_lower c \<noteq> ascii_lower (the (leet_replacement c))) ''aAeEiIoOsStT''"
  by code_simp

lemma leet_replacement_letter:
  assumes "leet_replacement c \<noteq> None"
  shows "c \<in> set ''aAeEiIoOsStT''"
proof -
  have "c \<in> set ''aA'' \<or> c \<in> set ''eE'' \<or> c \<in> set ''iI'' \<or> c \<in> set ''oO'' \<or> c \<in> set ''sS'' \<or> c \<in> set ''tT''"
    using assms unfolding leet_replacement_def by argo
  then have "c \<in> set (''aA'' @ ''eE'' @ ''iI'' @ ''oO'' @ ''sS'' @ ''tT'')" by (simp only: set_append Un_iff)
  then show ?thesis by (simp only: append.simps)
qed

lemma leet_pair_differs:
  assumes "leet_replacement c = Some d"
  shows "ascii_lower c \<noteq> ascii_lower d"
proof -
  have "c \<in> set ''aAeEiIoOsStT''" by (rule leet_replacement_letter) (simp add: assms)
  with leet_pairs_differ have "ascii_lower c \<noteq> ascii_lower (the (leet_replacement c))"
    unfolding list_all_iff by blast
  with assms show ?thesis by simp
qed

lemma renderings_differ:
  assumes "token_starts t = []" "k < length (leet_positions t)" "bit m k \<noteq> bit m' k" "k < 64"
  shows "to_ascii_lowercase (render_generated_flag t token (Some m)) \<noteq>
    to_ascii_lowercase (render_generated_flag t token' (Some m'))"
proof
  let ?i = "leet_positions t ! k"
  let ?r = "\<lambda>m. if replaced (Some m) k then the (leet_replacement (t ! ?i)) else t ! ?i"
  have i: "?i \<in> set (leet_positions t)" using assms(2) by simp
  then have l: "?i < length t" and r: "leet_replacement (t ! ?i) \<noteq> None" by (auto simp: leet_positions_def)
  have at: "to_ascii_lowercase (render_generated_flag t token (Some m)) ! ?i = ascii_lower (?r m)" for token m
    using i l by (simp add: to_ascii_lowercase_def plain_rendering [OF assms(1)] nth_letter [OF assms(2)])
  assume "to_ascii_lowercase (render_generated_flag t token (Some m)) =
    to_ascii_lowercase (render_generated_flag t token' (Some m'))"
  then have "ascii_lower (?r m) = ascii_lower (?r m')" using at by metis
  with r assms(3,4) show False
    by (auto simp: replaced_bit dest: leet_pair_differs split: if_splits)
qed

lemma leet_capacity_eq:
  assumes "n \<le> 62"
  shows "leet_capacity n = 2 ^ n - 1"
proof -
  have "(push_bit (n mod 64) 1 :: 64 word) - 1 = mask n" using assms by (simp add: mask_eq_exp_minus_1)
  moreover have "sint (mask n :: 64 word) = mask n"
  proof -
    have "- (2 ^ 63) \<le> (mask n :: int)" by (rule order_trans [OF _ mask_nonnegative_int]) simp
    moreover have "(mask n :: int) < 2 ^ 63"
      using assms power_increasing [of n 63 "2::int"] by (simp add: mask_eq_exp_minus_1)
    ultimately have "signed_take_bit 63 (mask n :: int) = mask n" by (rule signed_take_bit_int_eq_self)
    then show ?thesis using assms by (simp add: sint_uint uint_mask_eq)
  qed
  ultimately show ?thesis by (simp add: leet_capacity_def mask_eq_exp_minus_1)
qed

lemma mask_bits_differ:
  assumes "0 \<le> a" "a < 2 ^ n" "0 \<le> b" "b < 2 ^ n" "a \<noteq> b" "n \<le> 62"
  obtains k where "k < n" "bit (word_of_int a :: 64 word) k \<noteq> bit (word_of_int b :: 64 word) k"
proof -
  have "take_bit n a \<noteq> take_bit n b" using assms by (simp add: take_bit_int_eq_self)
  then obtain k where "k < n" "bit a k \<noteq> bit b k" by (auto simp: bit_eq_iff bit_take_bit_iff)
  with assms(6) show ?thesis by (intro that [of k]) (auto simp: bit_word_of_int_iff)
qed

lemma masks_render_apart:
  assumes "token_starts t = []" "length (leet_positions t) \<le> 62"
    "0 \<le> a" "a < 2 ^ length (leet_positions t)" "0 \<le> b" "b < 2 ^ length (leet_positions t)" "a \<noteq> b"
  shows "to_ascii_lowercase (render_generated_flag t token (mask_word (Some a))) \<noteq>
    to_ascii_lowercase (render_generated_flag t token' (mask_word (Some b)))"
proof -
  obtain k where "k < length (leet_positions t)" "bit (word_of_int a :: 64 word) k \<noteq> bit (word_of_int b :: 64 word) k"
    using mask_bits_differ [OF assms(3-7,2)] .
  then show ?thesis unfolding mask_word_def option.map
    using assms(1,2) by (intro renderings_differ [of t k]) simp_all
qed

text \<open>Among one more candidates than assignments, one is free.\<close>

lemma some_candidate_free:
  assumes "int (length rs) < c"
  obtains m where "List.find (\<lambda>m. \<forall>r \<in> set rs. f r \<noteq> Some m) [1 .. min c (int (length rs) + 1)] = Some m"
    "0 < m" "m \<le> c" "\<forall>r \<in> set rs. f r \<noteq> Some m"
proof (cases "List.find (\<lambda>m. \<forall>r \<in> set rs. f r \<noteq> Some m) [1 .. min c (int (length rs) + 1)]")
  case None
  then have "Some ` {1 .. int (length rs) + 1} \<subseteq> f ` set rs"
    using assms by (auto simp: find_None_iff image_iff) (metis)
  then have "card (Some ` {1 .. int (length rs) + 1}) \<le> card (f ` set rs)"
    by (rule card_mono [rotated]) simp
  also have "\<dots> \<le> length rs" by (meson card_image_le card_length finite_set le_trans)
  finally show ?thesis by (simp add: card_image)
next
  case (Some m)
  then have "m \<in> set [1 .. min c (int (length rs) + 1)]" "\<forall>r \<in> set rs. f r \<noteq> Some m"
    using nth_mem unfolding find_Some_iff by metis+
  with Some show ?thesis by (intro that) auto
qed

text \<open>
  C32. The leet allocation hands out every mask before it gives up, and never the flag of another user:
  for a template without token and with \<open>n\<close> letters, at most 62, it answers a conflict exactly when
  \<open>2^n - 1\<close> assignments or more exist; otherwise a mask strictly between 0 and \<open>2^n\<close> that no
  assignment has, and whose rendering differs, even after ASCII lowering, from the plain template and
  from what every assignment with a mask in range renders to.
\<close>

theorem leet_allocation_is_fresh:
  assumes "token_starts (fl_content flag) = []" "n = length (leet_positions (fl_content flag))" "n \<le> 62"
  shows "if 2 ^ n - 1 \<le> int (length (assignments flag d))
    then next_available_leet_mask flag d =
      (Inl (conflict ''The leet variation space for this challenge is exhausted''), d)
    else \<exists>m. next_available_leet_mask flag d = (Inr m, d) \<and> 0 < m \<and> m < 2 ^ n \<and>
      (\<forall>r \<in> set (assignments flag d). uf_leet_mask r \<noteq> Some m) \<and>
      (\<forall>b. 0 \<le> b \<and> b < 2 ^ n \<and> (b = 0 \<or> (\<exists>r \<in> set (assignments flag d). uf_leet_mask r = Some b)) \<longrightarrow>
        to_ascii_lowercase (render_generated_flag (fl_content flag) token (mask_word (Some m))) \<noteq>
        to_ascii_lowercase (render_generated_flag (fl_content flag) token' (mask_word (Some b))))"
proof (cases "2 ^ n - 1 \<le> int (length (assignments flag d))")
  case True
  with assms show ?thesis by (simp add: next_available_leet_mask_def leet_capacity_eq)
next
  case False
  then obtain m where m: "List.find (\<lambda>m. \<forall>r \<in> set (assignments flag d). uf_leet_mask r \<noteq> Some m)
      [1 .. min (2 ^ n - 1) (int (length (assignments flag d)) + 1)] = Some m"
    "0 < m" "m \<le> 2 ^ n - 1" "\<forall>r \<in> set (assignments flag d). uf_leet_mask r \<noteq> Some m"
    using some_candidate_free [of "assignments flag d" "2 ^ n - 1" uf_leet_mask] by auto
  have "next_available_leet_mask flag d = (Inr m, d)"
    using False m(1) assms by (simp add: next_available_leet_mask_def leet_capacity_eq found_def)
  moreover have "to_ascii_lowercase (render_generated_flag (fl_content flag) token (mask_word (Some m))) \<noteq>
      to_ascii_lowercase (render_generated_flag (fl_content flag) token' (mask_word (Some b)))"
    if "0 \<le> b" "b < 2 ^ n" "b = 0 \<or> (\<exists>r \<in> set (assignments flag d). uf_leet_mask r = Some b)" for b
    using that m(2-4) assms by (intro masks_render_apart) auto
  ultimately show ?thesis using False m(2-4) by auto
qed

end
