(* ===== verification/FlagAssignments.thy ===== *)
theory FlagAssignments
  imports FlagProperties
begin

text \<open>
  The assignments of generated flags: the invariant that every assignment carries the tag of the
  text its own row renders to, that a launch keeps it and is idempotent, and what a submission of
  that text is then recognised as. The last section evaluates the flag policy's theorems.
\<close>

section \<open>The invariant of the assignments\<close>

definition row_tag_ok :: "flag_env \<Rightarrow> string \<Rightarrow> stored_flag list \<Rightarrow> user_flag \<Rightarrow> bool" where
  "row_tag_ok env secret_key flags r \<longleftrightarrow>
     (\<forall>f \<in> set flags. uf_flag_id r = fl_id f \<and> uf_revision r = fl_revision f \<longrightarrow>
        uf_challenge_id r = fl_challenge_id f \<and>
        (case parse_policy (fl_data f) of Inl _ \<Rightarrow> True
         | Inr policy \<Rightarrow> uf_match_tag r = match_tag env secret_key (fl_challenge_id f)
             (render_generated_flag (fl_content f) (uf_random_token r) (mask_word (uf_leet_mask r)))
             (fp_case_sensitive policy)))"

definition user_flags_ok :: "flag_env \<Rightarrow> string \<Rightarrow> portal_db \<Rightarrow> bool" where
  "user_flags_ok env secret_key d \<longleftrightarrow>
     distinct (map fl_id (pd_flags d)) \<and>
     distinct (map (\<lambda>r. (uf_challenge_id r, uf_match_tag r)) (pd_user_flags d)) \<and>
     distinct (map (\<lambda>r. (uf_flag_id r, uf_user_id r)) (pd_user_flags d)) \<and>
     list_all (row_tag_ok env secret_key (pd_flags d)) (pd_user_flags d) \<and>
     list_all leet_mask_check (pd_user_flags d)"

lemma find_keyed:
  assumes "distinct (map f xs)" "x \<in> set xs" "\<And>y. P y \<longleftrightarrow> f y = f x"
  shows "List.find P xs = Some x"
  using assms by (induction xs) (auto simp: image_iff)

text \<open>What a successful launch leaves: the assignment of the user, in the table and unchanged by
  further launches.\<close>

lemma choose_leet_mask_frame: "choose_leet_mask flag policy t bits d = (x, d') \<Longrightarrow> d' = d"
  by (auto simp: choose_leet_mask_def next_available_leet_mask_def Let_def and_then_def
      split: if_splits sum.splits prod.splits)

lemma insert_user_flag_Inr:
  "insert_user_flag r d = (Inr x, d') \<longleftrightarrow> leet_mask_check r \<and>
    (uf_challenge_id r, uf_match_tag r) \<notin> set (map (\<lambda>r. (uf_challenge_id r, uf_match_tag r)) (pd_user_flags d)) \<and>
    (uf_flag_id r, uf_user_id r) \<notin> set (map (\<lambda>r. (uf_flag_id r, uf_user_id r)) (pd_user_flags d)) \<and>
    d' = d\<lparr>pd_user_flags := pd_user_flags d @ [r]\<rparr>"
  unfolding insert_user_flag_def set_map image_iff by (auto; metis)

lemma allocate_flag_Inr:
  assumes "allocate_flag env token bits c u flag secret_key d = (Inr rendered, d')"
    and policy: "parse_policy (fl_data flag) = Inr policy"
  obtains r where "d' = d\<lparr>pd_user_flags := pd_user_flags d @ [r]\<rparr>"
    "insert_user_flag r d = (Inr (), d')"
    "uf_flag_id r = fl_id flag" "uf_user_id r = u" "uf_challenge_id r = c" "uf_revision r = fl_revision flag"
    "rendered = render_generated_flag (fl_content flag) (uf_random_token r) (mask_word (uf_leet_mask r))"
    "uf_match_tag r = match_tag env secret_key c rendered (fp_case_sensitive policy)"
proof -
  let ?token = "if token_starts (fl_content flag) \<noteq> [] then Some token else None"
  from assms(1) obtain m d1 where m: "choose_leet_mask flag policy (token_starts (fl_content flag) \<noteq> []) bits d = (Inr m, d1)"
    and run: "and_then (insert_user_flag \<lparr>uf_flag_id = fl_id flag, uf_challenge_id = c, uf_user_id = u,
          uf_revision = fl_revision flag,
          uf_match_tag = match_tag env secret_key c
            (render_generated_flag (fl_content flag) ?token (mask_word m)) (fp_case_sensitive policy),
          uf_random_token = ?token, uf_leet_mask = m,
          uf_leet_position_count = (if fp_leet_variation policy
            then Some (int (length (leet_positions (fl_content flag)))) else None)\<rparr> d1)
        (\<lambda>_ d. (Inr (render_generated_flag (fl_content flag) ?token (mask_word m)), d)) = (Inr rendered, d')"
    (is "and_then (insert_user_flag ?r _) _ = _")
    unfolding allocate_flag_def Let_def policy and_then_simps by (erule and_then_Inr_cases)
  from choose_leet_mask_frame [OF m] have [simp]: "d1 = d" .
  from run have ins: "insert_user_flag ?r d = (Inr (), d')"
    and rendered: "rendered = render_generated_flag (fl_content flag) ?token (mask_word m)"
    by (elim and_then_Inr_cases; simp)+
  show ?thesis
    by (rule that [of ?r]) (use ins rendered in \<open>simp_all add: insert_user_flag_Inr\<close>)
qed

lemma materialized_row:
  assumes ok: "user_flags_ok env secret_key d"
    and flag: "flag \<in> set (pd_flags d)" "fl_challenge_id flag = c"
    and policy: "parse_policy (fl_data flag) = Inr policy"
    and run: "materialize_flag env token bits c u flag secret_key d = (Inr rendered, d')"
  obtains r where "r \<in> set (pd_user_flags d')" "user_flags_ok env secret_key d'" "pd_flags d' = pd_flags d"
    "uf_flag_id r = fl_id flag" "uf_user_id r = u" "uf_challenge_id r = c" "uf_revision r = fl_revision flag"
    "rendered = render_generated_flag (fl_content flag) (uf_random_token r) (mask_word (uf_leet_mask r))"
    "uf_match_tag r = match_tag env secret_key c rendered (fp_case_sensitive policy)"
proof (cases "List.find (\<lambda>r. uf_flag_id r = fl_id flag \<and> uf_user_id r = u) (pd_user_flags d)")
  case None
  with run have a: "allocate_flag env token bits c u flag secret_key d = (Inr rendered, d')"
    by (simp add: materialize_flag_def)
  from allocate_flag_Inr [OF a policy] obtain r where
    d': "d' = d\<lparr>pd_user_flags := pd_user_flags d @ [r]\<rparr>" and ins: "insert_user_flag r d = (Inr (), d')"
    and r: "uf_flag_id r = fl_id flag" "uf_user_id r = u" "uf_challenge_id r = c" "uf_revision r = fl_revision flag"
      "rendered = render_generated_flag (fl_content flag) (uf_random_token r) (mask_word (uf_leet_mask r))"
      "uf_match_tag r = match_tag env secret_key c rendered (fp_case_sensitive policy)" .
  have "f = flag" if "f \<in> set (pd_flags d)" "fl_id f = fl_id flag" for f
    using ok flag(1) that by (auto simp: user_flags_ok_def distinct_map dest: inj_onD)
  then have "row_tag_ok env secret_key (pd_flags d) r"
    unfolding row_tag_ok_def by (intro ballI impI) (use r flag(2) policy in simp)
  with ok ins d' have "user_flags_ok env secret_key d'"
    by (simp add: user_flags_ok_def insert_user_flag_Inr)
  with d' r show ?thesis by (intro that [of r]) simp_all
next
  case (Some r)
  with run have d': "d' = d" "uf_revision r = fl_revision flag"
    "rendered = render_generated_flag (fl_content flag) (uf_random_token r) (mask_word (uf_leet_mask r))"
    by (auto simp: materialize_flag_def split: if_splits)
  from find_mem [OF Some] have r: "r \<in> set (pd_user_flags d)" "uf_flag_id r = fl_id flag" "uf_user_id r = u" by auto
  with ok have "row_tag_ok env secret_key (pd_flags d) r" by (auto simp: user_flags_ok_def list_all_iff)
  then have "uf_challenge_id r = fl_challenge_id flag" "uf_match_tag r = match_tag env secret_key (fl_challenge_id flag)
      (render_generated_flag (fl_content flag) (uf_random_token r) (mask_word (uf_leet_mask r)))
      (fp_case_sensitive policy)"
    using flag(1) r(2) d'(2) policy by (auto simp: row_tag_ok_def)
  with ok r d' flag(2) show ?thesis by (intro that [of r]) simp_all
qed

lemma materialize_again:
  assumes "user_flags_ok env secret_key d" "r \<in> set (pd_user_flags d)"
    "uf_flag_id r = fl_id flag" "uf_user_id r = u" "uf_revision r = fl_revision flag"
  shows "materialize_flag env token bits c u flag secret_key d =
    (Inr (render_generated_flag (fl_content flag) (uf_random_token r) (mask_word (uf_leet_mask r))), d)"
proof -
  have "List.find (\<lambda>r. uf_flag_id r = fl_id flag \<and> uf_user_id r = u) (pd_user_flags d) = Some r"
    by (rule find_keyed [where f = "\<lambda>r. (uf_flag_id r, uf_user_id r)"])
       (use assms in \<open>auto simp: user_flags_ok_def\<close>)
  with assms(5) show ?thesis by (simp add: materialize_flag_def)
qed

lemma matched_row:
  assumes "user_flags_ok env secret_key d" "r \<in> set (pd_user_flags d)"
    "parse_policy (fl_data flag) = Inr policy" "uf_flag_id r = fl_id flag" "uf_challenge_id r = c"
    "uf_match_tag r = match_tag env secret_key c provided (fp_case_sensitive policy)"
  shows "generated_flag_match env flag provided v c secret_key d =
    (Inr (if uf_user_id r = v then Own_Match
          else Other_Match (fl_id flag) (uf_user_id r) (fp_accept_other_users policy) (uf_match_tag r)), d)"
proof -
  have "List.find (\<lambda>q. uf_challenge_id q = c \<and> uf_match_tag q = uf_match_tag r) (pd_user_flags d) = Some r"
    by (rule find_keyed [where f = "\<lambda>r. (uf_challenge_id r, uf_match_tag r)"])
       (use assms in \<open>auto simp: user_flags_ok_def\<close>)
  with assms(3-6) show ?thesis by (simp add: generated_flag_match_def Let_def)
qed

text \<open>
  C18. The personal flag is its owner's and only theirs. When a launch hands out a generated flag, it
  keeps the invariant of the assignments; every later launch for that user, whatever randomness it
  draws, hands out the same text and changes nothing; and a submission of that text is recognised
  as the owner's own, or, from any other user, as the owner's flag with the sharing policy of the
  definition, and reading it changes nothing.
\<close>

theorem personal_flag_is_recognised:
  assumes ok: "user_flags_ok env secret_key d"
    and flag: "generated_flag_of c d = Some flag" and policy: "parse_policy (fl_data flag) = Inr policy"
    and run: "materialize_for_launch env token bits c u secret_key d = (Inr (Some rendered), d')"
  shows "user_flags_ok env secret_key d' \<and>
    materialize_for_launch env token' bits' c u secret_key d' = (Inr (Some rendered), d') \<and>
    generated_flag_match env flag rendered u c secret_key d' = (Inr Own_Match, d') \<and>
    (v \<noteq> u \<longrightarrow> generated_flag_match env flag rendered v c secret_key d' =
      (Inr (Other_Match (fl_id flag) u (fp_accept_other_users policy)
        (match_tag env secret_key c rendered (fp_case_sensitive policy))), d'))"
proof -
  have f: "flag \<in> set (pd_flags d)" "fl_challenge_id flag = c"
    using first_by_Some [OF flag [unfolded generated_flag_of_def]] by auto
  have m: "materialize_flag env token bits c u flag secret_key d = (Inr rendered, d')"
    using run flag by (auto simp: materialize_for_launch_def elim!: and_then_Inr_cases)
  from materialized_row [OF ok f policy m] obtain r where
    r: "r \<in> set (pd_user_flags d')" "user_flags_ok env secret_key d'" "pd_flags d' = pd_flags d"
      "uf_flag_id r = fl_id flag" "uf_user_id r = u" "uf_challenge_id r = c" "uf_revision r = fl_revision flag"
      "rendered = render_generated_flag (fl_content flag) (uf_random_token r) (mask_word (uf_leet_mask r))"
      "uf_match_tag r = match_tag env secret_key c rendered (fp_case_sensitive policy)" .
  have "generated_flag_of c d' = Some flag" using flag r(3) by (simp add: generated_flag_of_def)
  then have "materialize_for_launch env token' bits' c u secret_key d' = (Inr (Some rendered), d')"
    using materialize_again [OF r(2,1,4,5,7)] r(8) by (simp add: materialize_for_launch_def)
  moreover have "generated_flag_match env flag rendered v c secret_key d' =
      (Inr (if u = v then Own_Match else Other_Match (fl_id flag) u (fp_accept_other_users policy)
        (match_tag env secret_key c rendered (fp_case_sensitive policy))), d')" for v
    using matched_row [OF r(2,1) policy r(4,6,9)] r(5,9) by simp
  ultimately show ?thesis using r(2) by simp
qed

section \<open>A portal with one generated flag\<close>

definition sample_flag_env :: flag_env where
  "sample_flag_env = \<lparr>fe_regex = (\<lambda>p insensitive. Some (\<lambda>s. s = p)), fe_hmac = (\<lambda>k m. k @ m),
     fe_lowercase = to_ascii_lowercase\<rparr>"

definition sample_flag :: stored_flag where
  "sample_flag = \<lparr>fl_id = 3, fl_challenge_id = 6, fl_type = ''generated'', fl_content = ''f{let}'',
     fl_data = JObj [(''leet_variation'', JBool True)], fl_revision = 1\<rparr>"

definition sample_portal :: portal_db where
  "sample_portal = \<lparr>pd_config = [], pd_users = [], pd_teams = [], pd_tokens = [], pd_sessions = [],
     pd_challenges = [], pd_flags = [sample_flag], pd_user_flags = [], pd_submissions = [], pd_solves = [],
     pd_sharing = [], pd_runtime = \<lparr>rt_setting = None, rt_configs = [], rt_servers = [],
       rt_instances = [], rt_commands = [], rt_events = [], rt_notified = [], rt_next_id = 0\<rparr>,
     pd_objects = \<lparr>objects = [], categories = [], operations = [], object_events = [], next_operation_id = 0\<rparr>,
     pd_pages = [], pd_solutions = [], pd_next_submission = 0\<rparr>"

lemma sample_checks:
  "check_generated ''flet'' (default_policy\<lparr>fp_leet_variation := True\<rparr>) ''private'' = Inr ()"
  "to_ascii_lowercase ''generated'' = ''generated''" "has_control ''flet'' = False"
  "parse_policy (JObj [(''leet_variation'', JBool True)]) = Inr (default_policy\<lparr>fp_leet_variation := True\<rparr>)"
  by code_simp+

lemma sample_normalized:
  "normalize_definition sample_flag_env ''generated'' ''flet'' (JObj [(''leet_variation'', JBool True)])
     ''private'' = Inr (''generated'', ''flet'', policy_json (default_policy\<lparr>fp_leet_variation := True\<rparr>))"
  by (simp add: normalize_definition_def trim_letters sample_checks max_flag_bytes_def)

theorem accepted_definitions_are_normal_witness:
  "normalize_definition sample_flag_env ''generated'' ''flet''
     (policy_json (default_policy\<lparr>fp_leet_variation := True\<rparr>)) ''private'' =
   Inr (''generated'', ''flet'', policy_json (default_policy\<lparr>fp_leet_variation := True\<rparr>))"
  using accepted_definitions_are_normal [OF sample_normalized] by blast

lemma sample_letters:
  "token_starts (fl_content sample_flag) = []" "length (leet_positions (fl_content sample_flag)) = 2"
  by code_simp+

theorem leet_allocation_is_fresh_witness:
  "\<exists>m. next_available_leet_mask sample_flag sample_portal = (Inr m, sample_portal) \<and> 0 < m \<and> m < 2 ^ 2"
  using leet_allocation_is_fresh [OF sample_letters(1) refl, of sample_portal] sample_letters(2)
  by (simp add: assignments_def sample_portal_def) blast

lemma sample_launch:
  "snd (materialize_for_launch sample_flag_env 0 0 6 4 ''key'' sample_portal) =
     sample_portal\<lparr>pd_user_flags := pd_user_flags (snd (materialize_for_launch sample_flag_env 0 0 6 4 ''key'' sample_portal))\<rparr>"
  "fst (materialize_for_launch sample_flag_env 0 0 6 4 ''key'' sample_portal) = Inr (Some ''f{l3t}'')"
  by code_simp+

theorem personal_flag_is_recognised_witness:
  "\<exists>d. materialize_for_launch sample_flag_env 0 0 6 4 ''key'' sample_portal = (Inr (Some ''f{l3t}''), d) \<and>
     generated_flag_match sample_flag_env sample_flag ''f{l3t}'' 4 6 ''key'' d = (Inr Own_Match, d)"
proof -
  obtain d where d: "materialize_for_launch sample_flag_env 0 0 6 4 ''key'' sample_portal = (Inr (Some ''f{l3t}''), d)"
    using sample_launch(2) by (metis prod.collapse)
  have "user_flags_ok sample_flag_env ''key'' sample_portal" by (simp add: user_flags_ok_def sample_portal_def)
  moreover have "generated_flag_of 6 sample_portal = Some sample_flag"
    by (simp add: generated_flag_of_def first_by_def sample_portal_def sample_flag_def)
  moreover have "parse_policy (fl_data sample_flag) = Inr (default_policy\<lparr>fp_leet_variation := True\<rparr>)"
    by code_simp
  ultimately show ?thesis using personal_flag_is_recognised d by blast
qed

end
