(* ===== verification/ControlPlaneRequests.thy ===== *)
theory ControlPlaneRequests
  imports ControlPlane FlagAssignments
begin

text \<open>
  Every request of the API to the control plane (\<open>services/api/src/routes/runtimes.rs\<close>) keeps the
  invariant of the tables, and with it every history of requests and controller sessions.
\<close>

section \<open>Rows the API adds\<close>

lemma queue_command_Inr:
  assumes "queue_command now i kind g payload user key d = (Inr c, d')"
  obtains r where "d' = d\<lparr>rt_commands := rt_commands d @ [r], rt_next_id := rt_next_id d + 1\<rparr>"
    "cmd_id r = rt_next_id d" "command_slot r = (ins_id i, kind, g)" "command_consistent r"
    "cmd_claim_token r = None" "cmd_status r = Pending"
    "\<not> (\<exists>q \<in> set (rt_commands d). same_key q r)"
    "\<not> (\<exists>q \<in> set (rt_commands d). open_command (ins_id i) kind q \<and> cmd_generation q = g)"
    "c = rt_next_id d" "cmd_requested_by r = Some user" "cmd_idempotency_key r = key"
proof -
  let ?r = "(new_command now (rt_next_id d) (ins_id i) kind g (ins_private_revision i) (ins_runtime_revision i) payload)
             \<lparr>cmd_requested_by := Some user, cmd_idempotency_key := key\<rparr>"
  have "\<not> (\<exists>q \<in> set (rt_commands d). same_key q ?r)"
    using assms by (auto simp: queue_command_def idempotency_clash_def same_key_def new_command_def split: if_splits)
  then show ?thesis
    using assms by (intro that [of ?r])
      (auto simp: queue_command_def new_command_def command_consistent_def split: if_splits)
qed

lemma queue_command_ok:
  assumes "control_plane_ok d" "insertable d (ins_id i) kind g"
    "queue_command now i kind g payload user key d = (Inr c, d')"
  shows "control_plane_ok d'" "rt_instances d' = rt_instances d"
proof -
  from assms(3) obtain r where r: "d' = d\<lparr>rt_commands := rt_commands d @ [r], rt_next_id := rt_next_id d + 1\<rparr>"
    "cmd_id r = rt_next_id d" "command_slot r = (ins_id i, kind, g)" "command_consistent r"
    "cmd_claim_token r = None" "cmd_status r = Pending" "\<not> (\<exists>q \<in> set (rt_commands d). same_key q r)"
    "\<not> (\<exists>q \<in> set (rt_commands d). open_command (ins_id i) kind q \<and> cmd_generation q = g)"
    by (rule queue_command_Inr)
  show "control_plane_ok d'" unfolding r(1) using assms(1,2) r(8) r(2-7) by (rule control_plane_append)
  show "rt_instances d' = rt_instances d" by (simp add: r(1))
qed

lemma notify_ok [intro]: "control_plane_ok d \<Longrightarrow> control_plane_ok (notify channel payload d)"
  unfolding notify_def by (rule control_plane.I_notified)

lemma event_ok [intro]: "control_plane_ok d \<Longrightarrow> control_plane_ok (append_api_event i ty actor payload d)"
  unfolding append_api_event_def by (rule control_plane.I_events)

lemma log_fields [simp]:
  "rt_instances (notify channel payload d) = rt_instances d"
  "rt_commands (notify channel payload d) = rt_commands d"
  "rt_servers (notify channel payload d) = rt_servers d"
  "rt_instances (append_api_event i ty actor body d) = rt_instances d"
  "rt_commands (append_api_event i ty actor body d) = rt_commands d"
  "rt_servers (append_api_event i ty actor body d) = rt_servers d"
  by (simp_all add: notify_def append_api_event_def)

lemma instance_by_id_Inr:
  "instance_by_id j d = Inr i \<Longrightarrow> i \<in> set (rt_instances d) \<and> ins_id i = j"
  by (auto simp: instance_by_id_def find_instance_def find_Some_iff)

lemma only_instance:
  assumes "control_plane_ok d" "i \<in> set (rt_instances d)" "r \<in> set (rt_instances d)" "ins_id r = ins_id i"
  shows "r = i"
  using assms by (auto simp: control_plane_ok_def runtime_db_ok_def intro: distinct_map_eq)

section \<open>Launching\<close>

lemma insert_instance_ok:
  assumes ok: "control_plane_ok d" and ins: "insert_instance i d = (Inr j, d')"
    and i: "ins_id i = rt_next_id d" "startable_snapshot (ins_deployment_snapshot i)"
  shows "control_plane_ok d' \<and> j = i \<and> i \<in> set (rt_instances d')"
proof -
  let ?n = "rt_next_id d"
  from ins have d': "d' = d\<lparr>rt_instances := rt_instances d @ [i], rt_next_id := ?n + 1\<rparr>" "j = i"
    and free: "\<not> (\<exists>r \<in> set (rt_instances d). ins_active r \<and> ins_owner_user_id r = ins_owner_user_id i)"
    and checks: "ins_desired_expires_at i \<le> ins_maximum_expires_at i" "ins_expires_at i \<le> ins_maximum_expires_at i"
    by (auto simp: insert_instance_def split: if_splits)
  have below: "ins_id r < ?n" if "r \<in> set (rt_instances d)" for r
    using ok that by (simp add: control_plane_ok_def instances_ok_def)
  have other: "cmd_instance_id c \<noteq> ?n" if "c \<in> set (rt_commands d)" for c
    using ok that below by (fastforce simp: control_plane_ok_def commands_grounded_def command_grounded_def)
  have old: "runtime_db_ok d" "commands_grounded d" "instances_ok (rt_instances d) ?n" "servers_ok (rt_servers d) ?n"
    "configs_ok (rt_configs d)"
    using ok by (simp_all add: control_plane_ok_def)
  have known: "generation_known (rt_instances d @ [i]) (cmd_instance_id c) (cmd_generation c)"
    if "c \<in> set (rt_commands d)" for c
    using old(1) that other [OF that] i(1) by (simp add: runtime_ok_defs generation_known_def)
  have distinct: "distinct (map ins_id (rt_instances d @ [i]))"
    using old(1) below i(1) by (fastforce simp: runtime_db_ok_def)
  have "runtime_db_ok d'"
    using old(1) distinct known checks(2) by (auto simp: d'(1) runtime_ok_defs less_Suc_eq)
  moreover have "command_grounded (rt_instances d @ [i]) c" if "c \<in> set (rt_commands d)" for c
    using old(2) that other [OF that] i(1) by (auto simp: commands_grounded_def command_grounded_def stop_wanted_def)
  then have "commands_grounded d'" using old(2) by (simp add: d'(1) commands_grounded_def)
  moreover have "instances_ok (rt_instances d @ [i]) (?n + 1)"
    using old(3) free checks(1) i by (auto simp: instances_ok_def active_owners_def less_Suc_eq)
  ultimately show ?thesis using old(4,5) servers_ok_mono by (auto simp: d' control_plane_ok_def)
qed

lemma snapshot_startable:
  "startable_snapshot (deployment_snapshot c flag_value) \<longleftrightarrow> validate_healthcheck (rcf_healthcheck c) = Inr ()"
  by (simp add: startable_snapshot_def deployment_snapshot_def)

lemma launch_instance_ok:
  assumes ok: "control_plane_ok d" and gate: "validate_healthcheck (rcf_healthcheck (lg_config gate)) = Inr ()"
    and run: "launch_instance ck u challenge_id gate ttl team key flag_value d = (Inr x, d')"
  shows "control_plane_ok d'"
proof -
  let ?row = "requested_instance (ac_db ck) (rt_next_id d) (cu_id u) team challenge_id gate
    (deployment_snapshot (lg_config gate) flag_value) (ac_app ck + secs ttl)
    (ac_app ck + secs (rcf_maximum_ttl (lg_config gate)))"
  from run [unfolded launch_instance_def Let_def] obtain i d1 c d2 where
    ins: "insert_instance ?row d = (Inr i, d1)" and
    cmd: "queue_command (ac_db ck) i Cmd_Start 1 (JObj []) (cu_id u) key
        (append_api_event (ins_id i) ''instance.requested'' (Some (cu_id u))
           (JObj [(''challenge_id'', JInt challenge_id), (''request_ip'', JStr (cu_request_ip u))]) d1) = (Inr c, d2)" and
    d': "d' = notify command_channel (uuid_text c) d2"
    by (elim and_then_Inr_cases) auto
  have row: "ins_id ?row = rt_next_id d" "startable_snapshot (ins_deployment_snapshot ?row)" "ins_generation ?row = 1"
    by (simp_all add: requested_instance_def snapshot_startable gate)
  from insert_instance_ok [OF ok ins row(1,2)] have d1: "control_plane_ok d1" "i = ?row" "i \<in> set (rt_instances d1)"
    by auto
  have "generation_known (rt_instances d1) (ins_id i) 1"
    unfolding generation_known_def using only_instance [OF d1(1,3)] row(3) [folded d1(2)] by force
  then have "insertable d1 (ins_id i) Cmd_Start 1" using d1(3) by (simp add: insertable_def)
  then have "control_plane_ok d2"
    by (intro queue_command_ok(1) [OF _ _ cmd] event_ok d1(1)) (simp add: insertable_def)
  then show ?thesis unfolding d' by (rule notify_ok)
qed

lemma materialize_for_launch_frame:
  assumes "materialize_for_launch env token bits c u secret_key p = (Inr v, p')"
  shows "pd_runtime p' = pd_runtime p"
proof (cases "generated_flag_of c p")
  case None
  with assms show ?thesis by (simp add: materialize_for_launch_def)
next
  case (Some flag)
  with assms obtain x where run: "materialize_flag env token bits c u flag secret_key p = (Inr x, p')"
    unfolding materialize_for_launch_def by (auto elim!: and_then_Inr_cases)
  show ?thesis
  proof (cases "List.find (\<lambda>r. uf_flag_id r = fl_id flag \<and> uf_user_id r = u) (pd_user_flags p)")
    case None
    with run have alloc: "allocate_flag env token bits c u flag secret_key p = (Inr x, p')"
      by (simp add: materialize_flag_def)
    then obtain policy where "parse_policy (fl_data flag) = Inr policy"
      unfolding allocate_flag_def by (auto elim!: and_then_Inr_cases)
    with alloc obtain r where "p' = p\<lparr>pd_user_flags := pd_user_flags p @ [r]\<rparr>" by (rule allocate_flag_Inr)
    then show ?thesis by simp
  next
    case (Some r)
    with run show ?thesis by (simp add: materialize_flag_def split: if_splits)
  qed
qed

section \<open>Extending, stopping and reconciling\<close>

text \<open>A change to the one instance with this id, and a command at its new generation.\<close>

lemma change_and_queue:
  assumes ok: "control_plane_ok d" and i: "i \<in> set (rt_instances d)" "ins_id i = j"
    and f: "instance_advances i (f i)" "g \<le> ins_generation (f i)"
    and stop: "kind = Cmd_Terminate \<Longrightarrow> ins_desired_state (f i) = Want_Stopped \<and> \<not> termination_open d j"
    and e: "e = d\<lparr>rt_instances := update_where (\<lambda>r. ins_id r = j) f (rt_instances d)\<rparr>"
    and cmd: "queue_command now i kind g payload user key e = (Inr c, d')"
  shows "control_plane_ok d'"
proof -
  have only: "r = i" if "r \<in> set (rt_instances d)" "ins_id r = j" for r
    using only_instance [OF ok i(1) that(1)] that(2) i(2) by simp
  have e_ok: "control_plane_ok e" unfolding e
    by (rule control_plane.I_update [OF ok]) (use only f(1) in auto)
  have new: "r = f i" if "r \<in> set (rt_instances e)" "ins_id r = j" for r
    using that only by (auto simp: e update_where_def split: if_splits)
  have "ins_id (f i) = j" using f(1) i(2) by (simp add: instance_advances_def)
  moreover have "f i \<in> set (rt_instances e)" using i by (auto simp: e update_where_def)
  ultimately have there: "ins_id i \<in> ins_id ` set (rt_instances e)" using i(2) by (auto intro!: image_eqI [of _ _ "f i"])
  moreover have "generation_known (rt_instances e) (ins_id i) g"
    using new f(2) i(2) by (auto simp: generation_known_def)
  moreover have "kind = Cmd_Terminate \<longrightarrow> \<not> termination_open e (ins_id i) \<and> stop_wanted (rt_instances e) (ins_id i)"
    using stop new i(2) by (auto simp: stop_wanted_def termination_open_def e)
  ultimately have "insertable e (ins_id i) kind g" by (simp add: insertable_def)
  from queue_command_ok(1) [OF e_ok this cmd] show ?thesis .
qed

lemma termination_open_stopped:
  assumes "control_plane_ok d" "i \<in> set (rt_instances d)" "ins_desired_state i \<noteq> Want_Stopped"
  shows "\<not> termination_open d (ins_id i)"
  using assms by (fastforce simp: control_plane_ok_def commands_grounded_def command_grounded_def
      termination_open_def open_command_def stop_wanted_def)

lemma extended_deadline_Inr:
  assumes "extended_deadline now i limits seconds = Inr deadline"
  shows "ins_active i" "ins_desired_state i = Want_Running" "ins_observed_state i = Obs_Ready"
    "now < ins_expires_at i" "ins_extension_count i < xl_maximum limits"
    "ins_desired_expires_at i < deadline" "deadline \<le> ins_maximum_expires_at i"
  using assms by (auto simp: extended_deadline_def Let_def split: if_splits)

lemma extend_now_Inr:
  assumes "extend_now ck u i seconds key d = (Inr x, d')"
  obtains deadline c d1 where
    "extended_deadline (ac_app ck) i (extension_limits_of (ins_challenge_id i) d) seconds = Inr deadline"
    "queue_command (ac_db ck) i Cmd_Extend (ins_generation i + 1) (JObj [(''requested_expires_at'', JTime deadline)])
       (cu_id u) key (prolong (ins_id i) deadline (ins_generation i + 1) d) = (Inr c, d1)"
    "d' = notify command_channel (uuid_text c) (append_api_event (ins_id i) ''instance.extension_requested''
       (Some (cu_id u)) (JObj [(''command_id'', json_uuid c), (''requested_expires_at'', JTime deadline)]) d1)"
    "fst x = Accepted_202" "instance_by_id (ins_id i) d' = Inr (snd x)"
  using assms unfolding extend_now_def Let_def by (elim and_then_Inr_cases) auto

lemma extend_step_Inr:
  assumes "extend_step ck u j seconds key d = (Inr x, d')"
  obtains i where "i \<in> set (rt_instances d)" "ins_id i = j" "authorize_instance u i = Inr ()"
    "extension_with_key (cu_id u) key d = Some j \<and> x = (Ok_200, i) \<and> d' = d \<or>
     extension_with_key (cu_id u) key d = None \<and> extend_now ck u i seconds key d = (Inr x, d')"
proof -
  from assms obtain i where i: "instance_by_id j d = Inr i" and auth: "authorize_instance u i = Inr ()"
    unfolding extend_step_def by (elim and_then_Inr_cases) auto
  from assms have "(case extension_with_key (cu_id u) key d of
       Some existing \<Rightarrow> if existing \<noteq> j
         then (Inl (conflict ''Idempotency key was already used for another instance''), d)
         else (Inr (Ok_200, i), d)
     | None \<Rightarrow> extend_now ck u i seconds key d) = (Inr x, d')"
    unfolding extend_step_def by (simp add: i auth reading_def)
  then have "extension_with_key (cu_id u) key d = Some j \<and> x = (Ok_200, i) \<and> d' = d \<or>
     extension_with_key (cu_id u) key d = None \<and> extend_now ck u i seconds key d = (Inr x, d')"
    by (cases "extension_with_key (cu_id u) key d") (simp_all split: if_splits)
  with auth instance_by_id_Inr [OF i] show ?thesis by (intro that) auto
qed

lemma extend_step_ok:
  assumes ok: "control_plane_ok d" and run: "extend_step ck u j seconds key d = (Inr x, d')"
  shows "control_plane_ok d'"
proof -
  from run obtain i where i: "i \<in> set (rt_instances d)"
    and cases: "d' = d \<or> extend_now ck u i seconds key d = (Inr x, d')" by (rule extend_step_Inr) blast
  from cases show ?thesis
  proof
    assume "extend_now ck u i seconds key d = (Inr x, d')"
    then obtain deadline c d1 where
      deadline: "extended_deadline (ac_app ck) i (extension_limits_of (ins_challenge_id i) d) seconds = Inr deadline"
      and cmd: "queue_command (ac_db ck) i Cmd_Extend (ins_generation i + 1)
        (JObj [(''requested_expires_at'', JTime deadline)]) (cu_id u) key
        (prolong (ins_id i) deadline (ins_generation i + 1) d) = (Inr c, d1)"
      and d': "d' = notify command_channel (uuid_text c) (append_api_event (ins_id i) ''instance.extension_requested''
        (Some (cu_id u)) (JObj [(''command_id'', json_uuid c), (''requested_expires_at'', JTime deadline)]) d1)"
      by (rule extend_now_Inr)
    have "control_plane_ok d1"
      by (rule change_and_queue [OF ok i refl _ _ _ prolong_def cmd])
         (use extended_deadline_Inr [OF deadline] in \<open>simp_all add: instance_advances_def\<close>)
    then show ?thesis unfolding d' by (intro notify_ok event_ok)
  qed (use ok in simp)
qed

lemma stop_now_ok:
  assumes ok: "control_plane_ok d" and i: "i \<in> set (rt_instances d)" "ins_desired_state i \<noteq> Want_Stopped"
    and run: "stop_now ck u i reason d = (Inr x, d')"
  shows "control_plane_ok d'"
proof -
  let ?f = "\<lambda>r :: runtime_instance. r\<lparr>ins_desired_state := Want_Stopped, ins_generation := ins_generation i + 1\<rparr>"
  from run obtain c d1 where
    cmd: "queue_command (ac_db ck) i Cmd_Terminate (ins_generation i + 1) (JObj [(''reason'', JStr reason)])
       (cu_id u) None (d\<lparr>rt_instances := update_where (\<lambda>r. ins_id r = ins_id i) ?f (rt_instances d)\<rparr>) = (Inr c, d1)" and
    d': "d' = notify command_channel (uuid_text c) (append_api_event (ins_id i) ''instance.termination_requested''
       (Some (cu_id u)) (JObj [(''command_id'', json_uuid c), (''reason'', JStr reason)]) d1)"
    unfolding stop_now_def Let_def by (elim and_then_Inr_cases) auto
  have "control_plane_ok d1"
    by (rule change_and_queue [OF ok i(1) refl _ _ _ refl cmd])
       (use termination_open_stopped [OF ok i] in \<open>simp_all add: instance_advances_def\<close>)
  then show ?thesis unfolding d' by (intro notify_ok event_ok)
qed

lemma terminate_step_ok:
  assumes ok: "control_plane_ok d" and run: "terminate_step ck u j reason d = (Inr x, d')"
  shows "control_plane_ok d'"
proof -
  from run obtain i where "i \<in> set (rt_instances d)"
    "d' = d \<or> ins_desired_state i \<noteq> Want_Stopped \<and> stop_now ck u i reason d = (Inr x, d')"
    unfolding terminate_step_def
    by (elim and_then_Inr_cases) (simp split: if_split_asm; blast dest: instance_by_id_Inr)
  with ok stop_now_ok show ?thesis by blast
qed

lemma reconcile_step_ok:
  assumes ok: "control_plane_ok d" and run: "reconcile_step ck u j d = (Inr x, d')"
  shows "control_plane_ok d'"
proof -
  from run [unfolded reconcile_step_def] obtain i where i: "instance_by_id j d = Inr i" and
    d': "d' = (case queue_command (ac_db ck) i Cmd_Reconcile (ins_generation i) (JObj []) (cu_id u) None d of
        (Inl _, _) \<Rightarrow> d
      | (Inr command_id, d) \<Rightarrow> notify command_channel (uuid_text command_id)
          (append_api_event j ''instance.reconciliation_requested'' (Some (cu_id u))
            (JObj [(''command_id'', json_uuid command_id)]) d))"
    by (elim and_then_Inr_cases) (auto simp: require_def)
  from instance_by_id_Inr [OF i] have mem: "i \<in> set (rt_instances d)" by simp
  have "generation_known (rt_instances d) (ins_id i) (ins_generation i)"
    unfolding generation_known_def using only_instance [OF ok mem] by force
  then have ready: "insertable d (ins_id i) Cmd_Reconcile (ins_generation i)" using mem by (simp add: insertable_def)
  show ?thesis unfolding d'
    using queue_command_ok(1) [OF ok ready] ok by (auto split: prod.splits sum.splits intro!: notify_ok event_ok)
qed

section \<open>Settings and configurations\<close>

lemma setting_frame:
  assumes ok: "control_plane_ok d"
  shows "control_plane_ok (d\<lparr>rt_setting := x\<rparr>)"
  using ok by (simp add: control_plane_ok_def runtime_db_ok_def commands_grounded_def)

lemma set_setting_ok: "control_plane_ok d \<Longrightarrow> set_setting enabled revision d = (x, d') \<Longrightarrow> control_plane_ok d'"
  by (auto simp: set_setting_def intro!: notify_ok setting_frame)

lemma update_setting_step_ok:
  "control_plane_ok d \<Longrightarrow> update_setting_step enabled d = (Inr x, d') \<Longrightarrow> control_plane_ok d'"
  unfolding update_setting_step_def by (elim and_then_Inr_cases) (auto intro: set_setting_ok)

lemma prepare_gate_ok:
  "control_plane_ok d \<Longrightarrow> prepare_private_challenge_gate enable d = (Inr x, d') \<Longrightarrow> control_plane_ok d'"
  unfolding prepare_private_challenge_gate_def
  by (elim and_then_Inr_cases) (auto split: if_splits elim!: and_then_Inr_cases intro: set_setting_ok)

lemma config_of_Some: "config_of c d = Some x \<Longrightarrow> x \<in> set (rt_configs d) \<and> rcf_challenge_id x = c"
  by (auto simp: config_of_def find_Some_iff)

lemma config_of_None: "config_of c d = None \<longleftrightarrow> c \<notin> rcf_challenge_id ` set (rt_configs d)"
  by (auto simp: config_of_def find_None_iff)

lemma write_config_ok:
  assumes ok: "control_plane_ok d" and c: "validate_healthcheck (rcf_healthcheck c) = Inr ()"
    and run: "write_config c d = (Inr x, d')"
  shows "control_plane_ok d'"
proof -
  let ?cs = "rt_configs d" and ?same = "\<lambda>r. rcf_challenge_id r = rcf_challenge_id c"
  let ?new = "if config_of (rcf_challenge_id c) d = None then ?cs @ [c] else update_where ?same (\<lambda>_. c) ?cs"
  from run have checks: "config_checks c" and d': "d' = d\<lparr>rt_configs := ?new\<rparr>"
    by (auto simp: write_config_def split: if_splits)
  have old: "configs_ok ?cs" using ok by (simp add: control_plane_ok_def)
  have "map rcf_challenge_id (update_where ?same (\<lambda>_. c) ?cs) = map rcf_challenge_id ?cs"
    by (rule map_update_where) simp
  then have "distinct (map rcf_challenge_id ?new)"
    using old by (auto simp: configs_ok_def config_of_None)
  moreover have "r = c \<or> r \<in> set ?cs" if "r \<in> set ?new" for r
    using that by (auto simp: set_update_where split: if_splits)
  ultimately have "configs_ok ?new" using old checks c unfolding configs_ok_def by metis
  then show ?thesis using ok by (simp add: d' control_plane_ok_def runtime_db_ok_def commands_grounded_def)
qed

lemma validated_healthcheck:
  "validate_runtime_config r = Inr () \<Longrightarrow> validate_healthcheck (rci_healthcheck r) = Inr ()"
  by (simp add: validate_runtime_config_def split: if_split_asm)

text \<open>A validated configuration satisfies the constraints of its table.\<close>

lemma image_digest_kept: "valid_image_digest (trim v) \<Longrightarrow> normalize_optional (Some v) \<notin> {None, Some []}"
  by (auto simp: normalize_optional_def valid_image_digest_def)

lemma validated_config_checks:
  assumes "validate_runtime_config r = Inr ()" "0 < revision"
  shows "config_checks (config_row challenge_id revision r)"
proof -
  have "normalize_optional (rci_image_digest r) \<notin> {None, Some []}" if "rci_mode r = ''managed''"
    using assms(1) that image_digest_kept
    by (auto simp: validate_runtime_config_def split: if_split_asm option.splits)
  with assms show ?thesis
    by (auto simp: validate_runtime_config_def config_checks_def config_row_def split: if_split_asm)
qed

lemma upsert_runtime_config_ok:
  assumes "control_plane_ok d" "upsert_runtime_config c r d = (Inr x, d')"
  shows "control_plane_ok d'"
  using assms write_config_ok [of d "config_row c (runtime_revision_of c d + 1) r"] validated_healthcheck
  unfolding upsert_runtime_config_def by (elim and_then_Inr_cases) (auto simp: config_row_def)

section \<open>Remote servers\<close>

definition ssh_target :: "remote_server \<Rightarrow> string \<times> int \<times> string \<times> string \<times> string option" where
  "ssh_target s = (srv_hostname s, srv_ssh_port s, srv_ssh_user s, srv_helper_path s, srv_host_key_alias s)"

text \<open>What is in use keeps its connection from one table of servers to the other.\<close>

definition targets_stay :: "runtime_db \<Rightarrow> runtime_db \<Rightarrow> bool" where
  "targets_stay d e \<longleftrightarrow>
     (\<forall>s \<in> set (rt_servers d). server_in_flight (srv_id (sr_server s)) d \<longrightarrow>
        (\<exists>s' \<in> set (rt_servers e). srv_id (sr_server s') = srv_id (sr_server s) \<and>
           ssh_target (sr_server s') = ssh_target (sr_server s)))"

lemma targets_stay_refl: "rt_servers e = rt_servers d \<Longrightarrow> targets_stay d e"
  by (auto simp: targets_stay_def)

lemma printable_chars:
  "ascii_alphanumeric c \<Longrightarrow> (of_char c :: nat) \<in> {33..126}"
  "c \<in> set ''.:_-'' \<Longrightarrow> (of_char c :: nat) \<in> {33..126}"
  "c \<in> set ''._-'' \<Longrightarrow> (of_char c :: nat) \<in> {33..126}"
  "c \<in> set ''/._-'' \<Longrightarrow> (of_char c :: nat) \<in> {33..126}"
  by (auto simp: ascii_alphanumeric_def Let_def)

lemma trim_safe:
  "safe_host_component s \<Longrightarrow> trim s = s"
  "\<forall>c \<in> set s. ascii_alphanumeric c \<or> c \<in> set ''/._-'' \<Longrightarrow> trim s = s"
  unfolding safe_host_component_def safe_component_def
  by (rule trim_printable; use printable_chars in blast)+

lemma normalize_alias:
  "(case a of None \<Rightarrow> False | Some v \<Rightarrow> \<not> safe_host_component v) = False \<Longrightarrow> normalize_optional a = a"
  by (cases a) (auto simp: normalize_optional_def trim_safe safe_host_component_def safe_component_def)

lemma checked_server:
  assumes "check_remote_server (srv_name s) (srv_hostname s) (srv_ssh_port s) (srv_ssh_user s) (srv_helper_path s)
     (srv_capacity s) (srv_host_key_alias s) = Inr ()"
  shows "validate_remote_server (trimmed_server s) = Inr ()" "0 < srv_capacity s"
    "normalize_optional (srv_host_key_alias s) = srv_host_key_alias s"
proof -
  from assms have path: "srv_helper_path s \<noteq> []" "hd (srv_helper_path s) = CHR ''/''"
    "\<forall>c \<in> set (srv_helper_path s). ascii_alphanumeric c \<or> c \<in> set ''/._-''"
    and target: "1 \<le> srv_ssh_port s" "srv_ssh_port s \<le> 65535" "safe_host_component (trim (srv_hostname s))"
      "safe_user (trim (srv_ssh_user s))"
      "(case srv_host_key_alias s of None \<Rightarrow> False | Some v \<Rightarrow> \<not> safe_host_component v) = False"
    and capacity: "0 < srv_capacity s"
    unfolding check_remote_server_def by (simp_all split: if_split_asm)
  show "0 < srv_capacity s" by (rule capacity)
  show "normalize_optional (srv_host_key_alias s) = srv_host_key_alias s" using target(5) by (rule normalize_alias)
  show "validate_remote_server (trimmed_server s) = Inr ()"
    using path target trim_safe(2) [OF path(3)] by (simp add: validate_remote_server_def trimmed_server_def)
qed

lemma servers_frame:
  assumes "control_plane_ok d" "servers_ok ss (rt_next_id d)"
  shows "control_plane_ok (d\<lparr>rt_servers := ss\<rparr>)"
  using assms by (simp add: control_plane_ok_def runtime_db_ok_def commands_grounded_def)

lemma next_id_frame:
  assumes "control_plane_ok d"
  shows "control_plane_ok (d\<lparr>rt_next_id := rt_next_id d + 1\<rparr>)"
  using assms instances_ok_mono [of "rt_instances d" "rt_next_id d" "rt_next_id d + 1"]
    servers_ok_mono [of "rt_servers d" "rt_next_id d" "rt_next_id d + 1"]
  by (auto simp: control_plane_ok_def runtime_ok_defs commands_grounded_def less_Suc_eq)

lemma insert_server_ok:
  assumes ok: "control_plane_ok d" and run: "insert_server r d = (Inr row, d')"
    and checked: "check_remote_server (rsc_name r) (rsc_hostname r) (rsc_ssh_port r) (rsc_ssh_user r)
      (rsc_helper_path r) (rsc_capacity r) (rsc_host_key_alias r) = Inr ()"
  shows "control_plane_ok d' \<and> targets_stay d d'"
proof -
  let ?raw = "\<lparr>srv_id = rt_next_id d, srv_name = rsc_name r, srv_hostname = rsc_hostname r,
    srv_ssh_port = rsc_ssh_port r, srv_ssh_user = rsc_ssh_user r, srv_helper_path = rsc_helper_path r,
    srv_identity_file = None, srv_host_key_alias = rsc_host_key_alias r, srv_pool = normalize_optional (rsc_pool r),
    srv_capacity = rsc_capacity r\<rparr>"
  from checked have c: "validate_remote_server (trimmed_server ?raw) = Inr ()" "0 < rsc_capacity r"
    "normalize_optional (rsc_host_key_alias r) = rsc_host_key_alias r"
    using checked_server [of ?raw] by simp_all
  from run have free: "\<not> name_taken (trim (rsc_name r)) None d"
    and d': "d' = (d\<lparr>rt_next_id := rt_next_id d + 1\<rparr>)
      \<lparr>rt_servers := rt_servers d @ [\<lparr>sr_server = trimmed_server ?raw, sr_enabled = False\<rparr>]\<rparr>"
    by (auto simp: insert_server_def c(3) trimmed_server_def Let_def split: if_splits)
  have "servers_ok (rt_servers d) (rt_next_id d)" using ok by (simp add: control_plane_ok_def)
  then have "servers_ok (rt_servers d @ [\<lparr>sr_server = trimmed_server ?raw, sr_enabled = False\<rparr>]) (rt_next_id d + 1)"
    using c(1,2) free
    by (fastforce simp: servers_ok_def server_ids_def server_names_def name_taken_def trimmed_server_def less_Suc_eq)
  then have "control_plane_ok d'" unfolding d' by (intro servers_frame next_id_frame ok) simp
  moreover have "targets_stay d d'" by (auto simp: targets_stay_def d')
  ultimately show ?thesis ..
qed

lemma names_update:
  assumes "distinct (server_ids ss)" "distinct (server_names ss)"
    "\<forall>s \<in> set ss. srv_name (sr_server s) = srv_name (sr_server row) \<longrightarrow> srv_id (sr_server s) = srv_id (sr_server row)"
  shows "distinct (server_names (update_where (\<lambda>s. srv_id (sr_server s) = srv_id (sr_server row)) (\<lambda>_. row) ss))"
  using assms
proof (induction ss)
  case Nil
  then show ?case by (simp add: server_names_def)
next
  case (Cons s ss)
  let ?upd = "update_where (\<lambda>s. srv_id (sr_server s) = srv_id (sr_server row)) (\<lambda>_. row)"
  have IH: "distinct (server_names (?upd ss))" using Cons by (simp add: server_ids_def server_names_def)
  show ?case
  proof (cases "srv_id (sr_server s) = srv_id (sr_server row)")
    case True
    then have "srv_id (sr_server r) \<noteq> srv_id (sr_server row)" if "r \<in> set ss" for r
      using Cons.prems(1) that by (auto simp: server_ids_def image_iff)
    then have "?upd ss = ss" "srv_name (sr_server row) \<notin> set (server_names ss)"
      using Cons.prems(3) by (auto simp: update_where_def server_names_def intro: map_idI)
    with True IH show ?thesis by (simp add: server_names_def)
  next
    case False
    then have "srv_name (sr_server s) \<noteq> srv_name (sr_server row)" using Cons.prems(3) by auto
    then have "srv_name (sr_server s) \<notin> set (server_names (?upd ss))"
      using Cons.prems(2) by (auto simp: server_names_def set_update_where)
    with False IH show ?thesis by (simp add: server_names_def)
  qed
qed

lemma write_server_ok:
  assumes ok: "control_plane_ok d" and run: "write_server row d = (Inr x, d')"
    and row: "validate_remote_server (sr_server row) = Inr ()" "0 < srv_capacity (sr_server row)"
      "srv_id (sr_server row) < rt_next_id d"
  shows "control_plane_ok d'"
proof -
  let ?ss = "update_where (\<lambda>s. srv_id (sr_server s) = srv_id (sr_server row)) (\<lambda>_. row) (rt_servers d)"
  from run have free: "\<not> name_taken (srv_name (sr_server row)) (Some (srv_id (sr_server row))) d"
    and d': "d' = d\<lparr>rt_servers := ?ss\<rparr>" by (auto simp: write_server_def split: if_splits)
  have old: "servers_ok (rt_servers d) (rt_next_id d)" using ok by (simp add: control_plane_ok_def)
  have "distinct (server_names ?ss)"
    by (rule names_update) (use old free in \<open>auto simp: servers_ok_def name_taken_def\<close>)
  moreover have "server_ids ?ss = server_ids (rt_servers d)"
    unfolding server_ids_def by (rule map_update_where) simp
  ultimately have "servers_ok ?ss (rt_next_id d)"
    using old row by (auto simp: servers_ok_def set_update_where)
  then show ?thesis unfolding d' by (rule servers_frame [OF ok])
qed

lemma server_by_id_Inr:
  "server_by_id j d = Inr s \<Longrightarrow> s \<in> set (rt_servers d) \<and> srv_id (sr_server s) = j"
  by (auto simp: server_by_id_def find_server_row_def find_Some_iff)

lemma update_server_step_Inr:
  assumes "update_server_step i r d = (Inr x, d')"
  obtains current new where "current \<in> set (rt_servers d)" "srv_id (sr_server current) = i"
    "new = patched_server r (sr_server current)"
    "connection_changed new (sr_server current) \<longrightarrow> \<not> server_in_flight i d"
    "check_remote_server (srv_name new) (srv_hostname new) (srv_ssh_port new) (srv_ssh_user new)
       (srv_helper_path new) (srv_capacity new) (srv_host_key_alias new) = Inr ()"
    "write_server \<lparr>sr_server = trimmed_server new, sr_enabled = coalesce (rsp_enabled r) (sr_enabled current)\<rparr> d
       = (Inr x, d')"
  using assms unfolding update_server_step_def Let_def
  by (elim and_then_Inr_cases) (auto simp: require_def split: if_split_asm dest: server_by_id_Inr)

lemma connection_same: "\<not> connection_changed new current \<Longrightarrow> ssh_target (trimmed_server new) = ssh_target current"
  by (simp add: connection_changed_def ssh_target_def trimmed_server_def)

lemma update_server_step_ok:
  assumes ok: "control_plane_ok d" and run: "update_server_step i r d = (Inr x, d')"
  shows "control_plane_ok d' \<and> targets_stay d d'"
proof -
  from run obtain current new where cur: "current \<in> set (rt_servers d)" "srv_id (sr_server current) = i"
    and new: "new = patched_server r (sr_server current)"
    and quiet: "connection_changed new (sr_server current) \<longrightarrow> \<not> server_in_flight i d"
    and checked: "check_remote_server (srv_name new) (srv_hostname new) (srv_ssh_port new) (srv_ssh_user new)
       (srv_helper_path new) (srv_capacity new) (srv_host_key_alias new) = Inr ()"
    and wr: "write_server \<lparr>sr_server = trimmed_server new, sr_enabled = coalesce (rsp_enabled r) (sr_enabled current)\<rparr> d
       = (Inr x, d')" (is "write_server ?row d = _") by (rule update_server_step_Inr)
  have ids: "srv_id (trimmed_server new) = i" by (simp add: new trimmed_server_def patched_server_def cur(2))
  have old: "servers_ok (rt_servers d) (rt_next_id d)" using ok by (simp add: control_plane_ok_def)
  have "control_plane_ok d'"
    by (rule write_server_ok [OF ok wr])
       (use checked_server [OF checked] ids old cur in \<open>auto simp: servers_ok_def trimmed_server_def\<close>)
  moreover have d': "d' = d\<lparr>rt_servers := update_where (\<lambda>s. srv_id (sr_server s) = i) (\<lambda>_. ?row) (rt_servers d)\<rparr>"
    using wr ids by (auto simp: write_server_def split: if_split_asm)
  have "\<exists>s' \<in> set (rt_servers d'). srv_id (sr_server s') = srv_id (sr_server s) \<and>
      ssh_target (sr_server s') = ssh_target (sr_server s)"
    if s: "s \<in> set (rt_servers d)" and busy: "server_in_flight (srv_id (sr_server s)) d" for s
  proof (cases "srv_id (sr_server s) = i")
    case True
    have "s = current" using s cur True old by (auto simp: servers_ok_def server_ids_def intro: distinct_map_eq)
    moreover have "ssh_target (trimmed_server new) = ssh_target (sr_server current)"
      using quiet busy True connection_same by blast
    moreover have "?row \<in> set (rt_servers d')" using s True by (auto simp: d' set_update_where)
    ultimately show ?thesis using ids cur(2) by (intro bexI [of _ ?row]) simp_all
  next
    case False
    with s show ?thesis by (intro bexI [of _ s]) (simp_all add: d' set_update_where)
  qed
  ultimately show ?thesis unfolding targets_stay_def by blast
qed

lemma disable_server_step_ok:
  assumes ok: "control_plane_ok d" and run: "disable_server_step i d = (Inr x, d')"
  shows "control_plane_ok d' \<and> targets_stay d d'"
proof -
  let ?f = "\<lambda>s :: server_row. s\<lparr>sr_enabled := False\<rparr>" and ?P = "\<lambda>s :: server_row. srv_id (sr_server s) = i"
  let ?ss = "update_where ?P ?f (rt_servers d)"
  from run have d': "d' = d\<lparr>rt_servers := ?ss\<rparr>" by (simp add: disable_server_step_def Let_def)
  have rows: "map sr_server ?ss = map sr_server (rt_servers d)" by (rule map_update_where) simp
  have same: "servers_ok ss n \<longleftrightarrow> distinct (map srv_id (map sr_server ss)) \<and> distinct (map srv_name (map sr_server ss)) \<and>
      (\<forall>s \<in> set (map sr_server ss). srv_id s < n \<and> validate_remote_server s = Inr () \<and> 0 < srv_capacity s)" for ss n
    by (simp add: servers_ok_def server_ids_def server_names_def)
  have "servers_ok (rt_servers d) (rt_next_id d)" using ok by (simp add: control_plane_ok_def)
  then have "servers_ok ?ss (rt_next_id d)" unfolding same rows .
  then have "control_plane_ok d'" unfolding d' by (rule servers_frame [OF ok])
  moreover have "\<exists>s' \<in> set (rt_servers d'). sr_server s' = sr_server s" if s: "s \<in> set (rt_servers d)" for s
  proof -
    have "sr_server s \<in> set (map sr_server ?ss)" unfolding rows using s by simp
    then show ?thesis by (auto simp: d')
  qed
  then have "targets_stay d d'" unfolding targets_stay_def by metis
  ultimately show ?thesis ..
qed

section \<open>Requests\<close>

text \<open>A step on the tables of the runtime that keeps the invariant and the connections in use.\<close>

definition plane_step :: "runtime_db \<Rightarrow> runtime_db \<Rightarrow> bool" where
  "plane_step d e \<longleftrightarrow> control_plane_ok e \<and> targets_stay d e"

lemma plane_step_refl: "control_plane_ok d \<Longrightarrow> plane_step d d"
  by (simp add: plane_step_def targets_stay_refl)

lemma queue_servers: "queue_command now i kind g payload user key d = (x, d') \<Longrightarrow> rt_servers d' = rt_servers d"
  by (auto simp: queue_command_def split: if_split_asm)

lemma step_servers:
  "launch_instance ck u c gate ttl team key v d = (Inr x, d') \<Longrightarrow> rt_servers d' = rt_servers d"
  "extend_step ck u j seconds key d = (Inr y, d') \<Longrightarrow> rt_servers d' = rt_servers d"
  "terminate_step ck u j reason d = (Inr z, d') \<Longrightarrow> rt_servers d' = rt_servers d"
  "reconcile_step ck u j d = (Inr z', d') \<Longrightarrow> rt_servers d' = rt_servers d"
proof -
  show "rt_servers d' = rt_servers d" if "launch_instance ck u c gate ttl team key v d = (Inr x, d')"
    using that unfolding launch_instance_def Let_def
    by (elim and_then_Inr_cases) (auto dest!: queue_servers simp: insert_instance_def split: if_split_asm)
  have now: "rt_servers d' = rt_servers d" if "extend_now ck u i seconds key d = (Inr y, d')" for i
    using that by (rule extend_now_Inr) (auto dest!: queue_servers simp: prolong_def)
  show "rt_servers d' = rt_servers d" if "extend_step ck u j seconds key d = (Inr y, d')"
    using that by (rule extend_step_Inr) (use now in auto)
  have stop: "rt_servers d' = rt_servers d" if "stop_now ck u i reason d = (Inr z, d')" for i
    using that unfolding stop_now_def Let_def by (elim and_then_Inr_cases) (auto dest!: queue_servers)
  show "rt_servers d' = rt_servers d" if "terminate_step ck u j reason d = (Inr z, d')"
    using that unfolding terminate_step_def by (elim and_then_Inr_cases) (use stop in \<open>auto split: if_split_asm\<close>)
  show "rt_servers d' = rt_servers d" if "reconcile_step ck u j d = (Inr z', d')"
    using that unfolding reconcile_step_def
    by (elim and_then_Inr_cases) (auto dest!: queue_servers simp: require_def split: prod.splits sum.splits)
qed

text \<open>A handler's transaction on the runtime tables.\<close>

lemma on_runtime_Inr:
  "on_runtime f p = (Inr x, p') \<longleftrightarrow> (\<exists>d. f (pd_runtime p) = (Inr x, d) \<and> p' = p\<lparr>pd_runtime := d\<rparr>)"
  by (auto simp: on_runtime_def split: prod.splits)

lemma on_runtime_keeps:
  assumes "control_plane_ok (pd_runtime p)" "\<And>x e. f (pd_runtime p) = (Inr x, e) \<Longrightarrow> plane_step (pd_runtime p) e"
    "on_runtime f p = (Inr x, p')"
  shows "plane_step (pd_runtime p) (pd_runtime p')"
  using assms by (auto simp: on_runtime_Inr)

lemma transaction_plane:
  assumes "control_plane_ok (pd_runtime p)"
    "\<And>x p'. body p = (Inr x, p') \<Longrightarrow> plane_step (pd_runtime p) (pd_runtime p')"
  shows "plane_step (pd_runtime p) (pd_runtime (snd (in_transaction fails body p)))"
  using transaction_keeps [of "\<lambda>q. plane_step (pd_runtime p) (pd_runtime q)" p body fails] assms plane_step_refl
  by blast

lemma runtime_transaction_plane:
  assumes "control_plane_ok (pd_runtime p)"
    "\<And>x e. f (pd_runtime p) = (Inr x, e) \<Longrightarrow> plane_step (pd_runtime p) e"
  shows "plane_step (pd_runtime p) (pd_runtime (snd (runtime_transaction env ck fails u f p)))"
  unfolding runtime_transaction_def
proof (rule transaction_plane [OF assms(1)])
  fix x p'
  assume "and_then (revalidate_current_credential (ac_db ck) (ap_session_lifetime env) u p) (\<lambda>_. on_runtime f) = (Inr x, p')"
  then have "on_runtime f p = (Inr x, p')" by (elim and_then_Inr_cases) (auto dest: revalidate_Inr)
  with assms show "plane_step (pd_runtime p) (pd_runtime p')" by (rule on_runtime_keeps)
qed

lemma require_Inr: "require b e p = (Inr x, p') \<longleftrightarrow> b \<and> p' = p"
  by (auto simp: require_def)

lemma ensure_body_Inr:
  assumes "ensure_body env ck token bits u c ttl key p = (Inr x, p')"
  obtains "p' = p" | gate seconds team flag_value q where "load_launch_gate_tx c p = Inr gate"
    "active_instance_for_user (cu_id u) (pd_runtime p) = None" "pd_runtime q = pd_runtime p"
    "on_runtime (launch_instance ck u c gate seconds team key flag_value) q = (Inr x, p')"
proof -
  from assms obtain gate team where gate: "load_launch_gate_tx c p = Inr gate" and
    rest: "(case active_instance_for_user (cu_id u) (pd_runtime p) of
        Some existing \<Rightarrow>
          (if ins_challenge_id existing = c then Inr (Ok_200, existing)
           else Inl (conflict (''You already have an active instance for challenge '' @
             show_int (ins_challenge_id existing))), p)
      | None \<Rightarrow>
          and_then (materialize_for_launch (ap_flags env) token bits c (cu_id u) (ap_secret_key env) p) (\<lambda>flag_value p.
            on_runtime (launch_instance ck u c gate (coalesce ttl (rcf_default_ttl (lg_config gate))) team key flag_value) p))
       = (Inr x, p')"
    unfolding ensure_body_def Let_def
    by (elim and_then_Inr_cases) (auto simp: require_Inr dest!: revalidate_Inr full_access_Inr)
  show ?thesis
  proof (cases "active_instance_for_user (cu_id u) (pd_runtime p)")
    case None
    with rest gate show ?thesis
      by (auto elim!: and_then_Inr_cases dest: materialize_for_launch_frame intro: that(2))
  next
    case (Some i)
    with rest show ?thesis by (intro that(1)) simp
  qed
qed

lemma gate_config:
  assumes "control_plane_ok (pd_runtime p)" "load_launch_gate_tx c p = Inr gate"
  shows "config_checks (lg_config gate)" "validate_healthcheck (rcf_healthcheck (lg_config gate)) = Inr ()"
  using assms
  by (auto simp: load_launch_gate_tx_def control_plane_ok_def configs_ok_def dest!: config_of_Some
      split: option.splits)

lemma ensure_body_plane:
  assumes ok: "control_plane_ok (pd_runtime p)"
    and run: "ensure_body env ck token bits u c ttl key p = (Inr x, p')"
  shows "plane_step (pd_runtime p) (pd_runtime p')"
  using run
proof (cases rule: ensure_body_Inr)
  case 1
  with plane_step_refl [OF ok] show ?thesis by simp
next
  case (2 gate seconds team flag_value q)
  from on_runtime_keeps [of q, OF _ _ 2(4)] show ?thesis
    using ok launch_instance_ok [OF _ gate_config(2) [OF ok 2(1)]]
    by (auto simp: 2(3) plane_step_def dest: step_servers(1) intro: targets_stay_refl)
qed

text \<open>The requests to the runtime API, by anyone, with any failure of the database; and whatever leaves the tables
  of the runtime alone. (The editor of challenges writes the configuration of a challenge's runtime and the
  switch of private challenges too; those requests are not among these.)\<close>

inductive runtime_request :: "portal_db \<Rightarrow> portal_db \<Rightarrow> bool" where
  ensured: "ensure_instance env ck token bits fails before u c header request p = (launched, p') \<Longrightarrow> runtime_request p p'"
| extended: "extend_instance env ck fails u j header prolonging p = (launched, p') \<Longrightarrow> runtime_request p p'"
| stopped: "terminate_instance env ck fails u j p = (launched, p') \<Longrightarrow> runtime_request p p'"
| challenge_stopped: "terminate_challenge_instance env ck fails seen u c p = (launched, p') \<Longrightarrow> runtime_request p p'"
| reconciled: "reconcile_instance env ck fails u j p = (launched, p') \<Longrightarrow> runtime_request p p'"
| switched: "update_private_challenges_setting fails u enabled p = (setting, p') \<Longrightarrow> runtime_request p p'"
| configured: "put_challenge_runtime reader env ck fails u c payload p = (config, p') \<Longrightarrow> runtime_request p p'"
| server_created: "create_remote_server fails u new p = (server, p') \<Longrightarrow> runtime_request p p'"
| server_updated: "update_remote_server fails u j patch p = (server, p') \<Longrightarrow> runtime_request p p'"
| server_disabled: "disable_remote_server fails u j p = (server, p') \<Longrightarrow> runtime_request p p'"
| elsewhere: "pd_runtime p' = pd_runtime p \<Longrightarrow> runtime_request p p'"

text \<open>A check in front of a handler's transaction.\<close>

lemma gated_plane:
  assumes "control_plane_ok (pd_runtime p)" "\<And>z. plane_step (pd_runtime p) (pd_runtime (snd (f z p)))"
  shows "plane_step (pd_runtime p) (pd_runtime (snd (and_then (y, p) f)))"
  using assms plane_step_refl by (cases y) auto

lemma admin_plane:
  assumes "control_plane_ok (pd_runtime p)" "plane_step (pd_runtime p) (pd_runtime (snd (f () p)))"
  shows "plane_step (pd_runtime p) (pd_runtime (snd (and_then (require_admin u p) f)))"
  using assms plane_step_refl by (cases "is_admin u") (auto simp: require_admin_def)

lemma on_runtime_transaction:
  assumes "control_plane_ok (pd_runtime p)" "\<And>x e. f (pd_runtime p) = (Inr x, e) \<Longrightarrow> plane_step (pd_runtime p) e"
  shows "plane_step (pd_runtime p) (pd_runtime (snd (in_transaction fails (on_runtime f) p)))"
  by (rule transaction_plane [OF assms(1)]) (rule on_runtime_keeps [OF assms])

lemma plane_stepI: "control_plane_ok e \<Longrightarrow> rt_servers e = rt_servers d \<Longrightarrow> plane_step d e"
  by (simp add: plane_step_def targets_stay_refl)

lemma setting_servers: "update_setting_step enabled d = (Inr x, d') \<Longrightarrow> rt_servers d' = rt_servers d"
  unfolding update_setting_step_def by (elim and_then_Inr_cases) (auto simp: set_setting_def)

lemma upsert_servers: "upsert_runtime_config c r d = (Inr x, d') \<Longrightarrow> rt_servers d' = rt_servers d"
  unfolding upsert_runtime_config_def
  by (elim and_then_Inr_cases) (auto simp: write_config_def split: if_split_asm)

lemma put_challenge_body_plane:
  assumes ok: "control_plane_ok (pd_runtime p)" and run: "put_challenge_body c r p = (Inr x, p')"
  shows "plane_step (pd_runtime p) (pd_runtime p')"
proof -
  from run have body: "on_runtime (\<lambda>d. and_then (upsert_runtime_config c r d) (\<lambda>config d.
       (Inr config, notify challenge_channel (show_int c) d))) p = (Inr x, p')"
    unfolding put_challenge_body_def by (elim and_then_Inr_cases) (auto simp: require_Inr)
  have "plane_step (pd_runtime p) e" if "and_then (upsert_runtime_config c r (pd_runtime p)) (\<lambda>config d.
       (Inr config, notify challenge_channel (show_int c) d)) = (Inr y, e)" for y e
    using that ok
    by (elim and_then_Inr_cases)
       (auto intro!: plane_stepI notify_ok dest: upsert_servers intro: upsert_runtime_config_ok)
  from on_runtime_keeps [OF ok this body] show ?thesis .
qed

lemma runtime_request_plane:
  assumes "runtime_request p p'" and ok: "control_plane_ok (pd_runtime p)"
  shows "plane_step (pd_runtime p) (pd_runtime p')"
  using assms(1)
proof cases
  case (ensured env ck token bits fails before u c header request launched)
  have "plane_step (pd_runtime p)
      (pd_runtime (snd (ensure_instance env ck token bits fails before u c header request p)))"
    unfolding ensure_instance_def
    by (intro gated_plane ok transaction_plane) (rule ensure_body_plane [OF ok])
  with ensured show ?thesis by simp
next
  case (extended env ck fails u j header prolonging launched)
  have "plane_step (pd_runtime p) (pd_runtime (snd (extend_instance env ck fails u j header prolonging p)))"
    unfolding extend_instance_def
    by (intro gated_plane ok runtime_transaction_plane plane_stepI) (auto intro: extend_step_ok [OF ok] dest: step_servers(2))
  with extended show ?thesis by simp
next
  case (stopped env ck fails u j launched)
  have "plane_step (pd_runtime p) (pd_runtime (snd (terminate_instance env ck fails u j p)))"
    unfolding terminate_instance_def request_termination_def
    by (intro ok runtime_transaction_plane plane_stepI) (auto intro: terminate_step_ok [OF ok] dest: step_servers(3))
  with stopped show ?thesis by simp
next
  case (challenge_stopped env ck fails seen u c launched)
  have "plane_step (pd_runtime p) (pd_runtime (snd (terminate_challenge_instance env ck fails seen u c p)))"
    unfolding terminate_challenge_instance_def request_termination_def
    by (intro gated_plane ok runtime_transaction_plane plane_stepI)
       (auto intro: terminate_step_ok [OF ok] dest: step_servers(3))
  with challenge_stopped show ?thesis by simp
next
  case (reconciled env ck fails u j launched)
  have "plane_step (pd_runtime p) (pd_runtime (snd (reconcile_instance env ck fails u j p)))"
    unfolding reconcile_instance_def
    by (intro admin_plane ok runtime_transaction_plane plane_stepI)
       (auto intro: reconcile_step_ok [OF ok] dest: step_servers(4))
  with reconciled show ?thesis by simp
next
  case (switched fails u enabled setting)
  have "plane_step (pd_runtime p) (pd_runtime (snd (update_private_challenges_setting fails u enabled p)))"
    unfolding update_private_challenges_setting_def
    by (intro admin_plane ok on_runtime_transaction plane_stepI)
       (auto intro: update_setting_step_ok [OF ok] dest: setting_servers)
  with switched show ?thesis by simp
next
  case (configured reader env ck fails u c payload config)
  have "plane_step (pd_runtime p) (pd_runtime (snd (put_challenge_runtime reader env ck fails u c payload p)))"
    unfolding put_challenge_runtime_def
    by (intro admin_plane gated_plane ok transaction_plane)
       (auto elim!: and_then_Inr_cases dest!: revalidate_Inr intro: put_challenge_body_plane [OF ok])
  with configured show ?thesis by simp
next
  case (server_created fails u new server)
  have "plane_step (pd_runtime p) (pd_runtime (snd (create_remote_server fails u new p)))"
  proof (cases "check_remote_server (rsc_name new) (rsc_hostname new) (rsc_ssh_port new) (rsc_ssh_user new)
      (rsc_helper_path new) (rsc_capacity new) (rsc_host_key_alias new)")
    case (Inl e)
    then show ?thesis unfolding create_remote_server_def by (intro admin_plane ok) (simp add: plane_step_refl [OF ok])
  next
    case (Inr x)
    then show ?thesis unfolding create_remote_server_def
      by (intro admin_plane gated_plane ok on_runtime_transaction) (simp add: plane_step_def insert_server_ok [OF ok])
  qed
  with server_created show ?thesis by simp
next
  case (server_updated fails u j patch server)
  have "plane_step (pd_runtime p) (pd_runtime (snd (update_remote_server fails u j patch p)))"
    unfolding update_remote_server_def
    by (intro admin_plane ok on_runtime_transaction) (simp add: plane_step_def update_server_step_ok [OF ok])
  with server_updated show ?thesis by simp
next
  case (server_disabled fails u j server)
  have "plane_step (pd_runtime p) (pd_runtime (snd (disable_remote_server fails u j p)))"
    unfolding disable_remote_server_def
    by (intro admin_plane ok on_runtime_transaction) (simp add: plane_step_def disable_server_step_ok [OF ok])
  with server_disabled show ?thesis by simp
next
  case elsewhere
  with plane_step_refl [OF ok] show ?thesis by simp
qed

end
