(* ===== verification/ControlPlaneProperties.thy ===== *)
theory ControlPlaneProperties
  imports ControlPlaneRequests
begin

text \<open>
  The properties of the control plane that span the API (\<open>services/api/src/routes/runtimes.rs\<close>) and
  the controller (\<open>services/controller/src/worker.rs\<close>).
\<close>

section \<open>Sessions among requests\<close>

text \<open>What the API commits between two statements of the controller, as the controller sees it on the tables of the
  runtime: any number of requests.\<close>

definition api_turn :: "(runtime_db \<Rightarrow> runtime_db) \<Rightarrow> bool" where
  "api_turn g \<longleftrightarrow> (\<forall>d. \<exists>p p'. pd_runtime p = d \<and> runtime_request\<^sup>*\<^sup>* p p' \<and> pd_runtime p' = g d)"

lemma runtime_history_ok:
  "runtime_request\<^sup>*\<^sup>* p q \<Longrightarrow> control_plane_ok (pd_runtime p) \<Longrightarrow> control_plane_ok (pd_runtime q)"
  by (induction rule: rtranclp_induct) (auto dest: runtime_request_plane simp: plane_step_def)

lemma api_turn_keeps: "api_turn g \<Longrightarrow> control_plane_ok d \<Longrightarrow> control_plane_ok (g d)"
  unfolding api_turn_def using runtime_history_ok by metis

lemma one_active_instance:
  assumes "distinct (active_owners is)" "i \<in> set is" "j \<in> set is" "ins_active i" "ins_active j"
    "ins_owner_user_id i = ins_owner_user_id j"
  shows "i = j"
proof -
  have "distinct (map ins_owner_user_id (filter ins_active is))" using assms(1) by (simp add: active_owners_def)
  from distinct_map_eq [OF this, of i j] assms show ?thesis by simp
qed

text \<open>
  C1. Whatever the API's users and administrators request of the runtime API between the statements and transactions
  of a controller session, and whatever fails, the tables stay in order: a user has at most one active
  instance, every command is for an existing instance, one that is to be terminated has been asked
  to stop, an idempotency key stands for one command, and no deadline exceeds its maximum.
\<close>


theorem control_plane_stays_ok:
  assumes "control_plane_ok (db w)" and "\<forall>g \<in> set (turns w). api_turn g"
    and "connected_session installed ctl plan w = (r, w')"
  shows "control_plane_ok (db w') \<and>
    (\<forall>i \<in> set (rt_instances (db w')). \<forall>j \<in> set (rt_instances (db w')).
       ins_active i \<and> ins_active j \<and> ins_owner_user_id i = ins_owner_user_id j \<longrightarrow> i = j) \<and>
    (\<forall>c \<in> set (rt_commands (db w')). open_status (cmd_status c) \<and> cmd_kind c = Cmd_Terminate \<longrightarrow>
       (\<exists>i \<in> set (rt_instances (db w')). ins_id i = cmd_instance_id c \<and> ins_desired_state i = Want_Stopped))"
proof -
  have "safe control_plane_ok w" using assms(1,2) api_turn_keeps by (auto simp: safe_def turns_keep_def)
  from preservesD [OF control_plane.preserves_session this, of installed ctl plan]
  have ok: "control_plane_ok (db w')" using assms(3) by (simp add: safe_def)
  then have "distinct (active_owners (rt_instances (db w')))" by (simp add: control_plane_ok_def instances_ok_def)
  moreover have "\<forall>c \<in> set (rt_commands (db w')). command_grounded (rt_instances (db w')) c"
    using ok by (simp add: control_plane_ok_def commands_grounded_def)
  moreover have "\<exists>i \<in> set is. ins_id i = cmd_instance_id c \<and> ins_desired_state i = Want_Stopped"
    if "command_grounded is c" "open_status (cmd_status c)" "cmd_kind c = Cmd_Terminate" for "is" c
    using that by (auto simp: command_grounded_def stop_wanted_def)
  ultimately show ?thesis using ok one_active_instance by meson
qed

section \<open>What the API accepts, the executor accepts\<close>

lemma healthcheck_startup:
  assumes "validate_healthcheck h = Inr ()"
  shows "\<exists>members. h = JObj members \<and> (case map_of members ''startup_timeout_seconds'' of None \<Rightarrow> True
    | Some v \<Rightarrow> (\<exists>s. v = JInt s \<and> 1 \<le> s \<and> s \<le> 55))"
proof -
  from assms obtain members where h: "h = JObj members"
    by (cases h) (auto simp: validate_healthcheck_def)
  with assms have "\<not> bad_number 1 55 (map_of members ''startup_timeout_seconds'')"
    by (simp add: validate_healthcheck_def split: if_split_asm)
  then have "case map_of members ''startup_timeout_seconds'' of None \<Rightarrow> True
    | Some v \<Rightarrow> (\<exists>s. json_i64 v = Some s \<and> 1 \<le> s \<and> s \<le> 55)"
    by (auto simp: bad_number_def split: option.splits)
  moreover have "json_i64 v = Some s \<Longrightarrow> v = JInt s" for v s by (cases v) (auto split: if_split_asm)
  ultimately show ?thesis using h by (auto split: option.splits)
qed

lemma startable_accepted:
  assumes "startable_snapshot (ins_deployment_snapshot i)" "secs 60 \<le> t"
  shows "validate_startup_timeout operation (remote_payload command i operation reason) t = Inr ()"
proof (cases "operation = Ensure_Instance")
  case True
  from assms(1) obtain h where h: "json_get ''healthcheck'' (ins_deployment_snapshot i) = Some h"
    "validate_healthcheck h = Inr ()" by (auto simp: startable_snapshot_def)
  from healthcheck_startup [OF h(2)] obtain members where m: "h = JObj members"
    "case map_of members ''startup_timeout_seconds'' of None \<Rightarrow> True
      | Some v \<Rightarrow> (\<exists>s. v = JInt s \<and> 1 \<le> s \<and> s \<le> 55)" by blast
  show ?thesis
    using True h(1) m assms(2)
    by (cases "map_of members ''startup_timeout_seconds''")
       (auto simp: validate_startup_timeout_def remote_payload_def Let_def secs_def u64_max_def)
qed (simp add: validate_startup_timeout_def)

text \<open>
  C20. What the API accepts, the controller's executor accepts: after any history of requests, every
  registered server passes the executor's own validation of an SSH target, and every instance's
  start-up time fits within any supported operation timeout (at least a minute), so that neither
  check refuses a launch.
\<close>

theorem executor_accepts_what_the_api_accepts:
  assumes "runtime_request\<^sup>*\<^sup>* p q" and "control_plane_ok (pd_runtime p)"
  shows "(\<forall>s \<in> set (rt_servers (pd_runtime q)). validate_remote_server (sr_server s) = Inr ()) \<and>
    (\<forall>i \<in> set (rt_instances (pd_runtime q)). \<forall>command operation reason t. secs 60 \<le> t \<longrightarrow>
       validate_startup_timeout operation (remote_payload command i operation reason) t = Inr ())"
proof -
  from assms have "control_plane_ok (pd_runtime q)" by (rule runtime_history_ok)
  then show ?thesis
    using startable_accepted by (auto simp: control_plane_ok_def servers_ok_def instances_ok_def)
qed

text \<open>
  C28. No request changes the SSH target of a server that still carries an active instance or an open
  command: the controller finds the server with the host, port, user, helper and host key that it
  placed the instance on.
\<close>

theorem ssh_target_is_stable:
  assumes "runtime_request p q" and "control_plane_ok (pd_runtime p)"
    and "i \<in> set (rt_instances (pd_runtime p))" "ins_remote_server_id i = Some j"
    and "ins_active i \<or> (\<exists>c \<in> set (rt_commands (pd_runtime p)). cmd_instance_id c = ins_id i \<and> open_status (cmd_status c))"
    and "find_server j (pd_runtime p) = Some s"
  shows "\<exists>s'. find_server j (pd_runtime q) = Some s' \<and> ssh_target s' = ssh_target s"
proof -
  from assms(6) obtain row where row: "row \<in> set (rt_servers (pd_runtime p))" "srv_id (sr_server row) = j" "s = sr_server row"
    by (auto simp: find_server_def dest!: find_mem)
  have "server_in_flight (srv_id (sr_server row)) (pd_runtime p)"
    using assms(3-5) row(2) unfolding server_in_flight_def by blast
  with runtime_request_plane [OF assms(1,2)] row obtain row' where
    row': "row' \<in> set (rt_servers (pd_runtime q))" "srv_id (sr_server row') = j" "ssh_target (sr_server row') = ssh_target s"
    and ok: "control_plane_ok (pd_runtime q)"
    unfolding plane_step_def targets_stay_def by metis
  have "distinct (map (srv_id \<circ> sr_server) (rt_servers (pd_runtime q)))"
    using ok by (simp add: control_plane_ok_def servers_ok_def server_ids_def)
  from find_the [OF this row'(1)] row'(2)
  have "List.find (\<lambda>s. srv_id (sr_server s) = j) (rt_servers (pd_runtime q)) = Some row'" by simp
  with row'(3) show ?thesis by (simp add: find_server_def)
qed

section \<open>Extensions\<close>

lemma extension_recorded:
  assumes ok: "control_plane_ok d'" and c: "c \<in> set (rt_commands d')" "cmd_requested_by c = Some user"
    "cmd_idempotency_key c = Some key" "cmd_kind c = Cmd_Extend"
  shows "extension_with_key user (Some key) d' = Some (cmd_instance_id c)"
proof -
  let ?P = "\<lambda>c. cmd_requested_by c = Some user \<and> cmd_idempotency_key c = Some key \<and> cmd_kind c = Cmd_Extend"
  obtain q where q: "List.find ?P (rt_commands d') = Some q"
    using c by (cases "List.find ?P (rt_commands d')") (auto simp: find_None_iff)
  from find_mem [OF q] have "q \<in> set (rt_commands d')" "?P q" by auto
  moreover have "keys_unique (rt_commands d')" "distinct (map cmd_id (rt_commands d'))"
    using ok by (simp_all add: control_plane_ok_def commands_grounded_def runtime_ok_defs)
  ultimately have "q = c" using c unfolding keys_unique_def same_key_def by (metis distinct_map_eq option.discI)
  with q show ?thesis by (simp add: extension_with_key_def)
qed

lemma extend_now_row:
  assumes ok: "control_plane_ok d" and i: "i \<in> set (rt_instances d)"
    and run: "extend_now ck u i seconds key d = (Inr (code, i'), d')"
  obtains deadline c where
    "extended_deadline (ac_app ck) i (extension_limits_of (ins_challenge_id i) d) seconds = Inr deadline"
    "code = Accepted_202" "i' = i\<lparr>ins_desired_expires_at := deadline, ins_generation := ins_generation i + 1,
       ins_extension_count := ins_extension_count i + 1\<rparr>"
    "instance_by_id (ins_id i) d' = Inr i'" "c \<in> set (rt_commands d')" "cmd_requested_by c = Some (cu_id u)"
    "cmd_idempotency_key c = key" "cmd_kind c = Cmd_Extend" "cmd_instance_id c = ins_id i"
proof -
  from run obtain deadline c d1 where
    deadline: "extended_deadline (ac_app ck) i (extension_limits_of (ins_challenge_id i) d) seconds = Inr deadline"
    and cmd: "queue_command (ac_db ck) i Cmd_Extend (ins_generation i + 1)
      (JObj [(''requested_expires_at'', JTime deadline)]) (cu_id u) key
      (prolong (ins_id i) deadline (ins_generation i + 1) d) = (Inr c, d1)"
    and d': "d' = notify command_channel (uuid_text c) (append_api_event (ins_id i) ''instance.extension_requested''
      (Some (cu_id u)) (JObj [(''command_id'', json_uuid c), (''requested_expires_at'', JTime deadline)]) d1)"
    and reply: "code = Accepted_202" "instance_by_id (ins_id i) d' = Inr i'"
    by (rule extend_now_Inr) (simp only: fst_conv snd_conv)
  from cmd obtain r where r: "r \<in> set (rt_commands d1)" "cmd_requested_by r = Some (cu_id u)"
    "cmd_idempotency_key r = key" "cmd_kind r = Cmd_Extend" "cmd_instance_id r = ins_id i"
    and rows: "rt_instances d1 = rt_instances (prolong (ins_id i) deadline (ins_generation i + 1) d)"
    by (rule queue_command_Inr) (simp, blast)
  have "i' \<in> set (rt_instances d1)" "ins_id i' = ins_id i"
    using instance_by_id_Inr [OF reply(2)] by (simp_all add: d')
  then have "i' = i\<lparr>ins_desired_expires_at := deadline, ins_generation := ins_generation i + 1,
       ins_extension_count := ins_extension_count i + 1\<rparr>"
    using only_instance [OF ok i] by (auto simp: rows prolong_def set_update_where)
  with deadline reply r show ?thesis by (intro that [of deadline r]) (simp_all add: d')
qed

text \<open>The command of an extension under a user's key, whatever has become of it since.\<close>

definition extension_kept :: "int \<Rightarrow> string \<Rightarrow> uuid \<Rightarrow> runtime_db \<Rightarrow> bool" where
  "extension_kept user key j d \<longleftrightarrow> (\<exists>c \<in> set (rt_commands d). cmd_requested_by c = Some user \<and>
     cmd_idempotency_key c = Some key \<and> cmd_kind c = Cmd_Extend \<and> cmd_instance_id c = j)"

lemma extension_replays:
  assumes "control_plane_ok (pd_runtime q)" "extension_kept (cu_id u) key j (pd_runtime q)"
    "idempotency_key header (xr_key request) = Inr (Some key)" "instance_by_id j (pd_runtime q) = Inr i"
    "authorize_instance u i = Inr ()" "credential_valid (ac_db ck) (ap_session_lifetime env) u q"
  shows "extend_instance env ck False u j header request q = (Inr (Ok_200, i), q)"
proof -
  from assms(2) have "extension_with_key (cu_id u) (Some key) (pd_runtime q) = Some j"
    unfolding extension_kept_def using extension_recorded [OF assms(1)] by auto
  with assms(3-) show ?thesis
    by (simp add: extend_instance_def runtime_transaction_def in_transaction_def revalidate_current_credential_def
        require_def on_runtime_def extend_step_def reading_def)
qed

text \<open>
  C15. An accepted extension is within the limits: it was of a running, ready and not yet expired instance that the
  caller owns or administers, moves the deadline forward but not past its maximum and counts against the
  challenge's limit. (Only a request that carries a key can be answered without a change.) An extension
  with an idempotency key happens once: it leaves its command behind, and from then on, in all tables that keep
  this command, however the rest has changed since, a request of the same user for the same instance and with the
  same key is answered with the instance as it now is and changes nothing, as long as the user's
  credential is valid and the instance is still the user's to see.
\<close>

theorem extension_happens_once:
  assumes "control_plane_ok (pd_runtime p)"
    and "idempotency_key header (xr_key request) = Inr key"
    and "extend_instance env ck fails u j header request p = (Inr (code, i'), p')"
  shows "(code = Ok_200 \<and> p' = p \<and> key \<noteq> None \<or>
      code = Accepted_202 \<and> (\<exists>i \<in> set (rt_instances (pd_runtime p)). ins_id i = j \<and>
        (is_admin u \<or> ins_owner_user_id i = cu_id u) \<and>
        ins_active i \<and> ins_desired_state i = Want_Running \<and> ins_observed_state i = Obs_Ready \<and>
        ac_app ck < ins_expires_at i \<and> ins_desired_expires_at i < ins_desired_expires_at i' \<and>
        ins_desired_expires_at i' \<le> ins_maximum_expires_at i \<and> ins_extension_count i' = ins_extension_count i + 1 \<and>
        ins_extension_count i' \<le> xl_maximum (extension_limits_of (ins_challenge_id i) (pd_runtime p)))) \<and>
    (\<forall>k. key = Some k \<longrightarrow> extension_kept (cu_id u) k j (pd_runtime p') \<and>
      (credential_valid (ac_db ck') (ap_session_lifetime env) u p' \<longrightarrow>
        extend_instance env ck' False u j header request p' = (Inr (Ok_200, i'), p')) \<and>
      (\<forall>q header' request' later. control_plane_ok (pd_runtime q) \<and> extension_kept (cu_id u) k j (pd_runtime q) \<and>
        idempotency_key header' (xr_key request') = Inr (Some k) \<and>
        instance_by_id j (pd_runtime q) = Inr later \<and> authorize_instance u later = Inr () \<and>
        credential_valid (ac_db ck') (ap_session_lifetime env) u q \<longrightarrow>
        extend_instance env ck' False u j header' request' q = (Inr (Ok_200, later), q)))"
proof -
  let ?d = "pd_runtime p" and ?d' = "pd_runtime p'"
  from assms(2,3) have step: "extend_step ck u j (xr_seconds request) key ?d = (Inr (code, i'), ?d')"
    and same: "p' = p\<lparr>pd_runtime := ?d'\<rparr>"
    unfolding extend_instance_def runtime_transaction_def
    by (auto simp: on_runtime_Inr elim!: and_then_Inr_cases dest!: revalidate_Inr)
  from extend_step_ok [OF assms(1) step] have ok': "control_plane_ok ?d'" .
  from step obtain i where i: "i \<in> set (rt_instances ?d)" "ins_id i = j" "authorize_instance u i = Inr ()"
    and cases: "extension_with_key (cu_id u) key ?d = Some j \<and> (code, i') = (Ok_200, i) \<and> ?d' = ?d \<or>
     extension_with_key (cu_id u) key ?d = None \<and>
     extend_now ck u i (xr_seconds request) key ?d = (Inr (code, i'), ?d')" by (rule extend_step_Inr)
  have by_id: "instance_by_id j ?d = Inr i"
    using i ok' assms(1) by (auto simp: instance_by_id_def find_instance_def control_plane_ok_def runtime_db_ok_def
      intro!: find_the)
  have replies: ?thesis if
    "code = Ok_200 \<and> p' = p \<and> key \<noteq> None \<or>
      code = Accepted_202 \<and> (\<exists>i \<in> set (rt_instances (pd_runtime p)). ins_id i = j \<and>
        (is_admin u \<or> ins_owner_user_id i = cu_id u) \<and>
        ins_active i \<and> ins_desired_state i = Want_Running \<and> ins_observed_state i = Obs_Ready \<and>
        ac_app ck < ins_expires_at i \<and> ins_desired_expires_at i < ins_desired_expires_at i' \<and>
        ins_desired_expires_at i' \<le> ins_maximum_expires_at i \<and> ins_extension_count i' = ins_extension_count i + 1 \<and>
        ins_extension_count i' \<le> xl_maximum (extension_limits_of (ins_challenge_id i) (pd_runtime p)))"
    "\<And>k. key = Some k \<Longrightarrow> extension_kept (cu_id u) k j ?d'" "instance_by_id j ?d' = Inr i'"
    "authorize_instance u i' = Inr ()"
  proof (intro conjI allI impI)
    note there = that(3,4)
    fix k assume k: "key = Some k"
    show "extension_kept (cu_id u) k j ?d'" by (rule that(2) [OF k])
    show "extend_instance env ck' False u j header request p' = (Inr (Ok_200, i'), p')"
      if "credential_valid (ac_db ck') (ap_session_lifetime env) u p'"
      by (rule extension_replays [OF ok' \<open>extension_kept (cu_id u) k j ?d'\<close> assms(2) [unfolded k] there that])
    show "extend_instance env ck' False u j header' request' q = (Inr (Ok_200, later), q)"
      if "control_plane_ok (pd_runtime q) \<and> extension_kept (cu_id u) k j (pd_runtime q) \<and>
        idempotency_key header' (xr_key request') = Inr (Some k) \<and>
        instance_by_id j (pd_runtime q) = Inr later \<and> authorize_instance u later = Inr () \<and>
        credential_valid (ac_db ck') (ap_session_lifetime env) u q" for q header' request' later
      using that by (elim conjE) (rule extension_replays)
  qed (rule that(1))
  from cases show ?thesis
  proof (elim disjE conjE)
    assume old: "extension_with_key (cu_id u) key ?d = Some j" "(code, i') = (Ok_200, i)" "?d' = ?d"
    then have "key \<noteq> None" by (cases key) (auto simp: extension_with_key_def)
    moreover have "extension_kept (cu_id u) k j ?d'" if "key = Some k" for k
      using old that by (auto simp: extension_with_key_def extension_kept_def dest!: find_mem)
    ultimately show ?thesis using old by_id i(3) same by (intro replies) auto
  next
    assume now: "extend_now ck u i (xr_seconds request) key ?d = (Inr (code, i'), ?d')"
    from extend_now_row [OF assms(1) i(1) now] obtain deadline c where
      deadline: "extended_deadline (ac_app ck) i (extension_limits_of (ins_challenge_id i) ?d) (xr_seconds request) = Inr deadline"
      and code: "code = Accepted_202"
      and i': "i' = i\<lparr>ins_desired_expires_at := deadline, ins_generation := ins_generation i + 1,
         ins_extension_count := ins_extension_count i + 1\<rparr>"
      and there: "instance_by_id j ?d' = Inr i'"
      and c: "c \<in> set (rt_commands ?d')" "cmd_requested_by c = Some (cu_id u)" "cmd_idempotency_key c = key"
        "cmd_kind c = Cmd_Extend" "cmd_instance_id c = j"
      unfolding i(2) by metis
    have "authorize_instance u i' = Inr ()" using i(3) by (simp add: i' authorize_instance_def)
    moreover have "is_admin u \<or> ins_owner_user_id i = cu_id u" using i(3) by (auto simp: authorize_instance_def split: if_split_asm)
    moreover have "extension_kept (cu_id u) k j ?d'" if "key = Some k" for k
      using c that unfolding extension_kept_def by blast
    ultimately show ?thesis
      using there code i(1,2) extended_deadline_Inr [OF deadline] by (intro replies) (auto simp: i' intro!: bexI [of _ i])
  qed
qed

end
