(* ===== verification/RuntimeSafety.thy ===== *)
theory RuntimeSafety
  imports RuntimeProperties
begin

text \<open>
  What links the tables, the journal and the remote side in
  \<open>services/controller/src/worker.rs\<close>: no remote call without a durable journal entry, no instance
  declared gone without the helper's confirmation, and terminal failures and overdue instances that
  end in a queued termination.
\<close>

section \<open>What a run does outside the database\<close>

text \<open>An append to the journal with its outcome, and a call of the remote side.\<close>

datatype io_event = Ev_Append journal_record bool | Ev_Call remote_server remote_operation json

text \<open>The events replayed on a disk and a remote side.\<close>

fun replay :: "'s controller \<Rightarrow> io_event list \<Rightarrow> disk \<times> 's \<Rightarrow> (disk \<times> 's) option" where
  "replay ctl [] x = Some x"
| "replay ctl (Ev_Append r ok # es) (d, s) =
     (case journal_append (ctl_codec ctl) r d of (res, d') \<Rightarrow>
        if ok \<longleftrightarrow> res = Inr () then replay ctl es (d', s) else None)"
| "replay ctl (Ev_Call server operation payload # es) (d, s) =
     (case remote_execute (ctl_executor ctl) server operation payload s of (res, elapsed, s') \<Rightarrow>
        replay ctl es (d, s'))"

text \<open>Directly before every call, the intent that announces this very call was appended with success.\<close>

definition announces :: "command \<Rightarrow> journal_record \<Rightarrow> remote_server \<Rightarrow> remote_operation \<Rightarrow> json \<Rightarrow> bool" where
  "announces command r server operation payload \<longleftrightarrow>
     (\<exists>i reason now. payload = remote_payload command i operation reason \<and>
        r = intent_record (make_intent command i operation (Some server) payload) now)"

fun calls_announced :: "command \<Rightarrow> io_event list \<Rightarrow> bool" where
  "calls_announced command (Ev_Append r ok # Ev_Call server operation payload # es) \<longleftrightarrow>
     ok \<and> announces command r server operation payload \<and> calls_announced command es"
| "calls_announced command (Ev_Append r ok # es) \<longleftrightarrow> calls_announced command es"
| "calls_announced command (Ev_Call server operation payload # es) \<longleftrightarrow> False"
| "calls_announced command [] \<longleftrightarrow> True"

lemma replay_append: "replay ctl (es @ fs) x = Option.bind (replay ctl es x) (replay ctl fs)"
  by (induction ctl es x rule: replay.induct) (auto split: prod.splits)

lemma calls_announced_more: "calls_announced command fs \<Longrightarrow> calls_announced command (Ev_Append r ok # fs)"
  by (cases fs; cases "hd fs") auto

lemma calls_announced_append:
  "calls_announced command es \<Longrightarrow> calls_announced command fs \<Longrightarrow> calls_announced command (es @ fs)"
  by (induction command es rule: calls_announced.induct) (auto simp: calls_announced_more)

text \<open>A step whose effect outside the database is explained by such events.\<close>

definition surroundings :: "'s runtime_world \<Rightarrow> disk \<times> 's" where
  "surroundings w = (jdisk w, remote_side w)"

definition explained :: "'s controller \<Rightarrow> command \<Rightarrow> 's runtime_world \<Rightarrow> 's runtime_world \<Rightarrow> bool" where
  "explained ctl command w w' \<longleftrightarrow>
     (\<exists>es. calls_announced command es \<and> replay ctl es (surroundings w) = Some (surroundings w'))"

definition covered :: "'s controller \<Rightarrow> command \<Rightarrow> ('s runtime_world \<Rightarrow> 'a \<times> 's runtime_world) \<Rightarrow> bool" where
  "covered ctl command m \<longleftrightarrow> (\<forall>w. explained ctl command w (snd (m w)))"

lemma explained_trans:
  assumes "explained ctl command w w1" "explained ctl command w1 w2"
  shows "explained ctl command w w2"
proof -
  from assms obtain es fs where "calls_announced command es" "replay ctl es (surroundings w) = Some (surroundings w1)"
    "calls_announced command fs" "replay ctl fs (surroundings w1) = Some (surroundings w2)"
    by (auto simp: explained_def)
  then show ?thesis unfolding explained_def
    by (intro exI [of _ "es @ fs"]) (simp add: calls_announced_append replay_append)
qed

text \<open>Steps that touch neither.\<close>

definition calm :: "('s runtime_world \<Rightarrow> 'a \<times> 's runtime_world) \<Rightarrow> bool" where
  "calm m \<longleftrightarrow> (\<forall>w. surroundings (snd (m w)) = surroundings w)"

lemma calm_covered: "calm m \<Longrightarrow> covered ctl command m"
  unfolding calm_def covered_def explained_def by (intro allI exI [of _ "[]"]) simp

lemma calm_and_then:
  assumes "calm m" and "\<And>x. calm (f x)"
  shows "calm (\<lambda>w. and_then (m w) f)"
  unfolding calm_def
proof
  fix w :: "'a runtime_world"
  obtain r w1 where m: "m w = (r, w1)" by fastforce
  with assms(1) have "surroundings w1 = surroundings w" by (auto simp: calm_def dest!: spec [of _ w])
  then show "surroundings (snd (and_then (m w) f)) = surroundings w"
    using assms(2) m by (cases r) (auto simp: calm_def)
qed

lemma calm_diagonal: "(\<And>v. calm (m v)) \<Longrightarrow> calm (\<lambda>w. m w w)"
  by (simp add: calm_def)

lemma covered_diagonal: "(\<And>v. covered ctl command (m v)) \<Longrightarrow> covered ctl command (\<lambda>w. m w w)"
  by (simp add: covered_def)

lemma covered_and_then:
  assumes "covered ctl command m" and "\<And>x. covered ctl command (f x)"
  shows "covered ctl command (\<lambda>w. and_then (m w) f)"
  unfolding covered_def
proof
  fix w :: "'a runtime_world"
  obtain r w1 where m: "m w = (r, w1)" by fastforce
  with assms(1) have first: "explained ctl command w w1" by (auto simp: covered_def dest!: spec [of _ w])
  show "explained ctl command w (snd (and_then (m w) f))"
  proof (cases r)
    case (Inr x)
    with assms(2) [of x] have "explained ctl command w1 (snd (f x w1))" by (simp add: covered_def)
    from explained_trans [OF first this] show ?thesis by (simp add: m Inr)
  qed (use m first in simp)
qed

lemma surroundings_simps [simp]:
  "surroundings (w\<lparr>db := d\<rparr>) = surroundings w" "surroundings (w\<lparr>faults := fs\<rparr>) = surroundings w"
  by (simp_all add: surroundings_def)

lemma send_calm: "surroundings (snd (send w)) = surroundings w"
  using send_faults [of w] by auto

lemma calm_statement: "calm (statement q)"
  unfolding calm_def statement_def
proof
  fix w :: "'a runtime_world"
  show "surroundings (snd (and_then (send w) (\<lambda>_ w'. (Inr (fst (q (db w'))), w'\<lparr>db := snd (q (db w'))\<rparr>)))) =
      surroundings w"
    using send_calm [of w] by (cases "send w"; cases "fst (send w)") (auto simp: and_then_def)
qed

lemma interleave_calm [simp]: "surroundings (interleave w) = surroundings w"
  by (simp add: interleave_def surroundings_def split: list.splits)

lemma statement_calm:
  fixes w :: "'s runtime_world"
  shows "surroundings (snd (statement q w)) = surroundings w"
  by (rule spec [OF calm_statement [unfolded calm_def]])

lemma calm_on_pool: "calm (on_pool q)"
  by (simp add: calm_def on_pool_def statement_calm)

lemma calm_on_pool_at: "calm (\<lambda>w. on_pool (q w) w)"
  by (rule calm_diagonal, rule calm_on_pool)

lemma calm_transaction:
  assumes "\<And>now. calm (body now)"
  shows "calm (transaction body)"
  unfolding calm_def
proof
  fix w :: "'a runtime_world"
  obtain u w1 where s: "send (interleave w) = (u, w1)" by fastforce
  with send_calm [of "interleave w"] have w1: "surroundings w1 = surroundings w" by simp
  obtain r w2 where b: "body (clock w1) w1 = (r, w2)" by fastforce
  from assms have "surroundings (snd (body (clock w1) w1)) = surroundings w1" by (simp add: calm_def)
  with b w1 have w2: "surroundings w2 = surroundings w" by simp
  obtain v w3 where c: "send w2 = (v, w3)" by fastforce
  with send_calm [of w2] w2 have "surroundings w3 = surroundings w" by simp
  with s b c w1 w2 show "surroundings (snd (transaction body w)) = surroundings w"
    by (auto simp: transaction_def and_then_def split: sum.splits outcome.splits)
qed

lemma calm_config: "(\<And>now. calm (body now)) \<Longrightarrow> calm (config_transaction body)"
  unfolding config_transaction_def by (intro calm_transaction calm_and_then calm_statement)

lemma calm_simple:
  "calm (\<lambda>w. (r, w))" "calm (require b e)" "calm (commit_with x)" "calm (rollback_with x)"
  "calm (read_sql f)" "calm (pool_read f)"
  "calm (require_remote_removal res g)" "calm (require_remote_generation res g phase)"
  "calm (require_remote_ready ctl res phase)"
  by (simp_all add: statement_calm on_pool_def calm_def require_def commit_with_def rollback_with_def read_sql_def pool_read_def
      require_remote_removal_def require_remote_generation_def
      require_remote_ready_def split: prod.splits)

lemma calm_read_at: "calm (\<lambda>w. read_sql (f w) w)"
  by (rule calm_diagonal, rule calm_simple)

lemma calm_if: "calm m \<Longrightarrow> calm n \<Longrightarrow> calm (\<lambda>w. if b w then m w else n w)"
  by (simp add: calm_def)

lemma calm_fun_if: "calm m \<Longrightarrow> calm n \<Longrightarrow> calm (if b then m else n)"
  by simp

lemma calm_option:
  "calm m \<Longrightarrow> (\<And>y. calm (n y)) \<Longrightarrow> calm (\<lambda>w. case x of None \<Rightarrow> m w | Some y \<Rightarrow> n y w)"
  by (cases x) simp_all

lemma calm_checked: "calm (checked_statement q)"
  unfolding checked_statement_def [abs_def] by (intro calm_and_then calm_statement calm_simple(1))

lemma calm_with_claim: "calm body \<Longrightarrow> calm (with_claim command lost body)"
  unfolding with_claim_def [abs_def] lock_command_claim_def
  by (intro calm_and_then calm_simple calm_fun_if)

lemma calm_events: "calm (runtime_event_step i ty payload)"
  "calm (mark_command_cancelled now command reason)" "calm (mark_command_completed now command)"
  unfolding runtime_event_step_def mark_command_cancelled_def [abs_def] mark_command_completed_def [abs_def]
  by (intro calm_statement calm_and_then calm_simple)+

lemma calm_create: "calm (create_termination_in_transaction now i reason)"
  unfolding create_termination_in_transaction_def [abs_def]
  by (intro calm_and_then calm_simple calm_if calm_option calm_events calm_statement)

lemmas calm_rules = calm_config calm_with_claim calm_and_then calm_simple calm_read_at calm_fun_if calm_if
  calm_option calm_checked calm_events calm_create calm_statement calm_on_pool_at

lemma calm_transactions:
  "calm (mark_starting command i server)" "calm (select_and_mark_starting command i)"
  "calm (mark_stopping command i)" "calm (reject_start command i gate)"
  "calm (expire_unstarted_instance command i)" "calm (cancel_stale_command command i)"
  "calm (cancel_command command reason)" "calm (complete_command command)"
  unfolding mark_starting_def select_and_mark_starting_def mark_stopping_def reject_start_def
    expire_unstarted_instance_def cancel_stale_command_def cancel_command_def [abs_def]
    complete_command_def [abs_def]
  by (intro calm_rules)+

lemma calm_inspected: "calm (\<lambda>w. inspected ctl now (b w) command i res w)"
proof -
  have "calm (inspected ctl now e command i res)" for e
    unfolding inspected_def [abs_def] inspected_absent_def [abs_def] inspected_not_ready_def [abs_def]
      inspected_ready_def [abs_def] Let_def
    by (intro calm_rules)
  then show ?thesis by (simp add: calm_def)
qed

lemma calm_finish:
  "calm (finish_start ctl command i server res)" "calm (finish_termination command i)"
  "calm (finish_extension ctl command i res)" "calm (finish_inspection ctl command i res)"
proof -
  show "calm (finish_start ctl command i server res)"
    unfolding finish_start_def [abs_def] Let_def finish_start_tx_def lock_command_claim_def
    by (rule calm_diagonal) (intro calm_rules)
  show "calm (finish_termination command i)"
    unfolding finish_termination_def [abs_def] Let_def finish_termination_tx_def
    by (rule calm_diagonal) (intro calm_rules)
  show "calm (finish_extension ctl command i res)"
    unfolding finish_extension_def [abs_def] Let_def finish_extension_tx_def
    by (rule calm_diagonal) (intro calm_rules)
  show "calm (finish_inspection ctl command i res)"
    unfolding finish_inspection_def
    by (intro calm_config calm_with_claim calm_and_then calm_inspected calm_rules)
qed

section \<open>Intents come first\<close>

lemma covered_journal: "covered ctl command (journal_write ctl entry)"
  unfolding covered_def
proof
  fix w :: "'a runtime_world"
  obtain r d where j: "journal_append (ctl_codec ctl) (entry (clock w)) (jdisk w) = (r, d)" by fastforce
  then show "explained ctl command w (snd (journal_write ctl entry w))" unfolding explained_def
    by (intro exI [of _ "[Ev_Append (entry (clock w)) (r = Inr ())]"])
      (simp add: journal_write_def journal_step_def surroundings_def)
qed

lemma covered_results:
  "covered ctl command (journal_result_step ctl i res)" "covered ctl command (journal_acknowledge_step ctl i)"
  unfolding journal_result_step_def journal_acknowledge_step_def by (rule covered_journal)+

lemma covered_call:
  assumes "\<And>x. covered ctl command (f x)"
  shows "covered ctl command (\<lambda>w. and_then (journal_intent_step ctl (make_intent command i operation (Some server)
      (remote_payload command i operation reason)) w) (\<lambda>_ w.
    and_then (remote_step ctl server operation (remote_payload command i operation reason) w) f))"
    (is "covered ctl command ?m")
  unfolding covered_def
proof
  fix w :: "'a runtime_world"
  let ?payload = "remote_payload command i operation reason"
  let ?r = "intent_record (make_intent command i operation (Some server) ?payload) (clock w)"
  obtain r d where j: "journal_append (ctl_codec ctl) ?r (jdisk w) = (r, d)" by fastforce
  obtain res elapsed s where e: "remote_execute (ctl_executor ctl) server operation ?payload (remote_side w) = (res, elapsed, s)"
    by (cases "remote_execute (ctl_executor ctl) server operation ?payload (remote_side w)")
  show "explained ctl command w (snd (?m w))"
  proof (cases r)
    case (Inl x)
    then have m: "snd (?m w) = w\<lparr>jdisk := d\<rparr>"
      using j by (simp add: journal_intent_step_def journal_write_def journal_step_def)
    show ?thesis unfolding explained_def m
      by (intro exI [of _ "[Ev_Append ?r False]"]) (simp add: surroundings_def j Inl)
  next
    case (Inr u)
    let ?w = "w\<lparr>jdisk := d, remote_side := s, clock := clock w + elapsed\<rparr>"
    have m: "?m w = and_then (res, ?w) f"
      using j e Inr by (simp add: journal_intent_step_def journal_write_def journal_step_def remote_step_def)
    have "announces command ?r server operation ?payload" unfolding announces_def by blast
    then have first: "explained ctl command w ?w" unfolding explained_def
      by (intro exI [of _ "[Ev_Append ?r True, Ev_Call server operation ?payload]"])
        (simp add: surroundings_def j e Inr)
    show ?thesis
    proof (cases res)
      case (Inr x)
      with assms [of x] have "explained ctl command ?w (snd (f x ?w))" by (simp add: covered_def)
      from explained_trans [OF first this] show ?thesis by (simp add: m Inr)
    qed (simp add: m first)
  qed
qed

lemma covered_if:
  "covered ctl command m \<Longrightarrow> covered ctl command n \<Longrightarrow> covered ctl command (\<lambda>w. if b w then m w else n w)"
  by (simp add: covered_def)

lemma covered_option:
  "covered ctl command m \<Longrightarrow> (\<And>y. covered ctl command (n y)) \<Longrightarrow>
     covered ctl command (\<lambda>w. case x of None \<Rightarrow> m w | Some y \<Rightarrow> n y w)"
  by (cases x) simp_all

lemma covered_calm:
  "covered ctl c (cancel_command command reason)" "covered ctl c (complete_command command)"
  "covered ctl c (expire_unstarted_instance command i)" "covered ctl c (reject_start command i gate)"
  "covered ctl c (mark_starting command i server)" "covered ctl c (select_and_mark_starting command i)"
  "covered ctl c (mark_stopping command i)" "covered ctl c (cancel_stale_command command i)"
  "covered ctl c (finish_start ctl command i server res)" "covered ctl c (finish_termination command i)"
  "covered ctl c (finish_extension ctl command i res)" "covered ctl c (finish_inspection ctl command i res)"
  "covered ctl c (pool_read g)" "covered ctl c (\<lambda>w. (r, w))" "covered ctl c (require b e)"
  "covered ctl c (require_remote_removal res n)" "covered ctl c (require_remote_generation res n phase)"
  "covered ctl c (require_remote_ready ctl res phase)"
  "covered ctl c (load_remote_server j)" "covered ctl c (load_instance j)"
proof -
  show "covered ctl c (load_remote_server j)" "covered ctl c (load_instance j)"
    unfolding load_remote_server_def [abs_def] load_instance_def [abs_def]
    by (intro calm_covered calm_rules)+
qed (rule calm_covered, rule calm_transactions calm_finish calm_simple)+

lemmas covered_rules = covered_call covered_results covered_if covered_and_then covered_option covered_calm

lemma covered_launch: "covered ctl command (launch ctl command i server)"
  unfolding launch_def [abs_def] cleanup_superseded_start_def Let_def by (intro covered_rules)

lemma covered_handlers:
  "covered ctl command (execute_start ctl command i)"
  "covered ctl command (execute_terminate ctl command i)"
  "covered ctl command (execute_extend ctl command i)"
  "covered ctl command (execute_inspect ctl command i)"
  unfolding execute_start_def [abs_def] execute_terminate_def [abs_def] terminate_remote_def execute_extend_def [abs_def]
    execute_inspect_def [abs_def] Let_def
  by (intro covered_rules covered_launch)+

text \<open>
  C22. No remote call without a durable intent: whatever executing a command does to the journal's file and to the
  remote side, whichever of its statements, writes and calls fail, is the effect of a sequence of appends to the
  journal and calls of the remote side in which every call comes directly after an append that succeeded (the
  record was written and fsynced), and the appended record is the intent of this command with the server, the
  operation and the payload of that call.
\<close>

theorem remote_calls_follow_durable_intents:
  "\<exists>events. calls_announced command events \<and>
     replay ctl events (jdisk w, remote_side w) =
       Some (jdisk (snd (execute_command ctl command w)), remote_side (snd (execute_command ctl command w)))"
proof -
  have "covered ctl command (\<lambda>w. case rc_kind command of
       Cmd_Start \<Rightarrow> execute_start ctl command i w
     | Cmd_Terminate \<Rightarrow> execute_terminate ctl command i w
     | Cmd_Extend \<Rightarrow> execute_extend ctl command i w
     | Cmd_Inspect \<Rightarrow> execute_inspect ctl command i w
     | Cmd_Reconcile \<Rightarrow> execute_inspect ctl command i w)" for i
    by (cases "rc_kind command") (simp_all add: covered_handlers)
  then have "covered ctl command (execute_command ctl command)"
    unfolding execute_command_def [abs_def] by (intro covered_and_then covered_if covered_calm)
  then show ?thesis by (auto simp: covered_def explained_def surroundings_def)
qed

end
