(* ===== verification/RuntimeConfirmation.thy ===== *)
theory RuntimeConfirmation
  imports RuntimeSafety
begin

text \<open>
  No workload is forgotten (\<open>services/controller/src/worker.rs\<close>): the controller marks an instance
  that was placed on a server as gone only when the helper confirmed that its workload is absent.
\<close>

section \<open>Placed instances\<close>

definition placed :: "runtime_instance \<Rightarrow> bool" where
  "placed r \<longleftrightarrow> ins_active r \<and> ins_remote_server_id r \<noteq> None \<and> ins_observed_state r \<noteq> Obs_Requested"

definition running_workload :: "uuid \<Rightarrow> runtime_db \<Rightarrow> bool" where
  "running_workload i d \<longleftrightarrow> (case find_instance i d of None \<Rightarrow> False | Some r \<Rightarrow> placed r)"

text \<open>The helper answered a stop or an inspection of the instance, and said that it is absent.\<close>

definition removal_confirmed :: "'s controller \<Rightarrow> uuid \<Rightarrow> bool" where
  "removal_confirmed ctl i \<longleftrightarrow>
     (\<exists>operation server command j reason res s elapsed s'.
        operation \<in> {Stop_Instance, Inspect_Instance} \<and> ins_id j = i \<and>
        remote_execute (ctl_executor ctl) server operation (remote_payload command j operation reason) s
          = (Inr res, elapsed, s') \<and>
        res_absent res = Some True)"

definition workload_kept :: "'s controller \<Rightarrow> uuid \<Rightarrow> runtime_db \<Rightarrow> bool" where
  "workload_kept ctl i d \<longleftrightarrow> running_workload i d \<or> removal_confirmed ctl i"

lemma find_instance_id: "find_instance i d = Some r \<Longrightarrow> ins_id r = i"
  by (auto simp: find_instance_def find_Some_iff)

lemma find_instance_update:
  assumes "\<And>r. P r \<Longrightarrow> ins_id (f r) = ins_id r"
  shows "find_instance i (d\<lparr>rt_instances := update_where P f (rt_instances d)\<rparr>) =
    map_option (\<lambda>r. if P r then f r else r) (find_instance i d)"
proof -
  have "List.find (\<lambda>r. ins_id r = i) (update_where P f rs) =
      map_option (\<lambda>r. if P r then f r else r) (List.find (\<lambda>r. ins_id r = i) rs)" for rs
    using assms by (induction rs) auto
  then show ?thesis by (simp add: find_instance_def)
qed

lemma kept_update:
  assumes "workload_kept ctl i d" and "\<And>r. P r \<Longrightarrow> ins_id (f r) = ins_id r"
    and "\<And>r. P r \<Longrightarrow> ins_id r = i \<Longrightarrow> placed r \<Longrightarrow> placed (f r) \<or> removal_confirmed ctl i"
  shows "workload_kept ctl i (d\<lparr>rt_instances := update_where P f (rt_instances d)\<rparr>)"
proof -
  have "running_workload i (d\<lparr>rt_instances := update_where P f (rt_instances d)\<rparr>) \<or> removal_confirmed ctl i"
    if "find_instance i d = Some r" "placed r" for r
    using that find_instance_id [OF that(1)] assms(3) [of r]
    by (auto simp: running_workload_def find_instance_update [OF assms(2)])
  with assms(1) show ?thesis
    unfolding workload_kept_def by (auto simp: running_workload_def [of i d] split: option.splits)
qed

lemma kept_frame: "workload_kept ctl i d \<Longrightarrow> rt_instances d' = rt_instances d \<Longrightarrow> workload_kept ctl i d'"
  by (simp add: workload_kept_def running_workload_def find_instance_def)

lemma keeps_kept_frame:
  "(\<And>d. rt_instances (snd (q d)) = rt_instances d) \<Longrightarrow> keeps (workload_kept ctl i) (statement q)"
  by (rule keeps_statement, rule kept_frame)

lemma keeps_kept_update:
  assumes "\<And>r. P r \<Longrightarrow> ins_id (f r) = ins_id r"
    and "\<And>r. P r \<Longrightarrow> ins_id r = i \<Longrightarrow> placed r \<Longrightarrow> placed (f r) \<or> removal_confirmed ctl i"
  shows "keeps (workload_kept ctl i) (statement (update_instances P f))"
  by (rule keeps_statement) (simp add: update_instances_conv kept_update assms)

lemma keeps_kept_checked:
  assumes "\<And>r. P r \<Longrightarrow> ins_id (f r) = ins_id r"
    and "\<And>r. P r \<Longrightarrow> ins_id r = i \<Longrightarrow> placed r \<Longrightarrow> placed (f r)"
  shows "keeps (workload_kept ctl i) (checked_statement (update_instances_checked v P f))"
proof (rule keeps_checked)
  fix d
  assume "workload_kept ctl i d"
  with assms kept_update [of ctl i d P f] show "workload_kept ctl i (snd (update_instances_checked v P f d))"
    by (auto simp: update_instances_checked_def)
qed

lemma keeps_kept_steps:
  "keeps (workload_kept ctl i) (runtime_event_step j ty payload)"
  "keeps (workload_kept ctl i) (statement (settle_command_sql command verdict))"
  "keeps (workload_kept ctl i) (statement (\<lambda>d. ((), d\<lparr>rt_notified := f d\<rparr>)))"
  "keeps (workload_kept ctl i) (statement (\<lambda>d. ((), d)))"
  "keeps (workload_kept ctl i) (statement (insert_command now j kind g sr rr payload))"
  unfolding runtime_event_step_def
  by (rule keeps_kept_frame;
      simp add: append_runtime_event_def settle_command_sql_def insert_command_def)+

lemma keeps_kept_mark:
  "keeps (workload_kept ctl i) (mark_command_cancelled now command reason)"
  "keeps (workload_kept ctl i) (mark_command_completed now command)"
  unfolding mark_command_cancelled_def [abs_def] mark_command_completed_def [abs_def]
  by (intro keeps_and_then keeps_kept_steps keeps_require)+

lemma keeps_kept_create:
  "keeps (workload_kept ctl i) (create_termination_in_transaction now j reason)"
  unfolding create_termination_in_transaction_def [abs_def] request_stop_sql_def
  by (intro keeps_kept_steps keeps_kept_update step_rules) (auto simp: placed_def)

lemmas kept_rules = keeps_kept_steps keeps_kept_mark keeps_kept_create step_rules

section \<open>Transactions\<close>

lemma kept_transactions:
  "atomic (workload_kept ctl i) (mark_starting command j server)"
  "atomic (workload_kept ctl i) (select_and_mark_starting command j)"
  "atomic (workload_kept ctl i) (mark_stopping command j)"
  "atomic (workload_kept ctl i) (reject_start command j gate)"
  "atomic (workload_kept ctl i) (expire_unstarted_instance command j)"
  "atomic (workload_kept ctl i) (cancel_stale_command command j)"
  unfolding mark_starting_def select_and_mark_starting_def mark_starting_sql_def mark_stopping_def
    reject_start_def expire_unstarted_instance_def cancel_stale_command_def close_requested_def
  by (intro atomic_config kept_rules keeps_kept_update;
      simp add: starting_update_def stopped_update_def placed_def)+

lemma kept_finish_start: "preserves (workload_kept ctl i) (finish_start ctl' command j server res)"
  unfolding finish_start_def [abs_def] Let_def finish_start_tx_def lock_command_claim_def
  by (intro preserves_if preserves_return atomic_preserves atomic_config kept_rules keeps_kept_checked)
     (simp_all add: ready_update_def placed_def)

lemma kept_finish_extension: "preserves (workload_kept ctl i) (finish_extension ctl' command j res)"
  unfolding finish_extension_def [abs_def] Let_def finish_extension_tx_def
  by (rule preserves_diagonal)
     (intro preserves_if preserves_return atomic_preserves atomic_config kept_rules keeps_kept_checked;
       simp add: placed_def)

lemma kept_finish_termination:
  assumes "ins_id j = i \<Longrightarrow> removal_confirmed ctl i"
  shows "preserves (workload_kept ctl i) (finish_termination command j)"
  unfolding finish_termination_def [abs_def] Let_def finish_termination_tx_def
  by (rule preserves_diagonal)
     (intro preserves_if preserves_return atomic_preserves atomic_config kept_rules keeps_kept_update;
       use assms in \<open>auto simp: placed_def stopped_update_def\<close>)

lemma kept_inspected:
  assumes "res_absent res = Some True \<Longrightarrow> ins_id j = i \<Longrightarrow> removal_confirmed ctl i"
  shows "keeps (workload_kept ctl i) (inspected ctl' now e command j res)"
  unfolding inspected_def [abs_def] inspected_absent_def [abs_def] inspected_not_ready_def [abs_def]
    inspected_ready_def [abs_def] Let_def
  by (intro kept_rules keeps_kept_update; use assms in \<open>auto simp: placed_def\<close>)

lemma kept_finish_inspection:
  assumes "res_absent res = Some True \<Longrightarrow> ins_id j = i \<Longrightarrow> removal_confirmed ctl i"
  shows "preserves (workload_kept ctl i) (finish_inspection ctl' command j res)"
proof -
  have at: "keeps (workload_kept ctl i) (\<lambda>w. inspected ctl' now (b w) command j res w)" for now and b
    by (rule keeps_diagonal, rule kept_inspected, rule assms)
  show ?thesis
    unfolding finish_inspection_def
    by (intro atomic_preserves atomic_config keeps_with_claim keeps_and_then at kept_rules)
qed

lemma kept_on_pool: "preserves (workload_kept ctl i) (cancel_command command reason)"
  "preserves (workload_kept ctl i) (complete_command command)"
  unfolding cancel_command_def [abs_def] complete_command_def [abs_def]
  by (intro preserves_and_then preserves_on_pool_at preserves_return, erule kept_frame,
      simp add: settle_command_sql_def)+

lemma kept_surroundings:
  "preserves (workload_kept ctl i) (journal_intent_step ctl' intent)"
  "preserves (workload_kept ctl i) (journal_result_step ctl' intent res)"
  "preserves (workload_kept ctl i) (journal_acknowledge_step ctl' intent)"
  "preserves (workload_kept ctl i) (require_remote_generation res g phase)"
  "preserves (workload_kept ctl i) (require_remote_ready ctl' res phase)"
  "preserves (workload_kept ctl i) (require_remote_removal res g)"
  "preserves (workload_kept ctl i) (remote_step ctl' server operation payload)"
  "preserves (workload_kept ctl i) (pool_read f)"
  "preserves (workload_kept ctl i) (load_remote_server k)"
  unfolding journal_intent_step_def journal_result_step_def journal_acknowledge_step_def
    load_remote_server_def [abs_def]
  by (rule keeps_preserves, rule keeps_journal keeps_require_checks keeps_remote)+
     (intro preserves_and_then preserves_pool_read preserves_option preserves_return)+

section \<open>Handlers\<close>

text \<open>What a successful remote call and a successful check of its answer tell the rest.\<close>

lemma kept_remote_then:
  assumes "\<And>res s elapsed s'. remote_execute (ctl_executor ctl) server operation payload s =
      (Inr res, elapsed, s') \<Longrightarrow> preserves I (f res)"
  shows "preserves I (\<lambda>w. and_then (remote_step ctl server operation payload w) f)"
proof (rule preservesI)
  fix w :: "'a runtime_world"
  assume w: "safe I w"
  obtain r elapsed s' where e: "remote_execute (ctl_executor ctl) server operation payload (remote_side w) =
      (r, elapsed, s')" by (metis prod_cases3)
  let ?w = "w\<lparr>remote_side := s', clock := clock w + elapsed\<rparr>"
  have w1: "safe I ?w" using w by (simp add: safe_def turns_keep_def)
  show "safe I (snd (and_then (remote_step ctl server operation payload w) f))"
  proof (cases r)
    case (Inl m)
    with e w1 show ?thesis by (simp add: remote_step_def)
  next
    case (Inr res)
    with assms e have "preserves I (f res)" by simp
    from preservesD [OF this w1] e Inr show ?thesis by (simp add: remote_step_def)
  qed
qed

lemma kept_removal_then:
  assumes "res_absent res = Some True \<Longrightarrow> preserves I (f ())"
  shows "preserves I (\<lambda>w. and_then (require_remote_removal res g w) f)"
proof (rule preservesI)
  fix w :: "('a, 'b) world_scheme"
  assume w: "safe I w"
  show "safe I (snd (and_then (require_remote_removal res g w) f))"
    using w assms by (auto simp: require_remote_removal_def preserves_def)
qed

lemma kept_load_then:
  assumes "\<And>j. (ins_id j = i \<Longrightarrow> removal_confirmed ctl i \<or> ins_remote_server_id j \<noteq> None) \<Longrightarrow>
      preserves (workload_kept ctl i) (f j)"
  shows "preserves (workload_kept ctl i) (\<lambda>w. and_then (load_instance k w) f)"
proof (rule preservesI)
  fix w :: "'b runtime_world"
  assume w: "safe (workload_kept ctl i) w"
  let ?w = "interleave w"
  have iw: "safe (workload_kept ctl i) ?w" using w by (rule safe_interleave)
  obtain r w1 where s: "statement (\<lambda>d. (find_instance k d, d)) ?w = (r, w1)" by fastforce
  from statement_result [OF s] have w1: "db w1 = db ?w" "turns w1 = turns ?w"
    and r: "(\<exists>e. r = Inl e) \<or> r = Inr (find_instance k (db ?w))" by auto
  from iw w1 have sw1: "safe (workload_kept ctl i) w1" by (simp add: safe_def turns_keep_def)
  have j: "preserves (workload_kept ctl i) (f j)" if "find_instance k (db ?w) = Some j" for j
  proof (rule assms)
    assume "ins_id j = i"
    with that have "find_instance i (db ?w) = Some j" by (auto simp: find_instance_def find_Some_iff)
    with iw show "removal_confirmed ctl i \<or> ins_remote_server_id j \<noteq> None"
      by (auto simp: safe_def workload_kept_def running_workload_def placed_def)
  qed
  show "safe (workload_kept ctl i) (snd (and_then (load_instance k w) f))"
    using r sw1 preservesD [OF j sw1]
    by (auto simp: load_instance_def pool_read_def on_pool_def s split: option.splits)
qed

lemmas kept_handler_rules =
  kept_on_pool kept_surroundings kept_finish_start kept_finish_extension kept_transactions [THEN atomic_preserves]
  preserves_and_then preserves_if preserves_option preserves_return preserves_require

lemma and_then_assoc: "and_then (and_then p f) g = and_then p (\<lambda>x s. and_then (f x s) g)"
  by (auto simp: and_then_def split: prod.splits sum.splits)

lemma kept_start: "preserves (workload_kept ctl i) (execute_start ctl' command j)"
proof -
  have "preserves (workload_kept ctl i) (launch ctl' command j server)" for server
    unfolding launch_def [abs_def] cleanup_superseded_start_def [abs_def] Let_def
    by (intro kept_handler_rules)
  then show ?thesis
    unfolding execute_start_def [abs_def]
    by (rule_tac preserves_if, intro kept_handler_rules, rule_tac preserves_diagonal)
       (intro kept_handler_rules)+
qed

lemma kept_terminate_remote: "preserves (workload_kept ctl i) (terminate_remote ctl command j server)"
  unfolding terminate_remote_def [abs_def] Let_def
  by (rule kept_remote_then kept_removal_then kept_finish_termination kept_handler_rules
      | unfold removal_confirmed_def, blast)+

lemma kept_terminate:
  assumes "ins_id j = i \<Longrightarrow> removal_confirmed ctl i \<or> ins_remote_server_id j \<noteq> None"
  shows "preserves (workload_kept ctl i) (execute_terminate ctl command j)"
proof (cases "ins_remote_server_id j")
  case None
  with assms have "preserves (workload_kept ctl i) (finish_termination command j)"
    by (intro kept_finish_termination) auto
  with None show ?thesis
    unfolding execute_terminate_def [abs_def]
    by (auto intro!: kept_handler_rules kept_terminate_remote)
next
  case (Some server_id)
  have "preserves (workload_kept ctl i) (\<lambda>w. and_then (load_remote_server server_id w) (\<lambda>server w.
      and_then (mark_stopping command j w) (\<lambda>marked w.
      if \<not> marked then cancel_command command ''instance generation changed before remote workload cleanup'' w
      else terminate_remote ctl command j server w)))"
    by (intro kept_handler_rules kept_terminate_remote)
  with Some show ?thesis
    unfolding execute_terminate_def [abs_def]
    by (cases "ins_active j") (simp_all add: and_then_assoc kept_on_pool cong: if_cong)
qed

lemma kept_extend: "preserves (workload_kept ctl i) (execute_extend ctl' command j)"
  unfolding execute_extend_def [abs_def] Let_def
  by (rule preserves_diagonal) (intro kept_handler_rules)

lemma kept_inspect: "preserves (workload_kept ctl i) (execute_inspect ctl command j)"
  unfolding execute_inspect_def [abs_def] Let_def
  by (rule kept_remote_then kept_finish_inspection kept_handler_rules
      | unfold removal_confirmed_def, blast)+

lemma kept_execute: "preserves (workload_kept ctl i) (execute_command ctl command)"
proof -
  have kinds: "preserves (workload_kept ctl i) (\<lambda>w. case rc_kind command of
       Cmd_Start \<Rightarrow> execute_start ctl command j w
     | Cmd_Terminate \<Rightarrow> execute_terminate ctl command j w
     | Cmd_Extend \<Rightarrow> execute_extend ctl command j w
     | Cmd_Inspect \<Rightarrow> execute_inspect ctl command j w
     | Cmd_Reconcile \<Rightarrow> execute_inspect ctl command j w)"
    if "ins_id j = i \<Longrightarrow> removal_confirmed ctl i \<or> ins_remote_server_id j \<noteq> None" for j
    using kept_terminate [OF that]
    by (cases "rc_kind command") (simp_all add: kept_start kept_extend kept_inspect)
  show ?thesis
    unfolding execute_command_def [abs_def]
    by (rule kept_load_then, rule preserves_if, rule kept_transactions [THEN atomic_preserves],
        rule kinds, simp)
qed

text \<open>
  C3. No workload is forgotten: executing a command never turns an instance that was active, placed on
  a server and past its request into anything else, unless the helper answered a stop or an
  inspection of that instance with the confirmation that its workload is absent.
\<close>

theorem no_workload_is_forgotten:
  assumes "running_workload i (db w)"
    and "\<forall>g \<in> set (turns w). \<forall>d. running_workload i d \<longrightarrow> running_workload i (g d)"
    and "\<not> running_workload i (db (snd (execute_command ctl command w)))"
  shows "\<exists>operation server command' j reason res s elapsed s'.
    operation \<in> {Stop_Instance, Inspect_Instance} \<and> ins_id j = i \<and>
    remote_execute (ctl_executor ctl) server operation (remote_payload command' j operation reason) s
      = (Inr res, elapsed, s') \<and>
    res_absent res = Some True"
proof (rule ccontr)
  assume "\<not> ?thesis"
  then have c: "\<not> removal_confirmed ctl i" unfolding removal_confirmed_def by blast
  with assms(1,2) have "safe (workload_kept ctl i) w"
    by (simp add: safe_def turns_keep_def workload_kept_def)
  from preservesD [OF kept_execute this] have
    "workload_kept ctl i (db (snd (execute_command ctl command w)))" by (simp add: safe_def)
  with assms(3) c show False by (simp add: workload_kept_def)
qed

end
