(* ===== verification/RuntimeLiveness.thy ===== *)
theory RuntimeLiveness
  imports RuntimeConfirmation
begin

text \<open>
  What the runtime worker gets done (\<open>services/controller/src/worker.rs\<close>): a start that failed for
  good ends in a queued termination, the sweeps leave no overdue or unwanted instance without one,
  the loop wakes in time, and without a database only overdue instances are touched.
\<close>

section \<open>Queueing a termination\<close>

lemma quiet_config:
  assumes "turns w = []" "faults w = []" "faults (snd (body (clock w) w)) = []"
  shows "config_transaction body w =
     (case body (clock w) w of
        (Inl e, w') \<Rightarrow> (Inl e, w'\<lparr>db := db w\<rparr>)
      | (Inr (Rollback x), w') \<Rightarrow> (Inr x, w'\<lparr>db := db w\<rparr>)
      | (Inr (Commit x), w') \<Rightarrow> (Inr x, w'))"
  using assms unfolding config_transaction_def by (subst quiet_transaction) (simp_all add: quiet_simps)

text \<open>The termination that is queued: the instance moves to the next generation, and a pending
  command of that generation is appended.\<close>

lemma create_termination_quiet:
  assumes w: "turns w = []" "faults w = []"
    and row: "List.find (\<lambda>r. ins_id r = i \<and> ins_active r) (rt_instances (db w)) = Some r"
    and closed: "\<not> termination_open (db w) i"
  shows "create_termination_in_transaction now i reason w =
    (Inr (Some (rt_next_id (db w), ins_owner_user_id r)),
     w\<lparr>db := (db w)\<lparr>
        rt_instances := update_where (\<lambda>r. ins_id r = i)
          (\<lambda>q. q\<lparr>ins_desired_state := Want_Stopped, ins_generation := ins_generation r + 1\<rparr>)
          (rt_instances (db w)),
        rt_commands := rt_commands (db w) @ [new_command now (rt_next_id (db w)) i Cmd_Terminate
          (ins_generation r + 1) (ins_private_revision r) (ins_runtime_revision r)
          (JObj [(''reason'', JStr reason), (''deadline'', JTime (ins_expires_at r))])],
        rt_events := rt_events (db w) @ [\<lparr>rev_instance_id = i,
          rev_event_type = ''instance.termination_requested'', rev_source = ''controller'',
          rev_actor_user_id = None, rev_payload = JObj [(''reason'', JStr reason),
            (''command_id'', json_uuid (rt_next_id (db w)))]\<rparr>],
        rt_notified := rt_notified (db w) @ [(command_channel, uuid_text (rt_next_id (db w)))],
        rt_next_id := rt_next_id (db w) + 1\<rparr>\<rparr>)"
proof -
  have i: "ins_id r = i" using row by (auto simp: find_Some_iff)
  have "\<not> (\<exists>c \<in> set (rt_commands (db w)). open_command i Cmd_Terminate c \<and>
      cmd_generation c = ins_generation r + 1)"
    using closed by (auto simp: termination_open_def)
  then show ?thesis
    using w row closed i
    by (simp add: create_termination_in_transaction_def read_sql_def runtime_event_step_def
        append_runtime_event_def quiet_simps request_stop_sql_def update_instances_def insert_command_def
        termination_open_def)
qed

lemma find_active:
  assumes "distinct (map ins_id rs)" "r \<in> set rs" "P r"
  shows "List.find (\<lambda>q. ins_id q = ins_id r \<and> P q) rs = Some r"
  using assms by (induction rs) auto

text \<open>
  A start that failed for good is cleaned up: when the last permitted attempt of a start fails,
  one transaction marks the command failed, stores the error, and moves the instance to the next
  generation, wanted stopped and pending cleanup, with a termination of that generation queued and
  due at once.
\<close>

theorem terminal_start_failure_queues_cleanup:
  assumes "turns w = []" "faults w = []" and ok: "runtime_db_ok (db w)"
    and held: "command_held command (db w)" and kind: "rc_kind command = Cmd_Start"
    and last: "n \<le> rc_attempts command"
    and r: "r \<in> set (rt_instances (db w))" "ins_id r = rc_instance_id command"
      "ins_generation r = rc_generation command" "ins_active r"
    and closed: "\<not> termination_open (db w) (ins_id r)"
  shows "\<exists>w'. schedule_command_retry command n e w = (Inr (), w') \<and>
    (\<exists>q \<in> set (rt_commands (db w')). cmd_id q = rc_id command \<and> cmd_status q = Failed \<and>
       cmd_last_error q = Some (truncate_text e 1000)) \<and>
    (\<exists>b \<in> set (rt_instances (db w')). ins_id b = ins_id r \<and> ins_active b \<and>
       ins_desired_state b = Want_Stopped \<and> ins_observed_state b = Obs_Cleanup_Pending \<and>
       ins_generation b = ins_generation r + 1) \<and>
    (\<exists>t \<in> set (rt_commands (db w')). open_command (ins_id r) Cmd_Terminate t \<and>
       cmd_generation t = ins_generation r + 1 \<and> cmd_available_at t = clock w)"
proof -
  let ?m = "truncate_text e 1000"
  let ?P = "\<lambda>q. ins_id q = rc_instance_id command \<and> ins_generation q = rc_generation command \<and> ins_active q"
  let ?f = "\<lambda>q. q\<lparr>ins_observed_state := Obs_Cleanup_Pending, ins_failure_code := Some ''command_failed'',
      ins_failure_message := Some ?m, ins_last_observed_at := Some (clock w)\<rparr>"
  let ?cs = "update_where (command_claim command) (settle_command (Cmd_Fail (clock w) ?m)) (rt_commands (db w))"
  let ?is = "update_where ?P ?f (rt_instances (db w))"
  let ?es = "rt_events (db w) @ [\<lparr>rev_instance_id = rc_instance_id command,
      rev_event_type = ''instance.failed'', rev_source = ''controller'', rev_actor_user_id = None,
      rev_payload = JObj [(''command_id'', json_uuid (rc_id command)), (''kind'', JStr ''start''),
        (''error'', JStr ?m)]\<rparr>]"
  let ?w = "w\<lparr>db := (db w)\<lparr>rt_commands := ?cs, rt_instances := ?is, rt_events := ?es\<rparr>\<rparr>"
  have n: "rows_affected (command_claim command) (rt_commands (db w)) \<noteq> 0"
    "rows_affected ?P (rt_instances (db w)) > 0"
    using held r by (auto simp: command_held_def rows_affected_0 rows_affected_pos)
  have "distinct (map ins_id (rt_instances (db w)))" using ok by (simp add: runtime_db_ok_def)
  moreover have "map ins_id ?is = map ins_id (rt_instances (db w))" by (rule map_update_where) simp
  moreover have b: "?f r \<in> set ?is" using r by (auto simp: set_update_where)
  ultimately have row: "List.find (\<lambda>q. ins_id q = rc_instance_id command \<and> ins_active q)
      (rt_instances (db ?w)) = Some (?f r)"
    using find_active [of ?is "?f r" ins_active] r by simp
  have "\<not> termination_open (db ?w) (rc_instance_id command)"
    using closed r(2)
    by (auto simp: termination_open_def open_command_def update_where_def split: if_splits)
  from create_termination_quiet [where w = ?w, OF _ _ row this, of "clock w" "''start_command_failed''"]
  obtain v where v: "create_termination_in_transaction (clock w) (rc_instance_id command)
      ''start_command_failed'' ?w = (Inr (Some (rt_next_id (db w), ins_owner_user_id r)), v)"
    and d: "rt_instances (db v) = update_where (\<lambda>q. ins_id q = rc_instance_id command)
        (\<lambda>q. q\<lparr>ins_desired_state := Want_Stopped, ins_generation := ins_generation r + 1\<rparr>) ?is"
      "rt_commands (db v) = ?cs @ [new_command (clock w) (rt_next_id (db w)) (rc_instance_id command)
        Cmd_Terminate (ins_generation r + 1) (ins_private_revision r) (ins_runtime_revision r)
        (JObj [(''reason'', JStr ''start_command_failed''), (''deadline'', JTime (ins_expires_at r))])]"
      "turns v = []" "faults v = []"
    using assms(1,2) by simp
  have run: "schedule_command_retry command n e w = (Inr (), v)"
    using assms(1,2) last n kind v d(4)
    by (simp add: schedule_command_retry_def fail_command_def quiet_config quiet_simps
        settle_command_sql_def update_instances_def runtime_event_step_def append_runtime_event_def
        commit_with_def command_kind_text_def failed_state_def)
  from held obtain q where q: "q \<in> set (rt_commands (db w))" "command_claim command q"
    by (auto simp: command_held_def)
  have e1: "settle_command (Cmd_Fail (clock w) ?m) q \<in> set (rt_commands (db v))"
    using q by (auto simp: d set_update_where)
  have e2: "(?f r)\<lparr>ins_desired_state := Want_Stopped, ins_generation := ins_generation r + 1\<rparr>
      \<in> set (rt_instances (db v))"
    using b r(2) unfolding d(1) set_update_where [where rs = ?is] by force
  have e3: "new_command (clock w) (rt_next_id (db w)) (rc_instance_id command)
        Cmd_Terminate (ins_generation r + 1) (ins_private_revision r) (ins_runtime_revision r)
        (JObj [(''reason'', JStr ''start_command_failed''), (''deadline'', JTime (ins_expires_at r))])
      \<in> set (rt_commands (db v))"
    by (simp add: d)
  show ?thesis
  proof (intro exI [of _ v] conjI)
    show "schedule_command_retry command n e w = (Inr (), v)" by (rule run)
  qed (rule bexI [OF _ e1] bexI [OF _ e2] bexI [OF _ e3];
       use q(2) r(2,4) in \<open>simp add: open_command_def new_command_def\<close>)+
qed

section \<open>Sweeps\<close>

text \<open>While our transactions run, an open termination stays open, and inactive stays inactive.\<close>

definition cleanup_underway :: "uuid \<Rightarrow> runtime_db \<Rightarrow> bool" where
  "cleanup_underway i d \<longleftrightarrow> termination_open d i \<or> (\<forall>r \<in> set (rt_instances d). ins_id r = i \<longrightarrow> \<not> ins_active r)"

lemma underway_update:
  assumes "cleanup_underway i d" "\<And>r. ins_id (f r) = ins_id r" "\<And>r. ins_active (f r) = ins_active r"
  shows "cleanup_underway i (d\<lparr>rt_instances := update_where P f (rt_instances d)\<rparr>)"
  using assms by (auto simp: cleanup_underway_def termination_open_def set_update_where)

lemma keeps_underway_create: "keeps (cleanup_underway i) (create_termination_in_transaction now j reason)"
  unfolding create_termination_in_transaction_def [abs_def] request_stop_sql_def runtime_event_step_def
  by (intro step_rules keeps_statement)
     (auto simp: update_instances_conv append_runtime_event_def insert_command_def cleanup_underway_def
        termination_open_def set_update_where)

lemma preserves_underway_create: "preserves (cleanup_underway i) (create_termination_command j reason)"
  unfolding create_termination_command_def
  by (intro atomic_preserves atomic_config step_rules keeps_underway_create)

lemma create_termination_underway:
  assumes "create_termination_in_transaction now i reason w = (Inr x, w')"
  shows "cleanup_underway i (db w')"
  using assms
  by (auto simp: create_termination_in_transaction_def read_sql_def runtime_event_step_def
      append_runtime_event_def cleanup_underway_def termination_open_def find_None_iff find_Some_iff
      insert_command_def open_command_def new_command_def request_stop_sql_def update_instances_def
      elim!: and_then_Inr_cases statement_returned split: option.splits if_splits)

lemma config_returned:
  assumes "config_transaction body w = (Inr x, w')"
  obtains v r w2 fs where "db v = db (interleave w)" "body (clock (interleave w)) v = (Inr r, w2)"
    "(r = Commit x \<and> w' = w2\<lparr>faults := fs\<rparr>) \<or>
     (r = Rollback x \<and> w' = w2\<lparr>faults := fs, db := db (interleave w)\<rparr>)"
proof -
  from assms obtain fs r w2 fs' where
    run: "and_then (statement (\<lambda>d. ((), d)) (interleave w\<lparr>faults := fs\<rparr>))
        (\<lambda>_. body (clock (interleave w))) = (Inr r, w2)"
    and out: "(r = Commit x \<and> w' = w2\<lparr>faults := fs'\<rparr>) \<or>
         (r = Rollback x \<and> w' = w2\<lparr>faults := fs', db := db (interleave w)\<rparr>)"
    unfolding config_transaction_def by (rule transaction_returned)
  from run obtain u v where s: "statement (\<lambda>d. ((), d)) (interleave w\<lparr>faults := fs\<rparr>) = (Inr u, v)"
    and b: "body (clock (interleave w)) v = (Inr r, w2)" by (rule and_then_Inr_cases)
  from s have "db v = db (interleave w)" by (elim statement_returned) simp
  with b out show ?thesis by (intro that)
qed

lemma create_command_underway:
  assumes "create_termination_command i reason w = (Inr x, w')"
  shows "cleanup_underway i (db w')"
  using assms unfolding create_termination_command_def
proof (rule config_returned)
  fix v r w2 fs
  assume body: "and_then (create_termination_in_transaction (clock (interleave w)) i reason v)
      (\<lambda>_. commit_with ()) = (Inr r, w2)"
    and out: "(r = Commit x \<and> w' = w2\<lparr>faults := fs\<rparr>) \<or>
     (r = Rollback x \<and> w' = w2\<lparr>faults := fs, db := db (interleave w)\<rparr>)"
  from body obtain y where "create_termination_in_transaction (clock (interleave w)) i reason v = (Inr y, w2)"
    "r = Commit ()"
    by (auto simp: commit_with_def elim: and_then_Inr_cases)
  with create_termination_underway out show ?thesis by fastforce
qed

lemma create_terminations_turns:
  assumes "turns w = []"
  shows "turns (snd (create_termination_command i reason w)) = []"
proof -
  have "keeps (\<lambda>_. True) (create_termination_in_transaction now i reason)" for now
    unfolding create_termination_in_transaction_def [abs_def] runtime_event_step_def
    by (intro step_rules keeps_statement) simp_all
  then have "atomic (\<lambda>_. True) (create_termination_command i reason)"
    unfolding create_termination_command_def by (intro atomic_config step_rules)
  from atomicD [OF this, of w] assms show ?thesis by (simp add: interleave_def)
qed

lemma create_terminations_underway:
  assumes "create_terminations xs w = (Inr x, w')" and "turns w = []"
    and "i \<in> fst ` set xs \<or> cleanup_underway i (db w)"
  shows "cleanup_underway i (db w')"
  using assms
proof (induction xs arbitrary: w)
  case Nil
  then show ?case by simp
next
  case (Cons y ys)
  obtain j reason where y: "y = (j, reason)" by fastforce
  from Cons.prems(1) obtain u w1 where
    c: "create_termination_command j reason w = (Inr u, w1)" and rest: "create_terminations ys w1 = (Inr x, w')"
    unfolding y by (auto elim: and_then_Inr_cases)
  have turns: "turns w1 = []" using create_terminations_turns [OF Cons.prems(2)] c by (metis snd_conv)
  have "cleanup_underway i (db w1)" if "cleanup_underway i (db w)"
    using preservesD [OF preserves_underway_create, of i w j reason] that Cons.prems(2) c
    by (simp add: safe_def turns_keep_def)
  with Cons.prems(3) create_command_underway [OF c] y have "i \<in> fst ` set ys \<or> cleanup_underway i (db w1)"
    by auto
  with Cons.IH rest turns show ?case by blast
qed

lemma pool_read_returned:
  assumes "pool_read f w = (Inr x, w')" and "turns w = []"
  shows "x = f (db w) \<and> db w' = db w \<and> turns w' = []"
  using assms by (auto simp: pool_read_def on_pool_def interleave_def elim: statement_returned)

text \<open>
  The deadline sweep is complete: when it returns, every instance that was active past its
  deadline is being cleaned up (a termination of it is open, or it is not active any more), unless a
  termination of it failed within the retry interval.
\<close>

theorem deadline_sweep_complete:
  assumes "enqueue_overdue_terminations retry w = (Inr x, w')" and "turns w = []"
    and "r \<in> set (rt_instances (db w))" "ins_active r" "ins_expires_at r \<le> clock w"
    and "\<not> termination_recently_failed (clock w) (duration_seconds retry) (db w) (ins_id r)"
  shows "termination_open (db w') (ins_id r) \<or>
    (\<forall>q \<in> set (rt_instances (db w')). ins_id q = ins_id r \<longrightarrow> \<not> ins_active q)"
proof -
  from assms(1) obtain ids w1 where
    p: "pool_read (overdue_candidates (clock w) (duration_seconds retry)) w = (Inr ids, w1)"
    and c: "create_terminations (map (\<lambda>i. (i, ''absolute_deadline_reached'')) ids) w1 = (Inr x, w')"
    unfolding enqueue_overdue_terminations_def by (rule and_then_Inr_cases)
  from pool_read_returned [OF p assms(2)] have ids: "ids = overdue_candidates (clock w) (duration_seconds retry) (db w)"
    and w1: "db w1 = db w" "turns w1 = []" by auto
  have "ins_id r \<in> set ids \<or> cleanup_underway (ins_id r) (db w1)"
    using assms(3-6) by (auto simp: ids w1 overdue_candidates_def cleanup_underway_def)
  then have "cleanup_underway (ins_id r) (db w')"
    by (intro create_terminations_underway [OF c w1(2)]) (auto simp: image_comp)
  then show ?thesis by (simp add: cleanup_underway_def)
qed

text \<open>
  The policy sweep is complete: when it returns, every active instance that is to be stopped, or
  whose challenge or whose whole feature is switched off, is being cleaned up, unless a termination
  of it failed within the retry interval.
\<close>

theorem policy_sweep_complete:
  assumes "enqueue_policy_terminations retry w = (Inr x, w')" and "turns w = []"
    and "r \<in> set (rt_instances (db w))" "ins_active r"
    and "ins_desired_state r = Want_Stopped \<or> \<not> setting_enabled (db w) \<or>
      \<not> runtime_managed (ins_challenge_id r) (db w)"
    and "\<not> termination_recently_failed (clock w) (duration_seconds retry) (db w) (ins_id r)"
  shows "termination_open (db w') (ins_id r) \<or>
    (\<forall>q \<in> set (rt_instances (db w')). ins_id q = ins_id r \<longrightarrow> \<not> ins_active q)"
proof -
  from assms(1) obtain cs w1 where
    p: "pool_read (policy_candidates (clock w) (duration_seconds retry)) w = (Inr cs, w1)"
    and c: "create_terminations (map (\<lambda>(i, desired). (i, if desired = Want_Stopped
        then ''cleanup_safety_retry'' else ''runtime_policy_disabled'')) cs) w1 = (Inr x, w')"
    unfolding enqueue_policy_terminations_def by (rule and_then_Inr_cases)
  from pool_read_returned [OF p assms(2)] have cs: "cs = policy_candidates (clock w) (duration_seconds retry) (db w)"
    and w1: "db w1 = db w" "turns w1 = []" by auto
  have "ins_id r \<in> fst ` set cs \<or> cleanup_underway (ins_id r) (db w1)"
    using assms(3-6) by (auto simp: cs w1 policy_candidates_def cleanup_underway_def image_image)
  then have "cleanup_underway (ins_id r) (db w')"
    by (intro create_terminations_underway [OF c w1(2)])
       (auto simp: image_image case_prod_unfold)
  then show ?thesis by (simp add: cleanup_underway_def)
qed

section \<open>Waking up\<close>

text \<open>
  The worker wakes in time: the wait before the next round is never longer than the reconciliation
  interval, and it ends no later than when a pending command becomes available, an active instance
  reaches its deadline, a claim goes stale or a failed termination may be repeated (or ten
  milliseconds from now, when that is already past).
\<close>

theorem runtime_wake_in_time:
  assumes "turns w = []" "faults w = []"
  shows "\<exists>delay. next_command_wake_delay maximum stale w = (Inr delay, w) \<and> delay \<le> maximum \<and>
    (\<forall>t. (\<exists>c \<in> set (rt_commands (db w)). cmd_status c = Pending \<and> t = cmd_available_at c) \<or>
         (\<exists>i \<in> set (rt_instances (db w)). ins_active i \<and> ins_expires_at i > clock w \<and> t = ins_expires_at i) \<or>
         t \<in> set (safety_retry_times (clock w) (duration_seconds maximum) (db w)) \<or>
         t \<in> set (stale_claim_times (clock w) (duration_seconds stale) (db w)) \<longrightarrow>
       clock w + delay \<le> max t (clock w + millis 10))"
proof -
  let ?d = "db w"
  let ?a = "map cmd_available_at (filter (\<lambda>c. cmd_status c = Pending) (rt_commands ?d))"
  let ?b = "filter (\<lambda>t. t > clock w) (map ins_expires_at (filter ins_active (rt_instances ?d)))"
  let ?c = "safety_retry_times (clock w) (duration_seconds maximum) ?d"
  let ?e = "stale_claim_times (clock w) (duration_seconds stale) ?d"
  let ?sources = "[min_list_opt ?a, min_list_opt ?b, min_list_opt ?c, min_list_opt ?e]"
  let ?delay = "wake_delay (clock w) (min_list_opt (opt_list ?sources)) maximum"
  have run: "next_command_wake_delay maximum stale w = (Inr ?delay, w)"
    using assms by (simp add: next_command_wake_delay_def pool_read_def quiet_simps)
  have early: "clock w + ?delay \<le> max t (clock w + millis 10)"
    if "t \<in> set ?a \<or> t \<in> set ?b \<or> t \<in> set ?c \<or> t \<in> set ?e" for t
    using that wake_delay_in_time [of ?a ?sources t "clock w" maximum]
      wake_delay_in_time [of ?b ?sources t "clock w" maximum]
      wake_delay_in_time [of ?c ?sources t "clock w" maximum]
      wake_delay_in_time [of ?e ?sources t "clock w" maximum]
    by (auto simp del: max.bounded_iff)
  show ?thesis
    by (intro exI [of _ ?delay] conjI allI impI early run wake_delay_le) auto
qed

end
