(* ===== verification/RuntimeExamples.thy ===== *)
theory RuntimeExamples
  imports RuntimeLiveness
begin

text \<open>
  A concrete controller, with one instance, one server and one claimed command, on which the
  theorems about \<open>services/controller/src/worker.rs\<close> are applied.
\<close>

section \<open>A controller and its tables\<close>

definition sample_instance :: runtime_instance where
  "sample_instance = \<lparr>ins_id = 2, ins_owner_user_id = 4,
     ins_created_by_user_id = 4, ins_team_id = None, ins_challenge_id = 6, ins_private_revision = 1,
     ins_runtime_revision = 1, ins_deployment_snapshot = JObj [(''flag_value'', JStr ''flag'')],
     ins_active = True, ins_desired_state = Want_Running, ins_observed_state = Obs_Ready,
     ins_desired_expires_at = secs 200, ins_maximum_expires_at = secs 300,
     ins_observed_expires_at = None, ins_expires_at = secs 200, ins_remote_server_id = Some 5,
     ins_remote_container_id = None, ins_remote_ip = None, ins_container_port = None,
     ins_published_ip = None, ins_published_port = None, ins_protocol = None,
     ins_public_hostname = None, ins_endpoint_url = None, ins_generation = 3,
     ins_observed_generation = 0, ins_extension_count = 0, ins_created_at = 0, ins_activated_at = None, ins_ready_at = None,
     ins_last_observed_at = None, ins_stopped_at = None, ins_failure_code = None,
     ins_failure_message = None\<rparr>"

definition sample_config :: runtime_config where
  "sample_config = \<lparr>rcf_challenge_id = 6, rcf_mode = ''managed'', rcf_enabled = True,
     rcf_image_digest = None, rcf_protocol = ''tcp'', rcf_container_port = Some 80, rcf_default_ttl = 1800,
     rcf_maximum_ttl = 3600, rcf_allow_extension = True, rcf_maximum_extensions = 2, rcf_cpu_limit = None,
     rcf_memory_limit = None, rcf_pid_limit = None, rcf_storage_limit = None, rcf_healthcheck = JObj [],
     rcf_remote_pool = None, rcf_revision = 1\<rparr>"

definition sample_command_row :: "command_kind \<Rightarrow> command_row" where
  "sample_command_row kind = (new_command 0 7 2 kind 3 1 1 (JObj []))
     \<lparr>cmd_status := Claimed, cmd_claimed_at := Some 0, cmd_claim_token := Some 9, cmd_attempts := 8\<rparr>"

definition sample_command :: "command_kind \<Rightarrow> command" where
  "sample_command kind = \<lparr>rc_id = 7, rc_claim_token = 9, rc_instance_id = 2, rc_kind = kind,
     rc_generation = 3, rc_setting_revision = 1, rc_runtime_revision = 1, rc_payload = JObj [],
     rc_attempts = 8\<rparr>"

definition sample_runtime_db :: "runtime_instance \<Rightarrow> command_row list \<Rightarrow> runtime_db" where
  "sample_runtime_db i cs = \<lparr>rt_setting = Some (True, 1),
     rt_configs = [sample_config],
     rt_servers = [\<lparr>sr_server = sample_server, sr_enabled = True\<rparr>],
     rt_instances = [i], rt_commands = cs, rt_events = [], rt_notified = [], rt_next_id = 10\<rparr>"

definition sample_runtime_world :: "runtime_db \<Rightarrow> nat runtime_world" where
  "sample_runtime_world d = \<lparr>db = d, turns = [], faults = [], clock = secs 100,
     jdisk = \<lparr>dsk_content = [], dsk_io = []\<rparr>, remote_side = 0,
     controller_status = new_status 0, lease = [], locked_rows = {}\<rparr>"

definition sample_controller :: "nat controller" where
  "sample_controller = \<lparr>ctl_executor = sample_executor,
     ctl_codec = \<lparr>jc_encode = (\<lambda>_. ''{}''), jc_decode = (\<lambda>_. None)\<rparr>,
     ctl_hash_order = (\<lambda>m. m), ctl_valid_inet = (\<lambda>_. True), ctl_debug_text = (\<lambda>_. ''None''),
     ctl_max_command_attempts = 8, ctl_reconciliation_interval = secs 30,
     ctl_stale_claim_after = secs 120\<rparr>"

lemmas sample_rows = sample_instance_def sample_command_row_def new_command_def sample_command_def
  sample_runtime_db_def sample_server_def

lemma sample_world_fields [simp]:
  "db (sample_runtime_world d) = d" "turns (sample_runtime_world d) = []"
  "faults (sample_runtime_world d) = []" "clock (sample_runtime_world d) = secs 100"
  "interleave (sample_runtime_world d) = sample_runtime_world d"
  "remote_side (sample_runtime_world d) = 0" "locked_rows (sample_runtime_world d) = {}"
  "jdisk (sample_runtime_world d) = \<lparr>dsk_content = [], dsk_io = []\<rparr>"
  by (simp_all add: sample_runtime_world_def interleave_def)

lemma sample_world_same [simp]: "(sample_runtime_world d)\<lparr>db := d\<rparr> = sample_runtime_world d"
  by (simp add: sample_runtime_world_def)

abbreviation claimed_world :: "command_kind \<Rightarrow> nat runtime_world" where
  "claimed_world kind \<equiv> sample_runtime_world (sample_runtime_db sample_instance [sample_command_row kind])"

lemma sample_runtime_ok: "runtime_db_ok (sample_runtime_db sample_instance [sample_command_row kind])"
  by (simp add: sample_rows runtime_ok_defs tokens_unique_def command_consistent_def
      generation_known_def one_open_def)

lemma sample_idle_ok: "runtime_db_ok (sample_runtime_db sample_instance [])"
  by (simp add: sample_rows runtime_ok_defs tokens_unique_def one_open_def)

section \<open>A termination, step by step\<close>

definition journal_after :: "(time \<Rightarrow> journal_record) \<Rightarrow> nat runtime_world \<Rightarrow> string" where
  "journal_after entry w =
     dsk_content (snd (journal_append (ctl_codec sample_controller) (entry (clock w)) (jdisk w)))"

lemma sample_journal_write:
  assumes "dsk_io (jdisk w) = []"
  shows "journal_write sample_controller entry w =
    (Inr (), w\<lparr>jdisk := \<lparr>dsk_content = journal_after entry w, dsk_io = []\<rparr>\<rparr>)"
proof -
  obtain c where d: "jdisk w = \<lparr>dsk_content = c, dsk_io = []\<rparr>"
    using assms by (metis disk.surjective old.unit.exhaust disk.select_convs(2))
  show ?thesis
    by (simp add: journal_write_def journal_step_def journal_after_def d journal_append_def
        append_locked_def compact_locked_def next_io_def Let_def current_unacknowledged_def)
qed

lemma srv_id: "srv_id sample_server = 5" by (simp add: sample_server_def)

lemma payload_without_flag:
  assumes "operation \<noteq> Ensure_Instance"
  shows "validate_flag_value operation (remote_payload command i operation reason) = Inr ()"
proof -
  have "json_get ''flag_value'' (json_remove ''flag_value'' v) = None" for v
    by (cases v) (auto simp: json_remove_def map_of_eq_None_iff)
  with assms show ?thesis
    by (cases operation) (simp_all add: remote_payload_def Let_def validate_flag_value_def)
qed

lemma sample_remote:
  "remote_step sample_controller sample_server Stop_Instance (remote_payload command i Stop_Instance reason) w =
    (Inr (default_result\<lparr>res_absent := Some True\<rparr>),
     w\<lparr>remote_side := remote_side w + 1, clock := clock w + secs 1\<rparr>)"
  by (simp add: remote_step_def remote_execute_def payload_without_flag ssh_def sample_executor_def
        sample_server_def validate_remote_server_def validate_startup_timeout_def
        safe_host_component_def safe_user_def safe_component_def ascii_alphanumeric_def or_else_def
        ssh_result_def sample_controller_def)

lemma sample_termination:
  "\<exists>v. execute_command sample_controller (sample_command Cmd_Terminate) (claimed_world Cmd_Terminate) = (Inr (), v) \<and>
     remote_side v = 1 \<and> \<not> running_workload 2 (db v)"
  by (simp add: srv_id execute_command_def load_instance_def pool_read_def quiet_simps find_instance_def
     execute_terminate_def load_remote_server_def find_server_def terminate_remote_def Let_def
     journal_intent_step_def journal_result_step_def journal_acknowledge_step_def sample_journal_write
     sample_remote
     mark_stopping_def finish_termination_def finish_termination_tx_def quiet_config with_claim_def lock_command_claim_def read_sql_def
     command_held_def update_instances_def runtime_event_step_def append_runtime_event_def
     mark_command_completed_def settle_command_sql_def commit_with_def rollback_with_def rows_affected_def
     require_remote_removal_def default_result_def stopped_update_def running_workload_def placed_def
     sample_runtime_db_def  sample_command_row_def new_command_def sample_command_def sample_instance_def)

section \<open>Witnesses\<close>

lemma sample_running: "running_workload 2 (sample_runtime_db sample_instance cs)"
  by (simp add: running_workload_def find_instance_def placed_def sample_runtime_db_def sample_instance_def)

theorem no_workload_is_forgotten_witness:
  "\<exists>operation server command' j reason res s elapsed s'.
    operation \<in> {Stop_Instance, Inspect_Instance} \<and> ins_id j = 2 \<and>
    remote_execute sample_executor server operation (remote_payload command' j operation reason) s
      = (Inr res, elapsed, s') \<and>
    res_absent res = Some True"
proof -
  let ?w = "claimed_world Cmd_Terminate"
  have a: "running_workload 2 (db ?w)" by (simp add: sample_running)
  have b: "\<forall>g \<in> set (turns ?w). \<forall>d. running_workload 2 d \<longrightarrow> running_workload 2 (g d)" by simp
  have c: "\<not> running_workload 2 (db (snd (execute_command sample_controller
      (sample_command Cmd_Terminate) ?w)))"
    using sample_termination by auto
  have "ctl_executor sample_controller = sample_executor" by (simp add: sample_controller_def)
  with no_workload_is_forgotten [OF a b c] show ?thesis by simp
qed

theorem runtime_session_keeps_tables_ok_witness:
  "runtime_db_ok (db (snd (connected_session (\<lambda>_. True) sample_controller
     \<lparr>plan_leadership = Some (Inr ()), plan_listener = Inr (), plan_startup_flags = [False, True],
       plan_rounds = [(False, [], Shutdown_Requested)]\<rparr> (claimed_world Cmd_Terminate))))"
  by (rule runtime_session_keeps_tables_ok) (simp_all add: sample_runtime_ok)

theorem instances_never_revive_witness:
  "\<exists>b \<in> set (rt_instances (db (snd (connected_session (\<lambda>_. True) sample_controller
     \<lparr>plan_leadership = Some (Inr ()), plan_listener = Inr (), plan_startup_flags = [False, True],
       plan_rounds = [(False, [], Shutdown_Requested)]\<rparr> (claimed_world Cmd_Terminate))))).
     ins_id b = 2 \<and> 3 \<le> ins_generation b"
proof -
  let ?w = "claimed_world Cmd_Terminate"
  have "sample_instance \<in> set (rt_instances (db ?w))" by (simp add: sample_runtime_db_def)
  moreover have "\<forall>g \<in> set (turns ?w). \<forall>d. instances_advance (rt_instances (db ?w)) d \<longrightarrow>
      instances_advance (rt_instances (db ?w)) (g d)" by simp
  moreover have "runtime_db_ok (db ?w)" by (simp add: sample_runtime_ok)
  moreover have "ins_id sample_instance = 2" "ins_generation sample_instance = 3"
    by (simp_all add: sample_instance_def)
  ultimately show ?thesis using instances_never_revive [of ?w sample_instance] by metis
qed

theorem runtime_lost_claim_changes_nothing_witness:
  "db (snd (finish_termination (sample_command Cmd_Terminate\<lparr>rc_claim_token := 8\<rparr>) sample_instance
     (claimed_world Cmd_Terminate))) = sample_runtime_db sample_instance [sample_command_row Cmd_Terminate]"
proof -
  let ?c = "sample_command Cmd_Terminate\<lparr>rc_claim_token := 8\<rparr>"
  have "\<not> command_held ?c (db (interleave (claimed_world Cmd_Terminate)))"
    by (simp add: command_held_def sample_rows)
  from runtime_lost_claim_changes_nothing [OF this] show ?thesis by simp
qed

theorem placement_respects_capacity_witness:
  "int (active_count (sample_runtime_db (sample_instance\<lparr>ins_remote_server_id := None\<rparr>)
     [sample_command_row Cmd_Start]) 5) < srv_capacity sample_server"
proof -
  let ?i = "sample_instance\<lparr>ins_remote_server_id := None\<rparr>"
  let ?w = "sample_runtime_world (sample_runtime_db ?i [sample_command_row Cmd_Start])"
  have ok: "runtime_db_ok (db (interleave ?w))"
    by (simp add: sample_rows runtime_ok_defs tokens_unique_def command_consistent_def
        generation_known_def one_open_def)
  have "\<exists>v. select_and_mark_starting (sample_command Cmd_Start) ?i ?w = (Inr (Some sample_server), v)"
    by (simp add: select_and_mark_starting_def quiet_config with_claim_def lock_command_claim_def
        read_sql_def quiet_simps command_held_def select_server_def Let_def first_by_def has_capacity_def
        active_count_def mark_starting_sql_def update_instances_def rows_affected_def
        runtime_event_step_def append_runtime_event_def commit_with_def sample_rows)
  then obtain v where "select_and_mark_starting (sample_command Cmd_Start) ?i ?w = (Inr (Some sample_server), v)"
    by blast
  from placement_respects_capacity [OF ok this] show ?thesis by (simp add: srv_id)
qed

theorem flag_only_at_startup_witness:
  "validate_flag_value Stop_Instance
     (remote_payload (sample_command Cmd_Terminate) sample_instance Stop_Instance ''terminate'') = Inr ()"
  using flag_only_at_startup [of Stop_Instance] by simp

theorem terminal_start_failure_queues_cleanup_witness:
  "\<exists>w'. schedule_command_retry (sample_command Cmd_Start) 8 ''e'' (claimed_world Cmd_Start) = (Inr (), w') \<and>
     (\<exists>t \<in> set (rt_commands (db w')). open_command 2 Cmd_Terminate t \<and> cmd_generation t = 4)"
proof -
  let ?w = "claimed_world Cmd_Start"
  have w: "turns ?w = []" "faults ?w = []" "runtime_db_ok (db ?w)"
    by (simp_all add: sample_runtime_ok)
  have h: "command_held (sample_command Cmd_Start) (db ?w)" "rc_kind (sample_command Cmd_Start) = Cmd_Start"
    "8 \<le> rc_attempts (sample_command Cmd_Start)" "sample_instance \<in> set (rt_instances (db ?w))"
    "ins_id sample_instance = rc_instance_id (sample_command Cmd_Start)"
    "ins_generation sample_instance = rc_generation (sample_command Cmd_Start)" "ins_active sample_instance"
    "\<not> termination_open (db ?w) (ins_id sample_instance)"
    by (simp_all add: sample_rows command_held_def termination_open_def open_command_def)
  have "ins_id sample_instance = 2" "ins_generation sample_instance = 3" by (simp_all add: sample_instance_def)
  with terminal_start_failure_queues_cleanup [OF w h, of "''e''"] show ?thesis by force
qed

lemma sample_create:
  assumes "ins_id i = 2" "ins_active i"
  shows "\<exists>v. create_termination_command 2 reason (sample_runtime_world (sample_runtime_db i [])) = (Inr (), v)"
  using assms
  by (simp add: create_termination_command_def quiet_config create_termination_quiet
      termination_open_def commit_with_def sample_runtime_db_def)

lemma sample_sweep:
  assumes "ins_id i = 2" "ins_active i"
  shows "\<exists>v. create_terminations [(2, reason)] (sample_runtime_world (sample_runtime_db i [])) = (Inr (), v)"
  using sample_create [OF assms, of reason] by auto

theorem deadline_sweep_complete_witness:
  "\<exists>w'. enqueue_overdue_terminations (secs 30) (sample_runtime_world (sample_runtime_db
     (sample_instance\<lparr>ins_expires_at := secs 50\<rparr>) [])) = (Inr (), w') \<and>
     (termination_open (db w') 2 \<or> (\<forall>q \<in> set (rt_instances (db w')). ins_id q = 2 \<longrightarrow> \<not> ins_active q))"
proof -
  let ?i = "sample_instance\<lparr>ins_expires_at := secs 50\<rparr>"
  let ?w = "sample_runtime_world (sample_runtime_db ?i [])"
  have i: "ins_id ?i = 2" "ins_active ?i" by (simp_all add: sample_instance_def)
  have "overdue_candidates (secs 100) k (sample_runtime_db ?i []) = [2]" for k
    by (simp add: overdue_candidates_def sample_runtime_db_def i termination_open_def
        termination_recently_failed_def)
  then obtain w' where run: "enqueue_overdue_terminations (secs 30) ?w = (Inr (), w')"
    using sample_sweep [OF i, of "''absolute_deadline_reached''"]
    by (auto simp: enqueue_overdue_terminations_def pool_read_def quiet_simps)
  have "?i \<in> set (rt_instances (db ?w))" "ins_expires_at ?i \<le> clock ?w"
    "\<not> termination_recently_failed (clock ?w) (duration_seconds (secs 30)) (db ?w) (ins_id ?i)"
    by (simp_all add: sample_runtime_db_def termination_recently_failed_def)
  from deadline_sweep_complete [OF run _ this(1) i(2) this(2,3)] run i show ?thesis by auto
qed

theorem policy_sweep_complete_witness:
  "\<exists>w'. enqueue_policy_terminations (secs 30) (sample_runtime_world (sample_runtime_db
     (sample_instance\<lparr>ins_desired_state := Want_Stopped\<rparr>) [])) = (Inr (), w') \<and>
     (termination_open (db w') 2 \<or> (\<forall>q \<in> set (rt_instances (db w')). ins_id q = 2 \<longrightarrow> \<not> ins_active q))"
proof -
  let ?i = "sample_instance\<lparr>ins_desired_state := Want_Stopped\<rparr>"
  let ?w = "sample_runtime_world (sample_runtime_db ?i [])"
  have i: "ins_id ?i = 2" "ins_active ?i" by (simp_all add: sample_instance_def)
  have "policy_candidates (secs 100) k (sample_runtime_db ?i []) = [(2, Want_Stopped)]" for k
    by (simp add: policy_candidates_def sample_runtime_db_def i termination_open_def
        termination_recently_failed_def)
  then obtain w' where run: "enqueue_policy_terminations (secs 30) ?w = (Inr (), w')"
    using sample_sweep [OF i, of "''cleanup_safety_retry''"]
    by (auto simp: enqueue_policy_terminations_def pool_read_def quiet_simps)
  have "?i \<in> set (rt_instances (db ?w))" "ins_desired_state ?i = Want_Stopped \<or>
      \<not> setting_enabled (db ?w) \<or> \<not> runtime_managed (ins_challenge_id ?i) (db ?w)"
    "\<not> termination_recently_failed (clock ?w) (duration_seconds (secs 30)) (db ?w) (ins_id ?i)"
    by (simp_all add: sample_runtime_db_def termination_recently_failed_def)
  from policy_sweep_complete [OF run _ this(1) i(2) this(2,3)] run i show ?thesis by auto
qed

theorem runtime_wake_in_time_witness:
  "\<exists>delay. next_command_wake_delay (secs 30) (secs 120) (claimed_world Cmd_Start) =
     (Inr delay, claimed_world Cmd_Start) \<and> delay \<le> secs 30"
proof -
  have "turns (claimed_world Cmd_Start) = []" "faults (claimed_world Cmd_Start) = []" by simp_all
  from runtime_wake_in_time [OF this] show ?thesis by blast
qed

end
