(* ===== verification/Attempts.thy ===== *)
theory Attempts
  imports FlagPolicy Scoring
begin

text \<open>
  A submission to a challenge: \<open>attempt\<close> of \<open>services/api/src/routes/challenges.rs\<close> with the rate
  limiter in front of it (\<open>rate_limit.rs\<close>), the comparison with the challenge's flags, the limits on
  wrong submissions, the solve and the recalculated value.

  What the handler reads before its transaction comes from the pool, each read at tables of its own:
  \<open>before k\<close> is what read number \<open>k\<close> sees. The transaction is one step on the tables: it holds the
  locks of the configuration, of the team memberships (in team mode) and of the account and
  challenge, so no other attempt of that account on that challenge comes between its statements.
\<close>

section \<open>The rate limiter\<close>

record window =
  win_started :: time
  win_count :: nat
  win_interval :: time

type_synonym windows = "string \<rightharpoonup> window"

definition retained :: "time \<Rightarrow> windows \<Rightarrow> windows" where
  "retained now ws k = (case ws k of None \<Rightarrow> None
     | Some w \<Rightarrow> if now - win_started w < win_interval w then Some w else None)"

definition limiter_key :: "string \<Rightarrow> string \<Rightarrow> string" where
  "limiter_key operation subject = operation @ '':'' @ subject"

definition allow :: "string \<Rightarrow> string \<Rightarrow> nat \<Rightarrow> time \<Rightarrow> time \<Rightarrow> windows \<Rightarrow> bool \<times> windows" where
  "allow operation subject limit interval now ws =
     (let ws = retained now ws; key = limiter_key operation subject;
          fresh = \<lparr>win_started = now, win_count = 0, win_interval = interval\<rparr>;
          w = (case ws key of None \<Rightarrow> fresh | Some w \<Rightarrow> w);
          w = (if win_interval w \<noteq> interval \<or> now - win_started w \<ge> win_interval w then fresh else w)
      in if win_count w \<ge> limit then (False, ws(key \<mapsto> w))
         else (True, ws(key \<mapsto> w\<lparr>win_count := win_count w + 1\<rparr>)))"

section \<open>Comparison with the flags\<close>

datatype flag_result = Correct | Partial | Incorrect string

record evidence =
  ev_flag_id :: int
  ev_source_user_id :: int
  ev_accepted :: bool
  ev_match_tag :: string

record attempt_env =
  ae_flags :: flag_env
  ae_secret_key :: string
  ae_session_lifetime :: int

text \<open>The evaluation of one flag on one text: whether it matches, and whose it is when it is
  another user's.\<close>

type_synonym evaluation = "bool \<times> evidence option"

definition flag_matches ::
  "attempt_env \<Rightarrow> stored_flag \<Rightarrow> string \<Rightarrow> int \<Rightarrow> int \<Rightarrow> portal_db \<Rightarrow> evaluation answer" where
  "flag_matches env flag provided challenge_id user_id d =
     (case policy_of_json (fl_data flag) of
        None \<Rightarrow> Inl (upstream ''Stored flag options are invalid'')
      | Some policy \<Rightarrow>
          if fl_type flag = ''static''
          then Inr (flag_matches_literal (ae_flags env) (fl_content flag) provided (fp_case_sensitive policy), None)
          else if fl_type flag = ''regex''
          then (case flag_matches_regex (ae_flags env) (fl_content flag) provided (fp_case_sensitive policy) of
                  Inl e \<Rightarrow> Inl e | Inr b \<Rightarrow> Inr (b, None))
          else if fl_type flag = ''generated''
          then (case fst (generated_flag_match (ae_flags env) flag provided user_id challenge_id (ae_secret_key env) d) of
                  Inl e \<Rightarrow> Inl e
                | Inr No_Match \<Rightarrow> Inr (False, None)
                | Inr Own_Match \<Rightarrow> Inr (True, None)
                | Inr (Other_Match flag_id source accepted tag) \<Rightarrow>
                    Inr (accepted, Some \<lparr>ev_flag_id = flag_id, ev_source_user_id = source,
                      ev_accepted = accepted, ev_match_tag = tag\<rparr>))
          else Inl (bad_request (''Unsupported flag type on flag '' @ show_int (fl_id flag))))"

text \<open>The loops of the comparison. \<open>eval flag text\<close> is the evaluation above. \<open>first_match\<close> goes
  through the flags until one matches; \<open>some_candidate\<close> goes through the earlier texts and then
  the current one, whose evidence counts; \<open>every_flag\<close> goes through the flags until none of the texts
  matches one.\<close>

fun first_match ::
  "(stored_flag \<Rightarrow> evaluation answer) \<Rightarrow> evidence option \<Rightarrow> stored_flag list \<Rightarrow> evaluation answer" where
  "first_match eval shared [] = Inr (False, shared)"
| "first_match eval shared (f # fs) =
     (case eval f of
        Inl e \<Rightarrow> Inl e
      | Inr (matched, s) \<Rightarrow>
          (let shared = (if s = None then shared else s)
           in if matched then Inr (True, shared) else first_match eval shared fs))"

fun some_candidate ::
  "(string \<Rightarrow> evaluation answer) \<Rightarrow> evidence option \<Rightarrow> string list \<Rightarrow> evaluation answer" where
  "some_candidate eval shared [] = Inr (False, shared)"
| "some_candidate eval shared (t # ts) =
     (case eval t of
        Inl e \<Rightarrow> Inl e
      | Inr (matched, s) \<Rightarrow>
          (let shared = (if ts = [] \<and> s \<noteq> None then s else shared)
           in if matched then Inr (True, shared) else some_candidate eval shared ts))"

fun every_flag ::
  "(stored_flag \<Rightarrow> string \<Rightarrow> evaluation answer) \<Rightarrow> string list \<Rightarrow> evidence option \<Rightarrow> stored_flag list
   \<Rightarrow> evaluation answer" where
  "every_flag eval texts shared [] = Inr (True, shared)"
| "every_flag eval texts shared (f # fs) =
     (case some_candidate (eval f) shared texts of
        Inl e \<Rightarrow> Inl e
      | Inr (matched, shared) \<Rightarrow> if matched then every_flag eval texts shared fs else Inr (False, shared))"

fun submission_of :: "account \<Rightarrow> submission \<Rightarrow> bool" where
  "submission_of (User_Account i) s \<longleftrightarrow> sub_user_id s = i"
| "submission_of (Team_Account i) s \<longleftrightarrow> sub_team_id s = Some i"

definition partial_submissions :: "account \<Rightarrow> int \<Rightarrow> portal_db \<Rightarrow> submission list" where
  "partial_submissions a challenge_id d =
     filter (\<lambda>s. submission_of a s \<and> sub_challenge_id s = challenge_id \<and> sub_type s = ''partial'') (pd_submissions d)"

definition team_members :: "account \<Rightarrow> portal_db \<Rightarrow> int set" where
  "team_members a d = usr_id ` {u \<in> set (pd_users d). usr_team_id u = Some (account_id a)}"

definition team_submitters :: "account \<Rightarrow> int \<Rightarrow> portal_db \<Rightarrow> int set" where
  "team_submitters a challenge_id d =
     sub_user_id ` {s \<in> set (pd_submissions d). sub_team_id s = Some (account_id a) \<and>
        sub_challenge_id s = challenge_id \<and> sub_type s = ''partial''}"

definition incorrect :: flag_result where
  "incorrect = Incorrect ''Incorrect''"

definition compare_all ::
  "(stored_flag \<Rightarrow> string \<Rightarrow> evaluation answer) \<Rightarrow> stored_flag list \<Rightarrow> string list \<Rightarrow> string
   \<Rightarrow> (flag_result \<times> evidence option) answer" where
  "compare_all eval flags earlier submission =
     (case every_flag eval (earlier @ [submission]) None flags of
        Inl e \<Rightarrow> Inl e
      | Inr (True, shared) \<Rightarrow> Inr (Correct, shared)
      | Inr (False, shared) \<Rightarrow>
          (case first_match (\<lambda>f. eval f submission) shared flags of
             Inl e \<Rightarrow> Inl e
           | Inr (matched, shared) \<Rightarrow> Inr (if matched then Partial else incorrect, shared)))"

definition compare_submission ::
  "attempt_env \<Rightarrow> account \<Rightarrow> challenge_row \<Rightarrow> stored_flag list \<Rightarrow> string \<Rightarrow> int \<Rightarrow> bool \<Rightarrow> portal_db
   \<Rightarrow> (flag_result \<times> evidence option) answer" where
  "compare_submission env a c flags submission user_id team_mode d =
     (let eval = (\<lambda>f t. flag_matches env f t (ch_id c) user_id d) in
      if flags = [] then Inr (incorrect, None)
      else if ch_logic c = ''all''
      then compare_all eval flags (map sub_provided (partial_submissions a (ch_id c) d)) submission
      else case first_match (\<lambda>f. eval f submission) None flags of
        Inl e \<Rightarrow> Inl e
      | Inr (matched, shared) \<Rightarrow>
          Inr (if \<not> matched then incorrect
               else if ch_logic c = ''team'' \<and> team_mode \<and>
                  insert user_id (team_submitters a (ch_id c) d) \<noteq> team_members a d then Partial
               else Correct, shared))"

section \<open>Records of an attempt\<close>

definition insert_submission ::
  "time \<Rightarrow> current_user \<Rightarrow> int option \<Rightarrow> int \<Rightarrow> string \<Rightarrow> string \<Rightarrow> portal_db \<Rightarrow> int answer \<times> portal_db" where
  "insert_submission db_now u team challenge_id provided kind d =
     (Inr (pd_next_submission d),
      d\<lparr>pd_submissions := pd_submissions d @ [\<lparr>sub_id = pd_next_submission d,
           sub_challenge_id = challenge_id, sub_user_id = cu_id u, sub_team_id = team,
           sub_ip = Some (cu_request_ip u), sub_provided = provided, sub_type = kind, sub_date = db_now\<rparr>],
        pd_next_submission := pd_next_submission d + 1\<rparr>)"

definition record_shared_flag_evidence ::
  "int \<Rightarrow> int \<Rightarrow> int \<Rightarrow> int option \<Rightarrow> evidence option \<Rightarrow> portal_db \<Rightarrow> unit answer \<times> portal_db" where
  "record_shared_flag_evidence submission_id challenge_id user_id team shared d =
     (case shared of
        None \<Rightarrow> (Inr (), d)
      | Some ev \<Rightarrow>
          if user_id = ev_source_user_id ev \<or> (\<exists>e \<in> set (pd_sharing d). she_submission_id e = submission_id)
          then (Inl database_error, d)
          else (Inr (), d\<lparr>pd_sharing := pd_sharing d @ [\<lparr>she_submission_id = submission_id,
                 she_challenge_id = challenge_id, she_flag_id = ev_flag_id ev,
                 she_submitting_user_id = user_id, she_source_user_id = ev_source_user_id ev,
                 she_team_id = team, she_match_tag = ev_match_tag ev, she_accepted = ev_accepted ev\<rparr>]\<rparr>))"

definition solve_conflict :: "solve \<Rightarrow> solve \<Rightarrow> bool" where
  "solve_conflict s r \<longleftrightarrow> slv_id r = slv_id s \<or>
     (slv_challenge_id r = slv_challenge_id s \<and>
       (slv_user_id r = slv_user_id s \<or> (slv_team_id s \<noteq> None \<and> slv_team_id r = slv_team_id s)))"

definition insert_solve :: "solve \<Rightarrow> portal_db \<Rightarrow> unit answer \<times> portal_db" where
  "insert_solve s d =
     (if \<exists>r \<in> set (pd_solves d). solve_conflict s r then (Inl database_error, d)
      else (Inr (), d\<lparr>pd_solves := pd_solves d @ [s]\<rparr>))"

definition has_solved :: "account \<Rightarrow> int \<Rightarrow> portal_db \<Rightarrow> bool" where
  "has_solved a challenge_id d \<longleftrightarrow>
     (\<exists>s \<in> set (pd_solves d). solve_of a s \<and> slv_challenge_id s = challenge_id)"

definition matching_submissions ::
  "account \<Rightarrow> int option \<Rightarrow> time option \<Rightarrow> string \<Rightarrow> portal_db \<Rightarrow> submission list" where
  "matching_submissions a challenge since kind d =
     filter (\<lambda>s. sub_type s = kind \<and> submission_of a s \<and>
        (case challenge of None \<Rightarrow> True | Some i \<Rightarrow> sub_challenge_id s = i) \<and>
        (case since of None \<Rightarrow> True | Some t \<Rightarrow> t \<le> sub_date s)) (pd_submissions d)"

definition submission_count ::
  "account \<Rightarrow> int option \<Rightarrow> time option \<Rightarrow> string \<Rightarrow> portal_db \<Rightarrow> int" where
  "submission_count a challenge since kind d = int (length (matching_submissions a challenge since kind d))"

definition oldest_submission ::
  "account \<Rightarrow> int option \<Rightarrow> time option \<Rightarrow> string \<Rightarrow> portal_db \<Rightarrow> time option" where
  "oldest_submission a challenge since kind d =
     (case map sub_date (matching_submissions a challenge since kind d) of
        [] \<Rightarrow> None | t # ts \<Rightarrow> Some (fold min ts t))"

text \<open>\<open>num_seconds\<close> rounds towards zero.\<close>

definition num_seconds :: "time \<Rightarrow> int" where
  "num_seconds t = (if 0 \<le> t then t div secs 1 else - (- t div secs 1))"

definition seconds_remaining :: "time option \<Rightarrow> time \<Rightarrow> int \<Rightarrow> int" where
  "seconds_remaining oldest now window =
     (case oldest of None \<Rightarrow> window | Some date \<Rightarrow> max (window - num_seconds (now - date)) 1)"

section \<open>The handler\<close>

record attempt_reply =
  rep_code :: status_code
  rep_status :: string
  rep_message :: "string option"

definition attempt_response :: "status_code \<Rightarrow> string \<Rightarrow> string option \<Rightarrow> attempt_reply" where
  "attempt_response code status message =
     \<lparr>rep_code = code, rep_status = status, rep_message = message\<rparr>"

definition flag_result_response :: "flag_result \<Rightarrow> attempt_reply" where
  "flag_result_response r =
     (case r of
        Correct \<Rightarrow> attempt_response Ok_200 ''correct'' (Some ''Correct'')
      | Partial \<Rightarrow> attempt_response Ok_200 ''partial'' (Some ''Correct but more flags are required'')
      | Incorrect message \<Rightarrow> attempt_response Ok_200 ''incorrect'' (Some message))"

text \<open>The clocks of an attempt: the service's monotonic clock, its wall clock, the transaction's
  time and the Unix time in seconds.\<close>

record clocks =
  ck_instant :: time
  ck_app :: time
  ck_db :: time
  ck_unix :: int

record attempt_limits =
  al_incorrect :: int
  al_behavior :: string
  al_timeout :: int

record attempt_request =
  ar_challenge_id :: int
  ar_submission :: string
  ar_preview :: "bool option"

definition submission_team :: "current_user \<Rightarrow> portal_db \<Rightarrow> int option answer \<times> portal_db" where
  "submission_team u d =
     (if user_mode d = ''teams''
      then (case find_user (cu_id u) d of
          Some a \<Rightarrow> if usr_type a = Some ''user'' \<and> usr_team_id a \<noteq> None then Inr (usr_team_id a)
                    else Inl (forbidden ''Join a team before submitting flags'')
        | None \<Rightarrow> Inl (forbidden ''Join a team before submitting flags''))
      else Inr None, d)"

definition attempt_account :: "current_user \<Rightarrow> int option \<Rightarrow> account" where
  "attempt_account u team = (case team of None \<Rightarrow> User_Account (cu_id u) | Some t \<Rightarrow> Team_Account t)"

definition attempt_gate :: "bool \<Rightarrow> challenge_row \<Rightarrow> account \<Rightarrow> portal_db \<Rightarrow> unit answer \<times> portal_db" where
  "attempt_gate preview c a d =
     (if ch_type c \<noteq> Some ''standard'' \<and> ch_type c \<noteq> Some ''dynamic''
      then Inl (bad_request ''Unsupported challenge type'')
      else if preview then Inr ()
      else if ch_state c = ''hidden'' then Inl (not_found ''Challenge not found'')
      else if ch_state c = ''locked'' then Inl (forbidden ''Challenge is locked'')
      else if \<not> requirements_met (ch_requirements c) (solved_ids a d)
      then Inl (forbidden ''Challenge prerequisites are not satisfied'')
      else Inr (), d)"

definition challenge_flags :: "int \<Rightarrow> portal_db \<Rightarrow> stored_flag list" where
  "challenge_flags challenge_id d = sort_key fl_id (filter (\<lambda>f. fl_challenge_id f = challenge_id) (pd_flags d))"

text \<open>The refusals before the comparison: the attempts on the challenge are used up, or the wrong
  submissions of the last minute are too many.\<close>

definition limit_refusal ::
  "clocks \<Rightarrow> attempt_limits \<Rightarrow> current_user \<Rightarrow> int option \<Rightarrow> challenge_row \<Rightarrow> string
   \<Rightarrow> portal_db \<Rightarrow> attempt_reply option answer \<times> portal_db" where
  "limit_refusal ck limits u team c submission d =
     (let a = attempt_account u team;
          now = ck_app ck;
          minute = Some (now - secs 60);
          recent_incorrect = submission_count a None minute ''incorrect'' d;
          wait_for_minute = seconds_remaining (oldest_submission a None minute ''incorrect'' d) now 60;
          max_attempts = coalesce (ch_max_attempts c) 0;
          timeout = (al_behavior limits = ''timeout'');
          since = (if timeout then Some (now - secs (al_timeout limits)) else None);
          refuse = (\<lambda>message. and_then (insert_submission (ck_db ck) u team (ch_id c) submission ''ratelimited'' d)
            (\<lambda>_ d. (Inr (Some (attempt_response Too_Many_Requests_429 ''ratelimited'' (Some message))), d)))
      in if max_attempts > 0 \<and> submission_count a (Some (ch_id c)) since ''incorrect'' d \<ge> max_attempts
         then if timeout
              then refuse (''Not accepted. Try again in '' @
                show_int (seconds_remaining (oldest_submission a (Some (ch_id c)) since ''incorrect'' d) now
                  (al_timeout limits)) @ '' seconds'')
              else (Inr (Some (attempt_response Forbidden_403 ''ratelimited''
                     (Some ''Not accepted. You have 0 tries remaining''))), d)
         else if recent_incorrect \<ge> al_incorrect limits
         then refuse (''You'' @ [CHR 0x27] @ ''re submitting flags too fast. Try again in '' @
                show_int wait_for_minute @ '' seconds.'')
         else (Inr None, d))"

text \<open>What a comparison leads to: the submission, the evidence, and for a correct one the solve and
  the new value.\<close>

definition record_attempt ::
  "clocks \<Rightarrow> current_user \<Rightarrow> int option \<Rightarrow> challenge_row \<Rightarrow> string \<Rightarrow> string \<Rightarrow> evidence option
   \<Rightarrow> portal_db \<Rightarrow> int answer \<times> portal_db" where
  "record_attempt ck u team c submission kind shared d =
     and_then (insert_submission (ck_db ck) u team (ch_id c) submission kind d) (\<lambda>i d.
     and_then (record_shared_flag_evidence i (ch_id c) (cu_id u) team shared d) (\<lambda>_ d. (Inr i, d)))"

definition settle_attempt ::
  "clocks \<Rightarrow> current_user \<Rightarrow> int option \<Rightarrow> bool \<Rightarrow> challenge_row \<Rightarrow> string \<Rightarrow> flag_result \<times> evidence option
   \<Rightarrow> portal_db \<Rightarrow> attempt_reply answer \<times> portal_db" where
  "settle_attempt ck u team team_mode c submission comparison d =
     (let shared = snd comparison in
      if has_solved (attempt_account u team) (ch_id c) d
      then and_then (record_attempt ck u team c submission ''discard'' shared d) (\<lambda>_ d.
        (Inr (attempt_response Ok_200 ''already_solved'' (Some ''Correct but you already solved this'')), d))
      else case fst comparison of
        Correct \<Rightarrow>
          and_then (record_attempt ck u team c submission ''correct'' shared d) (\<lambda>i d.
          and_then (insert_solve \<lparr>slv_id = i, slv_challenge_id = ch_id c, slv_user_id = cu_id u,
              slv_team_id = team\<rparr> d) (\<lambda>_ d.
            (Inr (attempt_response Ok_200 ''correct'' (Some ''Correct'')),
             recalculate_dynamic_value c team_mode d)))
      | Partial \<Rightarrow>
          and_then (record_attempt ck u team c submission ''partial'' shared d) (\<lambda>_ d.
            (Inr (attempt_response Ok_200 ''partial'' (Some
               (if ch_logic c = ''team'' \<and> team_mode then ''Correct but all team members must submit a flag''
                else ''Correct but more flags are required''))), d))
      | Incorrect message \<Rightarrow>
          and_then (record_attempt ck u team c submission ''incorrect'' shared d) (\<lambda>_ d.
            (Inr (attempt_response Ok_200 ''incorrect'' (Some message)), d)))"

definition judge_attempt ::
  "attempt_env \<Rightarrow> clocks \<Rightarrow> attempt_limits \<Rightarrow> current_user \<Rightarrow> int option \<Rightarrow> bool \<Rightarrow> challenge_row
   \<Rightarrow> stored_flag list \<Rightarrow> string \<Rightarrow> portal_db \<Rightarrow> attempt_reply answer \<times> portal_db" where
  "judge_attempt env ck limits u team team_mode c flags submission d =
     and_then (limit_refusal ck limits u team c submission d) (\<lambda>refusal d.
       (case refusal of
          Some reply \<Rightarrow> (Inr reply, d)
        | None \<Rightarrow>
            and_then (reading (compare_submission env (attempt_account u team) c flags submission (cu_id u) team_mode) d)
              (\<lambda>comparison d. settle_attempt ck u team team_mode c submission comparison d)))"

text \<open>The transaction of an attempt. A preview compares and records nothing.\<close>

definition attempt_body ::
  "attempt_env \<Rightarrow> clocks \<Rightarrow> attempt_limits \<Rightarrow> current_user \<Rightarrow> bool \<Rightarrow> int \<Rightarrow> string
   \<Rightarrow> portal_db \<Rightarrow> attempt_reply answer \<times> portal_db" where
  "attempt_body env ck limits u preview challenge_id submission d =
     and_then (revalidate_current_credential (ck_db ck) (ae_session_lifetime env) u d) (\<lambda>_ d.
     and_then (submission_team u d) (\<lambda>team d.
     let team_mode = (user_mode d = ''teams''); a = attempt_account u team in
     and_then (reading (\<lambda>d. found (not_found ''Challenge not found'') (find_challenge challenge_id d)) d) (\<lambda>c d.
     and_then (attempt_gate preview c a d) (\<lambda>_ d.
     let flags = challenge_flags (ch_id c) d in
     and_then (require (flags \<noteq> []) (upstream ''The challenge has no flag definition'') d) (\<lambda>_ d.
       if preview
       then and_then (reading (compare_submission env a c flags submission (cu_id u) team_mode) d)
              (\<lambda>comparison d. (Inr (flag_result_response (fst comparison)), d))
       else judge_attempt env ck limits u team team_mode c flags submission d)))))"

definition attempt_limits_of ::
  "(nat \<Rightarrow> portal_db) \<Rightarrow> attempt_limits answer" where
  "attempt_limits_of before =
     (case config_i64 ''incorrect_submissions_per_min'' 10 (before 5) of
        Inl e \<Rightarrow> Inl e
      | Inr incorrect_limit \<Rightarrow>
          (case config_i64 ''max_attempts_timeout'' 300 (before 7) of
             Inl e \<Rightarrow> Inl e
           | Inr timeout \<Rightarrow> Inr \<lparr>al_incorrect = incorrect_limit,
               al_behavior = coalesce (config_string ''max_attempts_behavior'' (before 6)) ''lockout'',
               al_timeout = timeout\<rparr>))"

definition is_preview :: "current_user \<Rightarrow> attempt_request \<Rightarrow> bool" where
  "is_preview u request \<longleftrightarrow> is_admin u \<and> coalesce (ar_preview request) False"

definition attempt ::
  "attempt_env \<Rightarrow> clocks \<Rightarrow> bool \<Rightarrow> (nat \<Rightarrow> portal_db) \<Rightarrow> current_user option \<Rightarrow> attempt_request
   \<Rightarrow> windows \<Rightarrow> portal_db \<Rightarrow> (attempt_reply answer \<times> windows) \<times> portal_db" where
  "attempt env ck database_fails before user request ws d =
     (case require_challenge_visibility user (before 0) of Inl e \<Rightarrow> ((Inl e, ws), d) | Inr _ \<Rightarrow>
     (case require_ctf_time (ck_unix ck) user (before 1) of Inl e \<Rightarrow> ((Inl e, ws), d) | Inr _ \<Rightarrow>
     (case require_verified user (before 2) of Inl e \<Rightarrow> ((Inl e, ws), d) | Inr _ \<Rightarrow>
     (case user of
        None \<Rightarrow> ((Inr (attempt_response Forbidden_403 ''authentication_required'' None), ws), d)
      | Some u \<Rightarrow>
          let (allowed, ws) = allow ''challenge_attempt'' (show_int (cu_id u)) 10 (secs 5) (ck_instant ck) ws;
              preview = is_preview u request;
              submission = trim (ar_submission request)
          in if \<not> allowed
             then ((Inr (attempt_response Too_Many_Requests_429 ''ratelimited''
                    (Some ''Too many submissions; try again shortly'')), ws), d)
             else if \<not> preview \<and> config_bool ''paused'' False (before 3)
             then ((Inr (attempt_response Forbidden_403 ''paused''
                    (Some (coalesce (config_string ''ctf_name'' (before 4)) ''CTFZone'' @ '' is paused''))), ws), d)
             else if submission = [] \<or> length submission > 4096 \<or> CHR 0x00 \<in> set submission
             then ((Inl (bad_request ''A submission between 1 and 4096 bytes is required''), ws), d)
             else (case attempt_limits_of before of
               Inl e \<Rightarrow> ((Inl e, ws), d)
             | Inr limits \<Rightarrow>
                 (let (r, d) = in_transaction database_fails
                        (attempt_body env ck limits u preview (ar_challenge_id request) submission) d
                  in ((r, ws), d)))))))"

end
