(* ===== verification/AttemptProperties.thy ===== *)
theory AttemptProperties
  imports Attempts
begin

text \<open>
  What submissions to challenges guarantee: the comparison gives the verdict of the challenge's
  logic, the tables of submissions, solves and sharing events stay consistent, at most one solve
  exists per account and challenge, and a lockout is final.
\<close>

section \<open>The comparison against its logic\<close>

definition accepts :: "(stored_flag \<Rightarrow> string \<Rightarrow> evaluation answer) \<Rightarrow> stored_flag \<Rightarrow> string \<Rightarrow> bool" where
  "accepts eval f t \<longleftrightarrow> (case eval f t of Inr (True, _) \<Rightarrow> True | _ \<Rightarrow> False)"

definition shows_evidence ::
  "(stored_flag \<Rightarrow> string \<Rightarrow> evaluation answer) \<Rightarrow> stored_flag \<Rightarrow> string \<Rightarrow> evidence \<Rightarrow> bool" where
  "shows_evidence eval f t ev \<longleftrightarrow> (case eval f t of Inr (_, Some e) \<Rightarrow> e = ev | _ \<Rightarrow> False)"

text \<open>The verdict, without loops: every flag covered by the partial submissions of the account and
  the new text; one flag met, and by every member of the team; or one flag met.\<close>

definition verdict ::
  "(stored_flag \<Rightarrow> string \<Rightarrow> bool) \<Rightarrow> string \<Rightarrow> stored_flag set \<Rightarrow> string set \<Rightarrow> string \<Rightarrow> bool \<Rightarrow> flag_result" where
  "verdict meets logic flags earlier submission whole_team =
     (if logic = ''all'' \<and> (\<forall>f \<in> flags. \<exists>t \<in> insert submission earlier. meets f t) then Correct
      else if \<not> (\<exists>f \<in> flags. meets f submission) then incorrect
      else if logic = ''all'' then Partial
      else if logic = ''team'' \<and> \<not> whole_team then Partial
      else Correct)"

lemma first_match_result:
  assumes "first_match eval shared fs = Inr (b, s)"
  shows "(b \<longleftrightarrow> (\<exists>f \<in> set fs. \<exists>x. eval f = Inr (True, x))) \<and>
    (s = shared \<or> (\<exists>f \<in> set fs. \<exists>m. eval f = Inr (m, s) \<and> s \<noteq> None))"
  using assms
proof (induction fs arbitrary: shared)
  case (Cons f fs)
  then obtain m x where f: "eval f = Inr (m, x)" by (auto split: sum.splits)
  show ?case
  proof (cases m)
    case False
    with Cons.prems f have "first_match eval (if x = None then shared else x) fs = Inr (b, s)" by simp
    from Cons.IH [OF this] show ?thesis using f False by (auto split: if_splits)
  qed (use Cons.prems f in \<open>auto split: if_splits\<close>)
qed simp

lemma some_candidate_result:
  assumes "some_candidate eval shared ts = Inr (b, s)"
  shows "(b \<longleftrightarrow> (\<exists>t \<in> set ts. \<exists>x. eval t = Inr (True, x))) \<and>
    (s = shared \<or> (ts \<noteq> [] \<and> (\<exists>m. eval (last ts) = Inr (m, s) \<and> s \<noteq> None)))"
  using assms
proof (induction ts arbitrary: shared)
  case (Cons t ts)
  then obtain m x where t: "eval t = Inr (m, x)" by (auto split: sum.splits)
  show ?case
  proof (cases m)
    case False
    with Cons.prems t have "some_candidate eval (if ts = [] \<and> x \<noteq> None then x else shared) ts = Inr (b, s)" by simp
    from Cons.IH [OF this] show ?thesis using t False by (auto split: if_splits)
  qed (use Cons.prems t in \<open>auto split: if_splits\<close>)
qed simp

lemma every_flag_result:
  assumes "every_flag eval ts shared fs = Inr (b, s)" "ts \<noteq> []"
  shows "(b \<longleftrightarrow> (\<forall>f \<in> set fs. \<exists>t \<in> set ts. \<exists>x. eval f t = Inr (True, x))) \<and>
    (s = shared \<or> (\<exists>f \<in> set fs. \<exists>m. eval f (last ts) = Inr (m, s) \<and> s \<noteq> None))"
  using assms(1)
proof (induction fs arbitrary: shared)
  case (Cons f fs)
  then obtain m x where f: "some_candidate (eval f) shared ts = Inr (m, x)" by (auto split: sum.splits)
  note r = some_candidate_result [OF f]
  show ?case
  proof (cases m)
    case True
    with Cons.prems f have "every_flag eval ts x fs = Inr (b, s)" by simp
    from Cons.IH [OF this] show ?thesis using r True by auto
  qed (use Cons.prems f r in auto)
qed simp

lemma accepts_iff: "accepts eval f t \<longleftrightarrow> (\<exists>x. eval f t = Inr (True, x))"
  by (auto simp: accepts_def split: sum.splits prod.splits bool.splits)

lemma shows_evidence_iff: "shows_evidence eval f t ev \<longleftrightarrow> (\<exists>m. eval f t = Inr (m, Some ev))"
  by (auto simp: shows_evidence_def split: sum.splits prod.splits option.splits)

lemma evaluable_first_match:
  "(\<And>f. f \<in> set fs \<Longrightarrow> isl (eval f) = False) \<Longrightarrow> isl (first_match eval shared fs) = False"
  by (induction fs arbitrary: shared) (auto split: sum.splits simp: isl_def)

lemma evaluable_some_candidate:
  "(\<And>t. t \<in> set ts \<Longrightarrow> isl (eval t) = False) \<Longrightarrow> isl (some_candidate eval shared ts) = False"
  by (induction ts arbitrary: shared) (auto split: sum.splits simp: isl_def)

lemma evaluable_every_flag:
  assumes "\<And>f t. f \<in> set fs \<Longrightarrow> t \<in> set ts \<Longrightarrow> isl (eval f t) = False"
  shows "isl (every_flag eval ts shared fs) = False"
  using assms
proof (induction fs arbitrary: shared)
  case (Cons f fs)
  have "isl (some_candidate (eval f) shared ts) = False"
    using Cons.prems by (intro evaluable_some_candidate) simp
  then show ?case using Cons by (auto split: sum.splits)
qed simp

lemma compare_all_result:
  assumes "compare_all eval flags earlier submission = Inr (r, shared)"
  shows "r = verdict (accepts eval) ''all'' (set flags) (set earlier) submission w \<and>
    (\<forall>ev. shared = Some ev \<longrightarrow> (\<exists>f \<in> set flags. shows_evidence eval f submission ev))"
proof -
  obtain b s where e: "every_flag eval (earlier @ [submission]) None flags = Inr (b, s)"
    using assms by (auto simp: compare_all_def split: sum.splits)
  note e' = every_flag_result [OF e]
  show ?thesis
  proof (cases b)
    case True
    with e e' assms show ?thesis
      by (auto simp: compare_all_def verdict_def accepts_iff shows_evidence_iff)
  next
    case False
    with e assms obtain m where m: "first_match (\<lambda>f. eval f submission) s flags = Inr (m, shared)"
        "r = (if m then Partial else incorrect)"
      by (auto simp: compare_all_def split: sum.splits)
    from first_match_result [OF m(1)] e' False m(2) show ?thesis
      by (auto simp: verdict_def accepts_iff shows_evidence_iff)
  qed
qed

text \<open>The texts an attempt is compared with: the earlier ones and the new one.\<close>

definition earlier_texts :: "account \<Rightarrow> int \<Rightarrow> portal_db \<Rightarrow> string list" where
  "earlier_texts a challenge_id d = map sub_provided (partial_submissions a challenge_id d)"

definition evaluates :: "attempt_env \<Rightarrow> int \<Rightarrow> int \<Rightarrow> portal_db \<Rightarrow> stored_flag \<Rightarrow> string \<Rightarrow> evaluation answer" where
  "evaluates env challenge_id user_id d f t = flag_matches env f t challenge_id user_id d"

text \<open>
  C21. The comparison gives the verdict of the challenge's logic. Whenever it returns, the result is the
  declarative verdict: with the logic \<open>all\<close>, correct exactly when every flag is met by the new text
  or by an earlier partial submission of the account, and partial when only the new text meets a
  flag; with the logic \<open>team\<close> in team mode, correct exactly when the new text meets a flag and
  its author with the earlier partial submitters are exactly the team's members; otherwise correct
  exactly when it meets a flag. Evidence of sharing always comes from the new text, never from
  an earlier one. And it does return when every flag can be evaluated on these texts.
\<close>

theorem comparison_gives_verdict:
  assumes "flags \<noteq> []"
  shows "(\<forall>r shared. compare_submission env a c flags submission user_id team_mode d = Inr (r, shared) \<longrightarrow>
      r = verdict (accepts (evaluates env (ch_id c) user_id d)) (ch_logic c) (set flags) (set (earlier_texts a (ch_id c) d)) submission
        (\<not> team_mode \<or> insert user_id (team_submitters a (ch_id c) d) = team_members a d) \<and>
      (\<forall>ev. shared = Some ev \<longrightarrow> (\<exists>f \<in> set flags. shows_evidence (evaluates env (ch_id c) user_id d) f submission ev))) \<and>
    ((\<forall>f \<in> set flags. \<forall>t \<in> insert submission (set (earlier_texts a (ch_id c) d)). \<not> isl (evaluates env (ch_id c) user_id d f t)) \<longrightarrow>
      (\<exists>r shared. compare_submission env a c flags submission user_id team_mode d = Inr (r, shared)))"
proof -
  let ?eval = "evaluates env (ch_id c) user_id d"
  let ?earlier = "earlier_texts a (ch_id c) d"
  have eval: "?eval = (\<lambda>f t. flag_matches env f t (ch_id c) user_id d)"
    by (simp add: evaluates_def fun_eq_iff)
  show ?thesis
  proof (cases "ch_logic c = ''all''")
    case True
    have c: "compare_submission env a c flags submission user_id team_mode d =
        compare_all ?eval flags ?earlier submission"
      using True assms by (simp add: compare_submission_def eval earlier_texts_def)
    have total: "isl (compare_all ?eval flags ?earlier submission) = False"
      if "\<forall>f \<in> set flags. \<forall>t \<in> insert submission (set ?earlier). \<not> isl (?eval f t)"
    proof -
      have "isl (every_flag ?eval (?earlier @ [submission]) None flags) = False"
        using that by (intro evaluable_every_flag) auto
      moreover have "isl (first_match (\<lambda>f. ?eval f submission) shared flags) = False" for shared
        using that by (intro evaluable_first_match) simp
      ultimately show ?thesis
        by (auto simp: compare_all_def isl_def split: sum.splits prod.splits bool.splits)
    qed
    show ?thesis
    proof (cases "compare_all ?eval flags ?earlier submission")
      case (Inl e)
      with total show ?thesis unfolding c True by auto
    next
      case (Inr x)
      obtain r shared where "x = (r, shared)" by (cases x)
      with Inr have "compare_all ?eval flags ?earlier submission = Inr (r, shared)" by simp
      from compare_all_result [OF this] this show ?thesis unfolding c True by auto
    qed
  next
    case False
    let ?first = "first_match (\<lambda>f. ?eval f submission) None flags"
    have c: "compare_submission env a c flags submission user_id team_mode d =
        (case ?first of Inl e \<Rightarrow> Inl e
         | Inr (matched, shared) \<Rightarrow> Inr (if \<not> matched then incorrect
                 else if ch_logic c = ''team'' \<and> team_mode \<and>
                    insert user_id (team_submitters a (ch_id c) d) \<noteq> team_members a d then Partial
                 else Correct, shared))"
      using False assms by (simp add: compare_submission_def eval earlier_texts_def)
    have total: "isl ?first = False"
      if "\<forall>f \<in> set flags. \<forall>t \<in> insert submission (set ?earlier). \<not> isl (?eval f t)"
      using that by (intro evaluable_first_match) simp
    show ?thesis
    proof (cases ?first)
      case (Inl e)
      with total show ?thesis unfolding c by auto
    next
      case (Inr x)
      obtain m shared where "x = (m, shared)" by (cases x)
      with Inr have f: "?first = Inr (m, shared)" by simp
      have m: "m \<longleftrightarrow> (\<exists>f \<in> set flags. accepts ?eval f submission)"
        "\<forall>ev. shared = Some ev \<longrightarrow> (\<exists>f \<in> set flags. shows_evidence ?eval f submission ev)"
        using first_match_result [OF f] unfolding accepts_iff shows_evidence_iff by auto
      show ?thesis unfolding c f using m(2) False by (simp add: verdict_def m(1))
    qed
  qed
qed

section \<open>The scoreboard's tables\<close>

definition confirms :: "submission \<Rightarrow> solve \<Rightarrow> bool" where
  "confirms b s \<longleftrightarrow> sub_id b = slv_id s \<and> sub_type b = ''correct'' \<and>
     sub_challenge_id b = slv_challenge_id s \<and> sub_user_id b = slv_user_id s \<and> sub_team_id b = slv_team_id s"

definition submissions_ok :: "portal_db \<Rightarrow> bool" where
  "submissions_ok d \<longleftrightarrow> distinct (map sub_id (pd_submissions d)) \<and>
     (\<forall>b \<in> set (pd_submissions d). sub_id b < pd_next_submission d)"

definition solves_ok :: "portal_db \<Rightarrow> bool" where
  "solves_ok d \<longleftrightarrow> sorted_wrt (\<lambda>r s. \<not> solve_conflict s r) (pd_solves d) \<and>
     (\<forall>s \<in> set (pd_solves d). \<exists>b \<in> set (pd_submissions d). confirms b s) \<and>
     (\<forall>b \<in> set (pd_submissions d). sub_type b = ''correct'' \<longrightarrow> (\<exists>s \<in> set (pd_solves d). confirms b s))"

definition event_ok :: "submission list \<Rightarrow> sharing_event \<Rightarrow> bool" where
  "event_ok bs e \<longleftrightarrow> she_submitting_user_id e \<noteq> she_source_user_id e \<and>
     (\<forall>b \<in> set bs. sub_id b = she_submission_id e \<longrightarrow> sub_user_id b = she_submitting_user_id e \<and>
        sub_challenge_id b = she_challenge_id e \<and> sub_team_id b = she_team_id e)"

definition sharing_ok :: "portal_db \<Rightarrow> bool" where
  "sharing_ok d \<longleftrightarrow> distinct (map she_submission_id (pd_sharing d)) \<and>
     (\<forall>e \<in> set (pd_sharing d). she_submission_id e < pd_next_submission d \<and> event_ok (pd_submissions d) e)"

definition scoreboard_ok :: "portal_db \<Rightarrow> bool" where
  "scoreboard_ok d \<longleftrightarrow> submissions_ok d \<and> solves_ok d \<and> sharing_ok d"

lemmas scoreboard_defs = scoreboard_ok_def submissions_ok_def solves_ok_def sharing_ok_def

text \<open>The tables with one more submission and its events.\<close>

definition recorded :: "submission \<Rightarrow> sharing_event list \<Rightarrow> portal_db \<Rightarrow> portal_db" where
  "recorded b es d = d\<lparr>pd_submissions := pd_submissions d @ [b], pd_next_submission := sub_id b + 1,
     pd_sharing := pd_sharing d @ es\<rparr>"

definition fresh_record :: "submission \<Rightarrow> sharing_event list \<Rightarrow> portal_db \<Rightarrow> bool" where
  "fresh_record b es d \<longleftrightarrow> sub_id b = pd_next_submission d \<and>
     (es = [] \<or> (\<exists>e. es = [e] \<and> she_submission_id e = sub_id b \<and> event_ok [b] e))"

definition submitted ::
  "clocks \<Rightarrow> current_user \<Rightarrow> int option \<Rightarrow> challenge_row \<Rightarrow> string \<Rightarrow> string \<Rightarrow> portal_db \<Rightarrow> submission" where
  "submitted ck u team c provided kind d =
     \<lparr>sub_id = pd_next_submission d, sub_challenge_id = ch_id c, sub_user_id = cu_id u, sub_team_id = team,
      sub_ip = Some (cu_request_ip u), sub_provided = provided, sub_type = kind, sub_date = ck_db ck\<rparr>"

lemma submitted_fields [simp]:
  "sub_id (submitted ck u team c provided kind d) = pd_next_submission d"
  "sub_challenge_id (submitted ck u team c provided kind d) = ch_id c"
  "sub_user_id (submitted ck u team c provided kind d) = cu_id u"
  "sub_team_id (submitted ck u team c provided kind d) = team"
  "sub_type (submitted ck u team c provided kind d) = kind"
  by (simp_all add: submitted_def)

lemma recorded_fields [simp]:
  "pd_submissions (recorded b es d) = pd_submissions d @ [b]" "pd_solves (recorded b es d) = pd_solves d"
  "pd_sharing (recorded b es d) = pd_sharing d @ es" "pd_next_submission (recorded b es d) = sub_id b + 1"
  by (simp_all add: recorded_def)

lemma insert_submission_eq:
  "insert_submission (ck_db ck) u team (ch_id c) provided kind d =
     (Inr (pd_next_submission d), recorded (submitted ck u team c provided kind d) [] d)"
  by (simp add: insert_submission_def recorded_def submitted_def)

lemma record_attempt_Inr:
  assumes "record_attempt ck u team c provided kind shared d = (Inr i, d')"
  obtains es where "d' = recorded (submitted ck u team c provided kind d) es d" "i = pd_next_submission d"
    "fresh_record (submitted ck u team c provided kind d) es d"
proof (cases shared)
  case None
  with assms show ?thesis
    by (intro that [of "[]"]) (auto simp: record_attempt_def insert_submission_eq
        record_shared_flag_evidence_def fresh_record_def)
next
  case (Some ev)
  with assms show ?thesis
    by (intro that [of "[\<lparr>she_submission_id = pd_next_submission d, she_challenge_id = ch_id c,
          she_flag_id = ev_flag_id ev, she_submitting_user_id = cu_id u, she_source_user_id = ev_source_user_id ev,
          she_team_id = team, she_match_tag = ev_match_tag ev, she_accepted = ev_accepted ev\<rparr>]"])
       (auto simp: record_attempt_def insert_submission_eq record_shared_flag_evidence_def
         fresh_record_def event_ok_def recorded_def split: if_splits)
qed

lemma recorded_submissions:
  assumes "submissions_ok d" "fresh_record b es d"
  shows "submissions_ok (recorded b es d)"
  using assms by (fastforce simp: submissions_ok_def fresh_record_def)

lemma recorded_sharing:
  assumes "submissions_ok d" "sharing_ok d" "fresh_record b es d"
  shows "sharing_ok (recorded b es d)"
proof -
  have old: "event_ok (pd_submissions d @ [b]) e" if "e \<in> set (pd_sharing d)" for e
    using assms(2,3) that by (force simp: sharing_ok_def event_ok_def fresh_record_def)
  have new: "event_ok (pd_submissions d @ [b]) e" if "event_ok [b] e" "she_submission_id e = sub_id b" for e
    using assms(1,3) that by (force simp: submissions_ok_def event_ok_def fresh_record_def)
  have "she_submission_id e < sub_id b" if "e \<in> set (pd_sharing d)" for e
    using assms(2,3) that by (auto simp: sharing_ok_def fresh_record_def)
  then show ?thesis
    using assms(2,3) old new by (fastforce simp: sharing_ok_def fresh_record_def)
qed

lemma recorded_solves:
  assumes "solves_ok d" "sub_type b \<noteq> ''correct''"
  shows "solves_ok (recorded b es d)"
  using assms by (auto simp: solves_ok_def)

lemma recorded_ok:
  assumes "scoreboard_ok d" "fresh_record b es d" "sub_type b \<noteq> ''correct''"
  shows "scoreboard_ok (recorded b es d)"
  using assms recorded_submissions recorded_sharing recorded_solves by (simp add: scoreboard_ok_def)

lemma solved_ok:
  assumes ok: "scoreboard_ok d" and b: "fresh_record b es d" "confirms b s"
    and new: "\<not> (\<exists>r \<in> set (pd_solves d). solve_conflict s r)"
    and d': "pd_submissions d' = pd_submissions d @ [b]" "pd_sharing d' = pd_sharing d @ es"
      "pd_next_submission d' = sub_id b + 1" "pd_solves d' = pd_solves d @ [s]"
  shows "scoreboard_ok d'"
proof -
  have "submissions_ok (recorded b es d)" "sharing_ok (recorded b es d)"
    using ok b recorded_submissions recorded_sharing by (auto simp: scoreboard_ok_def)
  then have "submissions_ok d'" "sharing_ok d'" using d' by (simp_all add: submissions_ok_def sharing_ok_def)
  moreover have "solves_ok d'"
    using ok b(2) new d' by (auto simp: scoreboard_ok_def solves_ok_def sorted_wrt_append)
  ultimately show ?thesis by (simp add: scoreboard_ok_def)
qed

lemma pairwise_at_most_one:
  assumes "sorted_wrt R xs" "\<And>x y. x \<in> set xs \<Longrightarrow> y \<in> set xs \<Longrightarrow> \<not> R x y"
  shows "length xs \<le> 1"
  using assms by (cases xs; cases "tl xs") auto

text \<open>One solve per account and challenge.\<close>

lemma one_solve:
  assumes "scoreboard_ok d"
  shows "length (filter (\<lambda>s. solve_of a s \<and> slv_challenge_id s = i) (pd_solves d)) \<le> 1"
proof (rule pairwise_at_most_one)
  show "sorted_wrt (\<lambda>r s. \<not> solve_conflict s r) (filter (\<lambda>s. solve_of a s \<and> slv_challenge_id s = i) (pd_solves d))"
    using assms by (auto simp: scoreboard_ok_def solves_ok_def intro: sorted_wrt_filter)
qed (cases a; auto simp: solve_conflict_def)

section \<open>What an attempt leaves\<close>

lemma recalculated_fields [simp]:
  "pd_submissions (recalculate_dynamic_value c m d) = pd_submissions d"
  "pd_solves (recalculate_dynamic_value c m d) = pd_solves d"
  "pd_sharing (recalculate_dynamic_value c m d) = pd_sharing d"
  "pd_next_submission (recalculate_dynamic_value c m d) = pd_next_submission d"
  by (simp_all add: recalculate_dynamic_value_def set_value_def Let_def)

text \<open>The three ways the transaction of an attempt ends: nothing recorded, one submission that is not
  correct, or a correct one with its solve.\<close>

definition attempt_leaves ::
  "current_user \<Rightarrow> int option \<Rightarrow> challenge_row \<Rightarrow> attempt_reply \<Rightarrow> portal_db \<Rightarrow> portal_db \<Rightarrow> bool" where
  "attempt_leaves u team c reply d d' \<longleftrightarrow>
     (rep_status reply \<noteq> ''correct'' \<and> d' = d) \<or>
     (\<exists>b es. rep_status reply \<noteq> ''correct'' \<and> sub_type b \<noteq> ''correct'' \<and> fresh_record b es d \<and> d' = recorded b es d \<and>
        (sub_type b = ''incorrect'' \<longrightarrow> rep_status reply = ''incorrect'')) \<or>
     (\<exists>b es s. rep_status reply = ''correct'' \<and> fresh_record b es d \<and> confirms b s \<and>
        slv_challenge_id s = ch_id c \<and> slv_user_id s = cu_id u \<and> slv_team_id s = team \<and>
        \<not> has_solved (attempt_account u team) (ch_id c) d \<and>
        \<not> (\<exists>r \<in> set (pd_solves d). solve_conflict s r) \<and>
        pd_submissions d' = pd_submissions d @ [b] \<and> pd_sharing d' = pd_sharing d @ es \<and>
        pd_next_submission d' = sub_id b + 1 \<and> pd_solves d' = pd_solves d @ [s])"

lemma attempt_leaves_nothing: "rep_status reply \<noteq> ''correct'' \<Longrightarrow> attempt_leaves u team c reply d d"
  by (simp add: attempt_leaves_def)

lemma attempt_leaves_submission:
  assumes "record_attempt ck u team c provided kind shared d = (Inr i, d')"
    "kind \<noteq> ''correct''" "rep_status reply \<noteq> ''correct''" "kind = ''incorrect'' \<longrightarrow> rep_status reply = ''incorrect''"
  shows "attempt_leaves u team c reply d d'"
  using assms(2-) record_attempt_Inr [OF assms(1)] unfolding attempt_leaves_def by (metis submitted_fields(5))

lemma attempt_leaves_solve:
  assumes "record_attempt ck u team c provided ''correct'' shared d = (Inr i, d1)"
    "insert_solve \<lparr>slv_id = i, slv_challenge_id = ch_id c, slv_user_id = cu_id u, slv_team_id = team\<rparr> d1 = (Inr x, d2)"
    "\<not> has_solved (attempt_account u team) (ch_id c) d" "rep_status reply = ''correct''"
  shows "attempt_leaves u team c reply d (recalculate_dynamic_value c m d2)"
proof -
  let ?b = "submitted ck u team c provided ''correct'' d"
  let ?s = "\<lparr>slv_id = i, slv_challenge_id = ch_id c, slv_user_id = cu_id u, slv_team_id = team\<rparr>"
  obtain es where d1: "d1 = recorded ?b es d" "i = pd_next_submission d" "fresh_record ?b es d"
    using record_attempt_Inr [OF assms(1)] .
  from assms(2) have "\<not> (\<exists>r \<in> set (pd_solves d1). solve_conflict ?s r)" "d2 = d1\<lparr>pd_solves := pd_solves d1 @ [?s]\<rparr>"
    by (auto simp: insert_solve_def split: if_splits)
  moreover have "confirms ?b ?s" using d1(2) by (simp add: confirms_def)
  ultimately show ?thesis unfolding attempt_leaves_def
    using d1 assms(3,4) by (intro disjI2 exI [of _ ?b] exI [of _ es] exI [of _ ?s]) simp
qed

lemma settle_attempt_leaves:
  assumes "settle_attempt ck u team m c provided comparison d = (Inr reply, d')"
  shows "attempt_leaves u team c reply d d'"
  using assms unfolding settle_attempt_def Let_def
  by (auto simp: attempt_response_def split: if_splits flag_result.splits elim!: and_then_Inr_cases
      intro: attempt_leaves_submission attempt_leaves_solve)

lemma limit_refusal_Some:
  assumes "limit_refusal ck limits u team c provided d = (Inr (Some reply), d')"
  shows "attempt_leaves u team c reply d d'"
proof -
  have "attempt_leaves u team c (attempt_response code ''ratelimited'' message) d
      (recorded (submitted ck u team c provided ''ratelimited'' d) [] d)" for code message
    unfolding attempt_leaves_def
    by (intro disjI2 disjI1 exI [of _ "submitted ck u team c provided ''ratelimited'' d"] exI [of _ "[]"])
       (simp add: attempt_response_def fresh_record_def)
  with assms show ?thesis
    by (auto simp: limit_refusal_def Let_def insert_submission_eq split: if_splits
        intro: attempt_leaves_nothing simp: attempt_response_def)
qed

lemma limit_refusal_frame: "limit_refusal ck limits u team c provided d = (Inr None, d') \<Longrightarrow> d' = d"
  by (auto simp: limit_refusal_def Let_def insert_submission_eq split: if_splits)

lemma judge_attempt_leaves:
  assumes "judge_attempt env ck limits u team m c flags provided d = (Inr reply, d')"
  shows "attempt_leaves u team c reply d d'"
  using assms unfolding judge_attempt_def
  by (auto simp: reading_def split: option.splits elim!: and_then_Inr_cases
      dest!: limit_refusal_frame intro: limit_refusal_Some settle_attempt_leaves)

lemma attempt_gate_frame: "attempt_gate preview c a d = (x, d') \<Longrightarrow> d' = d"
  by (simp add: attempt_gate_def)

lemma submission_team_eq: "submission_team u d = (x, d') \<longleftrightarrow> fst (submission_team u d) = x \<and> d' = d"
  by (auto simp: submission_team_def)

lemma attempt_body_Inr:
  assumes "attempt_body env ck limits u preview i provided d = (Inr reply, d')"
  obtains team c flags where "submission_team u d = (Inr team, d)" "find_challenge i d = Some c"
    "if preview then d' = d
     else judge_attempt env ck limits u team (user_mode d = ''teams'') c flags provided d = (Inr reply, d')"
proof -
  from assms obtain team c where t: "submission_team u d = (Inr team, d)" and c: "find_challenge i d = Some c"
    and run: "(if preview
       then and_then (reading (compare_submission env (attempt_account u team) c (challenge_flags (ch_id c) d)
              provided (cu_id u) (user_mode d = ''teams'')) d)
              (\<lambda>comparison d. (Inr (flag_result_response (fst comparison)), d))
       else judge_attempt env ck limits u team (user_mode d = ''teams'') c (challenge_flags (ch_id c) d) provided d)
      = (Inr reply, d')"
    unfolding attempt_body_def revalidate_current_credential_def
    by (auto simp: reading_def found_def Let_def require_def submission_team_eq elim!: and_then_Inr_cases
        dest!: attempt_gate_frame split: option.splits if_splits)
  show ?thesis
    by (rule that [OF t c, of "challenge_flags (ch_id c) d"])
       (use run in \<open>auto simp: reading_def elim!: and_then_Inr_cases split: if_splits\<close>)
qed

text \<open>What the handler leaves: either nothing, with a reply that is not \<open>correct\<close>, or what its
  transaction leaves.\<close>

lemma attempt_cases:
  assumes "attempt env ck fails before (Some u) request ws d = ((r, ws'), d')"
  obtains (refused) "d' = d" "\<And>reply. r = Inr reply \<Longrightarrow> rep_status reply \<noteq> ''correct''"
  | (judged) limits reply where "attempt_limits_of before = Inr limits" "r = Inr reply"
      "attempt_body env ck limits u (is_preview u request) (ar_challenge_id request) (trim (ar_submission request)) d
         = (Inr reply, d')"
proof -
  consider (early) "d' = d" "\<And>reply. r = Inr reply \<Longrightarrow> rep_status reply \<noteq> ''correct''"
    | (inside) limits where "attempt_limits_of before = Inr limits"
      "in_transaction fails (attempt_body env ck limits u (is_preview u request) (ar_challenge_id request)
         (trim (ar_submission request))) d = (r, d')"
    using assms unfolding attempt_def Let_def
    by (auto simp: attempt_response_def split: sum.splits prod.splits if_splits)
  then show ?thesis
  proof cases
    case early
    then show ?thesis by (rule refused)
  next
    case inside
    then show ?thesis
      using refused judged in_transaction_Inl by (cases r) fastforce+
  qed
qed

lemma attempt_leaves_ok:
  assumes "scoreboard_ok d" "attempt_leaves u team c reply d d'"
  shows "scoreboard_ok d'"
  using assms unfolding attempt_leaves_def by (auto intro: recorded_ok solved_ok)

lemma attempt_scoreboard:
  assumes ok: "scoreboard_ok d" and run: "attempt env ck fails before (Some u) request ws d = ((r, ws'), d')"
  shows "scoreboard_ok d'"
  using run
proof (cases rule: attempt_cases)
  case refused
  then show ?thesis using ok by simp
next
  case (judged limits reply)
  show ?thesis using attempt_body_Inr [OF judged(3)] ok judge_attempt_leaves attempt_leaves_ok by metis
qed

text \<open>
  C9. What an attempt does to the scoreboard. An error changes nothing. Outside a preview the answer is
  \<open>correct\<close> exactly when one solve is added, of that challenge and user, by an account that had none, for a
  correct submission recorded with it; no other answer adds or removes a solve, and at most one
  submission is ever recorded.
\<close>

theorem attempt_adds_one_solve:
  assumes "attempt env ck fails before (Some u) request ws d = ((r, ws'), d')"
  shows "case r of
       Inl _ \<Rightarrow> d' = d
     | Inr reply \<Rightarrow>
         (if rep_status reply = ''correct'' \<and> \<not> is_preview u request
          then \<exists>s b. pd_solves d' = pd_solves d @ [s] \<and> pd_submissions d' = pd_submissions d @ [b] \<and> confirms b s \<and>
            slv_user_id s = cu_id u \<and> slv_challenge_id s = ar_challenge_id request \<and>
            \<not> has_solved (attempt_account u (slv_team_id s)) (ar_challenge_id request) d
          else pd_solves d' = pd_solves d \<and>
            (pd_submissions d' = pd_submissions d \<or> (\<exists>b. pd_submissions d' = pd_submissions d @ [b] \<and> sub_type b \<noteq> ''correct'')))"
  using assms
proof (cases rule: attempt_cases)
  case refused
  then show ?thesis by (auto split: sum.splits)
next
  case (judged limits reply)
  obtain team c flags where c: "find_challenge (ar_challenge_id request) d = Some c"
    and left: "if is_preview u request then d' = d
      else judge_attempt env ck limits u team (user_mode d = ''teams'') c flags (trim (ar_submission request)) d = (Inr reply, d')"
    using attempt_body_Inr [OF judged(3)] by metis
  have i: "ch_id c = ar_challenge_id request" using c by (auto simp: find_challenge_def find_Some_iff)
  show ?thesis
  proof (cases "is_preview u request")
    case True
    then show ?thesis using left judged(2) by simp
  next
    case False
    with left have "attempt_leaves u team c reply d d'" by (auto dest: judge_attempt_leaves)
    then show ?thesis using False judged(2) i unfolding attempt_leaves_def by auto
  qed
qed

text \<open>Once the challenge is solved the answer no longer depends on the comparison: a wrong text is also
  told \<open>Correct but you already solved this\<close>.\<close>

lemma solved_answer_ignores_comparison:
  assumes "has_solved (attempt_account u team) (ch_id c) d"
  shows "\<exists>d'. settle_attempt ck u team m c provided (Incorrect message, None) d =
    (Inr (attempt_response Ok_200 ''already_solved'' (Some ''Correct but you already solved this'')), d')"
  using assms by (simp add: settle_attempt_def record_attempt_def record_shared_flag_evidence_def insert_submission_eq)

section \<open>Lockout\<close>

lemma submission_count_append:
  assumes "pd_submissions d' = pd_submissions d @ [b]"
  shows "submission_count a ch since kind d' \<le> submission_count a ch since kind d + 1"
  using assms by (simp add: submission_count_def matching_submissions_def)

lemma attempt_leaves_count:
  assumes "attempt_leaves u team c reply d d'"
  shows "submission_count a ch since kind d' \<le> submission_count a ch since kind d + 1"
  using assms submission_count_append [of d' d] unfolding attempt_leaves_def by auto

lemma locked_out:
  assumes "0 < coalesce (ch_max_attempts c) 0" "al_behavior limits \<noteq> ''timeout''"
    "coalesce (ch_max_attempts c) 0 \<le> submission_count (attempt_account u team) (Some (ch_id c)) None ''incorrect'' d"
    "judge_attempt env ck limits u team m c flags provided d = (Inr reply, d')"
  shows "d' = d \<and> rep_status reply = ''ratelimited''"
  using assms by (auto simp: judge_attempt_def limit_refusal_def Let_def attempt_response_def)

text \<open>
  C25. A lockout is final. Where attempts are limited and the behaviour is not \<open>timeout\<close>, the wrong
  submissions of an account on a challenge never pass the limit by an attempt, and once they have
  reached it no attempt of that account changes anything or is answered \<open>correct\<close>, whatever it
  submits.
\<close>

theorem lockout_is_final:
  assumes run: "attempt env ck fails before (Some u) request ws d = ((r, ws'), d')"
    and live: "\<not> is_preview u request"
      "coalesce (config_string ''max_attempts_behavior'' (before 6)) ''lockout'' \<noteq> ''timeout''"
    and row: "submission_team u d = (Inr team, d)" "find_challenge (ar_challenge_id request) d = Some c"
      "0 < coalesce (ch_max_attempts c) 0"
  shows "submission_count (attempt_account u team) (Some (ch_id c)) None ''incorrect'' d' \<le>
      max (coalesce (ch_max_attempts c) 0)
        (submission_count (attempt_account u team) (Some (ch_id c)) None ''incorrect'' d) \<and>
    (coalesce (ch_max_attempts c) 0 \<le> submission_count (attempt_account u team) (Some (ch_id c)) None ''incorrect'' d
      \<longrightarrow> d' = d \<and> (\<forall>reply. r = Inr reply \<longrightarrow> rep_status reply \<noteq> ''correct''))"
  using run
proof (cases rule: attempt_cases)
  case refused
  then show ?thesis by auto
next
  case (judged limits reply)
  have b: "al_behavior limits \<noteq> ''timeout''"
    using judged(1) live(2) by (auto simp: attempt_limits_of_def split: sum.splits)
  from attempt_body_Inr [OF judged(3)] obtain flags where
    j: "judge_attempt env ck limits u team (user_mode d = ''teams'') c flags (trim (ar_submission request)) d = (Inr reply, d')"
    using live(1) row(1,2) by auto
  show ?thesis
  proof (cases "coalesce (ch_max_attempts c) 0 \<le> submission_count (attempt_account u team) (Some (ch_id c)) None ''incorrect'' d")
    case True
    with locked_out [OF row(3) b True j] judged(2) show ?thesis by simp
  next
    case False
    then show ?thesis
      using attempt_leaves_count [OF judge_attempt_leaves [OF j], of "attempt_account u team" "Some (ch_id c)" None "''incorrect''"]
      by linarith
  qed
qed

end
