(* ===== verification/AdminSubmissions.thy ===== *)
theory AdminSubmissions
  imports AttemptProperties
begin

text \<open>
  The administrator's operations on submissions (\<open>create_submission\<close>, \<open>update_submission\<close>,
  \<open>delete_submission\<close> of \<open>services/api/src/routes/administration.rs\<close>) and the scoreboard that they
  share with the attempts: every sequence of these operations keeps its invariant.

  After its commit a handler reads the row once more, at the tables \<open>after\<close>.
\<close>

section \<open>Operations\<close>

record submission_input =
  sin_challenge_id :: int
  sin_user_id :: int
  sin_team_id :: "int option"
  sin_ip :: "string option"
  sin_provided :: string
  sin_type :: string
  sin_date :: "time option"

record submission_patch =
  spa_type :: "string option"
  spa_provided :: "string option"

definition validate_submission_type :: "string \<Rightarrow> unit answer" where
  "validate_submission_type kind =
     (if kind \<in> {''correct'', ''incorrect'', ''partial'', ''discard'', ''ratelimited''} then Inr ()
      else Inl (bad_request ''Submission type is invalid''))"

definition is_participant :: "int \<Rightarrow> portal_db \<Rightarrow> bool" where
  "is_participant i d \<longleftrightarrow> (case find_user i d of None \<Rightarrow> False | Some a \<Rightarrow> usr_type a = Some ''user'')"

definition canonical_account_team_id ::
  "int \<Rightarrow> int option \<Rightarrow> string \<Rightarrow> portal_db \<Rightarrow> int option answer" where
  "canonical_account_team_id user_id requested record_kind d =
     (if user_mode d = ''users''
      then if requested \<noteq> None
           then Inl (bad_request (''A '' @ record_kind @ '' cannot target a team while competition mode is users''))
           else if \<not> is_participant user_id d
           then Inl (bad_request (''The '' @ record_kind @ '' user is not a participant''))
           else Inr None
      else case (if is_participant user_id d then current_team user_id d else None) of
        None \<Rightarrow> Inl (bad_request (''The '' @ record_kind @ '' user does not belong to a team''))
      | Some assigned \<Rightarrow>
          if requested \<noteq> None \<and> requested \<noteq> Some assigned
          then Inl (bad_request (''The '' @ record_kind @ '' team does not match the user'' @ [CHR 0x27] @ ''s current team''))
          else Inr (Some assigned))"

text \<open>The foreign keys of a submission hold, or the statement fails.\<close>

definition admin_insert_submission :: "time \<Rightarrow> submission_input \<Rightarrow> portal_db \<Rightarrow> int answer \<times> portal_db" where
  "admin_insert_submission db_now i d =
     (if find_challenge (sin_challenge_id i) d = None \<or> find_user (sin_user_id i) d = None \<or>
         (case sin_team_id i of None \<Rightarrow> False | Some t \<Rightarrow> find_team t d = None)
      then (Inl database_error, d)
      else (Inr (pd_next_submission d),
        d\<lparr>pd_submissions := pd_submissions d @ [\<lparr>sub_id = pd_next_submission d,
             sub_challenge_id = sin_challenge_id i, sub_user_id = sin_user_id i, sub_team_id = sin_team_id i,
             sub_ip = sin_ip i, sub_provided = sin_provided i, sub_type = sin_type i,
             sub_date = coalesce (sin_date i) db_now\<rparr>],
          pd_next_submission := pd_next_submission d + 1\<rparr>))"

text \<open>\<open>map_admin_database_error\<close>: a violated uniqueness is a conflict.\<close>

definition admin_insert_solve :: "solve \<Rightarrow> portal_db \<Rightarrow> unit answer \<times> portal_db" where
  "admin_insert_solve s d =
     (case insert_solve s d of
        (Inl _, d') \<Rightarrow> (Inl (conflict ''A record with these values already exists''), d')
      | (Inr x, d') \<Rightarrow> (Inr x, d'))"

definition load_submission :: "int \<Rightarrow> portal_db \<Rightarrow> submission answer" where
  "load_submission i d =
     found (not_found ''Submission not found'') (List.find (\<lambda>b. sub_id b = i) (pd_submissions d))"

definition committed :: "portal_db \<Rightarrow> int answer \<times> portal_db \<Rightarrow> submission answer \<times> portal_db" where
  "committed after r = (case r of (Inl e, d) \<Rightarrow> (Inl e, d) | (Inr i, d) \<Rightarrow> (load_submission i after, d))"

definition insert_correct :: "time \<Rightarrow> submission_input \<Rightarrow> portal_db \<Rightarrow> int answer \<times> portal_db" where
  "insert_correct db_now i d =
     and_then (admin_insert_submission db_now i d) (\<lambda>n d.
     and_then (admin_insert_solve \<lparr>slv_id = n, slv_challenge_id = sin_challenge_id i,
         slv_user_id = sin_user_id i, slv_team_id = sin_team_id i\<rparr> d) (\<lambda>_ d. (Inr n, d)))"

definition create_submission_body ::
  "time \<Rightarrow> int \<Rightarrow> current_user \<Rightarrow> submission_input \<Rightarrow> portal_db \<Rightarrow> int answer \<times> portal_db" where
  "create_submission_body db_now lifetime u input d =
     and_then (revalidate_current_credential db_now lifetime u d) (\<lambda>_ d.
     and_then (reading (canonical_account_team_id (sin_user_id input) (sin_team_id input) ''submission'') d)
       (\<lambda>team d. let input = input\<lparr>sin_team_id := team\<rparr> in
          if sin_type input = ''correct'' then insert_correct db_now input d
          else admin_insert_submission db_now input d))"

definition create_submission ::
  "time \<Rightarrow> int \<Rightarrow> bool \<Rightarrow> portal_db \<Rightarrow> current_user \<Rightarrow> submission_input
   \<Rightarrow> portal_db \<Rightarrow> submission answer \<times> portal_db" where
  "create_submission db_now lifetime database_fails after u input d =
     and_then (require_admin u d) (\<lambda>_ d.
     and_then (validate_submission_type (sin_type input), d) (\<lambda>_ d.
       committed after (in_transaction database_fails (create_submission_body db_now lifetime u input) d)))"

definition discard_submission :: "int \<Rightarrow> portal_db \<Rightarrow> portal_db" where
  "discard_submission i d = d\<lparr>pd_submissions :=
     update_where (\<lambda>b. sub_id b = i) (\<lambda>b. b\<lparr>sub_type := ''discard''\<rparr>) (pd_submissions d)\<rparr>"

definition patch_submission :: "int \<Rightarrow> string \<Rightarrow> string option \<Rightarrow> portal_db \<Rightarrow> portal_db" where
  "patch_submission i kind provided d = d\<lparr>pd_submissions :=
     update_where (\<lambda>b. sub_id b = i)
       (\<lambda>b. b\<lparr>sub_type := kind, sub_provided := coalesce provided (sub_provided b)\<rparr>) (pd_submissions d)\<rparr>"

definition delete_solve :: "int \<Rightarrow> portal_db \<Rightarrow> portal_db" where
  "delete_solve i d = d\<lparr>pd_solves := filter (\<lambda>s. slv_id s \<noteq> i) (pd_solves d)\<rparr>"

text \<open>A submission that becomes correct is discarded and copied, with a solve.\<close>

definition change_submission ::
  "time \<Rightarrow> int \<Rightarrow> submission_patch \<Rightarrow> submission \<Rightarrow> int option \<Rightarrow> portal_db \<Rightarrow> int answer \<times> portal_db" where
  "change_submission db_now submission_id patch current team d =
     (let requested = coalesce (spa_type patch) (sub_type current) in
      if sub_type current \<noteq> ''correct'' \<and> requested = ''correct''
      then and_then (insert_correct db_now \<lparr>sin_challenge_id = sub_challenge_id current,
               sin_user_id = sub_user_id current, sin_team_id = team, sin_ip = sub_ip current,
               sin_provided = coalesce (spa_provided patch) (sub_provided current),
               sin_type = ''correct'', sin_date = Some (sub_date current)\<rparr> d)
             (\<lambda>n d. (Inr n, discard_submission submission_id d))
      else (Inr submission_id, patch_submission submission_id requested (spa_provided patch)
        (if sub_type current = ''correct'' \<and> requested \<noteq> ''correct'' then delete_solve submission_id d else d)))"

definition update_submission_body ::
  "time \<Rightarrow> int \<Rightarrow> current_user \<Rightarrow> int \<Rightarrow> submission_patch \<Rightarrow> portal_db \<Rightarrow> int answer \<times> portal_db" where
  "update_submission_body db_now lifetime u submission_id patch d =
     and_then (revalidate_current_credential db_now lifetime u d) (\<lambda>_ d.
     and_then (reading (load_submission submission_id) d) (\<lambda>current d.
     and_then (validate_submission_type (coalesce (spa_type patch) (sub_type current)), d) (\<lambda>_ d.
     and_then (reading (canonical_account_team_id (sub_user_id current) (sub_team_id current) ''submission'') d)
       (\<lambda>team d. change_submission db_now submission_id patch current team d))))"

definition update_submission ::
  "time \<Rightarrow> int \<Rightarrow> bool \<Rightarrow> portal_db \<Rightarrow> current_user \<Rightarrow> int \<Rightarrow> submission_patch
   \<Rightarrow> portal_db \<Rightarrow> submission answer \<times> portal_db" where
  "update_submission db_now lifetime database_fails after u submission_id patch d =
     and_then (require_admin u d) (\<lambda>_ d.
       committed after (in_transaction database_fails (update_submission_body db_now lifetime u submission_id patch) d))"

text \<open>\<open>delete_integer_id\<close> on \<open>submissions\<close>; the solve goes with its submission.\<close>

definition delete_submission_body ::
  "time \<Rightarrow> int \<Rightarrow> current_user \<Rightarrow> int \<Rightarrow> portal_db \<Rightarrow> unit answer \<times> portal_db" where
  "delete_submission_body db_now lifetime u submission_id d =
     and_then (revalidate_current_credential db_now lifetime u d) (\<lambda>_ d.
     and_then (require (\<exists>b \<in> set (pd_submissions d). sub_id b = submission_id) (not_found ''Record not found'') d)
       (\<lambda>_ d. (Inr (), delete_solve submission_id d\<lparr>pd_submissions :=
          filter (\<lambda>b. sub_id b \<noteq> submission_id) (pd_submissions d)\<rparr>)))"

definition delete_submission ::
  "time \<Rightarrow> int \<Rightarrow> bool \<Rightarrow> current_user \<Rightarrow> int \<Rightarrow> portal_db \<Rightarrow> unit answer \<times> portal_db" where
  "delete_submission db_now lifetime database_fails u submission_id d =
     and_then (require_admin u d) (\<lambda>_ d.
       in_transaction database_fails (delete_submission_body db_now lifetime u submission_id) d)"

section \<open>They keep the scoreboard\<close>

lemma admin_insert_submission_Inr:
  assumes "admin_insert_submission db_now i d = (Inr n, d')"
  obtains b where "d' = recorded b [] d" "fresh_record b [] d" "n = sub_id b" "sub_type b = sin_type i"
    "sub_challenge_id b = sin_challenge_id i" "sub_user_id b = sin_user_id i" "sub_team_id b = sin_team_id i"
proof -
  let ?b = "\<lparr>sub_id = pd_next_submission d, sub_challenge_id = sin_challenge_id i, sub_user_id = sin_user_id i,
    sub_team_id = sin_team_id i, sub_ip = sin_ip i, sub_provided = sin_provided i, sub_type = sin_type i,
    sub_date = coalesce (sin_date i) db_now\<rparr>"
  have "n = pd_next_submission d" "d' = recorded ?b [] d"
    using assms by (auto simp: admin_insert_submission_def recorded_def split: if_splits)
  then show ?thesis by (intro that [of ?b]) (simp_all add: fresh_record_def)
qed

lemma insert_correct_ok:
  assumes "scoreboard_ok d" "insert_correct db_now i d = (Inr n, d')" "sin_type i = ''correct''"
  shows "scoreboard_ok d' \<and> n = pd_next_submission d \<and>
    (\<exists>b. pd_submissions d' = pd_submissions d @ [b] \<and> sub_id b = n)"
proof -
  from assms(2) obtain d1 where ins: "admin_insert_submission db_now i d = (Inr n, d1)"
    and slv: "admin_insert_solve \<lparr>slv_id = n, slv_challenge_id = sin_challenge_id i,
         slv_user_id = sin_user_id i, slv_team_id = sin_team_id i\<rparr> d1 = (Inr (), d')"
    by (auto simp: insert_correct_def elim!: and_then_Inr_cases)
  obtain b where b: "d1 = recorded b [] d" "fresh_record b [] d" "n = sub_id b" "sub_type b = sin_type i"
    "sub_challenge_id b = sin_challenge_id i" "sub_user_id b = sin_user_id i" "sub_team_id b = sin_team_id i"
    using admin_insert_submission_Inr [OF ins] .
  let ?s = "\<lparr>slv_id = n, slv_challenge_id = sin_challenge_id i, slv_user_id = sin_user_id i, slv_team_id = sin_team_id i\<rparr>"
  from slv have s: "\<not> (\<exists>r \<in> set (pd_solves d1). solve_conflict ?s r)" "d' = d1\<lparr>pd_solves := pd_solves d1 @ [?s]\<rparr>"
    by (auto simp: admin_insert_solve_def insert_solve_def split: if_splits)
  have "scoreboard_ok d'"
    by (rule solved_ok [OF assms(1) b(2), of ?s]) (use b s assms(3) in \<open>simp_all add: confirms_def\<close>)
  then show ?thesis using b s by (auto simp: fresh_record_def)
qed

text \<open>Changing a submission in place, and removing one with its solve.\<close>

definition keeps_identity :: "(submission \<Rightarrow> submission) \<Rightarrow> bool" where
  "keeps_identity f \<longleftrightarrow> (\<forall>b. sub_id (f b) = sub_id b \<and> sub_challenge_id (f b) = sub_challenge_id b \<and>
     sub_user_id (f b) = sub_user_id b \<and> sub_team_id (f b) = sub_team_id b)"

lemma changed_submissions:
  assumes "keeps_identity f" "submissions_ok d" "sharing_ok d"
    "pd_submissions d' = update_where P f (pd_submissions d)" "pd_next_submission d' = pd_next_submission d"
    "pd_sharing d' = pd_sharing d"
  shows "submissions_ok d'" "sharing_ok d'"
proof -
  have "map sub_id (update_where P f bs) = map sub_id bs" for bs
    using assms(1) by (simp add: update_where_def keeps_identity_def)
  moreover have "\<forall>b \<in> set (update_where P f (pd_submissions d)). sub_id b < pd_next_submission d"
    using assms(1,2) by (auto simp: submissions_ok_def set_update_where keeps_identity_def)
  ultimately show "submissions_ok d'" using assms(2,4,5) by (simp add: submissions_ok_def)
  show "sharing_ok d'"
    using assms(1,3-6) by (auto simp: sharing_ok_def event_ok_def set_update_where keeps_identity_def)
qed

lemma retyped_solves:
  assumes "keeps_identity f" "solves_ok d" "pd_solves d' = pd_solves d"
    "pd_submissions d' = update_where (\<lambda>b. sub_id b = i) f (pd_submissions d)"
    "\<And>b. b \<in> set (pd_submissions d) \<Longrightarrow> sub_id b = i \<Longrightarrow> sub_type (f b) = ''correct'' \<longleftrightarrow> sub_type b = ''correct''"
  shows "solves_ok d'"
proof -
  define g where "g b = (if sub_id b = i then f b else b)" for b
  have g: "confirms (g b) s \<longleftrightarrow> confirms b s" "sub_type (g b) = ''correct'' \<longleftrightarrow> sub_type b = ''correct''"
    if "b \<in> set (pd_submissions d)" for b s
    using assms(1) assms(5) [OF that] by (auto simp: g_def confirms_def keeps_identity_def)
  have "set (pd_submissions d') = g ` set (pd_submissions d)" using assms(4) by (simp only: update_where_def set_map g_def [abs_def])
  then show ?thesis using assms(2,3) g unfolding solves_ok_def by simp
qed

lemma withdrawn_solves:
  assumes "solves_ok d" "pd_solves d' = filter (\<lambda>s. slv_id s \<noteq> i) (pd_solves d)"
    "\<And>b. sub_id b \<noteq> i \<Longrightarrow> b \<in> set (pd_submissions d') \<longleftrightarrow> b \<in> set (pd_submissions d)"
    "\<And>b. b \<in> set (pd_submissions d') \<Longrightarrow> sub_id b = i \<Longrightarrow> sub_type b \<noteq> ''correct''"
  shows "solves_ok d'"
  unfolding solves_ok_def
proof (intro conjI ballI impI)
  show "sorted_wrt (\<lambda>r s. \<not> solve_conflict s r) (pd_solves d')"
    using assms(1,2) by (simp add: solves_ok_def sorted_wrt_filter)
next
  fix s assume "s \<in> set (pd_solves d')"
  then have s: "s \<in> set (pd_solves d)" "slv_id s \<noteq> i" using assms(2) by auto
  with assms(1) obtain b where "b \<in> set (pd_submissions d)" "confirms b s" by (auto simp: solves_ok_def)
  with assms(3) [of b] s(2) show "\<exists>b \<in> set (pd_submissions d'). confirms b s" by (auto simp: confirms_def)
next
  fix b assume b: "b \<in> set (pd_submissions d')" "sub_type b = ''correct''"
  with assms(4) have i: "sub_id b \<noteq> i" by blast
  with b assms(3) have "b \<in> set (pd_submissions d)" by simp
  with b(2) assms(1) obtain s where "s \<in> set (pd_solves d)" "confirms b s" by (auto simp: solves_ok_def)
  with i assms(2) show "\<exists>s \<in> set (pd_solves d'). confirms b s" by (auto simp: confirms_def)
qed

lemma patched_identity: "keeps_identity (\<lambda>b. b\<lparr>sub_type := kind, sub_provided := coalesce p (sub_provided b)\<rparr>)"
  "keeps_identity (\<lambda>b. b\<lparr>sub_type := kind\<rparr>)"
  by (simp_all add: keeps_identity_def)

lemma discard_ok:
  assumes "scoreboard_ok d" "\<And>b. b \<in> set (pd_submissions d) \<Longrightarrow> sub_id b = i \<Longrightarrow> sub_type b \<noteq> ''correct''"
  shows "scoreboard_ok (discard_submission i d)"
proof -
  let ?d = "discard_submission i d"
  have "pd_submissions ?d = update_where (\<lambda>b. sub_id b = i) (\<lambda>b. b\<lparr>sub_type := ''discard''\<rparr>) (pd_submissions d)"
    by (simp add: discard_submission_def)
  from changed_submissions [OF patched_identity(2) _ _ this] retyped_solves [OF patched_identity(2) _ _ this] assms
  show ?thesis by (auto simp: scoreboard_ok_def discard_submission_def)
qed

lemma patch_ok:
  assumes "scoreboard_ok d"
    "\<And>b. b \<in> set (pd_submissions d) \<Longrightarrow> sub_id b = i \<Longrightarrow> kind = ''correct'' \<longleftrightarrow> sub_type b = ''correct''"
  shows "scoreboard_ok (patch_submission i kind p d)"
proof -
  let ?d = "patch_submission i kind p d"
  have "pd_submissions ?d = update_where (\<lambda>b. sub_id b = i)
      (\<lambda>b. b\<lparr>sub_type := kind, sub_provided := coalesce p (sub_provided b)\<rparr>) (pd_submissions d)"
    by (simp add: patch_submission_def)
  from changed_submissions [OF patched_identity(1) _ _ this] retyped_solves [OF patched_identity(1) _ _ this] assms
  show ?thesis by (auto simp: scoreboard_ok_def patch_submission_def)
qed

lemma demote_ok:
  assumes "scoreboard_ok d" "kind \<noteq> ''correct''"
  shows "scoreboard_ok (patch_submission i kind p (delete_solve i d))"
proof -
  let ?d = "patch_submission i kind p (delete_solve i d)"
  have u: "pd_submissions ?d = update_where (\<lambda>b. sub_id b = i)
      (\<lambda>b. b\<lparr>sub_type := kind, sub_provided := coalesce p (sub_provided b)\<rparr>) (pd_submissions d)"
    by (simp add: patch_submission_def delete_solve_def)
  have "b \<in> set (pd_submissions ?d) \<longleftrightarrow> b \<in> set (pd_submissions d)" if "sub_id b \<noteq> i" for b
    unfolding u set_update_where using that by auto
  moreover have "sub_type b \<noteq> ''correct''" if "b \<in> set (pd_submissions ?d)" "sub_id b = i" for b
    using that(1) unfolding u set_update_where
    by (elim UnE imageE) (use assms(2) that(2) in \<open>simp_all\<close>)
  moreover have "pd_solves ?d = filter (\<lambda>s. slv_id s \<noteq> i) (pd_solves d)"
    by (simp add: patch_submission_def delete_solve_def)
  ultimately have "solves_ok ?d"
    using assms(1) withdrawn_solves unfolding scoreboard_ok_def by blast
  with changed_submissions [OF patched_identity(1) _ _ u] assms(1) show ?thesis
    by (auto simp: scoreboard_ok_def patch_submission_def delete_solve_def)
qed

lemma removed_ok:
  assumes "scoreboard_ok d"
  shows "scoreboard_ok (delete_solve i d\<lparr>pd_submissions := filter (\<lambda>b. sub_id b \<noteq> i) (pd_submissions d)\<rparr>)" (is "scoreboard_ok ?d")
proof -
  have "solves_ok ?d"
    by (rule withdrawn_solves [where d = d and i = i]) (use assms in \<open>simp_all add: scoreboard_ok_def delete_solve_def\<close>)
  moreover have "submissions_ok ?d"
    using assms by (simp add: scoreboard_ok_def submissions_ok_def delete_solve_def distinct_map_filter)
  moreover have "sharing_ok ?d"
    using assms by (simp add: scoreboard_ok_def sharing_ok_def event_ok_def delete_solve_def)
  ultimately show ?thesis by (simp add: scoreboard_ok_def)
qed

section \<open>All operations together\<close>

lemma committed_state [simp]: "snd (committed after r) = snd r"
  by (auto simp: committed_def split: prod.splits sum.splits)

lemma create_submission_ok:
  assumes "scoreboard_ok d"
  shows "scoreboard_ok (snd (create_submission db_now lifetime fails after u input d))"
proof -
  have "scoreboard_ok d'" if body: "create_submission_body db_now lifetime u input d = (Inr n, d')" for n d'
  proof -
    obtain team where run: "(if sin_type input = ''correct'' then insert_correct db_now (input\<lparr>sin_team_id := team\<rparr>) d
        else admin_insert_submission db_now (input\<lparr>sin_team_id := team\<rparr>) d) = (Inr n, d')"
      using body unfolding create_submission_body_def Let_def
      by (elim and_then_Inr_cases) (auto simp: reading_def dest!: revalidate_Inr)
    show ?thesis
    proof (cases "sin_type input = ''correct''")
      case True
      with run insert_correct_ok [OF assms] show ?thesis by simp
    next
      case False
      with run obtain b where "d' = recorded b [] d" "fresh_record b [] d" "sub_type b = sin_type input"
        by (auto elim!: admin_insert_submission_Inr)
      with False recorded_ok [OF assms] show ?thesis by simp
    qed
  qed
  from transaction_keeps [of scoreboard_ok d "create_submission_body db_now lifetime u input", OF assms this]
  show ?thesis
    by (cases "validate_submission_type (sin_type input)")
       (simp_all add: create_submission_def require_admin_def require_def assms)
qed

lemma load_submission_row:
  assumes "load_submission i d = Inr q"
  shows "q \<in> set (pd_submissions d) \<and> sub_id q = i"
  using assms by (auto simp: load_submission_def found_def find_Some_iff split: option.splits)

lemma loaded_row:
  assumes "scoreboard_ok d" "load_submission i d = Inr q" "b \<in> set (pd_submissions d)" "sub_id b = i"
  shows "b = q"
  using assms load_submission_row [OF assms(2)]
  by (auto simp: scoreboard_ok_def submissions_ok_def distinct_map dest: inj_onD)

lemma promoted_ok:
  assumes ok: "scoreboard_ok d" and run: "insert_correct db_now x d = (Inr n, d')" "sin_type x = ''correct''"
    and q: "load_submission i d = Inr q" "sub_type q \<noteq> ''correct''"
  shows "scoreboard_ok (discard_submission i d')"
proof -
  obtain b where b: "scoreboard_ok d'" "pd_submissions d' = pd_submissions d @ [b]" "sub_id b = pd_next_submission d"
    using insert_correct_ok [OF ok run] by blast
  have "i \<noteq> pd_next_submission d"
    using load_submission_row [OF q(1)] ok by (auto simp: scoreboard_ok_def submissions_ok_def)
  with b loaded_row [OF ok q(1)] q(2) show ?thesis by (intro discard_ok) auto
qed

lemma patched_ok:
  assumes ok: "scoreboard_ok d" and q: "load_submission i d = Inr q"
    and kind: "\<not> (sub_type q \<noteq> ''correct'' \<and> kind = ''correct'')"
  shows "scoreboard_ok (patch_submission i kind p (if sub_type q = ''correct'' \<and> kind \<noteq> ''correct''
      then delete_solve i d else d))"
proof (cases "sub_type q = ''correct'' \<and> kind \<noteq> ''correct''")
  case True
  with demote_ok [OF ok] show ?thesis by simp
next
  case False
  with kind have "kind = ''correct'' \<longleftrightarrow> sub_type q = ''correct''" by blast
  with patch_ok [OF ok] loaded_row [OF ok q] have "scoreboard_ok (patch_submission i kind p d)" by blast
  with False show ?thesis by (simp only: if_False)
qed

lemma change_submission_ok:
  assumes ok: "scoreboard_ok d" and q: "load_submission i d = Inr q"
    and run: "change_submission db_now i patch q team d = (Inr n, d')"
  shows "scoreboard_ok d'"
proof (cases "sub_type q \<noteq> ''correct'' \<and> coalesce (spa_type patch) (sub_type q) = ''correct''")
  case True
  with run obtain x d1 where "insert_correct db_now x d = (Inr n, d1)" "sin_type x = ''correct''"
      "d' = discard_submission i d1"
    unfolding change_submission_def Let_def by (auto elim!: and_then_Inr_cases)
  with promoted_ok [OF ok _ _ q] True show ?thesis by auto
next
  case False
  with run have "d' = patch_submission i (coalesce (spa_type patch) (sub_type q)) (spa_provided patch)
      (if sub_type q = ''correct'' \<and> coalesce (spa_type patch) (sub_type q) \<noteq> ''correct'' then delete_solve i d else d)"
    unfolding change_submission_def Let_def by (simp only: if_False prod.inject)
  with patched_ok [OF ok q False] show ?thesis by simp
qed

lemma update_submission_ok:
  assumes "scoreboard_ok d"
  shows "scoreboard_ok (snd (update_submission db_now lifetime fails after u i patch d))"
proof -
  have "scoreboard_ok d'" if body: "update_submission_body db_now lifetime u i patch d = (Inr n, d')" for n d'
  proof -
    obtain q team where "load_submission i d = Inr q" "change_submission db_now i patch q team d = (Inr n, d')"
      using body unfolding update_submission_body_def
      by (elim and_then_Inr_cases) (auto simp: reading_def dest!: revalidate_Inr)
    then show ?thesis using change_submission_ok [OF assms] by blast
  qed
  from transaction_keeps [of scoreboard_ok d "update_submission_body db_now lifetime u i patch", OF assms this]
  show ?thesis by (simp add: update_submission_def require_admin_def require_def assms)
qed

lemma delete_submission_ok:
  assumes "scoreboard_ok d"
  shows "scoreboard_ok (snd (delete_submission db_now lifetime fails u i d))"
proof -
  have "scoreboard_ok d'" if "delete_submission_body db_now lifetime u i d = (Inr n, d')" for n d'
    using that removed_ok [OF assms, of i] unfolding delete_submission_body_def
    by (elim and_then_Inr_cases) (auto simp: require_def dest!: revalidate_Inr)
  from transaction_keeps [of scoreboard_ok d "delete_submission_body db_now lifetime u i", OF assms this]
  show ?thesis by (simp add: delete_submission_def require_admin_def require_def assms)
qed

text \<open>A step is one of these operations, by anyone and with any failure, or a commit that leaves the
  three tables alone.\<close>

inductive scoreboard_step :: "portal_db \<Rightarrow> portal_db \<Rightarrow> bool" where
  attempted: "attempt env ck fails before (Some u) request ws d = (x, d') \<Longrightarrow> scoreboard_step d d'"
| created: "create_submission db_now lifetime fails after u input d = (y, d') \<Longrightarrow> scoreboard_step d d'"
| updated: "update_submission db_now lifetime fails after u i patch d = (y, d') \<Longrightarrow> scoreboard_step d d'"
| deleted: "delete_submission db_now lifetime fails u i d = (z, d') \<Longrightarrow> scoreboard_step d d'"
| elsewhere: "pd_submissions d' = pd_submissions d \<Longrightarrow> pd_solves d' = pd_solves d \<Longrightarrow>
    pd_sharing d' = pd_sharing d \<Longrightarrow> pd_next_submission d' = pd_next_submission d \<Longrightarrow> scoreboard_step d d'"

lemma scoreboard_elsewhere:
  "scoreboard_ok d \<Longrightarrow> pd_submissions d' = pd_submissions d \<Longrightarrow> pd_solves d' = pd_solves d \<Longrightarrow>
   pd_sharing d' = pd_sharing d \<Longrightarrow> pd_next_submission d' = pd_next_submission d \<Longrightarrow> scoreboard_ok d'"
  by (simp add: scoreboard_defs)

lemma scoreboard_step_ok: "scoreboard_step d d' \<Longrightarrow> scoreboard_ok d \<Longrightarrow> scoreboard_ok d'"
proof (induction rule: scoreboard_step.induct)
  case (attempted env ck fails before u request ws d x d')
  then show ?case by (cases x) (auto dest: attempt_scoreboard)
next
  case (created db_now lifetime fails after u input d y d')
  then show ?case using create_submission_ok by (metis snd_conv)
next
  case (updated db_now lifetime fails after u i patch d y d')
  then show ?case using update_submission_ok by (metis snd_conv)
next
  case (deleted db_now lifetime fails u i d z d')
  then show ?case using delete_submission_ok by (metis snd_conv)
next
  case (elsewhere d' d)
  then show ?case using scoreboard_elsewhere by blast
qed

text \<open>
  C10. Every history of the scoreboard is consistent. From tables that satisfy the invariant, such as empty
  ones, no sequence of attempts and administrator's creations, changes and deletions of submissions, with
  other commits in between and any of them failing, ever leads to an account with two solves of a
  challenge, to a solve without a correct submission of the same user, team and challenge, or to a
  correct submission without its solve.
\<close>

theorem scoreboard_histories:
  assumes "scoreboard_step\<^sup>*\<^sup>* d d'" "scoreboard_ok d"
  shows "scoreboard_ok d' \<and>
    length (filter (\<lambda>s. solve_of a s \<and> slv_challenge_id s = i) (pd_solves d')) \<le> 1 \<and>
    (\<forall>s \<in> set (pd_solves d'). \<exists>b \<in> set (pd_submissions d'). confirms b s) \<and>
    (\<forall>b \<in> set (pd_submissions d'). sub_type b = ''correct'' \<longrightarrow> (\<exists>s \<in> set (pd_solves d'). confirms b s))"
proof -
  from assms have ok: "scoreboard_ok d'" by (induction rule: rtranclp_induct) (auto intro: scoreboard_step_ok)
  then show ?thesis using one_solve [OF ok] by (simp add: scoreboard_ok_def solves_ok_def)
qed

end
