(* ===== verification/PortalExamples.thy ===== *)
theory PortalExamples
  imports AdminSubmissions FlagAssignments
begin

text \<open>
  A portal with one participant, one challenge and one fixed flag, on which the theorems about
  attempts and submissions are applied.
\<close>

section \<open>A portal and its participant\<close>

definition sample_user :: user_row where
  "sample_user = \<lparr>usr_id = 4, usr_name = Some ''ann'', usr_email = None, usr_type = Some ''user'',
     usr_team_id = None, usr_verified = True, usr_banned = None, usr_hidden = None, usr_change_password = None\<rparr>"

definition sample_challenge :: challenge_row where
  "sample_challenge = \<lparr>ch_id = 6, ch_type = Some ''dynamic'', ch_state = ''visible'', ch_logic = ''any'',
     ch_exposure = ''public'', ch_max_attempts = Some 2, ch_value = Some 500,
     ch_scoring = \<lparr>sc_function = Some ''linear'', sc_initial = Some 500, sc_minimum = Some 100, sc_decay = Some 50\<rparr>,
     ch_dynamic = None, ch_requirements = None\<rparr>"

definition fixed_flag :: stored_flag where
  "fixed_flag = \<lparr>fl_id = 3, fl_challenge_id = 6, fl_type = ''static'', fl_content = ''flag'',
     fl_data = JObj [], fl_revision = 1\<rparr>"

definition sample_session :: session_row where
  "sample_session = \<lparr>ses_id = ''s'', ses_user_id = 4, ses_last_seen = 0, ses_last_ip = ''ip'', ses_revoked_at = None\<rparr>"

definition sample_board :: portal_db where
  "sample_board = sample_portal\<lparr>pd_users := [sample_user], pd_challenges := [sample_challenge],
     pd_flags := [fixed_flag], pd_sessions := [sample_session], pd_next_submission := 1\<rparr>"

definition sample_caller :: current_user where
  "sample_caller = \<lparr>cu_id = 4, cu_type = ''user'', cu_team_id = None, cu_verified = True,
     cu_credential = Internal_Session ''s'', cu_request_ip = ''ip'', cu_ip_changed = False\<rparr>"

definition sample_attempt_env :: attempt_env where
  "sample_attempt_env = \<lparr>ae_flags = sample_flag_env, ae_secret_key = ''key'', ae_session_lifetime = 3600\<rparr>"

definition sample_clocks :: clocks where
  "sample_clocks = \<lparr>ck_instant = 0, ck_app = secs 100, ck_db = secs 100, ck_unix = 100\<rparr>"

definition sample_limits :: attempt_limits where
  "sample_limits = \<lparr>al_incorrect = 10, al_behavior = ''lockout'', al_timeout = 300\<rparr>"

definition request_of :: "string \<Rightarrow> attempt_request" where
  "request_of t = \<lparr>ar_challenge_id = 6, ar_submission = t, ar_preview = None\<rparr>"

abbreviation sample_attempt :: "string \<Rightarrow> (attempt_reply answer \<times> windows) \<times> portal_db" where
  "sample_attempt t \<equiv> attempt sample_attempt_env sample_clocks False (\<lambda>_. sample_board) (Some sample_caller)
     (request_of t) Map.empty sample_board"

lemma sample_gates:
  "require_challenge_visibility (Some sample_caller) sample_board = Inr ()"
  "require_ctf_time 100 (Some sample_caller) sample_board = Inr ()"
  "require_verified (Some sample_caller) sample_board = Inr ()"
  "config_bool ''paused'' False sample_board = False"
  "attempt_limits_of (\<lambda>_. sample_board) = Inr sample_limits"
  "is_admin sample_caller = False"
  "fst (allow ''challenge_attempt'' (show_int (cu_id sample_caller)) 10 (secs 5) 0 Map.empty) = True"
  by code_simp+

lemma sample_attempt_body:
  assumes "t \<noteq> []" "(of_char (hd t) :: nat) \<in> {97..122}" "(of_char (last t) :: nat) \<in> {97..122}"
    "length t \<le> 4096" "CHR 0x00 \<notin> set t"
    "attempt_body sample_attempt_env sample_clocks sample_limits sample_caller False 6 t sample_board = (Inr reply, d')"
  shows "\<exists>ws. sample_attempt t = ((Inr reply, ws), d')"
proof -
  obtain ws where ws: "allow ''challenge_attempt'' (show_int (cu_id sample_caller)) 10 (secs 5) 0 Map.empty = (True, ws)"
    using sample_gates(7) by (metis prod.collapse)
  have "trim t = t" using assms(1-3) by (simp add: trim_letters)
  moreover have "ck_unix sample_clocks = 100" "ck_instant sample_clocks = 0" by (simp_all add: sample_clocks_def)
  ultimately show ?thesis
    using assms ws by (simp add: attempt_def sample_gates request_of_def is_preview_def in_transaction_def Let_def)
qed

lemma sample_correct:
  "fst (attempt_body sample_attempt_env sample_clocks sample_limits sample_caller False 6 ''flag'' sample_board) =
     Inr (attempt_response Ok_200 ''correct'' (Some ''Correct''))"
  by code_simp

lemma sample_run:
  obtains ws d where "sample_attempt ''flag'' = ((Inr (attempt_response Ok_200 ''correct'' (Some ''Correct'')), ws), d)"
proof -
  obtain d where "attempt_body sample_attempt_env sample_clocks sample_limits sample_caller False 6 ''flag'' sample_board =
      (Inr (attempt_response Ok_200 ''correct'' (Some ''Correct'')), d)"
    using sample_correct by (metis prod.collapse)
  from sample_attempt_body [OF _ _ _ _ _ this] that show ?thesis by auto
qed

lemma sample_no_preview: "\<not> is_preview sample_caller (request_of t)"
  by (simp add: is_preview_def sample_caller_def is_admin_def)

lemma sample_board_fields:
  "pd_solves sample_board = []" "pd_submissions sample_board = []" "pd_sharing sample_board = []"
  by (simp_all add: sample_board_def sample_portal_def)

section \<open>The theorems on it\<close>

theorem comparison_gives_verdict_witness:
  "\<exists>r shared. compare_submission sample_attempt_env (User_Account 4) sample_challenge [fixed_flag] ''flag'' 4 False sample_board
     = Inr (r, shared)"
proof -
  have "\<not> isl (evaluates sample_attempt_env (ch_id sample_challenge) 4 sample_board fixed_flag t)" for t
    by (simp add: evaluates_def flag_matches_def fixed_flag_def policy_fields_def)
  then show ?thesis
    using comparison_gives_verdict [of "[fixed_flag]" sample_attempt_env "User_Account 4" sample_challenge "''flag''" 4 False sample_board]
    by simp
qed

theorem attempt_adds_one_solve_witness:
  "\<exists>ws d s. sample_attempt ''flag'' = ((Inr (attempt_response Ok_200 ''correct'' (Some ''Correct'')), ws), d) \<and>
     pd_solves d = [s] \<and> slv_user_id s = 4"
proof -
  obtain ws d where run: "sample_attempt ''flag'' = ((Inr (attempt_response Ok_200 ''correct'' (Some ''Correct'')), ws), d)"
    by (rule sample_run)
  from attempt_adds_one_solve [OF run] sample_no_preview run show ?thesis
    by (auto simp: attempt_response_def sample_board_fields sample_caller_def)
qed

theorem lockout_is_final_witness:
  "\<exists>r ws d. sample_attempt ''flag'' = ((r, ws), d) \<and>
     submission_count (User_Account 4) (Some 6) None ''incorrect'' d \<le> 2"
proof -
  obtain r ws d where run: "sample_attempt ''flag'' = ((r, ws), d)" by (metis prod.collapse)
  have row: "submission_team sample_caller sample_board = (Inr None, sample_board)"
      "find_challenge (ar_challenge_id (request_of ''flag'')) sample_board = Some sample_challenge"
      "coalesce (config_string ''max_attempts_behavior'' sample_board) ''lockout'' \<noteq> ''timeout''"
    by (simp_all add: submission_team_def user_mode_def config_string_def sample_board_def sample_portal_def
        find_challenge_def request_of_def sample_challenge_def coalesce_def)
  have "submission_count a ch t k sample_board = 0" for a ch t k
    by (simp add: submission_count_def matching_submissions_def sample_board_fields)
  with lockout_is_final [OF run sample_no_preview row(3,1,2)] run show ?thesis
    by (auto simp: sample_challenge_def sample_caller_def attempt_account_def coalesce_def)
qed

theorem scoreboard_histories_witness:
  "\<exists>d. scoreboard_step\<^sup>*\<^sup>* sample_board d \<and> scoreboard_ok d \<and> (\<exists>s. pd_solves d = [s])"
proof -
  obtain ws d where run: "sample_attempt ''flag'' = ((Inr (attempt_response Ok_200 ''correct'' (Some ''Correct'')), ws), d)"
    by (rule sample_run)
  then have steps: "scoreboard_step\<^sup>*\<^sup>* sample_board d" by (blast intro: scoreboard_step.attempted)
  have "scoreboard_ok sample_board" by (simp add: scoreboard_defs sample_board_fields)
  from scoreboard_histories [OF steps this] have "scoreboard_ok d" by blast
  moreover have "snd (attempt_body sample_attempt_env sample_clocks sample_limits sample_caller False 6 ''flag'' sample_board) = d"
  proof -
    obtain d1 where d1: "attempt_body sample_attempt_env sample_clocks sample_limits sample_caller False 6 ''flag'' sample_board =
        (Inr (attempt_response Ok_200 ''correct'' (Some ''Correct'')), d1)"
      using sample_correct by (metis prod.collapse)
    with sample_attempt_body [OF _ _ _ _ _ d1] run show ?thesis by auto
  qed
  moreover have "length (pd_solves (snd (attempt_body sample_attempt_env sample_clocks sample_limits sample_caller False 6 ''flag'' sample_board))) = 1"
    by code_simp
  ultimately show ?thesis using steps by (metis One_nat_def length_0_conv length_Suc_conv)
qed

end
