(* ===== verification/ControlPlaneExamples.thy ===== *)
theory ControlPlaneExamples
  imports ControlPlaneProperties RuntimeExamples PortalExamples
begin

text \<open>
  Concrete tables of the control plane, with an active instance and its owner, on which the theorems
  that span the API and the controller are applied.
\<close>

section \<open>Concrete tables\<close>

definition plane_instance :: runtime_instance where
  "plane_instance = sample_instance\<lparr>ins_deployment_snapshot := JObj [(''healthcheck'', JObj [])]\<rparr>"

definition plane_config :: runtime_config where
  "plane_config = sample_config\<lparr>rcf_image_digest := Some ''x''\<rparr>"

definition plane_portal :: portal_db where
  "plane_portal = sample_board\<lparr>pd_runtime := (sample_runtime_db plane_instance [])\<lparr>rt_configs := [plane_config]\<rparr>\<rparr>"

definition plane_env :: api_env where
  "plane_env = \<lparr>ap_flags = sample_flag_env, ap_secret_key = ''key'', ap_session_lifetime = 3600\<rparr>"

definition plane_clocks :: api_clocks where
  "plane_clocks = \<lparr>ac_app = secs 100, ac_db = secs 100, ac_unix = 100\<rparr>"

lemmas plane_rows = plane_instance_def plane_config_def plane_portal_def sample_rows sample_config_def

lemma plane_ok: "control_plane_ok (pd_runtime plane_portal)"
proof -
  have "validate_healthcheck (JObj []) = Inr ()"
    by (simp add: validate_healthcheck_def bad_healthcheck_command_def bad_number_def)
  moreover have "validate_remote_server sample_server = Inr ()" by code_simp
  moreover have "config_checks plane_config"
    by (simp add: config_checks_def plane_config_def sample_config_def outside_def not_positive_def)
  ultimately show ?thesis
    by (simp add: control_plane_ok_def plane_rows runtime_ok_defs tokens_unique_def one_open_def
        commands_grounded_def keys_unique_def instances_ok_def active_owners_def startable_snapshot_def
        servers_ok_def server_ids_def server_names_def configs_ok_def secs_def)
qed

text \<open>A session of the controller while an administrator disables the server.\<close>

definition disabling :: "runtime_db \<Rightarrow> runtime_db" where
  "disabling d = pd_runtime (snd (disable_remote_server False (sample_caller\<lparr>cu_type := ''admin''\<rparr>) 5
     (plane_portal\<lparr>pd_runtime := d\<rparr>)))"

lemma disabling_turn: "api_turn disabling"
  unfolding api_turn_def
proof
  fix d
  let ?p = "plane_portal\<lparr>pd_runtime := d\<rparr>"
  have "pd_runtime ?p = d" by simp
  moreover have "runtime_request ?p (snd (disable_remote_server False (sample_caller\<lparr>cu_type := ''admin''\<rparr>) 5 ?p))"
    by (rule server_disabled) (rule prod.collapse [symmetric])
  ultimately show "\<exists>p p'. pd_runtime p = d \<and> runtime_request\<^sup>*\<^sup>* p p' \<and> pd_runtime p' = disabling d"
    unfolding disabling_def by blast
qed

definition plane_world :: "nat runtime_world" where
  "plane_world = (sample_runtime_world (pd_runtime plane_portal))\<lparr>turns := [disabling]\<rparr>"

definition plane_plan :: session_plan where
  "plane_plan = \<lparr>plan_leadership = Some (Inr ()), plan_listener = Inr (), plan_startup_flags = [False], plan_rounds = []\<rparr>"

theorem control_plane_stays_ok_witness:
  "control_plane_ok (db (snd (connected_session (\<lambda>_. True) sample_controller plane_plan plane_world)))"
proof -
  have "control_plane_ok (db plane_world)" "\<forall>g \<in> set (turns plane_world). api_turn g"
    by (simp_all add: plane_world_def plane_ok disabling_turn)
  from control_plane_stays_ok [OF this prod.collapse [symmetric]] show ?thesis by blast
qed

lemma plane_disabled: "runtime_request plane_portal (snd (disable_remote_server False (sample_caller\<lparr>cu_type := ''admin''\<rparr>) 5 plane_portal))"
  by (rule server_disabled) (rule prod.collapse [symmetric])

lemma plane_server: "sample_server \<in> sr_server ` set (rt_servers (pd_runtime
    (snd (disable_remote_server False (sample_caller\<lparr>cu_type := ''admin''\<rparr>) 5 plane_portal))))"
  by (simp add: disable_remote_server_def require_admin_def is_admin_def in_transaction_def on_runtime_def
      disable_server_step_def reading_def server_by_id_def find_server_row_def found_def plane_rows Let_def)

theorem executor_accepts_what_the_api_accepts_witness:
  "validate_remote_server sample_server = Inr ()"
proof -
  have "runtime_request\<^sup>*\<^sup>* plane_portal
     (snd (disable_remote_server False (sample_caller\<lparr>cu_type := ''admin''\<rparr>) 5 plane_portal))"
    using plane_disabled by (rule r_into_rtranclp)
  note accepted = executor_accepts_what_the_api_accepts [OF this plane_ok, THEN conjunct1]
  show ?thesis by (rule imageE [OF plane_server], erule ssubst, erule bspec [OF accepted])
qed

theorem ssh_target_is_stable_witness:
  "\<exists>s'. find_server 5 (pd_runtime (snd (disable_remote_server False (sample_caller\<lparr>cu_type := ''admin''\<rparr>) 5 plane_portal)))
     = Some s' \<and> ssh_target s' = ssh_target sample_server"
  by (rule ssh_target_is_stable [OF plane_disabled plane_ok, of plane_instance])
     (simp_all add: plane_rows find_server_def)

lemma plane_key: "idempotency_key None (Some ''key'') = Inr (Some ''key'')"
proof -
  have "has_control ''key'' = False" by code_simp
  then show ?thesis by (simp add: idempotency_key_def trim_letters)
qed

lemma plane_credential: "credential_valid (secs 100) 3600 sample_caller plane_portal"
  by (simp add: credential_valid_def account_in_order_def plane_portal_def sample_board_def sample_caller_def
      sample_user_def sample_session_def find_user_def coalesce_def is_true_def team_banned_def session_live_def
      secs_def sample_portal_def)

lemma plane_queue:
  "queue_command (secs 100) plane_instance Cmd_Extend 4 payload 4 (Some ''key'') (prolong 2 deadline 4 (pd_runtime plane_portal))
     = (Inr 10, (prolong 2 deadline 4 (pd_runtime plane_portal))
        \<lparr>rt_commands := [(new_command (secs 100) 10 2 Cmd_Extend 4 1 1 payload)
           \<lparr>cmd_requested_by := Some 4, cmd_idempotency_key := Some ''key''\<rparr>], rt_next_id := 11\<rparr>)"
  by (simp add: queue_command_def idempotency_clash_def prolong_def plane_rows)

lemma plane_deadline:
  "extended_deadline (secs 100) plane_instance (extension_limits_of 6 (pd_runtime plane_portal)) (Some 60) = Inr (secs 260)"
  by (simp add: extended_deadline_def extension_limits_of_def config_of_def plane_rows coalesce_def secs_def Let_def)

lemma plane_extend_now:
  "\<exists>i' d'. extend_now plane_clocks sample_caller plane_instance (Some 60) (Some ''key'') (pd_runtime plane_portal)
     = (Inr (Accepted_202, i'), d')"
proof -
  have f: "ins_id plane_instance = 2" "ins_challenge_id plane_instance = 6" "ins_generation plane_instance = 3"
    "cu_id sample_caller = 4"
    by (simp_all add: plane_rows sample_caller_def)
  show ?thesis
    unfolding extend_now_def plane_clocks_def api_clocks.select_convs f plane_deadline and_then_simps Let_def
    by (simp add: plane_queue)
       (simp add: reading_def instance_by_id_def find_instance_def found_def append_api_event_def
        notify_def prolong_def plane_rows)
qed

lemma plane_extended:
  "\<exists>i' p'. extend_instance plane_env plane_clocks False sample_caller 2 None
      \<lparr>xr_seconds = Some 60, xr_key = Some ''key''\<rparr> plane_portal = (Inr (Accepted_202, i'), p')"
proof -
  have f: "instance_by_id 2 (pd_runtime plane_portal) = Inr plane_instance"
    "authorize_instance sample_caller plane_instance = Inr ()"
    "extension_with_key (cu_id sample_caller) (Some ''key'') (pd_runtime plane_portal) = None"
    by (simp_all add: plane_rows instance_by_id_def find_instance_def found_def authorize_instance_def
        sample_caller_def extension_with_key_def)
  obtain i' d' where now: "extend_now plane_clocks sample_caller plane_instance (Some 60) (Some ''key'')
      (pd_runtime plane_portal) = (Inr (Accepted_202, i'), d')"
    using plane_extend_now by blast
  have cred: "credential_valid (ac_db plane_clocks) (ap_session_lifetime plane_env) sample_caller plane_portal"
    using plane_credential by (simp add: plane_clocks_def plane_env_def)
  have "extend_step plane_clocks sample_caller 2 (Some 60) (Some ''key'') (pd_runtime plane_portal)
      = (Inr (Accepted_202, i'), d')"
    by (simp add: extend_step_def reading_def f now)
  then show ?thesis
    by (simp add: extend_instance_def plane_key runtime_transaction_def in_transaction_def
        revalidate_current_credential_def require_def cred on_runtime_def)
qed

theorem extension_happens_once_witness:
  "\<exists>i' p'. extend_instance plane_env plane_clocks False sample_caller 2 None
      \<lparr>xr_seconds = Some 60, xr_key = Some ''key''\<rparr> plane_portal = (Inr (Accepted_202, i'), p') \<and>
    ins_desired_expires_at i' > secs 200 \<and> ins_desired_expires_at i' \<le> secs 300"
proof -
  let ?r = "\<lparr>xr_seconds = Some 60, xr_key = Some ''key''\<rparr>"
  obtain i' p' where run: "extend_instance plane_env plane_clocks False sample_caller 2 None ?r plane_portal
    = (Inr (Accepted_202, i'), p')" using plane_extended by blast
  have key: "idempotency_key None (xr_key ?r) = Inr (Some ''key'')" using plane_key by simp
  have "\<forall>i \<in> set (rt_instances (pd_runtime plane_portal)). ins_desired_expires_at i = secs 200 \<and> ins_maximum_expires_at i = secs 300"
    by (simp add: plane_rows)
  with extension_happens_once [OF plane_ok key run] have "ins_desired_expires_at i' > secs 200 \<and> ins_desired_expires_at i' \<le> secs 300"
    by auto
  with run show ?thesis by blast
qed

end
