(* ===== verification/CategoryIcons.thy ===== *)
theory CategoryIcons
  imports RuntimeAdmin
begin

text \<open>
  The validation of an uploaded category icon (\<open>services/api/src/routes/objects.rs\<close>): a PNG file is
  walked chunk by chunk before it is decoded, an SVG file token by token against a list of allowed
  elements and attributes. The \<open>xmlparser\<close>, \<open>png\<close>, \<open>sha2\<close> and \<open>crc32fast\<close> crates are parameters
  (\<open>icon_env\<close>): the tokens of a text up to the first error, the decoder's dimensions and whether it
  reads the frame and the end of the file, the digest in hexadecimal, and the checksum of bytes.

  Bytes are lists of \<open>char\<close>.
\<close>

section \<open>PNG files\<close>

definition png_signature :: string where
  "png_signature = map char_of [0x89, 0x50, 0x4E, 0x47, 0x0D, 0x0A, 0x1A, 0x0A :: nat]"

text \<open>\<open>u32::from_be_bytes\<close>\<close>

definition from_be_bytes :: "string \<Rightarrow> 32 word" where
  "from_be_bytes bytes = word_of_nat (foldl (\<lambda>n c. n * 256 + of_char c) 0 bytes)"

text \<open>The loop: \<open>rest\<close> is the file from the current offset on.\<close>

function png_chunks :: "(string \<Rightarrow> 32 word) \<Rightarrow> string \<Rightarrow> string + unit" where
  "png_chunks crc rest =
     (if rest = [] then Inl ''png_decode_failed''
      else if length rest < 8 then Inl ''png_decode_failed''
      else
        let size = unat (from_be_bytes (take 4 rest)); kind = take 4 (drop 4 rest) in
        if length rest < 8 + size + 4 then Inl ''png_decode_failed''
        else
          let content = take size (drop 8 rest); stored_crc = from_be_bytes (take 4 (drop (8 + size) rest));
              next = drop (8 + size + 4) rest in
          if crc (kind @ content) \<noteq> stored_crc then Inl ''png_crc_invalid''
          else if kind \<in> {''acTL'', ''fcTL'', ''fdAT''} then Inl ''animated_png_not_supported''
          else if kind = ''IEND''
          then if size = 0 \<and> next = [] then Inr () else Inl ''png_decode_failed''
          else png_chunks crc next)"
  by pat_completeness auto
termination
  by (relation "measure (length \<circ> snd)") auto

declare png_chunks.simps [simp del]

definition validate_static_png_chunks :: "(string \<Rightarrow> 32 word) \<Rightarrow> string \<Rightarrow> string + unit" where
  "validate_static_png_chunks crc bytes =
     (case strip_prefix png_signature bytes of
        None \<Rightarrow> Inl ''png_decode_failed'' | Some rest \<Rightarrow> png_chunks crc rest)"

section \<open>Attributes of an SVG element\<close>

definition ascii_whitespace :: "char \<Rightarrow> bool" where
  "ascii_whitespace c \<longleftrightarrow> (of_char c :: nat) \<in> {9, 10, 12, 13, 32}"

definition ascii_alphabetic :: "char \<Rightarrow> bool" where
  "ascii_alphabetic c \<longleftrightarrow> ascii_alphanumeric c \<and> \<not> digit c"

definition ascii_hexdigit :: "char \<Rightarrow> bool" where
  "ascii_hexdigit c \<longleftrightarrow> digit c \<or> ascii_lower c \<in> set ''abcdef''"

text \<open>The maximal runs of bytes that do not satisfy \<open>sep\<close>: \<open>split_whitespace\<close>, and \<open>split\<close> less its
  empty pieces.\<close>

fun pieces :: "(char \<Rightarrow> bool) \<Rightarrow> string \<Rightarrow> string \<Rightarrow> string list" where
  "pieces sep [] acc = (if acc = [] then [] else [List.rev acc])"
| "pieces sep (c # cs) acc =
     (if sep c then (if acc = [] then [] else [List.rev acc]) @ pieces sep cs []
      else pieces sep cs (c # acc))"

text \<open>\<open>collect\<close> into a \<open>Result\<close>: the values, unless one is missing.\<close>

fun all_some :: "'a option list \<Rightarrow> 'a list option" where
  "all_some [] = Some []"
| "all_some (None # xs) = None"
| "all_some (Some x # xs) = map_option (Cons x) (all_some xs)"

definition number_char :: "char \<Rightarrow> bool" where
  "number_char c \<longleftrightarrow> digit c \<or> ascii_whitespace c \<or> c \<in> set ''.,+-eE''"

definition parse_svg_numbers :: "string \<Rightarrow> string + rat list" where
  "parse_svg_numbers value =
     (if value = [] \<or> \<not> (\<forall>c \<in> set value. number_char c) then Inl ''svg_number_invalid''
      else case all_some (map parse_f64 (pieces (\<lambda>c. c = CHR '','' \<or> ascii_whitespace c) value [])) of
        None \<Rightarrow> Inl ''svg_number_invalid''
      | Some xs \<Rightarrow>
          if xs = [] \<or> length xs > 1024 \<or> (\<exists>x \<in> set xs. \<bar>x\<bar> > 1000000) then Inl ''svg_number_invalid''
          else Inr xs)"

definition validate_svg_number :: "string \<Rightarrow> string + unit" where
  "validate_svg_number value =
     (case parse_svg_numbers value of
        Inl e \<Rightarrow> Inl e | Inr xs \<Rightarrow> if length xs = 1 then Inr () else Inl ''svg_number_invalid'')"

definition strip_suffix :: "string \<Rightarrow> string \<Rightarrow> string option" where
  "strip_suffix p s = map_option List.rev (strip_prefix (List.rev p) (List.rev s))"

definition validate_svg_dimension :: "string \<Rightarrow> string + unit" where
  "validate_svg_dimension value =
     (case parse_f64 (coalesce (strip_suffix ''px'' value) value) of
        None \<Rightarrow> Inl ''svg_dimension_invalid''
      | Some x \<Rightarrow> if 0 < x \<and> x \<le> 4096 then Inr () else Inl ''svg_dimension_invalid'')"

definition validate_svg_paint :: "string \<Rightarrow> string + unit" where
  "validate_svg_paint value =
     (if value \<in> {''none'', ''currentColor''} \<or>
         length value \<in> {4, 5, 7, 9} \<and> hd value = CHR ''#'' \<and> (\<forall>c \<in> set (tl value). ascii_hexdigit c)
      then Inr () else Inl ''svg_paint_invalid'')"

definition validate_svg_opacity :: "string \<Rightarrow> string + unit" where
  "validate_svg_opacity value =
     (case parse_f64 value of
        None \<Rightarrow> Inl ''svg_opacity_invalid''
      | Some x \<Rightarrow> if 0 \<le> x \<and> x \<le> 1 then Inr () else Inl ''svg_opacity_invalid'')"

definition transform_words :: "string list" where
  "transform_words = [''matrix'', ''translate'', ''scale'', ''rotate'', ''skewX'', ''skewY'']"

definition validate_svg_transform :: "string \<Rightarrow> string + unit" where
  "validate_svg_transform value =
     (if value = [] \<or>
         \<not> (\<forall>c \<in> set value. ascii_alphanumeric c \<or> ascii_whitespace c \<or> c \<in> set ''.,+-()'')
      then Inl ''svg_transform_invalid''
      else if \<forall>word \<in> set (pieces (\<lambda>c. \<not> ascii_alphabetic c) value []). word \<in> set transform_words
      then Inr () else Inl ''svg_transform_invalid'')"

definition path_char :: "char \<Rightarrow> bool" where
  "path_char c \<longleftrightarrow> digit c \<or> ascii_whitespace c \<or> c \<in> set ''.,+-MmZzLlHhVvCcSsQqTtAaEe''"

definition svg_namespace :: string where
  "svg_namespace = ''http://www.w3.org/2000/svg''"

definition validate_view_box :: "string \<Rightarrow> string + unit" where
  "validate_view_box value =
     (case parse_svg_numbers value of
        Inl e \<Rightarrow> Inl e
      | Inr xs \<Rightarrow>
          if length xs = 4 \<and> (\<forall>x \<in> set xs. \<bar>x\<bar> \<le> 1000000) \<and> xs ! 2 > 0 \<and> xs ! 2 = xs ! 3
          then Inr () else Inl ''svg_viewbox_invalid'')"

definition validate_points :: "string \<Rightarrow> string + unit" where
  "validate_points value =
     (case parse_svg_numbers value of
        Inl e \<Rightarrow> Inl e
      | Inr xs \<Rightarrow> if length xs \<ge> 4 \<and> length xs mod 2 = 0 then Inr () else Inl ''svg_points_invalid'')"

definition number_attributes :: "string list" where
  "number_attributes = [''x'', ''y'', ''x1'', ''y1'', ''x2'', ''y2'', ''cx'', ''cy'', ''r'', ''rx'', ''ry'',
     ''stroke-width'', ''stroke-dashoffset'']"

definition validate_svg_attribute :: "string \<Rightarrow> string \<Rightarrow> string \<Rightarrow> string + unit" where
  "validate_svg_attribute element name value =
     (if length value > 8192 \<or> has_control value then Inl ''svg_attribute_invalid''
      else if name = ''xmlns'' \<and> element = ''svg'' \<and> value = svg_namespace then Inr ()
      else if name = ''viewBox'' \<and> element = ''svg'' then validate_view_box value
      else if name \<in> {''width'', ''height''} \<and> element = ''svg'' then validate_svg_dimension value
      else if name = ''d'' \<and> element = ''path''
      then if value \<noteq> [] \<and> (\<forall>c \<in> set value. path_char c) then Inr () else Inl ''svg_path_invalid''
      else if name = ''points'' \<and> element \<in> {''polyline'', ''polygon''} then validate_points value
      else if name \<in> set number_attributes then validate_svg_number value
      else if name \<in> {''fill'', ''stroke''} then validate_svg_paint value
      else if name \<in> {''opacity'', ''fill-opacity'', ''stroke-opacity''} then validate_svg_opacity value
      else if name = ''stroke-linecap'' \<and> value \<in> {''butt'', ''round'', ''square''} then Inr ()
      else if name = ''stroke-linejoin'' \<and> value \<in> {''miter'', ''round'', ''bevel''} then Inr ()
      else if name \<in> {''fill-rule'', ''clip-rule''} \<and> value \<in> {''nonzero'', ''evenodd''} then Inr ()
      else if name = ''stroke-dasharray''
      then if value = ''none'' then Inr () else (case parse_svg_numbers value of Inl e \<Rightarrow> Inl e | Inr _ \<Rightarrow> Inr ())
      else if name = ''vector-effect'' \<and> value = ''non-scaling-stroke'' then Inr ()
      else if name = ''transform'' then validate_svg_transform value
      else Inl ''svg_attribute_forbidden'')"

section \<open>SVG documents\<close>

datatype element_end = End_Open | End_Empty | End_Close string string

datatype xml_token =
    Tok_Declaration string "string option"
  | Tok_Element_Start string string
  | Tok_Attribute string string string
  | Tok_Element_End element_end
  | Tok_Text string
  | Tok_Other

record svg_state =
  sv_elements :: "string list"              \<comment> \<open>the open elements, the innermost first\<close>
  sv_current :: "string option"
  sv_attributes :: "string list"
  sv_root_seen :: bool
  sv_namespace_seen :: bool
  sv_view_box_seen :: bool
  sv_element_count :: nat
  sv_attribute_count :: nat

definition svg_start :: svg_state where
  "svg_start = \<lparr>sv_elements = [], sv_current = None, sv_attributes = [], sv_root_seen = False,
     sv_namespace_seen = False, sv_view_box_seen = False, sv_element_count = 0, sv_attribute_count = 0\<rparr>"

definition svg_elements :: "string list" where
  "svg_elements = [''svg'', ''g'', ''path'', ''circle'', ''ellipse'', ''line'', ''polyline'', ''polygon'', ''rect'']"

definition svg_element_start :: "string \<Rightarrow> string \<Rightarrow> svg_state \<Rightarrow> string + svg_state" where
  "svg_element_start prefix name s =
     (if prefix \<noteq> [] then Inl ''svg_namespace_prefix_forbidden''
      else if name \<notin> set svg_elements then Inl ''svg_element_forbidden''
      else if sv_elements s = [] \<and> (sv_root_seen s \<or> name \<noteq> ''svg'') then Inl ''svg_root_invalid''
      else if sv_elements s \<noteq> [] \<and> name = ''svg'' then Inl ''svg_nested_root_forbidden''
      else if sv_element_count s + 1 > 256 \<or> length (sv_elements s) \<ge> 32 then Inl ''svg_complexity_exceeded''
      else Inr (s\<lparr>sv_root_seen := True, sv_element_count := sv_element_count s + 1,
             sv_elements := name # sv_elements s, sv_current := Some name, sv_attributes := []\<rparr>))"

definition svg_attribute :: "string \<Rightarrow> string \<Rightarrow> string \<Rightarrow> svg_state \<Rightarrow> string + svg_state" where
  "svg_attribute prefix name value s =
     (if prefix \<noteq> [] then Inl ''svg_attribute_prefix_forbidden''
      else case sv_current s of
        None \<Rightarrow> Inl ''svg_attribute_position_invalid''
      | Some element \<Rightarrow>
          if name \<in> set (sv_attributes s) then Inl ''svg_duplicate_attribute''
          else if sv_attribute_count s + 1 > 2048 then Inl ''svg_complexity_exceeded''
          else case validate_svg_attribute element name value of
            Inl e \<Rightarrow> Inl e
          | Inr _ \<Rightarrow> Inr (s\<lparr>sv_attributes := name # sv_attributes s,
              sv_attribute_count := sv_attribute_count s + 1,
              sv_namespace_seen := sv_namespace_seen s \<or> element = ''svg'' \<and> name = ''xmlns'',
              sv_view_box_seen := sv_view_box_seen s \<or> element = ''svg'' \<and> name = ''viewBox''\<rparr>))"

fun svg_element_end :: "element_end \<Rightarrow> svg_state \<Rightarrow> string + svg_state" where
  "svg_element_end End_Open s = Inr (s\<lparr>sv_current := None\<rparr>)"
| "svg_element_end End_Empty s =
     (case sv_elements s of
        [] \<Rightarrow> Inl ''svg_structure_invalid''
      | _ # es \<Rightarrow> Inr (s\<lparr>sv_elements := es, sv_current := None\<rparr>))"
| "svg_element_end (End_Close prefix name) s =
     (case sv_elements s of
        [] \<Rightarrow> Inl ''svg_structure_invalid''
      | e # es \<Rightarrow> if prefix \<noteq> [] \<or> e \<noteq> name then Inl ''svg_structure_invalid''
                  else Inr (s\<lparr>sv_elements := es, sv_current := None\<rparr>))"

fun svg_token :: "xml_token \<Rightarrow> svg_state \<Rightarrow> string + svg_state" where
  "svg_token (Tok_Declaration version encoding) s =
     (if version \<noteq> ''1.0'' \<or>
         (case encoding of None \<Rightarrow> False | Some e \<Rightarrow> to_ascii_lowercase e \<noteq> ''utf-8'')
      then Inl ''svg_declaration_invalid'' else Inr s)"
| "svg_token (Tok_Element_Start prefix name) s = svg_element_start prefix name s"
| "svg_token (Tok_Attribute prefix name value) s = svg_attribute prefix name value s"
| "svg_token (Tok_Element_End e) s = svg_element_end e s"
| "svg_token (Tok_Text body) s = (if trim body = [] then Inr s else Inl ''svg_content_forbidden'')"
| "svg_token Tok_Other s = Inl ''svg_content_forbidden''"

text \<open>\<open>None\<close> is an error of the tokenizer.\<close>

fun svg_tokens :: "xml_token option list \<Rightarrow> svg_state \<Rightarrow> string + svg_state" where
  "svg_tokens [] s = Inr s"
| "svg_tokens (None # ts) s = Inl ''svg_xml_invalid''"
| "svg_tokens (Some t # ts) s = (case svg_token t s of Inl e \<Rightarrow> Inl e | Inr s \<Rightarrow> svg_tokens ts s)"

text \<open>\<open>str::from_utf8\<close> accepts the bytes: the well-formed sequences of one to four bytes.\<close>

definition byte_between :: "nat \<Rightarrow> nat \<Rightarrow> char \<Rightarrow> bool" where
  "byte_between lo hi c \<longleftrightarrow> lo \<le> of_char c \<and> of_char c \<le> hi"

fun utf8_bytes :: "string \<Rightarrow> bool" where
  "utf8_bytes [] \<longleftrightarrow> True"
| "utf8_bytes (a # as) \<longleftrightarrow>
     (if byte_between 0 127 a then utf8_bytes as
      else case as of [] \<Rightarrow> False | b # bs \<Rightarrow>
        if byte_between 194 223 a then utf8_continuation b \<and> utf8_bytes bs
        else case bs of [] \<Rightarrow> False | c # cs \<Rightarrow>
          if byte_between 224 239 a
          then (if byte_between 224 224 a then byte_between 160 191 b
                else if byte_between 237 237 a then byte_between 128 159 b else utf8_continuation b) \<and>
            utf8_continuation c \<and> utf8_bytes cs
          else case cs of [] \<Rightarrow> False | d # ds \<Rightarrow>
            byte_between 240 244 a \<and>
            (if byte_between 240 240 a then byte_between 144 191 b
             else if byte_between 244 244 a then byte_between 128 143 b else utf8_continuation b) \<and>
            utf8_continuation c \<and> utf8_continuation d \<and> utf8_bytes ds)"

record icon_env =
  ic_tokens :: "string \<Rightarrow> xml_token option list"
  ic_png_dimensions :: "string \<Rightarrow> (nat \<times> nat) option"
  ic_png_frame :: "string \<Rightarrow> bool"
  ic_png_end :: "string \<Rightarrow> bool"
  ic_sha256_hex :: "string \<Rightarrow> string"
  ic_crc32 :: "string \<Rightarrow> 32 word"

definition category_icon_dimension :: nat where
  "category_icon_dimension = 128"

definition category_icon_max_bytes :: nat where
  "category_icon_max_bytes = 256 * 1024"

definition svg_metadata :: json where
  "svg_metadata = JObj [(''format'', JStr ''svg''), (''width'', JInt (int category_icon_dimension)),
     (''height'', JInt (int category_icon_dimension)), (''animated'', JBool False), (''sanitized'', JBool True)]"

definition png_metadata :: json where
  "png_metadata = JObj [(''format'', JStr ''png''), (''width'', JInt (int category_icon_dimension)),
     (''height'', JInt (int category_icon_dimension)), (''animated'', JBool False)]"

definition validated_category_svg_metadata :: "icon_env \<Rightarrow> string \<Rightarrow> string + json" where
  "validated_category_svg_metadata env bytes =
     (if \<not> utf8_bytes bytes then Inl ''svg_utf8_invalid''
      else case svg_tokens (ic_tokens env bytes) svg_start of
        Inl e \<Rightarrow> Inl e
      | Inr s \<Rightarrow>
          if \<not> sv_root_seen s \<or> \<not> sv_namespace_seen s \<or> \<not> sv_view_box_seen s \<or> sv_elements s \<noteq> []
          then Inl ''svg_document_incomplete'' else Inr svg_metadata)"

definition validated_png_metadata :: "icon_env \<Rightarrow> string \<Rightarrow> string + json" where
  "validated_png_metadata env bytes =
     (case validate_static_png_chunks (ic_crc32 env) bytes of
        Inl e \<Rightarrow> Inl e
      | Inr _ \<Rightarrow>
          (case ic_png_dimensions env bytes of
             None \<Rightarrow> Inl ''png_decode_failed''
           | Some (width, height) \<Rightarrow>
               if width \<noteq> category_icon_dimension \<or> height \<noteq> category_icon_dimension
               then Inl ''png_dimensions_invalid''
               else if \<not> ic_png_frame env bytes then Inl ''png_decode_failed''
               else if \<not> ic_png_end env bytes then Inl ''png_decode_failed''
               else Inr png_metadata))"

definition validated_category_icon_metadata ::
  "icon_env \<Rightarrow> string \<Rightarrow> string \<Rightarrow> string \<Rightarrow> string + json" where
  "validated_category_icon_metadata env bytes content_type expected_checksum =
     (if bytes = [] \<or> length bytes > category_icon_max_bytes then Inl ''body_size_invalid''
      else if ic_sha256_hex env bytes \<noteq> expected_checksum then Inl ''checksum_mismatch''
      else if content_type = ''image/svg+xml'' then validated_category_svg_metadata env bytes
      else if content_type \<noteq> ''image/png'' then Inl ''content_type_invalid''
      else validated_png_metadata env bytes)"

end
