(* ===== verification/CategoryIconProperties.thy ===== *)
theory CategoryIconProperties
  imports CategoryIcons
begin

text \<open>
  What an accepted category icon is (\<open>services/api/src/routes/objects.rs\<close>): a PNG file is exactly the
  signature followed by well-formed chunks up to the end of the file, none of them of an animation;
  an SVG document is one properly nested \<open>svg\<close> element of bounded size whose attributes can hold
  neither a script nor a reference.
\<close>

section \<open>PNG files\<close>

definition to_be_bytes :: "32 word \<Rightarrow> string" where
  "to_be_bytes w = (let n = unat w in
     map char_of [n div 16777216, n div 65536 mod 256, n div 256 mod 256, n mod 256])"

definition encode_chunk :: "(string \<Rightarrow> 32 word) \<Rightarrow> string \<times> string \<Rightarrow> string" where
  "encode_chunk crc c = (case c of (kind, content) \<Rightarrow>
     to_be_bytes (word_of_nat (length content)) @ kind @ content @ to_be_bytes (crc (kind @ content)))"

definition static_chunk :: "string \<times> string \<Rightarrow> bool" where
  "static_chunk c = (case c of (kind, content) \<Rightarrow> length kind = 4 \<and> length content < 2 ^ 32 \<and>
     kind \<notin> {''IEND'', ''acTL'', ''fcTL'', ''fdAT''})"

lemma length_to_be_bytes [simp]: "length (to_be_bytes w) = 4"
  by (simp add: to_be_bytes_def Let_def)

lemma of_char_of_small [simp]: "n < 256 \<Longrightarrow> of_char (char_of n :: char) = (n :: nat)"
  by simp

lemma four_bytes:
  "((n div 16777216 * 256 + n div 65536 mod 256) * 256 + n div 256 mod 256) * 256 + n mod 256 = (n::nat)"
proof -
  have "n div 256 div 256 = n div 65536" "n div 65536 div 256 = n div 16777216"
    by (simp_all add: div_mult2_eq [symmetric])
  then show ?thesis
    using div_mult_mod_eq [of n 256] div_mult_mod_eq [of "n div 256" 256] div_mult_mod_eq [of "n div 65536" 256]
    by simp
qed

lemma from_to_be_bytes [simp]: "from_be_bytes (to_be_bytes w) = w"
proof -
  have "unat w < 4294967296" using unsigned_less [of w, where ?'a = nat] by simp
  then have "unat w div 16777216 < 256" by linarith
  then show ?thesis
    using four_bytes [of "unat w"]
    by (simp add: from_be_bytes_def to_be_bytes_def Let_def del: of_nat_add of_nat_mult)
qed

lemma byte_split:
  assumes "y = of_char c"
  shows "(x * 256 + y) div 256 = (x::nat)" "char_of (x * 256 + y) = c"
proof -
  have "y < 256" using assms by simp
  then show "(x * 256 + y) div 256 = x" by simp
  show "char_of (x * 256 + y) = c" by (rule of_char_eqI [where ?'a = nat]) (simp add: assms)
qed

lemma to_from_be_bytes:
  assumes "length bs = 4"
  shows "to_be_bytes (from_be_bytes bs) = bs"
proof -
  from assms obtain a b c d where bs: "bs = [a, b, c, d]"
    by (auto simp: numeral_eq_Suc length_Suc_conv)
  define x y z n :: nat where "x = of_char a" and "y = x * 256 + of_char b" and
    "z = y * 256 + of_char c" and "n = z * 256 + of_char d"
  note defs = this
  have "of_char a \<le> (255::nat)" "of_char b \<le> (255::nat)" "of_char c \<le> (255::nat)" "of_char d \<le> (255::nat)"
    using nat_of_char_less_256 [of a] nat_of_char_less_256 [of b] nat_of_char_less_256 [of c]
      nat_of_char_less_256 [of d] by linarith+
  then have "x \<le> 255" "y \<le> 65535" "z \<le> 16777215" "n \<le> 4294967295" unfolding defs by simp_all
  then have "n < 4294967296" by simp
  then have word: "unat (from_be_bytes bs) = n"
    by (simp add: bs from_be_bytes_def unat_of_nat defs del: of_nat_add of_nat_mult)
  have "n div 256 = z" "char_of n = d" "z div 256 = y" "char_of z = c" "y div 256 = x" "char_of y = b"
    unfolding n_def z_def y_def by (rule byte_split; rule refl)+
  moreover have "n div 65536 = n div 256 div 256" "n div 16777216 = n div 256 div 256 div 256"
    by (simp_all add: div_mult2_eq [symmetric])
  ultimately show ?thesis
    by (simp add: to_be_bytes_def Let_def word [unfolded bs] bs) (simp add: x_def)
qed

text \<open>One round of the walk, on a file that starts with a chunk.\<close>

lemma png_chunks_step:
  assumes "length kind = 4" "length content < 2 ^ 32"
  shows "png_chunks crc (encode_chunk crc (kind, content) @ rest) =
    (if kind \<in> {''acTL'', ''fcTL'', ''fdAT''} then Inl ''animated_png_not_supported''
     else if kind = ''IEND'' then if content = [] \<and> rest = [] then Inr () else Inl ''png_decode_failed''
     else png_chunks crc rest)"
proof -
  have size: "unat (word_of_nat (length content) :: 32 word) = length content"
    using assms(2) by (simp add: unat_of_nat)
  let ?size = "to_be_bytes (word_of_nat (length content))" and ?crc = "to_be_bytes (crc (kind @ content))"
  let ?r = "?size @ kind @ content @ ?crc @ rest"
  have parts: "take 4 ?r = ?size" "take 4 (drop 4 ?r) = kind" "drop 8 ?r = content @ ?crc @ rest"
    "take 4 (drop (8 + length content) ?r) = ?crc" "drop (8 + length content + 4) ?r = rest"
    "\<not> length ?r < 8 + length content + 4" "\<not> length ?r < 8" "?r \<noteq> []"
    using assms(1) by (auto simp: numeral_eq_Suc)
  have "take (length content) (drop 8 ?r) = content" unfolding parts(3) by simp
  note parts = this parts(1,2,4-)
  show ?thesis
    unfolding encode_chunk_def prod.case append_assoc
    by (subst png_chunks.simps) (simp only: parts Let_def from_to_be_bytes size if_False length_0_conv simp_thms)
qed

text \<open>A chunk the walk accepts is one that \<open>encode_chunk\<close> writes.\<close>

lemma chunk_of_file:
  assumes "8 + unat (from_be_bytes (take 4 rest)) + 4 \<le> length rest"
    and "crc (take 4 (drop 4 rest) @ take (unat (from_be_bytes (take 4 rest))) (drop 8 rest)) =
      from_be_bytes (take 4 (drop (8 + unat (from_be_bytes (take 4 rest))) rest))"
  obtains kind content after where "rest = encode_chunk crc (kind, content) @ after" "length kind = 4"
    "length content < 2 ^ 32" "length after < length rest"
proof -
  define n where "n = unat (from_be_bytes (take 4 rest))"
  let ?kind = "take 4 (drop 4 rest)" and ?content = "take n (drop 8 rest)" and ?after = "drop (8 + n + 4) rest"
  have len: "8 + n + 4 \<le> length rest" using assms(1) by (simp add: n_def)
  have small: "n < 2 ^ 32" unfolding n_def using unsigned_less [of "from_be_bytes (take 4 rest)", where ?'a = nat] by simp
  have content: "length ?content = n" using len by simp
  have "to_be_bytes (word_of_nat n) = take 4 rest"
    using len by (simp add: n_def to_from_be_bytes)
  moreover have "to_be_bytes (crc (?kind @ ?content)) = take 4 (drop (8 + n) rest)"
    using len assms(2) by (simp add: n_def [symmetric] to_from_be_bytes)
  moreover have "rest = take 4 rest @ take 4 (drop 4 rest) @ take n (drop 8 rest) @ take 4 (drop (8 + n) rest)
      @ drop (8 + n + 4) rest"
    by (metis append_take_drop_id drop_drop add.commute numeral_Bit0)
  ultimately have "rest = encode_chunk crc (?kind, ?content) @ ?after"
    by (simp only: encode_chunk_def prod.case content append_assoc)
  moreover have "length ?kind = 4" "length ?after < length rest" using len by auto
  ultimately show ?thesis using small content by (intro that [of ?kind ?content ?after]) simp_all
qed

definition static_png :: "(string \<Rightarrow> 32 word) \<Rightarrow> (string \<times> string) list \<Rightarrow> string" where
  "static_png crc cs = png_signature @ concat (map (encode_chunk crc) (cs @ [(''IEND'', [])]))"

lemma png_chunks_sound:
  "png_chunks crc rest = Inr u \<Longrightarrow>
     \<exists>cs. (list_all static_chunk cs) \<and> rest = concat (map (encode_chunk crc) (cs @ [(''IEND'', [])]))"
proof (induction rest rule: length_induct)
  case (1 rest)
  have "8 + unat (from_be_bytes (take 4 rest)) + 4 \<le> length rest"
    "crc (take 4 (drop 4 rest) @ take (unat (from_be_bytes (take 4 rest))) (drop 8 rest)) =
      from_be_bytes (take 4 (drop (8 + unat (from_be_bytes (take 4 rest))) rest))"
    using 1(2) by (subst (asm) png_chunks.simps, simp add: Let_def split: if_splits)+
  then obtain kind content after where rest: "rest = encode_chunk crc (kind, content) @ after"
    and len: "length kind = 4" "length content < 2 ^ 32" "length after < length rest"
    by (rule chunk_of_file)
  from 1(2) have run: "(if kind \<in> {''acTL'', ''fcTL'', ''fdAT''} then Inl ''animated_png_not_supported''
     else if kind = ''IEND'' then if content = [] \<and> after = [] then Inr () else Inl ''png_decode_failed''
     else png_chunks crc after) = Inr u"
    unfolding rest png_chunks_step [OF len(1,2)] .
  show ?case
  proof (cases "kind = ''IEND''")
    case True
    with run have "content = []" "after = []" by (auto split: if_splits)
    with True rest show ?thesis by (intro exI [of _ "[]"]) simp
  next
    case False
    with run have go: "png_chunks crc after = Inr u" "static_chunk (kind, content)"
      using len by (auto simp: static_chunk_def split: if_splits)
    with 1(1) len(3) obtain cs where cs: "list_all static_chunk cs"
      "after = concat (map (encode_chunk crc) (cs @ [(''IEND'', [])]))" by blast
    with go(2) show ?thesis by (intro exI [of _ "(kind, content) # cs"]) (simp add: rest)
  qed
qed

lemma png_chunks_complete:
  assumes "list_all static_chunk cs"
  shows "png_chunks crc (concat (map (encode_chunk crc) (cs @ [(''IEND'', [])]))) = Inr ()"
  using assms
proof (induction cs)
  case Nil
  show ?case using png_chunks_step [of "''IEND''" "[]" crc "[]"] by simp
next
  case (Cons c cs)
  obtain kind content where c: "c = (kind, content)" by (cases c)
  with Cons show ?case
    using png_chunks_step [of kind content crc "concat (map (encode_chunk crc) (cs @ [(''IEND'', [])]))"]
    by (simp add: static_chunk_def)
qed

text \<open>
  C29. A PNG file passes the walk exactly when it is the signature followed by well-formed chunks: each
  with its length, its four-byte type and the checksum of type and content, none of them of an
  animation, and the empty end chunk, which occurs once, as the last bytes of the file.
\<close>

theorem accepted_png_is_static:
  "validate_static_png_chunks crc bytes = Inr () \<longleftrightarrow>
     (\<exists>cs. bytes = static_png crc cs \<and> list_all static_chunk cs)"
proof
  assume "validate_static_png_chunks crc bytes = Inr ()"
  then obtain rest where "bytes = png_signature @ rest" "png_chunks crc rest = Inr ()"
    by (auto simp: validate_static_png_chunks_def strip_prefix_Some split: option.splits)
  with png_chunks_sound [of crc rest "()"] show "\<exists>cs. bytes = static_png crc cs \<and> list_all static_chunk cs"
    by (auto simp: static_png_def)
next
  assume "\<exists>cs. bytes = static_png crc cs \<and> list_all static_chunk cs"
  with png_chunks_complete [of _ crc] show "validate_static_png_chunks crc bytes = Inr ()"
    by (auto simp: validate_static_png_chunks_def static_png_def)
qed

section \<open>The nesting of an SVG document\<close>

datatype svg_event = Ev_Open string | Ev_Close "string option"

fun event_of_token :: "xml_token \<Rightarrow> svg_event list" where
  "event_of_token (Tok_Element_Start prefix name) = [Ev_Open name]"
| "event_of_token (Tok_Element_End End_Empty) = [Ev_Close None]"
| "event_of_token (Tok_Element_End (End_Close prefix name)) = [Ev_Close (Some name)]"
| "event_of_token t = []"

definition svg_events :: "xml_token list \<Rightarrow> svg_event list" where
  "svg_events ts = concat (map event_of_token ts)"

text \<open>Sequences of properly nested elements.\<close>

inductive element_forest :: "svg_event list \<Rightarrow> bool" where
  no_element: "element_forest []"
| element: "element_forest (Ev_Open name # inner @ Ev_Close closing # rest)"
    if "element_forest inner" "element_forest rest" "closing = None \<or> closing = Some name"

text \<open>What the loop does with its stack of open elements.\<close>

fun stack_run :: "bool \<Rightarrow> svg_event list \<Rightarrow> string list \<Rightarrow> string list option" where
  "stack_run seen [] st = Some st"
| "stack_run seen (Ev_Open n # es) st =
     (if st = [] \<and> (seen \<or> n \<noteq> ''svg'') then None else stack_run True es (n # st))"
| "stack_run seen (Ev_Close c # es) [] = None"
| "stack_run seen (Ev_Close c # es) (n # st) = (if c = None \<or> c = Some n then stack_run seen es st else None)"

lemma stack_run_closes:
  "stack_run True es (n # st) = Some fin \<Longrightarrow> length fin \<le> length st \<Longrightarrow>
     \<exists>inner closing rest. es = inner @ Ev_Close closing # rest \<and> element_forest inner \<and>
       (closing = None \<or> closing = Some n) \<and> stack_run True rest st = Some fin"
proof (induction es arbitrary: n st rule: length_induct)
  case (1 es)
  show ?case
  proof (cases es)
    case Nil
    with 1(2,3) show ?thesis by auto
  next
    case (Cons ev es')
    show ?thesis
    proof (cases ev)
      case (Ev_Close c)
      with 1(2) Cons show ?thesis
        by (intro exI [of _ "[]"] exI [of _ c] exI [of _ es']) (auto intro: no_element split: if_splits)
    next
      case (Ev_Open m)
      with 1(2) Cons have "stack_run True es' (m # n # st) = Some fin" by (simp split: if_splits)
      with 1(1,3) Cons obtain inner1 c1 rest1 where one: "es' = inner1 @ Ev_Close c1 # rest1"
        "element_forest inner1" "c1 = None \<or> c1 = Some m" "stack_run True rest1 (n # st) = Some fin"
        by (metis le_SucI length_Cons lessI)
      have "length rest1 < length es" by (simp add: Cons one(1))
      with 1(1,3) one(4) obtain inner2 c2 rest2 where two: "rest1 = inner2 @ Ev_Close c2 # rest2"
        "element_forest inner2" "c2 = None \<or> c2 = Some n" "stack_run True rest2 st = Some fin"
        by metis
      have "element_forest (Ev_Open m # inner1 @ Ev_Close c1 # inner2)"
        using one(2) two(2) one(3) by (rule element)
      with two(3,4) show ?thesis
        by (intro exI [of _ "Ev_Open m # inner1 @ Ev_Close c1 # inner2"] exI [of _ c2] exI [of _ rest2])
          (simp add: Cons Ev_Open one(1) two(1))
    qed
  qed
qed

lemma stack_run_document:
  assumes "stack_run False es [] = Some []" "es \<noteq> []"
  obtains inner closing where "es = Ev_Open ''svg'' # inner @ [Ev_Close closing]" "element_forest inner"
    "closing = None \<or> closing = Some ''svg''"
proof -
  from assms obtain es' where es: "es = Ev_Open ''svg'' # es'" "stack_run True es' [''svg''] = Some []"
    by (cases es; cases "hd es") (auto split: if_splits)
  from stack_run_closes [OF es(2)] obtain inner closing rest where
    parts: "es' = inner @ Ev_Close closing # rest" "element_forest inner" "closing = None \<or> closing = Some ''svg''"
    and rest: "stack_run True rest [] = Some []" by auto
  from rest have "rest = []" by (cases rest; cases "hd rest") auto
  with parts es(1) show ?thesis by (intro that) auto
qed

section \<open>What an attribute can hold\<close>

definition harmless_char :: "char \<Rightarrow> bool" where
  "harmless_char c \<longleftrightarrow> ascii_alphanumeric c \<or> ascii_whitespace c \<or> c \<in> set ''.,+-()#''"

definition allowed_attributes :: "string list" where
  "allowed_attributes = number_attributes @ [''xmlns'', ''viewBox'', ''width'', ''height'', ''d'', ''points'',
     ''fill'', ''stroke'', ''opacity'', ''fill-opacity'', ''stroke-opacity'', ''stroke-linecap'',
     ''stroke-linejoin'', ''fill-rule'', ''clip-rule'', ''stroke-dasharray'', ''vector-effect'', ''transform'']"

text \<open>No scheme, host, quote or entity fits into the value, and a parenthesis only behind one of the
  transformations, never behind \<open>url\<close>.\<close>

definition inert_attribute :: "string \<Rightarrow> string \<Rightarrow> bool" where
  "inert_attribute name value \<longleftrightarrow> name \<in> set allowed_attributes \<and>
     (name = ''xmlns'' \<and> value = svg_namespace \<or>
      (\<forall>c \<in> set value. harmless_char c) \<and>
      (CHR ''('' \<in> set value \<longrightarrow>
         (\<forall>word \<in> set (pieces (\<lambda>c. \<not> ascii_alphabetic c) value []). word \<in> set transform_words)))"

text \<open>Characters that are harmless and not parentheses.\<close>

definition plain_char :: "char \<Rightarrow> bool" where
  "plain_char c \<longleftrightarrow> ascii_alphanumeric c \<or> ascii_whitespace c \<or> c \<in> set ''.,+-#''"

abbreviation plain :: "string \<Rightarrow> bool" where
  "plain s \<equiv> list_all plain_char s"

lemma plain_harmless: "plain_char c \<Longrightarrow> harmless_char c \<and> c \<noteq> CHR ''(''"
proof -
  assume "plain_char c"
  moreover have "c \<noteq> CHR ''(''" if "ascii_alphanumeric c" using that by (auto simp: ascii_alphanumeric_def)
  moreover have "c \<noteq> CHR ''(''" if "ascii_whitespace c" using that by (auto simp: ascii_whitespace_def)
  moreover have "c \<in> set ''.,+-()#'' \<and> c \<noteq> CHR ''(''" if "c \<in> set ''.,+-#''" using that by auto
  ultimately show ?thesis unfolding plain_char_def harmless_char_def by blast
qed

lemma plain_charI:
  "ascii_alphanumeric c \<Longrightarrow> plain_char c" "ascii_whitespace c \<Longrightarrow> plain_char c"
  "c \<in> set ''.,+-#'' \<Longrightarrow> plain_char c"
  by (simp_all only: plain_char_def simp_thms)

lemma digit_plain: "digit c \<Longrightarrow> plain_char c"
  by (rule plain_charI(1)) (simp add: ascii_alphanumeric_def digit_def)

lemma plain_set: "list_all plain_char ''.,+-eEMmZzLlHhVvCcSsQqTtAax#''"
  by (simp add: plain_char_def ascii_alphanumeric_def)

lemma plain_in: "set s \<subseteq> set ''.,+-eEMmZzLlHhVvCcSsQqTtAax#'' \<Longrightarrow> c \<in> set s \<Longrightarrow> plain_char c"
  using plain_set by (simp only: list_all_iff) blast

lemma number_char_plain: "number_char c \<Longrightarrow> plain_char c"
  unfolding number_char_def
  by (elim disjE; (rule digit_plain plain_charI(2), assumption)?) (erule plain_in [rotated], simp)

lemma path_char_plain: "path_char c \<Longrightarrow> plain_char c"
  unfolding path_char_def
  by (elim disjE; (rule digit_plain plain_charI(2), assumption)?) (erule plain_in [rotated], simp)

lemma parse_sign_plain: "parse_sign s = (negative, t) \<Longrightarrow> plain t \<Longrightarrow> plain s"
  by (auto simp: parse_sign_def plain_char_def split: list.splits if_splits)

lemma parse_exponent_plain:
  assumes "parse_exponent s = Some e"
  shows "plain s"
proof (cases s)
  case (Cons c cs)
  obtain negative ds where p: "parse_sign cs = (negative, ds)" by fastforce
  with assms Cons have "c \<in> {CHR ''e'', CHR ''E''}" "\<forall>x \<in> set ds. digit x"
    by (auto simp: parse_exponent_def split: if_splits)
  then have "plain_char c" "plain ds"
    using plain_in [of "''eE''" c] by (auto simp: list_all_iff intro: digit_plain)
  with parse_sign_plain [OF p] Cons show ?thesis by simp
qed simp

lemma digits_plain: "plain (takeWhile digit t)"
  by (auto simp: list_all_iff digit_plain dest: set_takeWhileD)

lemma takeWhile_plain: "plain (dropWhile digit t) \<Longrightarrow> plain t"
  using takeWhile_dropWhile_id [of digit t] digits_plain [of t] by (metis list_all_append)

lemma parse_f64_plain:
  assumes "parse_f64 s = Some x"
  shows "plain s"
proof -
  obtain negative t where p: "parse_sign s = (negative, t)" by fastforce
  define t1 where "t1 = dropWhile digit t"
  define point where "point = (t1 \<noteq> [] \<and> hd t1 = CHR ''.'')"
  define t2 where "t2 = (if point then dropWhile digit (tl t1) else t1)"
  from assms have "parse_exponent t2 \<noteq> None"
    by (auto simp: parse_f64_def parse_decimal_def p Let_def t1_def point_def t2_def split: if_splits)
  then have "plain t2" using parse_exponent_plain by auto
  then have "plain t1"
    by (cases t1) (auto simp: t2_def point_def plain_char_def split: if_splits dest: takeWhile_plain)
  then have "plain t" using takeWhile_plain by (simp add: t1_def)
  with parse_sign_plain [OF p] show ?thesis by simp
qed

lemma strip_suffix_Some: "strip_suffix p s = Some t \<Longrightarrow> s = t @ p"
  by (auto simp: strip_suffix_def strip_prefix_Some) (metis rev_append rev_rev_ident)

lemma validators_plain:
  "parse_svg_numbers v = Inr xs \<Longrightarrow> plain v"
  "validate_svg_number v = Inr u \<Longrightarrow> plain v"
  "validate_view_box v = Inr u \<Longrightarrow> plain v"
  "validate_points v = Inr u \<Longrightarrow> plain v"
  "validate_svg_opacity v = Inr u \<Longrightarrow> plain v"
  "validate_svg_dimension v = Inr u \<Longrightarrow> plain v"
  "validate_svg_paint v = Inr u \<Longrightarrow> plain v"
proof -
  show numbers: "plain v" if "parse_svg_numbers v = Inr xs" for v xs
    using that by (auto simp: parse_svg_numbers_def list_all_iff number_char_plain split: if_splits)
  show "validate_svg_number v = Inr u \<Longrightarrow> plain v" "validate_view_box v = Inr u \<Longrightarrow> plain v"
    "validate_points v = Inr u \<Longrightarrow> plain v"
    using numbers by (auto simp: validate_svg_number_def validate_view_box_def validate_points_def split: sum.splits)
  show "validate_svg_opacity v = Inr u \<Longrightarrow> plain v"
    using parse_f64_plain by (auto simp: validate_svg_opacity_def split: option.splits)
  show "plain v" if ok: "validate_svg_dimension v = Inr u"
  proof -
    from ok have "plain (coalesce (strip_suffix ''px'' v) v)"
      using parse_f64_plain by (auto simp: validate_svg_dimension_def split: option.splits)
    then show ?thesis
      by (cases "strip_suffix ''px'' v")
        (auto simp: coalesce_def plain_char_def ascii_alphanumeric_def dest: strip_suffix_Some)
  qed
  show "plain v" if ok: "validate_svg_paint v = Inr u"
  proof -
    have hex: "plain_char c" if "ascii_hexdigit c" for c
    proof (cases "digit c")
      case False
      then have l: "ascii_lower c \<in> set ''abcdef''" using that by (simp add: ascii_hexdigit_def)
      show ?thesis
      proof (rule plain_charI(1), cases "65 \<le> (of_char c :: nat) \<and> (of_char c :: nat) \<le> 90")
        case True
        then show "ascii_alphanumeric c" by (simp add: ascii_alphanumeric_def)
      next
        case False
        then have "c = ascii_lower c" by (auto simp: ascii_lower_def Let_def)
        with l have "c \<in> set ''abcdef''" by simp
        then show "ascii_alphanumeric c" by (auto simp: ascii_alphanumeric_def)
      qed
    qed (rule digit_plain)
    from ok consider "v = ''none''" | "v = ''currentColor''" | "hd v = CHR ''#''" "\<forall>c \<in> set (tl v). ascii_hexdigit c"
      by (auto simp: validate_svg_paint_def split: if_splits)
    then show ?thesis
    proof cases
      case 3
      with hex plain_charI(3) [of "CHR ''#''"] show ?thesis by (cases v) (auto simp: list_all_iff)
    qed (simp_all add: plain_char_def ascii_alphanumeric_def)
  qed
qed

lemma plain_inert:
  "plain value \<Longrightarrow> name \<in> set allowed_attributes \<Longrightarrow> inert_attribute name value"
  unfolding inert_attribute_def list_all_iff using plain_harmless by blast

lemma transform_inert:
  assumes "validate_svg_transform value = Inr u"
  shows "inert_attribute ''transform'' value"
proof -
  from assms have "\<forall>c \<in> set value. ascii_alphanumeric c \<or> ascii_whitespace c \<or> c \<in> set ''.,+-()''"
    "\<forall>word \<in> set (pieces (\<lambda>c. \<not> ascii_alphabetic c) value []). word \<in> set transform_words"
    unfolding validate_svg_transform_def by (metis sum.distinct(1))+
  moreover have "harmless_char c" if "ascii_alphanumeric c \<or> ascii_whitespace c \<or> c \<in> set ''.,+-()''" for c
    using that by (elim disjE) (auto simp: harmless_char_def)
  ultimately show ?thesis by (simp add: inert_attribute_def allowed_attributes_def)
qed

lemma words_plain:
  "plain ''butt''" "plain ''round''" "plain ''square''" "plain ''miter''" "plain ''bevel''"
  "plain ''nonzero''" "plain ''evenodd''" "plain ''none''" "plain ''non-scaling-stroke''"
  by (simp_all add: plain_char_def ascii_alphanumeric_def)

lemma allowed_names:
  "name \<in> set number_attributes \<Longrightarrow> name \<in> set allowed_attributes"
  "''xmlns'' \<in> set allowed_attributes" "''viewBox'' \<in> set allowed_attributes"
  "''width'' \<in> set allowed_attributes" "''height'' \<in> set allowed_attributes" "''d'' \<in> set allowed_attributes"
  "''points'' \<in> set allowed_attributes" "''fill'' \<in> set allowed_attributes" "''stroke'' \<in> set allowed_attributes"
  "''opacity'' \<in> set allowed_attributes" "''fill-opacity'' \<in> set allowed_attributes"
  "''stroke-opacity'' \<in> set allowed_attributes" "''stroke-linecap'' \<in> set allowed_attributes"
  "''stroke-linejoin'' \<in> set allowed_attributes" "''fill-rule'' \<in> set allowed_attributes"
  "''clip-rule'' \<in> set allowed_attributes" "''stroke-dasharray'' \<in> set allowed_attributes"
  "''vector-effect'' \<in> set allowed_attributes"
  by (simp_all add: allowed_attributes_def)

lemma if_InrE:
  assumes "(if b then x else y) = Inr u"
  obtains "b" "x = Inr u" | "y = Inr u"
  using assms by (cases b) auto

lemma accepted_attribute_inert:
  assumes "validate_svg_attribute element name value = Inr u"
  shows "inert_attribute name value"
proof -
  have namespace: "inert_attribute ''xmlns'' svg_namespace"
    by (simp add: inert_attribute_def allowed_names)
  have path: "plain value" if "\<forall>c \<in> set value. path_char c"
    using that path_char_plain by (simp add: list_all_iff)
  have numbers: "plain value" if "(case parse_svg_numbers value of Inl e \<Rightarrow> Inl e | Inr xs \<Rightarrow> Inr ()) = Inr u"
    using that validators_plain(1) by (auto split: sum.splits)
  note plain = validators_plain(2-) path numbers
  from assms show ?thesis
    unfolding validate_svg_attribute_def
    by (elim if_InrE conjE insertE;
        (simp only: sum.distinct empty_iff namespace)?;
        simp only: allowed_names plain_inert plain words_plain transform_inert)
qed

end
