(* ===== verification/CategoryIconDocuments.thy ===== *)
theory CategoryIconDocuments
  imports CategoryIconProperties
begin

text \<open>
  What an accepted SVG icon is: its tokens, the nesting of its elements, the attributes of each element and
  the rule that the value of each attribute satisfies.
\<close>

section \<open>Attributes\<close>

definition svg_numbers :: "string \<Rightarrow> rat list \<Rightarrow> bool" where
  "svg_numbers value xs \<longleftrightarrow> parse_svg_numbers value = Inr xs \<and> (\<forall>x \<in> set xs. \<bar>x\<bar> \<le> 1000000)"

text \<open>What the value of an attribute of an element has to be.\<close>

inductive svg_value_rule :: "string \<Rightarrow> string \<Rightarrow> string \<Rightarrow> bool" for element name "value" where
  rule_namespace: "name = ''xmlns'' \<Longrightarrow> element = ''svg'' \<Longrightarrow> value = svg_namespace \<Longrightarrow> svg_value_rule element name value"
| rule_view_box: "name = ''viewBox'' \<Longrightarrow> element = ''svg'' \<Longrightarrow> \<exists>x y w. svg_numbers value [x, y, w, w] \<and> 0 < w \<Longrightarrow>
    svg_value_rule element name value"
| rule_dimension: "name \<in> {''width'', ''height''} \<Longrightarrow> element = ''svg'' \<Longrightarrow>
    \<exists>n x. (value = n \<or> value = n @ ''px'') \<and> parse_f64 n = Some x \<and> 0 < x \<and> x \<le> 4096 \<Longrightarrow>
    svg_value_rule element name value"
| rule_path: "name = ''d'' \<Longrightarrow> element = ''path'' \<Longrightarrow> value \<noteq> [] \<Longrightarrow> \<forall>c \<in> set value. path_char c \<Longrightarrow>
    svg_value_rule element name value"
| rule_points: "name = ''points'' \<Longrightarrow> element \<in> {''polyline'', ''polygon''} \<Longrightarrow>
    \<exists>xs. svg_numbers value xs \<and> 4 \<le> length xs \<and> even (length xs) \<Longrightarrow> svg_value_rule element name value"
| rule_number: "name \<in> set number_attributes \<Longrightarrow> \<exists>x. svg_numbers value [x] \<Longrightarrow> svg_value_rule element name value"
| rule_paint: "name \<in> {''fill'', ''stroke''} \<Longrightarrow> value \<in> {''none'', ''currentColor''} \<or>
    (\<exists>ds. value = CHR ''#'' # ds \<and> length ds \<in> {3, 4, 6, 8} \<and> (\<forall>c \<in> set ds. ascii_hexdigit c)) \<Longrightarrow>
    svg_value_rule element name value"
| rule_opacity: "name \<in> {''opacity'', ''fill-opacity'', ''stroke-opacity''} \<Longrightarrow>
    \<exists>x. parse_f64 value = Some x \<and> 0 \<le> x \<and> x \<le> 1 \<Longrightarrow> svg_value_rule element name value"
| rule_linecap: "name = ''stroke-linecap'' \<Longrightarrow> value \<in> {''butt'', ''round'', ''square''} \<Longrightarrow> svg_value_rule element name value"
| rule_linejoin: "name = ''stroke-linejoin'' \<Longrightarrow> value \<in> {''miter'', ''round'', ''bevel''} \<Longrightarrow> svg_value_rule element name value"
| rule_fill_rule: "name \<in> {''fill-rule'', ''clip-rule''} \<Longrightarrow> value \<in> {''nonzero'', ''evenodd''} \<Longrightarrow>
    svg_value_rule element name value"
| rule_no_dash: "name = ''stroke-dasharray'' \<Longrightarrow> value = ''none'' \<Longrightarrow> svg_value_rule element name value"
| rule_dash: "name = ''stroke-dasharray'' \<Longrightarrow> \<exists>xs. svg_numbers value xs \<Longrightarrow> svg_value_rule element name value"
| rule_effect: "name = ''vector-effect'' \<Longrightarrow> value = ''non-scaling-stroke'' \<Longrightarrow> svg_value_rule element name value"
| rule_transform: "name = ''transform'' \<Longrightarrow> value \<noteq> [] \<Longrightarrow>
    \<forall>word \<in> set (pieces (\<lambda>c. \<not> ascii_alphabetic c) value []). word \<in> set transform_words \<Longrightarrow>
    svg_value_rule element name value"

definition svg_attribute_rule :: "string \<Rightarrow> string \<times> string \<Rightarrow> bool" where
  "svg_attribute_rule element nv = (case nv of (name, value) \<Rightarrow>
     length value \<le> 8192 \<and> \<not> has_control value \<and> inert_attribute name value \<and> svg_value_rule element name value)"

lemma parse_svg_numbers_within: "parse_svg_numbers value = Inr xs \<Longrightarrow> svg_numbers value xs"
  by (force simp: svg_numbers_def parse_svg_numbers_def split: if_splits option.splits)

lemma view_box_rule: "validate_view_box value = Inr u \<Longrightarrow> \<exists>x y w. svg_numbers value [x, y, w, w] \<and> 0 < w"
  by (auto simp: validate_view_box_def numeral_eq_Suc length_Suc_conv dest!: parse_svg_numbers_within
      split: sum.splits if_splits)

lemma dimension_rule:
  "validate_svg_dimension value = Inr u \<Longrightarrow>
    \<exists>n x. (value = n \<or> value = n @ ''px'') \<and> parse_f64 n = Some x \<and> 0 < x \<and> x \<le> 4096"
  by (cases "strip_suffix ''px'' value")
    (auto simp: validate_svg_dimension_def coalesce_def dest!: strip_suffix_Some split: option.splits if_splits)

lemma points_rule: "validate_points value = Inr u \<Longrightarrow> \<exists>xs. svg_numbers value xs \<and> 4 \<le> length xs \<and> even (length xs)"
  by (auto simp: validate_points_def even_iff_mod_2_eq_zero dest: parse_svg_numbers_within split: sum.splits if_splits)

lemma number_rule: "validate_svg_number value = Inr u \<Longrightarrow> \<exists>x. svg_numbers value [x]"
  by (auto simp: validate_svg_number_def length_Suc_conv dest!: parse_svg_numbers_within split: sum.splits if_splits)

lemma paint_rule:
  "validate_svg_paint value = Inr u \<Longrightarrow> value \<in> {''none'', ''currentColor''} \<or>
    (\<exists>ds. value = CHR ''#'' # ds \<and> length ds \<in> {3, 4, 6, 8} \<and> (\<forall>c \<in> set ds. ascii_hexdigit c))"
  by (cases "value") (auto simp: validate_svg_paint_def split: if_splits)

lemma opacity_rule: "validate_svg_opacity value = Inr u \<Longrightarrow> \<exists>x. parse_f64 value = Some x \<and> 0 \<le> x \<and> x \<le> 1"
  by (auto simp: validate_svg_opacity_def split: option.splits if_splits)

lemma dash_rule:
  "(case parse_svg_numbers value of Inl e \<Rightarrow> Inl e | Inr xs \<Rightarrow> Inr ()) = Inr u \<Longrightarrow> \<exists>xs. svg_numbers value xs"
  by (auto dest: parse_svg_numbers_within split: sum.splits)

lemma transform_rule:
  "validate_svg_transform value = Inr u \<Longrightarrow> value \<noteq> [] \<and>
    (\<forall>word \<in> set (pieces (\<lambda>c. \<not> ascii_alphabetic c) value []). word \<in> set transform_words)"
  unfolding validate_svg_transform_def by (metis sum.distinct(1))

lemmas attribute_value_rules = view_box_rule dimension_rule points_rule number_rule paint_rule opacity_rule dash_rule
  transform_rule

lemma accepted_attribute_value:
  "validate_svg_attribute element name value = Inr u \<Longrightarrow> svg_value_rule element name value"
  unfolding validate_svg_attribute_def
  apply (elim if_InrE conjE notE [OF sum.distinct(1)])
  apply ((drule attribute_value_rules)?, (elim conjE)?, (rule svg_value_rule.intros; assumption))+
  done

lemma accepted_attribute_rule:
  assumes "validate_svg_attribute element name value = Inr u"
  shows "svg_attribute_rule element (name, value)"
  using assms accepted_attribute_inert [OF assms] accepted_attribute_value [OF assms]
  by (simp add: svg_attribute_rule_def validate_svg_attribute_def split: if_splits)

section \<open>Documents\<close>

text \<open>A token of an accepted document.\<close>

fun inert_token :: "xml_token \<Rightarrow> bool" where
  "inert_token (Tok_Declaration version encoding) \<longleftrightarrow> version = ''1.0''"
| "inert_token (Tok_Element_Start prefix name) \<longleftrightarrow> prefix = [] \<and> name \<in> set svg_elements"
| "inert_token (Tok_Attribute prefix name value) \<longleftrightarrow> prefix = [] \<and> inert_attribute name value"
| "inert_token (Tok_Element_End (End_Close prefix name)) \<longleftrightarrow> prefix = []"
| "inert_token (Tok_Element_End e) \<longleftrightarrow> True"
| "inert_token (Tok_Text body) \<longleftrightarrow> trim body = []"
| "inert_token Tok_Other \<longleftrightarrow> False"

fun is_start :: "xml_token \<Rightarrow> bool" where
  "is_start (Tok_Element_Start _ _) = True"
| "is_start _ = False"

fun is_attribute :: "xml_token \<Rightarrow> bool" where
  "is_attribute (Tok_Attribute _ _ _) = True"
| "is_attribute _ = False"

lemma svg_token_Inr:
  assumes "svg_token t s = Inr s'"
  shows "inert_token t" "stack_run (sv_root_seen s) (event_of_token t @ es) (sv_elements s) =
      stack_run (sv_root_seen s') es (sv_elements s')"
    "sv_element_count s' = sv_element_count s + (if is_start t then 1 else 0)"
    "sv_root_seen s' \<longleftrightarrow> sv_root_seen s \<or> is_start t"
    "sv_attribute_count s' = sv_attribute_count s + (if is_attribute t then 1 else 0)"
    "sv_element_count s \<le> 256 \<Longrightarrow> sv_element_count s' \<le> 256"
    "sv_attribute_count s \<le> 2048 \<Longrightarrow> sv_attribute_count s' \<le> 2048"
proof -
  have "inert_token t \<and> stack_run (sv_root_seen s) (event_of_token t @ es) (sv_elements s) =
      stack_run (sv_root_seen s') es (sv_elements s') \<and>
    sv_element_count s' = sv_element_count s + (if is_start t then 1 else 0) \<and>
    (sv_root_seen s' \<longleftrightarrow> sv_root_seen s \<or> is_start t) \<and>
    sv_attribute_count s' = sv_attribute_count s + (if is_attribute t then 1 else 0) \<and>
    (sv_element_count s \<le> 256 \<longrightarrow> sv_element_count s' \<le> 256) \<and>
    (sv_attribute_count s \<le> 2048 \<longrightarrow> sv_attribute_count s' \<le> 2048)"
  proof (cases t)
    case (Tok_Element_End e)
    with assms show ?thesis by (cases e; cases "sv_elements s") (auto split: if_splits)
  next
    case (Tok_Attribute p n v)
    with assms show ?thesis
      by (auto simp: svg_attribute_def accepted_attribute_inert split: if_splits option.splits sum.splits)
  qed (insert assms, auto simp: svg_element_start_def split: if_splits)
  then show "inert_token t" "stack_run (sv_root_seen s) (event_of_token t @ es) (sv_elements s) =
      stack_run (sv_root_seen s') es (sv_elements s')"
    "sv_element_count s' = sv_element_count s + (if is_start t then 1 else 0)"
    "sv_root_seen s' \<longleftrightarrow> sv_root_seen s \<or> is_start t"
    "sv_attribute_count s' = sv_attribute_count s + (if is_attribute t then 1 else 0)"
    "sv_element_count s \<le> 256 \<Longrightarrow> sv_element_count s' \<le> 256"
    "sv_attribute_count s \<le> 2048 \<Longrightarrow> sv_attribute_count s' \<le> 2048"
    by blast+
qed

lemma svg_tokens_Inr:
  assumes "svg_tokens ts s = Inr s'" "sv_element_count s \<le> 256" "sv_attribute_count s \<le> 2048"
  shows "\<exists>us. ts = map Some us \<and> list_all inert_token us \<and>
    stack_run (sv_root_seen s) (svg_events us) (sv_elements s) = Some (sv_elements s') \<and>
    sv_element_count s' = sv_element_count s + length (filter is_start us) \<and> sv_element_count s' \<le> 256 \<and>
    (sv_root_seen s' \<longleftrightarrow> sv_root_seen s \<or> filter is_start us \<noteq> []) \<and>
    sv_attribute_count s' = sv_attribute_count s + length (filter is_attribute us) \<and>
    sv_attribute_count s' \<le> 2048"
  using assms
proof (induction ts s rule: svg_tokens.induct)
  case (1 s)
  then show ?case by (intro exI [of _ "[]"]) (simp add: svg_events_def)
next
  case (3 t ts s)
  from 3(2) obtain s1 where t: "svg_token t s = Inr s1" and rest: "svg_tokens ts s1 = Inr s'"
    by (auto split: sum.splits)
  note one = svg_token_Inr [OF t]
  from 3(1) [OF t rest one(6) [OF 3(3)] one(7) [OF 3(4)]] obtain us where us: "ts = map Some us"
    "list_all inert_token us" "stack_run (sv_root_seen s1) (svg_events us) (sv_elements s1) = Some (sv_elements s')"
    "sv_element_count s' = sv_element_count s1 + length (filter is_start us)" "sv_element_count s' \<le> 256"
    "sv_root_seen s' \<longleftrightarrow> sv_root_seen s1 \<or> filter is_start us \<noteq> []"
    "sv_attribute_count s' = sv_attribute_count s1 + length (filter is_attribute us)" "sv_attribute_count s' \<le> 2048"
    by blast
  have "svg_events (t # us) = event_of_token t @ svg_events us" by (simp add: svg_events_def)
  with us one(1,3,4,5) one(2) [of "svg_events us"] show ?case
    by (intro exI [of _ "t # us"]) auto
qed simp

text \<open>The elements of a document with their attributes: those between the start of a tag and its end.\<close>

fun tag_attributes :: "xml_token list \<Rightarrow> (string \<times> string) list" where
  "tag_attributes (Tok_Attribute prefix name body # ts) = (name, body) # tag_attributes ts"
| "tag_attributes (Tok_Element_Start prefix name # ts) = []"
| "tag_attributes (Tok_Element_End e # ts) = []"
| "tag_attributes (t # ts) = tag_attributes ts"
| "tag_attributes [] = []"

fun tags :: "xml_token list \<Rightarrow> (string \<times> (string \<times> string) list) list" where
  "tags (Tok_Element_Start prefix name # ts) = (name, tag_attributes ts) # tags ts"
| "tags (t # ts) = tags ts"
| "tags [] = []"

definition tag_ok :: "string \<times> (string \<times> string) list \<Rightarrow> bool" where
  "tag_ok tag \<longleftrightarrow> distinct (map fst (snd tag)) \<and> (\<forall>nv \<in> set (snd tag). svg_attribute_rule (fst tag) nv)"

text \<open>What a tag whose attributes are still read contributes.\<close>

definition rest_of_tag :: "svg_state \<Rightarrow> xml_token list \<Rightarrow> bool" where
  "rest_of_tag s us \<longleftrightarrow> (case sv_current s of
     None \<Rightarrow> tag_attributes us = []
   | Some e \<Rightarrow> distinct (map fst (tag_attributes us)) \<and> set (map fst (tag_attributes us)) \<inter> set (sv_attributes s) = {} \<and>
       (\<forall>nv \<in> set (tag_attributes us). svg_attribute_rule e nv))"

definition has_attribute :: "string \<Rightarrow> svg_state \<Rightarrow> xml_token list \<Rightarrow> bool" where
  "has_attribute n s us \<longleftrightarrow> sv_current s = Some ''svg'' \<and> n \<in> fst ` set (tag_attributes us) \<or>
     (\<exists>tag \<in> set (tags us). fst tag = ''svg'' \<and> n \<in> fst ` set (snd tag))"

lemma svg_tokens_tags:
  assumes "svg_tokens (map Some us) s = Inr s'"
  shows "rest_of_tag s us \<and> list_all tag_ok (tags us) \<and> length (tags us) = length (filter is_start us) \<and>
    length (tag_attributes us) + length (concat (map snd (tags us))) = length (filter is_attribute us) \<and>
    (sv_namespace_seen s' \<longrightarrow> sv_namespace_seen s \<or> has_attribute ''xmlns'' s us) \<and>
    (sv_view_box_seen s' \<longrightarrow> sv_view_box_seen s \<or> has_attribute ''viewBox'' s us) \<and>
    (sv_root_seen s \<longrightarrow> ''svg'' \<notin> fst ` set (tags us))"
  using assms
proof (induction us arbitrary: s)
  case Nil
  then show ?case by (simp add: rest_of_tag_def split: option.split)
next
  case (Cons t us)
  from Cons.prems obtain s1 where t: "svg_token t s = Inr s1" and rest: "svg_tokens (map Some us) s1 = Inr s'"
    by (auto split: sum.splits)
  note IH = Cons.IH [OF rest]
  show ?case
  proof (cases t)
    case (Tok_Element_Start p n)
    with t have s1: "sv_current s1 = Some n" "sv_attributes s1 = []" "sv_root_seen s1" "sv_root_seen s \<Longrightarrow> n \<noteq> ''svg''"
      "sv_namespace_seen s1 = sv_namespace_seen s" "sv_view_box_seen s1 = sv_view_box_seen s"
      by (auto simp: svg_element_start_def split: if_splits)
    with IH have ok: "tag_ok (n, tag_attributes us)" by (simp add: rest_of_tag_def tag_ok_def)
    have "has_attribute m s1 us \<Longrightarrow> has_attribute m s (t # us)" for m
      using s1(1) by (auto simp: has_attribute_def Tok_Element_Start)
    with IH ok s1 show ?thesis
      by (simp add: rest_of_tag_def Tok_Element_Start split: option.split) blast
  next
    case (Tok_Attribute p n v)
    with t obtain e where e: "sv_current s = Some e" "n \<notin> set (sv_attributes s)" "svg_attribute_rule e (n, v)"
      "sv_current s1 = Some e" "sv_attributes s1 = n # sv_attributes s" "sv_root_seen s1 = sv_root_seen s"
      "sv_namespace_seen s1 \<longleftrightarrow> sv_namespace_seen s \<or> e = ''svg'' \<and> n = ''xmlns''"
      "sv_view_box_seen s1 \<longleftrightarrow> sv_view_box_seen s \<or> e = ''svg'' \<and> n = ''viewBox''"
      by (auto simp: svg_attribute_def accepted_attribute_rule split: if_splits option.splits sum.splits)
    have "has_attribute m s1 us \<Longrightarrow> has_attribute m s (t # us)" for m
      using e(1,4) by (auto simp: has_attribute_def Tok_Attribute)
    moreover have "e = ''svg'' \<Longrightarrow> has_attribute n s (t # us)" using e(1) by (simp add: has_attribute_def Tok_Attribute)
    moreover have "rest_of_tag s (t # us)" using IH e by (auto simp: rest_of_tag_def Tok_Attribute)
    ultimately show ?thesis using IH e(6-8) by (simp add: Tok_Attribute) blast
  next
    case (Tok_Element_End e)
    with t have s1: "sv_current s1 = None" "sv_root_seen s1 = sv_root_seen s"
      "sv_namespace_seen s1 = sv_namespace_seen s" "sv_view_box_seen s1 = sv_view_box_seen s"
      by (cases e; cases "sv_elements s"; auto split: if_splits)+
    have "has_attribute m s1 us \<Longrightarrow> has_attribute m s (t # us)" for m
      using s1(1) by (auto simp: has_attribute_def Tok_Element_End)
    moreover have "rest_of_tag s (t # us)" by (simp add: rest_of_tag_def Tok_Element_End split: option.split)
    moreover have "tag_attributes us = []" using IH s1(1) by (simp add: rest_of_tag_def)
    ultimately show ?thesis using IH s1 by (simp add: Tok_Element_End) blast
  qed (use t IH in \<open>simp_all add: rest_of_tag_def has_attribute_def cong: option.case_cong split: if_splits\<close>)
qed

text \<open>The first element is the root, and only it is an \<open>svg\<close>.\<close>

lemma svg_tokens_root:
  assumes "svg_tokens (map Some us) s = Inr s'" "\<not> sv_root_seen s" "sv_elements s = []" "tags us \<noteq> []"
  obtains root others where "tags us = (''svg'', root) # others" "''svg'' \<notin> fst ` set others"
  using assms
proof (induction us arbitrary: s thesis)
  case (Cons t us)
  from Cons.prems(2) obtain s1 where t: "svg_token t s = Inr s1" and rest: "svg_tokens (map Some us) s1 = Inr s'"
    by (auto split: sum.splits)
  show ?case
  proof (cases "is_start t")
    case True
    then obtain p n where start: "t = Tok_Element_Start p n" by (auto elim: is_start.elims)
    with t Cons.prems(3,4) have "n = ''svg''" "sv_root_seen s1" by (auto simp: svg_element_start_def split: if_splits)
    with svg_tokens_tags [OF rest] start show ?thesis by (intro Cons.prems(1)) auto
  next
    case False
    with t Cons.prems(3,4) have "\<not> sv_root_seen s1" "sv_elements s1 = []"
      by (cases "(t, s)" rule: svg_token.cases; auto simp: svg_attribute_def split: if_splits option.splits sum.splits
          elim: svg_element_end.elims)+
    moreover have "tags (t # us) = tags us" using False by (cases t) auto
    ultimately show ?thesis using Cons.IH [OF _ rest] Cons.prems(1,5) by auto
  qed
qed simp

text \<open>
  C6. An SVG icon that is accepted is inert. It is a sequence of tokens without text, comments, processing
  instructions or document types. Its elements form one properly nested \<open>svg\<close> element of at most 256 elements,
  all of them shapes or groups, with no further \<open>svg\<close> inside. Each of its at most 2048 attributes belongs to an
  element, no element has an attribute twice, and every attribute is one of the known names with a value that
  satisfies the rule of that name on that element: apart from the namespace, values are made of letters, digits,
  blanks and a few signs, with parentheses only in the list of transformations, so none can carry a script,
  a style or a reference. The root is in the SVG namespace and has a square view box of positive size.
\<close>

theorem accepted_svg_is_inert:
  assumes "validated_category_svg_metadata env bytes = Inr metadata"
  shows "\<exists>ts inner closing root others. ic_tokens env bytes = map Some ts \<and> list_all inert_token ts \<and>
    svg_events ts = Ev_Open ''svg'' # inner @ [Ev_Close closing] \<and> element_forest inner \<and>
    closing \<in> {None, Some ''svg''} \<and> length (filter is_start ts) \<le> 256 \<and>
    length (filter is_attribute ts) \<le> 2048 \<and> metadata = svg_metadata \<and>
    tags ts = (''svg'', root) # others \<and> ''svg'' \<notin> fst ` set others \<and>
    length (concat (map snd (tags ts))) = length (filter is_attribute ts) \<and>
    (\<forall>(element, attributes) \<in> set (tags ts). distinct (map fst attributes) \<and>
       (\<forall>nv \<in> set attributes. svg_attribute_rule element nv)) \<and>
    (''xmlns'', svg_namespace) \<in> set root \<and>
    (\<exists>v x y w. (''viewBox'', v) \<in> set root \<and> svg_numbers v [x, y, w, w] \<and> 0 < w)"
proof -
  from assms obtain s where run: "svg_tokens (ic_tokens env bytes) svg_start = Inr s"
    and s: "sv_root_seen s" "sv_elements s = []" "sv_namespace_seen s" "sv_view_box_seen s" "metadata = svg_metadata"
    by (auto simp: validated_category_svg_metadata_def split: if_splits sum.splits)
  from svg_tokens_Inr [OF run] obtain ts where ts: "ic_tokens env bytes = map Some ts" "list_all inert_token ts"
    "stack_run False (svg_events ts) [] = Some []" "sv_element_count s = length (filter is_start ts)"
    "sv_element_count s \<le> 256" "filter is_start ts \<noteq> []" "sv_attribute_count s = length (filter is_attribute ts)" "sv_attribute_count s \<le> 2048"
    by (auto simp: svg_start_def s(1,2))
  from ts(6) obtain prefix name where "Tok_Element_Start prefix name \<in> set ts"
    by (auto simp: filter_empty_conv elim!: is_start.elims)
  then have "svg_events ts \<noteq> []" by (force simp: svg_events_def)
  with ts(3) obtain inner closing where shape: "svg_events ts = Ev_Open ''svg'' # inner @ [Ev_Close closing]"
    "element_forest inner" "closing = None \<or> closing = Some ''svg''" by (rule stack_run_document)
  note run' = run [unfolded ts(1)]
  from svg_tokens_tags [OF run'] s(3,4) have tags: "tag_attributes ts = []" "list_all tag_ok (tags ts)"
    "length (tags ts) = length (filter is_start ts)" "length (concat (map snd (tags ts))) = length (filter is_attribute ts)"
    "\<exists>tag \<in> set (tags ts). fst tag = ''svg'' \<and> ''xmlns'' \<in> fst ` set (snd tag)"
    "\<exists>tag \<in> set (tags ts). fst tag = ''svg'' \<and> ''viewBox'' \<in> fst ` set (snd tag)"
    by (auto simp: rest_of_tag_def has_attribute_def svg_start_def)
  have "tags ts \<noteq> []" using tags(3) ts(6) by auto
  from svg_tokens_root [OF run' _ _ this] obtain root others
    where root: "tags ts = (''svg'', root) # others" "''svg'' \<notin> fst ` set others" by (auto simp: svg_start_def)
  from tags(5,6) root have named: "''xmlns'' \<in> fst ` set root" "''viewBox'' \<in> fst ` set root" by force+
  from tags(2) root(1) have rules: "\<forall>nv \<in> set root. svg_attribute_rule ''svg'' nv" by (simp add: tag_ok_def)
  from named rules obtain u v where attrs: "(''xmlns'', u) \<in> set root" "svg_attribute_rule ''svg'' (''xmlns'', u)"
    "(''viewBox'', v) \<in> set root" "svg_attribute_rule ''svg'' (''viewBox'', v)" by force
  have "u = svg_namespace" "\<exists>x y w. svg_numbers v [x, y, w, w] \<and> 0 < w"
    using attrs(2,4) by (auto simp: svg_attribute_rule_def number_attributes_def svg_value_rule.simps)
  moreover have "\<forall>(element, attributes) \<in> set (tags ts). distinct (map fst attributes) \<and>
       (\<forall>nv \<in> set attributes. svg_attribute_rule element nv)"
    using tags(2) by (auto simp: list_all_iff tag_ok_def)
  ultimately show ?thesis using ts s(5) shape root tags(4) attrs(1,3)
    by (intro exI [of _ ts] exI [of _ inner] exI [of _ closing] exI [of _ root] exI [of _ others]) auto
qed

text \<open>The document \<open><svg xmlns="..." viewBox="0 0 1 1"/>\<close>.\<close>

definition sample_icon_env :: icon_env where
  "sample_icon_env = \<lparr>ic_tokens = (\<lambda>_. map Some [Tok_Element_Start [] ''svg'',
       Tok_Attribute [] ''xmlns'' svg_namespace, Tok_Attribute [] ''viewBox'' ''0 0 1 1'',
       Tok_Element_End End_Empty]),
     ic_png_dimensions = (\<lambda>_. None), ic_png_frame = (\<lambda>_. False), ic_png_end = (\<lambda>_. False),
     ic_sha256_hex = (\<lambda>_. []), ic_crc32 = (\<lambda>_. 0)\<rparr>"

lemma parse_small:
  "parse_f64 ''0'' = Some 0" "parse_f64 ''1'' = Some 1"
proof -
  have "parse_decimal ''0'' = Some 0" "parse_decimal ''1'' = Some 1"
    by (simp_all add: parse_decimal_def parse_sign_def parse_exponent_def digit_def digits_value_def)
  moreover have "f64 1 = 1" using f64_of_int [of 1] by simp
  moreover have "subnormal 0 = 0" using half_even_of_int [of 0] by (simp add: subnormal_def)
  moreover have "\<not> (1 :: rat) < 2 powi (- 1022)" by (simp add: power_int_def not_less power_le_one)
  ultimately show "parse_f64 ''0'' = Some 0" "parse_f64 ''1'' = Some 1"
    by (simp_all add: parse_f64_def)
qed

lemma sample_view_box: "parse_svg_numbers ''0 0 1 1'' = Inr [0, 0, 1, 1]"
proof -
  have "pieces (\<lambda>c. c = CHR '','' \<or> ascii_whitespace c) ''0 0 1 1'' [] = [''0'', ''0'', ''1'', ''1'']"
    "\<forall>c \<in> set ''0 0 1 1''. number_char c"
    by (simp_all add: ascii_whitespace_def number_char_def digit_def)
  then show ?thesis unfolding parse_svg_numbers_def by (simp add: parse_small)
qed

lemma sample_icon_accepted: "validated_category_svg_metadata sample_icon_env [] = Inr svg_metadata"
proof -
  have "validate_svg_attribute ''svg'' ''xmlns'' svg_namespace = Inr ()"
    by (simp add: validate_svg_attribute_def svg_namespace_def Let_def)
  moreover have "validate_svg_attribute ''svg'' ''viewBox'' ''0 0 1 1'' = Inr ()"
    by (simp add: validate_svg_attribute_def validate_view_box_def sample_view_box Let_def)
  ultimately show ?thesis
    by (simp add: validated_category_svg_metadata_def sample_icon_env_def svg_start_def
        svg_element_start_def svg_attribute_def svg_elements_def)
qed

theorem accepted_svg_is_inert_witness:
  "\<exists>ts inner closing root others. ic_tokens sample_icon_env [] = map Some ts \<and> list_all inert_token ts \<and>
    svg_events ts = Ev_Open ''svg'' # inner @ [Ev_Close closing] \<and> element_forest inner \<and>
    closing \<in> {None, Some ''svg''} \<and> length (filter is_start ts) \<le> 256 \<and>
    length (filter is_attribute ts) \<le> 2048 \<and> svg_metadata = svg_metadata \<and>
    tags ts = (''svg'', root) # others \<and> ''svg'' \<notin> fst ` set others \<and>
    length (concat (map snd (tags ts))) = length (filter is_attribute ts) \<and>
    (\<forall>(element, attributes) \<in> set (tags ts). distinct (map fst attributes) \<and>
       (\<forall>nv \<in> set attributes. svg_attribute_rule element nv)) \<and>
    (''xmlns'', svg_namespace) \<in> set root \<and>
    (\<exists>v x y w. (''viewBox'', v) \<in> set root \<and> svg_numbers v [x, y, w, w] \<and> 0 < w)"
  by (rule accepted_svg_is_inert [OF sample_icon_accepted])

end
