(* ===== verification/ObjectStorage.thy ===== *)
theory ObjectStorage
  imports CategoryIcons
begin

text \<open>
  The signer of requests to the object store (\<open>services/api/src/object_storage.rs\<close>) and the requests
  the API sends itself (\<open>routes/objects.rs\<close>). \<open>rusty_s3\<close> signs an action into a URL: a parameter, as
  are the Base64 form of a hexadecimal checksum, the object service behind HTTP and the \<open>chrono\<close>,
  \<open>uuid\<close> and \<open>http\<close> crates. The service answers the action that a signed URL stands for.
\<close>

section \<open>Signed requests\<close>

datatype endpoint = Internal_Bucket | Public_Bucket

datatype s3_operation = Put_Object | Get_Object | Head_Of_Object | Head_Of_Bucket

record s3_action =
  act_endpoint :: endpoint
  act_operation :: s3_operation
  act_key :: string
  act_headers :: "(string \<times> string) list"
  act_query :: "(string \<times> string) list"
  act_ttl :: int

record object_storage =
  os_bucket_name :: string
  os_max_upload_bytes :: int
  os_max_pending_bytes :: int
  os_max_pending_objects :: int
  os_max_retained_bytes :: int
  os_max_uploads_per_hour :: int
  os_presign_ttl :: int
  os_sign :: "s3_action \<Rightarrow> string"
  os_checksum_base64 :: "string \<Rightarrow> string option"

definition internal_request_ttl :: int where
  "internal_request_ttl = 30"

text \<open>\<open>put_url\<close>, whose lifetime is in microseconds here.\<close>

definition put_url :: "object_storage \<Rightarrow> string \<Rightarrow> string \<Rightarrow> int \<Rightarrow> string \<Rightarrow> time \<Rightarrow> (string \<times> string) option" where
  "put_url st upload_key content_type content_length checksum_hex ttl =
     map_option (\<lambda>checksum.
       (os_sign st \<lparr>act_endpoint = Public_Bucket, act_operation = Put_Object, act_key = upload_key,
          act_headers = [(''content-type'', content_type), (''content-length'', show_int content_length),
            (''x-amz-checksum-sha256'', checksum)],
          act_query = [], act_ttl = ttl\<rparr>, checksum))
       (os_checksum_base64 st checksum_hex)"

text \<open>The characters of a text, as the encodings of single characters.\<close>

function characters :: "string \<Rightarrow> string list" where
  "characters [] = []"
| "characters (c # cs) = (c # takeWhile utf8_continuation cs) # characters (dropWhile utf8_continuation cs)"
  by pat_completeness auto
termination
  by (relation "measure length") (auto simp: less_Suc_eq_le length_dropWhile_le)

definition ascii_graphic :: "string \<Rightarrow> bool" where
  "ascii_graphic c \<longleftrightarrow> length c = 1 \<and> byte_between 33 126 (hd c)"

definition safe_header_filename :: "string \<Rightarrow> string" where
  "safe_header_filename filename =
     concat (map (\<lambda>c. if ascii_graphic c \<and> hd c \<notin> {CHR 0x22, CHR 0x5C, CHR '';''} then c else ''_'')
       (takeWhile (\<lambda>c. \<not> has_control c) (characters filename)))"

definition get_url :: "object_storage \<Rightarrow> string \<Rightarrow> string \<Rightarrow> string \<Rightarrow> string" where
  "get_url st object_key filename content_type =
     os_sign st \<lparr>act_endpoint = Public_Bucket, act_operation = Get_Object, act_key = object_key, act_headers = [],
       act_query = [(''response-content-disposition'',
           ''attachment; filename='' @ [CHR 0x22] @ safe_header_filename filename @ [CHR 0x22]),
         (''response-content-type'', content_type), (''response-cache-control'', ''private, no-store'')],
       act_ttl = secs (os_presign_ttl st)\<rparr>"

definition inline_image_url :: "object_storage \<Rightarrow> string \<Rightarrow> string \<Rightarrow> string" where
  "inline_image_url st object_key content_type =
     os_sign st \<lparr>act_endpoint = Public_Bucket, act_operation = Get_Object, act_key = object_key, act_headers = [],
       act_query = [(''response-content-disposition'', ''inline''), (''response-content-type'', content_type),
         (''response-cache-control'', ''public, max-age=31536000, immutable'')],
       act_ttl = secs (os_presign_ttl st)\<rparr>"

definition internal_action :: "s3_operation \<Rightarrow> string \<Rightarrow> (string \<times> string) list \<Rightarrow> s3_action" where
  "internal_action operation key headers =
     \<lparr>act_endpoint = Internal_Bucket, act_operation = operation, act_key = key, act_headers = headers,
      act_query = [], act_ttl = secs internal_request_ttl\<rparr>"

definition internal_head :: "string \<Rightarrow> s3_action" where
  "internal_head key = internal_action Head_Of_Object key []"

definition internal_get :: "string \<Rightarrow> s3_action" where
  "internal_get key = internal_action Get_Object key []"

definition internal_copy_request :: "object_storage \<Rightarrow> string \<Rightarrow> string \<Rightarrow> s3_action" where
  "internal_copy_request st upload_key object_key =
     internal_action Put_Object object_key
       [(''x-amz-copy-source'', ''/'' @ os_bucket_name st @ ''/'' @ upload_key)]"

definition internal_bucket_head :: s3_action where
  "internal_bucket_head = internal_action Head_Of_Bucket [] []"

section \<open>Requests of the API\<close>

text \<open>An answer of the service: its status, the headers that are readable as text, the declared length
  of the body and the chunks in which the body arrives, \<open>None\<close> where the reading breaks.\<close>

record http_reply =
  hr_status :: nat
  hr_headers :: "(string \<times> string) list"
  hr_content_length :: "nat option"
  hr_chunks :: "string option list"

record 's storage_env =
  se_storage :: object_storage
  se_service :: "s3_action \<Rightarrow> 's \<Rightarrow> http_reply option \<times> 's"
  se_icons :: icon_env
  se_header_value :: "string \<Rightarrow> bool"
  se_year_month :: "time \<Rightarrow> string"
  se_parse_uuid :: "string \<Rightarrow> uuid option"
  se_session_lifetime :: int

record head_metadata =
  hd_content_type :: "string option"
  hd_etag :: "string option"
  hd_length :: int

definition string_header :: "http_reply \<Rightarrow> string \<Rightarrow> string option" where
  "string_header r name = map_of (hr_headers r) name"

definition required_i64_header :: "http_reply \<Rightarrow> string \<Rightarrow> int answer" where
  "required_i64_header r name =
     found (upstream ''Object storage returned incomplete metadata'') (Option.bind (string_header r name) parse_i64)"

definition trim_quotes :: "string \<Rightarrow> string" where
  "trim_quotes s = List.rev (dropWhile (\<lambda>c. c = CHR 0x22) (List.rev (dropWhile (\<lambda>c. c = CHR 0x22) s)))"

definition head_object :: "'s storage_env \<Rightarrow> string \<Rightarrow> 's \<Rightarrow> head_metadata answer \<times> 's" where
  "head_object env key s =
     (case se_service env (internal_head key) s of
        (None, s) \<Rightarrow> (Inl (upstream ''Object storage is unavailable''), s)
      | (Some r, s) \<Rightarrow>
          if hr_status r = 404 then (Inl (conflict ''The uploaded object is not present''), s)
          else if \<not> is_success (hr_status r)
          then (Inl (upstream ''Object storage rejected upload verification''), s)
          else and_then (required_i64_header r ''content-length'', s) (\<lambda>n s.
            (Inr \<lparr>hd_content_type = string_header r ''content-type'',
               hd_etag = map_option trim_quotes (string_header r ''etag''), hd_length = n\<rparr>, s)))"

definition append_bounded :: "nat \<Rightarrow> string \<Rightarrow> string \<Rightarrow> string answer" where
  "append_bounded max_bytes body chunk =
     (if length body + length chunk > max_bytes
      then Inl (conflict ''Uploaded category icon exceeds the size limit'') else Inr (body @ chunk))"

fun read_chunks :: "nat \<Rightarrow> string \<Rightarrow> string option list \<Rightarrow> string answer" where
  "read_chunks max_bytes body [] = Inr body"
| "read_chunks max_bytes body (None # cs) = Inl (upstream ''Object storage content could not be read'')"
| "read_chunks max_bytes body (Some c # cs) =
     (case append_bounded max_bytes body c of Inl e \<Rightarrow> Inl e | Inr body \<Rightarrow> read_chunks max_bytes body cs)"

definition get_object_body_limited :: "'s storage_env \<Rightarrow> string \<Rightarrow> nat \<Rightarrow> 's \<Rightarrow> string answer \<times> 's" where
  "get_object_body_limited env key max_bytes s =
     (case se_service env (internal_get key) s of
        (None, s) \<Rightarrow> (Inl (upstream ''Object storage is unavailable''), s)
      | (Some r, s) \<Rightarrow>
          if hr_status r = 404 then (Inl (conflict ''The uploaded object is not present''), s)
          else if \<not> is_success (hr_status r)
          then (Inl (upstream ''Object storage rejected content verification''), s)
          else if (case hr_content_length r of None \<Rightarrow> False | Some n \<Rightarrow> n > max_bytes)
          then (Inl (conflict ''Uploaded category icon exceeds the size limit''), s)
          else (read_chunks max_bytes [] (hr_chunks r), s))"

definition load_and_validate_category_icon ::
  "'s storage_env \<Rightarrow> string \<Rightarrow> string \<Rightarrow> string \<Rightarrow> 's \<Rightarrow> json answer \<times> 's" where
  "load_and_validate_category_icon env key content_type expected_checksum s =
     and_then (get_object_body_limited env key category_icon_max_bytes s) (\<lambda>body s.
       (case validated_category_icon_metadata (se_icons env) body content_type expected_checksum of
          Inl _ \<Rightarrow> Inl (conflict ''Category icon must be a valid 128 by 128 PNG or a strictly sanitized square SVG'')
        | Inr m \<Rightarrow> Inr m, s))"

definition copy_to_final_key :: "'s storage_env \<Rightarrow> stored_object \<Rightarrow> 's \<Rightarrow> unit answer \<times> 's" where
  "copy_to_final_key env ob s =
     (case se_service env (internal_copy_request (se_storage env) (obj_upload_key ob) (obj_object_key ob)) s of
        (None, s) \<Rightarrow> (Inl (upstream ''Object storage promotion is unavailable''), s)
      | (Some r, s) \<Rightarrow>
          (if is_success (hr_status r) then Inr ()
           else Inl (upstream ''Object storage rejected object promotion''), s))"

end
