(* ===== verification/ObjectAccess.thy ===== *)
theory ObjectAccess
  imports ObjectStorage
begin

text \<open>
  Who may upload, change and download which objects, and the statements on the object tables
  (\<open>services/api/src/routes/objects.rs\<close>). A check that the code makes on the pool, outside its
  transaction, sees the tables \<open>before k\<close>. The tables of the objects are those the controller works on.
\<close>

section \<open>Purposes\<close>

datatype purpose =
  Category_Icon | Challenge_Asset | Page_Asset | Solution_Asset | Submission_File | Patch_File | Program_File

definition purpose_text :: "purpose \<Rightarrow> string" where
  "purpose_text p =
     (case p of Category_Icon \<Rightarrow> ''category_icon'' | Challenge_Asset \<Rightarrow> ''challenge_asset''
      | Page_Asset \<Rightarrow> ''page_asset'' | Solution_Asset \<Rightarrow> ''solution_asset''
      | Submission_File \<Rightarrow> ''submission'' | Patch_File \<Rightarrow> ''patch'' | Program_File \<Rightarrow> ''program'')"

definition parse_purpose :: "string \<Rightarrow> purpose answer" where
  "parse_purpose v =
     found (bad_request ''Unsupported object purpose'')
       (List.find (\<lambda>p. purpose_text p = v)
         [Category_Icon, Challenge_Asset, Page_Asset, Solution_Asset, Submission_File, Patch_File, Program_File])"

definition is_asset :: "purpose \<Rightarrow> bool" where
  "is_asset p \<longleftrightarrow> p \<in> {Category_Icon, Challenge_Asset, Page_Asset, Solution_Asset}"

definition is_competition_purpose :: "string \<Rightarrow> bool" where
  "is_competition_purpose v \<longleftrightarrow> v \<in> {''submission'', ''patch'', ''program'', ''pcap'', ''result''}"

section \<open>Checks on a request\<close>

record upload_request =
  ur_purpose :: string
  ur_filename :: string
  ur_content_type :: string
  ur_size :: int
  ur_sha256 :: string
  ur_category_id :: "int option"
  ur_challenge_id :: "int option"
  ur_page_id :: "int option"
  ur_solution_id :: "int option"

definition safe_filename :: "string \<Rightarrow> string answer" where
  "safe_filename v = (let v = trim v in
     if v = [] \<or> length v > 255 \<or> CHR ''/'' \<in> set v \<or> CHR 0x5C \<in> set v \<or> has_control v \<or> v \<in> {''.'', ''..''}
     then Inl (bad_request ''Filename is invalid'') else Inr v)"

definition safe_content_type :: "(string \<Rightarrow> bool) \<Rightarrow> string \<Rightarrow> string answer" where
  "safe_content_type header_value v = (let v = trim v in
     if v = [] \<or> length v > 255 \<or> CHR ''/'' \<notin> set v \<or> has_control v \<or> \<not> header_value v
     then Inl (bad_request ''Content type is invalid'') else Inr v)"

definition validate_sha256 :: "string \<Rightarrow> string answer" where
  "validate_sha256 v = (let v = to_ascii_lowercase (trim v) in
     if length v \<noteq> 64 \<or> \<not> (\<forall>c \<in> set v. ascii_hexdigit c)
     then Inl (bad_request ''SHA-256 checksum is invalid'') else Inr v)"

definition required_idempotency_key :: "string option option \<Rightarrow> string answer" where
  "required_idempotency_key header =
     (case header of
        None \<Rightarrow> Inl (bad_request ''Idempotency-Key header is required'')
      | Some None \<Rightarrow> Inl (bad_request ''Invalid Idempotency-Key header'')
      | Some (Some h) \<Rightarrow> (let v = trim h in
          if v = [] \<or> length v > 128 \<or> has_control v
          then Inl (bad_request ''Invalid Idempotency-Key header'') else Inr v))"

definition validate_upload_policy :: "purpose \<Rightarrow> string \<Rightarrow> int \<Rightarrow> int \<Rightarrow> unit answer" where
  "validate_upload_policy p content_type bytes max_upload_bytes =
     (if p = Category_Icon \<and> (content_type \<notin> {''image/png'', ''image/svg+xml''} \<or> bytes \<le> 0 \<or>
         bytes > int category_icon_max_bytes)
      then Inl (bad_request ''Category icons must be PNG or SVG files between 1 byte and 256 KiB'')
      else if bytes < 0 \<or> bytes > max_upload_bytes
      then Inl (bad_request ''Object size is outside the upload limit'')
      else Inr ())"

section \<open>Targets\<close>

record validated_target =
  vt_category_id :: "int option"
  vt_challenge_id :: "int option"
  vt_page_id :: "int option"
  vt_solution_id :: "int option"

definition no_target :: validated_target where
  "no_target = \<lparr>vt_category_id = None, vt_challenge_id = None, vt_page_id = None, vt_solution_id = None\<rparr>"

definition find_category :: "int \<Rightarrow> object_db \<Rightarrow> category_row option" where
  "find_category i d = List.find (\<lambda>c. cat_id c = i) (categories d)"

definition find_page :: "int \<Rightarrow> portal_db \<Rightarrow> page_row option" where
  "find_page i p = List.find (\<lambda>r. pg_id r = i) (pd_pages p)"

definition find_solution :: "int \<Rightarrow> portal_db \<Rightarrow> solution_row option" where
  "find_solution i p = List.find (\<lambda>r. sln_id r = i) (pd_solutions p)"

definition require_row :: "bool \<Rightarrow> unit answer" where
  "require_row there = (if there then Inr () else Inl (not_found ''Object target not found''))"

abbreviation required_id :: "string \<Rightarrow> int option \<Rightarrow> int answer" where
  "required_id message i \<equiv> found (bad_request message) i"

definition supplied :: "upload_request \<Rightarrow> nat" where
  "supplied r = length (filter (\<lambda>i. i \<noteq> None)
     [ur_category_id r, ur_challenge_id r, ur_page_id r, ur_solution_id r])"

definition challenge_target ::
  "int \<Rightarrow> portal_db \<Rightarrow> current_user \<Rightarrow> int \<Rightarrow> int option \<Rightarrow> validated_target answer" where
  "challenge_target now p u challenge_id solution_id =
     (case fst (require_full_challenge_access now (Some u) challenge_id p) of
        Inl e \<Rightarrow> Inl e
      | Inr _ \<Rightarrow> Inr (no_target\<lparr>vt_challenge_id := Some challenge_id, vt_solution_id := solution_id\<rparr>))"

definition validate_target ::
  "int \<Rightarrow> (nat \<Rightarrow> portal_db) \<Rightarrow> current_user \<Rightarrow> purpose \<Rightarrow> upload_request \<Rightarrow> validated_target answer" where
  "validate_target now before u p r =
     (if supplied r \<noteq> 1
      then Inl (bad_request ''Exactly one category, challenge, page, or solution target is required'')
      else case p of
        Category_Icon \<Rightarrow>
          (case required_id ''category_icon requires category_id'' (ur_category_id r) of
             Inl e \<Rightarrow> Inl e
           | Inr i \<Rightarrow> (case require_row (find_category i (pd_objects (before 0)) \<noteq> None) of
               Inl e \<Rightarrow> Inl e | Inr _ \<Rightarrow> Inr (no_target\<lparr>vt_category_id := Some i\<rparr>)))
      | Challenge_Asset \<Rightarrow>
          (case required_id ''challenge_asset requires challenge_id'' (ur_challenge_id r) of
             Inl e \<Rightarrow> Inl e | Inr i \<Rightarrow> challenge_target now (before 0) u i None)
      | Page_Asset \<Rightarrow>
          (case required_id ''page_asset requires page_id'' (ur_page_id r) of
             Inl e \<Rightarrow> Inl e
           | Inr i \<Rightarrow> (case require_row (find_page i (before 0) \<noteq> None) of
               Inl e \<Rightarrow> Inl e | Inr _ \<Rightarrow> Inr (no_target\<lparr>vt_page_id := Some i\<rparr>)))
      | Solution_Asset \<Rightarrow>
          (case required_id ''solution_asset requires solution_id'' (ur_solution_id r) of
             Inl e \<Rightarrow> Inl e
           | Inr i \<Rightarrow> (case find_solution i (before 0) of
               None \<Rightarrow> Inl (not_found ''Solution not found'')
             | Some s \<Rightarrow> (case sln_challenge_id s of
                 None \<Rightarrow> Inl database_error
               | Some c \<Rightarrow> challenge_target now (before 1) u c (Some i))))
      | _ \<Rightarrow>
          (case required_id ''Submission objects require challenge_id'' (ur_challenge_id r) of
             Inl e \<Rightarrow> Inl e | Inr i \<Rightarrow> challenge_target now (before 0) u i None))"

definition row_exists :: "(int \<Rightarrow> 'r option) \<Rightarrow> int option \<Rightarrow> bool" where
  "row_exists lookup i \<longleftrightarrow> Option.bind i lookup \<noteq> None"

definition target_exists ::
  "string \<Rightarrow> int option \<Rightarrow> int option \<Rightarrow> int option \<Rightarrow> int option \<Rightarrow> portal_db \<Rightarrow> bool" where
  "target_exists p category_id challenge_id page_id solution_id d =
     (if p = ''category_icon'' then row_exists (\<lambda>i. find_category i (pd_objects d)) category_id
      else if p \<in> {''challenge_asset'', ''submission'', ''patch'', ''program''}
      then row_exists (\<lambda>i. find_challenge i d) challenge_id
      else if p = ''page_asset'' then row_exists (\<lambda>i. find_page i d) page_id
      else if p = ''solution_asset''
      then row_exists (\<lambda>i. find_challenge i d) challenge_id \<and>
        (case Option.bind solution_id (\<lambda>i. find_solution i d) of
           None \<Rightarrow> False | Some s \<Rightarrow> sln_challenge_id s = challenge_id)
      else True)"

definition lock_validated_target :: "purpose \<Rightarrow> validated_target \<Rightarrow> portal_db \<Rightarrow> bool" where
  "lock_validated_target p t d =
     target_exists (purpose_text p) (vt_category_id t) (vt_challenge_id t) (vt_page_id t) (vt_solution_id t) d"

definition lock_target :: "stored_object \<Rightarrow> portal_db \<Rightarrow> bool" where
  "lock_target ob d =
     target_exists (obj_purpose ob) (obj_category_id ob) (obj_challenge_id ob) (obj_page_id ob)
       (obj_solution_id ob) d"

section \<open>Principals\<close>

datatype authorization_principal = For_Target | For_User int | For_Team int

fun principal_scope :: "authorization_principal \<Rightarrow> string" where
  "principal_scope For_Target = ''target''"
| "principal_scope (For_User _) = ''user''"
| "principal_scope (For_Team _) = ''team''"

fun quota_id :: "authorization_principal \<Rightarrow> int option" where
  "quota_id For_Target = None"
| "quota_id (For_User i) = Some i"
| "quota_id (For_Team i) = Some i"

fun principal_team :: "authorization_principal \<Rightarrow> int option" where
  "principal_team (For_Team i) = Some i"
| "principal_team _ = None"

definition principal_in_transaction ::
  "current_user \<Rightarrow> purpose \<Rightarrow> string \<Rightarrow> portal_db \<Rightarrow> authorization_principal answer" where
  "principal_in_transaction u p mode d =
     (if is_asset p then Inr For_Target
      else if mode = ''teams''
      then (case current_team (cu_id u) d of
              Some t \<Rightarrow> Inr (For_Team t)
            | None \<Rightarrow> if is_admin u then Inr (For_User (cu_id u))
                      else Inl (forbidden ''Join a team before uploading challenge data''))
      else Inr (For_User (cu_id u)))"

definition require_current_upload_principal ::
  "stored_object \<Rightarrow> authorization_principal \<Rightarrow> int \<Rightarrow> unit answer" where
  "require_current_upload_principal ob who actor =
     (if (case who of
            For_Target \<Rightarrow> obj_scope ob = ''target''
          | For_User i \<Rightarrow> obj_scope ob = ''user'' \<and> obj_owner_user_id ob = Some i
          | For_Team t \<Rightarrow> obj_scope ob = ''team'' \<and> obj_owner_user_id ob = Some actor \<and> obj_owner_team_id ob = Some t)
      then Inr () else Inl (conflict ''The upload was created for a previous competition mode''))"

definition require_same_upload ::
  "stored_object \<Rightarrow> purpose \<Rightarrow> authorization_principal \<Rightarrow> validated_target \<Rightarrow> string \<Rightarrow> string \<Rightarrow> int \<Rightarrow> string
   \<Rightarrow> unit answer" where
  "require_same_upload ob p who t filename content_type bytes checksum =
     (if obj_purpose ob \<noteq> purpose_text p \<or> obj_scope ob \<noteq> principal_scope who \<or>
         obj_owner_team_id ob \<noteq> principal_team who \<or> obj_category_id ob \<noteq> vt_category_id t \<or>
         obj_challenge_id ob \<noteq> vt_challenge_id t \<or> obj_page_id ob \<noteq> vt_page_id t \<or>
         obj_solution_id ob \<noteq> vt_solution_id t \<or> obj_filename ob \<noteq> filename \<or>
         obj_content_type ob \<noteq> content_type \<or> obj_expected_size ob \<noteq> bytes \<or> obj_expected_checksum ob \<noteq> checksum
      then Inl (conflict ''Idempotency-Key was already used for a different upload'') else Inr ())"

section \<open>Who may change an object\<close>

record mutation_identity =
  mi_user_type :: "string option"
  mi_team_id :: "int option"
  mi_banned :: bool
  mi_team_banned :: bool

definition mutation_scope_authorized ::
  "string \<Rightarrow> int \<Rightarrow> mutation_identity \<Rightarrow> int option \<Rightarrow> int option \<Rightarrow> bool" where
  "mutation_scope_authorized scope actor m owner_user_id owner_team_id \<longleftrightarrow>
     \<not> mi_banned m \<and> \<not> mi_team_banned m \<and>
     (if scope = ''target'' then mi_user_type m = Some ''admin''
      else if scope = ''user'' then owner_user_id = Some actor
      else scope = ''team'' \<and> owner_user_id = Some actor \<and> owner_team_id \<noteq> None \<and> owner_team_id = mi_team_id m)"

text \<open>\<open>users.type\<close> may be null, which the code cannot decode.\<close>

definition authorize_change :: "int \<Rightarrow> stored_object \<Rightarrow> portal_db \<Rightarrow> unit answer" where
  "authorize_change actor ob d =
     (case find_user actor d of
        None \<Rightarrow> Inl (not_found ''Object not found'')
      | Some a \<Rightarrow>
          if usr_type a = None then Inl database_error
          else if mutation_scope_authorized (obj_scope ob) actor
              \<lparr>mi_user_type = usr_type a, mi_team_id = usr_team_id a, mi_banned = is_true (usr_banned a),
               mi_team_banned = team_banned (usr_team_id a) d\<rparr> (obj_owner_user_id ob) (obj_owner_team_id ob)
          then Inr () else Inl (not_found ''Object not found''))"

end
