(* ===== verification/ObjectRequests.thy ===== *)
theory ObjectRequests
  imports ObjectAccess
begin

text \<open>
  The requests to the object storage API (\<open>services/api/src/routes/objects.rs\<close>): starting and
  completing an upload, deleting an object, the icons of categories, and download grants.

  A transaction is one step on the tables. Completing an upload sends requests to the object service
  inside its transaction, and these are not undone: the state is the tables and the service. The
  database may fail before those requests or after them (\<open>tx_fault\<close>); a failed statement has not
  happened. After a rollback the upload is failed in a transaction of its own, and other connections
  may commit between the two (\<open>meanwhile\<close>). \<open>sc_app k\<close> is the \<open>k\<close>-th reading of the application's clock,
  \<open>sc_db k\<close> the time of the \<open>k\<close>-th transaction; \<open>reads k\<close> is what the \<open>k\<close>-th read on the pool sees.
\<close>

section \<open>Statements\<close>

record storage_clocks =
  sc_app :: "nat \<Rightarrow> time"
  sc_db :: "nat \<Rightarrow> time"
  sc_unix :: int

definition on_objects :: "(object_db \<Rightarrow> 'a answer \<times> object_db) \<Rightarrow> portal_db \<Rightarrow> 'a answer \<times> portal_db" where
  "on_objects f p = (case f (pd_objects p) of (r, d) \<Rightarrow> (r, p\<lparr>pd_objects := d\<rparr>))"

definition load_object :: "uuid \<Rightarrow> object_db \<Rightarrow> stored_object answer" where
  "load_object i d = found (not_found ''Object not found'') (List.find (\<lambda>ob. obj_id ob = i) (objects d))"

definition insert_object_event ::
  "uuid \<Rightarrow> string \<Rightarrow> int option \<Rightarrow> json \<Rightarrow> object_db \<Rightarrow> object_db" where
  "insert_object_event i event_type actor details d =
     d\<lparr>object_events := object_events d @ [\<lparr>oev_object_id = i, oev_event_type = event_type,
         oev_source = ''api'', oev_actor_user_id = actor, oev_details = details\<rparr>]\<rparr>"

definition staging_cleanup_at :: "time \<Rightarrow> time" where
  "staging_cleanup_at upload_expires_at = upload_expires_at + secs 5"

text \<open>\<open>INSERT ... WHERE NOT EXISTS\<close> an open operation of the kind.\<close>

definition enqueue_operation ::
  "time \<Rightarrow> uuid \<Rightarrow> object_op \<Rightarrow> int \<Rightarrow> time \<Rightarrow> object_db \<Rightarrow> object_db" where
  "enqueue_operation now i kind revision available d = insert_operation now (i, kind, revision, available) d"

definition cancel_operations :: "time \<Rightarrow> uuid \<Rightarrow> object_op set \<Rightarrow> object_db \<Rightarrow> object_db" where
  "cancel_operations now i kinds d =
     d\<lparr>operations := update_where
         (\<lambda>r. row_object_id r = i \<and> row_operation r \<in> kinds \<and> open_status (row_status r))
         (\<lambda>r. r\<lparr>row_status := Cancelled, row_completed_at := Some now\<rparr>) (operations d)\<rparr>"

text \<open>\<open>UPDATE ... RETURNING revision\<close> with \<open>fetch_one\<close>: no row is an error.\<close>

definition returning_revision ::
  "(stored_object \<Rightarrow> bool) \<Rightarrow> (stored_object \<Rightarrow> stored_object) \<Rightarrow> object_db \<Rightarrow> int answer \<times> object_db" where
  "returning_revision P f d =
     (case List.find P (objects d) of
        None \<Rightarrow> (Inl database_error, d)
      | Some r \<Rightarrow> (Inr (obj_revision (f r)), d\<lparr>objects := update_where P f (objects d)\<rparr>))"

definition mark_object_deleting ::
  "time \<Rightarrow> time \<Rightarrow> stored_object \<Rightarrow> int option \<Rightarrow> string \<Rightarrow> object_db \<Rightarrow> unit answer \<times> object_db" where
  "mark_object_deleting db_now app_now ob actor reason d =
     (if obj_status ob \<in> {Obj_Deleted, Obj_Deleting} then (Inr (), d)
      else and_then (returning_revision (\<lambda>r. obj_id r = obj_id ob \<and> obj_revision r = obj_revision ob)
          (\<lambda>r. r\<lparr>obj_status := Obj_Deleting, obj_revision := obj_revision r + 1\<rparr>) d) (\<lambda>revision d.
        (Inr (),
         insert_object_event (obj_id ob) ''delete_requested'' actor (JObj [(''reason'', JStr reason)])
          (enqueue_operation db_now (obj_id ob) Op_Delete revision app_now
          (enqueue_operation db_now (obj_id ob) Op_Delete_Upload revision
             (staging_cleanup_at (obj_upload_expires_at ob))
          (cancel_operations db_now (obj_id ob) UNIV d))))))"

fun mark_all_deleting ::
  "time \<Rightarrow> time \<Rightarrow> stored_object list \<Rightarrow> int option \<Rightarrow> string \<Rightarrow> object_db \<Rightarrow> unit answer \<times> object_db" where
  "mark_all_deleting db_now app_now [] actor reason d = (Inr (), d)"
| "mark_all_deleting db_now app_now (ob # obs) actor reason d =
     and_then (mark_object_deleting db_now app_now ob actor reason d)
       (\<lambda>_ d. mark_all_deleting db_now app_now obs actor reason d)"

section \<open>Starting an upload\<close>

record object_view =
  ov_id :: uuid
  ov_purpose :: string
  ov_status :: object_status
  ov_filename :: string
  ov_content_type :: string
  ov_expected_size :: int
  ov_actual_size :: "int option"
  ov_sha256 :: "string option"
  ov_targets :: "int option \<times> int option \<times> int option \<times> int option"
  ov_upload_expires_at :: time
  ov_created_at :: time
  ov_ready_at :: "time option"

definition view_of :: "stored_object \<Rightarrow> object_view" where
  "view_of ob = \<lparr>ov_id = obj_id ob, ov_purpose = obj_purpose ob, ov_status = obj_status ob,
     ov_filename = obj_filename ob, ov_content_type = obj_content_type ob,
     ov_expected_size = obj_expected_size ob, ov_actual_size = obj_actual_size ob,
     ov_sha256 = Some (coalesce (obj_actual_checksum ob) (obj_expected_checksum ob)),
     ov_targets = (obj_category_id ob, obj_challenge_id ob, obj_page_id ob, obj_solution_id ob),
     ov_upload_expires_at = obj_upload_expires_at ob, ov_created_at = obj_created_at ob,
     ov_ready_at = obj_ready_at ob\<rparr>"

record upload_instructions =
  ui_url :: string
  ui_headers :: "(string \<times> string) list"
  ui_expires_at :: time

record upload_grant =
  ug_object :: object_view
  ug_upload :: "upload_instructions option"
  ug_complete_path :: string

definition upload_grant_for :: "stored_object \<Rightarrow> upload_instructions option \<Rightarrow> upload_grant" where
  "upload_grant_for ob instructions = \<lparr>ug_object = view_of ob, ug_upload = instructions,
     ug_complete_path = ''/bff/api/v1/storage/objects/'' @ uuid_text (obj_id ob) @ ''/complete''\<rparr>"

definition build_upload_grant :: "object_storage \<Rightarrow> time \<Rightarrow> stored_object \<Rightarrow> upload_grant answer" where
  "build_upload_grant st now ob =
     (if obj_status ob = Obj_Ready then Inr (upload_grant_for ob None)
      else if obj_upload_expires_at ob - now \<le> 0 then Inl (conflict ''The upload grant has expired'')
      else case put_url st (obj_upload_key ob) (obj_content_type ob) (obj_expected_size ob)
          (obj_expected_checksum ob) (obj_upload_expires_at ob - now) of
        None \<Rightarrow> Inl (upstream ''Could not authorize object upload'')
      | Some (url, checksum) \<Rightarrow> Inr (upload_grant_for ob (Some
          \<lparr>ui_url = url, ui_headers = [(''Content-Type'', obj_content_type ob), (''x-amz-checksum-sha256'', checksum)],
           ui_expires_at = obj_upload_expires_at ob\<rparr>)))"

definition load_idempotent_object :: "int \<Rightarrow> string \<Rightarrow> object_db \<Rightarrow> stored_object option" where
  "load_idempotent_object user key d =
     List.find (\<lambda>ob. obj_owner_user_id ob = Some user \<and> obj_idempotency_key ob = Some key) (objects d)"

text \<open>The four sums of \<open>enforce_storage_quota\<close> over a principal's objects.\<close>

definition objects_of_principal :: "authorization_principal \<Rightarrow> object_db \<Rightarrow> stored_object list" where
  "objects_of_principal who d =
     filter (\<lambda>ob. obj_scope ob = principal_scope who \<and>
        (case who of For_User i \<Rightarrow> obj_owner_user_id ob = Some i
         | For_Team i \<Rightarrow> obj_owner_team_id ob = Some i | For_Target \<Rightarrow> False)) (objects d)"

definition pending_objects :: "authorization_principal \<Rightarrow> object_db \<Rightarrow> stored_object list" where
  "pending_objects who d = filter (\<lambda>ob. obj_status ob = Obj_Pending) (objects_of_principal who d)"

definition pending_bytes :: "authorization_principal \<Rightarrow> object_db \<Rightarrow> int" where
  "pending_bytes who d = sum_list (map obj_expected_size (pending_objects who d))"

definition retained_object :: "object_db \<Rightarrow> stored_object \<Rightarrow> bool" where
  "retained_object d ob \<longleftrightarrow> obj_status ob \<in> {Obj_Pending, Obj_Ready, Obj_Deleting} \<or>
     obj_status ob = Obj_Failed \<and>
     (\<exists>r \<in> set (operations d). row_object_id r = obj_id ob \<and> open_status (row_status r))"

definition retained_bytes :: "authorization_principal \<Rightarrow> object_db \<Rightarrow> int" where
  "retained_bytes who d =
     sum_list (map (\<lambda>ob. coalesce (obj_actual_size ob) (obj_expected_size ob))
       (filter (retained_object d) (objects_of_principal who d)))"

definition recent_uploads :: "time \<Rightarrow> authorization_principal \<Rightarrow> object_db \<Rightarrow> stored_object list" where
  "recent_uploads now who d =
     filter (\<lambda>ob. obj_created_at ob \<ge> now - secs 3600) (objects_of_principal who d)"

definition saturating_i64_add :: "int \<Rightarrow> int \<Rightarrow> int" where
  "saturating_i64_add a b = max (- i64_max - 1) (min i64_max (a + b))"

definition enforce_storage_quota ::
  "object_storage \<Rightarrow> time \<Rightarrow> authorization_principal \<Rightarrow> int \<Rightarrow> object_db \<Rightarrow> unit answer" where
  "enforce_storage_quota st now who requested d =
     (if quota_id who = None then Inr ()
      else if pending_bytes who d > i64_max \<or> retained_bytes who d > i64_max then Inl database_error
      else if int (length (pending_objects who d)) \<ge> os_max_pending_objects st \<or>
          saturating_i64_add (pending_bytes who d) requested > os_max_pending_bytes st \<or>
          saturating_i64_add (retained_bytes who d) requested > os_max_retained_bytes st
      then Inl (conflict ''Object storage quota exceeded'')
      else if int (length (recent_uploads now who d)) \<ge> os_max_uploads_per_hour st
      then Inl (new_error Too_Many_Requests_429 ''Object upload rate limit exceeded'')
      else Inr ())"

text \<open>The insertion, with the unique indexes and the check that an upload expires after its creation.\<close>

definition insert_object :: "stored_object \<Rightarrow> object_db \<Rightarrow> stored_object answer \<times> object_db" where
  "insert_object ob d =
     (if obj_upload_expires_at ob \<le> obj_created_at ob \<or>
         (\<exists>r \<in> set (objects d). obj_id r = obj_id ob \<or>
            obj_bucket r = obj_bucket ob \<and>
              (obj_object_key r = obj_object_key ob \<or> obj_upload_key r = obj_upload_key ob) \<or>
            obj_owner_user_id r \<noteq> None \<and> obj_idempotency_key r \<noteq> None \<and>
              obj_owner_user_id r = obj_owner_user_id ob \<and> obj_idempotency_key r = obj_idempotency_key ob)
      then (Inl database_error, d)
      else (Inr ob, d\<lparr>objects := objects d @ [ob]\<rparr>))"

definition insert_reconciliation :: "time \<Rightarrow> stored_object \<Rightarrow> object_db \<Rightarrow> unit answer \<times> object_db" where
  "insert_reconciliation now ob d =
     (if \<exists>r \<in> set (operations d). open_operation (obj_id ob) Op_Reconcile r then (Inl database_error, d)
      else (Inr (), insert_operation now (obj_id ob, Op_Reconcile, 1, obj_upload_expires_at ob) d))"

text \<open>What the checks before the transaction have settled.\<close>

record upload_plan =
  up_purpose :: purpose
  up_filename :: string
  up_content_type :: string
  up_size :: int
  up_checksum :: string
  up_key :: string
  up_target :: validated_target

definition new_object ::
  "'s storage_env \<Rightarrow> time \<Rightarrow> time \<Rightarrow> uuid \<Rightarrow> current_user \<Rightarrow> upload_plan \<Rightarrow> authorization_principal \<Rightarrow> json
   \<Rightarrow> stored_object" where
  "new_object env app_now db_now object_id u plan who metadata =
     \<lparr>obj_id = object_id, obj_bucket = os_bucket_name (se_storage env),
      obj_object_key = ''objects/'' @ purpose_text (up_purpose plan) @ ''/'' @ se_year_month env app_now @ ''/''
        @ uuid_text object_id @ ''/'' @ up_filename plan,
      obj_upload_key = ''uploads/'' @ uuid_text object_id, obj_purpose = purpose_text (up_purpose plan),
      obj_status = Obj_Pending, obj_scope = principal_scope who, obj_owner_user_id = Some (cu_id u),
      obj_owner_team_id = principal_team who, obj_idempotency_key = Some (up_key plan),
      obj_category_id = vt_category_id (up_target plan), obj_challenge_id = vt_challenge_id (up_target plan),
      obj_page_id = vt_page_id (up_target plan), obj_solution_id = vt_solution_id (up_target plan),
      obj_filename = up_filename plan, obj_content_type = up_content_type plan,
      obj_expected_size = up_size plan, obj_actual_size = None, obj_expected_checksum = up_checksum plan,
      obj_actual_checksum = None, obj_etag = None, obj_metadata = metadata,
      obj_upload_expires_at = app_now + secs (os_presign_ttl (se_storage env)), obj_created_at = db_now,
      obj_ready_at = None, obj_deleted_at = None, obj_revision = 1\<rparr>"

text \<open>The pointer of the category at the start of an icon's upload.\<close>

definition initial_metadata :: "upload_plan \<Rightarrow> object_db \<Rightarrow> json answer" where
  "initial_metadata plan d =
     (if up_purpose plan = Category_Icon
      then (case Option.bind (vt_category_id (up_target plan)) (\<lambda>i. find_category i d) of
              None \<Rightarrow> Inl (not_found ''Object target not found'')
            | Some c \<Rightarrow> Inr (JObj [(''expected_icon_object_id'', json_opt json_uuid (cat_icon c))]))
      else Inr (JObj []))"

definition create_object ::
  "'s storage_env \<Rightarrow> storage_clocks \<Rightarrow> uuid \<Rightarrow> current_user \<Rightarrow> upload_plan \<Rightarrow> authorization_principal \<Rightarrow> json
   \<Rightarrow> object_db \<Rightarrow> stored_object answer \<times> object_db" where
  "create_object env ck object_id u plan who metadata d =
     and_then (if is_admin u then Inr () else
         enforce_storage_quota (se_storage env) (sc_db ck 0) who (up_size plan) d, d) (\<lambda>_ d.
     and_then (insert_object (new_object env (sc_app ck 0) (sc_db ck 0) object_id u plan who metadata) d)
       (\<lambda>ob d.
     and_then (insert_reconciliation (sc_db ck 0) ob
         (insert_object_event object_id ''upload_created'' (Some (cu_id u))
           (JObj [(''purpose'', JStr (purpose_text (up_purpose plan))), (''expected_size'', JInt (up_size plan))]) d))
       (\<lambda>_ d. (Inr ob, d))))"

text \<open>The transaction returns the object and whether it is new; for one that was there, the grant is
  built before the commit.\<close>

definition initiate_body ::
  "'s storage_env \<Rightarrow> storage_clocks \<Rightarrow> uuid \<Rightarrow> current_user \<Rightarrow> upload_plan
   \<Rightarrow> portal_db \<Rightarrow> (upload_grant + stored_object) answer \<times> portal_db" where
  "initiate_body env ck object_id u plan p =
     and_then (revalidate_current_credential (sc_db ck 0) (se_session_lifetime env) u p) (\<lambda>_ p.
     and_then (principal_in_transaction u (up_purpose plan) (user_mode p) p, p) (\<lambda>who p.
     and_then (require (lock_validated_target (up_purpose plan) (up_target plan) p)
         (not_found ''Object target not found'') p) (\<lambda>_ p.
     and_then (initial_metadata plan (pd_objects p), p) (\<lambda>metadata p.
     and_then (case vt_challenge_id (up_target plan) of None \<Rightarrow> (Inr (), p)
         | Some c \<Rightarrow> require_full_challenge_access (sc_unix ck) (Some u) c p) (\<lambda>_ p.
     (case load_idempotent_object (cu_id u) (up_key plan) (pd_objects p) of
        Some existing \<Rightarrow>
          and_then (require_same_upload existing (up_purpose plan) who (up_target plan) (up_filename plan)
             (up_content_type plan) (up_size plan) (up_checksum plan), p) (\<lambda>_ p.
          and_then (require (obj_status existing \<in> {Obj_Pending, Obj_Ready})
             (conflict ''The idempotent upload is no longer available'') p) (\<lambda>_ p.
          and_then (build_upload_grant (se_storage env) (sc_app ck 1) existing, p) (\<lambda>grant p.
            (Inr (Inl grant), p))))
      | None \<Rightarrow>
          and_then (on_objects (create_object env ck object_id u plan who metadata) p)
            (\<lambda>ob p. (Inr (Inr ob), p))))))))"

definition plan_upload ::
  "'s storage_env \<Rightarrow> storage_clocks \<Rightarrow> (nat \<Rightarrow> portal_db) \<Rightarrow> current_user \<Rightarrow> string option option
   \<Rightarrow> upload_request \<Rightarrow> portal_db \<Rightarrow> upload_plan answer \<times> portal_db" where
  "plan_upload env ck reads u header request p =
     and_then (parse_purpose (trim (ur_purpose request)), p) (\<lambda>purpose p.
     and_then (if is_asset purpose then require_admin u p else (Inr (), p)) (\<lambda>_ p.
     and_then (safe_filename (ur_filename request), p) (\<lambda>filename p.
     and_then (safe_content_type (se_header_value env) (ur_content_type request), p) (\<lambda>content_type p.
     and_then (validate_upload_policy purpose content_type (ur_size request)
        (os_max_upload_bytes (se_storage env)), p) (\<lambda>_ p.
     and_then (validate_sha256 (ur_sha256 request), p) (\<lambda>checksum p.
     and_then (required_idempotency_key header, p) (\<lambda>key p.
     and_then (validate_target (sc_unix ck) reads u purpose request, p) (\<lambda>target p.
     (Inr \<lparr>up_purpose = purpose, up_filename = filename, up_content_type = content_type,
        up_size = ur_size request, up_checksum = checksum, up_key = key, up_target = target\<rparr>, p)))))))))"

definition initiate_upload ::
  "'s storage_env \<Rightarrow> storage_clocks \<Rightarrow> uuid \<Rightarrow> bool \<Rightarrow> (nat \<Rightarrow> portal_db) \<Rightarrow> current_user
   \<Rightarrow> string option option \<Rightarrow> upload_request \<Rightarrow> portal_db \<Rightarrow> (status_code \<times> upload_grant) answer \<times> portal_db" where
  "initiate_upload env ck object_id database_fails reads u header request p =
     and_then (plan_upload env ck reads u header request p) (\<lambda>plan p.
     and_then (in_transaction database_fails (initiate_body env ck object_id u plan) p) (\<lambda>r p.
       (case r of
          Inl grant \<Rightarrow> (Inr (Ok_200, grant), p)
        | Inr ob \<Rightarrow> and_then (build_upload_grant (se_storage env) (sc_app ck 1) ob, p)
            (\<lambda>grant p. (Inr (Created_201, grant), p)))))"

end
