(* ===== verification/ObjectLifecycle.thy ===== *)
theory ObjectLifecycle
  imports ObjectRequests "HOL-Library.AList"
begin

text \<open>
  Completing and failing an upload, deleting an object, the icons of categories and the download
  grants (\<open>services/api/src/routes/objects.rs\<close>). The conventions are those of \<open>ObjectRequests\<close>.
\<close>

section \<open>Failing an upload and deleting an object\<close>

definition fail_pending ::
  "storage_clocks \<Rightarrow> int \<Rightarrow> stored_object \<Rightarrow> string \<Rightarrow> object_db \<Rightarrow> unit answer \<times> object_db" where
  "fail_pending ck actor current reason d =
     and_then (returning_revision
         (\<lambda>r. obj_id r = obj_id current \<and> obj_status r = Obj_Pending \<and> obj_revision r = obj_revision current)
         (\<lambda>r. r\<lparr>obj_status := Obj_Failed, obj_revision := obj_revision r + 1\<rparr>) d) (\<lambda>revision d.
       (Inr (),
        insert_object_event (obj_id current) ''upload_failed'' (Some actor) (JObj [(''reason'', JStr reason)])
         (enqueue_operation (sc_db ck 1) (obj_id current) Op_Delete_Upload revision
            (staging_cleanup_at (obj_upload_expires_at current))
         (enqueue_operation (sc_db ck 1) (obj_id current) Op_Delete revision (sc_app ck 2)
         (cancel_operations (sc_db ck 1) (obj_id current) UNIV d)))))"

definition fail_body ::
  "'s storage_env \<Rightarrow> storage_clocks \<Rightarrow> current_user \<Rightarrow> uuid \<Rightarrow> string \<Rightarrow> portal_db \<Rightarrow> unit answer \<times> portal_db" where
  "fail_body env ck u i reason p =
     and_then (revalidate_current_credential (sc_db ck 1) (se_session_lifetime env) u p) (\<lambda>_ p.
     and_then (load_object i (pd_objects p), p) (\<lambda>current p.
     and_then (authorize_change (cu_id u) current p, p) (\<lambda>_ p.
       if obj_status current \<noteq> Obj_Pending then (Inr (), p)
       else on_objects (fail_pending ck (cu_id u) current reason) p)))"

definition fail_upload ::
  "'s storage_env \<Rightarrow> storage_clocks \<Rightarrow> bool \<Rightarrow> current_user \<Rightarrow> stored_object \<Rightarrow> string
   \<Rightarrow> portal_db \<Rightarrow> unit answer \<times> portal_db" where
  "fail_upload env ck database_fails u ob reason p =
     in_transaction database_fails (fail_body env ck u (obj_id ob) reason) p"

definition schedule_delete ::
  "'s storage_env \<Rightarrow> storage_clocks \<Rightarrow> bool \<Rightarrow> current_user \<Rightarrow> stored_object
   \<Rightarrow> portal_db \<Rightarrow> unit answer \<times> portal_db" where
  "schedule_delete env ck database_fails u ob =
     in_transaction database_fails (\<lambda>p.
       and_then (revalidate_current_credential (sc_db ck 0) (se_session_lifetime env) u p) (\<lambda>_ p.
       and_then (if obj_purpose ob = ''category_icon''
           then (case obj_category_id ob of
                   None \<Rightarrow> Inl (not_found ''Object not found'')
                 | Some c \<Rightarrow> Inr (Option.bind (find_category c (pd_objects p)) cat_icon))
           else Inr None, p) (\<lambda>attached p.
       and_then (load_object (obj_id ob) (pd_objects p), p) (\<lambda>current p.
       and_then (authorize_change (cu_id u) current p, p) (\<lambda>_ p.
       and_then (require (attached \<noteq> Some (obj_id current))
           (conflict ''Remove the current icon through its challenge category'') p) (\<lambda>_ p.
         on_objects (mark_object_deleting (sc_db ck 0) (sc_app ck 0) current (Some (cu_id u))
           ''object_delete_requested'') p))))))"

definition api_delete_object ::
  "'s storage_env \<Rightarrow> storage_clocks \<Rightarrow> bool \<Rightarrow> (nat \<Rightarrow> portal_db) \<Rightarrow> current_user \<Rightarrow> uuid
   \<Rightarrow> portal_db \<Rightarrow> unit answer \<times> portal_db" where
  "api_delete_object env ck database_fails reads u object_id p =
     and_then (load_object object_id (pd_objects (reads 0)), p) (\<lambda>ob p.
     and_then (authorize_change (cu_id u) ob (reads 1), p) (\<lambda>_ p.
       schedule_delete env ck database_fails u ob p))"

definition delete_category_icon_step ::
  "storage_clocks \<Rightarrow> int \<Rightarrow> int \<Rightarrow> uuid \<Rightarrow> object_db \<Rightarrow> unit answer \<times> object_db" where
  "delete_category_icon_step ck actor category_id object_id d =
     (case find_category category_id d of
        None \<Rightarrow> (Inl (not_found ''Challenge category not found''), d)
      | Some c \<Rightarrow>
          if cat_icon c \<noteq> Some object_id then (Inl (conflict ''The challenge category icon has changed''), d)
          else
            let detached = (\<lambda>c. cat_id c = category_id \<and> cat_icon c = Some object_id) in
            if rows_affected detached (categories d) \<noteq> 1
            then (Inl (conflict ''The challenge category icon has changed''), d)
            else mark_all_deleting (sc_db ck 0) (sc_app ck 0)
              (sort_key obj_id (filter (\<lambda>ob. obj_category_id ob = Some category_id \<and>
                 obj_purpose ob = ''category_icon'' \<and> (obj_id ob = object_id \<or> obj_status ob = Obj_Pending)) (objects d)))
              (Some actor) ''category_icon_removed''
              (d\<lparr>categories := update_where detached (\<lambda>c. c\<lparr>cat_icon := None\<rparr>) (categories d)\<rparr>))"

definition delete_category_icon ::
  "'s storage_env \<Rightarrow> storage_clocks \<Rightarrow> bool \<Rightarrow> current_user \<Rightarrow> int \<Rightarrow> uuid
   \<Rightarrow> portal_db \<Rightarrow> unit answer \<times> portal_db" where
  "delete_category_icon env ck database_fails u category_id object_id p =
     and_then (require_admin u p) (\<lambda>_ p.
       in_transaction database_fails (\<lambda>p.
         and_then (revalidate_current_credential (sc_db ck 0) (se_session_lifetime env) u p) (\<lambda>_ p.
           on_objects (delete_category_icon_step ck (cu_id u) category_id object_id) p)) p)"

section \<open>Completing an upload\<close>

definition category_icon_is_current :: "stored_object \<Rightarrow> object_db \<Rightarrow> bool" where
  "category_icon_is_current ob d \<longleftrightarrow>
     (case obj_category_id ob of None \<Rightarrow> False
      | Some c \<Rightarrow> \<exists>r \<in> set (categories d). cat_id r = c \<and> cat_icon r = Some (obj_id ob))"

definition expected_category_icon :: "(string \<Rightarrow> uuid option) \<Rightarrow> stored_object \<Rightarrow> uuid option answer" where
  "expected_category_icon parse_uuid ob =
     (case json_get ''expected_icon_object_id'' (obj_metadata ob) of
        Some JNull \<Rightarrow> Inr None
      | Some (JStr v) \<Rightarrow>
          (case parse_uuid v of
             None \<Rightarrow> Inl (conflict ''Category icon upload snapshot is invalid'') | Some i \<Rightarrow> Inr (Some i))
      | _ \<Rightarrow> Inl (conflict ''Category icon upload snapshot is missing''))"

text \<open>\<open>Map::extend\<close>: a key that is there gets the new value.\<close>

fun json_members :: "json \<Rightarrow> (string \<times> json) list" where
  "json_members (JObj ms) = ms"
| "json_members _ = []"

definition merge_object_metadata :: "json \<Rightarrow> json \<Rightarrow> json" where
  "merge_object_metadata current validation =
     JObj (fold (\<lambda>(k, v) ms. AList.update k v ms) (json_members validation) (json_members current))"

text \<open>The checks under the locks, before the first request: give the upload up, answer that it is
  ready already, or promote it, with the category's icon before.\<close>

datatype completion_check =
    Abandon stored_object string api_error
  | Already_Ready stored_object
  | Promote stored_object "uuid option"

definition check_category_icon ::
  "'s storage_env \<Rightarrow> stored_object \<Rightarrow> portal_db \<Rightarrow> completion_check answer \<times> portal_db" where
  "check_category_icon env current p =
     and_then (found (conflict ''Category icon target is invalid'') (obj_category_id current), p) (\<lambda>c p.
     and_then (found database_error (find_category c (pd_objects p)), p) (\<lambda>row p.
     and_then (expected_category_icon (se_parse_uuid env) current, p) (\<lambda>expected p.
       (Inr (if cat_icon row \<noteq> expected
          then Abandon current ''category_icon_superseded''
            (conflict ''A newer category icon choice superseded this upload'')
          else Promote current (cat_icon row)), p))))"

definition check_completion ::
  "'s storage_env \<Rightarrow> storage_clocks \<Rightarrow> current_user \<Rightarrow> stored_object \<Rightarrow> purpose
   \<Rightarrow> portal_db \<Rightarrow> completion_check answer \<times> portal_db" where
  "check_completion env ck u ob purpose p =
     and_then (revalidate_current_credential (sc_db ck 0) (se_session_lifetime env) u p) (\<lambda>_ p.
     if \<not> lock_target ob p
     then (Inr (Abandon ob ''target_removed'' (conflict ''The upload target no longer exists'')), p)
     else and_then (load_object (obj_id ob) (pd_objects p), p) (\<lambda>current p.
       and_then (authorize_change (cu_id u) current p, p) (\<lambda>_ p.
       and_then (principal_in_transaction u purpose (user_mode p) p, p) (\<lambda>who p.
       and_then (require_current_upload_principal current who (cu_id u), p) (\<lambda>_ p.
       if obj_status current = Obj_Ready
       then and_then (require (purpose = Category_Icon \<longrightarrow> category_icon_is_current current (pd_objects p))
           (conflict ''This category icon upload is no longer current'') p) (\<lambda>_ p. (Inr (Already_Ready current), p))
       else if obj_status current \<noteq> Obj_Pending then (Inl (conflict ''Object upload is no longer pending''), p)
       else if obj_upload_expires_at current < sc_app ck 1
       then (Inr (Abandon current ''upload_expired'' (conflict ''Object upload has expired'')), p)
       else if purpose = Category_Icon then check_category_icon env current p
       else (Inr (Promote current None), p))))))"

text \<open>The requests of the promotion: an error to return, a reason to give the upload up, or the metadata
  of the final copy and of the object.\<close>

definition promote ::
  "'s storage_env \<Rightarrow> purpose \<Rightarrow> stored_object \<Rightarrow> 's
   \<Rightarrow> ((string \<times> api_error) + head_metadata \<times> json) answer \<times> 's" where
  "promote env purpose current s =
     and_then (copy_to_final_key env current s) (\<lambda>_ s.
     and_then (head_object env (obj_object_key current) s) (\<lambda>final s.
     if hd_length final \<noteq> obj_expected_size current \<or> hd_content_type final \<noteq> Some (obj_content_type current)
     then (Inr (Inl (''promotion_metadata_mismatch'',
       upstream ''Object storage did not preserve the promoted object metadata'')), s)
     else if purpose = Category_Icon
     then (case load_and_validate_category_icon env (obj_object_key current) (obj_content_type current)
             (obj_expected_checksum current) s of
             (Inr validation, s) \<Rightarrow> (Inr (Inr (final, merge_object_metadata (obj_metadata current) validation)), s)
           | (Inl e, s) \<Rightarrow> (Inr (Inl (''promoted_category_icon_invalid'', e)), s))
     else (Inr (Inr (final, obj_metadata current)), s)))"

definition attach_category_icon ::
  "storage_clocks \<Rightarrow> int \<Rightarrow> stored_object \<Rightarrow> int \<Rightarrow> uuid option \<Rightarrow> object_db \<Rightarrow> unit answer \<times> object_db" where
  "attach_category_icon ck actor current category_id previous d =
     (let held = (\<lambda>c. cat_id c = category_id \<and> cat_icon c = previous) in
      if rows_affected held (categories d) \<noteq> 1
      then (Inl (conflict ''A newer category icon choice superseded this upload''), d)
      else
        let d = d\<lparr>categories := update_where held (\<lambda>c. c\<lparr>cat_icon := Some (obj_id current)\<rparr>) (categories d)\<rparr> in
        and_then (case previous of
            None \<Rightarrow> (Inr (), d)
          | Some i \<Rightarrow>
              and_then (load_object i d, d) (\<lambda>old d.
                mark_object_deleting (sc_db ck 0) (sc_app ck 1) old (Some actor) ''category_icon_replaced'' d))
        (\<lambda>_ d. mark_all_deleting (sc_db ck 0) (sc_app ck 1)
          (sort_key obj_id (filter (\<lambda>ob. obj_category_id ob = Some category_id \<and>
             obj_purpose ob = ''category_icon'' \<and> obj_status ob = Obj_Pending \<and> obj_id ob \<noteq> obj_id current) (objects d)))
          (Some actor) ''category_icon_upload_superseded'' d))"

definition ready_row :: "time \<Rightarrow> stored_object \<Rightarrow> head_metadata \<Rightarrow> json \<Rightarrow> stored_object \<Rightarrow> stored_object" where
  "ready_row now current final metadata r =
     r\<lparr>obj_status := Obj_Ready, obj_actual_size := Some (hd_length final),
       obj_actual_checksum := Some (obj_expected_checksum current), obj_etag := hd_etag final,
       obj_ready_at := Some now, obj_revision := obj_revision r + 1, obj_metadata := metadata\<rparr>"

text \<open>The update of the object is refused when it would be ready before it was created.\<close>

definition finish_completion ::
  "storage_clocks \<Rightarrow> int \<Rightarrow> purpose \<Rightarrow> stored_object \<Rightarrow> uuid option \<Rightarrow> head_metadata \<Rightarrow> json
   \<Rightarrow> object_db \<Rightarrow> unit answer \<times> object_db" where
  "finish_completion ck actor purpose current previous final metadata d =
     and_then (require (obj_created_at current \<le> sc_db ck 0) database_error d) (\<lambda>_ d.
     and_then (returning_revision
         (\<lambda>r. obj_id r = obj_id current \<and> obj_status r = Obj_Pending \<and> obj_revision r = obj_revision current)
         (ready_row (sc_db ck 0) current final metadata) d) (\<lambda>revision d.
     and_then (if purpose = Category_Icon
         then (case obj_category_id current of
                 None \<Rightarrow> (Inl database_error, d)
               | Some c \<Rightarrow> attach_category_icon ck actor current c previous d)
         else (Inr (), d)) (\<lambda>_ d.
       (Inr (),
        insert_object_event (obj_id current) ''upload_completed'' (Some actor)
          (JObj [(''actual_size'', JInt (hd_length final)), (''etag'', json_opt JStr (hd_etag final)),
            (''sha256'', JStr (obj_expected_checksum current))])
         (enqueue_operation (sc_db ck 0) (obj_id current) Op_Delete_Upload revision
            (staging_cleanup_at (obj_upload_expires_at current))
         (cancel_operations (sc_db ck 0) (obj_id current) {Op_Reconcile} d))))))"

text \<open>How the database behaves around a transaction that sends requests.\<close>

datatype tx_fault = No_Fault | Fails_Before_Requests | Fails_After_Requests

text \<open>The transaction's result: give the upload up after a rollback, or answer with an object.\<close>

definition completion_transaction ::
  "'s storage_env \<Rightarrow> storage_clocks \<Rightarrow> tx_fault \<Rightarrow> current_user \<Rightarrow> stored_object \<Rightarrow> purpose \<Rightarrow> portal_db \<times> 's
   \<Rightarrow> ((stored_object \<times> string \<times> api_error) + stored_object option) answer \<times> (portal_db \<times> 's)" where
  "completion_transaction env ck fault u ob purpose w =
     (case w of (p, s) \<Rightarrow>
        if fault = Fails_Before_Requests then (Inl database_error, w)
        else case check_completion env ck u ob purpose p of
          (Inl e, _) \<Rightarrow> (Inl e, w)
        | (Inr (Abandon current reason e), _) \<Rightarrow>
            (if fault = No_Fault then Inr (Inl (current, reason, e)) else Inl database_error, w)
        | (Inr (Already_Ready current), _) \<Rightarrow>
            (if fault = No_Fault then Inr (Inr (Some current)) else Inl database_error, w)
        | (Inr (Promote current previous), p1) \<Rightarrow>
            (case promote env purpose current s of
               (Inl e, s) \<Rightarrow> (Inl e, (p, s))
             | (Inr (Inl (reason, e)), s) \<Rightarrow>
                 (if fault = No_Fault then Inr (Inl (current, reason, e)) else Inl database_error, (p, s))
             | (Inr (Inr (final, metadata)), s) \<Rightarrow>
                 if fault \<noteq> No_Fault then (Inl database_error, (p, s))
                 else case on_objects (finish_completion ck (cu_id u) purpose current previous final metadata) p1 of
                   (Inl e, _) \<Rightarrow> (Inl e, (p, s))
                 | (Inr _, p2) \<Rightarrow> (Inr (Inr None), (p2, s))))"

definition give_up ::
  "'s storage_env \<Rightarrow> storage_clocks \<Rightarrow> bool \<Rightarrow> current_user \<Rightarrow> stored_object \<Rightarrow> string \<Rightarrow> api_error
   \<Rightarrow> portal_db \<times> 's \<Rightarrow> 'a answer \<times> (portal_db \<times> 's)" where
  "give_up env ck database_fails u ob reason e w =
     (case w of (p, s) \<Rightarrow>
        (case fail_upload env ck database_fails u ob reason p of
           (Inl e', p) \<Rightarrow> (Inl e', (p, s)) | (Inr _, p) \<Rightarrow> (Inl e, (p, s))))"

text \<open>The requests about the staged copy, before the transaction: a reason to give up, if any.\<close>

definition check_staging ::
  "'s storage_env \<Rightarrow> purpose \<Rightarrow> stored_object \<Rightarrow> 's \<Rightarrow> (string \<times> api_error) option answer \<times> 's" where
  "check_staging env purpose ob s =
     and_then (head_object env (obj_upload_key ob) s) (\<lambda>staged s.
       let mismatch = conflict ''Uploaded object metadata does not match the grant'' in
       if hd_length staged \<noteq> obj_expected_size ob then (Inr (Some (''size_mismatch'', mismatch)), s)
       else if hd_content_type staged \<noteq> Some (obj_content_type ob)
       then (Inr (Some (''content_type_mismatch'', mismatch)), s)
       else if purpose = Category_Icon
       then (case load_and_validate_category_icon env (obj_upload_key ob) (obj_content_type ob)
               (obj_expected_checksum ob) s of
               (Inl e, s) \<Rightarrow> (Inr (Some (''category_icon_invalid'', e)), s)
             | (Inr _, s) \<Rightarrow> (Inr None, s))
       else (Inr None, s))"

record completion_faults =
  cf_transaction :: tx_fault
  cf_failing :: bool
  cf_meanwhile :: "portal_db \<Rightarrow> portal_db"

definition complete_pending ::
  "'s storage_env \<Rightarrow> storage_clocks \<Rightarrow> completion_faults \<Rightarrow> (nat \<Rightarrow> portal_db) \<Rightarrow> current_user \<Rightarrow> stored_object
   \<Rightarrow> purpose \<Rightarrow> portal_db \<times> 's \<Rightarrow> object_view answer \<times> (portal_db \<times> 's)" where
  "complete_pending env ck cf reads u ob purpose w =
     (case completion_transaction env ck (cf_transaction cf) u ob purpose w of
        (Inl e, w) \<Rightarrow> (Inl e, w)
      | (Inr (Inl (current, reason, e)), (p, s)) \<Rightarrow>
          give_up env ck (cf_failing cf) u current reason e (cf_meanwhile cf p, s)
      | (Inr (Inr (Some current)), w) \<Rightarrow> (Inr (view_of current), w)
      | (Inr (Inr None), w) \<Rightarrow>
          and_then (load_object (obj_id ob) (pd_objects (reads 3)), w) (\<lambda>ob w. (Inr (view_of ob), w)))"

definition complete_upload ::
  "'s storage_env \<Rightarrow> storage_clocks \<Rightarrow> completion_faults \<Rightarrow> (nat \<Rightarrow> portal_db) \<Rightarrow> current_user \<Rightarrow> uuid
   \<Rightarrow> portal_db \<times> 's \<Rightarrow> object_view answer \<times> (portal_db \<times> 's)" where
  "complete_upload env ck cf reads u object_id w =
     and_then (load_object object_id (pd_objects (reads 0)), w) (\<lambda>ob w.
     and_then (authorize_change (cu_id u) ob (reads 1), w) (\<lambda>_ w.
     and_then (parse_purpose (obj_purpose ob), w) (\<lambda>purpose w.
     if obj_status ob = Obj_Ready
     then and_then (require (purpose = Category_Icon \<longrightarrow> category_icon_is_current ob (pd_objects (reads 2)))
         (conflict ''This category icon upload is no longer current'') w) (\<lambda>_ w. (Inr (view_of ob), w))
     else if obj_status ob \<noteq> Obj_Pending then (Inl (conflict ''Object upload is no longer pending''), w)
     else if obj_upload_expires_at ob < sc_app ck 0
     then give_up env ck (cf_failing cf) u ob ''upload_expired'' (conflict ''Object upload has expired'') w
     else case w of (p, s) \<Rightarrow>
       (case check_staging env purpose ob s of
          (Inl e, s) \<Rightarrow> (Inl e, (p, s))
        | (Inr (Some (reason, e)), s) \<Rightarrow> give_up env ck (cf_failing cf) u ob reason e (p, s)
        | (Inr None, s) \<Rightarrow> complete_pending env ck cf reads u ob purpose (p, s)))))"

end
