(* ===== verification/ObjectDownloads.thy ===== *)
theory ObjectDownloads
  imports ObjectLifecycle
begin

text \<open>
  Reading objects (\<open>services/api/src/routes/objects.rs\<close>): the grants to download an object or a
  category's icon, and the detail of an object. The object is first read without a lock, at the tables
  \<open>earlier\<close>; the authorization and the locked read see the tables of the transaction.
\<close>

section \<open>Authorization\<close>

text \<open>\<open>effective_user\<close>: in team mode a participant's team is read again.\<close>

definition participant_team :: "int \<Rightarrow> portal_db \<Rightarrow> int option" where
  "participant_team i p =
     Option.bind (find_user i p) (\<lambda>a. if usr_type a = Some ''user'' then usr_team_id a else None)"

definition effective_user :: "current_user option \<Rightarrow> string \<Rightarrow> portal_db \<Rightarrow> current_user option" where
  "effective_user u mode p =
     map_option (\<lambda>a. if mode = ''teams'' \<and> \<not> is_admin a
       then a\<lparr>cu_team_id := participant_team (cu_id a) p\<rparr> else a) u"

definition object_not_found :: api_error where
  "object_not_found = not_found ''Object not found''"

definition competition_access :: "current_user option \<Rightarrow> stored_object \<Rightarrow> string \<Rightarrow> portal_db \<Rightarrow> unit answer" where
  "competition_access u ob mode p =
     (case u of
        None \<Rightarrow> Inl object_not_found
      | Some a \<Rightarrow>
          if is_admin a then Inr ()
          else if obj_scope ob = ''user'' \<and> mode = ''users'' \<and> obj_owner_user_id ob = Some (cu_id a) \<or>
              obj_scope ob = ''team'' \<and> mode = ''teams'' \<and> obj_owner_team_id ob \<noteq> None \<and>
              obj_owner_team_id ob = participant_team (cu_id a) p
          then Inr () else Inl object_not_found)"

definition page_access :: "current_user option \<Rightarrow> stored_object \<Rightarrow> portal_db \<Rightarrow> unit answer" where
  "page_access u ob p =
     (case Option.bind (obj_page_id ob) (\<lambda>i. find_page i p) of
        None \<Rightarrow> Inl object_not_found
      | Some page \<Rightarrow>
          if admin_view u \<or> pg_visibility page = ''public'' \<or> pg_visibility page = ''private'' \<and> u \<noteq> None
          then Inr () else Inl object_not_found)"

definition asset_access :: "int \<Rightarrow> current_user option \<Rightarrow> stored_object \<Rightarrow> portal_db \<Rightarrow> unit answer \<times> portal_db" where
  "asset_access now u ob p =
     and_then (found object_not_found (obj_challenge_id ob), p) (\<lambda>c p.
     and_then (require (find_challenge c p \<noteq> None) object_not_found p) (\<lambda>_ p.
       require_full_challenge_access now u c p))"

definition viewer_has_solved :: "current_user \<Rightarrow> int \<Rightarrow> bool \<Rightarrow> portal_db \<Rightarrow> bool" where
  "viewer_has_solved a c team_mode p \<longleftrightarrow>
     (\<exists>s \<in> set (pd_submissions p). \<exists>v \<in> set (pd_solves p). slv_id v = sub_id s \<and> sub_challenge_id s = c \<and>
        (if team_mode then sub_team_id s \<noteq> None \<and> sub_team_id s = cu_team_id a else sub_user_id s = cu_id a))"

definition solution_access ::
  "int \<Rightarrow> current_user option \<Rightarrow> stored_object \<Rightarrow> string \<Rightarrow> portal_db \<Rightarrow> unit answer \<times> portal_db" where
  "solution_access now u ob mode p =
     and_then (found object_not_found (obj_solution_id ob), p) (\<lambda>i p.
     and_then (found object_not_found (obj_challenge_id ob), p) (\<lambda>c p.
     and_then (require (find_challenge c p \<noteq> None) object_not_found p) (\<lambda>_ p.
     and_then (found object_not_found (List.find (\<lambda>s. sln_id s = i \<and> sln_challenge_id s = Some c) (pd_solutions p)), p)
       (\<lambda>solution p.
     and_then (require_full_challenge_access now u c p) (\<lambda>_ p.
     (case u of
        None \<Rightarrow> Inl object_not_found
      | Some a \<Rightarrow>
          if is_admin a \<or> sln_state solution = ''visible'' \<or>
             sln_state solution = ''solved'' \<and> viewer_has_solved a c (mode = ''teams'') p
          then Inr () else Inl object_not_found, p))))))"

text \<open>\<open>authorize_download_in_transaction\<close>, whose arm for competition objects the handler never
  reaches.\<close>

definition authorize_download ::
  "int \<Rightarrow> current_user option \<Rightarrow> stored_object \<Rightarrow> string \<Rightarrow> portal_db \<Rightarrow> unit answer \<times> portal_db" where
  "authorize_download now u ob mode p =
     (if obj_purpose ob = ''challenge_asset'' then asset_access now u ob p
      else if obj_purpose ob = ''page_asset'' then (page_access u ob p, p)
      else if obj_purpose ob = ''solution_asset'' then solution_access now u ob mode p
      else if is_competition_purpose (obj_purpose ob)
      then (case u of
              None \<Rightarrow> Inl object_not_found
            | Some a \<Rightarrow>
                if is_admin a \<or> obj_scope ob = ''user'' \<and> obj_owner_user_id ob = Some (cu_id a) \<or>
                   obj_scope ob = ''team'' \<and> obj_owner_team_id ob \<noteq> None \<and> obj_owner_team_id ob = cu_team_id a
                then Inr () else Inl object_not_found, p)
      else (Inl object_not_found, p))"

section \<open>Grants\<close>

definition same_download_identity :: "stored_object \<Rightarrow> stored_object \<Rightarrow> bool" where
  "same_download_identity a b \<longleftrightarrow>
     obj_id a = obj_id b \<and> obj_object_key a = obj_object_key b \<and> obj_purpose a = obj_purpose b \<and>
     obj_scope a = obj_scope b \<and> obj_owner_user_id a = obj_owner_user_id b \<and>
     obj_owner_team_id a = obj_owner_team_id b \<and> obj_category_id a = obj_category_id b \<and>
     obj_challenge_id a = obj_challenge_id b \<and> obj_page_id a = obj_page_id b \<and>
     obj_solution_id a = obj_solution_id b \<and> obj_filename a = obj_filename b \<and>
     obj_content_type a = obj_content_type b"

record download_url =
  dl_url :: string
  dl_expires_at :: time

definition download_body ::
  "'s storage_env \<Rightarrow> storage_clocks \<Rightarrow> portal_db \<Rightarrow> current_user option \<Rightarrow> uuid
   \<Rightarrow> portal_db \<Rightarrow> download_url answer \<times> portal_db" where
  "download_body env ck earlier u object_id p =
     and_then (case u of None \<Rightarrow> (Inr (), p)
         | Some a \<Rightarrow> revalidate_current_credential (sc_db ck 0) (se_session_lifetime env) a p) (\<lambda>_ p.
     let mode = user_mode p; who = effective_user u mode p in
     and_then (load_object object_id (pd_objects earlier), p) (\<lambda>authorized p.
     and_then (if is_competition_purpose (obj_purpose authorized)
         then (competition_access who authorized mode p, p)
         else authorize_download (sc_unix ck) who authorized mode p) (\<lambda>_ p.
     and_then (load_object object_id (pd_objects p), p) (\<lambda>ob p.
     and_then (require (same_download_identity authorized ob \<and> obj_status ob = Obj_Ready) object_not_found p) (\<lambda>_ p.
       (Inr \<lparr>dl_url = get_url (se_storage env) (obj_object_key ob) (obj_filename ob) (obj_content_type ob),
          dl_expires_at = sc_app ck 0 + secs (os_presign_ttl (se_storage env))\<rparr>, p))))))"

definition download_grant ::
  "'s storage_env \<Rightarrow> storage_clocks \<Rightarrow> bool \<Rightarrow> portal_db \<Rightarrow> current_user option \<Rightarrow> uuid
   \<Rightarrow> portal_db \<Rightarrow> download_url answer \<times> portal_db" where
  "download_grant env ck database_fails earlier u object_id p =
     in_transaction database_fails (download_body env ck earlier u object_id) p"

text \<open>The metadata that the validation of an icon writes.\<close>

definition validated_icon :: "string \<Rightarrow> json \<Rightarrow> bool" where
  "validated_icon content_type m \<longleftrightarrow>
     (content_type = ''image/png'' \<and> json_get ''format'' m = Some (JStr ''png'') \<or>
      content_type = ''image/svg+xml'' \<and> json_get ''format'' m = Some (JStr ''svg'') \<and>
        json_get ''sanitized'' m = Some (JBool True)) \<and>
     json_get ''width'' m = Some (JInt 128) \<and> json_get ''height'' m = Some (JInt 128) \<and>
     json_get ''animated'' m = Some (JBool False)"

definition current_icon :: "int \<Rightarrow> uuid \<Rightarrow> object_db \<Rightarrow> stored_object option" where
  "current_icon category_id object_id d =
     (if \<exists>c \<in> set (categories d). cat_id c = category_id \<and> cat_icon c = Some object_id
      then List.find (\<lambda>ob. obj_id ob = object_id \<and> obj_category_id ob = Some category_id \<and>
          obj_purpose ob = ''category_icon'' \<and> obj_status ob = Obj_Ready \<and>
          validated_icon (obj_content_type ob) (obj_metadata ob)) (objects d)
      else None)"

definition category_icon_grant ::
  "'s storage_env \<Rightarrow> storage_clocks \<Rightarrow> bool \<Rightarrow> int \<Rightarrow> uuid \<Rightarrow> portal_db \<Rightarrow> download_url answer \<times> portal_db" where
  "category_icon_grant env ck database_fails category_id object_id =
     in_transaction database_fails (\<lambda>p.
       and_then (found (not_found ''Category icon not found'') (current_icon category_id object_id (pd_objects p)), p)
         (\<lambda>ob p. (Inr \<lparr>dl_url = inline_image_url (se_storage env) (obj_object_key ob) (obj_content_type ob),
            dl_expires_at = sc_app ck 0 + secs (os_presign_ttl (se_storage env))\<rparr>, p)))"

definition object_detail :: "bool \<Rightarrow> current_user \<Rightarrow> uuid \<Rightarrow> portal_db \<Rightarrow> object_view answer \<times> portal_db" where
  "object_detail database_fails u object_id =
     in_transaction database_fails (\<lambda>p.
       and_then (load_object object_id (pd_objects p), p) (\<lambda>ob p.
       and_then (authorize_change (cu_id u) ob p, p) (\<lambda>_ p. (Inr (view_of ob), p))))"

end
