(* ===== verification/ObjectPlane.thy ===== *)
theory ObjectPlane
  imports ObjectInvariants ObjectDownloads
begin

text \<open>
  The storage plane as a whole: the API's requests (\<open>services/api/src/routes/objects.rs\<close>) and the
  controller's maintenance (\<open>services/controller/src/storage.rs\<close>) work on the same tables. The invariant
  adds to the worker's the \<open>CHECK\<close> constraints and unique indexes of \<open>stored_objects\<close>
  (\<open>db/init/005-finalize-install.sql\<close>) and what a trigger of the schema asks of the icons: a category
  points to a ready icon of its own. The model has none of these constraints; that every statement
  keeps the invariant shows that the code never runs into them.
\<close>

section \<open>The constraints of a row\<close>

definition known_purposes :: "string list" where
  "known_purposes = [''category_icon'', ''challenge_asset'', ''page_asset'', ''solution_asset'', ''submission'',
     ''patch'', ''program'', ''pcap'', ''result'', ''export'']"

definition asset_purpose :: "string \<Rightarrow> bool" where
  "asset_purpose v \<longleftrightarrow> v \<in> {''category_icon'', ''challenge_asset'', ''page_asset'', ''solution_asset''}"

definition target_matches :: "stored_object \<Rightarrow> bool" where
  "target_matches ob \<longleftrightarrow>
     (let v = obj_purpose ob; targets = (obj_category_id ob \<noteq> None, obj_challenge_id ob \<noteq> None,
          obj_page_id ob \<noteq> None, obj_solution_id ob \<noteq> None) in
      if v = ''category_icon'' then targets = (True, False, False, False)
      else if v \<in> {''challenge_asset'', ''submission'', ''patch'', ''program''}
      then targets = (False, True, False, False)
      else if v = ''page_asset'' then targets = (False, False, True, False)
      else if v = ''solution_asset'' then targets = (False, True, False, True)
      else targets = (False, False, False, False))"

definition icon_size :: "int \<Rightarrow> bool" where
  "icon_size n \<longleftrightarrow> 1 \<le> n \<and> n \<le> int category_icon_max_bytes"

definition sha256_text :: "string \<Rightarrow> bool" where
  "sha256_text v \<longleftrightarrow> length v = 64 \<and> (\<forall>c \<in> set v. lower_hex c)"

text \<open>A constraint on a column that may be null.\<close>

fun when_set :: "('a \<Rightarrow> bool) \<Rightarrow> 'a option \<Rightarrow> bool" where
  "when_set P None \<longleftrightarrow> True"
| "when_set P (Some x) \<longleftrightarrow> P x"

definition object_row_ok :: "stored_object \<Rightarrow> bool" where
  "object_row_ok ob \<longleftrightarrow>
     obj_purpose ob \<in> set known_purposes \<and>
     (obj_status ob \<in> {Obj_Deleting, Obj_Deleted} \<or> target_matches ob) \<and>
     obj_scope ob \<in> (if asset_purpose (obj_purpose ob) then {''target''} else {''user'', ''team''}) \<and>
     (obj_purpose ob = ''category_icon'' \<longrightarrow>
        obj_content_type ob \<in> {''image/png'', ''image/svg+xml''} \<and> icon_size (obj_expected_size ob) \<and>
        when_set icon_size (obj_actual_size ob) \<and>
        (obj_status ob = Obj_Ready \<longrightarrow> validated_icon (obj_content_type ob) (obj_metadata ob))) \<and>
     0 \<le> obj_expected_size ob \<and> when_set (\<lambda>n. 0 \<le> n) (obj_actual_size ob) \<and>
     sha256_text (obj_expected_checksum ob) \<and> when_set sha256_text (obj_actual_checksum ob) \<and>
     0 < obj_revision ob \<and>
     (obj_status ob = Obj_Ready \<longrightarrow>
        obj_actual_size ob \<noteq> None \<and> obj_actual_checksum ob \<noteq> None \<and> obj_ready_at ob \<noteq> None) \<and>
     obj_created_at ob < obj_upload_expires_at ob \<and>
     when_set (\<lambda>t. obj_created_at ob \<le> t) (obj_ready_at ob) \<and>
     when_set (\<lambda>k. k \<noteq> [] \<and> length k \<le> 128 \<and> \<not> has_control k) (obj_idempotency_key ob)"

section \<open>The invariant\<close>

definition same_storage_key :: "stored_object \<Rightarrow> stored_object \<Rightarrow> bool" where
  "same_storage_key a b \<longleftrightarrow>
     obj_bucket a = obj_bucket b \<and> (obj_object_key a = obj_object_key b \<or> obj_upload_key a = obj_upload_key b) \<or>
     obj_owner_user_id a \<noteq> None \<and> obj_idempotency_key a \<noteq> None \<and>
       obj_owner_user_id a = obj_owner_user_id b \<and> obj_idempotency_key a = obj_idempotency_key b"

definition keys_ok :: "stored_object list \<Rightarrow> bool" where
  "keys_ok os \<longleftrightarrow> (\<forall>a \<in> set os. \<forall>b \<in> set os. same_storage_key a b \<longrightarrow> obj_id a = obj_id b)"

definition icon_of :: "category_row \<Rightarrow> stored_object \<Rightarrow> bool" where
  "icon_of c ob \<longleftrightarrow> cat_icon c = Some (obj_id ob) \<and> obj_category_id ob = Some (cat_id c) \<and>
     obj_purpose ob = ''category_icon'' \<and> obj_status ob = Obj_Ready"

definition icons_ok :: "category_row list \<Rightarrow> stored_object list \<Rightarrow> bool" where
  "icons_ok cs os \<longleftrightarrow> distinct (map cat_id cs) \<and>
     (\<forall>c \<in> set cs. cat_icon c \<noteq> None \<longrightarrow> (\<exists>ob \<in> set os. icon_of c ob))"

definition storage_ok :: "object_db \<Rightarrow> bool" where
  "storage_ok d \<longleftrightarrow> object_db_ok d \<and> (\<forall>ob \<in> set (objects d). object_row_ok ob) \<and>
     keys_ok (objects d) \<and> icons_ok (categories d) (objects d)"

lemma storage_okI:
  "object_db_ok d \<Longrightarrow> (\<And>ob. ob \<in> set (objects d) \<Longrightarrow> object_row_ok ob) \<Longrightarrow> keys_ok (objects d) \<Longrightarrow>
     icons_ok (categories d) (objects d) \<Longrightarrow> storage_ok d"
  by (simp add: storage_ok_def)

text \<open>A statement that leaves objects and categories alone keeps it when it keeps the worker's.\<close>

lemma storage_ok_operations:
  assumes "storage_ok d" "object_db_ok d'" "objects d' = objects d" "categories d' = categories d"
  shows "storage_ok d'"
  using assms by (simp add: storage_ok_def)

text \<open>What an update of an object leaves alone.\<close>

definition same_identity :: "stored_object \<Rightarrow> stored_object \<Rightarrow> bool" where
  "same_identity a b \<longleftrightarrow>
     obj_id a = obj_id b \<and> obj_bucket a = obj_bucket b \<and> obj_object_key a = obj_object_key b \<and>
     obj_upload_key a = obj_upload_key b \<and> obj_purpose a = obj_purpose b \<and>
     obj_owner_user_id a = obj_owner_user_id b \<and> obj_idempotency_key a = obj_idempotency_key b \<and>
     obj_category_id a = obj_category_id b"

lemma same_identity_key:
  "same_identity a b \<Longrightarrow> same_identity c e \<Longrightarrow> same_storage_key a c = same_storage_key b e"
  by (simp add: same_identity_def same_storage_key_def)

lemma update_where_mem:
  assumes "r \<in> set (update_where P f rs)" "\<And>q. P q \<Longrightarrow> same_identity (f q) q"
  obtains q where "q \<in> set rs" "same_identity r q" "r = q \<or> P q \<and> r = f q"
  using assms by (auto simp: set_update_where same_identity_def)

lemma storage_ok_update:
  assumes ok: "storage_ok d"
    and f: "\<And>r. P r \<Longrightarrow> same_identity (f r) r \<and> obj_revision r \<le> obj_revision (f r)"
    and row: "\<And>r. P r \<Longrightarrow> r \<in> set (objects d) \<Longrightarrow> object_row_ok r \<Longrightarrow> object_row_ok (f r)"
    and icon: "\<And>r c. P r \<Longrightarrow> c \<in> set (categories d) \<Longrightarrow> icon_of c r \<Longrightarrow> obj_status (f r) = Obj_Ready"
  shows "storage_ok (d\<lparr>objects := update_where P f (objects d)\<rparr>)"
proof (rule storage_okI)
  let ?os = "update_where P f (objects d)"
  have id: "same_identity (f r) r" if "P r" for r using f [OF that] by simp
  show "object_db_ok (d\<lparr>objects := ?os\<rparr>)"
    using ok f by (intro objects_update_ok) (auto simp: storage_ok_def same_identity_def)
  show "object_row_ok ob" if ob: "ob \<in> set (objects (d\<lparr>objects := ?os\<rparr>))" for ob
  proof -
    from ob have "ob \<in> set ?os" by simp
    then obtain q where "q \<in> set (objects d)" "ob = q \<or> P q \<and> ob = f q" using id by (rule update_where_mem)
    with ok row show ?thesis by (auto simp: storage_ok_def)
  qed
  show "keys_ok (objects (d\<lparr>objects := ?os\<rparr>))"
    unfolding keys_ok_def
  proof (intro ballI impI)
    fix a b assume a: "a \<in> set (objects (d\<lparr>objects := ?os\<rparr>))" and b: "b \<in> set (objects (d\<lparr>objects := ?os\<rparr>))"
      and key: "same_storage_key a b"
    from a have "a \<in> set ?os" by simp
    then obtain a' where a': "a' \<in> set (objects d)" "same_identity a a'" using id by (rule update_where_mem)
    from b have "b \<in> set ?os" by simp
    then obtain b' where b': "b' \<in> set (objects d)" "same_identity b b'" using id by (rule update_where_mem)
    from key same_identity_key [OF a'(2) b'(2)] have "same_storage_key a' b'" by simp
    with ok a'(1) b'(1) have "obj_id a' = obj_id b'" by (auto simp: storage_ok_def keys_ok_def)
    with a'(2) b'(2) show "obj_id a = obj_id b" by (simp add: same_identity_def)
  qed
  have "\<exists>ob \<in> set ?os. icon_of c ob" if c: "c \<in> set (categories d)" "cat_icon c \<noteq> None" for c
  proof -
    from ok c obtain ob where ob: "ob \<in> set (objects d)" "icon_of c ob"
      unfolding storage_ok_def icons_ok_def by blast
    let ?r = "if P ob then f ob else ob"
    have "?r \<in> set ?os" using ob(1) by (auto simp: set_update_where)
    moreover have "icon_of c ?r" using ob(2) icon [OF _ c(1) ob(2)] id [of ob]
      by (auto simp: icon_of_def same_identity_def)
    ultimately show ?thesis by blast
  qed
  with ok show "icons_ok (categories (d\<lparr>objects := ?os\<rparr>)) (objects (d\<lparr>objects := ?os\<rparr>))"
    by (simp add: storage_ok_def icons_ok_def)
qed

section \<open>The controller's statements\<close>

lemma target_matches_update [simp]:
  "target_matches (r\<lparr>obj_status := s, obj_revision := n\<rparr>) = target_matches r"
  "target_matches (r\<lparr>obj_status := s, obj_deleted_at := t, obj_revision := n\<rparr>) = target_matches r"
  by (simp_all add: target_matches_def)

lemma row_ok_status:
  assumes "object_row_ok r" "s \<noteq> Obj_Ready" "s \<in> {Obj_Deleting, Obj_Deleted} \<or> obj_status r = Obj_Pending"
  shows "object_row_ok (r\<lparr>obj_status := s, obj_revision := obj_revision r + 1\<rparr>)"
    "object_row_ok (r\<lparr>obj_status := s, obj_deleted_at := t, obj_revision := obj_revision r + 1\<rparr>)"
  using assms unfolding object_row_ok_def target_matches_update by auto

lemma plane_expire:
  assumes "storage_ok d"
  shows "storage_ok (snd (expire_upload_sql ob d))"
  unfolding expire_upload_sql_def Let_def snd_conv
proof (rule storage_ok_update [OF assms])
  fix r :: stored_object assume r: "obj_id r = obj_id ob \<and> obj_revision r = obj_revision ob \<and> obj_status r = Obj_Pending"
  then show "icon_of c r \<Longrightarrow> obj_status (r\<lparr>obj_status := Obj_Failed, obj_revision := obj_revision r + 1\<rparr>) = Obj_Ready" for c
    by (simp add: icon_of_def)
  assume "object_row_ok r"
  with r show "object_row_ok (r\<lparr>obj_status := Obj_Failed, obj_revision := obj_revision r + 1\<rparr>)"
    by (intro row_ok_status) simp_all
qed (simp add: same_identity_def)

lemma plane_mark:
  assumes "storage_ok d"
  shows "storage_ok (snd (mark_deleted_sql now ob d))"
  unfolding mark_deleted_sql_def Let_def snd_conv
proof (rule storage_ok_update [OF assms])
  let ?f = "\<lambda>r. r\<lparr>obj_status := Obj_Deleted, obj_deleted_at := (case obj_deleted_at r of None \<Rightarrow> Some now | Some t \<Rightarrow> Some t),
    obj_revision := obj_revision r + 1\<rparr>"
  fix r :: stored_object assume r: "obj_id r = obj_id ob \<and> obj_revision r = obj_revision ob \<and> obj_status r = Obj_Deleting"
  then show "icon_of c r \<Longrightarrow> obj_status (?f r) = Obj_Ready" for c by (simp add: icon_of_def)
  assume "object_row_ok r"
  then show "object_row_ok (?f r)" by (intro row_ok_status) simp_all
qed (simp add: same_identity_def)

lemma insert_operation_categories [simp]: "categories (insert_operation now x d) = categories d"
  by (auto simp: insert_operation_def split: prod.splits)

interpretation storage_plane: object_invariant storage_ok
proof
  fix d assume ok: "storage_ok d"
  then show old: "object_db_ok d" by (simp add: storage_ok_def)
  show "storage_ok (snd (settle_claim operation v d))" for operation v
    by (rule storage_ok_operations [OF ok settle_claim_ok [OF old]]) (simp_all add: settle_claim_def)
  show "storage_ok (d\<lparr>object_events := es\<rparr>)" for es
    by (rule storage_ok_operations [OF ok]) (use old in \<open>simp_all add: object_db_ok_def\<close>)
  show "storage_ok (snd (expire_upload_sql ob d))" for ob using ok by (rule plane_expire)
  show "storage_ok (snd (mark_deleted_sql now ob d))" for now ob using ok by (rule plane_mark)
  show "revision_known (objects d) oid rev' \<Longrightarrow> storage_ok (insert_operation now (oid, kind, rev', t) d)"
    for oid rev' now kind t
    by (rule storage_ok_operations [OF ok insert_operation_ok [OF old]]) simp_all
  show "storage_ok (snd (wake_final_delete_sql now ob d))" for now ob
    by (rule storage_ok_operations [OF ok wake_final_delete_ok [OF old]]) (simp_all add: wake_final_delete_sql_def)
  show "storage_ok (snd (recover_stale_sql now s d))" for now s
    by (rule storage_ok_operations [OF ok recover_stale_ok [OF old]]) (simp_all add: recover_stale_sql_def)
  show "storage_ok (snd (claim_operation_sql locked now wk d))" for locked now wk
    by (rule storage_ok_operations [OF ok claim_operation_ok [OF old]])
      (auto simp: claim_operation_sql_def split: option.splits)
qed

end
