(* ===== verification/ObjectPlaneRequests.thy ===== *)
theory ObjectPlaneRequests
  imports ObjectPlane CategoryIconProperties
begin

text \<open>
  Every request of the API to the object storage (\<open>services/api/src/routes/objects.rs\<close>) keeps the
  invariant of the storage plane, on every path and whatever fails.
\<close>

section \<open>Statements\<close>

definition detached :: "uuid \<Rightarrow> object_db \<Rightarrow> bool" where
  "detached i d \<longleftrightarrow> (\<forall>c \<in> set (categories d). cat_icon c \<noteq> Some i)"

lemma plane_event: "storage_ok d \<Longrightarrow> storage_ok (insert_object_event i ty actor details d)"
  unfolding insert_object_event_def by (rule storage_plane.I_event)

lemma plane_cancel:
  assumes "storage_ok d"
  shows "storage_ok (cancel_operations now i kinds d)"
proof (rule storage_ok_operations [OF assms])
  show "object_db_ok (cancel_operations now i kinds d)"
    using assms unfolding storage_ok_def object_db_ok_def cancel_operations_def
    by (auto intro!: operations_ok_update simp: claim_consistent_def)
qed (simp_all add: cancel_operations_def)

lemma plane_enqueue:
  "storage_ok d \<Longrightarrow> revision_known (objects d) i n \<Longrightarrow> storage_ok (enqueue_operation now i kind n t d)"
  unfolding enqueue_operation_def by (rule storage_plane.I_insert)

lemma statement_fields [simp]:
  "objects (insert_object_event i ty actor details d) = objects d"
  "categories (insert_object_event i ty actor details d) = categories d"
  "operations (insert_object_event i ty actor details d) = operations d"
  "objects (cancel_operations now i kinds d) = objects d"
  "categories (cancel_operations now i kinds d) = categories d"
  "objects (enqueue_operation now i kind n t d) = objects d"
  "categories (enqueue_operation now i kind n t d) = categories d"
  by (simp_all add: insert_object_event_def cancel_operations_def enqueue_operation_def)

text \<open>An update by identity returns the revision that the object then has.\<close>

lemma returning_revision_Inr:
  assumes "returning_revision P f d = (Inr n, d')" and ok: "object_db_ok d"
    and P: "\<And>r. P r \<Longrightarrow> obj_id r = i" and f: "\<And>r. obj_id (f r) = obj_id r"
  obtains r where "r \<in> set (objects d)" "P r" "n = obj_revision (f r)" "f r \<in> set (objects d')"
    "d' = d\<lparr>objects := update_where P f (objects d)\<rparr>" "revision_known (objects d') i n"
proof -
  from assms(1) obtain r where "List.find P (objects d) = Some r" and n: "n = obj_revision (f r)"
    and d': "d' = d\<lparr>objects := update_where P f (objects d)\<rparr>"
    by (auto simp: returning_revision_def split: option.splits)
  then have r: "r \<in> set (objects d)" "P r" by (auto dest: find_mem)
  have fr: "f r \<in> set (objects d')" using r by (simp add: d' set_update_where)
  have "n \<le> obj_revision q" if q: "q \<in> set (objects d')" "obj_id q = i" for q
  proof -
    from q(1) obtain q' where q': "q' \<in> set (objects d)" "q = (if P q' then f q' else q')"
      by (auto simp: d' update_where_def)
    then have "obj_id q' = obj_id r" using q(2) P [OF r(2)] f by (auto split: if_splits)
    then have "q' = r" using ok q'(1) r(1) by (auto simp: object_db_ok_def intro: distinct_map_eq)
    with q'(2) r(2) n show ?thesis by simp
  qed
  moreover have "obj_id (f r) = i" using f P [OF r(2)] by simp
  ultimately have "revision_known (objects d') i n" using fr unfolding revision_known_def by blast
  with r n fr d' show ?thesis by (intro that)
qed

lemma detached_update: "detached i (d\<lparr>objects := os\<rparr>) = detached i d"
  by (simp add: detached_def)

lemma mark_deleting_update:
  assumes "storage_ok d" "detached (obj_id ob) d"
  shows "storage_ok (d\<lparr>objects := update_where (\<lambda>r. obj_id r = obj_id ob \<and> obj_revision r = obj_revision ob)
      (\<lambda>r. r\<lparr>obj_status := Obj_Deleting, obj_revision := obj_revision r + 1\<rparr>) (objects d)\<rparr>)"
proof (rule storage_ok_update [OF assms(1)])
  fix r :: stored_object assume r: "obj_id r = obj_id ob \<and> obj_revision r = obj_revision ob"
  show "obj_status (r\<lparr>obj_status := Obj_Deleting, obj_revision := obj_revision r + 1\<rparr>) = Obj_Ready"
    if "c \<in> set (categories d)" "icon_of c r" for c
    using that r assms(2) by (auto simp: icon_of_def detached_def)
  show "object_row_ok r \<Longrightarrow> object_row_ok (r\<lparr>obj_status := Obj_Deleting, obj_revision := obj_revision r + 1\<rparr>)"
    by (rule row_ok_status) simp_all
qed (simp add: same_identity_def)

text \<open>Marking an object for deletion: both its operations are open afterwards.\<close>

definition open_at :: "uuid \<Rightarrow> object_op \<Rightarrow> object_db \<Rightarrow> bool" where
  "open_at i kind d \<longleftrightarrow> (\<exists>r \<in> set (operations d). open_operation i kind r)"

lemma open_after_enqueue: "open_at i kind (enqueue_operation now i kind n t d)"
  by (auto simp: open_at_def enqueue_operation_def insert_operation_def new_operation_def open_operation_def
        open_status_def)

lemma open_stays: "open_at i kind d \<Longrightarrow> open_at i kind (enqueue_operation now j kind' n t d)"
  by (auto simp: open_at_def enqueue_operation_def insert_operation_def)

lemma open_event [simp]: "open_at i kind (insert_object_event j ty actor details d) = open_at i kind d"
  by (simp add: open_at_def)

lemma mark_object_deleting_ok:
  assumes ok: "storage_ok d" and free: "detached (obj_id ob) d"
    and run: "mark_object_deleting db_now app_now ob actor reason d = (Inr u, d')"
  shows "storage_ok d'" "categories d' = categories d"
    "obj_status ob \<in> {Obj_Deleted, Obj_Deleting} \<and> d' = d \<or>
     (\<exists>r \<in> set (objects d'). obj_id r = obj_id ob \<and> obj_status r = Obj_Deleting) \<and>
     open_at (obj_id ob) Op_Delete d' \<and> open_at (obj_id ob) Op_Delete_Upload d'"
proof -
  let ?P = "\<lambda>r. obj_id r = obj_id ob \<and> obj_revision r = obj_revision ob"
  let ?f = "\<lambda>r. r\<lparr>obj_status := Obj_Deleting, obj_revision := obj_revision r + 1\<rparr>"
  have "storage_ok d' \<and> categories d' = categories d \<and>
    (obj_status ob \<in> {Obj_Deleted, Obj_Deleting} \<and> d' = d \<or>
     (\<exists>r \<in> set (objects d'). obj_id r = obj_id ob \<and> obj_status r = Obj_Deleting) \<and>
     open_at (obj_id ob) Op_Delete d' \<and> open_at (obj_id ob) Op_Delete_Upload d')"
  proof (cases "obj_status ob \<in> {Obj_Deleted, Obj_Deleting}")
    case True
    with run ok show ?thesis by (simp add: mark_object_deleting_def)
  next
    case False
    with run obtain n d1 where ret: "returning_revision ?P ?f d = (Inr n, d1)" and
      d': "d' = insert_object_event (obj_id ob) ''delete_requested'' actor (JObj [(''reason'', JStr reason)])
          (enqueue_operation db_now (obj_id ob) Op_Delete n app_now
          (enqueue_operation db_now (obj_id ob) Op_Delete_Upload n (staging_cleanup_at (obj_upload_expires_at ob))
          (cancel_operations db_now (obj_id ob) UNIV d1)))"
      unfolding mark_object_deleting_def by (simp only: if_False) (elim and_then_Inr_cases, simp)
    have "object_db_ok d" using ok by (simp add: storage_ok_def)
    from ret this obtain r where r: "r \<in> set (objects d)" "?P r" "?f r \<in> set (objects d1)"
      "d1 = d\<lparr>objects := update_where ?P ?f (objects d)\<rparr>" "revision_known (objects d1) (obj_id ob) n"
      by (rule returning_revision_Inr) auto
    have "storage_ok d1" unfolding r(4) using ok free by (rule mark_deleting_update)
    then have "storage_ok d'" unfolding d'
      by (intro plane_event plane_enqueue plane_cancel) (simp_all add: r(5))
    moreover have "categories d' = categories d" by (simp add: d' r(4))
    moreover have "\<exists>r \<in> set (objects d'). obj_id r = obj_id ob \<and> obj_status r = Obj_Deleting"
      using r(2,3) by (intro bexI [of _ "?f r"]) (simp_all add: d')
    moreover have "open_at (obj_id ob) Op_Delete d'" "open_at (obj_id ob) Op_Delete_Upload d'"
      unfolding d' open_event by (rule open_after_enqueue, intro open_stays open_after_enqueue)
    ultimately show ?thesis by blast
  qed
  then show "storage_ok d'" "categories d' = categories d"
    "obj_status ob \<in> {Obj_Deleted, Obj_Deleting} \<and> d' = d \<or>
     (\<exists>r \<in> set (objects d'). obj_id r = obj_id ob \<and> obj_status r = Obj_Deleting) \<and>
     open_at (obj_id ob) Op_Delete d' \<and> open_at (obj_id ob) Op_Delete_Upload d'" by blast+
qed

lemma mark_all_deleting_ok:
  "storage_ok d \<Longrightarrow> (\<And>ob. ob \<in> set obs \<Longrightarrow> detached (obj_id ob) d) \<Longrightarrow>
     mark_all_deleting db_now app_now obs actor reason d = (Inr u, d') \<Longrightarrow>
     storage_ok d' \<and> categories d' = categories d"
proof (induction obs arbitrary: d)
  case (Cons ob obs)
  from Cons.prems(3) obtain v d1 where one: "mark_object_deleting db_now app_now ob actor reason d = (Inr v, d1)"
    and rest: "mark_all_deleting db_now app_now obs actor reason d1 = (Inr u, d')"
    by (auto elim: and_then_Inr_cases)
  have "detached (obj_id ob) d" using Cons.prems(2) by simp
  from mark_object_deleting_ok(1,2) [OF Cons.prems(1) this one]
  have d1: "storage_ok d1" "categories d1 = categories d" .
  have "detached (obj_id x) d1" if "x \<in> set obs" for x
    using Cons.prems(2) [of x] that d1(2) by (simp add: detached_def)
  from Cons.IH [OF d1(1) this rest] d1(2) show ?case by simp
qed simp

text \<open>An object that is not ready is no category's icon.\<close>

lemma icon_object:
  assumes "storage_ok d" "c \<in> set (categories d)" "cat_icon c = Some (obj_id ob)" "ob \<in> set (objects d)"
  shows "icon_of c ob"
proof -
  from assms obtain x where x: "x \<in> set (objects d)" "icon_of c x"
    unfolding storage_ok_def icons_ok_def by blast
  then have "obj_id x = obj_id ob" using assms(3) by (simp add: icon_of_def)
  then have "x = ob" using assms(1,4) x(1) by (auto simp: storage_ok_def object_db_ok_def intro: distinct_map_eq)
  with x(2) show ?thesis by simp
qed

lemma unready_detached:
  assumes "storage_ok d" "ob \<in> set (objects d)" "obj_status ob \<noteq> Obj_Ready"
  shows "detached (obj_id ob) d"
  using icon_object [OF assms(1) _ _ assms(2)] assms(3) by (auto simp: detached_def icon_of_def)

lemma category_found:
  assumes "storage_ok d" "c \<in> set (categories d)"
  shows "find_category (cat_id c) d = Some c"
  unfolding find_category_def using assms by (intro find_the) (simp_all add: storage_ok_def icons_ok_def)

lemma load_object_Inr:
  "load_object i d = Inr ob \<Longrightarrow> ob \<in> set (objects d) \<and> obj_id ob = i"
  by (auto simp: load_object_def dest: find_mem)

text \<open>Changing the icon of the category that has a given pointer.\<close>

lemma plane_set_icon:
  assumes ok: "storage_ok d"
    and icon: "\<And>c. c \<in> set (categories d) \<Longrightarrow> P c \<Longrightarrow> icon \<noteq> None \<Longrightarrow>
      \<exists>ob \<in> set (objects d). icon_of (c\<lparr>cat_icon := icon\<rparr>) ob"
  shows "storage_ok (d\<lparr>categories := update_where P (\<lambda>c. c\<lparr>cat_icon := icon\<rparr>) (categories d)\<rparr>)"
proof (rule storage_okI)
  let ?cs = "update_where P (\<lambda>c. c\<lparr>cat_icon := icon\<rparr>) (categories d)"
  have "map cat_id ?cs = map cat_id (categories d)" by (rule map_update_where) simp
  moreover have "\<exists>ob \<in> set (objects d). icon_of c ob" if "c \<in> set ?cs" "cat_icon c \<noteq> None" for c
    using that ok icon by (auto simp: set_update_where storage_ok_def icons_ok_def)
  ultimately show "icons_ok (categories (d\<lparr>categories := ?cs\<rparr>)) (objects (d\<lparr>categories := ?cs\<rparr>))"
    using ok by (simp add: storage_ok_def icons_ok_def)
qed (use ok in \<open>simp_all add: storage_ok_def object_db_ok_def\<close>)

section \<open>Failing and deleting\<close>

lemma fail_pending_ok:
  assumes ok: "storage_ok d" and run: "fail_pending ck actor current reason d = (Inr u, d')"
  shows "storage_ok d'" "categories d' = categories d"
proof -
  let ?P = "\<lambda>r. obj_id r = obj_id current \<and> obj_status r = Obj_Pending \<and> obj_revision r = obj_revision current"
  let ?f = "\<lambda>r. r\<lparr>obj_status := Obj_Failed, obj_revision := obj_revision r + 1\<rparr>"
  from run obtain n d1 where ret: "returning_revision ?P ?f d = (Inr n, d1)" and
    d': "d' = insert_object_event (obj_id current) ''upload_failed'' (Some actor) (JObj [(''reason'', JStr reason)])
         (enqueue_operation (sc_db ck 1) (obj_id current) Op_Delete_Upload n
            (staging_cleanup_at (obj_upload_expires_at current))
         (enqueue_operation (sc_db ck 1) (obj_id current) Op_Delete n (sc_app ck 2)
         (cancel_operations (sc_db ck 1) (obj_id current) UNIV d1)))"
    unfolding fail_pending_def by (elim and_then_Inr_cases, simp)
  have "object_db_ok d" "\<And>r. ?P r \<Longrightarrow> obj_id r = obj_id current" "\<And>r. obj_id (?f r) = obj_id r"
    using ok by (simp_all add: storage_ok_def)
  from returning_revision_Inr [OF ret this] obtain r where "r \<in> set (objects d)" "?P r"
    "n = obj_revision (?f r)" "?f r \<in> set (objects d1)" and
    r: "d1 = d\<lparr>objects := update_where ?P ?f (objects d)\<rparr>" "revision_known (objects d1) (obj_id current) n" .
  have "storage_ok d1" unfolding r(1)
  proof (rule storage_ok_update [OF ok])
    fix r :: stored_object assume P: "?P r"
    then show "icon_of c r \<Longrightarrow> obj_status (?f r) = Obj_Ready" for c by (simp add: icon_of_def)
    show "object_row_ok r \<Longrightarrow> object_row_ok (?f r)" using P by (intro row_ok_status) simp_all
  qed (simp add: same_identity_def)
  then show "storage_ok d'" unfolding d' by (intro plane_event plane_enqueue plane_cancel) (simp_all add: r(2))
  show "categories d' = categories d" by (simp add: d' r(1))
qed

text \<open>What is read before a transaction shows the objects with the identity they have in it.\<close>

definition reads_agree :: "object_db \<Rightarrow> object_db \<Rightarrow> bool" where
  "reads_agree earlier d \<longleftrightarrow>
     (\<forall>a \<in> set (objects earlier). \<forall>b \<in> set (objects d). obj_id a = obj_id b \<longrightarrow> same_identity a b)"

lemma reads_agreeD:
  "reads_agree earlier d \<Longrightarrow> load_object i earlier = Inr a \<Longrightarrow> load_object (obj_id a) d = Inr b \<Longrightarrow> same_identity a b"
  unfolding reads_agree_def using load_object_Inr by metis

lemma delete_icon_ok:
  assumes ok: "storage_ok d" and run: "delete_category_icon_step ck actor c i d = (Inr u, d')"
  shows "storage_ok d'"
proof -
  define detach where "detach = (\<lambda>r::category_row. cat_id r = c \<and> cat_icon r = Some i)"
  define d1 where "d1 = d\<lparr>categories := update_where detach (\<lambda>r. r\<lparr>cat_icon := None\<rparr>) (categories d)\<rparr>"
  define obs where "obs = sort_key obj_id (filter (\<lambda>ob. obj_category_id ob = Some c \<and>
     obj_purpose ob = ''category_icon'' \<and> (obj_id ob = i \<or> obj_status ob = Obj_Pending)) (objects d))"
  from run have all: "mark_all_deleting (sc_db ck 0) (sc_app ck 0) obs (Some actor) ''category_icon_removed'' d1 = (Inr u, d')"
    by (auto simp: delete_category_icon_step_def Let_def d1_def obs_def detach_def split: option.splits if_splits)
  have d1: "storage_ok d1" unfolding d1_def by (rule plane_set_icon [OF ok]) simp
  have "detached (obj_id ob) d1" if ob: "ob \<in> set obs" for ob
    unfolding detached_def
  proof (intro ballI notI)
    from ob have mem: "ob \<in> set (objects d)" "obj_category_id ob = Some c" "obj_id ob = i \<or> obj_status ob = Obj_Pending"
      by (auto simp: obs_def)
    fix r assume r: "r \<in> set (categories d1)" "cat_icon r = Some (obj_id ob)"
    then have old: "r \<in> set (categories d)" "\<not> detach r" by (auto simp: d1_def set_update_where)
    have "icon_of r ob" using ok old(1) r(2) mem(1) by (rule icon_object)
    with mem(2,3) old(2) r(2) show False by (auto simp: icon_of_def detach_def)
  qed
  from mark_all_deleting_ok [OF d1 this all] show ?thesis by simp
qed

lemma schedule_delete_step:
  assumes ok: "storage_ok d" and current: "current \<in> set (objects d)"
    and attached: "(if obj_purpose ob = ''category_icon''
           then (case obj_category_id ob of None \<Rightarrow> Inl (not_found ''Object not found'')
                 | Some c \<Rightarrow> Inr (Option.bind (find_category c d) cat_icon))
           else Inr None) = Inr a"
    and a: "a \<noteq> Some (obj_id current)" and same: "same_identity ob current"
  shows "detached (obj_id current) d"
  unfolding detached_def
proof (intro ballI notI)
  fix c assume c: "c \<in> set (categories d)" "cat_icon c = Some (obj_id current)"
  have i: "icon_of c current" using ok c current by (rule icon_object)
  with same have "obj_purpose ob = ''category_icon''" "obj_category_id ob = Some (cat_id c)"
    by (simp_all add: icon_of_def same_identity_def)
  with attached have "a = Option.bind (find_category (cat_id c) d) cat_icon" by simp
  with category_found [OF ok c(1)] c(2) a show False by simp
qed

section \<open>Creating an object\<close>

definition target_shape :: "purpose \<Rightarrow> validated_target \<Rightarrow> bool" where
  "target_shape p t \<longleftrightarrow>
     (let targets = (vt_category_id t \<noteq> None, vt_challenge_id t \<noteq> None, vt_page_id t \<noteq> None, vt_solution_id t \<noteq> None) in
      case p of Category_Icon \<Rightarrow> targets = (True, False, False, False)
      | Page_Asset \<Rightarrow> targets = (False, False, True, False)
      | Solution_Asset \<Rightarrow> targets = (False, True, False, True)
      | _ \<Rightarrow> targets = (False, True, False, False))"

definition plan_ok :: "upload_plan \<Rightarrow> bool" where
  "plan_ok plan \<longleftrightarrow>
     target_shape (up_purpose plan) (up_target plan) \<and> 0 \<le> up_size plan \<and>
     (up_purpose plan = Category_Icon \<longrightarrow>
        up_content_type plan \<in> {''image/png'', ''image/svg+xml''} \<and> icon_size (up_size plan)) \<and>
     sha256_text (up_checksum plan) \<and> up_key plan \<noteq> [] \<and> length (up_key plan) \<le> 128 \<and> \<not> has_control (up_key plan)"

lemma validate_sha256_text:
  assumes "validate_sha256 v = Inr w"
  shows "sha256_text w"
proof -
  from assms have w: "w = to_ascii_lowercase (trim v)" "length w = 64" "\<forall>c \<in> set w. ascii_hexdigit c"
    by (auto simp: validate_sha256_def Let_def split: if_splits)
  have "lower_hex c" if c: "c \<in> set w" for c
  proof (cases "digit c")
    case False
    from c w(1) obtain x where x: "c = ascii_lower x" by (auto simp: to_ascii_lowercase_def)
    have "ascii_lower c = c" unfolding x by (auto simp: ascii_lower_def Let_def)
    with c w(3) False have "c \<in> set ''abcdef''" by (auto simp: ascii_hexdigit_def)
    then show ?thesis by (auto simp: lower_hex_def)
  qed (simp add: lower_hex_def)
  with w(2) show ?thesis by (simp add: sha256_text_def)
qed

lemma challenge_target_shape:
  "challenge_target now p u c i = Inr t \<Longrightarrow> t = no_target\<lparr>vt_challenge_id := Some c, vt_solution_id := i\<rparr>"
  by (auto simp: challenge_target_def split: sum.splits)

lemma validate_target_shape:
  "validate_target now before u p r = Inr t \<Longrightarrow> target_shape p t"
  by (cases p) (auto simp: validate_target_def target_shape_def no_target_def
      split: if_splits sum.splits option.splits dest!: challenge_target_shape)

lemma plan_upload_ok:
  assumes "plan_upload env ck reads u header request p = (Inr plan, p')"
  shows "plan_ok plan" "p' = p"
proof -
  from assms have "plan_ok plan \<and> p' = p"
    unfolding plan_upload_def
    by (elim and_then_Inr_cases)
      (auto simp: plan_ok_def validate_upload_policy_def icon_size_def required_idempotency_key_def Let_def
        require_admin_def require_def split: if_splits option.splits
        dest: validate_sha256_text validate_target_shape)
  then show "plan_ok plan" "p' = p" by simp_all
qed

lemma purpose_text_asset: "asset_purpose (purpose_text p) \<longleftrightarrow> is_asset p"
  by (cases p) (simp_all add: asset_purpose_def purpose_text_def is_asset_def)

lemma purpose_text_known: "purpose_text p \<in> set known_purposes"
  by (cases p) (simp_all add: known_purposes_def purpose_text_def)

lemma purpose_text_icon: "purpose_text p = ''category_icon'' \<longleftrightarrow> p = Category_Icon"
  by (cases p) (simp_all add: purpose_text_def)

lemma new_target_matches:
  assumes "target_shape (up_purpose plan) (up_target plan)"
  shows "target_matches (new_object env app_now db_now i u plan who metadata)"
  using assms by (cases "up_purpose plan")
    (simp_all add: target_shape_def target_matches_def new_object_def purpose_text_def Let_def)

lemma new_row_ok:
  assumes "plan_ok plan" "is_asset (up_purpose plan) \<longleftrightarrow> who = For_Target"
    "db_now < app_now + secs (os_presign_ttl (se_storage env))"
  shows "object_row_ok (new_object env app_now db_now i u plan who metadata)"
proof -
  let ?o = "new_object env app_now db_now i u plan who metadata"
  have fields: "obj_purpose ?o = purpose_text (up_purpose plan)" "obj_status ?o = Obj_Pending"
    "obj_scope ?o = principal_scope who" "obj_content_type ?o = up_content_type plan"
    "obj_expected_size ?o = up_size plan" "obj_actual_size ?o = None" "obj_expected_checksum ?o = up_checksum plan"
    "obj_actual_checksum ?o = None" "obj_revision ?o = 1" "obj_created_at ?o = db_now" "obj_ready_at ?o = None"
    "obj_upload_expires_at ?o = app_now + secs (os_presign_ttl (se_storage env))"
    "obj_idempotency_key ?o = Some (up_key plan)"
    by (simp_all add: new_object_def)
  have "principal_scope who \<in> (if is_asset (up_purpose plan) then {''target''} else {''user'', ''team''})"
    using assms(2) by (cases who) auto
  with assms(1,3) show ?thesis
    unfolding object_row_ok_def fields purpose_text_asset purpose_text_icon
    by (simp add: plan_ok_def new_target_matches purpose_text_known)
qed

lemma insert_object_ok:
  assumes ok: "storage_ok d" and row: "obj_created_at ob < obj_upload_expires_at ob \<Longrightarrow> object_row_ok ob"
    and run: "insert_object ob d = (Inr x, d')"
  shows "storage_ok d'" "x = ob" "d' = d\<lparr>objects := objects d @ [ob]\<rparr>"
proof -
  from run show d': "d' = d\<lparr>objects := objects d @ [ob]\<rparr>" and "x = ob"
    by (auto simp: insert_object_def split: if_splits)
  from run have fresh: "obj_id r \<noteq> obj_id ob" "\<not> same_storage_key r ob" if "r \<in> set (objects d)" for r
    using that by (auto simp: insert_object_def same_storage_key_def split: if_splits)
  have sym: "same_storage_key ob r = same_storage_key r ob" for r
    unfolding same_storage_key_def by metis
  have row: "object_row_ok ob"
    using run by (intro row) (auto simp: insert_object_def split: if_splits)
  show "storage_ok d'"
  proof (rule storage_okI)
    have known: "revision_known (objects d @ [ob]) i n" if "revision_known (objects d) i n" for i n
      using that fresh(1) by (fastforce simp: revision_known_def)
    have "obj_id ob \<notin> obj_id ` set (objects d)" using fresh(1) by force
    then have "distinct (map obj_id (objects d @ [ob]))"
      using ok by (simp add: storage_ok_def object_db_ok_def)
    with ok known show "object_db_ok d'"
      by (simp add: d' storage_ok_def object_db_ok_def operations_ok_def)
    show "object_row_ok r" if "r \<in> set (objects d')" for r
      using that ok row by (auto simp: d' storage_ok_def)
    have "keys_ok (objects d)" using ok by (simp add: storage_ok_def)
    then show "keys_ok (objects d')" using fresh(2) sym unfolding d' keys_ok_def by fastforce
    show "icons_ok (categories d') (objects d')" using ok by (fastforce simp: d' storage_ok_def icons_ok_def)
  qed
qed

lemma create_object_ok:
  assumes ok: "storage_ok d" and plan: "plan_ok plan" "is_asset (up_purpose plan) \<longleftrightarrow> who = For_Target"
    and run: "create_object env ck i u plan who metadata d = (Inr ob, d')"
  shows "storage_ok d'" "objects d' = objects d @ [ob]" "categories d' = categories d"
    "ob = new_object env (sc_app ck 0) (sc_db ck 0) i u plan who metadata"
    "is_admin u \<or> enforce_storage_quota (se_storage env) (sc_db ck 0) who (up_size plan) d = Inr ()"
proof -
  let ?o = "new_object env (sc_app ck 0) (sc_db ck 0) i u plan who metadata"
  let ?ev = "insert_object_event i ''upload_created'' (Some (cu_id u))
      (JObj [(''purpose'', JStr (purpose_text (up_purpose plan))), (''expected_size'', JInt (up_size plan))])"
  from run obtain d1 v where quota: "is_admin u \<or> enforce_storage_quota (se_storage env) (sc_db ck 0) who (up_size plan) d = Inr ()"
    and ins: "insert_object ?o d = (Inr ob, d1)" and rec: "insert_reconciliation (sc_db ck 0) ob (?ev d1) = (Inr v, d')"
    unfolding create_object_def by (elim and_then_Inr_cases) (auto split: if_splits)
  show "is_admin u \<or> enforce_storage_quota (se_storage env) (sc_db ck 0) who (up_size plan) d = Inr ()" by (rule quota)
  have row: "obj_created_at ?o < obj_upload_expires_at ?o \<Longrightarrow> object_row_ok ?o"
    using plan by (intro new_row_ok) (simp_all add: new_object_def)
  have d1: "storage_ok d1" "ob = ?o" "d1 = d\<lparr>objects := objects d @ [?o]\<rparr>"
    using insert_object_ok [OF ok row ins] by simp_all
  have d': "d' = insert_operation (sc_db ck 0) (obj_id ob, Op_Reconcile, 1, obj_upload_expires_at ob) (?ev d1)"
    using rec by (auto simp: insert_reconciliation_def split: if_splits)
  have event: "storage_ok (?ev d1)" using d1(1) by (rule plane_event)
  have "revision_known (objects d1) (obj_id ob) (obj_revision ob)"
    using d1(1) by (intro revision_known_self) (simp_all add: storage_ok_def d1(2,3))
  moreover have "obj_revision ob = 1" unfolding d1(2) by (simp add: new_object_def)
  ultimately have "revision_known (objects (?ev d1)) (obj_id ob) 1" by simp
  with event show "storage_ok d'" unfolding d' by (rule storage_plane.I_insert)
  show "objects d' = objects d @ [ob]" "categories d' = categories d" by (simp_all add: d' d1(2,3))
  show "ob = ?o" by (rule d1(2))
qed

end
