(* ===== verification/ObjectPlaneCompletion.thy ===== *)
theory ObjectPlaneCompletion
  imports ObjectPlaneRequests
begin

text \<open>
  Completing an upload keeps the invariant of the storage plane
  (\<open>services/api/src/routes/objects.rs\<close>): the final copy was checked before the object becomes ready,
  the category gets the pointer in the same transaction, and what it replaces goes to the deletion queue.
\<close>

section \<open>The checks of the promotion\<close>

lemma json_get_merge:
  "json_get k (merge_object_metadata current (JObj ms)) =
     (case map_of (List.rev ms) k of Some v \<Rightarrow> Some v | None \<Rightarrow> map_of (json_members current) k)"
proof -
  have "map_of (fold (\<lambda>(k, v) ms. AList.update k v ms) ms xs) k =
      (case map_of (List.rev ms) k of Some v \<Rightarrow> Some v | None \<Rightarrow> map_of xs k)" for xs
  proof (induction ms arbitrary: xs)
    case (Cons m ms)
    then show ?case
      by (cases m) (simp add: update_conv' map_add_def split: option.splits)
  qed simp
  then show ?thesis by (simp add: merge_object_metadata_def)
qed

lemma merged_icon:
  assumes "validated_category_icon_metadata env bytes content_type checksum = Inr m"
  shows "validated_icon content_type (merge_object_metadata current m)"
proof -
  from assms consider "content_type = ''image/svg+xml''" "m = svg_metadata"
    | "content_type = ''image/png''" "m = png_metadata"
    by (auto simp: validated_category_icon_metadata_def validated_category_svg_metadata_def validated_png_metadata_def
        split: if_splits sum.splits option.splits)
  then show ?thesis
    by cases (simp_all add: validated_icon_def svg_metadata_def png_metadata_def json_get_merge
        category_icon_dimension_def)
qed

lemma load_icon_Inr:
  assumes "load_and_validate_category_icon env key content_type checksum s = (Inr m, s')"
  shows "validated_icon content_type (merge_object_metadata current m)"
proof -
  from assms obtain body where
    "validated_category_icon_metadata (se_icons env) body content_type checksum = Inr m"
    unfolding load_and_validate_category_icon_def by (elim and_then_Inr_cases) (auto split: sum.splits)
  then show ?thesis by (rule merged_icon)
qed

lemma promote_Inr:
  assumes "promote env purpose current s = (Inr (Inr (final, metadata)), s')"
  shows "hd_length final = obj_expected_size current" "hd_content_type final = Some (obj_content_type current)"
    "purpose = Category_Icon \<Longrightarrow> validated_icon (obj_content_type current) metadata"
    "purpose \<noteq> Category_Icon \<Longrightarrow> metadata = obj_metadata current"
  using assms unfolding promote_def
  by (auto elim!: and_then_Inr_cases split: if_splits prod.splits sum.splits intro: load_icon_Inr)

section \<open>Becoming ready\<close>

lemma plane_ready:
  assumes ok: "storage_ok d" and current: "current \<in> set (objects d)"
    and final: "hd_length final = obj_expected_size current" and created: "obj_created_at current \<le> now"
    and icon: "obj_purpose current = ''category_icon'' \<Longrightarrow> validated_icon (obj_content_type current) metadata"
  shows "storage_ok (d\<lparr>objects := update_where
      (\<lambda>r. obj_id r = obj_id current \<and> obj_status r = Obj_Pending \<and> obj_revision r = obj_revision current)
      (ready_row now current final metadata) (objects d)\<rparr>)"
proof (rule storage_ok_update [OF ok])
  fix r :: stored_object
  let ?f = "ready_row now current final metadata"
  assume P: "obj_id r = obj_id current \<and> obj_status r = Obj_Pending \<and> obj_revision r = obj_revision current"
  show "same_identity (?f r) r \<and> obj_revision r \<le> obj_revision (?f r)"
    by (simp add: same_identity_def ready_row_def)
  show "obj_status (?f r) = Obj_Ready" by (simp add: ready_row_def)
  assume r: "r \<in> set (objects d)" and row: "object_row_ok r"
  have "r = current" using ok r current P by (auto simp: storage_ok_def object_db_ok_def intro: distinct_map_eq)
  with P have pending: "obj_status r = Obj_Pending" and same: "current = r" by simp_all
  have "target_matches (?f r) = target_matches r" by (simp add: target_matches_def ready_row_def)
  with row pending final created icon show "object_row_ok (?f r)"
    unfolding same object_row_ok_def by (simp add: ready_row_def)
qed

text \<open>A category's pointer moves to the object that became ready; what it pointed to is detached.\<close>

lemma plane_point:
  assumes ok: "storage_ok d" and ob: "ob \<in> set (objects d)" "obj_status ob = Obj_Ready"
      "obj_category_id ob = Some c" "obj_purpose ob = ''category_icon''"
  shows "storage_ok (d\<lparr>categories := update_where (\<lambda>r. cat_id r = c \<and> cat_icon r = previous)
      (\<lambda>r. r\<lparr>cat_icon := Some (obj_id ob)\<rparr>) (categories d)\<rparr>)"
  by (rule plane_set_icon [OF ok], rule bexI [OF _ ob(1)]) (simp add: icon_of_def ob)

lemma previous_detached:
  assumes ok: "storage_ok d" and row: "row \<in> set (categories d)" "cat_id row = c" "cat_icon row = Some i"
    and new: "i \<noteq> j"
  shows "detached i (d\<lparr>categories := update_where (\<lambda>r. cat_id r = c \<and> cat_icon r = Some i)
      (\<lambda>r. r\<lparr>cat_icon := Some j\<rparr>) (categories d)\<rparr>)"
  unfolding detached_def
proof (intro ballI notI)
  let ?P = "\<lambda>r. cat_id r = c \<and> cat_icon r = Some i"
  fix r
  assume "r \<in> set (categories (d\<lparr>categories := update_where ?P (\<lambda>r. r\<lparr>cat_icon := Some j\<rparr>) (categories d)\<rparr>))"
    and icon: "cat_icon r = Some i"
  then have "r \<in> set (update_where ?P (\<lambda>r. r\<lparr>cat_icon := Some j\<rparr>) (categories d))" by simp
  then obtain q where q: "q \<in> set (categories d)" "r = (if ?P q then q\<lparr>cat_icon := Some j\<rparr> else q)"
    unfolding update_where_def by auto
  have "\<not> ?P q"
  proof
    assume "?P q"
    with q(2) have "cat_icon r = Some j" by simp
    with icon new show False by simp
  qed
  with q icon have r: "r \<in> set (categories d)" "cat_id r \<noteq> c" by (simp_all split: if_splits)
  from ok row(1,3) obtain ob where ob: "ob \<in> set (objects d)" "icon_of row ob"
    unfolding storage_ok_def icons_ok_def by blast
  then have i: "i = obj_id ob" using row(3) by (simp add: icon_of_def)
  have "icon_of r ob" using ok r(1) icon [unfolded i] ob(1) by (rule icon_object)
  with ob(2) r(2) row(2) show False by (simp add: icon_of_def)
qed

lemma mark_object_deleting_known:
  assumes "mark_object_deleting db_now app_now ob actor reason d = (Inr u, d')"
    and "revision_known (objects d) i n"
  shows "revision_known (objects d') i n"
proof (cases "obj_status ob \<in> {Obj_Deleted, Obj_Deleting}")
  case True
  with assms show ?thesis by (simp add: mark_object_deleting_def)
next
  case False
  let ?P = "\<lambda>r. obj_id r = obj_id ob \<and> obj_revision r = obj_revision ob"
  let ?f = "\<lambda>r. r\<lparr>obj_status := Obj_Deleting, obj_revision := obj_revision r + 1\<rparr>"
  from False assms(1) obtain m d1 where ret: "returning_revision ?P ?f d = (Inr m, d1)" and d': "objects d' = objects d1"
    unfolding mark_object_deleting_def by (simp only: if_False) (elim and_then_Inr_cases, auto)
  from ret have "objects d1 = update_where ?P ?f (objects d)"
    by (auto simp: returning_revision_def split: option.splits)
  then show ?thesis unfolding d' using assms(2) by (simp add: revision_known_update)
qed

lemma mark_all_deleting_known:
  "mark_all_deleting db_now app_now obs actor reason d = (Inr u, d') \<Longrightarrow> revision_known (objects d) i n \<Longrightarrow>
     revision_known (objects d') i n"
  by (induction obs arbitrary: d) (auto elim!: and_then_Inr_cases dest: mark_object_deleting_known)

lemma attach_category_icon_Inr:
  assumes "attach_category_icon ck actor current c previous d = (Inr u, d')"
  obtains row v d2 where "row \<in> set (categories d)" "cat_id row = c" "cat_icon row = previous"
    "(let d = d\<lparr>categories := update_where (\<lambda>r. cat_id r = c \<and> cat_icon r = previous)
        (\<lambda>r. r\<lparr>cat_icon := Some (obj_id current)\<rparr>) (categories d)\<rparr> in
      case previous of None \<Rightarrow> (Inr (), d)
      | Some i \<Rightarrow> and_then (load_object i d, d) (\<lambda>old d.
          mark_object_deleting (sc_db ck 0) (sc_app ck 1) old (Some actor) ''category_icon_replaced'' d)) = (Inr v, d2)"
    "mark_all_deleting (sc_db ck 0) (sc_app ck 1)
       (sort_key obj_id (filter (\<lambda>ob. obj_category_id ob = Some c \<and> obj_purpose ob = ''category_icon'' \<and>
          obj_status ob = Obj_Pending \<and> obj_id ob \<noteq> obj_id current) (objects d2)))
       (Some actor) ''category_icon_upload_superseded'' d2 = (Inr u, d')"
proof -
  let ?held = "\<lambda>r. cat_id r = c \<and> cat_icon r = previous"
  have one: "rows_affected ?held (categories d) = 1"
    using assms by (simp add: attach_category_icon_def Let_def split: if_split_asm)
  then have "filter ?held (categories d) \<noteq> []" by (auto simp: rows_affected_def)
  then obtain row where row: "row \<in> set (categories d)" "cat_id row = c" "cat_icon row = previous"
    by (auto simp: filter_empty_conv)
  note run = assms [unfolded attach_category_icon_def Let_def one, simplified if_True if_False simp_thms]
  show ?thesis
    using run by (rule and_then_Inr_cases) (rule that [OF row], simp only: Let_def, simp)
qed

lemma attach_category_icon_ok:
  assumes ok: "storage_ok d" and ob: "ob \<in> set (objects d)" "obj_status ob = Obj_Ready"
      "obj_category_id ob = Some c" "obj_purpose ob = ''category_icon''" "obj_id ob = obj_id current"
    and new: "previous \<noteq> Some (obj_id current)"
    and run: "attach_category_icon ck actor current c previous d = (Inr u, d')"
  shows "storage_ok d'" "revision_known (objects d) i n \<Longrightarrow> revision_known (objects d') i n"
    "\<exists>r \<in> set (categories d'). cat_id r = c \<and> cat_icon r = Some (obj_id current)"
proof -
  let ?held = "\<lambda>r. cat_id r = c \<and> cat_icon r = previous"
  define d1 where "d1 = d\<lparr>categories := update_where ?held (\<lambda>r. r\<lparr>cat_icon := Some (obj_id current)\<rparr>) (categories d)\<rparr>"
  have d1: "storage_ok d1" "objects d1 = objects d"
    unfolding d1_def ob(5) [symmetric] by (rule plane_point [OF ok ob(1-4)]) simp
  from attach_category_icon_Inr [OF run] obtain row v d2
    where row: "row \<in> set (categories d)" "cat_id row = c" "cat_icon row = previous"
    and old: "(let d = d\<lparr>categories := update_where ?held (\<lambda>r. r\<lparr>cat_icon := Some (obj_id current)\<rparr>) (categories d)\<rparr> in
      case previous of None \<Rightarrow> (Inr (), d)
      | Some i \<Rightarrow> and_then (load_object i d, d) (\<lambda>old d.
          mark_object_deleting (sc_db ck 0) (sc_app ck 1) old (Some actor) ''category_icon_replaced'' d)) = (Inr v, d2)"
    and all: "mark_all_deleting (sc_db ck 0) (sc_app ck 1)
       (sort_key obj_id (filter (\<lambda>ob. obj_category_id ob = Some c \<and> obj_purpose ob = ''category_icon'' \<and>
          obj_status ob = Obj_Pending \<and> obj_id ob \<noteq> obj_id current) (objects d2)))
       (Some actor) ''category_icon_upload_superseded'' d2 = (Inr u, d')" .
  note old = old [unfolded Let_def d1_def [symmetric]]
  have point: "\<exists>r \<in> set (categories d1). cat_id r = c \<and> cat_icon r = Some (obj_id current)"
    using row by (intro bexI [of _ "row\<lparr>cat_icon := Some (obj_id current)\<rparr>"]) (simp_all add: d1_def set_update_where)
  have d2: "storage_ok d2 \<and> categories d2 = categories d1 \<and>
    (\<forall>i n. revision_known (objects d) i n \<longrightarrow> revision_known (objects d2) i n)"
  proof (cases previous)
    case None
    with old d1 show ?thesis by simp
  next
    case (Some i)
    with old obtain x where x: "load_object i d1 = Inr x" and
      mark: "mark_object_deleting (sc_db ck 0) (sc_app ck 1) x (Some actor) ''category_icon_replaced'' d1 = (Inr v, d2)"
      by (auto elim!: and_then_Inr_cases)
    have "detached i d1"
      unfolding d1_def Some by (rule previous_detached [OF ok row(1,2)]) (use row(3) Some new in simp_all)
    then have "detached (obj_id x) d1" using load_object_Inr [OF x] by simp
    from mark_object_deleting_ok(1,2) [OF d1(1) this mark] show ?thesis
      using mark_object_deleting_known [OF mark] d1(2) by simp
  qed
  have "storage_ok d' \<and> categories d' = categories d2"
    by (rule mark_all_deleting_ok [OF _ _ all]) (use d2 in \<open>auto intro: unready_detached\<close>)
  with d2 have "storage_ok d' \<and> categories d' = categories d1" by simp
  then show "storage_ok d'" "\<exists>r \<in> set (categories d'). cat_id r = c \<and> cat_icon r = Some (obj_id current)"
    using point by simp_all
  show "revision_known (objects d) i n \<Longrightarrow> revision_known (objects d') i n"
    using d2 mark_all_deleting_known [OF all] by simp
qed

lemma attached_is_new:
  assumes ok: "storage_ok d" and current: "current \<in> set (objects d)" "obj_status current = Obj_Pending"
    and same: "categories d1 = categories d"
    and run: "attach_category_icon ck actor current c previous d1 = (Inr v, d2)"
  shows "previous \<noteq> Some (obj_id current)"
proof
  assume eq: "previous = Some (obj_id current)"
  from attach_category_icon_Inr [OF run] obtain row where "row \<in> set (categories d1)" "cat_icon row = previous"
    by metis
  then have "icon_of row current" using ok current(1) eq same by (intro icon_object) simp_all
  with current(2) show False by (simp add: icon_of_def)
qed

lemma finish_completion_Inr:
  assumes "finish_completion ck actor purpose current previous final metadata d = (Inr u, d')"
  obtains n d1 v d2 where "obj_created_at current \<le> sc_db ck 0"
    "returning_revision
       (\<lambda>r. obj_id r = obj_id current \<and> obj_status r = Obj_Pending \<and> obj_revision r = obj_revision current)
       (ready_row (sc_db ck 0) current final metadata) d = (Inr n, d1)"
    "(if purpose = Category_Icon then case obj_category_id current of None \<Rightarrow> (Inl database_error, d1)
        | Some c \<Rightarrow> attach_category_icon ck actor current c previous d1 else (Inr (), d1)) = (Inr v, d2)"
    "d' = insert_object_event (obj_id current) ''upload_completed'' (Some actor)
          (JObj [(''actual_size'', JInt (hd_length final)), (''etag'', json_opt JStr (hd_etag final)),
            (''sha256'', JStr (obj_expected_checksum current))])
         (enqueue_operation (sc_db ck 0) (obj_id current) Op_Delete_Upload n
            (staging_cleanup_at (obj_upload_expires_at current))
         (cancel_operations (sc_db ck 0) (obj_id current) {Op_Reconcile} d2))"
  using assms unfolding finish_completion_def by (elim and_then_Inr_cases) (auto simp: require_def split: if_splits)

lemma finish_completion_ok:
  assumes ok: "storage_ok d" and current: "current \<in> set (objects d)" "obj_status current = Obj_Pending"
    and purpose: "obj_purpose current = purpose_text purpose"
    and final: "hd_length final = obj_expected_size current"
      "purpose = Category_Icon \<Longrightarrow> validated_icon (obj_content_type current) metadata"
    and run: "finish_completion ck actor purpose current previous final metadata d = (Inr u, d')"
  shows "storage_ok d'"
proof -
  let ?P = "\<lambda>r. obj_id r = obj_id current \<and> obj_status r = Obj_Pending \<and> obj_revision r = obj_revision current"
  let ?f = "ready_row (sc_db ck 0) current final metadata"
  let ?c = "obj_category_id current"
  from finish_completion_Inr [OF run] obtain n d1 v d2 where created: "obj_created_at current \<le> sc_db ck 0"
    and ret: "returning_revision ?P ?f d = (Inr n, d1)"
    and attach: "(if purpose = Category_Icon then case ?c of None \<Rightarrow> (Inl database_error, d1)
        | Some c \<Rightarrow> attach_category_icon ck actor current c previous d1 else (Inr (), d1)) = (Inr v, d2)"
    and d': "d' = insert_object_event (obj_id current) ''upload_completed'' (Some actor)
          (JObj [(''actual_size'', JInt (hd_length final)), (''etag'', json_opt JStr (hd_etag final)),
            (''sha256'', JStr (obj_expected_checksum current))])
         (enqueue_operation (sc_db ck 0) (obj_id current) Op_Delete_Upload n
            (staging_cleanup_at (obj_upload_expires_at current))
         (cancel_operations (sc_db ck 0) (obj_id current) {Op_Reconcile} d2))" .
  have "object_db_ok d" "\<And>r. ?P r \<Longrightarrow> obj_id r = obj_id current" "\<And>r. obj_id (?f r) = obj_id r"
    using ok by (simp_all add: storage_ok_def ready_row_def)
  from returning_revision_Inr [OF ret this] obtain r where r_mem: "r \<in> set (objects d)" and Pr: "?P r"
    and "n = obj_revision (?f r)" and fr: "?f r \<in> set (objects d1)" and
    r: "d1 = d\<lparr>objects := update_where ?P ?f (objects d)\<rparr>" "revision_known (objects d1) (obj_id current) n" .
  have d1: "storage_ok d1" unfolding r(1)
    by (rule plane_ready [OF ok current(1) final(1) created]) (simp add: purpose purpose_text_icon final(2))
  have "storage_ok d2 \<and> revision_known (objects d2) (obj_id current) n"
  proof (cases "purpose = Category_Icon")
    case True
    with attach obtain c where c: "?c = Some c"
      "attach_category_icon ck actor current c previous d1 = (Inr v, d2)" by (auto split: option.splits)
    have row_r: "r = current" using ok r_mem current(1) Pr by (auto simp: storage_ok_def object_db_ok_def intro: distinct_map_eq)
    have new: "previous \<noteq> Some (obj_id current)" by (rule attached_is_new [OF ok current _ c(2)]) (simp add: r(1))
    have "storage_ok d2 \<and> (\<forall>i n. revision_known (objects d1) i n \<longrightarrow> revision_known (objects d2) i n)"
      using attach_category_icon_ok(1,2) [OF d1 fr _ _ _ _ new c(2)] c(1) True purpose
      by (simp add: ready_row_def row_r purpose_text_icon)
    with r(2) show ?thesis by simp
  qed (use attach d1 r(2) in simp)
  then show ?thesis unfolding d' by (intro plane_event plane_enqueue plane_cancel) simp_all
qed

end
