(* ===== verification/ObjectPlaneHistory.thy ===== *)
theory ObjectPlaneHistory
  imports ObjectPlaneCompletion ObjectDownloads
begin

text \<open>
  The handlers of the object storage API (\<open>services/api/src/routes/objects.rs\<close>) as steps on the
  portal's tables: every history of requests keeps the invariant of the storage plane, and no object
  disappears or changes its identity. The requests may run between the statements of the controller's
  maintenance sessions.
\<close>

section \<open>Objects keep their identity\<close>

definition keeps_objects :: "object_db \<Rightarrow> object_db \<Rightarrow> bool" where
  "keeps_objects d d' \<longleftrightarrow> list_all (\<lambda>a. list_ex (same_identity a) (objects d')) (objects d)"

lemma same_identity_refl [simp]: "same_identity a a"
  by (simp add: same_identity_def)

lemma same_identity_trans: "same_identity a b \<Longrightarrow> same_identity b c \<Longrightarrow> same_identity a c"
  by (simp add: same_identity_def)

lemma keeps_objectsI: "(\<And>a. a \<in> set (objects d) \<Longrightarrow> \<exists>b \<in> set (objects d'). same_identity a b) \<Longrightarrow> keeps_objects d d'"
  by (simp add: keeps_objects_def list_all_iff list_ex_iff)

lemma keeps_objectsD: "keeps_objects d d' \<Longrightarrow> a \<in> set (objects d) \<Longrightarrow> \<exists>b \<in> set (objects d'). same_identity a b"
  by (simp add: keeps_objects_def list_all_iff list_ex_iff)

lemma keeps_objects_same: "objects d' = objects d \<Longrightarrow> keeps_objects d d'"
  by (auto intro!: keeps_objectsI bexI)

lemma keeps_objects_refl [simp]: "keeps_objects d d"
  by (rule keeps_objects_same) simp

lemma keeps_objects_trans [trans]:
  assumes "keeps_objects d e" "keeps_objects e f"
  shows "keeps_objects d f"
proof (rule keeps_objectsI)
  fix a assume "a \<in> set (objects d)"
  with assms(1) obtain b where b: "b \<in> set (objects e)" "same_identity a b" by (blast dest: keeps_objectsD)
  from assms(2) b(1) obtain c where "c \<in> set (objects f)" "same_identity b c" by (blast dest: keeps_objectsD)
  with b(2) show "\<exists>c \<in> set (objects f). same_identity a c" by (blast intro: same_identity_trans)
qed

lemma keeps_objects_cong:
  "objects d' = objects e \<Longrightarrow> keeps_objects d d' = keeps_objects d e"
  "objects d = objects e \<Longrightarrow> keeps_objects d d' = keeps_objects e d'"
  by (simp_all add: keeps_objects_def)

lemma keeps_objects_update:
  assumes "\<And>r. P r \<Longrightarrow> same_identity r (f r)"
  shows "keeps_objects d (d\<lparr>objects := update_where P f (objects d)\<rparr>)"
proof (rule keeps_objectsI)
  fix a assume "a \<in> set (objects d)"
  then have "(if P a then f a else a) \<in> set (update_where P f (objects d))" by (auto simp: set_update_where)
  moreover have "same_identity a (if P a then f a else a)" using assms by simp
  ultimately show "\<exists>b \<in> set (objects (d\<lparr>objects := update_where P f (objects d)\<rparr>)). same_identity a b" by auto
qed

lemma keeps_objects_append: "objects d' = objects d @ xs \<Longrightarrow> keeps_objects d d'"
  by (rule keeps_objectsI, rule bexI, rule same_identity_refl) simp

lemma keeps_returning:
  assumes "returning_revision P f d = (Inr n, d')" "\<And>r. P r \<Longrightarrow> same_identity r (f r)"
  shows "keeps_objects d d'"
  using assms(1) keeps_objects_update [OF assms(2)]
  by (auto simp: returning_revision_def split: option.splits)

lemma keeps_marking:
  assumes "mark_object_deleting db_now app_now ob actor reason d = (Inr u, d')"
  shows "keeps_objects d d'"
proof (cases "obj_status ob \<in> {Obj_Deleted, Obj_Deleting}")
  case False
  let ?P = "\<lambda>r. obj_id r = obj_id ob \<and> obj_revision r = obj_revision ob"
  let ?f = "\<lambda>r. r\<lparr>obj_status := Obj_Deleting, obj_revision := obj_revision r + 1\<rparr>"
  from False assms obtain m d1 where ret: "returning_revision ?P ?f d = (Inr m, d1)" and d': "objects d' = objects d1"
    unfolding mark_object_deleting_def by (simp only: if_False) (elim and_then_Inr_cases, auto)
  from ret show ?thesis unfolding keeps_objects_cong(1) [OF d'] by (rule keeps_returning) (simp add: same_identity_def)
qed (use assms in \<open>simp add: mark_object_deleting_def\<close>)

lemma keeps_mark_all:
  "mark_all_deleting db_now app_now obs actor reason d = (Inr u, d') \<Longrightarrow> keeps_objects d d'"
  by (induction obs arbitrary: d) (auto elim!: and_then_Inr_cases intro: keeps_marking keeps_objects_trans)

lemma keeps_fail_pending:
  assumes "fail_pending ck actor current reason d = (Inr u, d')"
  shows "keeps_objects d d'"
proof -
  let ?P = "\<lambda>r. obj_id r = obj_id current \<and> obj_status r = Obj_Pending \<and> obj_revision r = obj_revision current"
  let ?f = "\<lambda>r. r\<lparr>obj_status := Obj_Failed, obj_revision := obj_revision r + 1\<rparr>"
  from assms obtain m d1 where ret: "returning_revision ?P ?f d = (Inr m, d1)" and d': "objects d' = objects d1"
    unfolding fail_pending_def by (elim and_then_Inr_cases) auto
  from ret show ?thesis unfolding keeps_objects_cong(1) [OF d'] by (rule keeps_returning) (simp add: same_identity_def)
qed

lemma keeps_delete_icon:
  assumes "delete_category_icon_step ck actor c i d = (Inr u, d')"
  shows "keeps_objects d d'"
proof -
  from assms obtain obs cs where
    "mark_all_deleting (sc_db ck 0) (sc_app ck 0) obs (Some actor) ''category_icon_removed'' (d\<lparr>categories := cs\<rparr>) = (Inr u, d')"
    by (auto simp: delete_category_icon_step_def Let_def split: option.splits if_splits)
  then have "keeps_objects (d\<lparr>categories := cs\<rparr>) d'" by (rule keeps_mark_all)
  then show ?thesis by (simp add: keeps_objects_def)
qed

lemma keeps_attach:
  assumes "attach_category_icon ck actor current c previous d = (Inr u, d')"
  shows "keeps_objects d d'"
proof -
  define d1 where "d1 = d\<lparr>categories := update_where (\<lambda>r. cat_id r = c \<and> cat_icon r = previous)
    (\<lambda>r. r\<lparr>cat_icon := Some (obj_id current)\<rparr>) (categories d)\<rparr>"
  show ?thesis
  proof (rule attach_category_icon_Inr [OF assms], unfold Let_def d1_def [symmetric])
    fix v d2 obs
    assume old: "(case previous of None \<Rightarrow> (Inr (), d1)
      | Some i \<Rightarrow> and_then (load_object i d1, d1) (\<lambda>old d.
          mark_object_deleting (sc_db ck 0) (sc_app ck 1) old (Some actor) ''category_icon_replaced'' d)) = (Inr v, d2)"
    assume "mark_all_deleting (sc_db ck 0) (sc_app ck 1)
       (sort_key obj_id (filter (\<lambda>ob. obj_category_id ob = Some c \<and> obj_purpose ob = ''category_icon'' \<and>
          obj_status ob = Obj_Pending \<and> obj_id ob \<noteq> obj_id current) (objects d2)))
       (Some actor) ''category_icon_upload_superseded'' d2 = (Inr u, d')"
    then have rest: "keeps_objects d2 d'" by (rule keeps_mark_all)
    have "keeps_objects d d1" by (rule keeps_objects_same) (simp add: d1_def)
    also have "keeps_objects d1 d2"
    proof (cases previous)
      case (Some i)
      with old show ?thesis by (auto elim!: and_then_Inr_cases intro: keeps_marking)
    qed (use old in simp)
    also note rest
    finally show "keeps_objects d d'" .
  qed
qed

lemma keeps_finish:
  assumes "finish_completion ck actor purpose current previous final metadata d = (Inr u, d')"
  shows "keeps_objects d d'"
proof -
  let ?P = "\<lambda>r. obj_id r = obj_id current \<and> obj_status r = Obj_Pending \<and> obj_revision r = obj_revision current"
  let ?f = "ready_row (sc_db ck 0) current final metadata"
  from finish_completion_Inr [OF assms] obtain n d1 v d2 where "obj_created_at current \<le> sc_db ck 0"
    and ret: "returning_revision ?P ?f d = (Inr n, d1)"
    and attach: "(if purpose = Category_Icon then case obj_category_id current of None \<Rightarrow> (Inl database_error, d1)
        | Some c \<Rightarrow> attach_category_icon ck actor current c previous d1 else (Inr (), d1)) = (Inr v, d2)"
    and d'_eq: "d' = insert_object_event (obj_id current) ''upload_completed'' (Some actor)
          (JObj [(''actual_size'', JInt (hd_length final)), (''etag'', json_opt JStr (hd_etag final)),
            (''sha256'', JStr (obj_expected_checksum current))])
         (enqueue_operation (sc_db ck 0) (obj_id current) Op_Delete_Upload n
            (staging_cleanup_at (obj_upload_expires_at current))
         (cancel_operations (sc_db ck 0) (obj_id current) {Op_Reconcile} d2))" .
  from d'_eq have d': "objects d' = objects d2" by simp
  from ret have "keeps_objects d d1" by (rule keeps_returning) (simp add: same_identity_def ready_row_def)
  also have "keeps_objects d1 d2"
    using attach by (auto intro: keeps_attach split: if_splits option.splits)
  finally show ?thesis by (simp add: keeps_objects_cong(1) [OF d'])
qed


section \<open>Handlers\<close>

definition kept :: "portal_db \<Rightarrow> portal_db \<Rightarrow> bool" where
  "kept p p' \<longleftrightarrow> storage_ok (pd_objects p') \<and> keeps_objects (pd_objects p) (pd_objects p')"

lemma kept_refl: "storage_ok (pd_objects p) \<Longrightarrow> kept p p"
  by (simp add: kept_def)

lemma kept_trans: "kept p q \<Longrightarrow> (storage_ok (pd_objects q) \<Longrightarrow> kept q r) \<Longrightarrow> kept p r"
  unfolding kept_def by (blast intro: keeps_objects_trans)

lemma on_objects_Inr: "on_objects f p = (Inr x, p') \<Longrightarrow>
   \<exists>d'. f (pd_objects p) = (Inr x, d') \<and> p' = p\<lparr>pd_objects := d'\<rparr>"
  by (auto simp: on_objects_def split: prod.splits)

lemma on_objects_kept:
  assumes "on_objects f p = (Inr x, q)"
    and "\<And>d'. f (pd_objects p) = (Inr x, d') \<Longrightarrow> storage_ok d'"
    and "\<And>d'. f (pd_objects p) = (Inr x, d') \<Longrightarrow> keeps_objects (pd_objects p) d'"
  shows "kept p q"
  using on_objects_Inr [OF assms(1)] assms(2,3) by (auto simp: kept_def)

lemma transaction_kept:
  assumes "storage_ok (pd_objects p)" "\<And>x q. body p = (Inr x, q) \<Longrightarrow> kept p q"
    and "in_transaction f body p = (r, p')"
  shows "kept p p'"
  using transaction_keeps [of "kept p" p body f] assms kept_refl by auto

lemma initiate_body_Inr:
  assumes "initiate_body env ck i u plan p = (Inr r, p')"
  shows "p' = p \<and> (\<exists>g. r = Inl g) \<or> (\<exists>who metadata ob. principal_in_transaction u (up_purpose plan) (user_mode p) p = Inr who \<and>
     on_objects (create_object env ck i u plan who metadata) p = (Inr ob, p') \<and> r = Inr ob)"
  using assms unfolding initiate_body_def
  by (auto elim!: and_then_Inr_cases dest!: revalidate_Inr full_access_Inr
      simp: require_def split: option.splits if_splits) blast+

lemma principal_target: "principal_in_transaction u p mode d = Inr who \<Longrightarrow> is_asset p \<longleftrightarrow> who = For_Target"
  by (auto simp: principal_in_transaction_def split: if_splits option.splits)

lemma initiate_kept:
  assumes ok: "storage_ok (pd_objects p)"
    and run: "initiate_upload env ck i fails reads u header request p = (r, p')"
  shows "kept p p'"
proof (cases "plan_upload env ck reads u header request p")
  case (Pair x q)
  show ?thesis
  proof (cases x)
    case (Inr plan)
    note plan = plan_upload_ok [OF Pair [unfolded Inr]]
    obtain y p2 where tx: "in_transaction fails (initiate_body env ck i u plan) p = (y, p2)" by fastforce
    have "kept p p2"
    proof (rule transaction_kept [OF ok _ tx])
      fix z q assume "initiate_body env ck i u plan p = (Inr z, q)"
      from initiate_body_Inr [OF this] show "kept p q"
      proof (elim disjE exE conjE)
        fix who metadata ob
        assume who: "principal_in_transaction u (up_purpose plan) (user_mode p) p = Inr who"
          and run: "on_objects (create_object env ck i u plan who metadata) p = (Inr ob, q)"
        note new = create_object_ok [OF ok plan(1) principal_target [OF who]]
        show "kept p q" by (rule on_objects_kept [OF run]) (erule new, erule keeps_objects_append [OF new(2)])
      qed (use ok in \<open>simp add: kept_refl\<close>)
    qed
    moreover have "p' = p2"
      using run Pair Inr plan(2) tx by (auto simp: initiate_upload_def and_then_def split: sum.splits)
    ultimately show ?thesis by simp
  next
    case (Inl e)
    have "q = p" using Pair unfolding plan_upload_def
      by (auto simp: and_then_def require_admin_def require_def split: sum.splits if_splits prod.splits)
    with run Pair Inl ok show ?thesis by (auto simp: initiate_upload_def and_then_def kept_refl)
  qed
qed

lemma fail_kept:
  assumes ok: "storage_ok (pd_objects p)" and run: "fail_upload env ck fails u ob reason p = (r, p')"
  shows "kept p p'"
proof (rule transaction_kept [OF ok _ run [unfolded fail_upload_def]])
  fix x q assume "fail_body env ck u (obj_id ob) reason p = (Inr x, q)"
  then show "kept p q" unfolding fail_body_def
  proof (elim and_then_Inr_cases)
    fix v p1 current p2 v' p3
    assume "revalidate_current_credential (sc_db ck 1) (se_session_lifetime env) u p = (Inr v, p1)"
      "(load_object (obj_id ob) (pd_objects p1), p1) = (Inr current, p2)"
      "(authorize_change (cu_id u) current p2, p2) = (Inr v', p3)"
    then have p: "p3 = p" by (auto dest: revalidate_Inr)
    assume "(if obj_status current \<noteq> Obj_Pending then (Inr (), p3)
      else on_objects (fail_pending ck (cu_id u) current reason) p3) = (Inr x, q)"
    then show "kept p q" unfolding p
      using ok kept_refl [OF ok]
      by (auto split: if_splits intro: on_objects_kept fail_pending_ok(1) keeps_fail_pending)
  qed
qed

definition attached_icon :: "stored_object \<Rightarrow> portal_db \<Rightarrow> uuid option answer" where
  "attached_icon ob p = (if obj_purpose ob = ''category_icon''
     then (case obj_category_id ob of None \<Rightarrow> Inl (not_found ''Object not found'')
           | Some c \<Rightarrow> Inr (Option.bind (find_category c (pd_objects p)) cat_icon))
     else Inr None)"

lemma schedule_delete_Inr:
  assumes "schedule_delete env ck fails u ob p = (Inr x, q)"
  obtains a current where "attached_icon ob p = Inr a" "load_object (obj_id ob) (pd_objects p) = Inr current"
    "authorize_change (cu_id u) current p = Inr ()" "a \<noteq> Some (obj_id current)"
    "on_objects (mark_object_deleting (sc_db ck 0) (sc_app ck 0) current (Some (cu_id u))
       ''object_delete_requested'') p = (Inr x, q)"
proof -
  from assms have "\<exists>a current. attached_icon ob p = Inr a \<and> load_object (obj_id ob) (pd_objects p) = Inr current \<and>
    authorize_change (cu_id u) current p = Inr () \<and> a \<noteq> Some (obj_id current) \<and>
    on_objects (mark_object_deleting (sc_db ck 0) (sc_app ck 0) current (Some (cu_id u))
       ''object_delete_requested'') p = (Inr x, q)"
    unfolding schedule_delete_def in_transaction_Inr attached_icon_def [symmetric]
    by (elim conjE and_then_Inr_cases) (auto dest!: revalidate_Inr simp: require_def split: if_splits)
  then show ?thesis by (elim exE conjE) (rule that)
qed

lemma schedule_delete_kept:
  assumes ok: "storage_ok (pd_objects p)"
    and same: "\<And>current. load_object (obj_id ob) (pd_objects p) = Inr current \<Longrightarrow> same_identity ob current"
    and run: "schedule_delete env ck fails u ob p = (r, p')"
  shows "kept p p'"
proof (cases r)
  case (Inl e)
  with run kept_refl [OF ok] show ?thesis by (auto simp: schedule_delete_def dest: in_transaction_Inl)
next
  case (Inr x)
  from schedule_delete_Inr [OF run [unfolded Inr]] obtain a current where
    att: "attached_icon ob p = Inr a" and current: "load_object (obj_id ob) (pd_objects p) = Inr current"
    and "authorize_change (cu_id u) current p = Inr ()" and a: "a \<noteq> Some (obj_id current)"
    and mark: "on_objects (mark_object_deleting (sc_db ck 0) (sc_app ck 0) current (Some (cu_id u))
      ''object_delete_requested'') p = (Inr x, p')" .
  have free: "detached (obj_id current) (pd_objects p)"
    by (rule schedule_delete_step [OF ok _ att [unfolded attached_icon_def] a same [OF current]])
      (use load_object_Inr [OF current] in simp)
  show ?thesis
    by (rule on_objects_kept [OF mark]) (auto dest: mark_object_deleting_ok(1) [OF ok free] keeps_marking)
qed

lemma delete_kept:
  assumes ok: "storage_ok (pd_objects p)" and reads: "reads_agree (pd_objects (reads 0)) (pd_objects p)"
    and run: "api_delete_object env ck fails reads u i p = (r, p')"
  shows "kept p p'"
proof (cases "load_object i (pd_objects (reads 0))")
  case (Inr ob)
  have "kept p q" if del: "schedule_delete env ck fails u ob p = (y, q)" for y q
    by (rule schedule_delete_kept [OF ok _ del])
      (use reads Inr load_object_Inr in \<open>auto intro: reads_agreeD\<close>)
  with run Inr ok show ?thesis
    by (auto simp: api_delete_object_def and_then_def kept_refl split: sum.splits)
qed (use run ok in \<open>simp add: api_delete_object_def and_then_def kept_refl\<close>)

lemma delete_icon_kept:
  assumes ok: "storage_ok (pd_objects p)" and run: "delete_category_icon env ck fails u c i p = (r, p')"
  shows "kept p p'"
proof (cases "is_admin u")
  case True
  with run have "in_transaction fails (\<lambda>p.
      and_then (revalidate_current_credential (sc_db ck 0) (se_session_lifetime env) u p) (\<lambda>_ p.
        on_objects (delete_category_icon_step ck (cu_id u) c i) p)) p = (r, p')"
    by (simp add: delete_category_icon_def require_admin_def require_def and_then_def)
  then show ?thesis
  proof (rule transaction_kept [OF ok, rotated], elim and_then_Inr_cases)
    fix x q v p1
    assume "revalidate_current_credential (sc_db ck 0) (se_session_lifetime env) u p = (Inr v, p1)"
      "on_objects (delete_category_icon_step ck (cu_id u) c i) p1 = (Inr x, q)"
    then show "kept p q"
      by (auto dest!: revalidate_Inr intro: on_objects_kept delete_icon_ok [OF ok] keeps_delete_icon)
  qed
qed (use run kept_refl [OF ok] in \<open>simp add: delete_category_icon_def require_admin_def require_def and_then_def\<close>)

text \<open>The only path on which a completion writes: the object is pending in the tables that it writes to.\<close>

lemma check_completion_Promote:
  assumes "check_completion env ck u ob purpose p = (Inr (Promote current previous), p')"
  shows "p' = p" "load_object (obj_id ob) (pd_objects p) = Inr current" "obj_status current = Obj_Pending"
    "authorize_change (cu_id u) current p = Inr ()"
  using assms unfolding check_completion_def check_category_icon_def
  by (auto elim!: and_then_Inr_cases dest!: revalidate_Inr simp: require_def split: if_splits)

lemma parse_purpose_text: "parse_purpose v = Inr p \<Longrightarrow> v = purpose_text p"
  by (auto simp: parse_purpose_def purpose_text_def split: if_splits)

lemma completion_transaction_cases:
  assumes "completion_transaction env ck fault u ob purpose (p, s) = (r, (p', s'))"
  obtains "p' = p" "\<And>x. r \<noteq> Inr (Inr None)"
  | current previous final metadata sa v where "r = Inr (Inr None)"
      "check_completion env ck u ob purpose p = (Inr (Promote current previous), p)"
      "promote env purpose current s = (Inr (Inr (final, metadata)), sa)"
      "on_objects (finish_completion ck (cu_id u) purpose current previous final metadata) p = (Inr v, p')"
proof -
  obtain c p1 where check: "check_completion env ck u ob purpose p = (c, p1)" by fastforce
  show ?thesis
  proof (cases "\<exists>current previous. c = Inr (Promote current previous) \<and> fault \<noteq> Fails_Before_Requests")
    case False
    with assms check have "p' = p \<and> r \<noteq> Inr (Inr None)"
      by (auto simp: completion_transaction_def split: sum.splits completion_check.splits if_splits)
    then show ?thesis by (intro that(1)) simp_all
  next
    case True
    then obtain current previous where c: "c = Inr (Promote current previous)" "fault \<noteq> Fails_Before_Requests" by blast
    note p1 = check_completion_Promote(1) [OF check [unfolded c(1)]]
    obtain y sa where y: "promote env purpose current s = (y, sa)" by fastforce
    show ?thesis
    proof (cases "\<exists>final metadata. y = Inr (Inr (final, metadata)) \<and> fault = No_Fault")
      case False
      with assms check c y have "p' = p \<and> r \<noteq> Inr (Inr None)"
        by (auto simp: completion_transaction_def p1 split: sum.splits if_splits prod.splits)
      then show ?thesis by (intro that(1)) simp_all
    next
      case True
      then obtain final metadata where m: "y = Inr (Inr (final, metadata))" "fault = No_Fault" by blast
      obtain z p2 where z: "on_objects (finish_completion ck (cu_id u) purpose current previous final metadata) p = (z, p2)"
        by fastforce
      show ?thesis
      proof (cases z)
        case (Inl e)
        with assms check c y m z show ?thesis by (intro that(1)) (auto simp: completion_transaction_def p1)
      next
        case (Inr v)
        with assms check c y m z show ?thesis
          by (intro that(2) [of current previous final metadata sa v]) (simp_all add: completion_transaction_def p1)
      qed
    qed
  qed
qed

lemma completion_transaction_kept:
  assumes ok: "storage_ok (pd_objects p)" and purpose: "parse_purpose (obj_purpose ob) = Inr purpose"
    and same: "\<And>current. load_object (obj_id ob) (pd_objects p) = Inr current \<Longrightarrow> same_identity ob current"
    and run: "completion_transaction env ck fault u ob purpose (p, s) = (r, (p', s'))"
  shows "kept p p'"
  using run
proof (rule completion_transaction_cases)
  fix current previous final metadata sa v
  assume check: "check_completion env ck u ob purpose p = (Inr (Promote current previous), p)"
    and prom: "promote env purpose current s = (Inr (Inr (final, metadata)), sa)"
    and fin: "on_objects (finish_completion ck (cu_id u) purpose current previous final metadata) p = (Inr v, p')"
  note current = check_completion_Promote(2,3) [OF check]
  have mem: "current \<in> set (objects (pd_objects p))" using load_object_Inr [OF current(1)] by simp
  have named: "obj_purpose current = purpose_text purpose"
    using same [OF current(1)] parse_purpose_text [OF purpose] by (simp add: same_identity_def)
  have "storage_ok d'" if "finish_completion ck (cu_id u) purpose current previous final metadata (pd_objects p) = (Inr v, d')" for d'
    using ok mem current(2) named promote_Inr(1) [OF prom] promote_Inr(3) [OF prom] that by (rule finish_completion_ok)
  then show "kept p p'" by (rule on_objects_kept [OF fin]) (auto dest: keeps_finish)
qed (simp add: kept_refl [OF ok])

lemma give_up_kept:
  assumes "storage_ok (pd_objects p)" "give_up env ck fails u ob reason e (p, s) = (r, (p', s'))"
  shows "kept p p'"
proof -
  obtain y q where y: "fail_upload env ck fails u ob reason p = (y, q)" by fastforce
  with assms(2) have "q = p'" by (auto simp: give_up_def split: sum.splits)
  with fail_kept [OF assms(1) y] show ?thesis by simp
qed

lemma complete_pending_kept:
  assumes ok: "storage_ok (pd_objects p)" and purpose: "parse_purpose (obj_purpose ob) = Inr purpose"
    and same: "\<And>current. load_object (obj_id ob) (pd_objects p) = Inr current \<Longrightarrow> same_identity ob current"
    and others: "kept p (cf_meanwhile cf p)"
    and run: "complete_pending env ck cf reads u ob purpose (p, s) = (r, (p', s'))"
  shows "kept p p'"
proof -
  obtain y q t where tx: "completion_transaction env ck (cf_transaction cf) u ob purpose (p, s) = (y, (q, t))"
    by (metis prod.exhaust)
  note kept = completion_transaction_kept [OF ok purpose same tx]
  show ?thesis
  proof (cases "\<exists>current reason e. y = Inr (Inl (current, reason, e))")
    case True
    then obtain current reason e where y: "y = Inr (Inl (current, reason, e))" by blast
    from tx have q: "q = p" by (rule completion_transaction_cases) (simp_all add: y)
    have "give_up env ck (cf_failing cf) u current reason e (cf_meanwhile cf p, t) = (r, (p', s'))"
      using run tx by (simp add: complete_pending_def y q)
    from give_up_kept [OF _ this] others show ?thesis by (blast intro: kept_trans)
  next
    case False
    with run tx have "p' = q"
      by (auto simp: complete_pending_def and_then_def split: sum.splits option.splits)
    with kept show ?thesis by simp
  qed
qed

lemma complete_kept:
  assumes ok: "storage_ok (pd_objects p)" and reads: "reads_agree (pd_objects (reads 0)) (pd_objects p)"
    and others: "kept p (cf_meanwhile cf p)"
    and run: "complete_upload env ck cf reads u i (p, s) = (r, (p', s'))"
  shows "kept p p'"
proof (cases "p' = p")
  case False
  have "\<exists>ob purpose sa. load_object i (pd_objects (reads 0)) = Inr ob \<and> parse_purpose (obj_purpose ob) = Inr purpose \<and>
    (complete_pending env ck cf reads u ob purpose (p, sa) = (r, (p', s')) \<or>
     (\<exists>reason e. give_up env ck (cf_failing cf) u ob reason e (p, sa) = (r, (p', s'))))"
    using run False unfolding complete_upload_def
    by (auto simp: and_then_def require_def split: sum.splits prod.splits option.splits if_splits)
  then obtain ob purpose sa where ob: "load_object i (pd_objects (reads 0)) = Inr ob"
    and purpose: "parse_purpose (obj_purpose ob) = Inr purpose"
    and step: "complete_pending env ck cf reads u ob purpose (p, sa) = (r, (p', s')) \<or>
      (\<exists>reason e. give_up env ck (cf_failing cf) u ob reason e (p, sa) = (r, (p', s')))" by blast
  have same: "same_identity ob current" if "load_object (obj_id ob) (pd_objects p) = Inr current" for current
    using reads_agreeD [OF reads ob that] .
  from step show ?thesis
  proof (elim disjE exE)
    assume "complete_pending env ck cf reads u ob purpose (p, sa) = (r, (p', s'))"
    with ok purpose same others show ?thesis by (rule complete_pending_kept)
  qed (rule give_up_kept [OF ok])
qed (use kept_refl [OF ok] in simp)

section \<open>Histories\<close>

text \<open>
  A request to the object API that writes: the start and the completion of an upload, the deletion of an object and
  of a category's icon. (Deleting a row that objects belong to (a category, a page, a challenge, a user, a team) or
  changing the competition mode schedules the removal of its objects by other requests, which are not among
  these: \<open>ObjectRemoval\<close> has the mode change.) What a request reads before its transaction shows the objects with the identity that
  they have in it, which every earlier state of a history does (\<open>kept_reads\<close>); while a completion is given up,
  other requests may commit.
\<close>

inductive object_request :: "'s storage_env \<Rightarrow> portal_db \<Rightarrow> portal_db \<Rightarrow> bool" for env where
  upload_initiated:
    "initiate_upload env ck i fails reads u header request p = (r, p') \<Longrightarrow> object_request env p p'"
| upload_completed:
    "reads_agree (pd_objects (reads 0)) (pd_objects p) \<Longrightarrow>
     (object_request env)\<^sup>*\<^sup>* p (cf_meanwhile cf p) \<Longrightarrow>
     complete_upload env ck cf reads u i (p, s) = (r', (p', s')) \<Longrightarrow> object_request env p p'"
| object_deleted:
    "reads_agree (pd_objects (reads 0)) (pd_objects p) \<Longrightarrow>
     api_delete_object env ck fails reads u i p = (r'', p') \<Longrightarrow> object_request env p p'"
| icon_deleted:
    "delete_category_icon env ck fails u c i p = (r'', p') \<Longrightarrow> object_request env p p'"

inductive_cases object_requestE: "object_request env p p'"

lemma kept_history:
  assumes "(\<lambda>x y. R x y \<and> (storage_ok (pd_objects x) \<longrightarrow> kept x y))\<^sup>*\<^sup>* p q" "storage_ok (pd_objects p)"
  shows "kept p q"
  using assms
proof (induction rule: rtranclp_induct)
  case (step y z)
  then show ?case by (blast intro: kept_trans)
qed (rule kept_refl)

lemma object_request_kept:
  "object_request env p p' \<Longrightarrow> storage_ok (pd_objects p) \<Longrightarrow> kept p p'"
proof (induction rule: object_request.induct)
  case (upload_completed reads p cf ck u i s r' p' s')
  from upload_completed.IH upload_completed.prems have "kept p (cf_meanwhile cf p)" by (rule kept_history)
  with upload_completed show ?case by (blast intro: complete_kept)
qed (blast intro: initiate_kept delete_kept delete_icon_kept)+

lemma object_history_kept:
  assumes "(object_request env)\<^sup>*\<^sup>* p q" "storage_ok (pd_objects p)"
  shows "kept p q"
proof (rule kept_history [OF _ assms(2)])
  from assms(1) show "(\<lambda>x y. object_request env x y \<and> (storage_ok (pd_objects x) \<longrightarrow> kept x y))\<^sup>*\<^sup>* p q"
    by (rule rtranclp_mono [THEN predicate2D, rotated]) (auto dest: object_request_kept)
qed

lemma keeps_reads:
  assumes "keeps_objects d e" "storage_ok e"
  shows "reads_agree d e"
  unfolding reads_agree_def
proof (intro ballI impI)
  fix a b assume a: "a \<in> set (objects d)" and b: "b \<in> set (objects e)" "obj_id a = obj_id b"
  from keeps_objectsD [OF assms(1) a] obtain c where c: "c \<in> set (objects e)" "same_identity a c" by blast
  then have "obj_id c = obj_id b" using b(2) by (simp add: same_identity_def)
  with assms(2) b(1) c(1) have "c = b" by (auto simp: storage_ok_def object_db_ok_def intro: distinct_map_eq)
  with c(2) show "same_identity a b" by simp
qed

lemma load_object_known:
  assumes "storage_ok d" "ob \<in> set (objects d)"
  shows "load_object (obj_id ob) d = Inr ob"
proof -
  have "distinct (map obj_id (objects d))" using assms(1) by (simp add: storage_ok_def object_db_ok_def)
  from find_the [OF this assms(2) refl]
  have "List.find (\<lambda>x. obj_id x = obj_id ob) (objects d) = Some ob" .
  then show ?thesis by (simp add: load_object_def)
qed

lemma kept_reads: "kept p q \<Longrightarrow> reads_agree (pd_objects p) (pd_objects q)"
  unfolding kept_def using keeps_reads by blast

section \<open>The controller and the API on the same tables\<close>

interpretation plane_identity: object_invariant "\<lambda>d. storage_ok d \<and> keeps_objects d0 d" for d0
proof
  fix d assume d: "storage_ok d \<and> keeps_objects d0 d"
  then have ok: "storage_ok d" and old: "keeps_objects d0 d" by simp_all
  have same: "storage_ok e \<Longrightarrow> objects e = objects d \<Longrightarrow> storage_ok e \<and> keeps_objects d0 e" for e
    using old by (simp add: keeps_objects_def)
  show "object_db_ok d" using ok by (rule storage_plane.I_ok)
  show "storage_ok (snd (settle_claim operation v d)) \<and> keeps_objects d0 (snd (settle_claim operation v d))" for operation v
    by (rule same [OF storage_plane.I_settle [OF ok]]) (simp add: settle_claim_def)
  show "storage_ok (d\<lparr>object_events := es\<rparr>) \<and> keeps_objects d0 (d\<lparr>object_events := es\<rparr>)" for es
    by (rule same [OF storage_plane.I_event [OF ok]]) simp
  show "storage_ok (snd (expire_upload_sql ob d)) \<and> keeps_objects d0 (snd (expire_upload_sql ob d))" for ob
    using storage_plane.I_expire [OF ok] keeps_objects_trans [OF old keeps_objects_update]
    by (simp add: expire_upload_sql_def Let_def same_identity_def)
  show "storage_ok (snd (mark_deleted_sql now ob d)) \<and> keeps_objects d0 (snd (mark_deleted_sql now ob d))" for now ob
    using storage_plane.I_mark [OF ok] keeps_objects_trans [OF old keeps_objects_update]
    by (simp add: mark_deleted_sql_def Let_def same_identity_def)
  show "storage_ok (insert_operation now (oid, kind, rev', t) d) \<and> keeps_objects d0 (insert_operation now (oid, kind, rev', t) d)"
    if "revision_known (objects d) oid rev'" for oid rev' now kind t
    by (rule same [OF storage_plane.I_insert [OF ok that]]) simp
  show "storage_ok (snd (wake_final_delete_sql now ob d)) \<and> keeps_objects d0 (snd (wake_final_delete_sql now ob d))" for now ob
    by (rule same [OF storage_plane.I_wake [OF ok]]) (simp add: wake_final_delete_sql_def)
  show "storage_ok (snd (recover_stale_sql now s d)) \<and> keeps_objects d0 (snd (recover_stale_sql now s d))" for now s
    by (rule same [OF storage_plane.I_recover [OF ok]]) (simp add: recover_stale_sql_def)
  show "storage_ok (snd (claim_operation_sql locked now wk d)) \<and> keeps_objects d0 (snd (claim_operation_sql locked now wk d))"
    for locked now wk
    by (rule same [OF storage_plane.I_claim [OF ok]]) (auto simp: claim_operation_sql_def split: option.splits)
qed

text \<open>What requests to the object API may do between two statements of the controller.\<close>

definition object_turn :: "'s storage_env \<Rightarrow> (object_db \<Rightarrow> object_db) \<Rightarrow> bool" where
  "object_turn env g \<longleftrightarrow> (\<forall>d. \<exists>p p'. pd_objects p = d \<and> (object_request env)\<^sup>*\<^sup>* p p' \<and> pd_objects p' = g d)"

lemma object_turn_keeps:
  assumes "object_turn env g" "storage_ok d \<and> keeps_objects d0 d"
  shows "storage_ok (g d) \<and> keeps_objects d0 (g d)"
proof -
  from assms(1) obtain p p' where p: "pd_objects p = d" "(object_request env)\<^sup>*\<^sup>* p p'" "pd_objects p' = g d"
    unfolding object_turn_def by metis
  from object_history_kept [OF p(2)] assms(2) show ?thesis
    by (auto simp: p kept_def intro: keeps_objects_trans)
qed

end
