(* ===== verification/StoragePlaneProperties.thy ===== *)
theory StoragePlaneProperties
  imports ObjectPlaneHistory
begin

text \<open>
  What the object storage API promises (\<open>services/api/src/routes/objects.rs\<close>), beside the controller's
  maintenance sessions (\<open>services/controller/src/storage.rs\<close>) that work on the same tables.
\<close>

section \<open>The storage plane stays in order\<close>

lemma icon_found:
  assumes "storage_ok d" "c \<in> set (categories d)" "cat_icon c = Some i"
  obtains ob where "current_icon (cat_id c) i d = Some ob" "icon_of c ob" "ob \<in> set (objects d)"
    "validated_icon (obj_content_type ob) (obj_metadata ob)"
proof -
  from assms obtain ob where ob: "ob \<in> set (objects d)" "icon_of c ob"
    unfolding storage_ok_def icons_ok_def by blast
  then have id: "obj_id ob = i" using assms(3) by (simp add: icon_of_def)
  have row: "object_row_ok ob" using assms(1) ob(1) by (simp add: storage_ok_def)
  with ob(2) have valid: "validated_icon (obj_content_type ob) (obj_metadata ob)"
    by (simp add: object_row_ok_def icon_of_def)
  let ?P = "\<lambda>x. obj_id x = i \<and> obj_category_id x = Some (cat_id c) \<and> obj_purpose x = ''category_icon'' \<and>
    obj_status x = Obj_Ready \<and> validated_icon (obj_content_type x) (obj_metadata x)"
  have "?P ob" using ob(2) id valid by (simp add: icon_of_def)
  with ob(1) have "List.find ?P (objects d) \<noteq> None" unfolding find_None_iff by blast
  then obtain x where x: "List.find ?P (objects d) = Some x" by (elim not_None_eq [THEN iffD1, THEN exE])
  then have "x \<in> set (objects d)" "obj_id x = i" by (auto dest: find_mem)
  then have "x = ob" using assms(1) ob(1) id by (auto simp: storage_ok_def object_db_ok_def intro: distinct_map_eq)
  with x assms(2,3) have "current_icon (cat_id c) i d = Some ob" by (auto simp: current_icon_def)
  then show ?thesis using ob(2,1) valid by (rule that)
qed

text \<open>
  C2. Whatever requests to the object API users and administrators send between the statements of a maintenance
  session, that is, whatever uploads they start and complete and whatever objects and category icons they delete,
  and whatever fails, the storage plane stays in order: ids, storage keys and
  idempotency keys are unique, every row satisfies its constraints, no operation is ahead of its object, no
  object disappears or changes its identity, and every icon that a category points to is a ready,
  validated object of that category.
\<close>

theorem storage_plane_stays_ok:
  assumes "storage_ok (db w)" and "\<forall>g \<in> set (turns w). object_turn env g"
    and "connected_object_session installed limits svc cfg wk stop waits w = (r, w')"
  shows "storage_ok (db w') \<and> keeps_objects (db w) (db w') \<and>
    list_all (\<lambda>c. case cat_icon c of None \<Rightarrow> True | Some i \<Rightarrow> current_icon (cat_id c) i (db w') \<noteq> None)
      (categories (db w'))"
proof -
  let ?I = "\<lambda>d. storage_ok d \<and> keeps_objects (db w) d"
  have "safe ?I w" using assms(1,2) object_turn_keeps by (fastforce simp: safe_def turns_keep_def)
  from preservesD [OF plane_identity.preserves_session this, of installed limits svc cfg wk stop waits]
  have ok: "storage_ok (db w')" "keeps_objects (db w) (db w')" using assms(3) by (simp_all add: safe_def)
  have "current_icon (cat_id c) i (db w') \<noteq> None" if "c \<in> set (categories (db w'))" "cat_icon c = Some i" for c i
    by (rule icon_found [OF ok(1) that]) simp
  with ok show ?thesis by (auto simp: list_all_iff split: option.split)
qed

text \<open>
  C31. A category's icon is served: after any history of requests, the grant for the icon that a category
  points to succeeds, and leads to the final copy of a ready object of that category whose content passed
  the icon checks.
\<close>

theorem current_icon_is_served:
  assumes "(object_request env)\<^sup>*\<^sup>* p q" and "storage_ok (pd_objects p)"
    and "c \<in> set (categories (pd_objects q))" and "cat_icon c = Some i"
  shows "\<exists>ob. ob \<in> set (objects (pd_objects q)) \<and> obj_id ob = i \<and> obj_category_id ob = Some (cat_id c) \<and>
    obj_status ob = Obj_Ready \<and> validated_icon (obj_content_type ob) (obj_metadata ob) \<and>
    category_icon_grant env ck False (cat_id c) i q =
      (Inr \<lparr>dl_url = inline_image_url (se_storage env) (obj_object_key ob) (obj_content_type ob),
         dl_expires_at = sc_app ck 0 + secs (os_presign_ttl (se_storage env))\<rparr>, q)"
proof -
  have ok: "storage_ok (pd_objects q)" using object_history_kept [OF assms(1,2)] by (simp add: kept_def)
  obtain ob where "current_icon (cat_id c) i (pd_objects q) = Some ob" "icon_of c ob" "ob \<in> set (objects (pd_objects q))"
    "validated_icon (obj_content_type ob) (obj_metadata ob)"
    using ok assms(3,4) by (rule icon_found)
  with assms(4) show ?thesis
    by (intro exI [of _ ob]) (simp add: category_icon_grant_def in_transaction_def icon_of_def and_then_def found_def)
qed

section \<open>Deleting\<close>

text \<open>
  C30. An accepted deletion is carried out: the object is then deleting, or was deleted already, no category
  points to it, and unless it was on its way before, the removal of its final copy and of its staged copy
  are both queued.
\<close>

theorem deletion_is_queued:
  assumes ok: "storage_ok (pd_objects p)" and reads: "reads_agree (pd_objects (reads 0)) (pd_objects p)"
    and run: "api_delete_object env ck fails reads u i p = (Inr x, p')"
  shows "\<exists>old new. load_object i (pd_objects p) = Inr old \<and> load_object i (pd_objects p') = Inr new \<and>
    obj_status new \<in> {Obj_Deleting, Obj_Deleted} \<and> authorize_change (cu_id u) old p = Inr () \<and>
    list_all (\<lambda>c. cat_icon c \<noteq> Some i) (categories (pd_objects p')) \<and>
    (obj_status old \<in> {Obj_Deleting, Obj_Deleted} \<or>
     open_at i Op_Delete (pd_objects p') \<and> open_at i Op_Delete_Upload (pd_objects p'))"
proof -
  from run obtain ob where ob: "load_object i (pd_objects (reads 0)) = Inr ob"
    and del: "schedule_delete env ck fails u ob p = (Inr x, p')"
    unfolding api_delete_object_def by (auto elim!: and_then_Inr_cases)
  have i: "obj_id ob = i" using load_object_Inr [OF ob] by simp
  from schedule_delete_Inr [OF del] obtain a current where
    att: "attached_icon ob p = Inr a" "load_object (obj_id ob) (pd_objects p) = Inr current"
      "authorize_change (cu_id u) current p = Inr ()" "a \<noteq> Some (obj_id current)"
    and mark: "on_objects (mark_object_deleting (sc_db ck 0) (sc_app ck 0) current (Some (cu_id u))
      ''object_delete_requested'') p = (Inr x, p')" .
  have current: "current \<in> set (objects (pd_objects p))" "obj_id current = i"
    using load_object_Inr [OF att(2)] i by simp_all
  have free: "detached (obj_id current) (pd_objects p)"
    by (rule schedule_delete_step [OF ok current(1) att(1) [unfolded attached_icon_def] att(4)])
      (rule reads_agreeD [OF reads ob att(2)])
  from on_objects_Inr [OF mark] obtain d' where
    d': "mark_object_deleting (sc_db ck 0) (sc_app ck 0) current (Some (cu_id u)) ''object_delete_requested'' (pd_objects p) = (Inr x, d')"
    and p': "p' = p\<lparr>pd_objects := d'\<rparr>" by blast
  note marked = mark_object_deleting_ok [OF ok free d']
  have point: "list_all (\<lambda>c. cat_icon c \<noteq> Some i) (categories d')"
    using free current(2) by (simp add: detached_def marked(2) list_all_iff)
  have storage: "storage_ok (pd_objects p')" using marked(1) by (simp add: p')
  show ?thesis
  proof (cases "obj_status current \<in> {Obj_Deleted, Obj_Deleting}")
    case True
    then have "d' = pd_objects p" using d' by (simp add: mark_object_deleting_def)
    with True att(2,3) i point show ?thesis by (intro exI [of _ current]) (auto simp: p')
  next
    case False
    with marked(3) obtain r where r: "r \<in> set (objects d')" "obj_id r = i" "obj_status r = Obj_Deleting"
      "open_at i Op_Delete d'" "open_at i Op_Delete_Upload d'" using current(2) by auto
    from load_object_known [OF storage, of r] r(1,2) have "load_object i (pd_objects p') = Inr r" by (simp add: p')
    with r att(2,3) i point show ?thesis by (intro exI [of _ current] exI [of _ r]) (simp add: p')
  qed
qed

section \<open>Completing\<close>

lemma mark_keeps_others:
  assumes "mark_object_deleting db_now app_now ob actor reason d = (Inr u, d')"
    and "x \<in> set (objects d)" "obj_id x \<noteq> obj_id ob"
  shows "x \<in> set (objects d')"
proof (cases "obj_status ob \<in> {Obj_Deleted, Obj_Deleting}")
  case False
  let ?P = "\<lambda>r. obj_id r = obj_id ob \<and> obj_revision r = obj_revision ob"
  let ?f = "\<lambda>r. r\<lparr>obj_status := Obj_Deleting, obj_revision := obj_revision r + 1\<rparr>"
  from False assms(1) obtain m d1 where ret: "returning_revision ?P ?f d = (Inr m, d1)" and d': "objects d' = objects d1"
    unfolding mark_object_deleting_def by (simp only: if_False) (elim and_then_Inr_cases, auto)
  from ret have "objects d1 = update_where ?P ?f (objects d)"
    by (auto simp: returning_revision_def split: option.splits)
  with assms(2,3) show ?thesis unfolding d' by (simp add: set_update_where)
qed (use assms in \<open>simp add: mark_object_deleting_def\<close>)

lemma mark_all_keeps_others:
  "mark_all_deleting db_now app_now obs actor reason d = (Inr u, d') \<Longrightarrow> x \<in> set (objects d) \<Longrightarrow>
     (\<And>ob. ob \<in> set obs \<Longrightarrow> obj_id x \<noteq> obj_id ob) \<Longrightarrow> x \<in> set (objects d')"
  by (induction obs arbitrary: d) (auto elim!: and_then_Inr_cases dest: mark_keeps_others)

lemma attach_keeps_new:
  assumes run: "attach_category_icon ck actor current c previous d = (Inr u, d')"
    and new: "previous \<noteq> Some (obj_id current)" and x: "x \<in> set (objects d)" "obj_id x = obj_id current"
  shows "x \<in> set (objects d')"
proof (rule attach_category_icon_Inr [OF run], unfold Let_def)
  define d1 where "d1 = d\<lparr>categories := update_where (\<lambda>r. cat_id r = c \<and> cat_icon r = previous)
    (\<lambda>r. r\<lparr>cat_icon := Some (obj_id current)\<rparr>) (categories d)\<rparr>"
  have d1: "x \<in> set (objects d1)" using x(1) by (simp add: d1_def)
  fix v d2 obs
  assume old: "(case previous of None \<Rightarrow> (Inr (), d1)
    | Some i \<Rightarrow> and_then (load_object i d1, d1) (\<lambda>old d.
        mark_object_deleting (sc_db ck 0) (sc_app ck 1) old (Some actor) ''category_icon_replaced'' d)) = (Inr v, d2)"
  assume all: "mark_all_deleting (sc_db ck 0) (sc_app ck 1)
     (sort_key obj_id (filter (\<lambda>ob. obj_category_id ob = Some c \<and> obj_purpose ob = ''category_icon'' \<and>
        obj_status ob = Obj_Pending \<and> obj_id ob \<noteq> obj_id current) (objects d2)))
     (Some actor) ''category_icon_upload_superseded'' d2 = (Inr u, d')"
  have "x \<in> set (objects d2)"
  proof (cases previous)
    case (Some i)
    with old obtain ob where "load_object i d1 = Inr ob" and
      mark: "mark_object_deleting (sc_db ck 0) (sc_app ck 1) ob (Some actor) ''category_icon_replaced'' d1 = (Inr v, d2)"
      by (auto elim!: and_then_Inr_cases)
    then have "obj_id x \<noteq> obj_id ob" using load_object_Inr [of i d1 ob] Some new x(2) by auto
    with mark d1 show ?thesis by (rule mark_keeps_others)
  qed (use old d1 in simp)
  with all show ?thesis by (rule mark_all_keeps_others) (simp add: x(2))
qed

lemma completed_object:
  assumes ok: "storage_ok d" and current: "current \<in> set (objects d)" "obj_status current = Obj_Pending"
    and run: "finish_completion ck actor purpose current previous final metadata d = (Inr u, d')"
  shows "ready_row (sc_db ck 0) current final metadata current \<in> set (objects d')"
    "open_at (obj_id current) Op_Delete_Upload d'"
proof -
  let ?P = "\<lambda>r. obj_id r = obj_id current \<and> obj_status r = Obj_Pending \<and> obj_revision r = obj_revision current"
  let ?f = "ready_row (sc_db ck 0) current final metadata"
  from finish_completion_Inr [OF run] obtain n d1 v d2 where "obj_created_at current \<le> sc_db ck 0"
    and ret: "returning_revision ?P ?f d = (Inr n, d1)"
    and attach: "(if purpose = Category_Icon then case obj_category_id current of None \<Rightarrow> (Inl database_error, d1)
        | Some c \<Rightarrow> attach_category_icon ck actor current c previous d1 else (Inr (), d1)) = (Inr v, d2)"
    and d': "d' = insert_object_event (obj_id current) ''upload_completed'' (Some actor)
          (JObj [(''actual_size'', JInt (hd_length final)), (''etag'', json_opt JStr (hd_etag final)),
            (''sha256'', JStr (obj_expected_checksum current))])
         (enqueue_operation (sc_db ck 0) (obj_id current) Op_Delete_Upload n
            (staging_cleanup_at (obj_upload_expires_at current))
         (cancel_operations (sc_db ck 0) (obj_id current) {Op_Reconcile} d2))" .
  from ret have d1: "objects d1 = update_where ?P ?f (objects d)" "categories d1 = categories d"
    by (auto simp: returning_revision_def split: option.splits)
  have ready: "?f current \<in> set (objects d1)" using current by (auto simp: d1 set_update_where)
  have "?f current \<in> set (objects d2)"
  proof (cases "purpose = Category_Icon")
    case True
    with attach obtain c where c: "attach_category_icon ck actor current c previous d1 = (Inr v, d2)"
      by (auto split: option.splits)
    from c attached_is_new [OF ok current d1(2) c] ready show ?thesis
      by (rule attach_keeps_new) (simp add: ready_row_def)
  qed (use attach ready in simp)
  then show "?f current \<in> set (objects d')" by (simp add: d')
  show "open_at (obj_id current) Op_Delete_Upload d'" unfolding d' open_event by (rule open_after_enqueue)
qed

lemma give_up_Inr [simp]: "give_up env ck fails u ob reason e w \<noteq> (Inr x, w')"
  by (auto simp: give_up_def split: prod.splits sum.splits)

lemma promote_head:
  assumes "promote env purpose current s = (Inr (Inr (final, metadata)), s')"
  shows "\<exists>s1 s2. head_object env (obj_object_key current) s1 = (Inr final, s2)"
  using assms unfolding promote_def
  by (auto elim!: and_then_Inr_cases split: if_splits prod.splits sum.splits) blast+

text \<open>
  C5. An object becomes ready only after it was verified: when a completion that writes succeeds, its caller may
  change the object in the tables that it writes to, the object was pending there, the service reported the
  promised length and type for the final copy, and the row takes over exactly these; an icon's metadata is
  that of a passed check; and the removal of the staged copy is queued.
\<close>

theorem ready_object_was_verified:
  assumes ok: "storage_ok (pd_objects p)" and reads: "reads_agree (pd_objects (reads 0)) (pd_objects p)"
    and run: "complete_upload env ck cf reads u i (p, s) = (Inr view, (p', s'))" and changed: "p' \<noteq> p"
  shows "\<exists>old new final s1 s2. load_object i (pd_objects p) = Inr old \<and> load_object i (pd_objects p') = Inr new \<and>
    obj_status old = Obj_Pending \<and> authorize_change (cu_id u) old p = Inr () \<and> same_identity old new \<and>
    head_object env (obj_object_key new) s1 = (Inr final, s2) \<and> hd_length final = obj_expected_size new \<and>
    hd_content_type final = Some (obj_content_type new) \<and>
    obj_status new = Obj_Ready \<and> obj_actual_size new = Some (obj_expected_size new) \<and>
    obj_actual_checksum new = Some (obj_expected_checksum new) \<and>
    (obj_purpose new \<noteq> ''category_icon'' \<or> validated_icon (obj_content_type new) (obj_metadata new)) \<and>
    open_at i Op_Delete_Upload (pd_objects p')"
proof -
  have "\<exists>ob purpose sa. load_object i (pd_objects (reads 0)) = Inr ob \<and> parse_purpose (obj_purpose ob) = Inr purpose \<and>
    complete_pending env ck cf reads u ob purpose (p, sa) = (Inr view, (p', s'))"
    using run changed unfolding complete_upload_def
    by (auto simp: and_then_def require_def split: sum.splits prod.splits option.splits if_splits)
  then obtain ob purpose sa where ob: "load_object i (pd_objects (reads 0)) = Inr ob"
    and purpose: "parse_purpose (obj_purpose ob) = Inr purpose"
    and pending: "complete_pending env ck cf reads u ob purpose (p, sa) = (Inr view, (p', s'))" by blast
  have i: "obj_id ob = i" using load_object_Inr [OF ob] by simp
  obtain y q t where tx: "completion_transaction env ck (cf_transaction cf) u ob purpose (p, sa) = (y, (q, t))"
    by (metis prod.exhaust)
  with pending have q: "q = p'" by (auto simp: complete_pending_def and_then_def split: sum.splits option.splits)
  from tx show ?thesis unfolding q
  proof (rule completion_transaction_cases)
    fix current previous final metadata sb v
    assume check: "check_completion env ck u ob purpose p = (Inr (Promote current previous), p)"
      and prom: "promote env purpose current sa = (Inr (Inr (final, metadata)), sb)"
      and fin: "on_objects (finish_completion ck (cu_id u) purpose current previous final metadata) p = (Inr v, p')"
    note current = check_completion_Promote(2-4) [OF check]
    have mem: "current \<in> set (objects (pd_objects p))" and id: "obj_id current = i"
      using load_object_Inr [OF current(1)] i by simp_all
    from on_objects_Inr [OF fin] obtain d' where p': "p' = p\<lparr>pd_objects := d'\<rparr>" and
      d': "finish_completion ck (cu_id u) purpose current previous final metadata (pd_objects p) = (Inr v, d')" by blast
    note finished = completed_object [OF ok mem current(2) d']
    define new where "new = ready_row (sc_db ck 0) current final metadata current"
    have new: "obj_id new = i" "same_identity current new" "obj_status new = Obj_Ready"
      "obj_object_key new = obj_object_key current" "obj_content_type new = obj_content_type current"
      "obj_purpose new = obj_purpose current" "obj_metadata new = metadata"
      "obj_expected_size new = obj_expected_size current" "obj_actual_size new = Some (hd_length final)"
      "obj_actual_checksum new = Some (obj_expected_checksum new)"
      by (simp_all add: new_def ready_row_def same_identity_def id)
    have "parse_purpose (obj_purpose current) = Inr purpose"
      using reads_agreeD [OF reads ob] current(1) purpose i by (simp add: same_identity_def)
    then have named: "obj_purpose current = purpose_text purpose" by (rule parse_purpose_text)
    have "kept p p'" using ok purpose _ tx [unfolded q] by (rule completion_transaction_kept)
      (rule reads_agreeD [OF reads ob])
    then have "storage_ok d'" by (simp add: kept_def p')
    from load_object_known [OF this finished(1)] have loaded: "load_object i (pd_objects p') = Inr new"
      using new(1) by (simp add: p' new_def)
    have icon: "obj_purpose current \<noteq> ''category_icon'' \<or> validated_icon (obj_content_type current) metadata"
      using promote_Inr(3) [OF prom] by (auto simp: named purpose_text_icon)
    from promote_head [OF prom] obtain s1 s2 where "head_object env (obj_object_key current) s1 = (Inr final, s2)" by blast
    with loaded new icon current promote_Inr(1,2) [OF prom] finished(2) i id show ?thesis
      by (intro exI [of _ current] exI [of _ new] exI [of _ final] exI [of _ s1] exI [of _ s2]) (simp add: p')
  qed (use changed in simp)
qed

section \<open>Idempotency keys\<close>

lemma created_is_found:
  assumes ok: "storage_ok d" and ob: "ob \<in> set (objects d)" "obj_owner_user_id ob = Some i" "obj_idempotency_key ob = Some k"
  shows "load_idempotent_object i k d = Some ob"
proof -
  let ?P = "\<lambda>x. obj_owner_user_id x = Some i \<and> obj_idempotency_key x = Some k"
  have "List.find ?P (objects d) \<noteq> None" unfolding find_None_iff using ob by blast
  then obtain x where x: "List.find ?P (objects d) = Some x" by (elim not_None_eq [THEN iffD1, THEN exE])
  then have "x \<in> set (objects d)" "?P x" by (auto dest: find_mem)
  moreover from this ob have "same_storage_key x ob" by (simp add: same_storage_key_def)
  ultimately have "obj_id x = obj_id ob" using ok ob(1) unfolding storage_ok_def keys_ok_def by blast
  then have "x = ob"
    using ok ob(1) \<open>x \<in> set (objects d)\<close> by (auto simp: storage_ok_def object_db_ok_def intro: distinct_map_eq)
  with x show ?thesis by (simp add: load_idempotent_object_def)
qed

lemma plan_key: "plan_upload env ck reads u header request p = (Inr plan, p') \<Longrightarrow>
    required_idempotency_key header = Inr (up_key plan)"
  unfolding plan_upload_def by (elim and_then_Inr_cases) auto

lemma grant_view: "build_upload_grant st now ob = Inr g \<Longrightarrow> ug_object g = view_of ob"
  by (auto simp: build_upload_grant_def upload_grant_for_def Let_def split: if_splits option.splits)

lemma initiate_created:
  assumes ok: "storage_ok (pd_objects p)"
    and run: "initiate_upload env ck i fails reads u header request p = (Inr (Created_201, g), p1)"
  obtains plan who metadata ob d1 where "plan_upload env ck reads u header request p = (Inr plan, p)"
    "principal_in_transaction u (up_purpose plan) (user_mode p) p = Inr who"
    "create_object env ck i u plan who metadata (pd_objects p) = (Inr ob, d1)" "p1 = p\<lparr>pd_objects := d1\<rparr>"
    "build_upload_grant (se_storage env) (sc_app ck 1) ob = Inr g"
proof -
  from run obtain plan p2 r p3 where plan: "plan_upload env ck reads u header request p = (Inr plan, p2)"
    and body: "initiate_body env ck i u plan p2 = (Inr r, p3)"
    and rest: "(case r of Inl grant \<Rightarrow> (Inr (Ok_200, grant), p3) | Inr ob \<Rightarrow>
      and_then (build_upload_grant (se_storage env) (sc_app ck 1) ob, p3) (\<lambda>grant p. (Inr (Created_201, grant), p))) =
      (Inr (Created_201, g), p1)"
    unfolding initiate_upload_def by (elim and_then_Inr_cases) auto
  from rest obtain ob where r: "r = Inr ob" and g: "build_upload_grant (se_storage env) (sc_app ck 1) ob = Inr g" and p1: "p1 = p3"
    by (auto elim!: and_then_Inr_cases split: sum.splits)
  have p2: "p2 = p" using plan_upload_ok(2) [OF plan] .
  from initiate_body_Inr [OF body] show ?thesis
  proof (elim disjE exE conjE)
    fix who metadata ob'
    assume who: "principal_in_transaction u (up_purpose plan) (user_mode p2) p2 = Inr who"
      and create: "on_objects (create_object env ck i u plan who metadata) p2 = (Inr ob', p3)" and r': "r = Inr ob'"
    from on_objects_Inr [OF create] r r' obtain d1 where
      "create_object env ck i u plan who metadata (pd_objects p) = (Inr ob, d1)" "p1 = p\<lparr>pd_objects := d1\<rparr>"
      by (auto simp: p1 p2)
    with that [of plan who metadata ob d1] plan who g show ?thesis by (simp add: p2)
  qed (use r in simp)
qed

lemma initiate_existing:
  assumes there: "load_idempotent_object (cu_id u) k (pd_objects q) = Some ob" and key: "required_idempotency_key header = Inr k"
    and run: "initiate_upload env ck i fails reads u header request q = (r, q')"
  shows "q' = q \<and> (case r of Inl _ \<Rightarrow> True | Inr (status, g) \<Rightarrow> status = Ok_200 \<and> ug_object g = view_of ob)"
proof -
  obtain x q1 where plan: "plan_upload env ck reads u header request q = (x, q1)" by fastforce
  have q1: "q1 = q" using plan unfolding plan_upload_def
    by (auto simp: and_then_def require_admin_def require_def split: sum.splits if_splits prod.splits)
  show ?thesis
  proof (cases x)
    case (Inr pl)
    from plan_key [OF plan [unfolded Inr]] key have k: "up_key pl = k" by simp
    obtain y q2 where tx: "in_transaction fails (initiate_body env ck i u pl) q = (y, q2)" by fastforce
    have "q2 = q \<and> (case y of Inl _ \<Rightarrow> True | Inr z \<Rightarrow> \<exists>g. z = Inl g \<and> ug_object g = view_of ob)"
    proof (cases y)
      case (Inl e)
      with tx show ?thesis by (auto dest: in_transaction_Inl)
    next
      case (Inr z)
      with tx have body: "initiate_body env ck i u pl q = (Inr z, q2)" by simp
      then have "\<exists>g. q2 = q \<and> z = Inl g \<and> build_upload_grant (se_storage env) (sc_app ck 1) ob = Inr g"
        using there unfolding initiate_body_def
        by (auto elim!: and_then_Inr_cases dest!: revalidate_Inr full_access_Inr
            simp: require_def k split: option.splits if_splits)
      with Inr show ?thesis by (auto dest: grant_view)
    qed
    with run plan tx q1 Inr show ?thesis by (auto simp: initiate_upload_def and_then_def split: sum.splits)
  qed (use run plan q1 in \<open>auto simp: initiate_upload_def and_then_def\<close>)
qed

text \<open>
  C16. An idempotency key stands for one object for ever: after an upload has been accepted, and after any
  requests since, another one of the same user with the same key changes nothing, whatever it asks for, and
  is accepted only for the object that the first one created.
\<close>

theorem key_names_one_object:
  assumes first: "initiate_upload env ck i fails reads u header request p = (Inr (Created_201, g), p1)"
    and ok: "storage_ok (pd_objects p)" and since: "(object_request env)\<^sup>*\<^sup>* p1 q"
    and again: "initiate_upload env ck' j fails' reads' u header request' q = (r, q')"
  shows "q' = q \<and> (case r of Inl _ \<Rightarrow> True | Inr (status, g') \<Rightarrow> status = Ok_200 \<and> ov_id (ug_object g') = i)"
proof -
  obtain plan who metadata ob d1 where plan: "plan_upload env ck reads u header request p = (Inr plan, p)"
    and who: "principal_in_transaction u (up_purpose plan) (user_mode p) p = Inr who"
    and create: "create_object env ck i u plan who metadata (pd_objects p) = (Inr ob, d1)"
    and p1: "p1 = p\<lparr>pd_objects := d1\<rparr>" and "build_upload_grant (se_storage env) (sc_app ck 1) ob = Inr g"
    using ok first by (rule initiate_created)
  note new = create_object_ok [OF ok plan_upload_ok(1) [OF plan] principal_target [OF who] create]
  have "ob \<in> set (objects (pd_objects p1))" "storage_ok (pd_objects p1)" using new(1,2) by (simp_all add: p1)
  moreover from object_history_kept [OF since this(2)] have q: "keeps_objects (pd_objects p1) (pd_objects q)" "storage_ok (pd_objects q)"
    by (simp_all add: kept_def)
  ultimately obtain x where x: "x \<in> set (objects (pd_objects q))" "same_identity ob x"
    by (blast dest: keeps_objectsD)
  have "obj_owner_user_id x = Some (cu_id u)" "obj_idempotency_key x = Some (up_key plan)" "obj_id x = i"
    using x(2) by (simp_all add: same_identity_def new(4)) (simp_all add: new_object_def)
  with created_is_found [OF q(2) x(1)] have "load_idempotent_object (cu_id u) (up_key plan) (pd_objects q) = Some x" by simp
  from initiate_existing [OF this plan_key [OF plan] again] \<open>obj_id x = i\<close>
  show ?thesis by (auto simp: view_of_def split: sum.splits)
qed

section \<open>Quotas\<close>

lemma plan_purpose: "plan_upload env ck reads u header request p = (Inr plan, p') \<Longrightarrow>
    is_asset (up_purpose plan) \<Longrightarrow> is_admin u"
  unfolding plan_upload_def
  by (elim and_then_Inr_cases) (auto simp: require_admin_def require_def split: if_splits)

lemma create_object_operations:
  assumes "create_object env ck i u plan who metadata d = (Inr ob, d')"
  shows "set (operations d) \<subseteq> set (operations d')"
    "r \<in> set (operations d') \<Longrightarrow> r \<in> set (operations d) \<or> row_object_id r = i"
proof -
  let ?o = "new_object env (sc_app ck 0) (sc_db ck 0) i u plan who metadata"
  from assms obtain d1 v where "insert_object ?o d = (Inr ob, d1)"
    "insert_reconciliation (sc_db ck 0) ob (insert_object_event i ''upload_created'' (Some (cu_id u))
      (JObj [(''purpose'', JStr (purpose_text (up_purpose plan))), (''expected_size'', JInt (up_size plan))]) d1) = (Inr v, d')"
    unfolding create_object_def by (elim and_then_Inr_cases) auto
  then show "set (operations d) \<subseteq> set (operations d')"
    "r \<in> set (operations d') \<Longrightarrow> r \<in> set (operations d) \<or> row_object_id r = i"
    by (auto simp: insert_object_def insert_reconciliation_def insert_operation_def new_operation_def
        new_object_def split: if_splits)
qed

lemma new_principal:
  assumes "principal_in_transaction u p mode d = Inr who" "\<not> is_asset p" "\<not> is_admin u"
  shows "quota_id who \<noteq> None"
    "(if mode = ''teams'' then map_option For_Team (current_team (cu_id u) d) else Some (For_User (cu_id u))) = Some who"
  using assms by (auto simp: principal_in_transaction_def split: if_splits option.splits)

lemma sums_after_insert:
  assumes d': "objects d' = objects d @ [ob]" and fresh: "obj_id ob \<notin> obj_id ` set (objects d)"
    and old: "\<And>r. r \<in> set (operations d') \<Longrightarrow> r \<in> set (operations d) \<or> row_object_id r = obj_id ob"
    and kept: "set (operations d) \<subseteq> set (operations d')"
    and mine: "obj_scope ob = principal_scope who"
      "case who of For_User i \<Rightarrow> obj_owner_user_id ob = Some i | For_Team i \<Rightarrow> obj_owner_team_id ob = Some i | For_Target \<Rightarrow> False"
    and ob: "obj_status ob = Obj_Pending" "obj_actual_size ob = None" "now - secs 3600 \<le> obj_created_at ob"
  shows "length (pending_objects who d') = Suc (length (pending_objects who d))"
    "pending_bytes who d' = pending_bytes who d + obj_expected_size ob"
    "retained_bytes who d' = retained_bytes who d + obj_expected_size ob"
    "length (recent_uploads now who d') = Suc (length (recent_uploads now who d))"
proof -
  have objs: "objects_of_principal who d' = objects_of_principal who d @ [ob]"
    using mine by (simp add: objects_of_principal_def d' split: authorization_principal.splits)
  have same: "retained_object d' x = retained_object d x" if "x \<in> set (objects d)" for x
    using that fresh old kept by (fastforce simp: retained_object_def)
  have "filter (retained_object d') (objects_of_principal who d) = filter (retained_object d) (objects_of_principal who d)"
    by (rule filter_cong [OF refl]) (simp add: objects_of_principal_def same)
  then show "length (pending_objects who d') = Suc (length (pending_objects who d))"
    "pending_bytes who d' = pending_bytes who d + obj_expected_size ob"
    "retained_bytes who d' = retained_bytes who d + obj_expected_size ob"
    "length (recent_uploads now who d') = Suc (length (recent_uploads now who d))"
    using ob by (simp_all add: pending_objects_def pending_bytes_def retained_bytes_def recent_uploads_def objs
        retained_object_def coalesce_def)
qed

lemma saturating_le: "saturating_i64_add a b \<le> m \<Longrightarrow> m < i64_max \<Longrightarrow> a + b \<le> m"
  by (auto simp: saturating_i64_add_def)

text \<open>
  C17. The quotas hold after every upload that a participant starts: the user, in team mode the user's current
  team, has at most the configured number of pending objects and of uploads in the last hour, and pending
  and retained bytes are within their limits, the new object included.
\<close>

theorem upload_within_quota:
  assumes ok: "storage_ok (pd_objects p)" and participant: "\<not> is_admin u"
    and limits: "os_max_pending_bytes (se_storage env) < i64_max" "os_max_retained_bytes (se_storage env) < i64_max"
    and run: "initiate_upload env ck i fails reads u header request p = (Inr (Created_201, g), p')"
  shows "\<exists>who. (if user_mode p = ''teams'' then map_option For_Team (current_team (cu_id u) p)
      else Some (For_User (cu_id u))) = Some who \<and>
    (let d = pd_objects p'; st = se_storage env in
      int (length (pending_objects who d)) \<le> os_max_pending_objects st \<and>
      pending_bytes who d \<le> os_max_pending_bytes st \<and> retained_bytes who d \<le> os_max_retained_bytes st \<and>
      int (length (recent_uploads (sc_db ck 0) who d)) \<le> os_max_uploads_per_hour st)"
proof -
  obtain plan who metadata ob d1 where plan: "plan_upload env ck reads u header request p = (Inr plan, p)"
    and who: "principal_in_transaction u (up_purpose plan) (user_mode p) p = Inr who"
    and create: "create_object env ck i u plan who metadata (pd_objects p) = (Inr ob, d1)"
    and p': "p' = p\<lparr>pd_objects := d1\<rparr>" and "build_upload_grant (se_storage env) (sc_app ck 1) ob = Inr g"
    using ok run by (rule initiate_created)
  have "\<not> is_asset (up_purpose plan)" using plan_purpose [OF plan] participant by blast
  note who_cases = new_principal [OF who this participant]
  note new = create_object_ok [OF ok plan_upload_ok(1) [OF plan] principal_target [OF who] create]
  have fields: "obj_id ob = i" "obj_status ob = Obj_Pending" "obj_actual_size ob = None" "obj_created_at ob = sc_db ck 0"
    "obj_expected_size ob = up_size plan" "obj_scope ob = principal_scope who" "obj_owner_user_id ob = Some (cu_id u)"
    "obj_owner_team_id ob = principal_team who" by (simp_all add: new(4) new_object_def)
  have quota: "enforce_storage_quota (se_storage env) (sc_db ck 0) who (up_size plan) (pd_objects p) = Inr ()"
    using new(5) participant by blast
  have sums: "length (pending_objects who d1) = Suc (length (pending_objects who (pd_objects p)))"
    "pending_bytes who d1 = pending_bytes who (pd_objects p) + obj_expected_size ob"
    "retained_bytes who d1 = retained_bytes who (pd_objects p) + obj_expected_size ob"
    "length (recent_uploads (sc_db ck 0) who d1) = Suc (length (recent_uploads (sc_db ck 0) who (pd_objects p)))"
  proof -
    have mine: "case who of For_User i \<Rightarrow> obj_owner_user_id ob = Some i | For_Team i \<Rightarrow> obj_owner_team_id ob = Some i | For_Target \<Rightarrow> False"
      using who_cases(2) by (auto simp: fields split: if_splits)
    have fresh: "obj_id ob \<notin> obj_id ` set (objects (pd_objects p))"
      using new(1) by (simp add: storage_ok_def object_db_ok_def new(2))
    note sums_after_insert [OF new(2) fresh _ create_object_operations(1) [OF create] fields(6) mine fields(2,3), of "sc_db ck 0"]
    moreover have "r \<in> set (operations (pd_objects p)) \<or> row_object_id r = obj_id ob" if "r \<in> set (operations d1)" for r
      using create_object_operations(2) [OF create that] by (simp add: fields)
    ultimately show "length (pending_objects who d1) = Suc (length (pending_objects who (pd_objects p)))"
      "pending_bytes who d1 = pending_bytes who (pd_objects p) + obj_expected_size ob"
      "retained_bytes who d1 = retained_bytes who (pd_objects p) + obj_expected_size ob"
      "length (recent_uploads (sc_db ck 0) who d1) = Suc (length (recent_uploads (sc_db ck 0) who (pd_objects p)))"
      by (simp_all add: fields(4) secs_def)
  qed
  from quota who_cases(1) have "int (length (pending_objects who d1)) \<le> os_max_pending_objects (se_storage env)"
    "pending_bytes who d1 \<le> os_max_pending_bytes (se_storage env)"
    "retained_bytes who d1 \<le> os_max_retained_bytes (se_storage env)"
    "int (length (recent_uploads (sc_db ck 0) who d1)) \<le> os_max_uploads_per_hour (se_storage env)"
    using limits by (auto simp: enforce_storage_quota_def sums fields not_less not_le dest: saturating_le split: if_splits)
  with who_cases(2) show ?thesis by (intro exI [of _ who]) (simp add: p' Let_def)
qed

section \<open>Reading\<close>

text \<open>Who may read an object, by its purpose: the specification of the two authorization functions.\<close>

definition challenge_open :: "int \<Rightarrow> current_user option \<Rightarrow> int option \<Rightarrow> portal_db \<Rightarrow> bool" where
  "challenge_open now u c p \<longleftrightarrow>
     (\<exists>i. c = Some i \<and> find_challenge i p \<noteq> None \<and> fst (require_full_challenge_access now u i p) = Inr ())"

definition owns :: "current_user \<Rightarrow> stored_object \<Rightarrow> portal_db \<Rightarrow> bool" where
  "owns a ob p \<longleftrightarrow>
     (if user_mode p = ''teams''
      then obj_scope ob = ''team'' \<and> obj_owner_team_id ob \<noteq> None \<and> obj_owner_team_id ob = participant_team (cu_id a) p
      else user_mode p = ''users'' \<and> obj_scope ob = ''user'' \<and> obj_owner_user_id ob = Some (cu_id a))"

definition may_read :: "int \<Rightarrow> current_user option \<Rightarrow> stored_object \<Rightarrow> portal_db \<Rightarrow> bool" where
  "may_read now u ob p \<longleftrightarrow>
     (if is_competition_purpose (obj_purpose ob) then (\<exists>a. u = Some a \<and> (is_admin a \<or> owns a ob p))
      else if obj_purpose ob = ''challenge_asset'' then challenge_open now u (obj_challenge_id ob) p
      else if obj_purpose ob = ''page_asset''
      then (\<exists>i page. obj_page_id ob = Some i \<and> find_page i p = Some page \<and>
         (admin_view u \<or> pg_visibility page = ''public'' \<or> pg_visibility page = ''private'' \<and> u \<noteq> None))
      else obj_purpose ob = ''solution_asset'' \<and> challenge_open now u (obj_challenge_id ob) p \<and>
        (\<exists>a s c. u = Some a \<and> obj_challenge_id ob = Some c \<and> s \<in> set (pd_solutions p) \<and>
           obj_solution_id ob = Some (sln_id s) \<and> sln_challenge_id s = Some c \<and>
           (is_admin a \<or> sln_state s = ''visible'' \<or>
            sln_state s = ''solved'' \<and> viewer_has_solved a c (user_mode p = ''teams'') p)))"

lemma may_read_identity:
  "same_download_identity a b \<Longrightarrow> may_read now u a p = may_read now u b p"
  by (simp add: same_download_identity_def may_read_def owns_def)

lemma competition_access_may_read:
  "competition_access u ob (user_mode p) p = Inr () \<Longrightarrow> is_competition_purpose (obj_purpose ob) \<Longrightarrow> may_read now u ob p"
  by (auto simp: competition_access_def may_read_def owns_def split: option.splits if_splits)

lemma full_access_open:
  "require_full_challenge_access now u c p = (Inr x, p') \<Longrightarrow>
     p' = p \<and> fst (require_full_challenge_access now u c p) = Inr ()"
  using full_access_Inr [of now u c p x p'] by simp

lemma authorize_download_may_read:
  assumes "authorize_download now u ob (user_mode p) p = (Inr (), p')" "\<not> is_competition_purpose (obj_purpose ob)"
  shows "may_read now u ob p" "p' = p"
proof -
  have "may_read now u ob p \<and> p' = p"
  proof (cases "obj_purpose ob = ''challenge_asset''")
    case True
    with assms show ?thesis unfolding authorize_download_def asset_access_def
      by (auto elim!: and_then_Inr_cases dest!: full_access_open simp: may_read_def challenge_open_def require_def split: if_splits)
  next
    case asset: False
    show ?thesis
    proof (cases "obj_purpose ob = ''page_asset''")
      case True
      with assms asset show ?thesis
        by (auto simp: authorize_download_def page_access_def may_read_def bind_eq_Some_conv split: option.splits if_splits)
    next
      case False
      with assms asset have sol: "obj_purpose ob = ''solution_asset''" and "solution_access now u ob (user_mode p) p = (Inr (), p')"
        by (auto simp: authorize_download_def split: if_splits)
      then show ?thesis using assms(2) unfolding solution_access_def
        by (auto elim!: and_then_Inr_cases dest!: full_access_open find_mem simp: may_read_def challenge_open_def
            require_def split: option.splits if_splits)
    qed
  qed
  then show "may_read now u ob p" "p' = p" by simp_all
qed

text \<open>
  C4. A download is granted only to those who may read the object as it is in the tables of the transaction,
  although the checks were made on a row read before: the credential is valid, the object is ready, the
  reader may read it by its purpose (a competition object: its owner, or a current member of the owning team, in
  the current mode), and the URL leads to its final copy.
\<close>

theorem download_only_when_authorized:
  assumes "download_grant env ck fails earlier u i p = (Inr url, p')"
  shows "p' = p \<and> (\<exists>ob. load_object i (pd_objects p) = Inr ob \<and> obj_status ob = Obj_Ready \<and>
    may_read (sc_unix ck) (effective_user u (user_mode p) p) ob p \<and>
    (\<forall>a. u \<noteq> Some a \<or> credential_valid (sc_db ck 0) (se_session_lifetime env) a p) \<and>
    url = \<lparr>dl_url = get_url (se_storage env) (obj_object_key ob) (obj_filename ob) (obj_content_type ob),
      dl_expires_at = sc_app ck 0 + secs (os_presign_ttl (se_storage env))\<rparr>)"
proof -
  let ?who = "effective_user u (user_mode p) p"
  from assms obtain v p1 authorized p2 v' p3 ob where
    cred: "(case u of None \<Rightarrow> (Inr (), p)
         | Some a \<Rightarrow> revalidate_current_credential (sc_db ck 0) (se_session_lifetime env) a p) = (Inr v, p1)"
    and loaded: "(load_object i (pd_objects earlier), p1) = (Inr authorized, p2)"
    and access: "(if is_competition_purpose (obj_purpose authorized)
         then (competition_access (effective_user u (user_mode p1) p1) authorized (user_mode p1) p2, p2)
         else authorize_download (sc_unix ck) (effective_user u (user_mode p1) p1) authorized (user_mode p1) p2) = (Inr v', p3)"
    and ob: "load_object i (pd_objects p3) = Inr ob" "same_download_identity authorized ob" "obj_status ob = Obj_Ready"
    and url: "url = \<lparr>dl_url = get_url (se_storage env) (obj_object_key ob) (obj_filename ob) (obj_content_type ob),
      dl_expires_at = sc_app ck 0 + secs (os_presign_ttl (se_storage env))\<rparr>" and p': "p' = p3"
    unfolding download_grant_def in_transaction_Inr download_body_def Let_def
    by (elim conjE and_then_Inr_cases) (auto simp: require_def split: if_split_asm)
  have p1: "p1 = p" and valid: "\<forall>a. u \<noteq> Some a \<or> credential_valid (sc_db ck 0) (se_session_lifetime env) a p"
    using cred by (auto simp: revalidate_current_credential_def require_def split: option.splits if_splits)
  have p2: "p2 = p" using loaded p1 by simp
  have "p3 = p \<and> may_read (sc_unix ck) ?who authorized p"
  proof (cases "is_competition_purpose (obj_purpose authorized)")
    case True
    with access have "competition_access ?who authorized (user_mode p) p = Inr ()" "p3 = p" unfolding p1 p2 by auto
    with competition_access_may_read [OF this(1) True] show ?thesis by simp
  next
    case False
    with access have "authorize_download (sc_unix ck) ?who authorized (user_mode p) p = (Inr (), p3)"
      by (simp add: p1 p2)
    from authorize_download_may_read [OF this False] show ?thesis by simp
  qed
  with ob url p' valid may_read_identity [OF ob(2)] show ?thesis by auto
qed

end
