(* ===== verification/StoragePlaneExamples.thy ===== *)
theory StoragePlaneExamples
  imports CategoryIconDocuments StoragePlaneProperties ObjectProperties PortalExamples
begin

text \<open>
  Concrete tables of the storage plane: a category with its icon, a ready and a pending object of a
  participant, on which the theorems about the object storage API are applied.
\<close>

section \<open>Concrete tables\<close>

definition sample_checksum :: string where
  "sample_checksum = replicate 64 CHR ''a''"

definition pending_sample :: stored_object where
  "pending_sample = \<lparr>obj_id = 3, obj_bucket = ''b'', obj_object_key = ''o3'', obj_upload_key = ''u3'', obj_purpose = ''program'',
     obj_status = Obj_Pending, obj_scope = ''user'', obj_owner_user_id = Some 4, obj_owner_team_id = None,
     obj_idempotency_key = Some ''k'', obj_category_id = None, obj_challenge_id = Some 6, obj_page_id = None,
     obj_solution_id = None, obj_filename = ''f'', obj_content_type = ''a/b'', obj_expected_size = 5,
     obj_actual_size = None, obj_expected_checksum = sample_checksum, obj_actual_checksum = None,
     obj_etag = None, obj_metadata = JObj [], obj_upload_expires_at = secs 900, obj_created_at = secs 50,
     obj_ready_at = None, obj_deleted_at = None, obj_revision = 1\<rparr>"

definition ready_sample :: stored_object where
  "ready_sample = pending_sample\<lparr>obj_id := 5, obj_object_key := ''o5'', obj_upload_key := ''u5'', obj_status := Obj_Ready,
     obj_idempotency_key := Some ''l'', obj_actual_size := Some 5, obj_actual_checksum := Some sample_checksum,
     obj_ready_at := Some (secs 60), obj_revision := 2\<rparr>"

definition icon_sample :: stored_object where
  "icon_sample = ready_sample\<lparr>obj_id := 9, obj_object_key := ''o9'', obj_upload_key := ''u9'', obj_purpose := ''category_icon'',
     obj_scope := ''target'', obj_idempotency_key := Some ''m'', obj_category_id := Some 7, obj_challenge_id := None,
     obj_content_type := ''image/svg+xml'', obj_metadata := svg_metadata\<rparr>"

definition sample_category :: category_row where
  "sample_category = \<lparr>cat_id = 7, cat_icon = Some 9\<rparr>"

definition storage_tables :: object_db where
  "storage_tables = \<lparr>objects = [pending_sample, ready_sample, icon_sample], categories = [sample_category],
     operations = [], object_events = [], next_operation_id = 1\<rparr>"

definition storage_portal :: portal_db where
  "storage_portal = sample_board\<lparr>pd_objects := storage_tables\<rparr>"

definition sample_storage :: object_storage where
  "sample_storage = \<lparr>os_bucket_name = ''b'', os_max_upload_bytes = 100, os_max_pending_bytes = 100,
     os_max_pending_objects = 8, os_max_retained_bytes = 200, os_max_uploads_per_hour = 60, os_presign_ttl = 900,
     os_sign = (\<lambda>a. act_key a), os_checksum_base64 = Some\<rparr>"

definition sample_reply :: http_reply where
  "sample_reply = \<lparr>hr_status = 200, hr_headers = [(''content-length'', ''5''), (''content-type'', ''a/b'')],
     hr_content_length = Some 5, hr_chunks = []\<rparr>"

definition sample_storage_env :: "nat storage_env" where
  "sample_storage_env = \<lparr>se_storage = sample_storage, se_service = (\<lambda>_ n. (Some sample_reply, n + 1)),
     se_icons = sample_icon_env, se_header_value = (\<lambda>_. True), se_year_month = (\<lambda>_. ''2026/01''),
     se_parse_uuid = (\<lambda>_. None), se_session_lifetime = 3600\<rparr>"

definition storage_clock :: storage_clocks where
  "storage_clock = \<lparr>sc_app = (\<lambda>_. secs 100), sc_db = (\<lambda>_. secs 100), sc_unix = 100\<rparr>"

lemmas storage_samples = storage_tables_def icon_sample_def ready_sample_def pending_sample_def sample_category_def

lemma sample_checksum_ok: "sha256_text sample_checksum" "length sample_checksum = 64"
proof -
  have set_checksum: "set sample_checksum = {CHR ''a''}" unfolding sample_checksum_def by (subst set_replicate) simp_all
  show len: "length sample_checksum = 64" unfolding sample_checksum_def by (rule length_replicate)
  show "sha256_text sample_checksum" by (simp add: sha256_text_def set_checksum len lower_hex_def)
qed

lemma storage_tables_ok: "storage_ok storage_tables"
proof (rule storage_okI)
  show "object_db_ok storage_tables"
    by (simp add: object_ok_defs one_open_def storage_samples)
  have "object_row_ok pending_sample" "object_row_ok ready_sample" "object_row_ok icon_sample"
    by (simp_all add: object_row_ok_def storage_samples sample_checksum_ok target_matches_def known_purposes_def
        asset_purpose_def icon_size_def category_icon_max_bytes_def validated_icon_def svg_metadata_def
        category_icon_dimension_def secs_def)
  then show "object_row_ok ob" if "ob \<in> set (objects storage_tables)" for ob
    using that by (auto simp: storage_tables_def)
  show "keys_ok (objects storage_tables)"
    by (simp add: keys_ok_def same_storage_key_def storage_samples)
  show "icons_ok (categories storage_tables) (objects storage_tables)"
    by (simp add: icons_ok_def icon_of_def storage_samples)
qed

section \<open>Requests on them\<close>

definition sample_faults :: completion_faults where
  "sample_faults = \<lparr>cf_transaction = No_Fault, cf_failing = False, cf_meanwhile = (\<lambda>p. p)\<rparr>"

lemma storage_portal_objects [simp]: "pd_objects storage_portal = storage_tables"
  by (simp add: storage_portal_def)

lemma storage_portal_ok: "storage_ok (pd_objects storage_portal)"
  by (simp add: storage_tables_ok)

lemma sample_reads: "reads_agree (pd_objects ((\<lambda>_. storage_portal) 0)) (pd_objects storage_portal)"
  using keeps_reads [OF keeps_objects_refl storage_tables_ok] by simp

lemma sample_deletion: "fst (api_delete_object sample_storage_env storage_clock False (\<lambda>_. storage_portal)
    sample_caller 3 storage_portal) = Inr ()"
  by code_simp

lemma sample_completion: "map obj_status (objects (pd_objects (fst (snd (complete_upload sample_storage_env storage_clock
    sample_faults (\<lambda>_. storage_portal) sample_caller 3 (storage_portal, 0)))))) = [Obj_Ready, Obj_Ready, Obj_Ready]"
  "isl (fst (complete_upload sample_storage_env storage_clock sample_faults (\<lambda>_. storage_portal) sample_caller 3
    (storage_portal, 0))) = False"
  by code_simp+

lemma sample_download:
  "isl (fst (download_grant sample_storage_env storage_clock False storage_portal (Some sample_caller) 5 storage_portal)) = False"
  by code_simp

definition sample_request :: upload_request where
  "sample_request = \<lparr>ur_purpose = ''program'', ur_filename = ''f'', ur_content_type = ''a/b'', ur_size = 5,
     ur_sha256 = sample_checksum, ur_category_id = None, ur_challenge_id = Some 6, ur_page_id = None,
     ur_solution_id = None\<rparr>"

definition sample_upload_plan :: upload_plan where
  "sample_upload_plan = \<lparr>up_purpose = Program_File, up_filename = ''f'', up_content_type = ''a/b'', up_size = 5,
     up_checksum = sample_checksum, up_key = ''n'', up_target = no_target\<lparr>vt_challenge_id := Some 6\<rparr>\<rparr>"

abbreviation sample_upload :: "(status_code \<times> upload_grant) answer \<times> portal_db" where
  "sample_upload \<equiv> initiate_upload sample_storage_env storage_clock 11 False (\<lambda>_. storage_portal) sample_caller
     (Some (Some ''n'')) sample_request storage_portal"

lemma sample_open: "fst (require_full_challenge_access 100 (Some sample_caller) 6 storage_portal) = Inr ()"
  by code_simp

lemma sample_checksum_valid: "validate_sha256 sample_checksum = Inr sample_checksum"
proof -
  have set_checksum: "set sample_checksum = {CHR ''a''}" unfolding sample_checksum_def by (subst set_replicate) simp_all
  have "trim sample_checksum = sample_checksum" by (rule trim_printable) (simp add: set_checksum)
  moreover have "to_ascii_lowercase sample_checksum = sample_checksum"
    unfolding to_ascii_lowercase_def by (rule map_idI) (simp add: set_checksum ascii_lower_def Let_def)
  ultimately show ?thesis by (simp add: validate_sha256_def set_checksum sample_checksum_ok ascii_hexdigit_def digit_def ascii_lower_def Let_def)
qed

lemma sample_planned: "plan_upload sample_storage_env storage_clock (\<lambda>_. storage_portal) sample_caller (Some (Some ''n''))
    sample_request storage_portal = (Inr sample_upload_plan, storage_portal)"
proof -
  have "trim ''program'' = ''program''" "trim ''f'' = ''f''" "trim ''a/b'' = ''a/b''" "trim ''n'' = ''n''"
    by (simp_all add: trim_letters)
  then show ?thesis
    using sample_open
    by (simp add: plan_upload_def sample_request_def sample_upload_plan_def parse_purpose_def purpose_text_def is_asset_def
        safe_filename_def safe_content_type_def validate_upload_policy_def sample_checksum_valid
        required_idempotency_key_def validate_target_def supplied_def challenge_target_def and_then_def Let_def
        sample_storage_env_def sample_storage_def storage_clock_def found_def no_target_def)
qed

lemma sample_initiated:
  "case fst (initiate_body sample_storage_env storage_clock 11 sample_caller sample_upload_plan storage_portal) of
     Inr (Inr ob) \<Rightarrow> \<not> isl (build_upload_grant (se_storage sample_storage_env) (sc_app storage_clock 1) ob) | _ \<Rightarrow> False"
  by code_simp

lemma sample_uploaded:
  obtains g p' where "sample_upload = (Inr (Created_201, g), p')"
proof -
  obtain r q where body: "initiate_body sample_storage_env storage_clock 11 sample_caller sample_upload_plan storage_portal = (r, q)"
    by fastforce
  with sample_initiated obtain ob where ob: "r = Inr (Inr ob)"
    "\<not> isl (build_upload_grant (se_storage sample_storage_env) (sc_app storage_clock 1) ob)"
    by (auto split: sum.splits)
  then obtain g where "build_upload_grant (se_storage sample_storage_env) (sc_app storage_clock 1) ob = Inr g"
    by (auto simp: isl_def split: sum.splits) (metis sum.exhaust)
  with body ob show ?thesis
    by (intro that [of g q]) (simp add: initiate_upload_def sample_planned and_then_def in_transaction_def)
qed

section \<open>The theorems on them\<close>

definition icon_removal :: "object_db \<Rightarrow> object_db" where
  "icon_removal d = pd_objects (snd (delete_category_icon sample_storage_env storage_clock False
     (sample_caller\<lparr>cu_type := ''admin''\<rparr>) 7 9 (storage_portal\<lparr>pd_objects := d\<rparr>)))"

lemma icon_removal_turn: "object_turn sample_storage_env icon_removal"
  unfolding object_turn_def
proof
  fix d
  let ?p = "storage_portal\<lparr>pd_objects := d\<rparr>"
  have "pd_objects ?p = d" by simp
  moreover have "object_request sample_storage_env ?p (snd (delete_category_icon sample_storage_env storage_clock False
      (sample_caller\<lparr>cu_type := ''admin''\<rparr>) 7 9 ?p))"
    by (rule icon_deleted) (rule prod.collapse [symmetric])
  ultimately show "\<exists>p p'. pd_objects p = d \<and> (object_request sample_storage_env)\<^sup>*\<^sup>* p p' \<and> pd_objects p' = icon_removal d"
    unfolding icon_removal_def by blast
qed

theorem storage_plane_stays_ok_witness:
  "storage_ok (db (snd (connected_object_session (\<lambda>_. True) ObjectProperties.sample_limits sample_service sample_config
     ''w'' (\<lambda>_. False) [Some (secs 200)]
     ((sample_object_world Op_Delete)\<lparr>db := storage_tables, turns := [icon_removal]\<rparr>))))"
proof -
  let ?w = "(sample_object_world Op_Delete)\<lparr>db := storage_tables, turns := [icon_removal]\<rparr>"
  have "storage_ok (db ?w)" "\<forall>g \<in> set (turns ?w). object_turn sample_storage_env g"
    by (simp_all add: storage_tables_ok icon_removal_turn)
  from storage_plane_stays_ok [OF this prod.collapse [symmetric]] show ?thesis by blast
qed

theorem current_icon_is_served_witness:
  "\<exists>url. category_icon_grant sample_storage_env storage_clock False 7 9 storage_portal = (Inr url, storage_portal)"
proof -
  have "sample_category \<in> set (categories (pd_objects storage_portal))" "cat_icon sample_category = Some 9"
    by (simp_all add: storage_samples)
  from current_icon_is_served [OF rtranclp.rtrancl_refl storage_portal_ok this, of sample_storage_env storage_clock]
  show ?thesis by (auto simp: sample_category_def)
qed

theorem deletion_is_queued_witness:
  "\<exists>p'. api_delete_object sample_storage_env storage_clock False (\<lambda>_. storage_portal) sample_caller 3 storage_portal = (Inr (), p') \<and>
     open_at 3 Op_Delete (pd_objects p') \<and> open_at 3 Op_Delete_Upload (pd_objects p')"
proof -
  obtain p' where run: "api_delete_object sample_storage_env storage_clock False (\<lambda>_. storage_portal) sample_caller 3 storage_portal = (Inr (), p')"
    using sample_deletion by (metis prod.collapse)
  have "load_object 3 storage_tables = Inr pending_sample" by (simp add: load_object_def found_def storage_samples)
  with deletion_is_queued [OF storage_portal_ok sample_reads run] run show ?thesis
    by (auto simp: pending_sample_def)
qed

theorem ready_object_was_verified_witness:
  "\<exists>view p' s' new. complete_upload sample_storage_env storage_clock sample_faults (\<lambda>_. storage_portal) sample_caller 3
      (storage_portal, 0) = (Inr view, (p', s')) \<and> load_object 3 (pd_objects p') = Inr new \<and>
     obj_status new = Obj_Ready \<and> obj_actual_size new = Some (obj_expected_size new)"
proof -
  obtain view p' s' where run: "complete_upload sample_storage_env storage_clock sample_faults (\<lambda>_. storage_portal) sample_caller 3
      (storage_portal, 0) = (Inr view, (p', s'))"
    using sample_completion(2) by (metis isl_def prod.collapse sum.exhaust)
  have "map obj_status (objects (pd_objects p')) = [Obj_Ready, Obj_Ready, Obj_Ready]"
    using sample_completion(1) unfolding run by simp
  then have "p' \<noteq> storage_portal" by (auto simp: storage_samples)
  from ready_object_was_verified [OF storage_portal_ok sample_reads run this] run show ?thesis by blast
qed

theorem key_names_one_object_witness:
  "\<exists>g p' r. sample_upload = (Inr (Created_201, g), p') \<and>
     initiate_upload sample_storage_env storage_clock 12 False (\<lambda>_. storage_portal) sample_caller
       (Some (Some ''n'')) sample_request p' = (r, p')"
proof -
  obtain g p' where run: "sample_upload = (Inr (Created_201, g), p')" by (rule sample_uploaded)
  from key_names_one_object [OF run storage_portal_ok rtranclp.rtrancl_refl prod.collapse [symmetric],
      of storage_clock 12 False "\<lambda>_. storage_portal" sample_request]
  have "snd (initiate_upload sample_storage_env storage_clock 12 False (\<lambda>_. storage_portal) sample_caller
       (Some (Some ''n'')) sample_request p') = p'" by simp
  with run show ?thesis by (metis prod.collapse)
qed

theorem upload_within_quota_witness:
  "\<exists>g p'. sample_upload = (Inr (Created_201, g), p') \<and> pending_bytes (For_User 4) (pd_objects p') \<le> 100"
proof -
  obtain g p' where run: "sample_upload = (Inr (Created_201, g), p')" by (rule sample_uploaded)
  have "\<not> is_admin sample_caller" by (simp add: sample_gates)
  moreover have "os_max_pending_bytes (se_storage sample_storage_env) < i64_max" "os_max_retained_bytes (se_storage sample_storage_env) < i64_max"
    by (simp_all add: sample_storage_env_def sample_storage_def i64_max_def)
  moreover have "user_mode storage_portal \<noteq> ''teams''" by code_simp
  ultimately show ?thesis
    using upload_within_quota [OF storage_portal_ok _ _ _ run] run
    by (auto simp: sample_caller_def sample_storage_env_def sample_storage_def Let_def)
qed

theorem download_only_when_authorized_witness:
  "\<exists>url. download_grant sample_storage_env storage_clock False storage_portal (Some sample_caller) 5 storage_portal =
     (Inr url, storage_portal)"
proof -
  obtain url p' where run: "download_grant sample_storage_env storage_clock False storage_portal (Some sample_caller) 5 storage_portal = (Inr url, p')"
    using sample_download by (metis isl_def prod.collapse sum.exhaust)
  from download_only_when_authorized [OF run] run show ?thesis by blast
qed

end
