(* ===== verification/Contest.thy ===== *)
theory Contest
  imports ObjectRequests
begin

text \<open>
  The tables of the competition beside those of \<open>ApiBase\<close> (\<open>db/init/002-portal-schema.sql\<close>,
  \<open>005-finalize-install.sql\<close>): awards, unlocks, views, notifications, entries and comments, the history of
  mode changes, and the columns of users and teams that only the scoreboard and the mode change read. Deleting
  a team runs the trigger that schedules the deletion of its objects and the cascades of its foreign keys.
\<close>

section \<open>Rows\<close>

record award_row =
  aw_id :: int
  aw_user_id :: "int option"
  aw_team_id :: "int option"
  aw_value :: "int option"
  aw_date :: "time option"

text \<open>A row that may belong to a team: a notification, an entry of a field, a comment.\<close>

record team_item =
  ti_id :: int
  ti_team_id :: "int option"

text \<open>The columns of a team that only the scoreboard reads.\<close>

record account_details =
  ad_name :: "string option"
  ad_bracket_id :: "int option"

record affected_counts =
  af_participants :: nat
  af_teams :: nat
  af_memberships :: nat
  af_active_runtimes :: nat
  af_generated_flags :: nat
  af_shared_flag_events :: nat
  af_submissions :: nat
  af_solves :: nat
  af_awards :: nat
  af_unlocks :: nat
  af_tracking :: nat
  af_dynamic_challenges :: nat
  af_team_logic_challenges :: nat
  af_team_notifications :: nat
  af_team_field_entries :: nat
  af_team_comments :: nat
  af_team_objects :: nat
  af_user_objects :: nat
  af_sessions :: nat
  af_api_tokens :: nat

record transition_row =
  tr_id :: uuid
  tr_actor_user_id :: int
  tr_source_mode :: string
  tr_target_mode :: string
  tr_affected :: affected_counts

record contest =
  ct_portal :: portal_db
  ct_awards :: "award_row list"
  ct_unlocks :: "int list"
  ct_tracking :: "int list"
  ct_notifications :: "team_item list"
  ct_field_entries :: "team_item list"
  ct_comments :: "team_item list"
  ct_transitions :: "transition_row list option"
  ct_brackets :: "(int \<times> string) list"
  ct_user_brackets :: "int \<Rightarrow> int option"
  ct_team_details :: "int \<Rightarrow> account_details"
  ct_captains :: "int \<Rightarrow> int option"
  ct_sharing_ids :: "int \<Rightarrow> int"
  ct_participant_tokens :: "int \<Rightarrow> string option"

definition on_portal :: "(portal_db \<Rightarrow> portal_db) \<Rightarrow> contest \<Rightarrow> contest" where
  "on_portal f c = c\<lparr>ct_portal := f (ct_portal c)\<rparr>"

section \<open>Objects whose parent is deleted\<close>

text \<open>Closing an object's open operations for a reason, and opening its removal.\<close>

definition close_operations :: "time \<Rightarrow> uuid set \<Rightarrow> string \<Rightarrow> object_db \<Rightarrow> object_db" where
  "close_operations now ids reason d =
     d\<lparr>operations := update_where (\<lambda>r. row_object_id r \<in> ids \<and> open_status (row_status r))
         (\<lambda>r. r\<lparr>row_status := Cancelled, row_completed_at := Some (coalesce (row_completed_at r) now),
            row_last_error := Some (coalesce (row_last_error r) reason)\<rparr>) (operations d)\<rparr>"

definition open_removal :: "time \<Rightarrow> stored_object \<Rightarrow> object_db \<Rightarrow> object_db" where
  "open_removal now ob d =
     enqueue_operation now (obj_id ob) Op_Delete (obj_revision ob) now
      (enqueue_operation now (obj_id ob) Op_Delete_Upload (obj_revision ob) (obj_upload_expires_at ob + secs 5) d)"

text \<open>The body of the trigger's loop, for an object that it has locked.\<close>

definition status_text :: "object_status \<Rightarrow> string" where
  "status_text s = (case s of Obj_Pending \<Rightarrow> ''pending'' | Obj_Ready \<Rightarrow> ''ready'' | Obj_Quarantined \<Rightarrow> ''quarantined''
     | Obj_Deleting \<Rightarrow> ''deleting'' | Obj_Deleted \<Rightarrow> ''deleted'' | Obj_Failed \<Rightarrow> ''failed'')"

definition schedule_linked :: "time \<Rightarrow> string \<Rightarrow> int \<Rightarrow> stored_object \<Rightarrow> object_db \<Rightarrow> object_db" where
  "schedule_linked now parent_kind parent ob d =
     (let changed = obj_status ob \<notin> {Obj_Deleting, Obj_Deleted};
          marked = ob\<lparr>obj_status := Obj_Deleting, obj_revision := obj_revision ob + 1\<rparr>;
          effective = (if changed then marked else ob);
          d = (if changed
               then open_removal now marked
                (close_operations now {obj_id ob} (parent_kind @ '' '' @ show_int parent @ '' was deleted'')
                 (d\<lparr>objects := update_where (\<lambda>r. obj_id r = obj_id ob \<and> obj_revision r = obj_revision ob)
                    (\<lambda>r. r\<lparr>obj_status := Obj_Deleting, obj_revision := obj_revision r + 1\<rparr>) (objects d)\<rparr>))
               else d) in
      d\<lparr>object_events := object_events d @ [\<lparr>oev_object_id = obj_id ob, oev_event_type = ''parent_delete_requested'',
          oev_source = ''database_trigger'', oev_actor_user_id = None,
          oev_details = JObj [(''parent_type'', JStr parent_kind), (''parent_id'', JInt parent),
            (''previous_status'', JStr (status_text (obj_status ob))), (''object_revision'', JInt (obj_revision effective)),
            (''lifecycle_changed'', JBool changed)]\<rparr>]\<rparr>)"

definition objects_of_team :: "int \<Rightarrow> object_db \<Rightarrow> stored_object list" where
  "objects_of_team t d =
     sort_key obj_id (filter (\<lambda>ob. obj_owner_team_id ob = Some t \<and> obj_scope ob = ''team'') (objects d))"

definition team_deleted :: "time \<Rightarrow> int \<Rightarrow> object_db \<Rightarrow> object_db" where
  "team_deleted now t d = fold (schedule_linked now ''team'' t) (objects_of_team t d) d"

definition of_team :: "portal_db \<Rightarrow> int option \<Rightarrow> bool" where
  "of_team p t \<longleftrightarrow> (case t of None \<Rightarrow> False | Some i \<Rightarrow> i \<in> tm_id ` set (pd_teams p))"

text \<open>\<open>DELETE FROM ctfzone.teams\<close>: a user or a notification that still refers to a team forbids it. The trigger
  runs for every team, then the rows that refer to a team follow their foreign keys. (The unlocks of a team would
  go too; here they are rows without their columns, and there are none when the statement runs.)\<close>

definition delete_all_teams :: "time \<Rightarrow> contest \<Rightarrow> unit answer \<times> contest" where
  "delete_all_teams now c =
     (let p = ct_portal c; teams = map tm_id (pd_teams p);
          gone = of_team p;
          d = fold (team_deleted now) teams (pd_objects p);
          d = d\<lparr>objects := update_where (\<lambda>r. gone (obj_owner_team_id r)) (\<lambda>r. r\<lparr>obj_owner_team_id := None\<rparr>) (objects d)\<rparr> in
      if (\<exists>u \<in> set (pd_users p). gone (usr_team_id u)) \<or> (\<exists>n \<in> set (ct_notifications c). gone (ti_team_id n))
      then (Inl database_error, c)
      else (Inr (), c\<lparr>ct_portal := p\<lparr>pd_teams := [], pd_objects := d,
          pd_submissions := filter (\<lambda>s. \<not> gone (sub_team_id s)) (pd_submissions p),
          pd_solves := filter (\<lambda>s. \<not> gone (slv_team_id s)) (pd_solves p)\<rparr>,
        ct_awards := filter (\<lambda>a. \<not> gone (aw_team_id a)) (ct_awards c),
        ct_field_entries := filter (\<lambda>r. \<not> gone (ti_team_id r)) (ct_field_entries c),
        ct_comments := filter (\<lambda>r. \<not> gone (ti_team_id r)) (ct_comments c)\<rparr>))"

end
