(* ===== verification/UserModeTransition.thy ===== *)
theory UserModeTransition
  imports Contest
begin

text \<open>
  The change of the competition mode (\<open>services/api/src/routes/user_mode_transition.rs\<close>): a preview
  counts what will be lost and signs what it saw; the change itself is one transaction that only runs when the
  signed preview still describes the tables. What is not under \<open>src\<close> is in \<open>transition_env\<close>: HMAC-SHA256 and
  SHA-256, the base64url codec, the JSON form of the claims and the hash function of the database.
\<close>

section \<open>Claims and their token\<close>

record preview_claims =
  pc_version :: int
  pc_actor_user_id :: int
  pc_source_mode :: string
  pc_target_mode :: string
  pc_affected :: affected_counts
  pc_snapshot :: affected_counts
  pc_fingerprint :: string
  pc_issued_at :: int
  pc_expires_at :: int

record transition_env =
  te_secret :: string
  te_session_lifetime :: int
  te_hmac :: "string \<Rightarrow> string \<Rightarrow> string"
  te_encode :: "string \<Rightarrow> string"
  te_decode :: "string \<Rightarrow> string option"
  te_claims_json :: "preview_claims \<Rightarrow> string"
  te_parse_claims :: "string \<Rightarrow> preview_claims option"
  te_row_hash :: "int \<Rightarrow> json list \<Rightarrow> 64 word"
  te_digest :: "string \<Rightarrow> string"

definition preview_token_context :: string where
  "preview_token_context = ''ctfzone/user-mode-transition-preview/v1''"

definition preview_token_max_length :: nat where
  "preview_token_max_length = 16384"

definition preview_token_ttl :: int where
  "preview_token_ttl = 5 * 60"

definition invalid_preview_token :: api_error where
  "invalid_preview_token = bad_request ''The transition preview token is invalid or expired''"

definition token_mac :: "transition_env \<Rightarrow> string \<Rightarrow> string" where
  "token_mac env payload = te_hmac env (te_secret env) (preview_token_context @ ''.'' @ payload)"

definition sign_preview_token :: "transition_env \<Rightarrow> preview_claims \<Rightarrow> string" where
  "sign_preview_token env claims =
     (let payload = te_encode env (te_claims_json env claims) in
      payload @ ''.'' @ te_encode env (token_mac env payload))"

text \<open>\<open>str::split\<close> at a character.\<close>

fun split_at_char :: "char \<Rightarrow> string \<Rightarrow> string list" where
  "split_at_char c [] = [[]]"
| "split_at_char c (x # xs) =
     (if x = c then [] # split_at_char c xs
      else case split_at_char c xs of [] \<Rightarrow> [[x]] | w # ws \<Rightarrow> (x # w) # ws)"

definition hex_digit_char :: "char \<Rightarrow> bool" where
  "hex_digit_char c \<longleftrightarrow> (let n = (of_char c :: nat) in
     48 \<le> n \<and> n \<le> 57 \<or> 65 \<le> n \<and> n \<le> 70 \<or> 97 \<le> n \<and> n \<le> 102)"

definition competition_mode :: "string \<Rightarrow> bool" where
  "competition_mode m \<longleftrightarrow> m \<in> {''users'', ''teams''}"

definition claims_acceptable :: "int \<Rightarrow> preview_claims \<Rightarrow> bool" where
  "claims_acceptable now pc \<longleftrightarrow>
     \<not> (pc_version pc \<noteq> 1 \<or> \<not> competition_mode (pc_source_mode pc) \<or> \<not> competition_mode (pc_target_mode pc) \<or>
        pc_source_mode pc = pc_target_mode pc \<or> length (pc_fingerprint pc) \<noteq> 64 \<or>
        \<not> list_all hex_digit_char (pc_fingerprint pc) \<or> pc_issued_at pc > now + 30 \<or> pc_expires_at pc \<le> now \<or>
        pc_expires_at pc \<le> pc_issued_at pc \<or> pc_expires_at pc - pc_issued_at pc > preview_token_ttl)"

definition decode_canonical :: "transition_env \<Rightarrow> string \<Rightarrow> string answer" where
  "decode_canonical env segment =
     (case te_decode env segment of
        None \<Rightarrow> Inl invalid_preview_token
      | Some bytes \<Rightarrow> if te_encode env bytes \<noteq> segment then Inl invalid_preview_token else Inr bytes)"

definition verify_preview_token :: "transition_env \<Rightarrow> int \<Rightarrow> string \<Rightarrow> preview_claims answer" where
  "verify_preview_token env now token =
     (let token = trim token in
      if token = [] \<or> length token > preview_token_max_length then Inl invalid_preview_token
      else case split_at_char CHR ''.'' token of
        [payload, signature] \<Rightarrow>
          (case decode_canonical env payload of
             Inl e \<Rightarrow> Inl e
           | Inr payload_bytes \<Rightarrow>
               (case decode_canonical env signature of
                  Inl e \<Rightarrow> Inl e
                | Inr signature_bytes \<Rightarrow>
                    if token_mac env payload \<noteq> signature_bytes then Inl invalid_preview_token
                    else case te_parse_claims env payload_bytes of
                      None \<Rightarrow> Inl invalid_preview_token
                    | Some claims \<Rightarrow>
                        if claims_acceptable now claims then Inr claims else Inl invalid_preview_token))
      | _ \<Rightarrow> Inl invalid_preview_token)"

section \<open>Modes\<close>

definition parse_mode :: "string \<Rightarrow> string answer" where
  "parse_mode v =
     (let m = to_ascii_lowercase (trim v) in
      if m = ''users'' then Inr ''users'' else if m = ''teams'' then Inr ''teams''
      else Inl (bad_request ''Target mode must be either users or teams''))"

definition ascii_upper :: "char \<Rightarrow> char" where
  "ascii_upper c = (let n = (of_char c :: nat) in if 97 \<le> n \<and> n \<le> 122 then char_of (n - 32) else c)"

definition confirmation_phrase :: "string \<Rightarrow> string" where
  "confirmation_phrase target = ''SWITCH TO '' @ map ascii_upper target"

definition mode_label :: "string \<Rightarrow> string" where
  "mode_label m = (if m = ''teams'' then ''Team'' else ''User'')"

section \<open>The snapshot\<close>

record snapshot_row =
  sn_source_mode :: string
  sn_affected :: affected_counts
  sn_audit_ready :: bool
  sn_fingerprint :: string

definition participant :: "user_row \<Rightarrow> bool" where
  "participant u \<longleftrightarrow> coalesce (usr_type u) ''user'' \<noteq> ''admin''"

text \<open>A join with \<open>users\<close> on an identifier that may be null, for accounts that are not administrators.\<close>

definition of_participant :: "int option \<Rightarrow> portal_db \<Rightarrow> bool" where
  "of_participant i p \<longleftrightarrow> (\<exists>u \<in> set (pd_users p). i = Some (usr_id u) \<and> participant u)"

definition competition_object :: "portal_db \<Rightarrow> stored_object \<Rightarrow> bool" where
  "competition_object p ob \<longleftrightarrow> of_participant (obj_owner_user_id ob) p \<and> obj_scope ob = ''user'' \<and>
     obj_purpose ob \<in> {''submission'', ''patch'', ''program'', ''pcap'', ''result''}"

text \<open>PostgreSQL's \<open>TRIM\<close> removes spaces.\<close>

definition sql_trim :: "string \<Rightarrow> string" where
  "sql_trim s = List.rev (dropWhile (\<lambda>c. c = CHR '' '') (List.rev (dropWhile (\<lambda>c. c = CHR '' '') s)))"

definition stored_mode :: "portal_db \<Rightarrow> string" where
  "stored_mode p =
     (case map_option sql_trim (config_string ''user_mode'' p) of
        None \<Rightarrow> ''users'' | Some v \<Rightarrow> if v = [] then ''users'' else v)"

definition affected_by :: "contest \<Rightarrow> affected_counts" where
  "affected_by c =
     (let p = ct_portal c in
      \<lparr>af_participants = length (filter participant (pd_users p)),
       af_teams = length (pd_teams p),
       af_memberships = length (filter (\<lambda>u. usr_team_id u \<noteq> None) (pd_users p)),
       af_active_runtimes = length (filter ins_active (rt_instances (pd_runtime p))),
       af_generated_flags = length (pd_user_flags p),
       af_shared_flag_events = length (pd_sharing p),
       af_submissions = length (pd_submissions p),
       af_solves = length (pd_solves p),
       af_awards = length (ct_awards c),
       af_unlocks = length (ct_unlocks c),
       af_tracking = length (ct_tracking c),
       af_dynamic_challenges = length (filter (\<lambda>h. ch_type h = Some ''dynamic'') (pd_challenges p)),
       af_team_logic_challenges = length (filter (\<lambda>h. ch_logic h = ''team'') (pd_challenges p)),
       af_team_notifications = length (filter (\<lambda>r. ti_team_id r \<noteq> None) (ct_notifications c)),
       af_team_field_entries = length (filter (\<lambda>r. ti_team_id r \<noteq> None) (ct_field_entries c)),
       af_team_comments = length (filter (\<lambda>r. ti_team_id r \<noteq> None) (ct_comments c)),
       af_team_objects = length (filter (\<lambda>ob. obj_owner_team_id ob \<noteq> None) (objects (pd_objects p))),
       af_user_objects = length (filter (competition_object p) (objects (pd_objects p))),
       af_sessions = length (filter (\<lambda>s. ses_revoked_at s = None \<and> of_participant (Some (ses_user_id s)) p) (pd_sessions p)),
       af_api_tokens = length (filter (\<lambda>t. of_participant (tok_user_id t) p) (pd_tokens p))\<rparr>)"

text \<open>One part of the fingerprint: the number of rows and the exclusive or of the hashes of their columns.\<close>

definition rows_mark :: "transition_env \<Rightarrow> int \<Rightarrow> json list list \<Rightarrow> string" where
  "rows_mark env seed rows =
     show_nat (length rows) @ '':'' @ show_int (sint (fold (\<lambda>r h. xor h (te_row_hash env seed r)) rows 0))"

definition json_id :: "int option \<Rightarrow> json" where
  "json_id = json_opt JInt"

definition scoring_columns :: "scoring option \<Rightarrow> json list" where
  "scoring_columns s = (case s of None \<Rightarrow> [JNull, JNull, JNull, JNull]
     | Some v \<Rightarrow> [json_id (sc_initial v), json_id (sc_minimum v), json_id (sc_decay v), json_opt JStr (sc_function v)])"

definition team_items_mark :: "transition_env \<Rightarrow> int \<Rightarrow> team_item list \<Rightarrow> string" where
  "team_items_mark env seed rows = rows_mark env seed
     (map (\<lambda>r. [JInt (ti_id r), json_id (ti_team_id r)]) (filter (\<lambda>r. ti_team_id r \<noteq> None) rows))"

definition ids_mark :: "transition_env \<Rightarrow> int \<Rightarrow> int list \<Rightarrow> string" where
  "ids_mark env seed ids = rows_mark env seed (map (\<lambda>i. [JInt i]) ids)"

definition desired_text :: "desired_state \<Rightarrow> string" where
  "desired_text s = (case s of Want_Running \<Rightarrow> ''running'' | Want_Stopped \<Rightarrow> ''stopped'')"

definition observed_text :: "observed_state \<Rightarrow> string" where
  "observed_text s =
     (case s of Obs_Requested \<Rightarrow> ''requested'' | Obs_Starting \<Rightarrow> ''starting'' | Obs_Ready \<Rightarrow> ''ready''
      | Obs_Stopping \<Rightarrow> ''stopping'' | Obs_Cleanup_Pending \<Rightarrow> ''cleanup_pending'' | Obs_Terminated \<Rightarrow> ''terminated''
      | Obs_Expired \<Rightarrow> ''expired'' | Obs_Failed \<Rightarrow> ''failed'' | Obs_Unknown \<Rightarrow> ''unknown'')"

definition snapshot_marks :: "transition_env \<Rightarrow> contest \<Rightarrow> string list" where
  "snapshot_marks env c =
     (let p = ct_portal c in
      [rows_mark env 101 (map (\<lambda>u. [JInt (usr_id u), JStr (coalesce (usr_type u) []), json_id (usr_team_id u)]) (pd_users p)),
       rows_mark env 103 (map (\<lambda>t. [JInt (tm_id t), json_id (ct_captains c (tm_id t))]) (pd_teams p)),
       rows_mark env 105 (map (\<lambda>i. [json_uuid (ins_id i), JInt (ins_generation i),
           JStr (desired_text (ins_desired_state i)), JStr (observed_text (ins_observed_state i))])
         (filter ins_active (rt_instances (pd_runtime p)))),
       rows_mark env 106 (map (\<lambda>f. [JInt (uf_flag_id f), JInt (uf_challenge_id f), JInt (uf_user_id f),
           JInt (uf_revision f), JStr (uf_match_tag f), json_opt json_uuid (uf_random_token f), json_id (uf_leet_mask f)])
         (pd_user_flags p)),
       rows_mark env 108 (map (\<lambda>e. [JInt (ct_sharing_ids c (she_submission_id e)), JInt (she_submission_id e),
           JInt (she_challenge_id e), JInt (she_flag_id e), JInt (she_submitting_user_id e),
           JInt (she_source_user_id e), json_id (she_team_id e), JBool (she_accepted e)]) (pd_sharing p)),
       ids_mark env 107 (map sub_id (pd_submissions p)),
       ids_mark env 109 (map slv_id (pd_solves p)),
       ids_mark env 113 (map aw_id (ct_awards c)),
       ids_mark env 127 (ct_unlocks c),
       ids_mark env 131 (ct_tracking c),
       rows_mark env 137 (map (\<lambda>h. [JInt (ch_id h), json_opt JStr (ch_type h), JStr (ch_logic h), json_id (ch_value h),
           json_id (sc_initial (ch_scoring h))] @ scoring_columns (ch_dynamic h))
         (filter (\<lambda>h. ch_type h = Some ''dynamic'' \<or> ch_logic h = ''team'') (pd_challenges p))),
       team_items_mark env 139 (ct_notifications c),
       team_items_mark env 149 (ct_field_entries c),
       team_items_mark env 151 (ct_comments c),
       rows_mark env 157 (map (\<lambda>ob. [json_uuid (obj_id ob), json_id (obj_owner_team_id ob)])
         (filter (\<lambda>ob. obj_owner_team_id ob \<noteq> None) (objects (pd_objects p)))),
       rows_mark env 159 (map (\<lambda>ob. [json_uuid (obj_id ob), json_id (obj_owner_user_id ob), JStr (obj_purpose ob)])
         (filter (competition_object p) (objects (pd_objects p)))),
       rows_mark env 163 (map (\<lambda>s. [JStr (ses_id s), JInt (ses_user_id s)])
         (filter (\<lambda>s. ses_revoked_at s = None \<and> of_participant (Some (ses_user_id s)) p) (pd_sessions p))),
       rows_mark env 167 (map (\<lambda>t. [JInt (tok_id t), json_id (tok_user_id t)])
         (filter (\<lambda>t. of_participant (tok_user_id t) p) (pd_tokens p)))])"

fun join_bars :: "string list \<Rightarrow> string" where
  "join_bars [] = []"
| "join_bars [x] = x"
| "join_bars (x # xs) = x @ ''|'' @ join_bars xs"

text \<open>\<open>ct_transitions\<close> is \<open>None\<close> when the table of the history is missing.\<close>

definition audit_marker :: "transition_env \<Rightarrow> contest \<Rightarrow> string" where
  "audit_marker env c = (case ct_transitions c of None \<Rightarrow> ''missing'' | Some ts \<Rightarrow> rows_mark env 179 (map (\<lambda>t. [json_uuid (tr_id t)]) ts))"

definition load_snapshot :: "transition_env \<Rightarrow> contest \<Rightarrow> snapshot_row" where
  "load_snapshot env c =
     \<lparr>sn_source_mode = stored_mode (ct_portal c), sn_affected = affected_by c,
      sn_audit_ready = ct_transitions c \<noteq> None,
      sn_fingerprint = te_digest env (join_bars (snapshot_marks env c) @ ''|audit:'' @ audit_marker env c)\<rparr>"

section \<open>The preview\<close>

record consequence =
  co_code :: string
  co_message :: string
  co_count :: nat

definition consequences :: "snapshot_row \<Rightarrow> string \<Rightarrow> consequence list \<times> consequence list" where
  "consequences s target =
     ((if \<not> competition_mode (sn_source_mode s)
       then [\<lparr>co_code = ''invalid_source_mode'', co_message = ''The stored competition mode ('' @ sn_source_mode s
               @ '') is invalid'', co_count = 1\<rparr>]
       else if sn_source_mode s = target
       then [\<lparr>co_code = ''already_active'', co_message = mode_label target @ '' mode is already active'', co_count = 1\<rparr>]
       else []) @
      (if \<not> sn_audit_ready s
       then [\<lparr>co_code = ''transition_schema_unavailable'',
              co_message = ''The user-mode transition audit schema is unavailable'', co_count = 1\<rparr>] else []) @
      (if af_active_runtimes (sn_affected s) \<noteq> 0
       then [\<lparr>co_code = ''active_runtimes'',
              co_message = ''Terminate every active challenge runtime before continuing'',
              co_count = af_active_runtimes (sn_affected s)\<rparr>] else []),
      (if target = ''users'' \<and> af_team_logic_challenges (sn_affected s) \<noteq> 0
       then [\<lparr>co_code = ''team_logic_challenges'',
              co_message = ''Review challenges with team-specific solve logic after this transition'',
              co_count = af_team_logic_challenges (sn_affected s)\<rparr>] else []))"

record preview_data =
  pv_source_mode :: string
  pv_target_mode :: string
  pv_confirmation_phrase :: string
  pv_preview_token :: "string option"
  pv_expires_at :: "int option"
  pv_blocked :: bool
  pv_blockers :: "consequence list"
  pv_warnings :: "consequence list"
  pv_affected :: affected_counts

text \<open>How the database or the time budget can fail a request; \<open>Commit_Unknown\<close> is a commit whose answer is lost.\<close>

datatype transition_fault = Pool_Fault | Statement_Fault "string option" | Budget_Exceeded | Commit_Unknown

definition map_transition_database_error :: "string option \<Rightarrow> api_error" where
  "map_transition_database_error code =
     (if code = Some ''55P03''
      then conflict ''The transition could not obtain an exclusive database window; retry the preview''
      else if code = Some ''57014''
      then service_unavailable ''The transition exceeded its database statement window; refresh before retrying''
      else database_error)"

definition preview_claims_for :: "int \<Rightarrow> current_user \<Rightarrow> string \<Rightarrow> snapshot_row \<Rightarrow> preview_claims" where
  "preview_claims_for now u target s =
     \<lparr>pc_version = 1, pc_actor_user_id = cu_id u, pc_source_mode = sn_source_mode s, pc_target_mode = target,
      pc_affected = sn_affected s, pc_snapshot = sn_affected s, pc_fingerprint = sn_fingerprint s,
      pc_issued_at = now, pc_expires_at = now + preview_token_ttl\<rparr>"

definition preview ::
  "transition_env \<Rightarrow> int \<Rightarrow> transition_fault option \<Rightarrow> current_user \<Rightarrow> string \<Rightarrow> contest \<Rightarrow> preview_data answer \<times> contest" where
  "preview env now fault u query c =
     and_then (require_admin u c) (\<lambda>_ c.
     and_then (parse_mode query, c) (\<lambda>target c.
     and_then (case fault of
          None \<Rightarrow> (Inr (load_snapshot env c), c)
        | Some Budget_Exceeded \<Rightarrow>
            (Inl (service_unavailable ''The transition preview exceeded its safe time window; retry the preview''), c)
        | Some (Statement_Fault code) \<Rightarrow> (Inl (map_transition_database_error code), c)
        | Some _ \<Rightarrow> (Inl database_error, c)) (\<lambda>s c.
     (let (blockers, warnings) = consequences s target; blocked = blockers \<noteq> [] in
      (Inr \<lparr>pv_source_mode = sn_source_mode s, pv_target_mode = target,
         pv_confirmation_phrase = confirmation_phrase target,
         pv_preview_token = (if blocked then None else Some (sign_preview_token env (preview_claims_for now u target s))),
         pv_expires_at = (if blocked then None else Some (now + preview_token_ttl)),
         pv_blocked = blocked, pv_blockers = blockers, pv_warnings = warnings, pv_affected = sn_affected s\<rparr>, c)))))"

section \<open>The change\<close>

definition revoke_participant_sessions :: "time \<Rightarrow> portal_db \<Rightarrow> nat \<times> portal_db" where
  "revoke_participant_sessions now p =
     (let live = (\<lambda>s. of_participant (Some (ses_user_id s)) p \<and> ses_revoked_at s = None) in
      (rows_affected live (pd_sessions p),
       p\<lparr>pd_sessions := update_where live (\<lambda>s. s\<lparr>ses_revoked_at := Some now\<rparr>) (pd_sessions p)\<rparr>))"

definition revoke_participant_api_tokens :: "portal_db \<Rightarrow> nat \<times> portal_db" where
  "revoke_participant_api_tokens p =
     (let gone = (\<lambda>t. of_participant (tok_user_id t) p) in
      (rows_affected gone (pd_tokens p), p\<lparr>pd_tokens := filter (\<lambda>t. \<not> gone t) (pd_tokens p)\<rparr>))"

text \<open>\<open>fresh i\<close> is the identifier that \<open>gen_random_uuid\<close> returns for the row of user \<open>i\<close>.\<close>

definition rotate_participant_credentials :: "(int \<Rightarrow> uuid) \<Rightarrow> contest \<Rightarrow> nat \<times> contest" where
  "rotate_participant_credentials fresh c =
     (let ps = filter participant (pd_users (ct_portal c)) in
      (length ps, c\<lparr>ct_participant_tokens := (\<lambda>i. if i \<in> set (map usr_id ps) then Some (uuid_text (fresh i))
          else ct_participant_tokens c i)\<rparr>))"

definition schedule_user_competition_object_deletion ::
  "time \<Rightarrow> int \<Rightarrow> string \<Rightarrow> string \<Rightarrow> portal_db \<Rightarrow> portal_db" where
  "schedule_user_competition_object_deletion now actor source target p =
     (let d = pd_objects p;
          changed = filter (\<lambda>ob. competition_object p ob \<and> obj_status ob \<notin> {Obj_Deleting, Obj_Deleted})
            (sort_key obj_id (objects d));
          ids = set (map obj_id changed);
          mark = (\<lambda>ob. ob\<lparr>obj_status := Obj_Deleting, obj_revision := obj_revision ob + 1\<rparr>) in
      if changed = [] then p
      else p\<lparr>pd_objects :=
        (let d = close_operations now ids ''competition mode changed''
               (d\<lparr>objects := update_where (\<lambda>ob. obj_id ob \<in> ids) mark (objects d)\<rparr>);
             d = fold (open_removal now) (map mark changed) d in
         d\<lparr>object_events := object_events d @ map (\<lambda>ob. \<lparr>oev_object_id = obj_id ob,
            oev_event_type = ''mode_transition_delete_requested'', oev_source = ''api'',
            oev_actor_user_id = Some actor,
            oev_details = JObj [(''source_mode'', JStr source), (''target_mode'', JStr target)]\<rparr>) changed\<rparr>)\<rparr>)"

definition initial_value :: "challenge_row \<Rightarrow> int option" where
  "initial_value h =
     (case Option.bind (ch_dynamic h) sc_initial of
        Some v \<Rightarrow> Some v
      | None \<Rightarrow> (case sc_initial (ch_scoring h) of Some v \<Rightarrow> Some v | None \<Rightarrow> ch_value h))"

definition clear_competition_state :: "contest \<Rightarrow> contest" where
  "clear_competition_state c =
     (let p = ct_portal c in
      c\<lparr>ct_awards := [], ct_unlocks := [], ct_tracking := [],
        ct_portal := p\<lparr>pd_sharing := [], pd_user_flags := [], pd_submissions := [],
          pd_solves := filter (\<lambda>s. \<forall>r \<in> set (pd_submissions p). sub_id r \<noteq> slv_id s) (pd_solves p),
          pd_challenges := update_where (\<lambda>h. ch_type h = Some ''dynamic'')
            (\<lambda>h. h\<lparr>ch_value := initial_value h\<rparr>) (pd_challenges p)\<rparr>\<rparr>)"

definition remove_teams :: "time \<Rightarrow> contest \<Rightarrow> unit answer \<times> contest" where
  "remove_teams now c =
     delete_all_teams now
       (on_portal (\<lambda>p. p\<lparr>pd_users := update_where (\<lambda>u. usr_team_id u \<noteq> None) (\<lambda>u. u\<lparr>usr_team_id := None\<rparr>) (pd_users p)\<rparr>)
         (c\<lparr>ct_notifications := filter (\<lambda>n. ti_team_id n = None) (ct_notifications c)\<rparr>))"

definition set_user_mode :: "string \<Rightarrow> portal_db \<Rightarrow> portal_db" where
  "set_user_mode target p =
     p\<lparr>pd_config := (if list_ex (\<lambda>(k, _). k = ''user_mode'') (pd_config p)
        then map (\<lambda>(k, v). if k = ''user_mode'' then (k, Some target) else (k, v)) (pd_config p)
        else pd_config p @ [(''user_mode'', Some target)])\<rparr>"

text \<open>The checks on the table are that both modes are known and differ.\<close>

definition insert_audit_event ::
  "uuid \<Rightarrow> int \<Rightarrow> string \<Rightarrow> string \<Rightarrow> affected_counts \<Rightarrow> contest \<Rightarrow> unit answer \<times> contest" where
  "insert_audit_event i actor source target affected c =
     (case ct_transitions c of
        None \<Rightarrow> (Inl database_error, c)
      | Some ts \<Rightarrow>
          if competition_mode source \<and> competition_mode target \<and> source \<noteq> target
          then (Inr (), c\<lparr>ct_transitions := Some (ts @ [\<lparr>tr_id = i, tr_actor_user_id = actor,
            tr_source_mode = source, tr_target_mode = target, tr_affected = affected\<rparr>])\<rparr>)
          else (Inl database_error, c))"

record transition_data =
  td_source_mode :: string
  td_target_mode :: string
  td_affected :: affected_counts
  td_sessions_revoked :: nat
  td_api_tokens_revoked :: nat
  td_participant_credentials_rotated :: nat

text \<open>The clock and the identifiers that a request meets: \<open>tk_verify\<close> and \<open>tk_prepare\<close> in seconds of the Unix
  epoch, \<open>tk_db\<close> the time of the transaction.\<close>

record transition_clock =
  tk_verify :: int
  tk_prepare :: int
  tk_db :: time
  tk_fresh :: "int \<Rightarrow> uuid"
  tk_audit_id :: uuid

definition in_portal :: "(portal_db \<Rightarrow> 'a answer \<times> portal_db) \<Rightarrow> contest \<Rightarrow> 'a answer \<times> contest" where
  "in_portal f c = (case f (ct_portal c) of (r, p) \<Rightarrow> (r, c\<lparr>ct_portal := p\<rparr>))"

definition counting :: "(portal_db \<Rightarrow> nat \<times> portal_db) \<Rightarrow> contest \<Rightarrow> nat answer \<times> contest" where
  "counting f = in_portal (\<lambda>p. case f p of (n, p) \<Rightarrow> (Inr n, p))"

definition confirm_snapshot :: "snapshot_row \<Rightarrow> string \<Rightarrow> preview_claims \<Rightarrow> unit answer" where
  "confirm_snapshot s target pc =
     (if af_active_runtimes (sn_affected s) \<noteq> 0
      then Inl (conflict ''Terminate every active challenge runtime before changing competition mode'')
      else if sn_source_mode s = target
      then Inl (conflict ''The requested competition mode is already active'')
      else if sn_source_mode s \<noteq> pc_source_mode pc \<or> sn_affected s \<noteq> pc_affected pc \<or>
          sn_affected s \<noteq> pc_snapshot pc \<or> sn_fingerprint s \<noteq> pc_fingerprint pc
      then Inl (conflict ''Competition data changed after the preview; review the transition again'')
      else Inr ())"

definition prepare_transition ::
  "transition_env \<Rightarrow> transition_clock \<Rightarrow> current_user \<Rightarrow> string \<Rightarrow> preview_claims \<Rightarrow> contest
   \<Rightarrow> transition_data answer \<times> contest" where
  "prepare_transition env tk u target pc c =
     and_then (in_portal (revalidate_current_credential (tk_db tk) (te_session_lifetime env) u) c) (\<lambda>_ c.
     and_then (require (ct_transitions c \<noteq> None)
         (service_unavailable ''The user-mode transition audit schema is unavailable'') c) (\<lambda>_ c.
     and_then (require (\<not> pc_expires_at pc \<le> tk_prepare tk) invalid_preview_token c) (\<lambda>_ c.
     (let s = load_snapshot env c in
      and_then (confirm_snapshot s target pc, c) (\<lambda>_ c.
      and_then (counting (revoke_participant_sessions (tk_db tk)) c) (\<lambda>sessions c.
      and_then (counting revoke_participant_api_tokens c) (\<lambda>tokens c.
      (let (rotated, c) = rotate_participant_credentials (tk_fresh tk) c;
           c = on_portal (schedule_user_competition_object_deletion (tk_db tk) (cu_id u) (sn_source_mode s) target) c in
       and_then (remove_teams (tk_db tk) (clear_competition_state c)) (\<lambda>_ c.
       and_then (insert_audit_event (tk_audit_id tk) (cu_id u) (sn_source_mode s) target (sn_affected s)
           (on_portal (set_user_mode target) c)) (\<lambda>_ c.
       (Inr \<lparr>td_source_mode = sn_source_mode s, td_target_mode = target, td_affected = sn_affected s,
          td_sessions_revoked = sessions, td_api_tokens_revoked = tokens,
          td_participant_credentials_rotated = rotated\<rparr>, c)))))))))))"

text \<open>A fault before the commit drops the transaction; after \<open>Commit_Unknown\<close> the change is there although
  the answer is an error.\<close>

definition transition_transaction ::
  "transition_fault option \<Rightarrow> (contest \<Rightarrow> 'a answer \<times> contest) \<Rightarrow> contest \<Rightarrow> 'a answer \<times> contest" where
  "transition_transaction fault body c =
     (case fault of
        Some Budget_Exceeded \<Rightarrow> (Inl (service_unavailable
          ''The transition exceeded its safe pre-commit window; no mode change was committed''), c)
      | Some (Statement_Fault code) \<Rightarrow> (Inl (map_transition_database_error code), c)
      | Some Pool_Fault \<Rightarrow> (Inl database_error, c)
      | _ \<Rightarrow> (case body c of
          (Inl e, _) \<Rightarrow> (Inl e, c)
        | (Inr x, c') \<Rightarrow> (if fault = None then Inr x else Inl database_error, c')))"

record transition_request =
  rq_target_mode :: string
  rq_confirmation :: string
  rq_preview_token :: string

definition execute ::
  "transition_env \<Rightarrow> transition_clock \<Rightarrow> transition_fault option \<Rightarrow> current_user \<Rightarrow> transition_request \<Rightarrow> contest
   \<Rightarrow> transition_data answer \<times> contest" where
  "execute env tk fault u request c =
     and_then (require_admin u c) (\<lambda>_ c.
     and_then (parse_mode (rq_target_mode request), c) (\<lambda>target c.
     and_then (require (trim (rq_confirmation request) = confirmation_phrase target)
         (bad_request (''Type '' @ confirmation_phrase target @ '' to confirm this destructive transition'')) c) (\<lambda>_ c.
     and_then (verify_preview_token env (tk_verify tk) (rq_preview_token request), c) (\<lambda>claims c.
     and_then (require (pc_actor_user_id claims = cu_id u \<and> pc_target_mode claims = target) invalid_preview_token c)
       (\<lambda>_ c.
     transition_transaction fault (prepare_transition env tk u target claims) c)))))"

end
