(* ===== verification/ObjectRemoval.thy ===== *)
theory ObjectRemoval
  imports UserModeTransition ObjectPlaneRequests
begin

text \<open>
  What the deletion of teams and the change of the competition mode do to stored objects: the objects in
  question are marked for deletion and the removal of both their copies is queued, the others stay as they
  are, and the invariant of the storage plane is kept.
\<close>

section \<open>Marking\<close>

definition removable :: "stored_object \<Rightarrow> bool" where
  "removable ob \<longleftrightarrow> obj_status ob \<notin> {Obj_Deleting, Obj_Deleted}"

definition marked :: "stored_object \<Rightarrow> stored_object" where
  "marked ob = ob\<lparr>obj_status := Obj_Deleting, obj_revision := obj_revision ob + 1\<rparr>"

definition removal_open :: "uuid \<Rightarrow> object_db \<Rightarrow> bool" where
  "removal_open i d \<longleftrightarrow> open_at i Op_Delete d \<and> open_at i Op_Delete_Upload d"

lemma marked_simps [simp]:
  "obj_id (marked ob) = obj_id ob" "obj_status (marked ob) = Obj_Deleting" "obj_revision (marked ob) = obj_revision ob + 1"
  "obj_scope (marked ob) = obj_scope ob" "obj_owner_team_id (marked ob) = obj_owner_team_id ob"
  "obj_owner_user_id (marked ob) = obj_owner_user_id ob" "obj_purpose (marked ob) = obj_purpose ob"
  "\<not> removable (marked ob)" "same_identity (marked ob) ob"
  by (simp_all add: marked_def removable_def same_identity_def)

lemma removal_fields [simp]:
  "objects (close_operations now ids reason d) = objects d"
  "categories (close_operations now ids reason d) = categories d"
  "objects (open_removal now ob d) = objects d"
  "categories (open_removal now ob d) = categories d"
  by (simp_all add: close_operations_def open_removal_def)

lemma plane_close:
  assumes "storage_ok d"
  shows "storage_ok (close_operations now ids reason d)"
proof (rule storage_ok_operations [OF assms])
  show "object_db_ok (close_operations now ids reason d)"
    using assms unfolding storage_ok_def object_db_ok_def close_operations_def
    by (auto intro!: operations_ok_update simp: claim_consistent_def)
qed simp_all

lemma plane_open_removal:
  assumes "storage_ok d" "revision_known (objects d) (obj_id ob) (obj_revision ob)"
  shows "storage_ok (open_removal now ob d)"
  unfolding open_removal_def using assms by (auto intro!: plane_enqueue)

lemma removal_opened: "removal_open (obj_id ob) (open_removal now ob d)"
  unfolding open_removal_def removal_open_def by (intro conjI open_after_enqueue open_stays)

lemma removal_stays: "removal_open i d \<Longrightarrow> removal_open i (open_removal now ob d)"
  unfolding open_removal_def removal_open_def by (intro conjI open_stays) simp_all

lemma removal_close: "i \<notin> ids \<Longrightarrow> removal_open i d \<Longrightarrow> removal_open i (close_operations now ids reason d)"
  unfolding removal_open_def open_at_def close_operations_def open_operation_def
  by (auto simp: set_update_where)

lemma removal_cong [simp]:
  "removal_open i (d\<lparr>objects := os\<rparr>) = removal_open i d"
  "removal_open i (d\<lparr>object_events := es\<rparr>) = removal_open i d"
  by (simp_all add: removal_open_def open_at_def)

lemma same_row: "distinct (map obj_id os) \<Longrightarrow> a \<in> set os \<Longrightarrow> b \<in> set os \<Longrightarrow> obj_id a = obj_id b \<Longrightarrow> a = b"
  by (metis distinct_map inj_onD)

lemma update_where_cong: "(\<And>r. r \<in> set rs \<Longrightarrow> P r = Q r) \<Longrightarrow> update_where P f rs = update_where Q f rs"
  by (simp add: update_where_def)

lemma distinct_ids: "storage_ok d \<Longrightarrow> distinct (map obj_id (objects d))"
  by (simp add: storage_ok_def object_db_ok_def)

text \<open>An object of a user or of a team is no icon, so marking it leaves the categories in order.\<close>

lemma plane_mark_objects:
  assumes ok: "storage_ok d" and owned: "\<And>r. P r \<Longrightarrow> r \<in> set (objects d) \<Longrightarrow> obj_scope r \<noteq> ''target''"
  shows "storage_ok (d\<lparr>objects := update_where P marked (objects d)\<rparr>)"
proof -
  let ?Q = "\<lambda>r. P r \<and> obj_scope r \<noteq> ''target'' \<and> object_row_ok r"
  have "update_where P marked (objects d) = update_where ?Q marked (objects d)"
    using ok owned by (intro update_where_cong) (auto simp: storage_ok_def)
  moreover have "storage_ok (d\<lparr>objects := update_where ?Q marked (objects d)\<rparr>)"
  proof (rule storage_ok_update [OF ok])
    show "same_identity (marked r) r \<and> obj_revision r \<le> obj_revision (marked r)" for r by simp
    show "object_row_ok r \<Longrightarrow> object_row_ok (marked r)" for r unfolding marked_def by (rule row_ok_status) simp_all
    show "?Q r \<Longrightarrow> icon_of c r \<Longrightarrow> obj_status (marked r) = Obj_Ready" for r c
      by (auto simp: icon_of_def object_row_ok_def asset_purpose_def)
  qed
  ultimately show ?thesis by simp
qed

lemma marked_known:
  assumes "storage_ok d" "ob \<in> set (objects d)" "P ob"
  shows "revision_known (update_where P marked (objects d)) (obj_id ob) (obj_revision ob + 1)"
proof -
  from assms have "marked ob \<in> set (update_where P marked (objects d))" by (auto simp: set_update_where)
  moreover have "distinct (map obj_id (update_where P marked (objects d)))"
    using distinct_ids [OF assms(1)] by (simp add: update_where_def comp_def if_distrib cong: if_cong)
  ultimately show ?thesis unfolding revision_known_def
    by (metis marked_simps(1) marked_simps(3) order_refl same_row)
qed

section \<open>The trigger\<close>

definition linked_event :: "string \<Rightarrow> int \<Rightarrow> stored_object \<Rightarrow> object_event" where
  "linked_event k t ob = \<lparr>oev_object_id = obj_id ob, oev_event_type = ''parent_delete_requested'',
     oev_source = ''database_trigger'', oev_actor_user_id = None,
     oev_details = JObj [(''parent_type'', JStr k), (''parent_id'', JInt t),
       (''previous_status'', JStr (status_text (obj_status ob))),
       (''object_revision'', JInt (obj_revision (if removable ob then marked ob else ob))),
       (''lifecycle_changed'', JBool (removable ob))]\<rparr>"

lemma schedule_linked_cases:
  assumes ok: "storage_ok d" and ob: "ob \<in> set (objects d)"
  shows "schedule_linked now k t ob d =
    (let d1 = (if removable ob then open_removal now (marked ob)
           (close_operations now {obj_id ob} (k @ '' '' @ show_int t @ '' was deleted'')
             (d\<lparr>objects := update_where (\<lambda>r. r = ob) marked (objects d)\<rparr>)) else d) in
     d1\<lparr>object_events := object_events d1 @ [linked_event k t ob]\<rparr>)"
proof -
  have "update_where (\<lambda>r. obj_id r = obj_id ob \<and> obj_revision r = obj_revision ob) marked (objects d)
      = update_where (\<lambda>r. r = ob) marked (objects d)"
    using same_row [OF distinct_ids [OF ok] _ ob] by (intro update_where_cong) auto
  then show ?thesis
    by (simp add: schedule_linked_def Let_def linked_event_def removable_def marked_def [symmetric])
qed

lemma schedule_linked_ok:
  assumes ok: "storage_ok d" and ob: "ob \<in> set (objects d)" and scope: "obj_scope ob \<noteq> ''target''"
  shows "storage_ok (schedule_linked now k t ob d)"
    "objects (schedule_linked now k t ob d) = update_where (\<lambda>r. r = ob \<and> removable r) marked (objects d)"
    "categories (schedule_linked now k t ob d) = categories d"
    "removable ob \<Longrightarrow> removal_open (obj_id ob) (schedule_linked now k t ob d)"
    "removal_open i d \<Longrightarrow> i \<noteq> obj_id ob \<or> \<not> removable ob \<Longrightarrow> removal_open i (schedule_linked now k t ob d)"
proof -
  let ?d = "d\<lparr>objects := update_where (\<lambda>r. r = ob) marked (objects d)\<rparr>"
  have d: "storage_ok ?d" by (rule plane_mark_objects [OF ok]) (use scope in auto)
  have "storage_ok (open_removal now (marked ob) (close_operations now {obj_id ob} reason ?d))" for reason
    using plane_close [OF d] marked_known [OF ok ob, of "\<lambda>r. r = ob"] by (intro plane_open_removal) simp_all
  then show "storage_ok (schedule_linked now k t ob d)"
    unfolding schedule_linked_cases [OF ok ob] Let_def using ok by (intro storage_plane.I_event) auto
  show "objects (schedule_linked now k t ob d) = update_where (\<lambda>r. r = ob \<and> removable r) marked (objects d)"
    unfolding schedule_linked_cases [OF ok ob] Let_def
    by (cases "removable ob") (auto simp: update_where_def intro!: map_idI [symmetric])
  show "categories (schedule_linked now k t ob d) = categories d"
    by (simp add: schedule_linked_cases [OF ok ob] Let_def)
  show "removable ob \<Longrightarrow> removal_open (obj_id ob) (schedule_linked now k t ob d)"
    using removal_opened [of "marked ob"] by (simp add: schedule_linked_cases [OF ok ob] Let_def)
  show "removal_open i d \<Longrightarrow> i \<noteq> obj_id ob \<or> \<not> removable ob \<Longrightarrow> removal_open i (schedule_linked now k t ob d)"
    by (auto simp: schedule_linked_cases [OF ok ob] Let_def intro!: removal_stays removal_close)
qed

text \<open>Several objects, one after the other: each is marked once, and a removal that is open stays open.\<close>

definition removal_kept :: "(stored_object \<Rightarrow> bool) \<Rightarrow> object_db \<Rightarrow> object_db \<Rightarrow> bool" where
  "removal_kept P d d' \<longleftrightarrow> storage_ok d' \<and> categories d' = categories d \<and>
     objects d' = update_where (\<lambda>r. P r \<and> removable r) marked (objects d) \<and>
     (\<forall>ob \<in> set (objects d). P ob \<and> removable ob \<longrightarrow> removal_open (obj_id ob) d') \<and>
     (\<forall>i. removal_open i d \<longrightarrow> (\<forall>ob \<in> set (objects d). P ob \<and> obj_id ob = i \<longrightarrow> \<not> removable ob) \<longrightarrow> removal_open i d')"

lemma update_marked_twice:
  "update_where (\<lambda>r. Q r \<and> removable r) marked (update_where (\<lambda>r. P r \<and> removable r) marked os)
   = update_where (\<lambda>r. (P r \<or> Q r) \<and> removable r) marked os"
  by (auto simp: update_where_def)

lemma removal_kept_none: "storage_ok d \<Longrightarrow> (\<And>ob. ob \<in> set (objects d) \<Longrightarrow> \<not> P ob) \<Longrightarrow> removal_kept P d d"
  unfolding removal_kept_def by (auto simp: update_where_def intro!: map_idI [symmetric])

lemma removal_kept_cong:
  "removal_kept P d d' \<Longrightarrow> (\<And>ob. ob \<in> set (objects d) \<Longrightarrow> P ob = Q ob) \<Longrightarrow> removal_kept Q d d'"
  unfolding removal_kept_def by (auto cong: update_where_cong simp: update_where_def)

lemma removal_kept_trans:
  assumes "removal_kept P d e" "removal_kept Q e f" and same: "\<And>r. Q (marked r) = Q r"
    and ok: "storage_ok d"
  shows "removal_kept (\<lambda>r. P r \<or> Q r) d f"
proof -
  have e: "objects e = update_where (\<lambda>r. P r \<and> removable r) marked (objects d)" "categories e = categories d"
    and open1: "\<And>ob. ob \<in> set (objects d) \<Longrightarrow> P ob \<and> removable ob \<Longrightarrow> removal_open (obj_id ob) e"
    and keep1: "\<And>i. removal_open i d \<Longrightarrow> (\<forall>ob \<in> set (objects d). P ob \<and> obj_id ob = i \<longrightarrow> \<not> removable ob) \<Longrightarrow> removal_open i e"
    using assms(1) by (auto simp: removal_kept_def)
  have f: "objects f = update_where (\<lambda>r. Q r \<and> removable r) marked (objects e)" "categories f = categories e" "storage_ok f"
    and open2: "\<And>ob. ob \<in> set (objects e) \<Longrightarrow> Q ob \<and> removable ob \<Longrightarrow> removal_open (obj_id ob) f"
    and keep2: "\<And>i. removal_open i e \<Longrightarrow> (\<forall>ob \<in> set (objects e). Q ob \<and> obj_id ob = i \<longrightarrow> \<not> removable ob) \<Longrightarrow> removal_open i f"
    using assms(2) by (auto simp: removal_kept_def)
  have "objects f = update_where (\<lambda>r. (P r \<or> Q r) \<and> removable r) marked (objects d)"
    unfolding f(1) e(1) by (rule update_marked_twice)
  moreover have "removal_open (obj_id ob) f" if ob: "ob \<in> set (objects d)" "P ob \<or> Q ob" "removable ob" for ob
  proof (cases "P ob")
    case True
    have "\<not> removable r" if r: "r \<in> set (objects e)" "obj_id r = obj_id ob" for r
    proof -
      from r(1) obtain q where q: "q \<in> set (objects d)" "r = (if P q \<and> removable q then marked q else q)"
        by (auto simp: e(1) update_where_def)
      with r(2) have "obj_id q = obj_id ob" by (auto split: if_splits)
      then have "q = ob" using same_row [OF distinct_ids [OF ok] q(1) ob(1)] by simp
      with q True ob(3) show ?thesis by simp
    qed
    with True ob open1 keep2 show ?thesis by blast
  next
    case False
    with ob have "ob \<in> set (objects e)" "Q ob" by (auto simp: e(1) set_update_where)
    with ob open2 show ?thesis by blast
  qed
  moreover have "removal_open i f"
    if i: "removal_open i d" "\<forall>ob \<in> set (objects d). (P ob \<or> Q ob) \<and> obj_id ob = i \<longrightarrow> \<not> removable ob" for i
  proof (rule keep2)
    show "removal_open i e" using i keep1 by blast
    show "\<forall>ob \<in> set (objects e). Q ob \<and> obj_id ob = i \<longrightarrow> \<not> removable ob"
      using i(2) by (auto simp: e(1) update_where_def same)
  qed
  ultimately show ?thesis using e(2) f(2,3) by (simp add: removal_kept_def)
qed

lemma schedule_linked_kept:
  assumes "storage_ok d" "ob \<in> set (objects d)" "obj_scope ob \<noteq> ''target''"
  shows "removal_kept (\<lambda>r. obj_id r = obj_id ob) d (schedule_linked now k t ob d)"
proof -
  note same = same_row [OF distinct_ids [OF assms(1)] _ assms(2)]
  have "removal_kept (\<lambda>r. r = ob) d (schedule_linked now k t ob d)"
    unfolding removal_kept_def using schedule_linked_ok [OF assms] assms(2) by auto
  then show ?thesis by (rule removal_kept_cong) (auto dest: same)
qed

lemma schedule_all_kept:
  assumes "storage_ok d" "distinct (map obj_id obs)"
    and "\<And>ob. ob \<in> set obs \<Longrightarrow> ob \<in> set (objects d) \<and> obj_scope ob \<noteq> ''target''"
  shows "removal_kept (\<lambda>r. obj_id r \<in> obj_id ` set obs) d (fold (schedule_linked now k t) obs d)"
  using assms
proof (induction obs arbitrary: d)
  case (Cons ob obs)
  let ?e = "schedule_linked now k t ob d"
  have first: "removal_kept (\<lambda>r. obj_id r = obj_id ob) d ?e"
    using Cons.prems by (intro schedule_linked_kept) auto
  then have "storage_ok ?e" and e: "objects ?e = update_where (\<lambda>r. obj_id r = obj_id ob \<and> removable r) marked (objects d)"
    by (simp_all add: removal_kept_def)
  moreover have "r \<in> set (objects ?e) \<and> obj_scope r \<noteq> ''target''" if "r \<in> set obs" for r
  proof -
    have "obj_id r \<noteq> obj_id ob" using Cons.prems(2) that by (simp, metis image_eqI)
    with Cons.prems(3) that show ?thesis by (auto simp: e set_update_where)
  qed
  ultimately have "removal_kept (\<lambda>r. obj_id r \<in> obj_id ` set obs) ?e (fold (schedule_linked now k t) obs ?e)"
    using Cons.prems(2) by (intro Cons.IH) auto
  from removal_kept_trans [OF first this _ Cons.prems(1)] show ?case by simp
qed (auto intro: removal_kept_none)

lemma team_deleted_kept:
  assumes "storage_ok d"
  shows "removal_kept (\<lambda>r. obj_scope r = ''team'' \<and> obj_owner_team_id r = Some t) d (team_deleted now t d)"
proof -
  have "removal_kept (\<lambda>r. obj_id r \<in> obj_id ` set (objects_of_team t d)) d (team_deleted now t d)"
    unfolding team_deleted_def using assms distinct_ids [OF assms]
    by (intro schedule_all_kept) (auto simp: objects_of_team_def distinct_map intro: inj_on_subset)
  then show ?thesis
    by (rule removal_kept_cong) (auto simp: objects_of_team_def dest: same_row [OF distinct_ids [OF assms]])
qed

lemma teams_deleted_kept:
  assumes "storage_ok d"
  shows "removal_kept (\<lambda>r. obj_scope r = ''team'' \<and> obj_owner_team_id r \<in> Some ` set ts) d (fold (team_deleted now) ts d)"
  using assms
proof (induction ts arbitrary: d)
  case (Cons t ts)
  note first = team_deleted_kept [OF Cons.prems, of t now]
  then have "storage_ok (team_deleted now t d)" by (simp add: removal_kept_def)
  from removal_kept_trans [OF first Cons.IH [OF this] _ Cons.prems]
  have "removal_kept (\<lambda>r. (obj_scope r = ''team'' \<and> obj_owner_team_id r = Some t) \<or>
      (obj_scope r = ''team'' \<and> obj_owner_team_id r \<in> Some ` set ts)) d (fold (team_deleted now) (t # ts) d)" by simp
  then show ?case by (rule removal_kept_cong) auto
qed (auto intro: removal_kept_none)

section \<open>The objects of participants\<close>

lemma open_removals:
  assumes "storage_ok d" "\<And>ob. ob \<in> set obs \<Longrightarrow> revision_known (objects d) (obj_id ob) (obj_revision ob)"
  shows "storage_ok (fold (open_removal now) obs d)" "objects (fold (open_removal now) obs d) = objects d"
    "categories (fold (open_removal now) obs d) = categories d"
    "removal_open i d \<or> i \<in> obj_id ` set obs \<Longrightarrow> removal_open i (fold (open_removal now) obs d)"
  using assms
proof (induction obs arbitrary: d)
  case (Cons ob obs)
  { case 1 then show ?case by (auto intro!: Cons.IH(1) plane_open_removal) }
  { case 2 then show ?case by (simp add: Cons.IH(2) plane_open_removal) }
  { case 3 then show ?case by (simp add: Cons.IH(3) plane_open_removal) }
  { case 4
    then have "removal_open i (open_removal now ob d) \<or> i \<in> obj_id ` set obs"
      using removal_opened removal_stays by auto
    moreover have "storage_ok (open_removal now ob d)" using 4(2,3) by (auto intro!: plane_open_removal)
    ultimately show ?case using 4(3) Cons.IH(4) [of "open_removal now ob d"] by simp }
qed auto

lemma competition_objects_kept:
  assumes ok: "storage_ok (pd_objects p)"
  shows "removal_kept (competition_object p) (pd_objects p)
     (pd_objects (schedule_user_competition_object_deletion now actor source target p))"
proof -
  define d where "d = pd_objects p"
  define changed where "changed = filter (\<lambda>ob. competition_object p ob \<and> obj_status ob \<notin> {Obj_Deleting, Obj_Deleted})
            (sort_key obj_id (objects d))"
  have set: "set changed = {ob \<in> set (objects d). competition_object p ob \<and> removable ob}"
    by (auto simp: changed_def removable_def)
  note same = same_row [OF distinct_ids [OF ok], folded d_def]
  show ?thesis
  proof (cases "changed = []")
    case True
    then have "schedule_user_competition_object_deletion now actor source target p = p"
      by (simp add: schedule_user_competition_object_deletion_def Let_def changed_def d_def)
    moreover have "removal_kept (\<lambda>r. competition_object p r \<and> removable r) d d"
      using ok set True by (intro removal_kept_none) (auto simp: d_def)
    moreover have "removal_kept (competition_object p) d d = removal_kept (\<lambda>r. competition_object p r \<and> removable r) d d"
      by (auto simp: removal_kept_def)
    ultimately show ?thesis by (simp add: d_def)
  next
    case False
    define e where "e = d\<lparr>objects := update_where (\<lambda>ob. obj_id ob \<in> obj_id ` set changed) marked (objects d)\<rparr>"
    define f where "f = close_operations now (obj_id ` set changed) ''competition mode changed'' e"
    define g where "g = fold (open_removal now) (map marked changed) f"
    have mark: "(\<lambda>ob. ob\<lparr>obj_status := Obj_Deleting, obj_revision := obj_revision ob + 1\<rparr>) = marked"
      by (simp add: fun_eq_iff marked_def)
    have upd: "update_where (\<lambda>ob. obj_id ob \<in> obj_id ` set changed) marked (objects d)
        = update_where (\<lambda>ob. competition_object p ob \<and> removable ob) marked (objects d)"
      using set same by (intro update_where_cong) auto
    have e: "storage_ok e" unfolding e_def upd
      using ok by (intro plane_mark_objects) (auto simp: d_def competition_object_def)
    have f: "storage_ok f" "objects f = objects e" "categories f = categories d"
      using e by (auto simp: f_def e_def plane_close)
    have known: "revision_known (objects f) (obj_id ob) (obj_revision ob)" if "ob \<in> set (map marked changed)" for ob
      using that ok by (auto simp: f(2) e_def d_def set upd intro!: marked_known)
    have g: "storage_ok g" "objects g = objects f" "categories g = categories d"
      "\<And>i. removal_open i f \<or> i \<in> obj_id ` set changed \<Longrightarrow> removal_open i g"
      unfolding g_def f(3) [symmetric]
      by (rule open_removals(1) [OF f(1)], erule known, rule open_removals(2) [OF f(1)], erule known,
          rule open_removals(3) [OF f(1)], erule known, rule open_removals(4) [OF f(1)], erule known)
         (simp add: image_image)
    have p': "pd_objects (schedule_user_competition_object_deletion now actor source target p) =
        g\<lparr>object_events := object_events g @ map (\<lambda>ob. \<lparr>oev_object_id = obj_id ob,
            oev_event_type = ''mode_transition_delete_requested'', oev_source = ''api'',
            oev_actor_user_id = Some actor,
            oev_details = JObj [(''source_mode'', JStr source), (''target_mode'', JStr target)]\<rparr>) changed\<rparr>"
      using False unfolding schedule_user_competition_object_deletion_def Let_def mark d_def [symmetric]
        changed_def [symmetric] by (simp add: g_def f_def e_def)
    show ?thesis
      unfolding removal_kept_def p' d_def [symmetric]
    proof (intro conjI ballI allI impI)
      show "storage_ok (g\<lparr>object_events := es\<rparr>)" for es by (rule storage_plane.I_event [OF g(1)])
    next
      fix ob es assume "ob \<in> set (objects d)" "competition_object p ob \<and> removable ob"
      then have "obj_id ob \<in> obj_id ` set changed" by (auto simp: set)
      then show "removal_open (obj_id ob) (g\<lparr>object_events := es\<rparr>)" using g(4) by simp
    next
      fix i es assume "removal_open i d" "\<forall>ob \<in> set (objects d). competition_object p ob \<and> obj_id ob = i \<longrightarrow> \<not> removable ob"
      then have "removal_open i f" unfolding f_def by (intro removal_close) (auto simp: e_def set)
      then show "removal_open i (g\<lparr>object_events := es\<rparr>)" using g(4) by simp
    qed (simp_all add: g f e_def upd)
  qed
qed

end
