(* ===== verification/ModeChange.thy ===== *)
theory ModeChange
  imports ObjectRemoval
begin

text \<open>
  The change of the competition mode as one step (\<open>routes/user_mode_transition.rs\<close>): when it runs, and what
  every table holds afterwards.
\<close>

section \<open>The state after the change\<close>

definition changed_contest :: "transition_clock \<Rightarrow> int \<Rightarrow> string \<Rightarrow> transition_row list \<Rightarrow> contest \<Rightarrow> contest" where
  "changed_contest tk actor target ts c =
     (let source = stored_mode (ct_portal c);
          c1 = c\<lparr>ct_portal := snd (revoke_participant_api_tokens (snd (revoke_participant_sessions (tk_db tk) (ct_portal c))))\<rparr>;
          c2 = on_portal (schedule_user_competition_object_deletion (tk_db tk) actor source target)
             (snd (rotate_participant_credentials (tk_fresh tk) c1));
          c3 = snd (remove_teams (tk_db tk) (clear_competition_state c2)) in
      (on_portal (set_user_mode target) c3)\<lparr>ct_transitions := Some (ts @ [\<lparr>tr_id = tk_audit_id tk,
         tr_actor_user_id = actor, tr_source_mode = source, tr_target_mode = target, tr_affected = affected_by c\<rparr>])\<rparr>)"

text \<open>The marking of objects touches no other table.\<close>

lemma schedule_fields [simp]:
  "pd_config (schedule_user_competition_object_deletion now actor source target p) = pd_config p"
  "pd_users (schedule_user_competition_object_deletion now actor source target p) = pd_users p"
  "pd_teams (schedule_user_competition_object_deletion now actor source target p) = pd_teams p"
  "pd_tokens (schedule_user_competition_object_deletion now actor source target p) = pd_tokens p"
  "pd_sessions (schedule_user_competition_object_deletion now actor source target p) = pd_sessions p"
  "pd_challenges (schedule_user_competition_object_deletion now actor source target p) = pd_challenges p"
  "pd_flags (schedule_user_competition_object_deletion now actor source target p) = pd_flags p"
  "pd_submissions (schedule_user_competition_object_deletion now actor source target p) = pd_submissions p"
  "pd_solves (schedule_user_competition_object_deletion now actor source target p) = pd_solves p"
  "pd_runtime (schedule_user_competition_object_deletion now actor source target p) = pd_runtime p"
  "pd_pages (schedule_user_competition_object_deletion now actor source target p) = pd_pages p"
  "pd_solutions (schedule_user_competition_object_deletion now actor source target p) = pd_solutions p"
  by (simp_all add: schedule_user_competition_object_deletion_def Let_def)

definition free_user :: "user_row \<Rightarrow> user_row" where
  "free_user u = u\<lparr>usr_team_id := None\<rparr>"

lemma free_users: "update_where (\<lambda>u. usr_team_id u \<noteq> None) (\<lambda>u. u\<lparr>usr_team_id := None\<rparr>) us = map free_user us"
  by (auto simp: update_where_def free_user_def)

definition reset_challenge :: "challenge_row \<Rightarrow> challenge_row" where
  "reset_challenge h = (if ch_type h = Some ''dynamic'' then h\<lparr>ch_value := initial_value h\<rparr> else h)"

lemma reset_challenges:
  "update_where (\<lambda>h. ch_type h = Some ''dynamic'') (\<lambda>h. h\<lparr>ch_value := initial_value h\<rparr>) hs = map reset_challenge hs"
  by (simp add: update_where_def reset_challenge_def)

definition without_teams :: "time \<Rightarrow> portal_db \<Rightarrow> portal_db" where
  "without_teams now p =
     (let d = fold (team_deleted now) (map tm_id (pd_teams p)) (pd_objects p) in
      p\<lparr>pd_users := map free_user (pd_users p), pd_teams := [],
        pd_objects := d\<lparr>objects := update_where (\<lambda>r. of_team p (obj_owner_team_id r)) (\<lambda>r. r\<lparr>obj_owner_team_id := None\<rparr>) (objects d)\<rparr>,
        pd_submissions := filter (\<lambda>s. \<not> of_team p (sub_team_id s)) (pd_submissions p),
        pd_solves := filter (\<lambda>s. \<not> of_team p (slv_team_id s)) (pd_solves p)\<rparr>)"

lemma of_team_none [simp]: "of_team p None = False"
  by (simp add: of_team_def)

lemma of_team_cong [simp]: "of_team (p\<lparr>pd_users := us\<rparr>) = of_team p"
  by (auto simp: of_team_def fun_eq_iff split: option.splits)

lemma of_team_same: "pd_teams q = pd_teams p \<Longrightarrow> of_team q = of_team p"
  by (simp add: of_team_def [abs_def] cong: option.case_cong)

lemma of_team_cleared [simp]:
  "of_team (q\<lparr>pd_sharing := a, pd_user_flags := b, pd_submissions := x, pd_solves := y, pd_challenges := z\<rparr>) = of_team q"
  by (rule of_team_same) simp

lemma remove_teams_eq: "remove_teams now c = (Inr (), c\<lparr>
    ct_portal := without_teams now (ct_portal c),
    ct_notifications := filter (\<lambda>n. ti_team_id n = None) (ct_notifications c),
    ct_awards := filter (\<lambda>a. \<not> of_team (ct_portal c) (aw_team_id a)) (ct_awards c),
    ct_field_entries := filter (\<lambda>r. \<not> of_team (ct_portal c) (ti_team_id r)) (ct_field_entries c),
    ct_comments := filter (\<lambda>r. \<not> of_team (ct_portal c) (ti_team_id r)) (ct_comments c)\<rparr>)"
  unfolding remove_teams_def delete_all_teams_def on_portal_def free_users Let_def
  by (simp add: free_user_def, rule contest.equality, simp_all add: without_teams_def Let_def free_user_def [abs_def])

lemma confirm_Inr: "confirm_snapshot s target pc = Inr u \<longleftrightarrow>
   af_active_runtimes (sn_affected s) = 0 \<and> sn_source_mode s \<noteq> target \<and> sn_source_mode s = pc_source_mode pc \<and>
   sn_affected s = pc_affected pc \<and> sn_affected s = pc_snapshot pc \<and> sn_fingerprint s = pc_fingerprint pc"
  by (auto simp: confirm_snapshot_def)

definition change_permitted ::
  "transition_env \<Rightarrow> transition_clock \<Rightarrow> current_user \<Rightarrow> string \<Rightarrow> preview_claims \<Rightarrow> contest \<Rightarrow> bool" where
  "change_permitted env tk u target pc c \<longleftrightarrow>
     credential_valid (tk_db tk) (te_session_lifetime env) u (ct_portal c) \<and> ct_transitions c \<noteq> None \<and>
     tk_prepare tk < pc_expires_at pc \<and> confirm_snapshot (load_snapshot env c) target pc = Inr () \<and>
     competition_mode (stored_mode (ct_portal c)) \<and> competition_mode target"

text \<open>The steps of the transaction, each with its result and the tables after it.\<close>

lemma counting_eq: "counting f c = (Inr (fst (f (ct_portal c))), c\<lparr>ct_portal := snd (f (ct_portal c))\<rparr>)"
  by (simp add: counting_def in_portal_def split_beta)

lemma revalidated:
  "credential_valid now lifetime u (ct_portal c) \<Longrightarrow>
     in_portal (revalidate_current_credential now lifetime u) c = (Inr (), c)"
  by (simp add: in_portal_def revalidate_current_credential_def)

lemma audited:
  assumes "ct_transitions c = Some ts" "competition_mode source" "competition_mode target" "source \<noteq> target"
  shows "insert_audit_event i actor source target affected c = (Inr (), c\<lparr>ct_transitions := Some (ts @ [\<lparr>tr_id = i,
    tr_actor_user_id = actor, tr_source_mode = source, tr_target_mode = target, tr_affected = affected\<rparr>])\<rparr>)"
  using assms by (simp add: insert_audit_event_def)

lemma transitions_kept [simp]:
  "ct_transitions (on_portal f c) = ct_transitions c"
  "ct_transitions (snd (remove_teams now c)) = ct_transitions c"
  "ct_transitions (clear_competition_state c) = ct_transitions c"
  "ct_transitions (snd (rotate_participant_credentials fresh c)) = ct_transitions c"
  by (simp_all add: on_portal_def remove_teams_def delete_all_teams_def clear_competition_state_def
      rotate_participant_credentials_def Let_def)

lemma snapshot_simps [simp]:
  "sn_source_mode (load_snapshot env c) = stored_mode (ct_portal c)"
  "sn_affected (load_snapshot env c) = affected_by c"
  by (simp_all add: load_snapshot_def)

definition change_summary :: "transition_clock \<Rightarrow> string \<Rightarrow> contest \<Rightarrow> transition_data" where
  "change_summary tk target c =
     (let p = ct_portal c; p' = snd (revoke_participant_sessions (tk_db tk) p) in
      \<lparr>td_source_mode = stored_mode p, td_target_mode = target, td_affected = affected_by c,
       td_sessions_revoked = fst (revoke_participant_sessions (tk_db tk) p),
       td_api_tokens_revoked = fst (revoke_participant_api_tokens p'),
       td_participant_credentials_rotated = length (filter participant (pd_users p))\<rparr>)"

lemma rotated_count: "fst (rotate_participant_credentials fresh c) = length (filter participant (pd_users (ct_portal c)))"
  by (simp add: rotate_participant_credentials_def Let_def)

lemma revoked_users [simp]:
  "pd_users (snd (revoke_participant_sessions now p)) = pd_users p"
  "pd_users (snd (revoke_participant_api_tokens p)) = pd_users p"
  by (simp_all add: revoke_participant_sessions_def revoke_participant_api_tokens_def Let_def)

lemma prepare_transition_eq:
  assumes "change_permitted env tk u target pc c" "ct_transitions c = Some ts"
  shows "prepare_transition env tk u target pc c =
    (Inr (change_summary tk target c), changed_contest tk (cu_id u) target ts c)"
proof -
  from assms have ok: "credential_valid (tk_db tk) (te_session_lifetime env) u (ct_portal c)"
    "\<not> pc_expires_at pc \<le> tk_prepare tk" "confirm_snapshot (load_snapshot env c) target pc = Inr ()"
    "competition_mode (stored_mode (ct_portal c))" "competition_mode target" "stored_mode (ct_portal c) \<noteq> target"
    by (auto simp: change_permitted_def confirm_Inr)
  show ?thesis
    unfolding prepare_transition_def revalidated [OF ok(1)] and_then_simps require_def counting_eq Let_def
      split_beta ok(3) rotated_count
    by (simp add: assms(2) ok(2-6) change_summary_def changed_contest_def Let_def audited remove_teams_eq)
qed

lemma prepare_Inr:
  assumes "prepare_transition env tk u target pc c = (Inr data, c')" "competition_mode target"
  shows "change_permitted env tk u target pc c"
    "\<exists>ts. ct_transitions c = Some ts \<and> c' = changed_contest tk (cu_id u) target ts c"
proof -
  have source: "competition_mode source"
    if "insert_audit_event i actor source target affected d = (Inr v, e)" for i actor source affected d v e
    using that by (auto simp: insert_audit_event_def split: option.splits if_splits)
  have "credential_valid (tk_db tk) (te_session_lifetime env) u (ct_portal c) \<and> ct_transitions c \<noteq> None \<and>
      tk_prepare tk < pc_expires_at pc \<and> confirm_snapshot (load_snapshot env c) target pc = Inr () \<and>
      competition_mode (stored_mode (ct_portal c))"
    using assms(1) unfolding prepare_transition_def Let_def split_beta snapshot_simps
    by (elim and_then_Inr_cases)
       (auto simp: in_portal_def revalidate_current_credential_def require_def split: if_splits dest: source)
  with assms(2) show permitted: "change_permitted env tk u target pc c" by (simp add: change_permitted_def)
  then obtain ts where "ct_transitions c = Some ts" by (auto simp: change_permitted_def)
  with prepare_transition_eq [OF permitted this] assms(1)
  show "\<exists>ts. ct_transitions c = Some ts \<and> c' = changed_contest tk (cu_id u) target ts c" by auto
qed

section \<open>The tables after the change\<close>

lemma revoked_eq:
  "snd (revoke_participant_sessions now p) = p\<lparr>pd_sessions := update_where
     (\<lambda>s. of_participant (Some (ses_user_id s)) p \<and> ses_revoked_at s = None) (\<lambda>s. s\<lparr>ses_revoked_at := Some now\<rparr>) (pd_sessions p)\<rparr>"
  "snd (revoke_participant_api_tokens p) = p\<lparr>pd_tokens := filter (\<lambda>t. \<not> of_participant (tok_user_id t) p) (pd_tokens p)\<rparr>"
  by (simp_all add: revoke_participant_sessions_def revoke_participant_api_tokens_def Let_def)

lemma of_participant_cong [simp]:
  "of_participant i (p\<lparr>pd_sessions := ss\<rparr>) = of_participant i p"
  by (simp add: of_participant_def)

lemma rotated_fields [simp]:
  "ct_portal (snd (rotate_participant_credentials fresh c)) = ct_portal c"
  "ct_portal (on_portal f c) = f (ct_portal c)"
  by (simp_all add: rotate_participant_credentials_def on_portal_def Let_def)

definition signed_out :: "time \<Rightarrow> portal_db \<Rightarrow> portal_db" where
  "signed_out now p = snd (revoke_participant_api_tokens (snd (revoke_participant_sessions now p)))"

definition cleared :: "portal_db \<Rightarrow> portal_db" where
  "cleared p = p\<lparr>pd_sharing := [], pd_user_flags := [], pd_submissions := [],
     pd_solves := filter (\<lambda>s. \<forall>r \<in> set (pd_submissions p). sub_id r \<noteq> slv_id s) (pd_solves p),
     pd_challenges := map reset_challenge (pd_challenges p)\<rparr>"

lemma changed_portal:
  "ct_portal (changed_contest tk actor target ts c) =
     set_user_mode target (without_teams (tk_db tk) (cleared
       (schedule_user_competition_object_deletion (tk_db tk) actor (stored_mode (ct_portal c)) target
         (signed_out (tk_db tk) (ct_portal c)))))"
  by (simp add: changed_contest_def Let_def remove_teams_eq clear_competition_state_def reset_challenges cleared_def
      signed_out_def)

lemma changed_fields:
  "pd_config (ct_portal (changed_contest tk actor target ts c)) =
     pd_config (set_user_mode target (ct_portal c))"
  "pd_users (ct_portal (changed_contest tk actor target ts c)) = map free_user (pd_users (ct_portal c))"
  "pd_teams (ct_portal (changed_contest tk actor target ts c)) = []"
  "pd_tokens (ct_portal (changed_contest tk actor target ts c)) =
     filter (\<lambda>t. \<not> of_participant (tok_user_id t) (ct_portal c)) (pd_tokens (ct_portal c))"
  "pd_sessions (ct_portal (changed_contest tk actor target ts c)) =
     update_where (\<lambda>s. of_participant (Some (ses_user_id s)) (ct_portal c) \<and> ses_revoked_at s = None)
       (\<lambda>s. s\<lparr>ses_revoked_at := Some (tk_db tk)\<rparr>) (pd_sessions (ct_portal c))"
  "pd_challenges (ct_portal (changed_contest tk actor target ts c)) = map reset_challenge (pd_challenges (ct_portal c))"
  "pd_flags (ct_portal (changed_contest tk actor target ts c)) = pd_flags (ct_portal c)"
  "pd_user_flags (ct_portal (changed_contest tk actor target ts c)) = []"
  "pd_submissions (ct_portal (changed_contest tk actor target ts c)) = []"
  "pd_sharing (ct_portal (changed_contest tk actor target ts c)) = []"
  "pd_runtime (ct_portal (changed_contest tk actor target ts c)) = pd_runtime (ct_portal c)"
  "pd_pages (ct_portal (changed_contest tk actor target ts c)) = pd_pages (ct_portal c)"
  "pd_solutions (ct_portal (changed_contest tk actor target ts c)) = pd_solutions (ct_portal c)"
  by (simp_all add: changed_portal set_user_mode_def without_teams_def cleared_def signed_out_def revoked_eq Let_def)

lemma changed_rest:
  assumes "list_all (\<lambda>s. list_ex (\<lambda>r. sub_id r = slv_id s) (pd_submissions (ct_portal c))) (pd_solves (ct_portal c))"
  shows "pd_solves (ct_portal (changed_contest tk actor target ts c)) = []"
    "ct_awards (changed_contest tk actor target ts c) = []"
    "ct_unlocks (changed_contest tk actor target ts c) = []"
    "ct_tracking (changed_contest tk actor target ts c) = []"
    "ct_notifications (changed_contest tk actor target ts c) = filter (\<lambda>n. ti_team_id n = None) (ct_notifications c)"
    "ct_field_entries (changed_contest tk actor target ts c) =
       filter (\<lambda>e. \<not> of_team (ct_portal c) (ti_team_id e)) (ct_field_entries c)"
    "ct_comments (changed_contest tk actor target ts c) = filter (\<lambda>e. \<not> of_team (ct_portal c) (ti_team_id e)) (ct_comments c)"
    "ct_transitions (changed_contest tk actor target ts c) = Some (ts @ [\<lparr>tr_id = tk_audit_id tk,
       tr_actor_user_id = actor, tr_source_mode = stored_mode (ct_portal c), tr_target_mode = target,
       tr_affected = affected_by c\<rparr>])"
proof -
  have team: "of_team (schedule_user_competition_object_deletion now actor source target (signed_out now' (ct_portal c)))
      = of_team (ct_portal c)" for now now' source
    by (rule of_team_same) (simp add: signed_out_def revoked_eq)
  let ?q = "schedule_user_competition_object_deletion (tk_db tk) actor (stored_mode (ct_portal c)) target (signed_out (tk_db tk) (ct_portal c))"
  have "filter (\<lambda>s. \<forall>r \<in> set (pd_submissions ?q). sub_id r \<noteq> slv_id s) (pd_solves ?q) = []"
    using assms by (auto simp: filter_empty_conv list_all_iff list_ex_iff signed_out_def revoked_eq)
  then show "pd_solves (ct_portal (changed_contest tk actor target ts c)) = []"
    by (simp add: changed_portal set_user_mode_def without_teams_def cleared_def Let_def)
  show "ct_awards (changed_contest tk actor target ts c) = []" "ct_unlocks (changed_contest tk actor target ts c) = []"
    "ct_tracking (changed_contest tk actor target ts c) = []"
    "ct_transitions (changed_contest tk actor target ts c) = Some (ts @ [\<lparr>tr_id = tk_audit_id tk,
       tr_actor_user_id = actor, tr_source_mode = stored_mode (ct_portal c), tr_target_mode = target,
       tr_affected = affected_by c\<rparr>])"
    by (simp_all add: changed_contest_def Let_def remove_teams_eq clear_competition_state_def on_portal_def
        rotate_participant_credentials_def)
  show "ct_notifications (changed_contest tk actor target ts c) = filter (\<lambda>n. ti_team_id n = None) (ct_notifications c)"
    "ct_field_entries (changed_contest tk actor target ts c) =
       filter (\<lambda>e. \<not> of_team (ct_portal c) (ti_team_id e)) (ct_field_entries c)"
    "ct_comments (changed_contest tk actor target ts c) = filter (\<lambda>e. \<not> of_team (ct_portal c) (ti_team_id e)) (ct_comments c)"
    using team [unfolded signed_out_def]
    by (simp_all add: changed_contest_def Let_def remove_teams_eq clear_competition_state_def on_portal_def
        rotate_participant_credentials_def of_team_cleared)
qed

section \<open>The objects after the change\<close>

text \<open>The objects of the competition: those that participants uploaded for it, and those that belong to a team.\<close>

definition doomed :: "portal_db \<Rightarrow> stored_object \<Rightarrow> bool" where
  "doomed p ob \<longleftrightarrow> competition_object p ob \<or> (obj_scope ob = ''team'' \<and> of_team p (obj_owner_team_id ob))"

definition settled :: "portal_db \<Rightarrow> stored_object \<Rightarrow> stored_object" where
  "settled p ob =
     (let r = (if doomed p ob \<and> removable ob then marked ob else ob) in
      if of_team p (obj_owner_team_id r) then r\<lparr>obj_owner_team_id := None\<rparr> else r)"

lemma disown_ok:
  assumes "storage_ok d"
  shows "storage_ok (d\<lparr>objects := update_where P (\<lambda>r. r\<lparr>obj_owner_team_id := None\<rparr>) (objects d)\<rparr>)"
proof (rule storage_ok_update [OF assms])
  fix r :: stored_object assume "object_row_ok r"
  moreover have "target_matches (r\<lparr>obj_owner_team_id := None\<rparr>) = target_matches r" by (simp add: target_matches_def)
  ultimately show "object_row_ok (r\<lparr>obj_owner_team_id := None\<rparr>)" unfolding object_row_ok_def by simp
next
  fix r :: stored_object and c assume "icon_of c r"
  then show "obj_status (r\<lparr>obj_owner_team_id := None\<rparr>) = Obj_Ready" by (simp add: icon_of_def)
qed (simp add: same_identity_def)

lemma competition_object_marked [simp]: "competition_object p (marked ob) = competition_object p ob"
  by (simp add: competition_object_def)

lemma competition_object_cong:
  "pd_users q = pd_users p \<Longrightarrow> competition_object q = competition_object p"
  by (simp add: competition_object_def of_participant_def fun_eq_iff)

lemma changed_objects:
  fixes tk actor target ts c
  assumes ok: "storage_ok (pd_objects (ct_portal c))"
  defines "d' \<equiv> pd_objects (ct_portal (changed_contest tk actor target ts c))" and "p \<equiv> ct_portal c"
  shows "storage_ok d'" "objects d' = map (settled p) (objects (pd_objects p))"
    "categories d' = categories (pd_objects p)"
    "\<And>ob. ob \<in> set (objects (pd_objects p)) \<Longrightarrow> doomed p ob \<Longrightarrow> removable ob \<Longrightarrow> removal_open (obj_id ob) d'"
proof -
  let ?q = "signed_out (tk_db tk) p"
  define e where "e = pd_objects (schedule_user_competition_object_deletion (tk_db tk) actor (stored_mode p) target ?q)"
  define f where "f = fold (team_deleted (tk_db tk)) (map tm_id (pd_teams p)) e"
  have q: "pd_objects ?q = pd_objects p" "pd_users ?q = pd_users p" "pd_teams ?q = pd_teams p"
    by (simp_all add: signed_out_def revoked_eq)
  have team: "of_team (cleared (schedule_user_competition_object_deletion now actor source target ?q)) = of_team p" for now source
    by (simp add: of_team_def [abs_def] cleared_def q cong: option.case_cong)
  have d': "d' = f\<lparr>objects := update_where (\<lambda>r. of_team p (obj_owner_team_id r)) (\<lambda>r. r\<lparr>obj_owner_team_id := None\<rparr>) (objects f)\<rparr>"
    unfolding d'_def changed_portal p_def [symmetric] set_user_mode_def without_teams_def Let_def
    by (simp add: team q) (simp add: f_def e_def cleared_def q)
  have first: "removal_kept (competition_object p) (pd_objects p) e"
    using competition_objects_kept [of ?q "tk_db tk" actor "stored_mode p" target] ok
    unfolding e_def competition_object_cong [OF q(2)] q(1) by (simp add: p_def)
  then have "storage_ok e" by (simp add: removal_kept_def)
  from removal_kept_trans [OF first teams_deleted_kept [OF this, of "map tm_id (pd_teams p)" "tk_db tk"]] ok
  have "removal_kept (\<lambda>r. competition_object p r \<or> obj_scope r = ''team'' \<and> obj_owner_team_id r \<in> Some ` set (map tm_id (pd_teams p)))
     (pd_objects p) f" by (simp add: p_def f_def)
  then have both: "removal_kept (doomed p) (pd_objects p) f"
    by (rule removal_kept_cong) (auto simp: doomed_def of_team_def split: option.splits)
  then show "storage_ok d'" unfolding d' by (intro disown_ok) (simp add: removal_kept_def)
  show "objects d' = map (settled p) (objects (pd_objects p))"
    using both by (simp add: d' removal_kept_def update_where_def settled_def Let_def)
  show "categories d' = categories (pd_objects p)" using both by (simp add: d' removal_kept_def)
  show "removal_open (obj_id ob) d'" if "ob \<in> set (objects (pd_objects p))" "doomed p ob" "removable ob" for ob
    using both that by (simp add: d' removal_kept_def)
qed

end
