(* ===== verification/ModeChangeProperties.thy ===== *)
theory ModeChangeProperties
  imports ModeChange
begin

text \<open>
  What the change of the competition mode guarantees: it runs only for an administrator who has seen, in a
  preview that still holds, what it destroys; it resets the competition and nothing else; it signs out every
  participant and no administrator; the objects of the competition are on their way to deletion; and a preview
  that is confirmed in time is carried out.
\<close>

lemma parse_mode_known: "parse_mode v = Inr m \<Longrightarrow> competition_mode m"
  by (auto simp: parse_mode_def competition_mode_def Let_def split: if_splits)

lemma transaction_changes:
  assumes "transition_transaction fault body c = (r, c')" "c' \<noteq> c \<or> r = Inr x"
  obtains y where "body c = (Inr y, c')" "fault \<in> {None, Some Commit_Unknown}" "r = Inr x \<longrightarrow> x = y"
  using assms
  by (auto simp: transition_transaction_def split: option.splits transition_fault.splits prod.splits sum.splits if_splits)

lemma execute_cases:
  assumes "execute env tk fault u request c = (r, c')" "c' \<noteq> c \<or> r = Inr x"
  obtains target pc y where "is_admin u" "parse_mode (rq_target_mode request) = Inr target"
    "trim (rq_confirmation request) = confirmation_phrase target"
    "verify_preview_token env (tk_verify tk) (rq_preview_token request) = Inr pc"
    "pc_actor_user_id pc = cu_id u" "pc_target_mode pc = target"
    "prepare_transition env tk u target pc c = (Inr y, c')" "fault \<in> {None, Some Commit_Unknown}" "r = Inr x \<longrightarrow> x = y"
proof -
  have "is_admin u" using assms by (cases "is_admin u") (auto simp: execute_def require_admin_def)
  moreover obtain target where target: "parse_mode (rq_target_mode request) = Inr target"
    using assms \<open>is_admin u\<close> by (cases "parse_mode (rq_target_mode request)") (auto simp: execute_def require_admin_def)
  moreover have phrase: "trim (rq_confirmation request) = confirmation_phrase target"
    using assms \<open>is_admin u\<close> target by (rule_tac ccontr) (auto simp: execute_def require_admin_def require_def)
  moreover obtain pc where pc: "verify_preview_token env (tk_verify tk) (rq_preview_token request) = Inr pc"
    using assms \<open>is_admin u\<close> target phrase
    by (cases "verify_preview_token env (tk_verify tk) (rq_preview_token request)")
       (auto simp: execute_def require_admin_def require_def)
  moreover have actor: "pc_actor_user_id pc = cu_id u \<and> pc_target_mode pc = target"
    using assms \<open>is_admin u\<close> target phrase pc
    by (rule_tac ccontr) (auto simp: execute_def require_admin_def require_def)
  moreover have "transition_transaction fault (prepare_transition env tk u target pc) c = (r, c')"
    using assms(1) \<open>is_admin u\<close> target phrase pc actor by (simp add: execute_def require_admin_def require_def)
  from transaction_changes [OF this assms(2)] obtain y where "prepare_transition env tk u target pc c = (Inr y, c')"
    "fault \<in> {None, Some Commit_Unknown}" "r = Inr x \<longrightarrow> x = y" .
  ultimately show ?thesis using that by blast
qed

lemma execute_changed:
  assumes "execute env tk fault u request c = (r, c')" "c' \<noteq> c \<or> r = Inr x"
  obtains target ts where "parse_mode (rq_target_mode request) = Inr target" "competition_mode target"
    "ct_transitions c = Some ts" "c' = changed_contest tk (cu_id u) target ts c" "stored_mode (ct_portal c) \<noteq> target"
proof (rule execute_cases [OF assms])
  fix target pc y assume target: "parse_mode (rq_target_mode request) = Inr target"
    and run: "prepare_transition env tk u target pc c = (Inr y, c')"
  note known = parse_mode_known [OF target]
  from prepare_Inr [OF run known] obtain ts where "ct_transitions c = Some ts" "c' = changed_contest tk (cu_id u) target ts c"
    and "stored_mode (ct_portal c) \<noteq> target" by (auto simp: change_permitted_def confirm_Inr)
  with target known show thesis by (rule that)
qed

lemma split_at_char_join: "c \<notin> set w \<Longrightarrow> split_at_char c (w @ c # s) = w # split_at_char c s"
  by (induction w) auto

lemma split_at_char_one: "c \<notin> set w \<Longrightarrow> split_at_char c w = [w]"
  by (induction w) auto

lemma split_at_char_two: "split_at_char c s = [a, b] \<Longrightarrow> s = a @ c # b"
proof -
  have ne: "split_at_char c s \<noteq> []" for s by (induction s) (auto split: list.splits)
  have one: "split_at_char c s = [a] \<Longrightarrow> s = a" for s a
    by (induction s arbitrary: a) (auto simp: ne split: if_splits list.splits)
  show "split_at_char c s = [a, b] \<Longrightarrow> s = a @ c # b"
    by (induction s arbitrary: a) (auto split: if_splits list.splits dest: one simp: ne)
qed

text \<open>An accepted token is the one that the server makes for its payload.\<close>

lemma verify_token_Inr:
  assumes "verify_preview_token env now token = Inr pc"
  shows "\<exists>payload. trim token = payload @ ''.'' @ te_encode env (token_mac env payload) \<and>
    Option.bind (te_decode env payload) (te_parse_claims env) = Some pc" "claims_acceptable now pc"
  using assms
  by (auto simp: verify_preview_token_def decode_canonical_def Let_def split: if_splits list.splits sum.splits option.splits
      dest!: split_at_char_two)

section \<open>When it runs\<close>

text \<open>
  C8. Whatever a request to change the mode answers, it has changed nothing unless all of this holds: its user is
  an administrator whose credential is still valid, no challenge runtime is active, the confirmation names the mode,
  and the token carries the server's authentication code, was issued to this administrator for this change, has
  not expired, and describes the tables as they are: their mode, every count that was shown, and the fingerprint.
\<close>

theorem mode_change_needs_matching_preview:
  assumes "execute env tk fault u request c = (r, c')" "c' \<noteq> c"
  shows "\<exists>target pc payload. is_admin u \<and> credential_valid (tk_db tk) (te_session_lifetime env) u (ct_portal c) \<and>
    parse_mode (rq_target_mode request) = Inr target \<and>
    trim (rq_confirmation request) = confirmation_phrase target \<and>
    trim (rq_preview_token request) = payload @ ''.'' @ te_encode env (token_mac env payload) \<and>
    Option.bind (te_decode env payload) (te_parse_claims env) = Some pc \<and>
    pc_actor_user_id pc = cu_id u \<and> pc_target_mode pc = target \<and> tk_prepare tk < pc_expires_at pc \<and>
    pc_source_mode pc = stored_mode (ct_portal c) \<and> stored_mode (ct_portal c) \<noteq> target \<and>
    pc_affected pc = affected_by c \<and> pc_fingerprint pc = sn_fingerprint (load_snapshot env c) \<and>
    list_all (\<lambda>i. \<not> ins_active i) (rt_instances (pd_runtime (ct_portal c)))"
proof (rule execute_cases [OF assms(1)])
  fix target pc y
  assume known: "is_admin u" "parse_mode (rq_target_mode request) = Inr target"
    "trim (rq_confirmation request) = confirmation_phrase target"
    "pc_actor_user_id pc = cu_id u" "pc_target_mode pc = target"
    and token: "verify_preview_token env (tk_verify tk) (rq_preview_token request) = Inr pc"
    and run: "prepare_transition env tk u target pc c = (Inr y, c')"
  have "change_permitted env tk u target pc c" by (rule prepare_Inr [OF run parse_mode_known [OF known(2)]])
  moreover from this have "list_all (\<lambda>i. \<not> ins_active i) (rt_instances (pd_runtime (ct_portal c)))"
    by (simp add: change_permitted_def confirm_Inr affected_by_def Let_def filter_empty_conv list_all_iff)
  moreover from verify_token_Inr(1) [OF token] obtain payload where
    "trim (rq_preview_token request) = payload @ ''.'' @ te_encode env (token_mac env payload)"
    "Option.bind (te_decode env payload) (te_parse_claims env) = Some pc" by blast
  ultimately show ?thesis using known
    by (intro exI [of _ target] exI [of _ pc] exI [of _ payload]) (auto simp: change_permitted_def confirm_Inr)
qed (use assms(2) in simp_all)

section \<open>What it leaves\<close>

text \<open>Every solve has its submission (the foreign key of \<open>solves\<close>).\<close>

definition solves_submitted :: "portal_db \<Rightarrow> bool" where
  "solves_submitted p \<longleftrightarrow> list_all (\<lambda>s. list_ex (\<lambda>r. sub_id r = slv_id s) (pd_submissions p)) (pd_solves p)"

lemma set_user_mode_config:
  "config_string k (set_user_mode target p) = (if k = ''user_mode'' then Some target else config_string k p)"
proof (cases "k = ''user_mode''")
  case True
  have "List.find (\<lambda>(k, _). k = ''user_mode'') (map (\<lambda>(k, v). if k = ''user_mode'' then (k, Some target) else (k, v)) kvs)
      = Some (''user_mode'', Some target)" if "list_ex (\<lambda>(k, _). k = ''user_mode'') kvs" for kvs
    using that by (induction kvs) (auto split: if_splits)
  moreover have "List.find (\<lambda>(k, _). k = ''user_mode'') (kvs @ [(''user_mode'', Some target)]) = Some (''user_mode'', Some target)"
    if "\<not> list_ex (\<lambda>(k, _). k = ''user_mode'') kvs" for kvs
    using that by (induction kvs) auto
  ultimately show ?thesis using True by (simp add: config_string_def set_user_mode_def)
next
  case False
  have "List.find (\<lambda>(k', _). k' = k) (map (\<lambda>(k, v). if k = ''user_mode'' then (k, Some target) else (k, v)) kvs)
      = List.find (\<lambda>(k', _). k' = k) kvs" for kvs :: "(string \<times> string option) list"
    using False by (induction kvs) (auto split: if_splits)
  moreover have "List.find (\<lambda>(k', _). k' = k) (kvs @ [(''user_mode'', Some target)]) = List.find (\<lambda>(k', _). k' = k) kvs"
    for kvs :: "(string \<times> string option) list"
    using False by (induction kvs) auto
  ultimately show ?thesis using False by (simp add: config_string_def set_user_mode_def)
qed

text \<open>What the change leaves alone, and the new participant tokens.\<close>

lemma others_kept:
  "ct_brackets (snd (remove_teams now c)) = ct_brackets c" "ct_user_brackets (snd (remove_teams now c)) = ct_user_brackets c"
  "ct_team_details (snd (remove_teams now c)) = ct_team_details c" "ct_captains (snd (remove_teams now c)) = ct_captains c"
  "ct_sharing_ids (snd (remove_teams now c)) = ct_sharing_ids c"
  "ct_participant_tokens (snd (remove_teams now c)) = ct_participant_tokens c"
  "ct_brackets (clear_competition_state c) = ct_brackets c" "ct_user_brackets (clear_competition_state c) = ct_user_brackets c"
  "ct_team_details (clear_competition_state c) = ct_team_details c" "ct_captains (clear_competition_state c) = ct_captains c"
  "ct_sharing_ids (clear_competition_state c) = ct_sharing_ids c"
  "ct_participant_tokens (clear_competition_state c) = ct_participant_tokens c"
  by (simp_all add: remove_teams_eq clear_competition_state_def Let_def)

lemma changed_others:
  "ct_brackets (changed_contest tk actor target ts c) = ct_brackets c"
  "ct_user_brackets (changed_contest tk actor target ts c) = ct_user_brackets c"
  "ct_team_details (changed_contest tk actor target ts c) = ct_team_details c"
  "ct_captains (changed_contest tk actor target ts c) = ct_captains c"
  "ct_sharing_ids (changed_contest tk actor target ts c) = ct_sharing_ids c"
  "ct_participant_tokens (changed_contest tk actor target ts c) =
     (\<lambda>i. if of_participant (Some i) (ct_portal c) then Some (uuid_text (tk_fresh tk i)) else ct_participant_tokens c i)"
  "pd_next_submission (ct_portal (changed_contest tk actor target ts c)) = pd_next_submission (ct_portal c)"
proof -
  show "ct_brackets (changed_contest tk actor target ts c) = ct_brackets c"
    "ct_user_brackets (changed_contest tk actor target ts c) = ct_user_brackets c"
    "ct_team_details (changed_contest tk actor target ts c) = ct_team_details c"
    "ct_captains (changed_contest tk actor target ts c) = ct_captains c"
    "ct_sharing_ids (changed_contest tk actor target ts c) = ct_sharing_ids c"
    by (simp_all add: changed_contest_def Let_def others_kept on_portal_def rotate_participant_credentials_def)
  show "ct_participant_tokens (changed_contest tk actor target ts c) =
     (\<lambda>i. if of_participant (Some i) (ct_portal c) then Some (uuid_text (tk_fresh tk i)) else ct_participant_tokens c i)"
    by (auto simp: changed_contest_def Let_def others_kept on_portal_def rotate_participant_credentials_def revoked_eq
        of_participant_def fun_eq_iff)
  show "pd_next_submission (ct_portal (changed_contest tk actor target ts c)) = pd_next_submission (ct_portal c)"
    by (simp add: changed_portal set_user_mode_def without_teams_def cleared_def signed_out_def revoked_eq Let_def
        schedule_user_competition_object_deletion_def)
qed

lemma changed_record:
  assumes "solves_submitted (ct_portal c)"
  shows "changed_contest tk actor target ts c = c\<lparr>
      ct_portal := (ct_portal c)\<lparr>
        pd_config := pd_config (set_user_mode target (ct_portal c)),
        pd_users := map free_user (pd_users (ct_portal c)), pd_teams := [],
        pd_tokens := filter (\<lambda>t. \<not> of_participant (tok_user_id t) (ct_portal c)) (pd_tokens (ct_portal c)),
        pd_sessions := update_where (\<lambda>s. of_participant (Some (ses_user_id s)) (ct_portal c) \<and> ses_revoked_at s = None)
          (\<lambda>s. s\<lparr>ses_revoked_at := Some (tk_db tk)\<rparr>) (pd_sessions (ct_portal c)),
        pd_challenges := map reset_challenge (pd_challenges (ct_portal c)),
        pd_user_flags := [], pd_submissions := [], pd_solves := [], pd_sharing := [],
        pd_objects := pd_objects (ct_portal (changed_contest tk actor target ts c))\<rparr>,
      ct_awards := [], ct_unlocks := [], ct_tracking := [],
      ct_notifications := filter (\<lambda>n. ti_team_id n = None) (ct_notifications c),
      ct_field_entries := filter (\<lambda>e. \<not> of_team (ct_portal c) (ti_team_id e)) (ct_field_entries c),
      ct_comments := filter (\<lambda>e. \<not> of_team (ct_portal c) (ti_team_id e)) (ct_comments c),
      ct_participant_tokens :=
        (\<lambda>i. if of_participant (Some i) (ct_portal c) then Some (uuid_text (tk_fresh tk i)) else ct_participant_tokens c i),
      ct_transitions := Some (ts @ [\<lparr>tr_id = tk_audit_id tk, tr_actor_user_id = actor,
        tr_source_mode = stored_mode (ct_portal c), tr_target_mode = target, tr_affected = affected_by c\<rparr>])\<rparr>"
proof -
  note facts = changed_fields [of tk actor target ts c] changed_others [of tk actor target ts c]
    changed_rest [OF assms [unfolded solves_submitted_def], of tk actor target ts]
  show ?thesis
    by (rule contest.equality, rule portal_db.equality) (simp_all add: facts)
qed

text \<open>
  C13. What a change of the mode does to every table: the portal is in the new mode, with every other setting as it was;
  there is no submission, solve, personal flag, sharing event, award, unlock or view left, no team, no member of one
  and no notification, entry or comment of one; dynamic challenges are worth their initial value again;
  the sessions of participants are revoked, their API tokens deleted and their participant tokens replaced; and the
  history records the change with the counts that were shown. The objects are the subject of C13. Everything
  else is as it was: accounts but for their team, brackets and who is in which, flags, pages, solutions, challenge
  runtimes, the credentials of administrators.
\<close>

theorem mode_change_resets_competition:
  assumes "execute env tk fault u request c = (Inr data, c')" "solves_submitted (ct_portal c)"
  shows "\<exists>target ts config object_tables. parse_mode (rq_target_mode request) = Inr target \<and> ct_transitions c = Some ts \<and>
    (\<forall>k. config_string k (ct_portal c') = (if k = ''user_mode'' then Some target else config_string k (ct_portal c))) \<and>
    c' = c\<lparr>
      ct_portal := (ct_portal c)\<lparr>
        pd_config := config,
        pd_users := map (\<lambda>a. a\<lparr>usr_team_id := None\<rparr>) (pd_users (ct_portal c)), pd_teams := [],
        pd_tokens := filter (\<lambda>t. \<not> of_participant (tok_user_id t) (ct_portal c)) (pd_tokens (ct_portal c)),
        pd_sessions := map (\<lambda>s. if of_participant (Some (ses_user_id s)) (ct_portal c) \<and> ses_revoked_at s = None
          then s\<lparr>ses_revoked_at := Some (tk_db tk)\<rparr> else s) (pd_sessions (ct_portal c)),
        pd_challenges := map (\<lambda>h. if ch_type h = Some ''dynamic'' then h\<lparr>ch_value := initial_value h\<rparr> else h)
          (pd_challenges (ct_portal c)),
        pd_user_flags := [], pd_submissions := [], pd_solves := [], pd_sharing := [], pd_objects := object_tables\<rparr>,
      ct_awards := [], ct_unlocks := [], ct_tracking := [],
      ct_notifications := filter (\<lambda>n. ti_team_id n = None) (ct_notifications c),
      ct_field_entries := filter (\<lambda>e. \<not> of_team (ct_portal c) (ti_team_id e)) (ct_field_entries c),
      ct_comments := filter (\<lambda>e. \<not> of_team (ct_portal c) (ti_team_id e)) (ct_comments c),
      ct_participant_tokens :=
        (\<lambda>i. if of_participant (Some i) (ct_portal c) then Some (uuid_text (tk_fresh tk i)) else ct_participant_tokens c i),
      ct_transitions := Some (ts @ [\<lparr>tr_id = tk_audit_id tk, tr_actor_user_id = cu_id u,
        tr_source_mode = stored_mode (ct_portal c), tr_target_mode = target, tr_affected = affected_by c\<rparr>])\<rparr>"
proof (rule execute_changed [OF assms(1), where x = data])
  fix target ts assume target: "parse_mode (rq_target_mode request) = Inr target" "ct_transitions c = Some ts"
    and c': "c' = changed_contest tk (cu_id u) target ts c"
  have "config_string k (ct_portal c') = (if k = ''user_mode'' then Some target else config_string k (ct_portal c))" for k
    using set_user_mode_config [of k target "ct_portal c"] by (simp add: c' config_string_def changed_fields)
  moreover note changed_record [OF assms(2), of tk "cu_id u" target ts, folded c',
    unfolded free_user_def [abs_def] reset_challenge_def [abs_def] update_where_def]
  ultimately show ?thesis using target by blast
qed simp

section \<open>Who is still signed in\<close>

lemma find_free_user: "List.find (\<lambda>u. usr_id u = i) (map free_user us) = map_option free_user (List.find (\<lambda>u. usr_id u = i) us)"
  by (induction us) (auto simp: free_user_def)

lemma participants_signed_out:
  assumes "credential_valid now lifetime v (ct_portal (changed_contest tk actor target ts c))"
  shows "is_admin v"
proof (rule ccontr)
  let ?p = "ct_portal c"
  assume "\<not> is_admin v"
  moreover from assms obtain a where a: "List.find (\<lambda>u. usr_id u = cu_id v) (pd_users ?p) = Some a"
    "coalesce (usr_type (free_user a)) ''user'' = cu_type v"
    by (auto simp: credential_valid_def account_in_order_def find_user_def changed_fields find_free_user
        split: option.splits)
  moreover from a have "a \<in> set (pd_users ?p)" "usr_id a = cu_id v" by (auto simp: find_Some_iff)
  ultimately have "of_participant (Some (cu_id v)) ?p"
    unfolding of_participant_def by (intro bexI [of _ a]) (auto simp: participant_def is_admin_def free_user_def)
  with assms show False
    by (auto simp: credential_valid_def changed_fields set_update_where session_live_def split: credential.splits)
qed

lemma admins_stay:
  assumes "distinct (map usr_id (pd_users (ct_portal c)))" "is_admin v" "credential_valid now lifetime v (ct_portal c)"
  shows "credential_valid now lifetime v (ct_portal (changed_contest tk actor target ts c))"
proof -
  let ?p = "ct_portal c"
  from assms(3) obtain a where a: "find_user (cu_id v) ?p = Some a" "coalesce (usr_type a) ''user'' = cu_type v"
    "\<not> is_true (usr_banned a)" "\<not> is_true (usr_change_password a)"
    by (auto simp: credential_valid_def account_in_order_def split: option.splits)
  then have mem: "a \<in> set (pd_users ?p)" "usr_id a = cu_id v" by (auto simp: find_user_def find_Some_iff)
  have free: "\<not> of_participant (Some (cu_id v)) ?p"
  proof
    assume "of_participant (Some (cu_id v)) ?p"
    then obtain b where b: "b \<in> set (pd_users ?p)" "usr_id b = cu_id v" "participant b" by (auto simp: of_participant_def)
    with mem assms(1) have "b = a" by (auto intro: distinct_map_eq)
    with b(3) a(2) assms(2) show False by (simp add: participant_def is_admin_def)
  qed
  have "account_in_order v (ct_portal (changed_contest tk actor target ts c))"
    using a by (simp add: account_in_order_def find_user_def changed_fields find_free_user free_user_def team_banned_def)
  moreover have "s \<in> set (pd_sessions (ct_portal (changed_contest tk actor target ts c)))"
    if "s \<in> set (pd_sessions ?p)" "ses_user_id s = cu_id v" for s
    using that free by (auto simp: changed_fields set_update_where)
  moreover have "t \<in> set (pd_tokens (ct_portal (changed_contest tk actor target ts c)))"
    if "t \<in> set (pd_tokens ?p)" "tok_user_id t = Some (cu_id v)" for t
    using that free by (simp add: changed_fields)
  ultimately show ?thesis using assms(3) by (auto simp: credential_valid_def split: credential.splits)
qed

text \<open>
  C11. After a change of the mode no credential of a participant is valid any more, neither a session nor an API
  token, while an administrator whose credential was valid keeps it.
\<close>

theorem mode_change_signs_participants_out:
  assumes "execute env tk fault u request c = (r, c')" "c' \<noteq> c" "distinct (map usr_id (pd_users (ct_portal c)))"
  shows "(credential_valid now lifetime v (ct_portal c') \<longrightarrow> is_admin v) \<and>
    (is_admin v \<and> credential_valid now lifetime v (ct_portal c) \<longrightarrow> credential_valid now lifetime v (ct_portal c'))"
proof (rule execute_changed [OF assms(1)])
  fix target ts assume c': "c' = changed_contest tk (cu_id u) target ts c"
  show ?thesis unfolding c' using participants_signed_out admins_stay [OF assms(3)] by blast
qed (use assms(2) in simp)

section \<open>Its objects\<close>

text \<open>
  C14. A change of the mode keeps the invariant of the storage plane. Every object that a participant uploaded for
  the competition or that belongs to a team is deleting afterwards, or was deleted before, and the removal of
  both its copies is queued; the other objects stay as they are.
\<close>

theorem mode_change_removes_objects:
  assumes "execute env tk fault u request c = (r, c')" "c' \<noteq> c" "storage_ok (pd_objects (ct_portal c))"
  shows "storage_ok (pd_objects (ct_portal c')) \<and>
    objects (pd_objects (ct_portal c')) = map (settled (ct_portal c)) (objects (pd_objects (ct_portal c))) \<and>
    categories (pd_objects (ct_portal c')) = categories (pd_objects (ct_portal c)) \<and>
    (\<forall>ob \<in> set (objects (pd_objects (ct_portal c))). doomed (ct_portal c) ob \<and> removable ob \<longrightarrow>
       open_at (obj_id ob) Op_Delete (pd_objects (ct_portal c')) \<and>
       open_at (obj_id ob) Op_Delete_Upload (pd_objects (ct_portal c')))"
proof (rule execute_changed [OF assms(1)])
  fix target ts assume c': "c' = changed_contest tk (cu_id u) target ts c"
  show ?thesis using changed_objects [OF assms(3), where tk = tk and actor = "cu_id u" and target = target and ts = ts] by (simp add: c' removal_open_def)
qed (use assms(2) in simp)

section \<open>A confirmed preview is carried out\<close>

text \<open>What is documented of the base64url codec and of SHA-256 in hexadecimal form.\<close>

definition codec_laws :: "transition_env \<Rightarrow> bool" where
  "codec_laws env \<longleftrightarrow>
     (\<forall>s. te_decode env (te_encode env s) = Some s \<and> CHR ''.'' \<notin> set (te_encode env s) \<and>
        length (te_digest env s) = 64 \<and> list_all hex_digit_char (te_digest env s))"

lemma signed_token_verifies:
  assumes "codec_laws env" "te_parse_claims env (te_claims_json env pc) = Some pc" "claims_acceptable now pc"
    and "trim token = sign_preview_token env pc" "length (sign_preview_token env pc) \<le> preview_token_max_length"
  shows "verify_preview_token env now token = Inr pc"
proof -
  let ?payload = "te_encode env (te_claims_json env pc)"
  have "decode_canonical env (te_encode env s) = Inr s" for s using assms(1) by (simp add: decode_canonical_def codec_laws_def)
  moreover have "split_at_char CHR ''.'' (sign_preview_token env pc) = [?payload, te_encode env (token_mac env ?payload)]"
    using assms(1) by (simp add: sign_preview_token_def Let_def codec_laws_def split_at_char_join split_at_char_one)
  moreover have "sign_preview_token env pc \<noteq> []" by (simp add: sign_preview_token_def Let_def)
  ultimately show ?thesis using assms(2-5) by (simp add: verify_preview_token_def Let_def)
qed

lemma preview_Inr:
  assumes "preview env now fault u query c = (Inr pv, c')"
  shows "is_admin u" "fault = None" "parse_mode query = Inr (pv_target_mode pv)"
    "pv_blocked pv \<longleftrightarrow> fst (consequences (load_snapshot env c) (pv_target_mode pv)) \<noteq> []"
    "pv_preview_token pv = (if pv_blocked pv then None else
       Some (sign_preview_token env (preview_claims_for now u (pv_target_mode pv) (load_snapshot env c))))"
    "pv_confirmation_phrase pv = confirmation_phrase (pv_target_mode pv)" "pv_affected pv = affected_by c"
  using assms unfolding preview_def
  by (auto elim!: and_then_Inr_cases simp: require_admin_def require_def Let_def split_beta
      split: if_splits option.splits transition_fault.splits)

lemma confirmed_run:
  assumes pv: "preview env now fault u query c = (Inr pv, c)" "pv_preview_token pv = Some token"
    and laws: "codec_laws env" "length token \<le> preview_token_max_length"
      "let claims = preview_claims_for now u (pv_target_mode pv) (load_snapshot env c) in
         te_parse_claims env (te_claims_json env claims) = Some claims"
    and clock: "now \<le> tk_verify tk + 30" "tk_verify tk < now + 5 * 60" "tk_prepare tk < now + 5 * 60"
    and user: "credential_valid (tk_db tk) (te_session_lifetime env) u (ct_portal c)"
    and request: "parse_mode (rq_target_mode request) = Inr (pv_target_mode pv)"
      "trim (rq_confirmation request) = pv_confirmation_phrase pv" "trim (rq_preview_token request) = token"
  obtains ts where "execute env tk None u request c =
      (Inr (change_summary tk (pv_target_mode pv) c), changed_contest tk (cu_id u) (pv_target_mode pv) ts c)"
    "pv_affected pv = affected_by c" "ct_transitions c = Some ts"
proof -
  let ?pc = "preview_claims_for now u (pv_target_mode pv) (load_snapshot env c)"
  note facts = preview_Inr [OF pv(1)]
  from pv(2) facts(5) have token: "token = sign_preview_token env ?pc" and free: "\<not> pv_blocked pv"
    by (auto split: if_splits)
  then have open_way: "competition_mode (stored_mode (ct_portal c))" "stored_mode (ct_portal c) \<noteq> pv_target_mode pv"
    "ct_transitions c \<noteq> None" "af_active_runtimes (affected_by c) = 0"
    using facts(4) by (auto simp: consequences_def load_snapshot_def split: if_splits)
  note known = parse_mode_known [OF facts(3)]
  have "claims_acceptable (tk_verify tk) ?pc"
    using laws(1) clock open_way known
    by (simp add: claims_acceptable_def preview_claims_for_def preview_token_ttl_def load_snapshot_def codec_laws_def)
  with laws token request(3) have verified: "verify_preview_token env (tk_verify tk) (rq_preview_token request) = Inr ?pc"
    by (intro signed_token_verifies) (simp_all add: Let_def)
  have "change_permitted env tk u (pv_target_mode pv) ?pc c"
    using user open_way known clock(3)
    by (simp add: change_permitted_def confirm_Inr preview_claims_for_def preview_token_ttl_def)
  moreover from open_way(3) obtain ts where ts: "ct_transitions c = Some ts" by blast
  ultimately have "prepare_transition env tk u (pv_target_mode pv) ?pc c =
      (Inr (change_summary tk (pv_target_mode pv) c), changed_contest tk (cu_id u) (pv_target_mode pv) ts c)"
    by (rule prepare_transition_eq)
  then have "execute env tk None u request c =
      (Inr (change_summary tk (pv_target_mode pv) c), changed_contest tk (cu_id u) (pv_target_mode pv) ts c)"
    using facts(1,6) request(1,2) verified
    by (simp add: execute_def require_admin_def transition_transaction_def preview_claims_for_def)
  then show thesis using facts(7) ts by (rule that)
qed

text \<open>
  C12. A preview that reports no obstacle can be carried out. As long as the tables are as they were, the administrator's
  credential is valid and the five minutes have not passed on the server's clock, the request that names the same
  mode, repeats the phrase and returns the token changes the mode, and reports the counts that the preview showed.
\<close>

theorem confirmed_preview_is_carried_out:
  assumes pv: "preview env now fault u query c = (Inr pv, c)" "pv_preview_token pv = Some token"
    and laws: "codec_laws env" "length token \<le> preview_token_max_length"
      "let claims = preview_claims_for now u (pv_target_mode pv) (load_snapshot env c) in
         te_parse_claims env (te_claims_json env claims) = Some claims"
    and clock: "now \<le> tk_verify tk + 30" "tk_verify tk < now + 5 * 60" "tk_prepare tk < now + 5 * 60"
    and user: "credential_valid (tk_db tk) (te_session_lifetime env) u (ct_portal c)"
    and request: "parse_mode (rq_target_mode request) = Inr (pv_target_mode pv)"
      "trim (rq_confirmation request) = pv_confirmation_phrase pv" "trim (rq_preview_token request) = token"
  shows "\<exists>data c'. execute env tk None u request c = (Inr data, c') \<and>
    td_target_mode data = pv_target_mode pv \<and> td_affected data = pv_affected pv"
proof -
  obtain ts where "execute env tk None u request c =
      (Inr (change_summary tk (pv_target_mode pv) c), changed_contest tk (cu_id u) (pv_target_mode pv) ts c)"
    "pv_affected pv = affected_by c" "ct_transitions c = Some ts" by (rule confirmed_run [OF assms])
  then show ?thesis by (simp add: change_summary_def Let_def)
qed

end
