(* ===== verification/ModeChangeExamples.thy ===== *)
theory ModeChangeExamples
  imports ModeChangeProperties StoragePlaneExamples
begin

text \<open>
  A competition of users with an administrator, a participant in a team, a solved challenge and stored objects,
  on which the theorems about the change of the competition mode are applied.
\<close>

section \<open>A competition\<close>

definition mode_portal :: portal_db where
  "mode_portal = storage_portal\<lparr>
     pd_users := [sample_user\<lparr>usr_id := 1, usr_type := Some ''admin''\<rparr>, sample_user\<lparr>usr_team_id := Some 5\<rparr>],
     pd_teams := [\<lparr>tm_id = 5, tm_banned = None, tm_hidden = None\<rparr>],
     pd_sessions := [sample_session, sample_session\<lparr>ses_id := ''a'', ses_user_id := 1\<rparr>],
     pd_submissions := [\<lparr>sub_id = 1, sub_challenge_id = 6, sub_user_id = 4, sub_team_id = Some 5, sub_ip = None,
       sub_provided = ''flag'', sub_type = ''correct'', sub_date = 0\<rparr>],
     pd_solves := [\<lparr>slv_id = 1, slv_challenge_id = 6, slv_user_id = 4, slv_team_id = Some 5\<rparr>]\<rparr>"

definition mode_contest :: contest where
  "mode_contest = \<lparr>ct_portal = mode_portal,
     ct_awards = [\<lparr>aw_id = 1, aw_user_id = Some 4, aw_team_id = Some 5, aw_value = Some 10, aw_date = Some 0\<rparr>],
     ct_unlocks = [2], ct_tracking = [3], ct_notifications = [\<lparr>ti_id = 1, ti_team_id = Some 5\<rparr>],
     ct_field_entries = [], ct_comments = [], ct_transitions = Some [], ct_brackets = [],
     ct_user_brackets = (\<lambda>_. None),
     ct_team_details = (\<lambda>_. \<lparr>ad_name = None, ad_bracket_id = None\<rparr>),
     ct_captains = (\<lambda>_. None), ct_sharing_ids = (\<lambda>_. 0), ct_participant_tokens = (\<lambda>_. None)\<rparr>"

definition mode_admin :: current_user where
  "mode_admin = sample_caller\<lparr>cu_id := 1, cu_type := ''admin'', cu_credential := Internal_Session ''a''\<rparr>"

text \<open>A codec that has no dot in its output.\<close>

fun dotless :: "string \<Rightarrow> string" where
  "dotless [] = []"
| "dotless (c # cs) = (if c = CHR ''.'' then ''xy'' else if c = CHR ''x'' then ''xx'' else [c]) @ dotless cs"

fun undotless :: "string \<Rightarrow> string option" where
  "undotless [] = Some []"
| "undotless [c] = (if c = CHR ''x'' then None else Some [c])"
| "undotless (c # e # cs) =
     (if c = CHR ''x'' then map_option ((#) (if e = CHR ''y'' then CHR ''.'' else e)) (undotless cs)
      else map_option ((#) c) (undotless (e # cs)))"

lemma dotless_laws: "undotless (dotless s) = Some s" "CHR ''.'' \<notin> set (dotless s)"
proof -
  have other: "c \<noteq> CHR ''x'' \<Longrightarrow> undotless (c # cs) = map_option ((#) c) (undotless cs)" for c cs
    by (cases cs) auto
  show "undotless (dotless s) = Some s" by (induction s) (auto simp: other)
  show "CHR ''.'' \<notin> set (dotless s)" by (induction s) auto
qed

definition mode_claims :: preview_claims where
  "mode_claims = \<lparr>pc_version = 1, pc_actor_user_id = 1, pc_source_mode = ''users'', pc_target_mode = ''teams'',
     pc_affected = affected_by mode_contest, pc_snapshot = affected_by mode_contest, pc_fingerprint = sample_checksum,
     pc_issued_at = 100, pc_expires_at = 400\<rparr>"

definition mode_env :: transition_env where
  "mode_env = \<lparr>te_secret = ''key'', te_session_lifetime = 3600, te_hmac = (\<lambda>_ _. ''mac''), te_encode = dotless,
     te_decode = undotless, te_claims_json = (\<lambda>_. ''claims''),
     te_parse_claims = (\<lambda>s. if s = ''claims'' then Some mode_claims else None),
     te_row_hash = (\<lambda>_ _. 0), te_digest = (\<lambda>_. sample_checksum)\<rparr>"

definition mode_clock :: transition_clock where
  "mode_clock = \<lparr>tk_verify = 100, tk_prepare = 100, tk_db = secs 100, tk_fresh = (\<lambda>_. 1), tk_audit_id = 1\<rparr>"

definition mode_request :: transition_request where
  "mode_request = \<lparr>rq_target_mode = ''teams'', rq_confirmation = ''SWITCH TO TEAMS'', rq_preview_token = ''claims.mac''\<rparr>"

definition mode_preview :: preview_data where
  "mode_preview = \<lparr>pv_source_mode = ''users'', pv_target_mode = ''teams'', pv_confirmation_phrase = ''SWITCH TO TEAMS'',
     pv_preview_token = Some ''claims.mac'', pv_expires_at = Some 400, pv_blocked = False, pv_blockers = [],
     pv_warnings = [], pv_affected = affected_by mode_contest\<rparr>"

lemma mode_trims: "trim ''SWITCH TO TEAMS'' = ''SWITCH TO TEAMS''" "trim ''claims.mac'' = ''claims.mac''" "trim ''teams'' = ''teams''"
  by (rule trim_letters, simp, simp, simp)+

lemma mode_modes: "parse_mode ''teams'' = Inr ''teams''" "confirmation_phrase ''teams'' = ''SWITCH TO TEAMS''"
proof -
  show "parse_mode ''teams'' = Inr ''teams''"
    by (simp add: parse_mode_def mode_trims to_ascii_lowercase_def ascii_lower_def Let_def)
  show "confirmation_phrase ''teams'' = ''SWITCH TO TEAMS''" by code_simp
qed

lemma mode_stored: "stored_mode mode_portal = ''users''"
  by (simp add: stored_mode_def config_string_def mode_portal_def storage_portal_def sample_board_def sample_portal_def)

lemma mode_fields [simp]:
  "ct_portal mode_contest = mode_portal" "ct_transitions mode_contest = Some []"
  "tk_verify mode_clock = 100" "tk_prepare mode_clock = 100" "tk_db mode_clock = secs 100"
  "te_session_lifetime mode_env = 3600" "te_claims_json mode_env pc = ''claims''"
  "te_parse_claims mode_env ''claims'' = Some mode_claims" "te_digest mode_env t = sample_checksum"
  "rq_target_mode mode_request = ''teams''" "rq_confirmation mode_request = ''SWITCH TO TEAMS''"
  "rq_preview_token mode_request = ''claims.mac''" "is_admin mode_admin"
  by (simp_all add: mode_contest_def mode_clock_def mode_env_def mode_request_def mode_admin_def is_admin_def)

lemma mode_idle: "af_active_runtimes (affected_by mode_contest) = 0"
  by (simp add: affected_by_def Let_def mode_portal_def storage_portal_def sample_board_def sample_portal_def)

lemma mode_snapshot: "load_snapshot mode_env mode_contest =
   \<lparr>sn_source_mode = ''users'', sn_affected = affected_by mode_contest, sn_audit_ready = True, sn_fingerprint = sample_checksum\<rparr>"
  using mode_stored by (simp add: load_snapshot_def)

lemma mode_claims_signed: "preview_claims_for 100 mode_admin ''teams'' (load_snapshot mode_env mode_contest) = mode_claims"
  by (simp add: mode_snapshot preview_claims_for_def mode_claims_def mode_admin_def preview_token_ttl_def)

lemma mode_previewed: "preview mode_env 100 None mode_admin ''teams'' mode_contest = (Inr mode_preview, mode_contest)"
proof -
  have "sign_preview_token mode_env mode_claims = ''claims.mac''"
    by (simp add: sign_preview_token_def mode_env_def token_mac_def Let_def)
  then show ?thesis
    using mode_modes mode_trims mode_idle mode_stored
    by (simp add: preview_def require_admin_def mode_snapshot mode_claims_signed [unfolded mode_snapshot])
      (simp add: mode_claims_signed consequences_def competition_mode_def mode_preview_def preview_token_ttl_def)
qed

lemma mode_credential: "credential_valid (secs 100) 3600 mode_admin mode_portal"
  by code_simp

lemma mode_laws: "codec_laws mode_env"
proof -
  have "set sample_checksum = {CHR ''a''}" unfolding sample_checksum_def by (subst set_replicate) simp_all
  then show ?thesis
    by (simp add: codec_laws_def mode_env_def dotless_laws sample_checksum_ok(2) list_all_iff hex_digit_char_def Let_def)
qed

lemma mode_run:
  obtains data c' where "execute mode_env mode_clock None mode_admin mode_request mode_contest = (Inr data, c')"
    "c' = changed_contest mode_clock 1 ''teams'' [] mode_contest" "c' \<noteq> mode_contest"
proof -
  have "let claims = preview_claims_for 100 mode_admin (pv_target_mode mode_preview) (load_snapshot mode_env mode_contest) in
      te_parse_claims mode_env (te_claims_json mode_env claims) = Some claims"
    by (simp add: mode_preview_def mode_claims_signed)
  with mode_modes mode_trims mode_credential mode_laws obtain ts where
    "execute mode_env mode_clock None mode_admin mode_request mode_contest = (Inr (change_summary mode_clock
        (pv_target_mode mode_preview) mode_contest), changed_contest mode_clock (cu_id mode_admin) (pv_target_mode mode_preview) ts mode_contest)"
    and "ct_transitions mode_contest = Some ts"
    using confirmed_run [OF mode_previewed, of "''claims.mac''" mode_clock mode_request]
    by (auto simp: mode_preview_def preview_token_max_length_def)
  moreover have "changed_contest mode_clock 1 ''teams'' [] mode_contest \<noteq> mode_contest"
  proof
    assume "changed_contest mode_clock 1 ''teams'' [] mode_contest = mode_contest"
    then have "pd_teams mode_portal = []" using changed_fields(3) [of mode_clock 1 "''teams''" "[]" mode_contest] by simp
    then show False by (simp add: mode_portal_def)
  qed
  ultimately show thesis by (intro that) (simp_all add: mode_preview_def mode_admin_def)
qed

section \<open>The theorems on it\<close>

theorem confirmed_preview_is_carried_out_witness:
  "\<exists>data c'. execute mode_env mode_clock None mode_admin mode_request mode_contest = (Inr data, c') \<and>
    td_target_mode data = ''teams''"
  using confirmed_preview_is_carried_out [OF mode_previewed _ mode_laws, of "''claims.mac''" mode_clock mode_request]
    mode_modes mode_trims mode_credential
  by (simp add: mode_preview_def mode_claims_signed preview_token_max_length_def) blast

theorem mode_change_needs_matching_preview_witness:
  "\<exists>c' r target. execute mode_env mode_clock None mode_admin mode_request mode_contest = (r, c') \<and>
    parse_mode (rq_target_mode mode_request) = Inr target \<and> stored_mode (ct_portal mode_contest) \<noteq> target"
proof (rule mode_run)
  fix data c' assume run: "execute mode_env mode_clock None mode_admin mode_request mode_contest = (Inr data, c')"
    "c' \<noteq> mode_contest"
  from mode_change_needs_matching_preview [OF this] run(1) show ?thesis by blast
qed

theorem mode_change_resets_competition_witness:
  "\<exists>data c'. execute mode_env mode_clock None mode_admin mode_request mode_contest = (Inr data, c') \<and>
    pd_solves (ct_portal c') = [] \<and> config_string ''user_mode'' (ct_portal c') = Some ''teams''"
proof (rule mode_run)
  fix data c' assume run: "execute mode_env mode_clock None mode_admin mode_request mode_contest = (Inr data, c')"
  have "solves_submitted (ct_portal mode_contest)" by (simp add: solves_submitted_def mode_portal_def)
  from mode_change_resets_competition [OF run this] mode_modes(1)
  have "pd_solves (ct_portal c') = [] \<and> config_string ''user_mode'' (ct_portal c') = Some ''teams''" by auto
  with run show ?thesis by blast
qed

theorem mode_change_signs_participants_out_witness:
  "\<exists>data c'. execute mode_env mode_clock None mode_admin mode_request mode_contest = (Inr data, c') \<and>
    \<not> credential_valid (secs 100) 3600 sample_caller (ct_portal c') \<and>
    credential_valid (secs 100) 3600 mode_admin (ct_portal c')"
proof (rule mode_run)
  fix data c' assume run: "execute mode_env mode_clock None mode_admin mode_request mode_contest = (Inr data, c')"
    "c' \<noteq> mode_contest"
  have "distinct (map usr_id (pd_users (ct_portal mode_contest)))" by (simp add: mode_portal_def sample_user_def)
  note out = mode_change_signs_participants_out [OF run this]
  have "\<not> is_admin sample_caller" by (simp add: is_admin_def sample_caller_def)
  with out [of "secs 100" 3600 sample_caller] out [of "secs 100" 3600 mode_admin] mode_credential run(1)
  show ?thesis by auto
qed

theorem mode_change_removes_objects_witness:
  "\<exists>data c'. execute mode_env mode_clock None mode_admin mode_request mode_contest = (Inr data, c') \<and>
    storage_ok (pd_objects (ct_portal c')) \<and> open_at 5 Op_Delete (pd_objects (ct_portal c'))"
proof (rule mode_run)
  fix data c' assume run: "execute mode_env mode_clock None mode_admin mode_request mode_contest = (Inr data, c')"
    "c' \<noteq> mode_contest"
  have d: "pd_objects (ct_portal mode_contest) = storage_tables" by (simp add: mode_portal_def)
  then have "storage_ok (pd_objects (ct_portal mode_contest))" by (simp add: storage_tables_ok)
  note removed = mode_change_removes_objects [OF run this, unfolded d]
  have "ready_sample \<in> set (objects storage_tables)" "obj_id ready_sample = 5" "removable ready_sample"
    by (simp_all add: storage_samples removable_def)
  moreover have "doomed mode_portal ready_sample"
    by (simp add: doomed_def competition_object_def of_participant_def mode_portal_def storage_samples participant_def
        sample_user_def coalesce_def)
  ultimately have "open_at 5 Op_Delete (pd_objects (ct_portal c'))" using removed by auto
  with removed run(1) show ?thesis by blast
qed

end
