(* ===== verification/Scoreboard.thy ===== *)
theory Scoreboard
  imports Contest
begin

text \<open>
  The scoreboard (\<open>services/api/src/routes/scoreboard.rs\<close>): the standings of accounts, which are users or
  teams, the scores of the members of teams, and the score events of the leading accounts.

  Each query reads the tables as they are at its moment: \<open>reads k\<close> is what the \<open>k\<close>-th query of a request sees.
  \<open>epoch\<close> is the database's reading of the text of the setting \<open>freeze\<close> as an instant; a text that it does not
  accept fails the query. Rows with equal keys may come in any order; the model keeps the order of the table.
\<close>

section \<open>Accounts and events\<close>

record account_row =
  acc_id :: int
  acc_name :: "string option"
  acc_banned :: "bool option"
  acc_hidden :: "bool option"
  acc_bracket_id :: "int option"

definition accounts :: "bool \<Rightarrow> contest \<Rightarrow> account_row list" where
  "accounts team_mode c =
     (if team_mode
      then map (\<lambda>t. \<lparr>acc_id = tm_id t, acc_name = ad_name (ct_team_details c (tm_id t)), acc_banned = tm_banned t,
             acc_hidden = tm_hidden t, acc_bracket_id = ad_bracket_id (ct_team_details c (tm_id t))\<rparr>)
           (pd_teams (ct_portal c))
      else map (\<lambda>u. \<lparr>acc_id = usr_id u, acc_name = usr_name u, acc_banned = usr_banned u,
             acc_hidden = usr_hidden u, acc_bracket_id = ct_user_brackets c (usr_id u)\<rparr>)
           (pd_users (ct_portal c)))"

definition bracket_name :: "contest \<Rightarrow> int option \<Rightarrow> string option" where
  "bracket_name c b = Option.bind b (map_of (ct_brackets c))"

text \<open>A submission with its solve and its challenge, and an award, in the columns that the queries select.\<close>

record score_row =
  sr_challenge_id :: "int option"
  sr_user_id :: "int option"
  sr_team_id :: "int option"
  sr_value :: "int option"
  sr_id :: int
  sr_date :: "time option"

definition solve_rows :: "contest \<Rightarrow> score_row list" where
  "solve_rows c = (let p = ct_portal c in
     concat (map (\<lambda>s. concat (map (\<lambda>_. map (\<lambda>h.
         \<lparr>sr_challenge_id = Some (sub_challenge_id s), sr_user_id = Some (sub_user_id s), sr_team_id = sub_team_id s,
          sr_value = ch_value h, sr_id = sub_id s, sr_date = Some (sub_date s)\<rparr>)
         (filter (\<lambda>h. ch_id h = sub_challenge_id s) (pd_challenges p)))
       (filter (\<lambda>v. slv_id v = sub_id s) (pd_solves p)))) (pd_submissions p)))"

definition award_rows :: "contest \<Rightarrow> score_row list" where
  "award_rows c = map (\<lambda>a. \<lparr>sr_challenge_id = None, sr_user_id = aw_user_id a, sr_team_id = aw_team_id a,
     sr_value = aw_value a, sr_id = aw_id a, sr_date = aw_date a\<rparr>) (ct_awards c)"

definition account_of :: "bool \<Rightarrow> score_row \<Rightarrow> int option" where
  "account_of team_mode r = (if team_mode then sr_team_id r else sr_user_id r)"

definition freeze_epoch :: "(string \<Rightarrow> time option) \<Rightarrow> contest \<Rightarrow> time option answer" where
  "freeze_epoch epoch c =
     (case config_string ''freeze'' (ct_portal c) of
        None \<Rightarrow> Inr None
      | Some v \<Rightarrow> if v = [] then Inr None
                  else (case epoch v of None \<Rightarrow> Inl database_error | Some t \<Rightarrow> Inr (Some t)))"

definition before_freeze :: "time option \<Rightarrow> score_row \<Rightarrow> bool" where
  "before_freeze limit r \<longleftrightarrow>
     (case limit of None \<Rightarrow> True
      | Some t \<Rightarrow> (case sr_date r of None \<Rightarrow> False | Some date \<Rightarrow> date < t))"

section \<open>Standings\<close>

record standing =
  sd_account_id :: int
  sd_name :: "string option"
  sd_score :: int
  sd_bracket_id :: "int option"
  sd_bracket_name :: "string option"

definition counted :: "time option \<Rightarrow> score_row \<Rightarrow> bool" where
  "counted limit r \<longleftrightarrow> sr_value r \<noteq> None \<and> sr_value r \<noteq> Some 0 \<and> before_freeze limit r"

definition account_events :: "bool \<Rightarrow> time option \<Rightarrow> contest \<Rightarrow> int \<Rightarrow> score_row list" where
  "account_events team_mode limit c i =
     filter (\<lambda>r. account_of team_mode r = Some i \<and> counted limit r) (solve_rows c @ award_rows c)"

definition total_score :: "score_row list \<Rightarrow> int" where
  "total_score rs = sum_list (map (\<lambda>r. coalesce (sr_value r) 0) rs)"

text \<open>\<open>MAX\<close> ignores nulls, and a null comes last in ascending order.\<close>

definition max_list_opt :: "int list \<Rightarrow> int option" where
  "max_list_opt xs = (case xs of [] \<Rightarrow> None | x # ys \<Rightarrow> Some (fold max ys x))"

definition nulls_last :: "int option \<Rightarrow> int \<times> int" where
  "nulls_last x = (case x of None \<Rightarrow> (1, 0) | Some v \<Rightarrow> (0, v))"

definition standing_key :: "score_row list \<Rightarrow> int \<times> (int \<times> int) \<times> int \<times> int" where
  "standing_key rs = (- total_score rs, nulls_last (max_list_opt (opt_list (map sr_date rs))),
     nulls_last (max_list_opt (map sr_id rs)))"

definition eligible :: "bool \<Rightarrow> int option \<Rightarrow> account_row \<Rightarrow> bool" where
  "eligible admin bracket a \<longleftrightarrow>
     (admin \<or> \<not> is_true (acc_banned a) \<and> \<not> is_true (acc_hidden a)) \<and>
     (bracket = None \<or> acc_bracket_id a = bracket)"

definition standing_rows :: "bool \<Rightarrow> time option \<Rightarrow> int option \<Rightarrow> bool \<Rightarrow> contest \<Rightarrow> (account_row \<times> score_row list) list" where
  "standing_rows team_mode limit bracket admin c =
     sort_key (\<lambda>(a, rs). standing_key rs)
       (filter (\<lambda>(a, rs). rs \<noteq> [] \<and> eligible admin bracket a)
         (map (\<lambda>a. (a, account_events team_mode limit c (acc_id a))) (accounts team_mode c)))"

definition to_standing :: "contest \<Rightarrow> account_row \<times> score_row list \<Rightarrow> standing" where
  "to_standing c x = (case x of (a, rs) \<Rightarrow> \<lparr>sd_account_id = acc_id a, sd_name = acc_name a, sd_score = total_score rs,
     sd_bracket_id = acc_bracket_id a, sd_bracket_name = bracket_name c (acc_bracket_id a)\<rparr>)"

text \<open>An administrator's standings ignore the freeze. A sum that is no \<open>bigint\<close> fails the query.\<close>

definition load_standings ::
  "(string \<Rightarrow> time option) \<Rightarrow> bool \<Rightarrow> int option \<Rightarrow> int option \<Rightarrow> bool \<Rightarrow> contest \<Rightarrow> standing list answer" where
  "load_standings epoch team_mode bracket limit admin c =
     (case (if admin then Inr None else freeze_epoch epoch c) of
        Inl e \<Rightarrow> Inl e
      | Inr freeze \<Rightarrow>
          (let rows = standing_rows team_mode freeze bracket admin c in
           if \<exists>(a, rs) \<in> set rows. \<not> (- i64_max - 1 \<le> total_score rs \<and> total_score rs \<le> i64_max)
           then Inl database_error
           else Inr (map (to_standing c) (take (nat (coalesce limit i64_max)) rows))))"

section \<open>Members\<close>

record member_score =
  mb_id :: int
  mb_name :: "string option"
  mb_score :: int
  mb_bracket_id :: "int option"
  mb_bracket_name :: "string option"
  mb_team_id :: int

definition member_rows :: "contest \<Rightarrow> member_score list" where
  "member_rows c =
     List.map_filter (\<lambda>u. case usr_team_id u of
         None \<Rightarrow> None
       | Some t \<Rightarrow>
           if is_true (usr_hidden u) \<or> is_true (usr_banned u) then None
           else Some \<lparr>mb_id = usr_id u, mb_name = usr_name u,
             mb_score = total_score (filter (\<lambda>r. sr_user_id r = Some (usr_id u)) (solve_rows c)),
             mb_bracket_id = ct_user_brackets c (usr_id u),
             mb_bracket_name = bracket_name c (ct_user_brackets c (usr_id u)), mb_team_id = t\<rparr>)
       (sort_key usr_id (pd_users (ct_portal c)))"

definition members_of_team :: "contest \<Rightarrow> int \<Rightarrow> member_score list" where
  "members_of_team c t = filter (\<lambda>m. mb_team_id m = t) (member_rows c)"

section \<open>Events of the leading accounts\<close>

record score_event =
  se_challenge_id :: "int option"
  se_account_id :: int
  se_team_id :: "int option"
  se_user_id :: "int option"
  se_value :: int
  se_date :: time

text \<open>A row whose value or date is null cannot be decoded.\<close>

definition decode_event :: "bool \<Rightarrow> score_row \<Rightarrow> score_event answer" where
  "decode_event team_mode r =
     (case (account_of team_mode r, sr_value r, sr_date r) of
        (Some i, Some v, Some date) \<Rightarrow> Inr \<lparr>se_challenge_id = sr_challenge_id r, se_account_id = i,
          se_team_id = sr_team_id r, se_user_id = sr_user_id r, se_value = v, se_date = date\<rparr>
      | _ \<Rightarrow> Inl database_error)"

fun decode_all :: "('r \<Rightarrow> 'a answer) \<Rightarrow> 'r list \<Rightarrow> 'a list answer" where
  "decode_all f [] = Inr []"
| "decode_all f (r # rs) =
     (case f r of Inl e \<Rightarrow> Inl e
      | Inr x \<Rightarrow> (case decode_all f rs of Inl e \<Rightarrow> Inl e | Inr xs \<Rightarrow> Inr (x # xs)))"

definition score_events ::
  "(string \<Rightarrow> time option) \<Rightarrow> bool \<Rightarrow> int list \<Rightarrow> contest \<Rightarrow> score_event list answer" where
  "score_events epoch team_mode ids c =
     (if ids = [] then Inr []
      else case freeze_epoch epoch c of
        Inl e \<Rightarrow> Inl e
      | Inr freeze \<Rightarrow> decode_all (decode_event team_mode)
          (sort_key (\<lambda>r. nulls_last (sr_date r))
            (filter (\<lambda>r. (case account_of team_mode r of None \<Rightarrow> False | Some i \<Rightarrow> i \<in> set ids) \<and> before_freeze freeze r)
              (solve_rows c @ award_rows c))))"

section \<open>Handlers\<close>

definition visibility_value :: "string \<Rightarrow> current_user option \<Rightarrow> string \<Rightarrow> contest \<Rightarrow> bool" where
  "visibility_value key u fallback c =
     (let v = coalesce (config_string key (ct_portal c)) fallback in
      if v = ''public'' then True
      else if v = ''private'' then u \<noteq> None
      else if v = ''admins'' then (case u of None \<Rightarrow> False | Some a \<Rightarrow> is_admin a)
      else if v = ''hidden'' then False
      else True)"

definition require_visible :: "current_user option \<Rightarrow> (nat \<Rightarrow> contest) \<Rightarrow> unit answer" where
  "require_visible u reads =
     (let score = visibility_value ''score_visibility'' u ''public'' (reads 0);
          account = visibility_value ''account_visibility'' u ''public'' (reads 1) in
      if score \<and> account then Inr () else Inl (forbidden ''The scoreboard is not available''))"

definition account_url :: "bool \<Rightarrow> int \<Rightarrow> string" where
  "account_url team_mode i = ''/'' @ (if team_mode then ''teams'' else ''users'') @ ''/'' @ show_int i"

record board_entry =
  be_pos :: nat
  be_account_url :: string
  be_account_type :: string
  be_standing :: standing
  be_members :: "member_score list option"

definition list_board ::
  "(string \<Rightarrow> time option) \<Rightarrow> (nat \<Rightarrow> contest) \<Rightarrow> current_user option \<Rightarrow> int option \<Rightarrow> board_entry list answer" where
  "list_board epoch reads u bracket =
     (case require_visible u reads of
        Inl e \<Rightarrow> Inl e
      | Inr _ \<Rightarrow>
          (let team_mode = is_team_mode (ct_portal (reads 2)) in
           case load_standings epoch team_mode bracket None False (reads 3) of
             Inl e \<Rightarrow> Inl e
           | Inr standings \<Rightarrow> Inr (map (\<lambda>(index, s). \<lparr>be_pos = index + 1,
               be_account_url = account_url team_mode (sd_account_id s),
               be_account_type = (if team_mode then ''team'' else ''user''), be_standing = s,
               be_members = (if team_mode then Some (members_of_team (reads 4) (sd_account_id s)) else None)\<rparr>)
               (enumerate 0 standings))))"

record top_entry =
  te_rank :: nat
  te_account_url :: string
  te_standing :: standing
  te_solves :: "score_event list"

definition top_board ::
  "(string \<Rightarrow> time option) \<Rightarrow> (nat \<Rightarrow> contest) \<Rightarrow> current_user option \<Rightarrow> int \<Rightarrow> int option \<Rightarrow> top_entry list answer" where
  "top_board epoch reads u count bracket =
     (case require_visible u reads of
        Inl e \<Rightarrow> Inl e
      | Inr _ \<Rightarrow>
          (let team_mode = is_team_mode (ct_portal (reads 2)) in
           case load_standings epoch team_mode bracket (Some (max 1 (min 50 count))) False (reads 3) of
             Inl e \<Rightarrow> Inl e
           | Inr standings \<Rightarrow>
               (case score_events epoch team_mode (map sd_account_id standings) (reads 4) of
                  Inl e \<Rightarrow> Inl e
                | Inr events \<Rightarrow> Inr (map (\<lambda>(index, s). \<lparr>te_rank = index + 1,
                    te_account_url = account_url team_mode (sd_account_id s), te_standing = s,
                    te_solves = filter (\<lambda>e. se_account_id e = sd_account_id s) events\<rparr>)
                    (enumerate 0 standings)))))"

end
