(* ===== verification/ScoreboardProperties.thy ===== *)
theory ScoreboardProperties
  imports Scoreboard "HOL-Library.Multiset"
begin

text \<open>
  What the scoreboard promises: the standings are the visible accounts that have scored, in the order of their
  scores and, among equals, of their last event; the events of a leading account add up to its score; and a
  frozen scoreboard does not depend on what happens after the freeze, except for the members of teams.
\<close>

section \<open>Order\<close>

lemma freeze_of_Inr:
  assumes "load_standings epoch team_mode bracket limit admin c = Inr ss"
  obtains freeze where "(if admin then Inr None else freeze_epoch epoch c) = Inr freeze"
    "ss = map (to_standing c) (take (nat (coalesce limit i64_max)) (standing_rows team_mode freeze bracket admin c))"
  using assms by (auto simp: load_standings_def Let_def split: sum.splits if_splits)



definition scored :: "bool \<Rightarrow> time option \<Rightarrow> contest \<Rightarrow> standing \<Rightarrow> score_row list" where
  "scored team_mode freeze c s = account_events team_mode freeze c (sd_account_id s)"

lemma rows_events:
  "x \<in> set (standing_rows team_mode freeze bracket admin c) \<Longrightarrow>
     snd x = scored team_mode freeze c (to_standing c x) \<and> snd x \<noteq> [] \<and> fst x \<in> set (accounts team_mode c) \<and>
     eligible admin bracket (fst x)"
  by (auto simp: standing_rows_def scored_def to_standing_def)


section \<open>The events behind a score\<close>

lemma decode_all_Inr: "decode_all f rs = Inr xs \<Longrightarrow> list_all2 (\<lambda>r x. f r = Inr x) rs xs"
  by (induction rs arbitrary: xs) (auto split: sum.splits)

lemma decode_event_Inr:
  "decode_event team_mode r = Inr e \<Longrightarrow> sr_value r = Some (se_value e) \<and> account_of team_mode r = Some (se_account_id e)"
  by (auto simp: decode_event_def split: option.splits)

lemma decoded_sum:
  assumes "list_all2 (\<lambda>r x. decode_event team_mode r = Inr x) rs es"
  shows "sum_list (map se_value (filter (\<lambda>e. se_account_id e = i) es)) =
    total_score (filter (\<lambda>r. account_of team_mode r = Some i) rs)"
  using assms by (induction rule: list_all2_induct) (auto simp: total_score_def coalesce_def dest!: decode_event_Inr)

lemma total_score_mset: "mset rs = mset ts \<Longrightarrow> total_score rs = total_score ts"
  unfolding total_score_def by (metis mset_map sum_mset_sum_list)

lemma total_score_zero: "total_score (filter (\<lambda>r. P r \<and> sr_value r \<noteq> None \<and> sr_value r \<noteq> Some 0) rs) = total_score (filter P rs)"
  by (induction rs) (auto simp: total_score_def coalesce_def split: option.splits)

text \<open>
  On tables that do not change during the request, the events that the top of the scoreboard lists for an account
  add up to the score it shows.
\<close>

theorem top_events_add_up:
  assumes "top_board epoch (\<lambda>_. c) u n bracket = Inr es"
  shows "list_all (\<lambda>e. sum_list (map se_value (te_solves e)) = sd_score (te_standing e)) es"
proof -
  let ?tm = "is_team_mode (ct_portal c)"
  from assms obtain ss events where ss: "load_standings epoch ?tm bracket (Some (max 1 (min 50 n))) False c = Inr ss"
    and events: "score_events epoch ?tm (map sd_account_id ss) c = Inr events"
    and es: "es = map (\<lambda>(index, s). \<lparr>te_rank = index + 1, te_account_url = account_url ?tm (sd_account_id s), te_standing = s,
                    te_solves = filter (\<lambda>e. se_account_id e = sd_account_id s) events\<rparr>) (enumerate 0 ss)"
    by (auto simp: top_board_def Let_def split: sum.splits)
  from freeze_of_Inr [OF ss] obtain freeze where freeze: "freeze_epoch epoch c = Inr freeze"
    and rows: "ss = map (to_standing c) (take (nat (max 1 (min 50 n))) (standing_rows ?tm freeze bracket False c))"
    by (auto simp: coalesce_def)
  have "sum_list (map se_value (filter (\<lambda>e. se_account_id e = sd_account_id s) events)) = sd_score s" if s: "s \<in> set ss" for s
  proof -
    let ?i = "sd_account_id s" and ?ids = "map sd_account_id ss"
    let ?raw = "filter (\<lambda>r. (case account_of ?tm r of None \<Rightarrow> False | Some i \<Rightarrow> i \<in> set ?ids) \<and> before_freeze freeze r)
              (solve_rows c @ award_rows c)"
    from s have "?ids \<noteq> []" by auto
    with events freeze have "list_all2 (\<lambda>r x. decode_event ?tm r = Inr x) (sort_key (\<lambda>r. nulls_last (sr_date r)) ?raw) events"
      by (intro decode_all_Inr) (simp add: score_events_def del: map_map)
    from decoded_sum [OF this] have "sum_list (map se_value (filter (\<lambda>e. se_account_id e = ?i) events))
        = total_score (filter (\<lambda>r. account_of ?tm r = Some ?i) (sort_key (\<lambda>r. nulls_last (sr_date r)) ?raw))" .
    also have "\<dots> = total_score (filter (\<lambda>r. account_of ?tm r = Some ?i) ?raw)"
      by (rule total_score_mset) (simp only: mset_filter mset_sort)
    also have "\<dots> = total_score (filter (\<lambda>r. account_of ?tm r = Some ?i \<and> before_freeze freeze r) (solve_rows c @ award_rows c))"
      unfolding filter_filter using s by (intro arg_cong [where f = total_score] filter_cong refl) auto
    also have "\<dots> = total_score (scored ?tm freeze c s)"
      using total_score_zero [of "\<lambda>r. account_of ?tm r = Some ?i \<and> before_freeze freeze r" "solve_rows c @ award_rows c"]
      by (simp add: scored_def account_events_def counted_def conj_ac)
    also from s rows obtain x where "x \<in> set (standing_rows ?tm freeze bracket False c)" "s = to_standing c x"
      by (auto dest: in_set_takeD)
    then have "total_score (scored ?tm freeze c s) = sd_score s"
      using rows_events by (metis (no_types, lifting) case_prod_unfold standing.select_convs(3) to_standing_def)
    finally show ?thesis .
  qed
  then show ?thesis by (auto simp: es list_all_iff in_set_enumerate_eq)
qed

section \<open>The freeze\<close>

text \<open>The tables without what happened from an instant on, and without the setting itself: submissions with their solves,
  and awards.\<close>

definition as_of :: "time \<Rightarrow> contest \<Rightarrow> contest" where
  "as_of t c = (let p = ct_portal c in
     c\<lparr>ct_awards := filter (\<lambda>a. case aw_date a of None \<Rightarrow> False | Some date \<Rightarrow> date < t) (ct_awards c),
       ct_portal := p\<lparr>pd_submissions := filter (\<lambda>s. sub_date s < t) (pd_submissions p),
         pd_solves := filter (\<lambda>v. list_ex (\<lambda>s. sub_date s < t \<and> sub_id s = slv_id v) (pd_submissions p)) (pd_solves p),
         pd_config := filter (\<lambda>(k, _). k \<noteq> ''freeze'') (pd_config p)\<rparr>\<rparr>)"

lemma as_of_fields [simp]:
  "pd_teams (ct_portal (as_of t c)) = pd_teams (ct_portal c)" "pd_users (ct_portal (as_of t c)) = pd_users (ct_portal c)"
  "ct_team_details (as_of t c) = ct_team_details c" "ct_user_brackets (as_of t c) = ct_user_brackets c"
  "ct_brackets (as_of t c) = ct_brackets c" "pd_challenges (ct_portal (as_of t c)) = pd_challenges (ct_portal c)"
  by (simp_all add: as_of_def Let_def)

lemma as_of_freeze: "freeze_epoch epoch (as_of t c) = Inr None"
proof -
  have "List.find (\<lambda>(k, _). k = ''freeze'') (filter (\<lambda>(k, _). k \<noteq> ''freeze'') kvs) = None" for kvs :: "(string \<times> string option) list"
    by (auto simp: find_None_iff)
  then show ?thesis by (simp add: freeze_epoch_def config_string_def as_of_def Let_def)
qed

lemma concat_map_filter: "concat (map f (filter P xs)) = concat (map (\<lambda>x. if P x then f x else []) xs)"
  by (induction xs) auto

lemma filter_concat_map: "filter P (concat (map f xs)) = concat (map (\<lambda>x. filter P (f x)) xs)"
  by (induction xs) auto

lemma concat_map_cong: "(\<And>x. x \<in> set xs \<Longrightarrow> f x = g x) \<Longrightarrow> concat (map f xs) = concat (map g xs)"
  by (induction xs) auto

lemma as_of_solve_rows: "solve_rows (as_of t c) = filter (before_freeze (Some t)) (solve_rows c)"
proof -
  let ?p = "ct_portal c"
  let ?rows = "\<lambda>s vs. concat (map (\<lambda>_ :: solve. map (\<lambda>h.
         \<lparr>sr_challenge_id = Some (sub_challenge_id s), sr_user_id = Some (sub_user_id s), sr_team_id = sub_team_id s,
          sr_value = ch_value h, sr_id = sub_id s, sr_date = Some (sub_date s)\<rparr>)
         (filter (\<lambda>h. ch_id h = sub_challenge_id s) (pd_challenges ?p))) vs)"
  have here: "filter (before_freeze (Some t)) (?rows s vs) = (if sub_date s < t then ?rows s vs else [])" for s vs
    by (auto simp: filter_concat_map before_freeze_def filter_map comp_def filter_empty_conv concat_eq_Nil_conv)
  have there: "filter (\<lambda>v. slv_id v = sub_id s) (filter (\<lambda>v. list_ex (\<lambda>s. sub_date s < t \<and> sub_id s = slv_id v) (pd_submissions ?p)) (pd_solves ?p))
      = filter (\<lambda>v. slv_id v = sub_id s) (pd_solves ?p)" if "s \<in> set (pd_submissions ?p)" "sub_date s < t" for s
    using that by (auto simp: filter_filter list_ex_iff intro!: filter_cong)
  have "solve_rows (as_of t c) = concat (map (\<lambda>s. if sub_date s < t then ?rows s (filter (\<lambda>v. slv_id v = sub_id s)
      (filter (\<lambda>v. list_ex (\<lambda>s. sub_date s < t \<and> sub_id s = slv_id v) (pd_submissions ?p)) (pd_solves ?p))) else []) (pd_submissions ?p))"
    by (subst concat_map_filter [symmetric]) (simp add: solve_rows_def as_of_def Let_def)
  also have "\<dots> = concat (map (\<lambda>s. filter (before_freeze (Some t)) (?rows s (filter (\<lambda>v. slv_id v = sub_id s) (pd_solves ?p)))) (pd_submissions ?p))"
  proof (rule concat_map_cong)
    fix s assume s: "s \<in> set (pd_submissions ?p)"
    show "(if sub_date s < t then ?rows s (filter (\<lambda>v. slv_id v = sub_id s)
        (filter (\<lambda>v. list_ex (\<lambda>s. sub_date s < t \<and> sub_id s = slv_id v) (pd_submissions ?p)) (pd_solves ?p))) else [])
      = filter (before_freeze (Some t)) (?rows s (filter (\<lambda>v. slv_id v = sub_id s) (pd_solves ?p)))"
    proof (cases "sub_date s < t")
      case True
      then show ?thesis unfolding here there [OF s True] by simp
    next
      case False
      then show ?thesis unfolding here by simp
    qed
  qed
  finally show ?thesis by (simp add: solve_rows_def Let_def filter_concat_map)
qed

lemma as_of_award_rows: "award_rows (as_of t c) = filter (before_freeze (Some t)) (award_rows c)"
  by (simp add: award_rows_def as_of_def Let_def filter_map comp_def before_freeze_def)

lemma as_of_events: "account_events team_mode None (as_of t c) i = account_events team_mode (Some t) c i"
proof -
  have "counted (Some t) r \<longleftrightarrow> counted None r \<and> before_freeze (Some t) r" for r
    by (auto simp: counted_def before_freeze_def)
  then show ?thesis by (simp add: account_events_def as_of_solve_rows as_of_award_rows filter_filter conj_ac)
qed

lemma as_of_standings:
  assumes "freeze_epoch epoch c = Inr (Some t)"
  shows "load_standings epoch team_mode bracket limit False c = load_standings epoch team_mode bracket limit False (as_of t c)"
proof -
  have "standing_rows team_mode (Some t) bracket False c = standing_rows team_mode None bracket False (as_of t c)"
    by (simp add: standing_rows_def accounts_def as_of_events cong: map_cong)
  moreover have "to_standing (as_of t c) = to_standing c" by (auto simp: to_standing_def bracket_name_def fun_eq_iff)
  ultimately show ?thesis by (simp add: load_standings_def assms as_of_freeze Let_def)
qed

text \<open>
  A frozen scoreboard does not move. Two states of the tables with the same freeze that agree on everything but the
  submissions, solves and awards from the freeze on give the same standings to everyone but an administrator; they
  are the standings of the tables without those rows.
\<close>

theorem frozen_standings_ignore_later_events:
  assumes "freeze_epoch epoch c = Inr (Some t)" "freeze_epoch epoch c' = Inr (Some t)" "as_of t c = as_of t c'"
  shows "load_standings epoch team_mode bracket limit False c = load_standings epoch team_mode bracket limit False c' \<and>
    load_standings epoch team_mode bracket limit False c = load_standings epoch team_mode bracket limit False (as_of t c)"
  using as_of_standings [OF assms(1)] as_of_standings [OF assms(2)] assms(3) by simp_all

end
