(* ===== verification/ScoreboardExamples.thy ===== *)
theory ScoreboardExamples
  imports ScoreboardProperties PortalExamples
begin

text \<open>
  A scoreboard of teams on which the theorems about it are applied, and on which the freeze is seen to leave the
  scores of members moving.
\<close>

section \<open>A scoreboard of teams\<close>

text \<open>Ann of team 5 has solved challenge 6 before the freeze, Bob of team 8 has an award.\<close>

definition early_submission :: submission where
  "early_submission = \<lparr>sub_id = 1, sub_challenge_id = 6, sub_user_id = 4, sub_team_id = Some 5, sub_ip = None,
     sub_provided = ''flag'', sub_type = ''correct'', sub_date = 10\<rparr>"

definition board_contest :: contest where
  "board_contest = \<lparr>ct_portal = sample_portal\<lparr>
       pd_config := [(''user_mode'', Some ''teams''), (''freeze'', Some ''100'')],
       pd_users := [sample_user\<lparr>usr_team_id := Some 5\<rparr>, sample_user\<lparr>usr_id := 7, usr_team_id := Some 8\<rparr>],
       pd_teams := [\<lparr>tm_id = 5, tm_banned = None, tm_hidden = None\<rparr>, \<lparr>tm_id = 8, tm_banned = None, tm_hidden = None\<rparr>],
       pd_challenges := [sample_challenge, sample_challenge\<lparr>ch_id := 9, ch_type := Some ''standard''\<rparr>],
       pd_submissions := [early_submission],
       pd_solves := [\<lparr>slv_id = 1, slv_challenge_id = 6, slv_user_id = 4, slv_team_id = Some 5\<rparr>]\<rparr>,
     ct_awards = [\<lparr>aw_id = 2, aw_user_id = Some 7, aw_team_id = Some 8, aw_value = Some 10, aw_date = Some 20\<rparr>],
     ct_unlocks = [], ct_tracking = [], ct_notifications = [], ct_field_entries = [], ct_comments = [],
     ct_transitions = Some [], ct_brackets = [], ct_user_brackets = (\<lambda>_. None),
     ct_team_details = (\<lambda>_. \<lparr>ad_name = None, ad_bracket_id = None\<rparr>),
     ct_captains = (\<lambda>_. None), ct_sharing_ids = (\<lambda>_. 0), ct_participant_tokens = (\<lambda>_. None)\<rparr>"

text \<open>After the freeze Ann solves challenge 9.\<close>

definition later_contest :: contest where
  "later_contest = on_portal (\<lambda>p. p\<lparr>
     pd_submissions := pd_submissions p @ [early_submission\<lparr>sub_id := 2, sub_challenge_id := 9, sub_date := 200\<rparr>],
     pd_solves := pd_solves p @ [\<lparr>slv_id = 2, slv_challenge_id = 9, slv_user_id = 4, slv_team_id = Some 5\<rparr>]\<rparr>) board_contest"

definition board_epoch :: "string \<Rightarrow> time option" where
  "board_epoch v = (if v = ''100'' then Some 100 else None)"

lemma board_frozen: "freeze_epoch board_epoch board_contest = Inr (Some 100)" "freeze_epoch board_epoch later_contest = Inr (Some 100)"
  by code_simp+

lemma board_past: "as_of 100 board_contest = as_of 100 later_contest"
  by (simp add: as_of_def later_contest_def on_portal_def board_contest_def sample_portal_def early_submission_def)

lemma board_rows: "map (\<lambda>(a, rs). (acc_id a, total_score rs)) (standing_rows True (Some 100) None False board_contest) = [(5, 500), (8, 10)]"
  by code_simp

lemma board_standings:
  "load_standings board_epoch True None None False board_contest =
     Inr (map (to_standing board_contest) (standing_rows True (Some 100) None False board_contest))"
proof -
  have "length (standing_rows True (Some 100) None False board_contest) = 2" using arg_cong [OF board_rows, of length] by simp
  moreover have "total_score rs \<in> {10, 500}" if "(a, rs) \<in> set (standing_rows True (Some 100) None False board_contest)" for a rs
    using imageI [OF that, of "\<lambda>(a, rs). (acc_id a, total_score rs)"] arg_cong [OF board_rows, of set] by auto
  ultimately show ?thesis
    by (fastforce simp: load_standings_def board_frozen coalesce_def i64_max_def Let_def)
qed

section \<open>The theorems on it\<close>


theorem top_events_add_up_witness:
  "\<exists>es. top_board board_epoch (\<lambda>_. board_contest) None 10 None = Inr es \<and>
    list_all (\<lambda>e. sum_list (map se_value (te_solves e)) = sd_score (te_standing e)) es"
proof -
  have "\<not> isl (top_board board_epoch (\<lambda>_. board_contest) None 10 None)" by code_simp
  then obtain es where "top_board board_epoch (\<lambda>_. board_contest) None 10 None = Inr es" by (auto simp: isl_def) (metis sum.exhaust)
  with top_events_add_up [OF this] show ?thesis by blast
qed

theorem frozen_standings_ignore_later_events_witness:
  "load_standings board_epoch True None None False board_contest = load_standings board_epoch True None None False later_contest"
  using frozen_standings_ignore_later_events [OF board_frozen board_past] by blast

section \<open>What the freeze does not hold\<close>

text \<open>
  On a frozen scoreboard of teams the scores of the members go on. There are two states of the tables with
  the same freeze that differ only in a submission and its solve after it, whose standings are the same, and whose
  lists show a member of a team with different scores.
\<close>

theorem frozen_members_move:
  "\<exists>epoch t c c'. freeze_epoch epoch c = Inr (Some t) \<and> freeze_epoch epoch c' = Inr (Some t) \<and> as_of t c = as_of t c' \<and>
    load_standings epoch True None None False c = load_standings epoch True None None False c' \<and>
    list_board epoch (\<lambda>_. c) None None \<noteq> list_board epoch (\<lambda>_. c') None None"
proof -
  have "map mb_score (members_of_team board_contest 5) = [500]" "map mb_score (members_of_team later_contest 5) = [1000]"
    by code_simp+
  moreover have "is_team_mode (ct_portal board_contest)" "is_team_mode (ct_portal later_contest)"
    "require_visible None (\<lambda>_. board_contest) = Inr ()" "require_visible None (\<lambda>_. later_contest) = Inr ()"
    by code_simp+
  moreover obtain s ss where "load_standings board_epoch True None None False board_contest = Inr (s # ss)" "sd_account_id s = 5"
    using board_standings board_rows by (auto simp: Cons_eq_map_conv map_eq_Cons_conv to_standing_def)
  moreover from this as_of_standings [OF board_frozen(1)] as_of_standings [OF board_frozen(2)] board_past
  have "load_standings board_epoch True None None False later_contest = Inr (s # ss)" by simp
  ultimately have "list_board board_epoch (\<lambda>_. board_contest) None None \<noteq> list_board board_epoch (\<lambda>_. later_contest) None None"
    by (auto simp: list_board_def)
  with board_frozen board_past as_of_standings [OF board_frozen(1)] as_of_standings [OF board_frozen(2)] show ?thesis
    by (intro exI [of _ board_epoch] exI [of _ "100 :: int"] exI [of _ board_contest] exI [of _ later_contest]) simp
qed

end
