(* ===== verification/GatewayAddress.thy ===== *)
theory GatewayAddress
  imports ApiBase
begin

unbundle bit_operations_syntax

text \<open>
  The destinations the SSH gateway connects to (\<open>services/ssh-gateway/src/destination.rs\<close> and the ports and
  networks of \<open>config.rs\<close>). An address is a word of 32 or 128 bits. A network is what the \<open>ipnet\<close> crate answers
  about it: the addresses it contains and its prefix length. Name resolution and the networks of the local
  interfaces are parameters.
\<close>

section \<open>Addresses\<close>

datatype ip_addr = V4 "32 word" | V6 "128 word"

text \<open>The order of \<open>IpAddr\<close>: version 4 before version 6, then the octets.\<close>

instantiation ip_addr :: linorder
begin

fun less_eq_ip_addr :: "ip_addr \<Rightarrow> ip_addr \<Rightarrow> bool" where
  "less_eq_ip_addr (V4 a) (V4 b) \<longleftrightarrow> a \<le> b"
| "less_eq_ip_addr (V4 _) (V6 _) \<longleftrightarrow> True"
| "less_eq_ip_addr (V6 _) (V4 _) \<longleftrightarrow> False"
| "less_eq_ip_addr (V6 a) (V6 b) \<longleftrightarrow> a \<le> b"

definition less_ip_addr :: "ip_addr \<Rightarrow> ip_addr \<Rightarrow> bool" where
  "less_ip_addr a b \<longleftrightarrow> a \<le> b \<and> \<not> b \<le> (a :: ip_addr)"

instance
proof
  fix a b c :: ip_addr
  show "a < b \<longleftrightarrow> a \<le> b \<and> \<not> b \<le> a" by (rule less_ip_addr_def)
  show "a \<le> a" by (cases a) simp_all
  show "a \<le> b \<Longrightarrow> b \<le> c \<Longrightarrow> a \<le> c" by (cases a; cases b; cases c) simp_all
  show "a \<le> b \<Longrightarrow> b \<le> a \<Longrightarrow> a = b" by (cases a; cases b) simp_all
  show "a \<le> b \<or> b \<le> a" by (cases a; cases b) auto
qed

end

definition octet :: "nat \<Rightarrow> 32 word \<Rightarrow> nat" where
  "octet i a = unat a div 256 ^ (3 - i) mod 256"

definition segment :: "nat \<Rightarrow> 128 word \<Rightarrow> nat" where
  "segment i a = unat a div 65536 ^ (7 - i) mod 65536"

definition low_word :: "128 word \<Rightarrow> 32 word" where
  "low_word a = of_nat (unat a mod 2 ^ 32)"

text \<open>\<open>to_ipv4_mapped\<close>: \<open>::ffff:a.b.c.d\<close>.\<close>

definition to_ipv4_mapped :: "128 word \<Rightarrow> 32 word option" where
  "to_ipv4_mapped a = (if unat a div 2 ^ 32 = 65535 then Some (low_word a) else None)"

record ip_net =
  net_contains :: "ip_addr \<Rightarrow> bool"
  net_prefix_len :: nat

section \<open>Configuration\<close>

record port_range =
  pr_start :: nat
  pr_end :: nat

definition port_range_contains :: "port_range \<Rightarrow> nat \<Rightarrow> bool" where
  "port_range_contains r port \<longleftrightarrow> pr_start r \<le> port \<and> port \<le> pr_end r"

record gateway_config =
  gc_allowed_cidrs :: "ip_net list"
  gc_local_denied_cidrs :: "ip_net list"
  gc_allowed_ports :: "port_range list"
  gc_allowed_origins :: "string list"
  gc_identity_directory :: string
  gc_connect_timeout :: int
  gc_idle_timeout :: int
  gc_maximum_session :: int
  gc_heartbeat_interval :: int
  gc_maximum_sessions :: nat

definition port_allowed :: "gateway_config \<Rightarrow> nat \<Rightarrow> bool" where
  "port_allowed cfg port \<longleftrightarrow> (\<exists>r \<in> set (gc_allowed_ports cfg). port_range_contains r port)"

fun split_commas :: "string \<Rightarrow> string list" where
  "split_commas [] = [[]]"
| "split_commas (c # cs) =
     (if c = CHR '','' then [] # split_commas cs
      else case split_commas cs of [] \<Rightarrow> [[c]] | w # ws \<Rightarrow> (c # w) # ws)"

definition split_list :: "string \<Rightarrow> string list" where
  "split_list s = filter (\<lambda>w. w \<noteq> []) (map trim (split_commas s))"

text \<open>\<open>str::parse::<u16>\<close> accepts a leading plus sign.\<close>

definition parse_u16 :: "string \<Rightarrow> nat option" where
  "parse_u16 s =
     (let ds = (case s of [] \<Rightarrow> [] | c # cs \<Rightarrow> if c = CHR ''+'' then cs else s); v = digits_value ds in
      if ds \<noteq> [] \<and> list_all digit ds \<and> v \<le> 65535 then Some (nat v) else None)"

definition parse_port :: "string \<Rightarrow> nat result" where
  "parse_port s =
     (case parse_u16 (trim s) of
        Some p \<Rightarrow> if p \<noteq> 0 then Inr p else Inl (''invalid SSH port: '' @ s)
      | None \<Rightarrow> Inl (''invalid SSH port: '' @ s))"

definition split_once_dash :: "string \<Rightarrow> (string \<times> string) option" where
  "split_once_dash s = (case dropWhile (\<lambda>c. c \<noteq> CHR ''-'') s of
     [] \<Rightarrow> None | _ # rest \<Rightarrow> Some (takeWhile (\<lambda>c. c \<noteq> CHR ''-'') s, rest))"

definition parse_port_range :: "string \<Rightarrow> port_range result" where
  "parse_port_range s =
     (let ends = (case split_once_dash s of
            Some (a, b) \<Rightarrow> (case parse_port a of Inl e \<Rightarrow> Inl e
              | Inr start \<Rightarrow> (case parse_port b of Inl e \<Rightarrow> Inl e | Inr finish \<Rightarrow> Inr (start, finish)))
          | None \<Rightarrow> (case parse_port s of Inl e \<Rightarrow> Inl e | Inr p \<Rightarrow> Inr (p, p))) in
      case ends of Inl e \<Rightarrow> Inl e
      | Inr (start, finish) \<Rightarrow>
          if start > finish then Inl ''SSH_ALLOWED_PORTS ranges must be ascending''
          else Inr \<lparr>pr_start = start, pr_end = finish\<rparr>)"

fun parse_port_ranges :: "string list \<Rightarrow> port_range list result" where
  "parse_port_ranges [] = Inr []"
| "parse_port_ranges (s # ss) =
     (case parse_port_range s of Inl e \<Rightarrow> Inl e
      | Inr r \<Rightarrow> (case parse_port_ranges ss of Inl e \<Rightarrow> Inl e | Inr rs \<Rightarrow> Inr (r # rs)))"

definition parse_ports :: "string \<Rightarrow> port_range list result" where
  "parse_ports v =
     (case parse_port_ranges (split_list v) of
        Inl e \<Rightarrow> Inl e
      | Inr rs \<Rightarrow> if rs = [] then Inl ''SSH_ALLOWED_PORTS must contain at least one port or range'' else Inr rs)"

text \<open>In seconds.\<close>

definition max_heartbeat_interval :: int where
  "max_heartbeat_interval = 30"

definition validate_session_timing :: "int \<Rightarrow> int \<Rightarrow> int \<Rightarrow> unit result" where
  "validate_session_timing idle_timeout maximum_session heartbeat_interval =
     (if idle_timeout > maximum_session
      then Inl ''SSH_IDLE_TIMEOUT_SECONDS cannot exceed SSH_MAX_SESSION_SECONDS''
      else if heartbeat_interval \<ge> maximum_session
      then Inl ''SSH_HEARTBEAT_INTERVAL_SECONDS must be shorter than the session limit''
      else if heartbeat_interval > max_heartbeat_interval
      then Inl ''SSH_HEARTBEAT_INTERVAL_SECONDS must not exceed 30 seconds''
      else Inr ())"

section \<open>Policy\<close>

definition intrinsically_unsafe :: "ip_addr \<Rightarrow> bool" where
  "intrinsically_unsafe address =
     (case address of
        V4 a \<Rightarrow> a = 0 \<or> octet 0 a = 127 \<or> (octet 0 a = 169 \<and> octet 1 a = 254) \<or>
          (224 \<le> octet 0 a \<and> octet 0 a \<le> 239) \<or> a = - 1 \<or> map (\<lambda>i. octet i a) [0, 1, 2, 3] = [169, 254, 169, 254]
      | V6 a \<Rightarrow> a = 0 \<or> a = 1 \<or> segment 0 a div 256 = 255 \<or> segment 0 a div 64 * 64 = 65152)"

definition sensitive_minimum_prefix :: "ip_addr \<Rightarrow> nat option" where
  "sensitive_minimum_prefix address =
     (case address of
        V4 a \<Rightarrow>
          (let first = octet 0 a; second = octet 1 a in
           if first = 0 then Some 8
           else if first = 10 then Some 8
           else if first = 100 \<and> 64 \<le> second \<and> second \<le> 127 then Some 10
           else if first = 172 \<and> 16 \<le> second \<and> second \<le> 31 then Some 12
           else if first = 192 \<and> second = 168 then Some 16
           else if first = 192 \<and> second = 0 then Some 24
           else if first = 192 \<and> second = 2 then Some 24
           else if first = 198 \<and> 18 \<le> second \<and> second \<le> 19 then Some 15
           else if first = 198 \<and> second = 51 then Some 24
           else if first = 203 \<and> second = 0 then Some 24
           else if 240 \<le> first \<and> first \<le> 255 then Some 4
           else None)
      | V6 a \<Rightarrow>
          (let s = (\<lambda>i. segment i a) in
           if map s [0, 1, 2, 3, 4, 5] = [0, 0, 0, 0, 0, 0] \<or>
              (s 0 = 0x0064 \<and> s 1 = 0xff9b \<and> map s [2, 3, 4, 5] = [0, 0, 0, 0]) then Some 96
           else if s 0 = 0x0064 \<and> s 1 = 0xff9b \<and> s 2 = 1 then Some 48
           else if s 0 = 0x0100 \<and> map s [1, 2, 3] = [0, 0, 0] then Some 64
           else if s 0 div 512 * 512 = 0xfc00 then Some 7
           else if s 0 div 64 * 64 = 0xfec0 then Some 10
           else if s 0 = 0x2001 \<and> s 1 = 0x0db8 then Some 32
           else if s 0 = 0x2001 \<and> s 1 \<le> 0x01ff then Some 23
           else if s 0 = 0x2002 then Some 16
           else if s 0 = 0x3fff \<and> s 1 div 4096 = 0 then Some 20
           else None))"

definition canonical_address :: "ip_addr \<Rightarrow> ip_addr" where
  "canonical_address address =
     (case address of V4 a \<Rightarrow> V4 a
      | V6 a \<Rightarrow> (case to_ipv4_mapped a of None \<Rightarrow> V6 a | Some b \<Rightarrow> V4 b))"

definition address_allowed_with_local :: "gateway_config \<Rightarrow> ip_addr \<Rightarrow> ip_net list \<Rightarrow> bool" where
  "address_allowed_with_local cfg address runtime_local =
     (let a = canonical_address address in
      \<not> intrinsically_unsafe a \<and>
      \<not> (\<exists>n \<in> set (gc_local_denied_cidrs cfg @ runtime_local). net_contains n a) \<and>
      (\<exists>n \<in> set (gc_allowed_cidrs cfg). net_contains n a \<and>
         (case sensitive_minimum_prefix a of None \<Rightarrow> True | Some m \<Rightarrow> m \<le> net_prefix_len n)))"

definition ascii_alphanumeric :: "char \<Rightarrow> bool" where
  "ascii_alphanumeric c \<longleftrightarrow> (let n = (of_char c :: nat) in
     digit c \<or> 65 \<le> n \<and> n \<le> 90 \<or> 97 \<le> n \<and> n \<le> 122)"

definition safe_hostname :: "string \<Rightarrow> bool" where
  "safe_hostname v \<longleftrightarrow> v \<noteq> [] \<and> length v \<le> 253 \<and> hd v \<noteq> CHR ''-'' \<and>
     list_all (\<lambda>c. ascii_alphanumeric c \<or> c \<in> {CHR ''.'', CHR '':'', CHR ''_'', CHR ''-''}) v"

text \<open>The addresses of a \<open>BTreeSet\<close> are in ascending order without repetition.\<close>

definition select_resolved_address :: "gateway_config \<Rightarrow> ip_addr list \<Rightarrow> ip_net list \<Rightarrow> ip_addr result" where
  "select_resolved_address cfg addresses runtime_local =
     (if addresses = [] then Inl ''SSH destination did not resolve to an address''
      else if \<exists>a \<in> set addresses. \<not> address_allowed_with_local cfg a runtime_local
      then Inl ''SSH destination resolution included a disallowed address''
      else Inr (hd addresses))"

text \<open>The lookup fails, times out or gives addresses; the interfaces may be unreadable.\<close>

definition resolve_destination ::
  "gateway_config \<Rightarrow> (string \<Rightarrow> nat \<Rightarrow> ip_addr list result) \<Rightarrow> ip_net list result \<Rightarrow> string \<Rightarrow> nat \<Rightarrow> (ip_addr \<times> nat) result" where
  "resolve_destination cfg lookup_host local_networks hostname port =
     (if \<not> port_allowed cfg port then Inl ''destination port is outside SSH_ALLOWED_PORTS''
      else if \<not> safe_hostname hostname then Inl ''destination hostname is invalid''
      else case lookup_host hostname port of
        Inl e \<Rightarrow> Inl e
      | Inr answers \<Rightarrow>
          (let addresses = remdups (sort answers) in
           if addresses = [] then Inl ''SSH destination did not resolve to an address''
           else case local_networks of
             Inl e \<Rightarrow> Inl e
           | Inr networks \<Rightarrow>
               (case select_resolved_address cfg addresses networks of
                  Inl e \<Rightarrow> Inl e | Inr a \<Rightarrow> Inr (a, port))))"

end
