(* ===== verification/GatewayAddressProperties.thy ===== *)
theory GatewayAddressProperties
  imports GatewayAddress
begin

text \<open>
  Where the SSH gateway can be made to connect to: never to loopback, link-local, multicast or unspecified
  addresses, never into its own networks, and into a special-purpose block only through an allowed network
  that lies within that block.
\<close>

section \<open>Networks\<close>

text \<open>The addresses that agree with another one in the leading bits.\<close>

fun same_leading :: "nat \<Rightarrow> ip_addr \<Rightarrow> ip_addr \<Rightarrow> bool" where
  "same_leading k (V4 a) (V4 b) \<longleftrightarrow> k \<le> 32 \<and> unat a div 2 ^ (32 - k) = unat b div 2 ^ (32 - k)"
| "same_leading k (V6 a) (V6 b) \<longleftrightarrow> k \<le> 128 \<and> unat a div 2 ^ (128 - k) = unat b div 2 ^ (128 - k)"
| "same_leading k _ _ \<longleftrightarrow> False"

text \<open>What is documented of a network: it contains the addresses that agree with it in its prefix.\<close>

definition cidr :: "ip_net \<Rightarrow> bool" where
  "cidr n \<longleftrightarrow> (\<exists>base. \<forall>a. net_contains n a \<longleftrightarrow> same_leading (net_prefix_len n) base a)"

lemma same_leading_sym: "same_leading k a b \<Longrightarrow> same_leading k b a"
  by (cases a; cases b) auto

lemma same_leading_trans: "same_leading k a b \<Longrightarrow> same_leading k b c \<Longrightarrow> same_leading k a c"
  by (cases a; cases b; cases c) auto

lemma div_power_shorter: "(x :: nat) div 2 ^ i = y div 2 ^ i \<Longrightarrow> i \<le> j \<Longrightarrow> x div 2 ^ j = y div 2 ^ j"
  by (metis div_mult2_eq le_add_diff_inverse power_add)

lemma same_leading_shorter: "same_leading k a b \<Longrightarrow> m \<le> k \<Longrightarrow> same_leading m a b"
  by (cases a; cases b) (auto elim: div_power_shorter)

lemma cidr_same: "cidr n \<Longrightarrow> net_contains n a \<Longrightarrow> net_contains n b \<Longrightarrow> same_leading (net_prefix_len n) a b"
  unfolding cidr_def by (metis same_leading_sym same_leading_trans)

section \<open>Special-purpose blocks\<close>

text \<open>The first two octets of an address of version 4 as a number, and the blocks as intervals of it.\<close>

definition scope4 :: "nat \<Rightarrow> nat option" where
  "scope4 x =
     (if x < 256 then Some 8
      else if 2560 \<le> x \<and> x < 2816 then Some 8
      else if 25664 \<le> x \<and> x < 25728 then Some 10
      else if 44048 \<le> x \<and> x < 44064 then Some 12
      else if 49320 \<le> x \<and> x < 49321 then Some 16
      else if 49152 \<le> x \<and> x < 49153 then Some 24
      else if 49154 \<le> x \<and> x < 49155 then Some 24
      else if 50706 \<le> x \<and> x < 50708 then Some 15
      else if 50739 \<le> x \<and> x < 50740 then Some 24
      else if 51968 \<le> x \<and> x < 51969 then Some 24
      else if 61440 \<le> x then Some 4
      else None)"

lemma octets_eq:
  assumes "d \<le> e" "e < 256"
  shows "(x :: nat) div 256 = c \<and> d \<le> x mod 256 \<and> x mod 256 \<le> e \<longleftrightarrow> 256 * c + d \<le> x \<and> x < 256 * c + e + 1"
proof -
  define q r where "q = x div 256" and "r = x mod 256"
  have x: "x = 256 * q + r" and r: "r < 256" by (simp_all add: q_def r_def)
  show ?thesis unfolding q_def [symmetric] r_def [symmetric] unfolding x
    using r assms by (cases q c rule: linorder_cases) auto
qed

lemma octet_pair: "d < 256 \<Longrightarrow> (x :: nat) div 256 = c \<and> x mod 256 = d \<longleftrightarrow> 256 * c + d \<le> x \<and> x < 256 * c + d + 1"
  using octets_eq [of d d x c] by auto

lemma octet_alone: "(x :: nat) div 256 = c \<longleftrightarrow> 256 * c \<le> x \<and> x < 256 * c + 256"
  using octets_eq [of 0 255 x c] by (auto simp: less_Suc_eq_le [symmetric])

lemma octet_top: "x < 65536 \<Longrightarrow> 240 \<le> x div 256 \<and> x div 256 \<le> 255 \<longleftrightarrow> 61440 \<le> (x :: nat)"
  using less_eq_div_iff_mult_less_eq [of 256 240 x] less_mult_imp_div_less [of x 256 256] by auto

lemma scope4_octets:
  assumes "x < 65536"
  shows "(if x div 256 = 0 then Some (8 :: nat)
     else if x div 256 = 10 then Some 8
     else if x div 256 = 100 \<and> 64 \<le> x mod 256 \<and> x mod 256 \<le> 127 then Some 10
     else if x div 256 = 172 \<and> 16 \<le> x mod 256 \<and> x mod 256 \<le> 31 then Some 12
     else if x div 256 = 192 \<and> x mod 256 = 168 then Some 16
     else if x div 256 = 192 \<and> x mod 256 = 0 then Some 24
     else if x div 256 = 192 \<and> x mod 256 = 2 then Some 24
     else if x div 256 = 198 \<and> 18 \<le> x mod 256 \<and> x mod 256 \<le> 19 then Some 15
     else if x div 256 = 198 \<and> x mod 256 = 51 then Some 24
     else if x div 256 = 203 \<and> x mod 256 = 0 then Some 24
     else if 240 \<le> x div 256 \<and> x div 256 \<le> 255 then Some 4
     else None) = scope4 x"
proof -
  have "x div 256 = 0 \<longleftrightarrow> x < 256" "x div 256 = 10 \<longleftrightarrow> 2560 \<le> x \<and> x < 2816"
    "x div 256 = 100 \<and> 64 \<le> x mod 256 \<and> x mod 256 \<le> 127 \<longleftrightarrow> 25664 \<le> x \<and> x < 25728"
    "x div 256 = 172 \<and> 16 \<le> x mod 256 \<and> x mod 256 \<le> 31 \<longleftrightarrow> 44048 \<le> x \<and> x < 44064"
    "x div 256 = 192 \<and> x mod 256 = 168 \<longleftrightarrow> 49320 \<le> x \<and> x < 49321"
    "x div 256 = 192 \<and> x mod 256 = 0 \<longleftrightarrow> 49152 \<le> x \<and> x < 49153"
    "x div 256 = 192 \<and> x mod 256 = 2 \<longleftrightarrow> 49154 \<le> x \<and> x < 49155"
    "x div 256 = 198 \<and> 18 \<le> x mod 256 \<and> x mod 256 \<le> 19 \<longleftrightarrow> 50706 \<le> x \<and> x < 50708"
    "x div 256 = 198 \<and> x mod 256 = 51 \<longleftrightarrow> 50739 \<le> x \<and> x < 50740"
    "x div 256 = 203 \<and> x mod 256 = 0 \<longleftrightarrow> 51968 \<le> x \<and> x < 51969"
    using octet_alone [of x 0] octet_alone [of x 10] octets_eq [of 64 127 x 100] octets_eq [of 16 31 x 172]
      octet_pair [of 168 x 192] octet_pair [of 0 x 192] octet_pair [of 2 x 192] octets_eq [of 18 19 x 198]
      octet_pair [of 51 x 198] octet_pair [of 0 x 203] by (simp_all only:) simp_all
  then show ?thesis unfolding scope4_def octet_top [OF assms] by (simp only:)
qed

text \<open>The prefix that an address requires is the same for all addresses that agree with it on that prefix.\<close>

lemma edge: "(x :: nat) div k = y div k \<Longrightarrow> 0 < k \<Longrightarrow> k * c \<le> x \<longleftrightarrow> k * c \<le> y"
  by (metis less_eq_div_iff_mult_less_eq mult.commute)

lemma scope4_stays:
  assumes "scope4 x = Some m" "m \<noteq> 24 \<Longrightarrow> x div 2 ^ (16 - m) = y div 2 ^ (16 - m)" "m = 24 \<Longrightarrow> x = y"
  shows "scope4 y = Some m"
proof -
  consider "m = 24" | "m = 8" | "m = 10" | "m = 12" | "m = 16" | "m = 15" | "m = 4"
    using assms(1) by (auto simp: scope4_def split: if_splits)
  then show ?thesis
  proof cases
    case 2
    with assms(2) have "x div 256 = y div 256" by simp
    note e = edge [OF this, of 1] edge [OF this, of 10] edge [OF this, of 11]
    from 2 assms(1) have "x < 256 \<or> 2560 \<le> x \<and> x < 2816" by (auto simp: scope4_def split: if_splits)
    with e have "y < 256 \<or> 2560 \<le> y \<and> y < 2816" by (simp add: not_le [symmetric])
    with 2 show ?thesis by (elim disjE) (simp_all add: scope4_def)
  next
    case 3
    with assms(2) have "x div 64 = y div 64" by simp
    note e = edge [OF this, of 401] edge [OF this, of 402]
    from 3 assms(1) have "25664 \<le> x \<and> x < 25728" by (auto simp: scope4_def split: if_splits)
    with e have "25664 \<le> y \<and> y < 25728" by (simp add: not_le [symmetric])
    with 3 show ?thesis by (simp add: scope4_def)
  next
    case 4
    with assms(2) have "x div 16 = y div 16" by simp
    note e = edge [OF this, of 2753] edge [OF this, of 2754]
    from 4 assms(1) have "44048 \<le> x \<and> x < 44064" by (auto simp: scope4_def split: if_splits)
    with e have "44048 \<le> y \<and> y < 44064" by (simp add: not_le [symmetric])
    with 4 show ?thesis by (simp add: scope4_def)
  next
    case 6
    with assms(2) have "x div 2 = y div 2" by simp
    note e = edge [OF this, of 25353] edge [OF this, of 25354]
    from 6 assms(1) have "50706 \<le> x \<and> x < 50708" by (auto simp: scope4_def split: if_splits)
    with e have "50706 \<le> y \<and> y < 50708" by (simp add: not_le [symmetric])
    with 6 show ?thesis by (simp add: scope4_def)
  next
    case 7
    with assms(2) have "x div 4096 = y div 4096" by simp
    note e = edge [OF this, of 15]
    from 7 assms(1) have "61440 \<le> x" by (auto simp: scope4_def split: if_splits)
    with e have "61440 \<le> y" by (simp add: not_le [symmetric])
    with 7 show ?thesis by (simp add: scope4_def)
  qed (use assms in auto)
qed

lemma v4_scope:
  assumes "sensitive_minimum_prefix (V4 a) = Some m" "same_leading m (V4 a) (V4 b)"
  shows "sensitive_minimum_prefix (V4 b) = Some m"
proof -
  define x where "x = unat a div 2 ^ 16"
  define y where "y = unat b div 2 ^ 16"
  have "unat a < 65536 * 65536" "unat b < 65536 * 65536"
    using unsigned_less [of a, where ?'a = nat] unsigned_less [of b, where ?'a = nat] by simp_all
  then have xy: "x < 65536" "y < 65536" by (auto simp: x_def y_def intro: less_mult_imp_div_less)
  then have oct: "octet 0 a = x div 256" "octet 1 a = x mod 256" "octet 0 b = y div 256" "octet 1 b = y mod 256"
    by (simp_all add: octet_def x_def y_def div_mult2_eq [symmetric])
  have scope: "sensitive_minimum_prefix (V4 a) = scope4 x" "sensitive_minimum_prefix (V4 b) = scope4 y"
    unfolding sensitive_minimum_prefix_def Let_def oct ip_addr.case using xy by (simp_all only: scope4_octets)
  have "x div 2 ^ (16 - m) = y div 2 ^ (16 - m)" if "m \<noteq> 24"
  proof -
    from assms(1) that have "m \<le> 16" by (auto simp: scope scope4_def split: if_splits)
    then have "x div 2 ^ (16 - m) = unat a div 2 ^ (32 - m)" "y div 2 ^ (16 - m) = unat b div 2 ^ (32 - m)"
      unfolding x_def y_def div_mult2_eq [symmetric] power_add [symmetric] by (simp_all add: algebra_simps)
    with assms(2) show ?thesis by simp
  qed
  moreover have "x = y" if "m = 24"
  proof -
    have "unat a div 2 ^ 8 = unat b div 2 ^ 8" using assms(2) that by simp
    then show ?thesis unfolding x_def y_def by (rule div_power_shorter) simp
  qed
  ultimately show ?thesis using assms(1) scope4_stays unfolding scope by blast
qed

text \<open>In version 6 a segment is determined by the bits in front of its end.\<close>

lemma segment_same:
  assumes "same_leading m (V6 a) (V6 b)" "i \<le> 7" "16 * (i + 1) \<le> m"
  shows "segment i b = segment i a"
proof -
  have "unat a div 2 ^ (16 * (7 - i)) = unat b div 2 ^ (16 * (7 - i))"
    using assms by (auto elim: div_power_shorter)
  then show ?thesis by (simp add: segment_def power_mult)
qed

lemma mod_then_div: "(z :: nat) mod (k * l) div k = z div k mod l" if "0 < k"
  using that by (simp add: mod_mult2_eq)

lemma segment_part:
  assumes "same_leading m (V6 a) (V6 b)" "i \<le> 7" "j \<le> 16" "16 * (i + 1) \<le> m + j"
  shows "segment i b div 2 ^ j = segment i a div 2 ^ j"
proof -
  have split: "(65536 :: nat) = 2 ^ j * 2 ^ (16 - j)" using assms(3) by (simp add: power_add [symmetric])
  have part: "segment i x div 2 ^ j = unat x div 2 ^ (16 * (7 - i) + j) mod 2 ^ (16 - j)" for x
    unfolding segment_def by (subst (2) split) (simp add: mod_then_div div_mult2_eq power_add power_mult)
  have "unat a div 2 ^ (16 * (7 - i) + j) = unat b div 2 ^ (16 * (7 - i) + j)"
    using assms by (auto elim: div_power_shorter)
  then show ?thesis by (simp add: part)
qed

lemma v6_scope:
  assumes "sensitive_minimum_prefix (V6 a) = Some m" "same_leading m (V6 a) (V6 b)"
  shows "sensitive_minimum_prefix (V6 b) = Some m"
proof -
  note whole = segment_same [OF assms(2)] and part = segment_part [OF assms(2)]
  note scope = sensitive_minimum_prefix_def Let_def
  consider "m = 96" "map (\<lambda>i. segment i a) [0, 1, 2, 3, 4, 5] = [0, 0, 0, 0, 0, 0]"
    | "m = 96" "segment 0 a = 0x0064" "segment 1 a = 0xff9b" "map (\<lambda>i. segment i a) [2, 3, 4, 5] = [0, 0, 0, 0]"
    | "m = 48" "segment 0 a = 0x0064" "segment 1 a = 0xff9b" "segment 2 a = 1"
    | "m = 64" "segment 0 a = 0x0100" "map (\<lambda>i. segment i a) [1, 2, 3] = [0, 0, 0]"
    | "m = 7" "segment 0 a div 512 * 512 = 0xfc00" | "m = 10" "segment 0 a div 64 * 64 = 0xfec0"
    | "m = 32" "segment 0 a = 0x2001" "segment 1 a = 0x0db8" | "m = 23" "segment 0 a = 0x2001" "segment 1 a \<le> 0x01ff"
    | "m = 16" "segment 0 a = 0x2002" | "m = 20" "segment 0 a = 0x3fff" "segment 1 a div 4096 = 0"
    using assms(1) unfolding scope by (auto split: if_splits)
  then show ?thesis
  proof cases
    case 1
    then show ?thesis using whole [of 0] whole [of 1] whole [of 2] whole [of 3] whole [of 4] whole [of 5] by (simp add: scope)
  next
    case 2
    then show ?thesis using whole [of 0] whole [of 1] whole [of 2] whole [of 3] whole [of 4] whole [of 5] by (simp add: scope)
  next
    case 3
    then show ?thesis using whole [of 0] whole [of 1] whole [of 2] by (simp add: scope)
  next
    case 4
    then show ?thesis using whole [of 0] whole [of 1] whole [of 2] whole [of 3] by (simp add: scope)
  next
    case 5
    then have "segment 0 b div 512 = 126" using part [of 0 9] by simp
    then have "segment 0 b \<noteq> 0" "segment 0 b \<noteq> 0x0064" "segment 0 b \<noteq> 0x0100" by auto
    with \<open>segment 0 b div 512 = 126\<close> 5 show ?thesis by (simp add: scope)
  next
    case 6
    then have b: "segment 0 b div 64 = 1019" using part [of 0 6] by simp
    then have "segment 0 b \<noteq> 0" "segment 0 b \<noteq> 0x0064" "segment 0 b \<noteq> 0x0100" by auto
    moreover have "segment 0 b div 512 = segment 0 b div 64 div 8" by (simp add: div_mult2_eq [symmetric])
    ultimately show ?thesis using 6 b by (simp add: scope)
  next
    case 7
    then show ?thesis using whole [of 0] whole [of 1] by (simp add: scope)
  next
    case 8
    then have "segment 1 a div 512 = 0" by simp
    then have "segment 1 b div 512 = 0" using part [of 1 9] 8 by simp
    then have "segment 1 b \<le> 0x01ff" by (simp add: div_eq_0_iff)
    then show ?thesis using whole [of 0] 8 by (auto simp: scope)
  next
    case 9
    then show ?thesis using whole [of 0] by (simp add: scope)
  next
    case 10
    then show ?thesis using whole [of 0] part [of 1 12] by (simp add: scope)
  qed
qed

text \<open>An address is reached through a network that lies within its block.\<close>

lemma block_scope:
  assumes "sensitive_minimum_prefix a = Some m" "cidr n" "net_contains n a" "m \<le> net_prefix_len n" "net_contains n b"
  shows "sensitive_minimum_prefix b = Some m"
proof -
  from cidr_same [OF assms(2,3,5)] have same: "same_leading m a b" using assms(4) by (rule same_leading_shorter)
  show ?thesis
  proof (cases a)
    case (V4 x)
    with same obtain y where "b = V4 y" by (cases b) (simp_all only: same_leading.simps)
    with V4 same assms(1) show ?thesis by (metis v4_scope)
  next
    case (V6 x)
    with same obtain y where "b = V6 y" by (cases b) (simp_all only: same_leading.simps)
    with V6 same assms(1) show ?thesis by (metis v6_scope)
  qed
qed

section \<open>Addresses that are never a destination\<close>

text \<open>
  The unspecified address, loopback, link-local, multicast and broadcast, as intervals:
  \<open>127.0.0.0/8\<close>, \<open>169.254.0.0/16\<close>, \<open>224.0.0.0/4\<close>; \<open>::1\<close>, \<open>ff00::/8\<close>, \<open>fe80::/10\<close>.
\<close>

definition reserved_range :: "ip_addr \<Rightarrow> bool" where
  "reserved_range address =
     (case address of
        V4 a \<Rightarrow> unat a = 0 \<or> unat a \<in> {127 * 2 ^ 24 ..< 128 * 2 ^ 24} \<or>
          unat a \<in> {(169 * 256 + 254) * 2 ^ 16 ..< (169 * 256 + 255) * 2 ^ 16} \<or>
          unat a \<in> {224 * 2 ^ 24 ..< 240 * 2 ^ 24} \<or> unat a = 2 ^ 32 - 1
      | V6 a \<Rightarrow> unat a \<le> 1 \<or> 0xff * 2 ^ 120 \<le> unat a \<or> unat a \<in> {0xfe80 * 2 ^ 112 ..< 0xfec0 * 2 ^ 112})"

lemma div_range: "0 < k \<Longrightarrow> c \<le> (n :: nat) div k \<and> n div k < d \<longleftrightarrow> n \<in> {c * k ..< d * k}"
  by (simp add: less_eq_div_iff_mult_less_eq div_less_iff_less_mult)

lemma div_is: "0 < k \<Longrightarrow> (n :: nat) div k = c \<longleftrightarrow> n \<in> {c * k ..< (c + 1) * k}"
  using div_range [of k c n "c + 1"] by auto

lemma unsafe_iff_reserved: "intrinsically_unsafe a \<longleftrightarrow> reserved_range a"
proof (cases a)
  case (V4 x)
  define n where "n = unat x"
  have n: "n < 256 * 2 ^ 24" using unsigned_less [of x, where ?'a = nat] by (simp add: n_def)
  then have "n div 2 ^ 24 < 256" by (simp add: div_less_iff_less_mult)
  then have o0: "octet 0 x = n div 2 ^ 24" by (simp add: octet_def n_def)
  have whole: "octet 0 x = n div 2 ^ 16 div 256" "octet 1 x = n div 2 ^ 16 mod 256"
    unfolding o0 by (simp_all add: octet_def n_def div_mult2_eq [symmetric])
  have "octet 0 x = 169 \<and> octet 1 x = 254 \<longleftrightarrow> n div 2 ^ 16 = 169 * 256 + 254"
    unfolding whole using octet_pair [of 254 "n div 2 ^ 16" 169] by auto
  moreover have "x = 0 \<longleftrightarrow> n = 0" by (simp add: n_def unat_eq_zero)
  moreover have "x = - 1 \<longleftrightarrow> n = 2 ^ 32 - 1"
    unfolding n_def word_unat_eq_iff by (simp add: unsigned_minus_1_eq_mask mask_eq_exp_minus_1)
  moreover have "octet 0 x = 127 \<longleftrightarrow> n \<in> {127 * 2 ^ 24 ..< 128 * 2 ^ 24}"
    unfolding o0 by (subst div_is) simp_all
  moreover have "224 \<le> octet 0 x \<and> octet 0 x \<le> 239 \<longleftrightarrow> n \<in> {224 * 2 ^ 24 ..< 240 * 2 ^ 24}"
    unfolding o0 by (subst div_range [symmetric]) auto
  moreover have "n div 2 ^ 16 = 169 * 256 + 254 \<longleftrightarrow> n \<in> {(169 * 256 + 254) * 2 ^ 16 ..< (169 * 256 + 255) * 2 ^ 16}"
    by (subst div_is) simp_all
  moreover have "map (\<lambda>i. octet i x) [0, 1, 2, 3] = [169, 254, 169, 254] \<Longrightarrow> octet 0 x = 169 \<and> octet 1 x = 254"
    by (simp only: list.map list.inject)
  ultimately show ?thesis
    unfolding V4 intrinsically_unsafe_def reserved_range_def ip_addr.case n_def [symmetric] by blast
next
  case (V6 x)
  define n where "n = unat x"
  have n: "n < 2 ^ 16 * 2 ^ 112" using unsigned_less [of x, where ?'a = nat] by (simp add: n_def)
  then have "n div 2 ^ 112 < 2 ^ 16" by (simp only: div_less_iff_less_mult zero_less_power zero_less_numeral)
  then have s0: "segment 0 x = n div 2 ^ 112" by (simp add: segment_def n_def)
  have "segment 0 x div 256 = n div 2 ^ 120" "segment 0 x div 64 = n div 2 ^ 118"
    unfolding s0 div_mult2_eq [symmetric] by simp_all
  moreover have "n div 2 ^ 120 = 255 \<longleftrightarrow> 255 * 2 ^ 120 \<le> n" using n by (subst div_is) simp_all
  moreover have "q * 64 = 65152 \<longleftrightarrow> q = 1018" for q :: nat by auto
  moreover have "n div 2 ^ 118 = 1018 \<longleftrightarrow> n \<in> {0xfe80 * 2 ^ 112 ..< 0xfec0 * 2 ^ 112}" by (subst div_is) simp_all
  moreover have "x = 0 \<or> x = 1 \<longleftrightarrow> n \<le> 1"
    unfolding n_def word_unat_eq_iff by auto
  ultimately show ?thesis
    unfolding V6 intrinsically_unsafe_def reserved_range_def ip_addr.case n_def [symmetric] by (simp only: simp_thms disj_assoc [symmetric])
qed

section \<open>Destinations\<close>

text \<open>
  C7. The gateway connects only to a port of its ranges and only when every address the name resolves to is allowed; the
  one it takes is among them. Of each of them, read as an IPv4 address when it is a mapped one: it is no
  unspecified, loopback, link-local, multicast or broadcast address, it is in none of the gateway's own networks,
  and it is in an allowed network; and when it is in a special-purpose block, every address of that network
  is in a block that asks for the same prefix.
\<close>

theorem destination_is_safe:
  assumes "resolve_destination cfg lookup_host networks hostname port = Inr (address, port')"
    "list_all cidr (gc_allowed_cidrs cfg)"
  shows "\<exists>answers locals. lookup_host hostname port = Inr answers \<and> networks = Inr locals \<and> address \<in> set answers \<and>
    port' = port \<and> port_allowed cfg port \<and>
    (\<forall>x \<in> set answers. let a = canonical_address x in
       \<not> reserved_range a \<and> \<not> (\<exists>n \<in> set (gc_local_denied_cidrs cfg @ locals). net_contains n a) \<and>
       (\<exists>n \<in> set (gc_allowed_cidrs cfg). net_contains n a \<and>
          (\<forall>m b. sensitive_minimum_prefix a = Some m \<and> net_contains n b \<longrightarrow> sensitive_minimum_prefix b = Some m)))"
proof -
  from assms(1) obtain answers locals where found: "lookup_host hostname port = Inr answers" "networks = Inr locals"
    "port' = port" "port_allowed cfg port" "remdups (sort answers) \<noteq> []" "address = hd (remdups (sort answers))"
    and all: "\<forall>x \<in> set answers. address_allowed_with_local cfg x locals"
    by (auto simp: resolve_destination_def select_resolved_address_def Let_def split: if_splits sum.splits)
  from found(5,6) have "address \<in> set answers" by (metis hd_in_set set_remdups set_sort)
  moreover have "let a = canonical_address x in
       \<not> reserved_range a \<and> \<not> (\<exists>n \<in> set (gc_local_denied_cidrs cfg @ locals). net_contains n a) \<and>
       (\<exists>n \<in> set (gc_allowed_cidrs cfg). net_contains n a \<and>
          (\<forall>m b. sensitive_minimum_prefix a = Some m \<and> net_contains n b \<longrightarrow> sensitive_minimum_prefix b = Some m))"
    if x: "x \<in> set answers" for x
  proof -
    let ?a = "canonical_address x"
    from all x have ok: "\<not> intrinsically_unsafe ?a" "\<not> (\<exists>n \<in> set (gc_local_denied_cidrs cfg @ locals). net_contains n ?a)"
      "\<exists>n \<in> set (gc_allowed_cidrs cfg). net_contains n ?a \<and>
         (case sensitive_minimum_prefix ?a of None \<Rightarrow> True | Some m \<Rightarrow> m \<le> net_prefix_len n)"
      by (auto simp: address_allowed_with_local_def Let_def)
    from ok(3) obtain n where n: "n \<in> set (gc_allowed_cidrs cfg)" "net_contains n ?a"
      "case sensitive_minimum_prefix ?a of None \<Rightarrow> True | Some m \<Rightarrow> m \<le> net_prefix_len n" by blast
    have net: "cidr n" using assms(2) n(1) by (simp add: list_all_iff)
    have "\<forall>m b. sensitive_minimum_prefix ?a = Some m \<and> net_contains n b \<longrightarrow> sensitive_minimum_prefix b = Some m"
    proof (intro allI impI, elim conjE)
      fix m b assume m: "sensitive_minimum_prefix ?a = Some m" and b: "net_contains n b"
      from m n(3) have "m \<le> net_prefix_len n" by (simp only: option.case)
      with m net n(2) show "sensitive_minimum_prefix b = Some m" using b by (rule block_scope)
    qed
    with ok(1,2) n show ?thesis unfolding Let_def unsafe_iff_reserved by blast
  qed
  ultimately show ?thesis using found by blast
qed

end
