(* ===== verification/GatewayLimiter.thy ===== *)
theory GatewayLimiter
  imports GatewayAddress Floats "HOL-Library.AList"
begin

text \<open>
  The limit on connection attempts of the SSH gateway (\<open>services/ssh-gateway/src/rate_limit.rs\<close>): a token
  bucket for every client address, in the \<open>f64\<close> arithmetic of the code, with a bound on the number of
  clients. Instants are in nanoseconds. A poisoned lock refuses everybody; here the lock is never poisoned.
\<close>

section \<open>Buckets\<close>

record bucket =
  bk_tokens :: rat
  bk_updated_at :: int
  bk_last_seen_at :: int

record limiter_policy =
  lp_burst :: rat
  lp_refill_per_second :: rat
  lp_maximum_clients :: nat
  lp_client_expiry :: int
  lp_cleanup_interval :: int

record limiter_state =
  ls_clients :: "(ip_addr \<times> bucket) list"
  ls_next_cleanup :: int

definition nanos_per_second :: int where
  "nanos_per_second = 1000000000"

definition default_limiter_policy :: limiter_policy where
  "default_limiter_policy = \<lparr>lp_burst = 20, lp_refill_per_second = 2, lp_maximum_clients = 2048,
     lp_client_expiry = 10 * 60 * nanos_per_second, lp_cleanup_interval = 30 * nanos_per_second\<rparr>"

definition new_limiter :: "limiter_policy \<Rightarrow> int \<Rightarrow> limiter_state" where
  "new_limiter lp now = \<lparr>ls_clients = [], ls_next_cleanup = now + lp_cleanup_interval lp\<rparr>"

text \<open>\<open>checked_duration_since(..).unwrap_or_default()\<close> and \<open>Duration::as_secs_f64\<close>.\<close>

definition duration_since :: "int \<Rightarrow> int \<Rightarrow> int" where
  "duration_since now earlier = max 0 (now - earlier)"

definition as_secs_f64 :: "int \<Rightarrow> rat" where
  "as_secs_f64 d = f64 (f64 (of_int (d div nanos_per_second)) +
     f64 (f64 (of_int (d mod nanos_per_second)) / of_int nanos_per_second))"

definition remove_expired :: "limiter_policy \<Rightarrow> int \<Rightarrow> (ip_addr \<times> bucket) list \<Rightarrow> (ip_addr \<times> bucket) list" where
  "remove_expired lp now cs = filter (\<lambda>(_, b). duration_since now (bk_last_seen_at b) < lp_client_expiry lp) cs"

definition refilled :: "limiter_policy \<Rightarrow> int \<Rightarrow> bucket \<Rightarrow> rat" where
  "refilled lp now b =
     min (f64 (bk_tokens b + f64 (as_secs_f64 (duration_since now (bk_updated_at b)) * lp_refill_per_second lp))) (lp_burst lp)"

definition limiter_allow_at :: "limiter_policy \<Rightarrow> ip_addr \<Rightarrow> int \<Rightarrow> limiter_state \<Rightarrow> bool \<times> limiter_state" where
  "limiter_allow_at lp client now st =
     (let st = (if ls_next_cleanup st \<le> now
            then st\<lparr>ls_clients := remove_expired lp now (ls_clients st), ls_next_cleanup := now + lp_cleanup_interval lp\<rparr>
            else st) in
      case map_of (ls_clients st) client of
        Some b \<Rightarrow>
          (let tokens = refilled lp now b;
               put = (\<lambda>v. st\<lparr>ls_clients := AList.update client \<lparr>bk_tokens = v, bk_updated_at = now, bk_last_seen_at = now\<rparr>
                 (ls_clients st)\<rparr>) in
           if tokens < 1 then (False, put tokens) else (True, put (f64 (tokens - 1))))
      | None \<Rightarrow>
          (let st = (if lp_maximum_clients lp \<le> length (ls_clients st)
                then st\<lparr>ls_clients := remove_expired lp now (ls_clients st)\<rparr> else st) in
           if lp_maximum_clients lp \<le> length (ls_clients st) then (False, st)
           else (True, st\<lparr>ls_clients := AList.update client
             \<lparr>bk_tokens = f64 (lp_burst lp - 1), bk_updated_at = now, bk_last_seen_at = now\<rparr> (ls_clients st)\<rparr>)))"

text \<open>Clients of version 6 are counted by their network of 64 bits.\<close>

definition normalize_client_ip :: "ip_addr \<Rightarrow> ip_addr" where
  "normalize_client_ip address =
     (case address of V4 a \<Rightarrow> V4 a
      | V6 a \<Rightarrow> (case to_ipv4_mapped a of Some b \<Rightarrow> V4 b
          | None \<Rightarrow> V6 (of_nat (unat a div 2 ^ 64 * 2 ^ 64))))"

definition limiter_allow :: "limiter_policy \<Rightarrow> ip_addr \<Rightarrow> int \<Rightarrow> limiter_state \<Rightarrow> bool \<times> limiter_state" where
  "limiter_allow lp client now st = limiter_allow_at lp (normalize_client_ip client) now st"

text \<open>A sequence of attempts with their instants.\<close>

fun limiter_run :: "limiter_policy \<Rightarrow> (ip_addr \<times> int) list \<Rightarrow> limiter_state \<Rightarrow> bool list \<times> limiter_state" where
  "limiter_run lp [] st = ([], st)"
| "limiter_run lp ((client, now) # calls) st =
     (let (granted, st) = limiter_allow lp client now st; (rest, st) = limiter_run lp calls st in (granted # rest, st))"

end
