(* ===== verification/GatewayLimiterProperties.thy ===== *)
theory GatewayLimiterProperties
  imports GatewayLimiter
begin

text \<open>
  What the limit on connection attempts promises: a bounded number of clients, and for every client a bounded
  number of attempts in any span of time, with the rounding of the bucket's arithmetic accounted for. The
  argument is amortised: the level of a client's bucket, refilled up to the present, pays for its grants.
\<close>

section \<open>Rounding\<close>

definition rounding :: rat where
  "rounding = 1 / 2 ^ 52"

lemma half_even_upper: "of_int (half_even x) \<le> x + 1"
proof -
  have f: "(of_int \<lfloor>x\<rfloor> :: rat) \<le> x" by (rule of_int_floor_le)
  then have "(of_int \<lfloor>x\<rfloor> :: rat) \<le> x + 1" by linarith
  moreover from f have "(of_int (\<lfloor>x\<rfloor> + 1) :: rat) \<le> x + 1" by simp
  moreover have "half_even x = \<lfloor>x\<rfloor> \<or> half_even x = \<lfloor>x\<rfloor> + 1" by (simp add: half_even_def Let_def)
  ultimately show ?thesis by (elim disjE) (simp_all only:)
qed

lemma f64_upper:
  assumes "0 \<le> q"
  shows "f64 q \<le> q * (1 + rounding)"
proof (cases "q = 0")
  case False
  with assms have q: "0 < q" by simp
  let ?u = "2 powi (binary_exponent q - 52) :: rat"
  have u: "0 < ?u" by simp
  have "of_int (half_even (q / ?u)) \<le> q / ?u + 1" by (rule half_even_upper)
  then have "of_int (half_even (q / ?u)) * ?u \<le> (q / ?u + 1) * ?u" using u by (intro mult_right_mono) simp_all
  then have "f64_positive q \<le> q + ?u" using u by (simp add: f64_positive_def Let_def distrib_right)
  moreover have "?u = 2 powi binary_exponent q * rounding"
    by (simp add: power_int_diff rounding_def)
  moreover have "2 powi binary_exponent q * rounding \<le> q * rounding"
    using binary_exponent_bounds(1) [OF q] by (intro mult_right_mono) (simp_all add: rounding_def)
  ultimately show ?thesis using q by (simp add: f64_def distrib_left)
qed simp

lemma f64_upper_le: "0 \<le> q \<Longrightarrow> q \<le> p * (1 + rounding) ^ n \<Longrightarrow> f64 q \<le> p * (1 + rounding) ^ Suc n"
  using f64_upper [of q] mult_right_mono [of q "p * (1 + rounding) ^ n" "1 + rounding"]
  by (simp add: rounding_def mult.assoc mult.commute)

text \<open>The seconds of a duration, and a bucket's tokens after it.\<close>

definition seconds :: "int \<Rightarrow> rat" where
  "seconds d = of_int d / 1000000000"

lemma secs_bounds:
  assumes "0 \<le> d"
  shows "0 \<le> as_secs_f64 d" "as_secs_f64 d \<le> seconds d * (1 + rounding) ^ 3"
proof -
  let ?w = "of_int (d div nanos_per_second) :: rat" and ?n = "of_int (d mod nanos_per_second) :: rat"
  have pos: "0 \<le> ?w" "0 \<le> ?n" using assms by (simp_all add: nanos_per_second_def)
  have whole: "seconds d = ?w + ?n / of_int nanos_per_second"
  proof -
    have "(of_int d :: rat) = of_int (nanos_per_second * (d div nanos_per_second) + d mod nanos_per_second)" by simp
    then have "(of_int d :: rat) = of_int nanos_per_second * ?w + ?n" by (simp only: of_int_add of_int_mult)
    then show ?thesis by (simp add: seconds_def nanos_per_second_def field_simps)
  qed
  have n: "0 \<le> f64 ?n / of_int nanos_per_second"
    using f64_nonneg [OF pos(2)] by (simp add: nanos_per_second_def)
  have sum: "0 \<le> f64 ?w + f64 (f64 ?n / of_int nanos_per_second)"
    using f64_nonneg [OF pos(1)] f64_nonneg [OF n] by simp
  then show "0 \<le> as_secs_f64 d" by (simp add: as_secs_f64_def f64_nonneg)
  have r: "0 \<le> rounding" by (simp add: rounding_def)
  have "f64 ?w \<le> ?w * (1 + rounding)" by (rule f64_upper [OF pos(1)])
  also have "\<dots> \<le> ?w * (1 + rounding) ^ 2" using pos(1) r by (intro mult_left_mono) (simp_all add: power2_eq_square)
  finally have first: "f64 ?w \<le> ?w * (1 + rounding) ^ 2" .
  have "f64 ?n / of_int nanos_per_second \<le> ?n * (1 + rounding) / of_int nanos_per_second"
    using f64_upper [OF pos(2)] by (intro divide_right_mono) (simp_all add: nanos_per_second_def)
  then have "f64 (f64 ?n / of_int nanos_per_second) \<le> ?n / of_int nanos_per_second * (1 + rounding) ^ Suc 1"
    by (intro f64_upper_le [OF n]) simp
  with first have "f64 ?w + f64 (f64 ?n / of_int nanos_per_second) \<le> seconds d * (1 + rounding) ^ 2"
    by (simp add: whole distrib_right power2_eq_square)
  from f64_upper_le [OF sum this] show "as_secs_f64 d \<le> seconds d * (1 + rounding) ^ 3"
    by (simp add: as_secs_f64_def eval_nat_numeral)
qed

section \<open>Buckets\<close>

abbreviation policy :: limiter_policy where
  "policy \<equiv> default_limiter_policy"

lemma policy_simps [simp]:
  "lp_burst policy = 20" "lp_refill_per_second policy = 2" "lp_maximum_clients policy = 2048"
  "lp_client_expiry policy = 600000000000" "lp_cleanup_interval policy = 30000000000"
  by (simp_all add: default_limiter_policy_def nanos_per_second_def)

definition bucket_ok :: "int \<Rightarrow> bucket \<Rightarrow> bool" where
  "bucket_ok t b \<longleftrightarrow> 0 \<le> bk_tokens b \<and> bk_tokens b \<le> 20 \<and> bk_last_seen_at b = bk_updated_at b \<and> bk_updated_at b \<le> t"

text \<open>What the bucket holds at a later time, without rounding.\<close>

definition bucket_level :: "int \<Rightarrow> bucket \<Rightarrow> rat" where
  "bucket_level t b = min 20 (bk_tokens b + 2 * seconds (t - bk_updated_at b))"

definition slack :: rat where
  "slack = 1 / 2 ^ 44"

lemma rounded_five: "(1 + rounding) ^ 5 \<le> 1 + 6 * rounding"
  by (simp add: rounding_def power_divide)

lemma refilled_bounds:
  assumes "bucket_ok t b" "t \<le> now"
  shows "0 \<le> refilled policy now b" "refilled policy now b \<le> 20"
    "refilled policy now b \<le> bucket_level now b + 120 * rounding"
proof -
  let ?d = "now - bk_updated_at b"
  let ?x = "bk_tokens b + 2 * seconds ?d"
  have d: "0 \<le> ?d" "duration_since now (bk_updated_at b) = ?d" using assms by (simp_all add: bucket_ok_def duration_since_def)
  have r: "0 \<le> rounding" by (simp add: rounding_def)
  have s: "0 \<le> seconds ?d" using d(1) by (simp add: seconds_def)
  have tok: "0 \<le> bk_tokens b" using assms(1) by (simp add: bucket_ok_def)
  have twice: "0 \<le> as_secs_f64 ?d * 2" using secs_bounds(1) [OF d(1)] by simp
  have "as_secs_f64 ?d * 2 \<le> 2 * seconds ?d * (1 + rounding) ^ 3" using secs_bounds(2) [OF d(1)] by simp
  from f64_upper_le [OF twice this] have gained: "f64 (as_secs_f64 ?d * 2) \<le> 2 * seconds ?d * (1 + rounding) ^ 4"
    by (simp add: eval_nat_numeral)
  have all: "0 \<le> bk_tokens b + f64 (as_secs_f64 ?d * 2)" using tok f64_nonneg [OF twice] by simp
  have "bk_tokens b \<le> bk_tokens b * (1 + rounding) ^ 4" using tok r by (simp add: mult_le_cancel_left1 one_le_power)
  with gained have "bk_tokens b + f64 (as_secs_f64 ?d * 2) \<le> ?x * (1 + rounding) ^ 4" by (simp add: distrib_right)
  from f64_upper_le [OF all this] have sum: "f64 (bk_tokens b + f64 (as_secs_f64 ?d * 2)) \<le> ?x * (1 + rounding) ^ 5"
    by (simp add: eval_nat_numeral)
  have refilled: "refilled policy now b = min (f64 (bk_tokens b + f64 (as_secs_f64 ?d * 2))) 20"
    by (simp add: refilled_def d(2))
  show "0 \<le> refilled policy now b" "refilled policy now b \<le> 20"
    using f64_nonneg [OF all] by (simp_all add: refilled)
  show "refilled policy now b \<le> bucket_level now b + 120 * rounding"
  proof (cases "?x \<le> 20")
    case True
    have "0 \<le> ?x" using tok s by simp
    with rounded_five have "?x * (1 + rounding) ^ 5 \<le> ?x * (1 + 6 * rounding)" by (rule mult_left_mono)
    also have "\<dots> \<le> ?x + 120 * rounding" using True r mult_right_mono [of ?x 20 "6 * rounding"] by (simp add: distrib_left)
    finally show ?thesis using True sum by (simp add: refilled bucket_level_def)
  next
    case False
    then show ?thesis using r by (simp add: refilled bucket_level_def)
  qed
qed

lemma spent_bounds:
  assumes "1 \<le> v" "v \<le> 20"
  shows "0 \<le> f64 (v - 1)" "f64 (v - 1) \<le> 20" "f64 (v - 1) \<le> v - 1 + 19 * rounding"
proof -
  have r: "0 \<le> rounding" "rounding \<le> 1 / 19" by (simp_all add: rounding_def)
  show "0 \<le> f64 (v - 1)" using assms by (simp add: f64_nonneg)
  have "f64 (v - 1) \<le> (v - 1) * (1 + rounding)" using assms by (intro f64_upper) simp
  also have "\<dots> \<le> v - 1 + 19 * rounding"
    using assms r(1) mult_right_mono [of "v - 1" 19 rounding] by (simp add: distrib_left)
  finally show "f64 (v - 1) \<le> v - 1 + 19 * rounding" .
  with assms r(2) show "f64 (v - 1) \<le> 20" by simp
qed

section \<open>The limiter\<close>

definition limiter_ok :: "int \<Rightarrow> limiter_state \<Rightarrow> bool" where
  "limiter_ok t st \<longleftrightarrow> distinct (map fst (ls_clients st)) \<and> length (ls_clients st) \<le> 2048 \<and>
     list_all (\<lambda>(_, b). bucket_ok t b) (ls_clients st)"

text \<open>A client that is not known has a full bucket.\<close>

definition level :: "int \<Rightarrow> (ip_addr \<times> bucket) list \<Rightarrow> ip_addr \<Rightarrow> rat" where
  "level t cs who = (case map_of cs who of None \<Rightarrow> 20 | Some b \<Rightarrow> bucket_level t b)"

lemma level_within:
  assumes "list_all (\<lambda>(_, b). bucket_ok t b) cs"
  shows "0 \<le> level t cs who" "level t cs who \<le> 20"
  using assms
  by (auto simp: level_def bucket_level_def bucket_ok_def seconds_def list_all_iff split: option.split dest!: map_of_SomeD)

lemma level_later:
  assumes "t \<le> t'"
  shows "level t' cs who \<le> level t cs who + 2 * seconds (t' - t)"
proof -
  have "seconds (t' - u) = seconds (t - u) + seconds (t' - t)" for u
    unfolding seconds_def add_divide_distrib [symmetric] of_int_add [symmetric] by simp
  then have split: "bk_tokens b + 2 * seconds (t' - bk_updated_at b) =
      bk_tokens b + 2 * seconds (t - bk_updated_at b) + 2 * seconds (t' - t)" for b
    by (metis distrib_left add.assoc)
  have pos: "0 \<le> seconds (t' - t)" using assms by (simp add: seconds_def)
  have "min 20 (x + 2 * d) \<le> min 20 x + 2 * d" if "0 \<le> d" for x d :: rat
    using that by (simp add: min_def)
  from this [OF pos] have "bucket_level t' b \<le> bucket_level t b + 2 * seconds (t' - t)" for b
    unfolding bucket_level_def split .
  with pos show ?thesis by (simp add: level_def split: option.split)
qed

text \<open>Removing an expired client does not change its level: its bucket is full again.\<close>

lemma removed_level:
  assumes "list_all (\<lambda>(_, b). bucket_ok t b) cs" "distinct (map fst cs)" "t \<le> now"
  shows "level now (remove_expired policy now cs) who = level now cs who"
proof (cases "map_of cs who")
  case None
  then have "map_of (remove_expired policy now cs) who = None"
    by (auto simp: map_of_eq_None_iff remove_expired_def)
  with None show ?thesis by (simp add: level_def)
next
  case (Some b)
  then have mem: "(who, b) \<in> set cs" by (rule map_of_SomeD)
  have dist: "distinct (map fst (remove_expired policy now cs))"
    using assms(2) by (simp add: remove_expired_def distinct_map_filter)
  show ?thesis
  proof (cases "duration_since now (bk_last_seen_at b) < 600000000000")
    case True
    with mem have "(who, b) \<in> set (remove_expired policy now cs)" by (simp add: remove_expired_def)
    with dist have "map_of (remove_expired policy now cs) who = Some b" by simp
    with Some show ?thesis by (simp add: level_def)
  next
    case False
    have ok: "bucket_ok t b" using assms(1) mem by (auto simp: list_all_iff)
    with False assms(3) have "600 \<le> seconds (now - bk_updated_at b)"
      by (simp add: bucket_ok_def duration_since_def seconds_def)
    with ok have full: "bucket_level now b = 20" by (simp add: bucket_level_def bucket_ok_def)
    have "b' = b" if "(who, b') \<in> set cs" for b' using that mem assms(2) by (meson eq_key_imp_eq_value)
    with False have "map_of (remove_expired policy now cs) who = None"
      by (auto simp: map_of_eq_None_iff remove_expired_def)
    with Some full show ?thesis by (simp add: level_def)
  qed
qed

lemma bucket_ok_later: "bucket_ok t b \<Longrightarrow> t \<le> now \<Longrightarrow> bucket_ok now b"
  by (simp add: bucket_ok_def)

lemma limiter_ok_later: "limiter_ok t st \<Longrightarrow> t \<le> now \<Longrightarrow> limiter_ok now st"
  by (auto simp: limiter_ok_def list_all_iff intro: bucket_ok_later)

lemma expired_removed_ok: "limiter_ok t st \<Longrightarrow> limiter_ok t (st\<lparr>ls_clients := remove_expired policy now (ls_clients st)\<rparr>)"
  by (auto simp: limiter_ok_def remove_expired_def list_all_iff distinct_map_filter intro: order_trans [OF length_filter_le])

lemma put_ok:
  assumes "limiter_ok t st" "t \<le> now" "0 \<le> v" "v \<le> 20" "client \<in> fst ` set (ls_clients st) \<or> length (ls_clients st) < 2048"
  shows "limiter_ok now (st\<lparr>ls_clients := AList.update client \<lparr>bk_tokens = v, bk_updated_at = now, bk_last_seen_at = now\<rparr>
    (ls_clients st)\<rparr>)"
proof -
  let ?b = "\<lparr>bk_tokens = v, bk_updated_at = now, bk_last_seen_at = now\<rparr>"
  let ?cs = "AList.update client ?b (ls_clients st)"
  from limiter_ok_later [OF assms(1,2)] have ok: "limiter_ok now st" .
  then have dist: "distinct (map fst ?cs)" by (simp add: limiter_ok_def distinct_update)
  have "length (map fst ?cs) \<le> 2048"
    using ok assms(5) by (auto simp: limiter_ok_def update_keys)
  moreover have "bucket_ok now c" if "(k, c) \<in> set ?cs" for k c
  proof -
    from that dist have "map_of ?cs k = Some c" by simp
    then have "c = ?b \<or> map_of (ls_clients st) k = Some c" by (auto simp: update_conv split: if_splits)
    then show ?thesis
      using ok assms(3,4) by (auto simp: bucket_ok_def limiter_ok_def list_all_iff dest!: map_of_SomeD)
  qed
  ultimately show ?thesis using dist by (auto simp: limiter_ok_def list_all_iff)
qed

lemma put_level:
  "0 \<le> v \<Longrightarrow> v \<le> 20 \<Longrightarrow> level now (AList.update client \<lparr>bk_tokens = v, bk_updated_at = now, bk_last_seen_at = now\<rparr> cs) who =
     (if client = who then v else level now cs who)"
  by (auto simp: level_def update_conv bucket_level_def seconds_def)

text \<open>One attempt: a grant is paid from the client's level.\<close>

definition price :: "bool \<Rightarrow> rat" where
  "price granted = (if granted then 1 else 0)"

lemma allow_at_pays:
  assumes ok: "limiter_ok t st" and now: "t \<le> now" and run: "limiter_allow_at policy client now st = (granted, st')"
  shows "limiter_ok now st' \<and>
    (if client = who then price granted else 0) + level now (ls_clients st') who \<le>
      level now (ls_clients st) who + (if client = who then slack else 0)"
proof -
  define st0 where "st0 = (if ls_next_cleanup st \<le> now
    then st\<lparr>ls_clients := remove_expired policy now (ls_clients st), ls_next_cleanup := now + lp_cleanup_interval policy\<rparr> else st)"
  have ok0: "limiter_ok t st0" using ok expired_removed_ok [OF ok, of now] by (auto simp: st0_def limiter_ok_def)
  have level0: "level now (ls_clients st0) who = level now (ls_clients st) who"
    using ok removed_level [OF _ _ now] by (simp add: st0_def limiter_ok_def)
  have s: "140 * rounding \<le> slack" "0 \<le> slack" by (simp_all add: rounding_def slack_def)
  show ?thesis
  proof (cases "map_of (ls_clients st0) client")
    case (Some b)
    then have mem: "(client, b) \<in> set (ls_clients st0)" by (rule map_of_SomeD)
    with ok0 have b: "bucket_ok t b" by (auto simp: limiter_ok_def list_all_iff)
    note r = refilled_bounds [OF b now]
    have known: "client \<in> fst ` set (ls_clients st0)" using mem by force
    have here: "level now (ls_clients st0) client = bucket_level now b" using Some by (simp add: level_def)
    show ?thesis
    proof (cases "refilled policy now b < 1")
      case True
      with run Some have "granted = False" "st' = st0\<lparr>ls_clients := AList.update client
          \<lparr>bk_tokens = refilled policy now b, bk_updated_at = now, bk_last_seen_at = now\<rparr> (ls_clients st0)\<rparr>"
        by (simp_all add: limiter_allow_at_def st0_def [symmetric] Let_def)
      with put_ok [OF ok0 now r(1,2)] known put_level [OF r(1,2)] r(3) s here level0 show ?thesis
        by (auto simp: price_def)
    next
      case False
      then have v: "1 \<le> refilled policy now b" by simp
      note spent = spent_bounds [OF v r(2)]
      from False run Some have "granted = True" "st' = st0\<lparr>ls_clients := AList.update client
          \<lparr>bk_tokens = f64 (refilled policy now b - 1), bk_updated_at = now, bk_last_seen_at = now\<rparr> (ls_clients st0)\<rparr>"
        by (simp_all add: limiter_allow_at_def st0_def [symmetric] Let_def)
      with put_ok [OF ok0 now spent(1,2)] known put_level [OF spent(1,2)] spent(3) r(3) s here level0 show ?thesis
        by (auto simp: price_def)
    qed
  next
    case None
    define st1 where "st1 = (if 2048 \<le> length (ls_clients st0)
      then st0\<lparr>ls_clients := remove_expired policy now (ls_clients st0)\<rparr> else st0)"
    have ok1: "limiter_ok t st1" using ok0 expired_removed_ok [OF ok0, of now] by (simp add: st1_def)
    have level1: "level now (ls_clients st1) who = level now (ls_clients st0) who"
      using ok0 removed_level [OF _ _ now] by (simp add: st1_def limiter_ok_def)
    have here: "level now (ls_clients st0) client = 20" using None by (simp add: level_def)
    have new: "f64 (20 - 1) = 19" using f64_of_int [of 19] by simp
    show ?thesis
    proof (cases "2048 \<le> length (ls_clients st1)")
      case True
      with run None have "granted = False" "st' = st1"
        by (auto simp: limiter_allow_at_def st0_def [symmetric] st1_def Let_def)
      with limiter_ok_later [OF ok1 now] level1 level0 s show ?thesis by (simp add: price_def)
    next
      case False
      with run None have "granted = True" "st' = st1\<lparr>ls_clients := AList.update client
          \<lparr>bk_tokens = 19, bk_updated_at = now, bk_last_seen_at = now\<rparr> (ls_clients st1)\<rparr>"
        using new by (auto simp: limiter_allow_at_def st0_def [symmetric] st1_def Let_def)
      with put_ok [OF ok1 now, of 19 client] False put_level [of 19 now client "ls_clients st1" who] here level1 level0 s
      show ?thesis by (auto simp: price_def)
    qed
  qed
qed

section \<open>Spans of time\<close>

text \<open>How many attempts are of one client, and how many of them are granted.\<close>

definition attempts_of :: "ip_addr \<Rightarrow> (ip_addr \<times> int) list \<Rightarrow> nat" where
  "attempts_of who calls = length (filter (\<lambda>(client, _). normalize_client_ip client = who) calls)"

definition grants_of :: "ip_addr \<Rightarrow> (ip_addr \<times> int) list \<Rightarrow> bool list \<Rightarrow> nat" where
  "grants_of who calls gs = length (filter (\<lambda>((client, _), granted). normalize_client_ip client = who \<and> granted) (zip calls gs))"

lemma limiter_run_append:
  "limiter_run lp (xs @ ys) st = (case limiter_run lp xs st of (gs, st1) \<Rightarrow>
     (case limiter_run lp ys st1 of (hs, st2) \<Rightarrow> (gs @ hs, st2)))"
  by (induction lp xs st rule: limiter_run.induct) (auto simp: Let_def split: prod.splits)

lemma limiter_run_length: "limiter_run lp calls st = (gs, st') \<Longrightarrow> length gs = length calls"
  by (induction lp calls st arbitrary: gs st' rule: limiter_run.induct) (auto simp: Let_def split: prod.splits)

lemma run_pays:
  assumes "limiter_ok t st" "sorted (t # map snd calls @ [t'])" "limiter_run policy calls st = (gs, st')"
  shows "limiter_ok t' st' \<and> of_nat (grants_of who calls gs) + level t' (ls_clients st') who \<le>
    level t (ls_clients st) who + 2 * seconds (t' - t) + of_nat (attempts_of who calls) * slack"
  using assms
proof (induction calls arbitrary: t st gs)
  case Nil
  then show ?case using limiter_ok_later level_later by (auto simp: grants_of_def attempts_of_def)
next
  case (Cons call calls)
  obtain client now where call: "call = (client, now)" by fastforce
  obtain granted st1 where one: "limiter_allow_at policy (normalize_client_ip client) now st = (granted, st1)" by fastforce
  obtain hs where rest: "limiter_run policy calls st1 = (hs, st')" and gs: "gs = granted # hs"
    using Cons.prems(3) one by (auto simp: call limiter_allow_def Let_def split: prod.splits)
  have times: "t \<le> now" "sorted (now # map snd calls @ [t'])" using Cons.prems(2) by (auto simp: call)
  note pays = allow_at_pays [OF Cons.prems(1) times(1) one, of who]
  from pays have ok1: "limiter_ok now st1" by simp
  note later = Cons.IH [OF ok1 times(2) rest]
  have split: "seconds (t' - t) = seconds (now - t) + seconds (t' - now)"
    unfolding seconds_def add_divide_distrib [symmetric] of_int_add [symmetric] by simp
  have "of_nat (grants_of who (call # calls) gs) =
      (if normalize_client_ip client = who then price granted else 0) + of_nat (grants_of who calls hs)"
    by (simp add: grants_of_def call gs price_def)
  moreover have "of_nat (attempts_of who (call # calls)) * slack =
      (if normalize_client_ip client = who then slack else 0) + of_nat (attempts_of who calls) * slack"
    by (simp add: attempts_of_def call distrib_right)
  ultimately show ?case
    using pays later level_later [OF times(1), of "ls_clients st" who] split by linarith
qed

lemma new_limiter_ok: "limiter_ok t (new_limiter lp t')"
  by (simp add: limiter_ok_def new_limiter_def)

text \<open>
  C26. The gateway's limit on attempts holds for every client and every span of time, whatever came before: from \<open>t1\<close>
  to \<open>t2\<close> a client (an address of version 4, or a network of 64 bits of version 6) is granted at most 20
  attempts and two more for every second of the span, up to a rounding error of one attempt in 2 to the power of 44 of
  its attempts; and the limiter never remembers more than 2048 clients, whoever connects.
\<close>

theorem attempts_are_limited:
  assumes "limiter_run default_limiter_policy (before @ during) (new_limiter default_limiter_policy t0) = (gs, st)"
    and "sorted (t0 # map snd before @ t1 # map snd during @ [t2])"
  shows "length (ls_clients st) \<le> 2048 \<and>
    of_nat (grants_of who during (drop (length before) gs)) \<le>
      (20 :: rat) + 2 * of_int (t2 - t1) / 1000000000 + of_nat (attempts_of who during) / 2 ^ 44"
proof -
  obtain fs st1 where first: "limiter_run policy before (new_limiter policy t0) = (fs, st1)" by fastforce
  with assms(1) obtain hs where second: "limiter_run policy during st1 = (hs, st)" and gs: "gs = fs @ hs"
    by (auto simp: limiter_run_append split: prod.splits)
  have times: "sorted (t0 # map snd before @ [t1])" "sorted (t1 # map snd during @ [t2])"
    using assms(2) by (auto simp: sorted_append)
  from run_pays [OF new_limiter_ok times(1) first] have ok1: "limiter_ok t1 st1" by blast
  from run_pays [OF ok1 times(2) second, of who] have ok: "limiter_ok t2 st"
    and pays: "of_nat (grants_of who during hs) + level t2 (ls_clients st) who \<le>
      level t1 (ls_clients st1) who + 2 * seconds (t2 - t1) + of_nat (attempts_of who during) * slack" by simp_all
  have "0 \<le> level t2 (ls_clients st) who" "level t1 (ls_clients st1) who \<le> 20"
    using ok ok1 by (auto simp: limiter_ok_def level_within)
  with pays have "of_nat (grants_of who during hs) \<le> 20 + 2 * seconds (t2 - t1) + of_nat (attempts_of who during) * slack"
    by linarith
  moreover have "drop (length before) gs = hs" using limiter_run_length [OF first] by (simp add: gs)
  ultimately show ?thesis using ok by (simp add: limiter_ok_def seconds_def slack_def)
qed

text \<open>A client's first attempt, in a second.\<close>

theorem attempts_are_limited_witness:
  "\<exists>gs st. limiter_run default_limiter_policy ([] @ [(V4 1, 5)]) (new_limiter default_limiter_policy 0) = (gs, st) \<and>
     (of_nat (grants_of (V4 1) [(V4 1, 5)] gs) :: rat) \<le> 22 + 1 / 2 ^ 44"
proof -
  obtain gs st where run: "limiter_run default_limiter_policy ([] @ [(V4 1, 5)]) (new_limiter default_limiter_policy 0) = (gs, st)"
    by fastforce
  from attempts_are_limited [OF run, of 0 1000000000 "V4 1"]
  have "(of_nat (grants_of (V4 1) [(V4 1, 5)] gs) :: rat) \<le> 22 + 1 / 2 ^ 44"
    by (simp add: attempts_of_def normalize_client_ip_def)
  with run show ?thesis by blast
qed

end
