(* ===== verification/GatewayExamples.thy ===== *)
theory GatewayExamples
  imports GatewayAddressProperties GatewayLimiterProperties
begin

text \<open>
  The SSH gateway on concrete input: a private network that is allowed by name, reached by a name that resolves
  into it, and the same address refused when only everything is allowed.
\<close>

definition private_net :: ip_net where
  "private_net = \<lparr>net_contains = same_leading 8 (V4 167772160), net_prefix_len = 8\<rparr>"

definition any_net :: ip_net where
  "any_net = \<lparr>net_contains = same_leading 0 (V4 0), net_prefix_len = 0\<rparr>"

definition gateway_sample :: "ip_net \<Rightarrow> gateway_config" where
  "gateway_sample n = \<lparr>gc_allowed_cidrs = [n], gc_local_denied_cidrs = [], gc_allowed_ports = [\<lparr>pr_start = 22, pr_end = 22\<rparr>],
     gc_allowed_origins = [''https://ctf.example''], gc_identity_directory = ''/ids'', gc_connect_timeout = 10,
     gc_idle_timeout = 600, gc_maximum_session = 1800, gc_heartbeat_interval = 15,
     gc_maximum_sessions = 32\<rparr>"

definition private_host :: ip_addr where
  "private_host = V4 167904004"

lemma private_octets: "octet 0 167904004 = 10" "octet 1 167904004 = 2"
  by (simp_all add: octet_def)

lemma private_allowed: "address_allowed_with_local (gateway_sample private_net) private_host []"
  by (simp add: address_allowed_with_local_def canonical_address_def private_host_def intrinsically_unsafe_def private_octets
      gateway_sample_def private_net_def sensitive_minimum_prefix_def)

lemma private_needs_its_network: "\<not> address_allowed_with_local (gateway_sample any_net) private_host []"
  by (simp add: address_allowed_with_local_def canonical_address_def private_host_def private_octets
      gateway_sample_def any_net_def sensitive_minimum_prefix_def)

lemma sample_destination:
  "resolve_destination (gateway_sample private_net) (\<lambda>_ _. Inr [private_host]) (Inr []) ''ctf'' 22 = Inr (private_host, 22)"
proof -
  have "safe_hostname ''ctf''" by code_simp
  then show ?thesis using private_allowed
    by (simp add: resolve_destination_def select_resolved_address_def port_allowed_def port_range_contains_def
        gateway_sample_def)
qed

theorem destination_is_safe_witness:
  "sensitive_minimum_prefix private_host = Some 8 \<and> sensitive_minimum_prefix (V4 184549375) = Some 8"
proof -
  have "list_all cidr (gc_allowed_cidrs (gateway_sample private_net))"
    by (auto simp: gateway_sample_def private_net_def cidr_def)
  from destination_is_safe [OF sample_destination this] obtain answers :: "ip_addr list" where
    "Inr [private_host] = (Inr answers :: ip_addr list result)" and all: "\<forall>x \<in> set answers. let a = canonical_address x in
       \<exists>n \<in> set (gc_allowed_cidrs (gateway_sample private_net)). net_contains n a \<and>
          (\<forall>m b. sensitive_minimum_prefix a = Some m \<and> net_contains n b \<longrightarrow> sensitive_minimum_prefix b = Some m)"
    unfolding Let_def by blast
  then have "answers = [private_host]" by (simp only: sum.inject)
  then have "private_host \<in> set answers" by simp
  with all have host: "let a = canonical_address private_host in
       \<exists>n \<in> set (gc_allowed_cidrs (gateway_sample private_net)). net_contains n a \<and>
          (\<forall>m b. sensitive_minimum_prefix a = Some m \<and> net_contains n b \<longrightarrow> sensitive_minimum_prefix b = Some m)" ..
  have same: "canonical_address private_host = private_host" by (simp add: canonical_address_def private_host_def)
  have nets: "set (gc_allowed_cidrs (gateway_sample private_net)) = {private_net}" by (simp add: gateway_sample_def)
  have eight: "sensitive_minimum_prefix private_host = Some 8"
    by (simp add: private_host_def sensitive_minimum_prefix_def private_octets)
  have last: "net_contains private_net (V4 184549375)" by (simp add: private_net_def)
  from host show ?thesis unfolding Let_def same nets using eight last by blast
qed

end
