(* ===== verification/Spec2Isabelle.thy ===== *)
theory Spec2Isabelle
  imports ObjectProperties JournalProperties ControlPlaneExamples StoragePlaneExamples ModeChangeExamples ScoreboardExamples
    GatewayExamples
begin

text \<open>
  A verification development for CTFd++, a platform for capture-the-flag competitions, as a shallow
  embedding of its Rust services in HOL.

  \<^bold>\<open>The program.\<close> The API service (\<open>src/services/api\<close>) answers the portal's requests over PostgreSQL:
  accounts, challenges, submissions, scoring, objects and the runtime control plane. The controller
  (\<open>src/services/controller\<close>) works off the durable queues the API fills: \<open>runtime_commands\<close>, executed
  over SSH on the servers that run the participants' private instances, and \<open>object_operations\<close>,
  executed against an S3-like object store. The two share nothing but the tables. The SSH gateway
  (\<open>src/services/ssh-gateway\<close>) lets participants into their instances.

  \<^bold>\<open>The theories and the code they model.\<close>
  \<^item> \<open>Prelude\<close>: strings as UTF-8 bytes, JSON values, \<open>Result\<close>, tables as lists of rows, the world
    of a service: tables, commits of others between its statements, a clock that does not go back, and
    a list of outcomes that decides which statements fail. \<open>ClaimQueue\<close>: the locale of a queue whose rows
    are claimed and settled under the claim; both queues of the controller interpret it.
  \<^item> \<open>ControllerStatus\<close>: \<open>state.rs\<close> and the probes of \<open>main.rs\<close> in \<open>services/controller/src\<close>.
  \<^item> \<open>ObjectQueue\<close> (rows and statements), \<open>ObjectMaintenance\<close> (handlers, cycle, session):
    \<open>storage.rs\<close>. \<open>ObjectInvariants\<close>, \<open>ObjectProperties\<close>: its invariant and guarantees.
  \<^item> \<open>Remote\<close>: \<open>remote.rs\<close>. \<open>Journal\<close>, \<open>JournalProperties\<close>: \<open>journal.rs\<close>.
  \<^item> \<open>RuntimeTables\<close> (rows and statements), \<open>RuntimeWorker\<close> (transactions and handlers),
    \<open>RuntimeSession\<close> (command loop, session, reconnection): \<open>worker.rs\<close> and \<open>configuration_lock.rs\<close>.
    \<open>RuntimeInvariants\<close>, \<open>RuntimeProperties\<close>, \<open>RuntimeSafety\<close>, \<open>RuntimeConfirmation\<close> and
    \<open>RuntimeLiveness\<close> prove what they guarantee; \<open>RuntimeExamples\<close> evaluates it.
  \<^item> \<open>ApiBase\<close>: \<open>error.rs\<close>, the tables and \<open>auth.rs\<close> in \<open>services/api/src\<close>, and the gates of
    \<open>routes/challenges.rs\<close>. \<open>FlagPolicy\<close>, \<open>FlagProperties\<close>, \<open>FlagAssignments\<close>:
    \<open>routes/flag_policy.rs\<close>. \<open>Scoring\<close>: the value of a dynamic challenge, with its \<open>f64\<close> arithmetic.
    \<open>Attempts\<close>, \<open>AttemptProperties\<close>: \<open>rate_limit.rs\<close> and \<open>attempt\<close> of \<open>routes/challenges.rs\<close>.
    \<open>AdminSubmissions\<close>: the operations on submissions in \<open>routes/administration.rs\<close>.
    \<open>PortalExamples\<close> evaluates them.
  \<^item> \<open>RuntimeApi\<close>, \<open>RuntimeAdmin\<close>: \<open>routes/runtimes.rs\<close>. \<open>ControlPlane\<close>, \<open>ControlPlaneRequests\<close>,
    \<open>ControlPlaneProperties\<close>: the API and the controller on one set of tables; \<open>ControlPlaneExamples\<close>.
  \<^item> \<open>Floats\<close>: rounding to \<open>f64\<close> and reading numbers. \<open>ObjectStorage\<close>: \<open>object_storage.rs\<close>. \<open>CategoryIcons\<close>
    (the checks on PNG and SVG files), \<open>ObjectAccess\<close>, \<open>ObjectRequests\<close>, \<open>ObjectLifecycle\<close>, \<open>ObjectDownloads\<close> (who may do
    what, and the handlers): \<open>routes/objects.rs\<close>. \<open>CategoryIconProperties\<close>, \<open>CategoryIconDocuments\<close>: what an
    accepted icon is. \<open>ObjectPlane\<close> (the invariant of the tables that the API and the controller
    share), \<open>ObjectPlaneRequests\<close>, \<open>ObjectPlaneCompletion\<close>, \<open>ObjectPlaneHistory\<close> (that every request of the object
    API keeps it), \<open>StoragePlaneProperties\<close>, \<open>StoragePlaneExamples\<close>.
  \<^item> \<open>Contest\<close>: the other tables of the competition. \<open>UserModeTransition\<close>, \<open>ObjectRemoval\<close>, \<open>ModeChange\<close>,
    \<open>ModeChangeProperties\<close>, \<open>ModeChangeExamples\<close>: \<open>routes/user_mode_transition.rs\<close>, with the trigger of
    \<open>db/init/005-finalize-install.sql\<close> that removes the objects of a deleted team.
  \<^item> \<open>Scoreboard\<close>, \<open>ScoreboardProperties\<close>, \<open>ScoreboardExamples\<close>: \<open>routes/scoreboard.rs\<close>.
  \<^item> \<open>GatewayAddress\<close>, \<open>GatewayAddressProperties\<close>: \<open>destination.rs\<close> and the ports of \<open>config.rs\<close> in
    \<open>services/ssh-gateway/src\<close>. \<open>GatewayLimiter\<close>, \<open>GatewayLimiterProperties\<close>: its \<open>rate_limit.rs\<close>. \<open>GatewayExamples\<close>.

  \<^bold>\<open>How the code is read.\<close> A handler is a function; its early returns and \<open>?\<close> are branches of a sum
  (\<open>Inl\<close> the error). A SQL statement is a function on the tables with its \<open>WHERE\<close> clause and
  assignments as written. A transaction of the controller is a sequence of statements of which any may fail;
  failing rolls the tables back, effects outside them stay. Other connections commit before a
  transaction's first statement and before each statement outside a transaction; the rows a transaction works on
  are locked. A transaction of the API is one step on the tables, because it locks what it changes; a failure leaves
  them as they were, and only the mode change has the commit whose answer is lost. Integers with a width that
  matters are words or have their bounds written out; \<open>f64\<close> is sign, mantissa and exponent with
  rounding to nearest even. Crates, the SSH client, the object store and serde's derived readers are
  parameters, with what is relied on as hypotheses.

  \<^bold>\<open>What is shown.\<close>
  \<^item> Invariants: under every interleaving of the runtime API's requests, or the object API's, with the
    controller's sessions, with every failure of a statement, the tables of the control plane and of
    the object queue stay consistent; so do those of the scoreboard under attempts and corrections; the mode
    change keeps the invariant of the objects.
  \<^item> Safety: no workload is declared gone without the helper's confirmation; every remote call follows a
    durable intent; a worker that lost its claim changes nothing; the final copy of an object is deleted
    behind the staging gate only; flags never reach the journal; a lockout is final; downloads need their
    permission; accepted icons are inert; a mode change needs its preview and signs participants out; the gateway
    reaches allowed addresses only.
  \<^item> Refinement and equivalence: the journal file implements a map; the comparison with the flags
    computes the verdict of its logic; the rendering of a flag agrees with its description by positions;
    what the API accepts the controller's executor accepts.
  \<^item> Liveness and bounds: the sweeps leave nothing overdue without a queued command; the
    allocation of personal flags finds a fresh mask; retries, capacities, quotas, deadlines, values and
    attempts at the gateway are bounded. A confirmed preview is carried out; an icon in use is served.

  \<^bold>\<open>Bounds.\<close> Loops over rows or bytes are structural. Loops that go on as long as the service does take the list of
  what their surroundings decide (the shutdown flag, the end of each wait, the outcome of each connection),
  so a finite list is a finite run, and the theorems hold for each. Loops with a limit in
  the code (operations per cycle, candidate masks) have that limit.

  \<^bold>\<open>Not modelled.\<close> HTTP routing and the (de)serialisation of requests; TLS, sockets and
  processes; SQL triggers other than those named in the theories; logging. Of the API: the editor and the lists of
  challenges, the administration of content, settings, accounts, teams, sessions and tokens of the browser, the
  SSH hosts, pages, mail, exports, statistics, the first start. They are statements on single rows and the
  conversion of JSON; deleting a category, a page, a challenge or an account among them, so the histories of requests
  above do not contain those. Of the SSH gateway: the terminal, the identities and the \<open>ssh\<close> process. The
  frontends and the helper on the remote servers.
\<close>

end
